(* ===== verification/Prelude.thy ===== *)
theory Prelude
  imports Main
begin

text \<open>
  Shared vocabulary of the development.

  \<^item> \<open>Error\<close> and \<open>'a res\<close> are the code's \<open>Error\<close> and \<open>Result<T>\<close>
    (crates/ribosome-core/src/error.rs): a fallible pure computation is a value of
    \<open>Error + 'a\<close>, \<open>Inl\<close> for \<open>Err\<close> and \<open>Inr\<close> for \<open>Ok\<close>.
  \<^item> \<open>and_then\<close> is the \<open>?\<close> operator on such values.
  \<^item> A stateful operation is a function \<open>'s \<Rightarrow> 'a res \<times> 's\<close> (\<open>('s, 'a) op\<close>):
    an operation that fails still returns the state it left behind, because what it wrote
    before the error is only undone by the enclosing database transaction.
  \<^item> Table operations on lists of rows: \<open>update_where\<close>, \<open>delete_where\<close>, \<open>count_where\<close>,
    \<open>sum_where\<close>, the relational vocabulary of the SQL statements.
\<close>

named_theorems op_simps \<open>inversion of the operations' successful runs\<close>
named_theorems keeps_intros \<open>composition of state predicates over operations\<close>

section \<open>Errors\<close>

record Error =
  e_code :: int
  e_message :: string

type_synonym 'a res = "Error + 'a"

definition invalid :: "string \<Rightarrow> Error" where
  "invalid m = \<lparr>e_code = -32602, e_message = m\<rparr>"

definition denied :: "string \<Rightarrow> Error" where
  "denied m = \<lparr>e_code = -32001, e_message = m\<rparr>"

definition conflict :: "string \<Rightarrow> Error" where
  "conflict m = \<lparr>e_code = -32002, e_message = m\<rparr>"

definition missing :: "string \<Rightarrow> Error" where
  "missing m = \<lparr>e_code = -32004, e_message = m\<rparr>"

definition exhausted :: "string \<Rightarrow> Error" where
  "exhausted m = \<lparr>e_code = -32005, e_message = m\<rparr>"

definition internal :: "string \<Rightarrow> Error" where
  "internal m = \<lparr>e_code = -32603, e_message = m\<rparr>"

lemmas error_defs = invalid_def denied_def conflict_def missing_def exhausted_def internal_def

section \<open>Fallible pure computations\<close>

definition and_then :: "'a res \<Rightarrow> ('a \<Rightarrow> 'b res) \<Rightarrow> 'b res" where
  "and_then r f = (case r of Inl e \<Rightarrow> Inl e | Inr x \<Rightarrow> f x)"

definition ok_or :: "'a option \<Rightarrow> Error \<Rightarrow> 'a res" where
  "ok_or x e = (case x of None \<Rightarrow> Inl e | Some y \<Rightarrow> Inr y)"

definition guard :: "bool \<Rightarrow> Error \<Rightarrow> unit res" where
  "guard b e = (if b then Inr () else Inl e)"

fun map_res :: "('a \<Rightarrow> 'b res) \<Rightarrow> 'a list \<Rightarrow> 'b list res" where
  "map_res f [] = Inr []"
| "map_res f (x # xs) = and_then (f x) (\<lambda>y. and_then (map_res f xs) (\<lambda>ys. Inr (y # ys)))"

fun for_res :: "('a \<Rightarrow> unit res) \<Rightarrow> 'a list \<Rightarrow> unit res" where
  "for_res f [] = Inr ()"
| "for_res f (x # xs) = and_then (f x) (\<lambda>_. for_res f xs)"

fun any_res :: "('a \<Rightarrow> bool res) \<Rightarrow> 'a list \<Rightarrow> bool res" where
  "any_res f [] = Inr False"
| "any_res f (x # xs) = and_then (f x) (\<lambda>b. if b then Inr True else any_res f xs)"

lemma and_then_simps [simp]:
  "and_then (Inl e) f = Inl e"
  "and_then (Inr x) f = f x"
  by (simp_all add: and_then_def)

lemma and_then_Inr_iff [simp]:
  "and_then r f = Inr y \<longleftrightarrow> (\<exists>x. r = Inr x \<and> f x = Inr y)"
  by (cases r) auto

lemma and_then_Inr_iff' [simp]:
  "Inr y = and_then r f \<longleftrightarrow> (\<exists>x. r = Inr x \<and> f x = Inr y)"
  by (cases r) auto

lemma and_then_assoc: "and_then (and_then r f) g = and_then r (\<lambda>x. and_then (f x) g)"
  by (cases r) auto

lemma ok_or_simps [simp]:
  "ok_or None e = Inl e"
  "ok_or (Some x) e = Inr x"
  by (simp_all add: ok_or_def)

lemma ok_or_Inr_iff [simp]: "ok_or x e = Inr y \<longleftrightarrow> x = Some y"
  by (cases x) auto

lemma guard_Inr_iff [simp]: "guard b e = Inr u \<longleftrightarrow> b"
  by (simp add: guard_def)

lemma guard_simps [simp]: "guard True e = Inr ()" "guard False e = Inl e"
  by (simp_all add: guard_def)

lemma if_res_iff [simp]:
  "(if b then Inr x else Inl e) = Inr y \<longleftrightarrow> b \<and> x = y"
  "Inr y = (if b then Inr x else Inl e) \<longleftrightarrow> b \<and> y = x"
  "(if b then Inr x else Inl e) = Inl f \<longleftrightarrow> \<not> b \<and> e = f"
  "Inl f = (if b then Inr x else Inl e) \<longleftrightarrow> \<not> b \<and> f = e"
  by auto

lemma map_res_Inr_length: "map_res f xs = Inr ys \<Longrightarrow> length ys = length xs"
  by (induction xs arbitrary: ys) auto

lemma map_res_Inr_nth: "map_res f xs = Inr ys \<Longrightarrow> list_all2 (\<lambda>x y. f x = Inr y) xs ys"
  by (induction xs arbitrary: ys) auto

lemma for_res_Inr_iff [simp]: "for_res f xs = Inr u \<longleftrightarrow> (\<forall>x \<in> set xs. f x = Inr ())"
  by (induction xs) auto

section \<open>Stateful operations\<close>

type_synonym ('s, 'a) op = "'s \<Rightarrow> 'a res \<times> 's"

definition ret :: "'a \<Rightarrow> ('s, 'a) op" where
  "ret x s = (Inr x, s)"

definition throw :: "Error \<Rightarrow> ('s, 'a) op" where
  "throw e s = (Inl e, s)"

definition bind :: "('s, 'a) op \<Rightarrow> ('a \<Rightarrow> ('s, 'b) op) \<Rightarrow> ('s, 'b) op" where
  "bind m f s = (case m s of (Inl e, t) \<Rightarrow> (Inl e, t) | (Inr x, t) \<Rightarrow> f x t)"

definition seq :: "('s, 'a) op \<Rightarrow> ('s, 'b) op \<Rightarrow> ('s, 'b) op" where
  "seq m n = bind m (\<lambda>_. n)"

definition ask :: "('s \<Rightarrow> 'a) \<Rightarrow> ('s, 'a) op" where
  "ask f s = (Inr (f s), s)"

definition lift :: "'a res \<Rightarrow> ('s, 'a) op" where
  "lift r s = (r, s)"

definition need :: "bool \<Rightarrow> Error \<Rightarrow> ('s, unit) op" where
  "need b e s = (if b then (Inr (), s) else (Inl e, s))"

definition expect :: "'a option \<Rightarrow> Error \<Rightarrow> ('s, 'a) op" where
  "expect x e s = (ok_or x e, s)"

definition modify :: "('s \<Rightarrow> 's) \<Rightarrow> ('s, unit) op" where
  "modify f s = (Inr (), f s)"

definition handle :: "('s, 'a) op \<Rightarrow> (Error \<Rightarrow> ('s, 'a) op) \<Rightarrow> ('s, 'a) op" where
  "handle m h s = (case m s of (Inl e, t) \<Rightarrow> h e t | (Inr x, t) \<Rightarrow> (Inr x, t))"

text \<open>The \<open>Result\<close> of an operation as a value, where the code inspects it instead of returning.\<close>

definition attempt :: "('s, 'a) op \<Rightarrow> ('s, 'a res) op" where
  "attempt m s = (case m s of (r, t) \<Rightarrow> (Inr r, t))"

definition succeeds :: "('s, 'a) op \<Rightarrow> ('s, bool) op" where
  "succeeds m s = (case m s of (r, t) \<Rightarrow> (Inr (\<not> isl r), t))"

definition skip :: "('s, unit) op" where
  "skip = ret ()"

fun for_each :: "'a list \<Rightarrow> ('a \<Rightarrow> ('s, unit) op) \<Rightarrow> ('s, unit) op" where
  "for_each [] f = ret ()"
| "for_each (x # xs) f = seq (f x) (for_each xs f)"

fun fold_op :: "('b \<Rightarrow> 'a \<Rightarrow> ('s, 'b) op) \<Rightarrow> 'b \<Rightarrow> 'a list \<Rightarrow> ('s, 'b) op" where
  "fold_op f acc [] = ret acc"
| "fold_op f acc (x # xs) = bind (f acc x) (\<lambda>acc'. fold_op f acc' xs)"

fun map_op :: "('a \<Rightarrow> ('s, 'b) op) \<Rightarrow> 'a list \<Rightarrow> ('s, 'b list) op" where
  "map_op f [] = ret []"
| "map_op f (x # xs) = bind (f x) (\<lambda>y. bind (map_op f xs) (\<lambda>ys. ret (y # ys)))"

text \<open>\<open>Iterator::all\<close> stops at the first failure.\<close>

fun all_op :: "('a \<Rightarrow> ('s, bool) op) \<Rightarrow> 'a list \<Rightarrow> ('s, bool) op" where
  "all_op f [] = ret True"
| "all_op f (x # xs) = bind (f x) (\<lambda>ok. if ok then all_op f xs else ret False)"

lemma op_runs [simp]:
  "ret x s = (Inr x, s)"
  "throw e s = (Inl e, s)"
  "ask f s = (Inr (f s), s)"
  "lift r s = (r, s)"
  "modify g s = (Inr (), g s)"
  "expect v e s = (ok_or v e, s)"
  "skip s = (Inr (), s)"
  by (simp_all add: ret_def throw_def ask_def lift_def modify_def expect_def skip_def)

lemma need_runs [simp]:
  "need True e s = (Inr (), s)"
  "need False e s = (Inl e, s)"
  by (simp_all add: need_def)

lemma need_eq [simp]: "need b e s = (r, t) \<longleftrightarrow> t = s \<and> r = (if b then Inr () else Inl e)"
  by (auto simp: need_def)

lemma bind_runs:
  "m s = (Inr x, t) \<Longrightarrow> bind m f s = f x t"
  "m s = (Inl e, t) \<Longrightarrow> bind m f s = (Inl e, t)"
  by (simp_all add: bind_def)

lemma bind_pure [simp]:
  "bind (ret x) f = f x"
  "bind (throw e) f = throw e"
  "bind (ask g) f s = f (g s) s"
  "bind (modify h) k s = k () (h s)"
  by (auto simp: bind_def)

lemma bind_lift [simp]:
  "bind (lift (Inr x)) f = f x"
  "bind (lift (Inl e)) f = throw e"
  by (auto simp: bind_def)

lemma seq_pure [simp]:
  "seq (modify h) k s = k (h s)"
  "seq skip k = k"
  by (auto simp: seq_def bind_def skip_def)

text \<open>Inversion of a successful run: the shape every functional proof starts from.\<close>

lemma bind_Inr_iff [op_simps]:
  "bind m f s = (Inr y, u) \<longleftrightarrow> (\<exists>x t. m s = (Inr x, t) \<and> f x t = (Inr y, u))"
  by (auto simp: bind_def split: prod.splits sum.splits)

lemma bind_Inl_iff:
  "bind m f s = (Inl e, u) \<longleftrightarrow>
     m s = (Inl e, u) \<or> (\<exists>x t. m s = (Inr x, t) \<and> f x t = (Inl e, u))"
  by (auto simp: bind_def split: prod.splits sum.splits)

lemma seq_Inr_iff [op_simps]:
  "seq m n s = (Inr y, u) \<longleftrightarrow> (\<exists>x t. m s = (Inr x, t) \<and> n t = (Inr y, u))"
  by (auto simp: seq_def bind_Inr_iff)

lemma seq_Inl_iff:
  "seq m n s = (Inl e, u) \<longleftrightarrow>
     m s = (Inl e, u) \<or> (\<exists>x t. m s = (Inr x, t) \<and> n t = (Inl e, u))"
  by (auto simp: seq_def bind_Inl_iff)

subsection \<open>State predicates kept by an operation\<close>

text \<open>
  \<open>keeps R m\<close>: on success and on failure alike the state left behind is related by \<open>R\<close> to
  the state found. \<open>R\<close> reflexive and transitive makes it compositional, so an operation
  keeps \<open>R\<close> as soon as its primitive steps do.
\<close>

definition keeps :: "('s \<Rightarrow> 's \<Rightarrow> bool) \<Rightarrow> ('s, 'a) op \<Rightarrow> bool" where
  "keeps R m \<longleftrightarrow> (\<forall>s. R s (snd (m s)))"

lemma keepsI: "(\<And>s r t. m s = (r, t) \<Longrightarrow> R s t) \<Longrightarrow> keeps R m"
  unfolding keeps_def by (metis prod.collapse)

lemma keepsD: "keeps R m \<Longrightarrow> m s = (r, t) \<Longrightarrow> R s t"
  unfolding keeps_def by (metis snd_conv)

definition preserves :: "('s \<Rightarrow> bool) \<Rightarrow> ('s, 'a) op \<Rightarrow> bool" where
  "preserves P m \<longleftrightarrow> (\<forall>s. P s \<longrightarrow> P (snd (m s)))"

lemma preservesI: "(\<And>s r t. P s \<Longrightarrow> m s = (r, t) \<Longrightarrow> P t) \<Longrightarrow> preserves P m"
  unfolding preserves_def by (metis prod.collapse)

lemma preservesD: "preserves P m \<Longrightarrow> P s \<Longrightarrow> m s = (r, t) \<Longrightarrow> P t"
  unfolding preserves_def by (metis snd_conv)

lemma preserves_pure [keeps_intros]:
  "preserves P (ret x)" "preserves P (throw e)" "preserves P (ask f)" "preserves P (lift r)"
  "preserves P (need b e)" "preserves P (expect v e)" "preserves P skip"
  by (auto simp: preserves_def need_def)

lemma preserves_bind [keeps_intros]:
  "preserves P m \<Longrightarrow> (\<And>x. preserves P (f x)) \<Longrightarrow> preserves P (bind m f)"
  by (force simp: preserves_def bind_def split: prod.splits sum.splits)

lemma preserves_seq [keeps_intros]:
  "preserves P m \<Longrightarrow> preserves P n \<Longrightarrow> preserves P (seq m n)"
  unfolding seq_def by (rule preserves_bind)

lemma preserves_handle [keeps_intros]:
  "preserves P m \<Longrightarrow> (\<And>e. preserves P (h e)) \<Longrightarrow> preserves P (handle m h)"
  by (force simp: preserves_def handle_def split: prod.splits sum.splits)

lemma preserves_attempt [keeps_intros]:
  "preserves P m \<Longrightarrow> preserves P (attempt m)" "preserves P m \<Longrightarrow> preserves P (succeeds m)"
  by (force simp: preserves_def attempt_def succeeds_def split: prod.splits)+

lemma preserves_if [keeps_intros]:
  "(b \<Longrightarrow> preserves P m) \<Longrightarrow> (\<not> b \<Longrightarrow> preserves P n) \<Longrightarrow> preserves P (if b then m else n)"
  by simp

lemma preserves_option [keeps_intros]:
  "(v = None \<Longrightarrow> preserves P m) \<Longrightarrow> (\<And>x. v = Some x \<Longrightarrow> preserves P (f x)) \<Longrightarrow>
     preserves P (case v of None \<Rightarrow> m | Some x \<Rightarrow> f x)"
  by (cases v) auto

lemma preserves_for_each [keeps_intros]:
  "(\<And>x. preserves P (f x)) \<Longrightarrow> preserves P (for_each xs f)"
  by (induction xs) (auto intro: keeps_intros)

lemma preserves_fold_op [keeps_intros]:
  "(\<And>acc x. preserves P (f acc x)) \<Longrightarrow> preserves P (fold_op f acc xs)"
  by (induction xs arbitrary: acc) (auto intro: keeps_intros)

lemma preserves_all_op [keeps_intros]:
  "(\<And>x. preserves P (f x)) \<Longrightarrow> preserves P (all_op f xs)"
  by (induction xs) (auto intro: keeps_intros)

lemma keeps_pure [keeps_intros]:
  assumes "\<And>s. R s s"
  shows "keeps R (ret x)" "keeps R (throw e)" "keeps R (ask f)" "keeps R (lift r)"
    "keeps R (need b e)" "keeps R (expect v e)" "keeps R skip"
  using assms by (auto simp: keeps_def need_def)

lemma keeps_bind:
  assumes "\<And>s t u. R s t \<Longrightarrow> R t u \<Longrightarrow> R s u" "keeps R m" "\<And>x. keeps R (f x)"
  shows "keeps R (bind m f)"
  using assms by (auto simp: keeps_def bind_def split: prod.splits sum.splits) (metis snd_conv)+

lemma for_res_all: "for_res f xs = Inr u \<Longrightarrow> x \<in> set xs \<Longrightarrow> f x = Inr ()"
  by simp

section \<open>Tables\<close>

definition update_where :: "('r \<Rightarrow> bool) \<Rightarrow> ('r \<Rightarrow> 'r) \<Rightarrow> 'r list \<Rightarrow> 'r list" where
  "update_where P f rows = map (\<lambda>r. if P r then f r else r) rows"

definition delete_where :: "('r \<Rightarrow> bool) \<Rightarrow> 'r list \<Rightarrow> 'r list" where
  "delete_where P rows = filter (\<lambda>r. \<not> P r) rows"

definition count_where :: "('r \<Rightarrow> bool) \<Rightarrow> 'r list \<Rightarrow> nat" where
  "count_where P rows = length (filter P rows)"

definition sum_where :: "('r \<Rightarrow> bool) \<Rightarrow> ('r \<Rightarrow> nat) \<Rightarrow> 'r list \<Rightarrow> nat" where
  "sum_where P f rows = sum_list (map f (filter P rows))"

definition exists_where :: "('r \<Rightarrow> bool) \<Rightarrow> 'r list \<Rightarrow> bool" where
  "exists_where P rows \<longleftrightarrow> list_ex P rows"

lemma update_where_simps [simp]:
  "update_where P f [] = []"
  "update_where P f (r # rs) = (if P r then f r else r) # update_where P f rs"
  "update_where P f (rs @ qs) = update_where P f rs @ update_where P f qs"
  "length (update_where P f rs) = length rs"
  by (simp_all add: update_where_def)

lemma map_update_where:
  "(\<And>r. P r \<Longrightarrow> g (f r) = g r) \<Longrightarrow> map g (update_where P f rows) = map g rows"
  by (induction rows) auto

lemma set_update_where:
  "set (update_where P f rows) = f ` {r \<in> set rows. P r} \<union> {r \<in> set rows. \<not> P r}"
  by (induction rows) auto

lemma count_where_simps [simp]:
  "count_where P [] = 0"
  "count_where P (r # rs) = (if P r then Suc (count_where P rs) else count_where P rs)"
  "count_where P (rs @ qs) = count_where P rs + count_where P qs"
  by (simp_all add: count_where_def)

lemma sum_where_simps [simp]:
  "sum_where P f [] = 0"
  "sum_where P f (r # rs) = (if P r then f r + sum_where P f rs else sum_where P f rs)"
  "sum_where P f (rs @ qs) = sum_where P f rs + sum_where P f qs"
  by (simp_all add: sum_where_def)

lemma sum_where_cong:
  "(\<And>r. r \<in> set rows \<Longrightarrow> P r = Q r) \<Longrightarrow> (\<And>r. r \<in> set rows \<Longrightarrow> Q r \<Longrightarrow> f r = g r) \<Longrightarrow>
     sum_where P f rows = sum_where Q g rows"
  by (induction rows) auto

lemma count_where_cong:
  "(\<And>r. r \<in> set rows \<Longrightarrow> P r = Q r) \<Longrightarrow> count_where P rows = count_where Q rows"
  by (induction rows) auto

lemma exists_where_iff [simp]: "exists_where P rows \<longleftrightarrow> (\<exists>r \<in> set rows. P r)"
  by (simp add: exists_where_def list_ex_iff)

lemma find_Some_iff2:
  "List.find P rows = Some r \<Longrightarrow> r \<in> set rows \<and> P r"
  by (induction rows) (auto split: if_splits)

lemma find_append:
  "List.find P (xs @ ys) = (case List.find P xs of None \<Rightarrow> List.find P ys | Some x \<Rightarrow> Some x)"
  by (induction xs) auto

lemma find_None_iff2: "List.find P rows = None \<longleftrightarrow> (\<forall>r \<in> set rows. \<not> P r)"
  by (induction rows) auto

text \<open>A primary key makes a row the only one its key finds.\<close>

lemma find_key:
  "distinct (map k rows) \<Longrightarrow> r \<in> set rows \<Longrightarrow> List.find (\<lambda>q. k q = k r) rows = Some r"
  by (induction rows) (auto simp: rev_image_eqI)

lemma find_update_where:
  "(\<And>r. P r \<Longrightarrow> Q (f r) = Q r) \<Longrightarrow>
     List.find Q (update_where P f rows) =
       map_option (\<lambda>r. if P r then f r else r) (List.find Q rows)"
  by (induction rows) auto

lemma bex_update_where [simp]:
  "(\<And>r. P r \<Longrightarrow> Q (f r) = Q r) \<Longrightarrow>
     (\<exists>r \<in> set (update_where P f rows). Q r) = (\<exists>r \<in> set rows. Q r)"
  by (induction rows) auto

lemma count_update_where [simp]:
  "(\<And>r. P r \<Longrightarrow> Q (f r) = Q r) \<Longrightarrow> count_where Q (update_where P f rows) = count_where Q rows"
  by (induction rows) auto

lemma sum_update_where:
  "(\<And>r. P r \<Longrightarrow> Q (f r) = Q r \<and> g (f r) = g r) \<Longrightarrow>
     sum_where Q g (update_where P f rows) = sum_where Q g rows"
  by (induction rows) auto

lemma count_update_le:
  "(\<And>r. r \<in> set rows \<Longrightarrow> P r \<Longrightarrow> Q (f r) \<Longrightarrow> Q r) \<Longrightarrow>
     count_where Q (update_where P f rows) \<le> count_where Q rows"
  by (induction rows) (auto simp: le_SucI)

lemma sum_update_le:
  "(\<And>r. r \<in> set rows \<Longrightarrow> P r \<Longrightarrow> Q (f r) \<Longrightarrow> Q r \<and> g (f r) \<le> g r) \<Longrightarrow>
     sum_where Q g (update_where P f rows) \<le> sum_where Q g rows"
  by (induction rows) (fastforce intro: add_mono trans_le_add2)+

lemma distinct_key_eq:
  "distinct (map k rows) \<Longrightarrow> r \<in> set rows \<Longrightarrow> q \<in> set rows \<Longrightarrow> k r = k q \<Longrightarrow> r = q"
  by (induction rows) (auto simp: rev_image_eqI)

text \<open>
  \<open>advances S old new\<close>: rows are only ever appended, and each of the old ones has moved on by
  \<open>S\<close>, in place.
\<close>

definition advances :: "('r \<Rightarrow> 'r \<Rightarrow> bool) \<Rightarrow> 'r list \<Rightarrow> 'r list \<Rightarrow> bool" where
  "advances S old new \<longleftrightarrow> length old \<le> length new \<and> list_all2 S old (take (length old) new)"

lemma advances_refl: "(\<And>r. S r r) \<Longrightarrow> advances S rows rows"
  by (simp add: advances_def list_all2_refl)

lemma advances_append: "advances S old new \<Longrightarrow> advances S old (new @ rs)"
  by (simp add: advances_def)

lemma advances_update:
  assumes "advances S old new" "\<And>a b c. S a b \<Longrightarrow> S b c \<Longrightarrow> S a c" "\<And>r. S r r"
    and "\<And>r. r \<in> set new \<Longrightarrow> P r \<Longrightarrow> S r (f r)"
  shows "advances S old (update_where P f new)"
  using assms(1,3,4)
  unfolding advances_def list_all2_conv_all_nth update_where_def
  by (auto intro: assms(2))

lemma advances_in: "advances S old new \<Longrightarrow> r \<in> set old \<Longrightarrow> \<exists>q \<in> set new. S r q"
  unfolding advances_def
  by (metis in_set_takeD list_all2_iff list_all2_lengthD in_set_conv_nth list_all2_nthD nth_mem)

lemma advances_all:
  assumes "advances S old new" "list_all2 S new new'" "\<And>a b c. S a b \<Longrightarrow> S b c \<Longrightarrow> S a c"
  shows "advances S old new'"
  unfolding advances_def
proof
  show "length old \<le> length new'" using assms(1,2) by (simp add: advances_def list_all2_lengthD)
  have "list_all2 S (take (length old) new) (take (length old) new')"
    using assms(2) by (rule list_all2_takeI)
  with assms(1,3) show "list_all2 S old (take (length old) new')"
    unfolding advances_def by (blast intro: list_all2_trans)
qed

lemma find_rows:
  "list_all2 R xs ys \<Longrightarrow> (\<And>x y. R x y \<Longrightarrow> P x = P y) \<Longrightarrow> List.find P xs = Some x \<Longrightarrow>
     \<exists>y. List.find P ys = Some y \<and> R x y"
  by (induction rule: list_all2_induct) (auto split: if_splits)

text \<open>INSERT ... ON CONFLICT DO UPDATE, and the sorted insertion of a \<open>BTreeMap\<close>.\<close>

definition upsert :: "('r \<Rightarrow> bool) \<Rightarrow> ('r \<Rightarrow> 'r) \<Rightarrow> 'r \<Rightarrow> 'r list \<Rightarrow> 'r list" where
  "upsert P f r rows = (if exists_where P rows then update_where P f rows else rows @ [r])"

lemma upsert_find:
  assumes "P r" "\<And>q. P q \<Longrightarrow> P (f q)"
  shows "List.find P (upsert P f r rows) =
    Some (case List.find P rows of None \<Rightarrow> r | Some q \<Rightarrow> f q)"
proof (cases "List.find P rows")
  case None
  then have "\<not> exists_where P rows" by (simp add: find_None_iff2)
  with None assms show ?thesis by (simp add: upsert_def find_append del: exists_where_iff)
next
  case (Some q)
  then have "exists_where P rows" and "P q" by (auto dest: find_Some_iff2)
  have "List.find P (update_where P f rows) = map_option (\<lambda>r. if P r then f r else r) (List.find P rows)"
    by (rule find_update_where) (use assms in auto)
  with Some \<open>P q\<close> \<open>exists_where P rows\<close> show ?thesis by (simp add: upsert_def)
qed

lemma upsert_find_other:
  assumes "\<not> Q r" "\<And>q. P q \<Longrightarrow> \<not> Q q \<and> \<not> Q (f q)"
  shows "List.find Q (upsert P f r rows) = List.find Q rows"
proof -
  have "List.find Q (update_where P f rows) = map_option (\<lambda>r. if P r then f r else r) (List.find Q rows)"
    by (rule find_update_where) (use assms in auto)
  also have "\<dots> = List.find Q rows"
    using assms(2) by (cases "List.find Q rows") (auto dest: find_Some_iff2)
  finally show ?thesis using assms(1) by (simp add: upsert_def find_append split: option.splits)
qed

fun map_insert :: "('k :: linorder) \<Rightarrow> 'v \<Rightarrow> ('k \<times> 'v) list \<Rightarrow> ('k \<times> 'v) list" where
  "map_insert k v [] = [(k, v)]"
| "map_insert k v ((k', v') # m) =
     (if k = k' then (k, v) # m else if k < k' then (k, v) # (k', v') # m
      else (k', v') # map_insert k v m)"

lemma map_of_map_insert [simp]: "map_of (map_insert k v m) = (map_of m)(k \<mapsto> v)"
  by (induction k v m rule: map_insert.induct) (auto simp: fun_upd_twist)

section \<open>Strings\<close>

text \<open>\<open>[String]::join\<close>.\<close>

fun join_strings :: "string \<Rightarrow> string list \<Rightarrow> string" where
  "join_strings separator [] = []"
| "join_strings separator [x] = x"
| "join_strings separator (x # y # xs) = x @ separator @ join_strings separator (y # xs)"

end
