(* ===== verification/Contracts.thy ===== *)
theory Contracts
  imports Prelude
begin

text \<open>
  The data model of crates/ribosome-core/src/contracts.rs, the structs and enums the substrate
  stores and exchanges. A struct is a record whose fields are the source's, prefixed with the
  struct's initials because Isabelle's fields share one name space; an enum is a datatype with
  the source's constructors, used qualified (\<open>WorkItemStatus.Failed\<close>) as in Rust.
  \<open>String\<close> is \<open>string\<close>, \<open>u32\<close> is \<open>nat\<close> (the bounds are those of the contract,
  checked in Validation), \<open>Option\<close> and \<open>Vec\<close> are \<open>option\<close> and \<open>list\<close>. Counters
  are decimal strings, as on the wire: Validation parses them.
  JSON values are kept as a datatype: an object is the list of its members in order, a number its
  decimal text.
\<close>

datatype json =
    JNull
  | JBool bool
  | JNumber string
  | JString string
  | JArray "json list"
  | JObject "(string \<times> json) list"

type_synonym json_map = "(string \<times> json) list"

section \<open>Enumerations\<close>

datatype Mode =
    Observe
  | Sandbox
  | Apply

datatype Profile =
    Caretaker
  | Curator
  | Experimenter

datatype Origin =
    Observed
  | Reexecuted
  | Synthetic

datatype Split =
    Development
  | Evaluation
  | Holdout

datatype EffectStatus =
    Started
  | Succeeded
  | Failed
  | Unknown
  | Denied
  | Stale

datatype Disposition =
    Completed
  | Abstained
  | Failed
  | Cancelled
  | Exhausted
  | Interrupted

datatype RecordKind =
    Definition
  | Occurrence
  | Implementation
  | Finding
  | Intervention
  | Memory
  | Experiment
  | Recommendation
  | Admission
  | Evaluation
  | Regulation
  | Transplant
  | Obligation
  | Discovery

datatype DependencyBasis =
    Host
  | Observed
  | Inferred

datatype ActionKind =
    Edit
  | Check
  | Branch
  | Apply
  | Execute

datatype AttachmentCapability =
    Observe
  | Steer
  | CoordinatedWrite

datatype AttachmentState =
    Active
  | Interrupted
  | Detached
  | Completed

datatype RepairHandoffState =
    Held
  | Released
  | Unknown

datatype AttachmentSourceStatus =
    Running
  | Completed
  | Failed
  | Cancelled
  | Unknown

datatype ContextSourceKind =
    Record
  | Event
  | Artifact

datatype EffectOutcomeBasis =
    ExecutionEstablished
  | CurrentPostconditionObserved
  | Unresolved
  | NotDispatched

datatype ValidationEvidenceOutcome =
    Passed
  | Failed
  | Stale

datatype WorkItemStatus =
    Queued
  | Running
  | Completed
  | Failed
  | Cancelled
  | Exhausted
  | Interrupted

datatype DiscoveryCorpusVisibility =
    Retrospective
  | Online

datatype ContinuationKind =
    Obligation
  | Effect
  | Work

datatype ImplementationInvocationPurpose =
    Production
  | Experimental

datatype AgentActivityRole =
    User
  | Assistant
  | ToolResult

datatype BindingSlotKind =
    String
  | Number
  | Boolean
  | Object
  | Array
  | ArtifactPath
  | Tool

datatype ImplementationFormat =
    Instructions
  | RegisteredTool

datatype AdmissionDecision =
    Accepted
  | Rejected
  | Inconclusive
  | Retired

datatype AttachmentFeedbackKind =
    Finding
  | Proposal

datatype FeedbackState =
    Pending
  | Delivered
  | Acknowledged
  | Rejected
  | Expired
  | Unknown

datatype Freshness =
    Current
  | Historical

datatype InterventionKind =
    Repair
  | Regeneration
  | Recombination
  | Chaperone

datatype ObligationState =
    Open
  | Satisfied
  | Violated
  | Unknown

datatype PropertyAssessmentState =
    Unproven
  | Validated
  | Stale

datatype AttachmentOpenStart =
    Now
  | History

datatype FeedbackAcknowledgementOutcome =
    Acknowledged
  | Rejected
  | Unknown

datatype ToolCallMethod =
    EvidenceRead
  | SearchQuery
  | RecordRead
  | ArtifactRead
  | ActionExecute
  | ActionLookup
  | RecordSubmit
  | RecordRetire
  | WorkRequest
  | MessageSend
  | MessageInbox
  | MessageAck
  | ExperimentRun
  | InventoryAdmissionRequest
  | InventoryArchive
  | TrainingExport
  | ArtifactValidity
  | WorkWait
  | WorkStatus
  | EvidenceCorpus
  | ContinuationRead

datatype MemoryKind =
    Working
  | Episodic
  | Aggregated
  | Procedural
  | Failure

datatype Recognition =
    Tentative
  | Supported
  | Rejected

datatype DefinitionRelationKind =
    Specializes
  | Composes
  | Replaces

datatype MotifEvaluationQuestionKind =
    Recognition
  | Function
  | Causal
  | Transfer

datatype MotifDependencyEvidenceBasis =
    SourceReported
  | Inferred

datatype MotifLocalOutcomeState =
    Satisfied
  | Violated
  | Unresolved

datatype OccurrenceGroundingRecognitionVisibility =
    Retrospective
  | Online

datatype DiscoveryHypothesisDecision =
    ProposeDefinition
  | RecognizeExisting
  | Specialize
  | Compose
  | Reject
  | Inconclusive

datatype DiscoveryDecision =
    Supported
  | Rejected
  | Inconclusive
  | NoMotif

section \<open>Structures\<close>

record Scope =
  sc_client :: "string"
  sc_project :: "string"

record VersionRef =
  vr_id :: "string"
  vr_version :: "string"

record ArtifactRef =
  ar_path :: "string"
  ar_version :: "string"

record Provenance =
  pv_origin :: "Origin"
  pv_source_refs :: "string list"
  pv_scenario_family :: "string"
  pv_split :: "Split"
  pv_limitations :: "string list"

record Budget =
  b_max_calls :: "nat"
  b_max_tokens :: "string"
  b_max_cost_microusd :: "string"
  b_max_actions :: "nat"
  b_max_work_items :: "nat"
  b_max_depth :: "nat"
  b_deadline_ms :: "string"

record Grant =
  g_id :: "string"
  g_scope :: "Scope"
  g_mode :: "Mode"
  g_paths :: "string list"
  g_tools :: "string list"
  g_profiles :: "Profile list"
  g_budget :: "Budget"
  g_context :: "string"
  g_visible_splits :: "Split list"
  g_allow_export :: "bool"
  g_required_checks :: "string list option"
  g_writable_paths :: "string list option"
  g_discovery_corpus :: "VersionRef option"
  g_prepared_run :: "string option"

record Event =
  ev_id :: "string"
  ev_scope :: "Scope"
  ev_run_id :: "string"
  ev_producer :: "string"
  ev_sequence :: "string"
  ev_kind :: "string"
  ev_timestamp_ms :: "string"
  ev_parents :: "string list"
  ev_correlation :: "string"
  ev_artifacts :: "ArtifactRef list"
  ev_payload :: "json_map"
  ev_provenance :: "Provenance"

record Dependency =
  dep_source :: "ArtifactRef"
  dep_dependent :: "ArtifactRef"
  dep_basis :: "DependencyBasis"
  dep_evidence_refs :: "string list"

record RecordEnvelope =
  r_schema_version :: "string"
  r_id :: "string"
  r_scope :: "Scope"
  r_kind :: "RecordKind"
  r_version :: "string"
  r_created_ms :: "string"
  r_updated_ms :: "string"
  r_retired :: "bool"
  r_provenance :: "Provenance"
  r_body :: "json_map"

record ContextState =
  cx_segment_id :: "string"
  cx_count :: "string"
  cx_generation :: "string"
  cx_rebuilt :: "bool"
  cx_tail_after :: "string"
  cx_summary_ref :: "string option"
  cx_summary_through :: "string option"

record Checkpoint =
  cp_format :: "string"
  cp_profile :: "Profile"
  cp_operator :: "string"
  cp_provider :: "string"
  cp_model :: "string"
  cp_messages :: "json_map list"
  cp_pending_operations :: "string list"
  cp_event_cursor :: "string"
  cp_context :: "ContextState option"

record ImplementationInvocation =
  inv_implementation :: "VersionRef"
  inv_bindings :: "json_map"
  inv_recipient_refs :: "string list"
  inv_purpose :: "ImplementationInvocationPurpose"

record AgentRunRequest =
  rq_run_id :: "string"
  rq_profile :: "Profile"
  rq_operator :: "string"
  rq_prompt :: "string"
  rq_provider :: "string"
  rq_model :: "string"
  rq_checkpoint :: "Checkpoint option"
  rq_parent_allocation_id :: "string option"
  rq_discovery_corpus :: "VersionRef option"
  rq_invocation :: "ImplementationInvocation option"

record AgentResult =
  res_disposition :: "Disposition"
  res_summary :: "string"

record WorkRequest =
  wr_subject :: "string"
  wr_profile :: "Profile"
  wr_operator :: "string"
  wr_reason :: "string"
  wr_evidence_refs :: "string list"

record WorkItem =
  w_id :: "string"
  w_scope :: "Scope"
  w_subject :: "string"
  w_profile :: "Profile"
  w_operator :: "string"
  w_reason :: "string"
  w_evidence_refs :: "string list"
  w_root_id :: "string"
  w_parent_id :: "string"
  w_depth :: "nat"
  w_status :: "WorkItemStatus"
  w_attempts :: "nat"
  w_lease_until_ms :: "string"
  w_owner :: "string"

record MessageSend =
  ms_recipient :: "string"
  ms_topic :: "string"
  ms_body :: "string"
  ms_correlation :: "string"

record Message =
  m_id :: "string"
  m_sender :: "string"
  m_recipient :: "string"
  m_topic :: "string"
  m_body :: "string"
  m_correlation :: "string"
  m_sequence :: "string"
  m_attempts :: "nat"

record Inbox =
  ib_messages :: "Message list"

record PermitRequest =
  pr_max_output_tokens :: "nat"
  pr_input_tokens_bound :: "string"
  pr_cost_microusd_bound :: "string"
  pr_compaction_id :: "string option"
  pr_call_id :: "string option"

record Permit =
  p_id :: "string"
  p_max_output_tokens :: "nat"

record Usage =
  u_permit_id :: "string"
  u_input_tokens :: "string"
  u_output_tokens :: "string"
  u_cost_microusd :: "string"
  u_complete :: "bool"

record RepairHandoff =
  rh_generation :: "string"
  rh_work_id :: "string"
  rh_deadline_ms :: "string"
  rh_state :: "RepairHandoffState"

record Attachment =
  at_id :: "string"
  at_grant_id :: "string"
  at_scope :: "Scope"
  at_execution_id :: "string"
  at_connector :: "string"
  at_connector_version :: "string"
  at_capabilities :: "AttachmentCapability list"
  at_state :: "AttachmentState"
  at_source_status :: "AttachmentSourceStatus"
  at_start_cursor :: "string"
  at_cursor :: "string"
  at_frontier :: "json_map"
  at_coverage :: "string list"
  at_created_ms :: "string"
  at_updated_ms :: "string"
  at_last_error :: "string"
  at_handoff :: "RepairHandoff option"

record ContextSource =
  cs_kind :: "ContextSourceKind"
  cs_id :: "string"
  cs_version :: "string"

record BudgetAllocationRequest =
  bar_id :: "string"
  bar_parent_id :: "string"
  bar_cause_id :: "string"
  bar_purpose :: "string"
  bar_budget :: "Budget"

record BudgetAllocation =
  a_id :: "string"
  a_grant_id :: "string"
  a_parent_id :: "string option"
  a_cause_id :: "string"
  a_purpose :: "string"
  a_budget :: "Budget"
  a_disposition :: "Disposition option"

record BudgetUsage =
  bu_model_calls :: "nat"
  bu_undispatched_calls :: "nat"
  bu_unknown_calls :: "nat"
  bu_settled_tokens :: "string"
  bu_reserved_tokens :: "string"
  bu_settled_cost_microusd :: "string"
  bu_reserved_cost_microusd :: "string"
  bu_actions :: "nat"
  bu_work_items :: "nat"

record BudgetStatus =
  bs_allocation :: "BudgetAllocation"
  bs_usage :: "BudgetUsage"
  bs_remaining :: "Budget"

record WorkWaitRequest =
  ww_work_ids :: "string list"

record WorkWaitResult =
  wwr_work_ids :: "string list"
  wwr_wait_required :: "bool"

record WorkStatus =
  ws_work_id :: "string"
  ws_status :: "WorkItemStatus"
  ws_result_available :: "bool"
  ws_result :: "AgentResult option"
  ws_source :: "ContextSource option"

record SessionParkRequest =
  sp_work_ids :: "string list"
  sp_checkpoint :: "Checkpoint"

record DiscoveryWindow =
  dw_execution :: "string"
  dw_event_refs :: "string list"
  dw_frontier :: "json_map"

record CorpusArtifact =
  ca_artifact :: "ArtifactRef"
  ca_snapshot_id :: "string"

record DiscoveryCorpus =
  dc_id :: "string"
  dc_version :: "string"
  dc_visibility :: "DiscoveryCorpusVisibility"
  dc_source_windows :: "DiscoveryWindow list"
  dc_definition_refs :: "VersionRef list"
  dc_limitations :: "string list"
  dc_artifacts :: "CorpusArtifact list"
  dc_dependencies :: "Dependency list"

record ContinuationRead =
  cr_kind :: "ContinuationKind"
  cr_after :: "string"
  cr_limit :: "nat"

record ContinuationReference =
  cref_id :: "string"
  cref_version :: "string option"

record ContinuationPage =
  cpg_kind :: "ContinuationKind"
  cpg_references :: "ContinuationReference list"
  cpg_next :: "string"
  cpg_complete :: "bool"
  cpg_evidence_cursor :: "string"

record AgentActivity =
  aa_sequence :: "string"
  aa_role :: "AgentActivityRole"
  aa_timestamp_ms :: "string"
  aa_content :: "json_map"
  aa_source_refs :: "string list"

record AgentActivityBatch =
  aab_entries :: "AgentActivity list"

record Action =
  act_operation_id :: "string"
  act_kind :: "ActionKind"
  act_path :: "string option"
  act_expected_version :: "string option"
  act_content :: "string option"
  act_tool :: "string option"
  act_branch_id :: "string option"
  act_intervention_ref :: "string option"
  act_implementation :: "VersionRef option"

record ValidatedProperty =
  vp_obligation :: "VersionRef"
  vp_artifact :: "ArtifactRef"

record ValidationEvidence =
  ve_check_ref :: "string"
  ve_checker_version :: "string"
  ve_policy_version :: "string"
  ve_authority :: "string"
  ve_receipt_ref :: "string"
  ve_inputs :: "ArtifactRef list"
  ve_targets :: "ArtifactRef list"
  ve_outcome :: "ValidationEvidenceOutcome"
  ve_branch_id :: "string option"
  ve_generation :: "string"
  ve_properties :: "ValidatedProperty list option"

record EffectSettlementRequest =
  esr_operation_id :: "string"
  esr_expected_receipt_version :: "string"
  esr_executor_stopped :: "bool"
  esr_workspace_versions :: "ArtifactRef list"
  esr_reason :: "string"
  esr_source_refs :: "string list"

record EffectSettlement =
  est_request :: "EffectSettlementRequest"
  est_evidence_ref :: "string"
  est_recorded_ms :: "string"

record ActionReceipt =
  rcp_operation_id :: "string"
  rcp_run_id :: "string"
  rcp_status :: "EffectStatus"
  rcp_action :: "Action"
  rcp_before :: "ArtifactRef list"
  rcp_after :: "ArtifactRef list"
  rcp_output :: "string"
  rcp_side_effects :: "string list"
  rcp_started_ms :: "string"
  rcp_finished_ms :: "string option"
  rcp_elapsed_ms :: "string option"
  rcp_reconciled :: "bool"
  rcp_evidence_ref :: "string option"
  rcp_outcome_basis :: "EffectOutcomeBasis option"
  rcp_validations :: "ValidationEvidence list option"
  rcp_restored_validity :: "ArtifactRef list option"
  rcp_restored_properties :: "ValidatedProperty list option"
  rcp_settlement :: "EffectSettlement option"
  rcp_content_available :: "bool option"

record PropertyBinding =
  pb_obligation :: "VersionRef"
  pb_path :: "string"

record BindingSlot =
  slot_name :: "string"
  slot_kind :: "BindingSlotKind"
  slot_required :: "bool"

record InstructionContract =
  ic_inputs :: "BindingSlot list"
  ic_outputs :: "string list"
  ic_entry_obligations :: "string list"
  ic_exit_obligations :: "string list"
  ic_limitations :: "string list"
  ic_discovery_refs :: "VersionRef list"

record Implementation =
  imp_name :: "string"
  imp_version :: "string"
  imp_motifs :: "VersionRef list"
  imp_format :: "ImplementationFormat"
  imp_material :: "string"
  imp_parameters :: "json_map"
  imp_required_capabilities :: "string list"
  imp_state_assumptions :: "string list"
  imp_possible_effects :: "string list"
  imp_failure_behavior :: "string"
  imp_evaluation_refs :: "string list"
  imp_instruction_contract :: "InstructionContract option"
  imp_function :: "string option"

record Admission =
  adm_implementation :: "VersionRef"
  adm_context :: "string"
  adm_decision :: "AdmissionDecision"
  adm_evaluation_refs :: "string list"
  adm_restrictions :: "string list"
  adm_authority :: "string"
  adm_policy_id :: "string"
  adm_supersedes :: "string list"

record InvocationMaterial =
  im_invocation :: "ImplementationInvocation"
  im_implementation :: "Implementation"

record RetireRequest =
  rtr_id :: "string"
  rtr_expected_version :: "string"
  rtr_delete :: "bool"

record EvidenceRequest =
  erq_cursor :: "string"
  erq_limit :: "nat"
  erq_run_id :: "string option"
  erq_event_refs :: "string list option"
  erq_neighbors :: "bool option"
  erq_kind :: "string option"
  erq_artifact :: "ArtifactRef option"
  erq_query :: "string option"
  erq_through_cursor :: "string option"

record EvidencePage =
  epg_events :: "Event list"
  epg_cursor :: "string"
  epg_frontier :: "json_map"
  epg_dependencies :: "Dependency list"
  epg_invalidated_paths :: "string list"

record AttachmentFeedback =
  fb_id :: "string"
  fb_attachment_id :: "string"
  fb_run_id :: "string"
  fb_kind :: "AttachmentFeedbackKind"
  fb_state :: "FeedbackState"
  fb_summary :: "string"
  fb_disposition :: "Disposition"
  fb_record_refs :: "string list"
  fb_evidence_refs :: "string list"
  fb_artifact_versions :: "ArtifactRef list"
  fb_expires_ms :: "string"
  fb_attempts :: "nat"
  fb_detail :: "string"

record EffectInspection =
  ei_receipt :: "ActionReceipt"
  ei_workspace_versions :: "ArtifactRef list"
  ei_receipt_version :: "string"

record ArtifactRead =
  ard_path :: "string"
  ard_offset :: "nat"
  ard_length :: "nat"
  ard_branch_id :: "string option"
  ard_snapshot_id :: "string option"
  ard_required_freshness :: "Freshness option"

record ArtifactChunk =
  ach_artifact :: "ArtifactRef"
  ach_content :: "string"
  ach_offset :: "nat"
  ach_total_bytes :: "string"
  ach_eof :: "bool"
  ach_snapshot_id :: "string option"
  ach_required_freshness :: "Freshness option"

record PropertyAssessment =
  pa_obligation :: "VersionRef"
  pa_state :: "PropertyAssessmentState"
  pa_evidence_refs :: "string list"

record ArtifactValidityRequest =
  avr_path :: "string"

record ArtifactValidity =
  av_artifact :: "ArtifactRef"
  av_snapshot_id :: "string"
  av_observed_ms :: "string"
  av_generation :: "string"
  av_properties :: "PropertyAssessment list"

record Intervention =
  itv_kind :: "InterventionKind"
  itv_subject :: "string"
  itv_finding_ref :: "string"
  itv_read_versions :: "ArtifactRef list"
  itv_preserve :: "string list"
  itv_replace :: "string list"
  itv_invalidate :: "string list"
  itv_recompute :: "string list"
  itv_required_checks :: "string list"
  itv_bindings :: "json_map"
  itv_requested_effects :: "string list"
  itv_assumptions :: "string list"
  itv_fallback :: "string"
  itv_operator :: "string"

record Obligation =
  obl_description :: "string"
  obl_owner :: "string"
  obl_subject :: "string"
  obl_state :: "ObligationState"
  obl_affected_outputs :: "string list"
  obl_created_ms :: "string"
  obl_consequence_boundary :: "string"
  obl_evidence_refs :: "string list"

record AttachmentOpen =
  ao_id :: "string"
  ao_execution_id :: "string"
  ao_connector :: "string"
  ao_connector_version :: "string"
  ao_start :: "AttachmentOpenStart"
  ao_capabilities :: "AttachmentCapability list"

record HarnessEvent =
  he_id :: "string"
  he_producer :: "string"
  he_sequence :: "string"
  he_kind :: "string"
  he_timestamp_ms :: "string"
  he_parents :: "string list"
  he_correlation :: "string"
  he_artifacts :: "ArtifactRef list"
  he_payload :: "json_map"

record AttachmentEvents =
  ae_attachment_id :: "string"
  ae_events :: "HarnessEvent list"

record IngestionReceipt =
  ir_inserted :: "nat"
  ir_duplicates :: "nat"
  ir_cursor :: "string"

record AttachmentStatus =
  ats_attachment :: "Attachment"
  ats_queued_work :: "nat"
  ats_running_work :: "nat"
  ats_pending_feedback :: "nat"
  ats_usage :: "json_map"
  ats_feedback_states :: "json_map"

record AttachmentFeedbackPage =
  fp_items :: "AttachmentFeedback list"

record FeedbackAcknowledgement =
  fa_attachment_id :: "string"
  fa_feedback_id :: "string"
  fa_outcome :: "FeedbackAcknowledgementOutcome"
  fa_detail :: "string"

record FeedbackRequest =
  fr_attachment_id :: "string"
  fr_feedback_id :: "string"

record AttachmentRelease =
  arl_attachment_id :: "string"
  arl_generation :: "string"

record ContextEntry =
  cen_message :: "json_map"
  cen_sources :: "ContextSource list"

record ContextAppend =
  cap_segment_id :: "string"
  cap_after :: "string"
  cap_entries :: "ContextEntry list"

record ContextRead =
  crd_segment_id :: "string"
  crd_after :: "string"
  crd_limit :: "nat"

record ContextPage =
  cpa_messages :: "json_map list"
  cpa_next :: "string"
  cpa_complete :: "bool"

record CompactionPlan =
  cpl_id :: "string"
  cpl_segment_id :: "string"
  cpl_after :: "string"
  cpl_through :: "string"

record CompactionPreparation =
  cpp_plan :: "CompactionPlan option"

record ContextSummary =
  csm_id :: "string"
  csm_through :: "string"
  csm_text :: "string"
  csm_sources :: "ContextSource list"

record CompactionInput =
  cin_plan :: "CompactionPlan"
  cin_owner_task :: "string"
  cin_previous_summary :: "ContextSummary option"
  cin_messages :: "json_map list"

record CompactionCommit =
  cct_id :: "string"
  cct_text :: "string"
  cct_permit_id :: "string"

record ToolCall =
  tc_call_id :: "string"
  tc_method :: "ToolCallMethod"
  tc_arguments :: "json_map"

record ToolObservation =
  tob_content :: "string"
  tob_artifact :: "ArtifactRef"
  tob_sources :: "ContextSource list"
  tob_total_bytes :: "string"
  tob_cursor :: "string option"

record MotifEntryContract =
  mec_inputs :: "string list"
  mec_unresolved_state :: "string list"
  mec_prerequisites :: "string list"
  mec_not_assumed :: "string list"

record MotifRole =
  mro_name :: "string"
  mro_description :: "string"

record MotifDecisionPoint =
  mdp_condition :: "string"
  mdp_evidence_required :: "string list"
  mdp_responses :: "string list"

record MotifExitContract =
  mxc_results :: "string list"
  mxc_required_reports :: "string list"

record DefinitionRelation =
  drl_kind :: "DefinitionRelationKind"
  drl_definition :: "VersionRef"
  drl_explanation :: "string"

record MotifEvaluationQuestion =
  meq_kind :: "MotifEvaluationQuestionKind"
  meq_question :: "string"

record FunctionalContract =
  fcn_entry :: "MotifEntryContract"
  fcn_roles :: "MotifRole list"
  fcn_decision_points :: "MotifDecisionPoint list"
  fcn_exit :: "MotifExitContract"
  fcn_abstention_conditions :: "string list"
  fcn_relations :: "DefinitionRelation list"
  fcn_evaluation_questions :: "MotifEvaluationQuestion list"

record Definition =
  df_name :: "string"
  df_version :: "string"
  df_intent :: "string"
  df_applicability :: "string"
  df_recognition_instructions :: "string"
  df_obligations :: "string list"
  df_positive_examples :: "string list"
  df_counterexamples :: "string list"
  df_checks :: "string list"
  df_functional_contract :: "FunctionalContract option"

record ObligationResult =
  obr_obligation :: "string"
  obr_state :: "ObligationState"
  obr_evidence_refs :: "string list"

record MotifRoleBinding =
  mrb_role :: "string"
  mrb_event_refs :: "string list"

record MotifDependencyEvidence =
  mde_source_event_ref :: "string"
  mde_target_event_ref :: "string"
  mde_basis :: "MotifDependencyEvidenceBasis"
  mde_evidence_refs :: "string list"
  mde_explanation :: "string"

record MotifLocalOutcome =
  mlo_state :: "MotifLocalOutcomeState"
  mlo_evidence_refs :: "string list"
  mlo_limitations :: "string list"

record MotifAnnotator =
  man_run_id :: "string"
  man_operator :: "string"

record OccurrenceGrounding =
  ocg_role_bindings :: "MotifRoleBinding list"
  ocg_incoming_context_refs :: "string list"
  ocg_dependency_evidence :: "MotifDependencyEvidence list"
  ocg_local_outcome :: "MotifLocalOutcome"
  ocg_annotator :: "MotifAnnotator"
  ocg_recognition_visibility :: "OccurrenceGroundingRecognitionVisibility"

record Occurrence =
  oc_definition :: "VersionRef"
  oc_execution :: "string"
  oc_event_refs :: "string list"
  oc_artifacts :: "ArtifactRef list"
  oc_frontier :: "json_map"
  oc_recognition :: "Recognition"
  oc_obligations :: "ObligationResult list"
  oc_assumptions :: "string list"
  oc_operator :: "string"
  oc_grounding :: "OccurrenceGrounding option"

record Memory =
  mem_kind :: "MemoryKind"
  mem_content :: "string"
  mem_applicability :: "string"
  mem_evidence_refs :: "string list"
  mem_counterexamples :: "string list"
  mem_responses :: "string list"
  mem_regression_cases :: "string list"
  mem_expires_ms :: "string option"
  mem_conflicts :: "string list"
  mem_supersedes :: "string list"

record Recommendation =
  rcm_implementation :: "VersionRef"
  rcm_context :: "string"
  rcm_decision :: "AdmissionDecision"
  rcm_evaluation_refs :: "string list"
  rcm_rationale :: "string"
  rcm_restrictions :: "string list"

record Transplant =
  tp_donor :: "VersionRef"
  tp_recipient :: "string"
  tp_bindings :: "json_map"
  tp_adaptations :: "string list"
  tp_incompatibilities :: "string list"
  tp_checks :: "string list"
  tp_fallback :: "string"
  tp_invocation_run :: "string option"
  tp_recipient_entry_refs :: "string list option"
  tp_result_refs :: "string list option"

record RecordSubmission =
  rsb_kind :: "RecordKind"
  rsb_provenance :: "Provenance"
  rsb_body :: "json_map"
  rsb_id :: "string option"
  rsb_expected_version :: "string option"

record ExportRequest =
  xq_record_ids :: "string list"
  xq_product :: "Origin"

record ExportResult =
  xr_path :: "string"
  xr_count :: "nat"
  xr_artifact :: "ArtifactRef"

record AdmissionRequest =
  amr_recommendation_id :: "string"

record DiscoveryAlternative =
  dal_claim :: "string"
  dal_evidence_refs :: "string list"

record DiscoveryHypothesis =
  dhy_claim :: "string"
  dhy_entry_boundary :: "string"
  dhy_exit_boundary :: "string"
  dhy_conditions :: "string list"
  dhy_support_refs :: "string list"
  dhy_contradiction_refs :: "string list"
  dhy_alternatives :: "DiscoveryAlternative list"
  dhy_decision :: "DiscoveryHypothesisDecision"
  dhy_uncertainty :: "string"

record Discovery =
  dis_work_ref :: "string option"
  dis_corpus :: "VersionRef"
  dis_source_windows :: "DiscoveryWindow list"
  dis_hypotheses :: "DiscoveryHypothesis list"
  dis_definition_refs :: "VersionRef list"
  dis_occurrence_refs :: "string list"
  dis_decision :: "DiscoveryDecision"
  dis_open_questions :: "string list"
  dis_run_refs :: "string list"

section \<open>Reading JSON values\<close>

text \<open>\<open>value["key"]\<close> and \<open>value.get("key")\<close> of serde_json: a missing member reads as null.\<close>

fun json_get :: "json \<Rightarrow> string \<Rightarrow> json" where
  "json_get (JObject m) k = (case map_of m k of None \<Rightarrow> JNull | Some v \<Rightarrow> v)"
| "json_get _ k = JNull"

fun as_str :: "json \<Rightarrow> string option" where
  "as_str (JString s) = Some s"
| "as_str _ = None"

fun as_array :: "json \<Rightarrow> json list option" where
  "as_array (JArray xs) = Some xs"
| "as_array _ = None"

fun as_object :: "json \<Rightarrow> json_map option" where
  "as_object (JObject m) = Some m"
| "as_object _ = None"

text \<open>The wire names (\<open>rename_all\<close>) of the enums the SQL text compares with.\<close>

fun work_disposition :: "WorkItemStatus \<Rightarrow> Disposition option" where
  "work_disposition WorkItemStatus.Completed = Some Disposition.Completed"
| "work_disposition WorkItemStatus.Failed = Some Disposition.Failed"
| "work_disposition WorkItemStatus.Cancelled = Some Disposition.Cancelled"
| "work_disposition WorkItemStatus.Exhausted = Some Disposition.Exhausted"
| "work_disposition WorkItemStatus.Interrupted = Some Disposition.Interrupted"
| "work_disposition WorkItemStatus.Queued = None"
| "work_disposition WorkItemStatus.Running = None"

end
