(* ===== verification/Validation.thy ===== *)
theory Validation
  imports Contracts
begin

text \<open>
  crates/ribosome-core/src/validation.rs: counters and split levels, with the part of
  contracts/schema.json that the modelled operations check their arguments against.

  A contract's validator is a predicate \<open>valid_X\<close>; \<open>validate\<close> is the refusal. The
  schema engine is a third-party crate, so the text of its diagnostic past the contract's name is
  not modelled.
\<close>

definition MAX_FRAME :: nat where
  "MAX_FRAME = 1048576"

definition u64_max :: nat where
  "u64_max = 18446744073709551615"

definition i64_max :: nat where
  "i64_max = 9223372036854775807"

section \<open>Split levels\<close>

fun split_level :: "Split \<Rightarrow> nat" where
  "split_level Split.Development = 0"
| "split_level Split.Evaluation = 1"
| "split_level Split.Holdout = 2"

text \<open>\<open>max_by_key\<close> keeps the last of the greatest elements.\<close>

fun max_by_level :: "Split list \<Rightarrow> Split option" where
  "max_by_level [] = None"
| "max_by_level (x # xs) =
     (case max_by_level xs of
        None \<Rightarrow> Some x
      | Some y \<Rightarrow> Some (if split_level x \<le> split_level y then y else x))"

definition derived_split :: "Split list \<Rightarrow> Split" where
  "derived_split splits = (case max_by_level splits of None \<Rightarrow> Split.Holdout | Some s \<Rightarrow> s)"

lemma max_by_level_Some:
  "max_by_level xs = Some y \<Longrightarrow> y \<in> set xs \<and> (\<forall>x \<in> set xs. split_level x \<le> split_level y)"
proof (induction xs arbitrary: y)
  case Nil
  then show ?case by simp
next
  case (Cons x xs)
  show ?case
  proof (cases "max_by_level xs")
    case None
    with Cons.prems have "xs = []" by (cases xs) (auto split: option.splits)
    with Cons.prems show ?thesis by simp
  next
    case (Some z)
    with Cons.IH have "z \<in> set xs" "\<forall>w \<in> set xs. split_level w \<le> split_level z" by auto
    with Some Cons.prems show ?thesis by (auto split: if_splits)
  qed
qed

lemma max_by_level_None [simp]: "max_by_level xs = None \<longleftrightarrow> xs = []"
  by (cases xs) (auto split: option.splits)

lemma derived_split_bounds:
  "s \<in> set splits \<Longrightarrow> split_level s \<le> split_level (derived_split splits)"
  by (cases "max_by_level splits") (auto simp: derived_split_def dest: max_by_level_Some)

lemma derived_split_visible: "splits \<noteq> [] \<Longrightarrow> derived_split splits \<in> set splits"
  by (cases "max_by_level splits") (auto simp: derived_split_def dest: max_by_level_Some)

section \<open>Counters\<close>

definition is_digit :: "char \<Rightarrow> bool" where
  "is_digit c \<longleftrightarrow> 48 \<le> (of_char c :: nat) \<and> (of_char c :: nat) \<le> 57"

definition digit_value :: "char \<Rightarrow> nat" where
  "digit_value c = of_char c - 48"

definition digit_char :: "nat \<Rightarrow> char" where
  "digit_char d = char_of (48 + d)"

fun parse_digits :: "nat \<Rightarrow> string \<Rightarrow> nat option" where
  "parse_digits acc [] = Some acc"
| "parse_digits acc (c # cs) =
     (if is_digit c then parse_digits (acc * 10 + digit_value c) cs else None)"

text \<open>
  \<open>str::parse::<u64>\<close>: an optional plus sign, at least one digit, nothing else, and a value
  that fits.
\<close>

definition parse_u64 :: "string \<Rightarrow> nat option" where
  "parse_u64 s =
     (let ds = (case s of c # cs \<Rightarrow> if c = CHR ''+'' then cs else s | [] \<Rightarrow> s)
      in if ds = [] then None
         else case parse_digits 0 ds of
             None \<Rightarrow> None
           | Some n \<Rightarrow> if n \<le> u64_max then Some n else None)"

definition counter :: "string \<Rightarrow> nat res" where
  "counter value = ok_or (parse_u64 value) (invalid ''counter exceeds u64'')"

text \<open>\<open>CAST(text AS INTEGER)\<close> of a counter.\<close>

definition cast_integer :: "string \<Rightarrow> nat" where
  "cast_integer s = (case parse_u64 s of None \<Rightarrow> 0 | Some n \<Rightarrow> min n i64_max)"

fun to_string :: "nat \<Rightarrow> string" where
  "to_string n =
     (if n < 10 then [digit_char n] else to_string (n div 10) @ [digit_char (n mod 10)])"

declare to_string.simps [simp del]

lemma digit_char_digit [simp]:
  "d < 10 \<Longrightarrow> is_digit (digit_char d)"
  "d < 10 \<Longrightarrow> digit_value (digit_char d) = d"
  by (simp_all add: is_digit_def digit_char_def digit_value_def)

lemma digit_char_value: "is_digit c \<Longrightarrow> digit_char (digit_value c) = c"
  by (simp add: is_digit_def digit_char_def digit_value_def)

lemma digit_value_lt: "is_digit c \<Longrightarrow> digit_value c < 10"
  unfolding is_digit_def digit_value_def by linarith

lemma plus_not_digit [simp]: "\<not> is_digit (CHR ''+'')"
  by (simp add: is_digit_def)

lemma parse_digits_append:
  "parse_digits acc (xs @ ys) = Option.bind (parse_digits acc xs) (\<lambda>n. parse_digits n ys)"
  by (induction xs arbitrary: acc) auto

lemma to_string_digits: "list_all is_digit (to_string n) \<and> to_string n \<noteq> []"
proof (induction n rule: to_string.induct)
  case (1 n)
  then show ?case by (subst (1 2) to_string.simps) auto
qed

lemma parse_digits_to_string: "parse_digits 0 (to_string n) = Some n"
proof (induction n rule: to_string.induct)
  case (1 n)
  show ?case
  proof (cases "n < 10")
    case True
    then show ?thesis by (subst to_string.simps) simp
  next
    case False
    with 1 show ?thesis by (subst to_string.simps) (simp add: parse_digits_append)
  qed
qed

lemma parse_u64_digits:
  assumes "list_all is_digit s" "s \<noteq> []"
  shows "parse_u64 s = Option.bind (parse_digits 0 s) (\<lambda>n. if n \<le> u64_max then Some n else None)"
proof -
  obtain c cs where s: "s = c # cs" and c: "is_digit c"
    using assms by (cases s) auto
  then have "c \<noteq> CHR ''+''" by auto
  with s show ?thesis
    by (simp add: parse_u64_def Let_def del: parse_digits.simps split: option.splits)
qed

lemma counter_to_string: "n \<le> u64_max \<Longrightarrow> counter (to_string n) = Inr n"
  using to_string_digits [of n]
  by (simp add: counter_def parse_u64_digits parse_digits_to_string)

lemma counter_to_string_over: "u64_max < n \<Longrightarrow> counter (to_string n) = Inl (invalid ''counter exceeds u64'')"
  using to_string_digits [of n]
  by (simp add: counter_def parse_u64_digits parse_digits_to_string)

lemma counter_bound: "counter s = Inr n \<Longrightarrow> n \<le> u64_max"
  by (auto simp: counter_def parse_u64_def Let_def split: option.splits if_splits list.splits)

text \<open>What a parsed counter reads as, for statements: the value, or 0 where it does not parse.\<close>

definition count_of :: "string \<Rightarrow> nat" where
  "count_of s = (case counter s of Inl _ \<Rightarrow> 0 | Inr n \<Rightarrow> n)"

lemma count_of_counter [simp]: "counter s = Inr n \<Longrightarrow> count_of s = n"
  by (simp add: count_of_def)

lemma count_of_to_string [simp]: "n \<le> u64_max \<Longrightarrow> count_of (to_string n) = n"
  by (simp add: counter_to_string)

section \<open>Contract validators\<close>

definition validate :: "string \<Rightarrow> bool \<Rightarrow> ('s, unit) op" where
  "validate name ok = need ok (invalid (name @ '': invalid value''))"

lemma validate_eq [simp]:
  "validate n ok s = (r, t) \<longleftrightarrow>
     t = s \<and> r = (if ok then Inr () else Inl (invalid (n @ '': invalid value'')))"
  by (simp add: validate_def)

lemma validate_runs [simp]:
  "validate n True s = (Inr (), s)"
  by (simp add: validate_def)

lemma preserves_validate [keeps_intros]: "preserves P (validate n ok)"
  unfolding validate_def by (rule keeps_intros)

text \<open>The counter pattern of the schema, \<open>^(0|[1-9][0-9]{0,18})$\<close>.\<close>

definition valid_decimal :: "string \<Rightarrow> bool" where
  "valid_decimal s \<longleftrightarrow>
     s = ''0'' \<or>
     s \<noteq> [] \<and> length s \<le> 19 \<and> list_all is_digit s \<and> hd s \<noteq> CHR ''0''"

definition valid_name :: "string \<Rightarrow> bool" where
  "valid_name s \<longleftrightarrow> 1 \<le> length s \<and> length s \<le> 200"

definition valid_text :: "string \<Rightarrow> bool" where
  "valid_text s \<longleftrightarrow> length s \<le> 65536"

definition valid_count :: "nat \<Rightarrow> bool" where
  "valid_count n \<longleftrightarrow> n \<le> 1000000"

definition valid_names :: "string list \<Rightarrow> bool" where
  "valid_names xs \<longleftrightarrow> length xs \<le> 1000 \<and> list_all valid_name xs"

fun valid_opt :: "('a \<Rightarrow> bool) \<Rightarrow> 'a option \<Rightarrow> bool" where
  "valid_opt P None = True"
| "valid_opt P (Some x) = P x"

definition valid_VersionRef :: "VersionRef \<Rightarrow> bool" where
  "valid_VersionRef v \<longleftrightarrow> valid_name (vr_id v) \<and> valid_decimal (vr_version v)"

definition valid_ArtifactRef :: "ArtifactRef \<Rightarrow> bool" where
  "valid_ArtifactRef v \<longleftrightarrow> valid_name (ar_path v) \<and> valid_name (ar_version v)"

definition valid_Scope :: "Scope \<Rightarrow> bool" where
  "valid_Scope v \<longleftrightarrow> valid_name (sc_client v) \<and> valid_name (sc_project v)"

definition valid_Budget :: "Budget \<Rightarrow> bool" where
  "valid_Budget b \<longleftrightarrow>
     valid_count (b_max_calls b) \<and> valid_decimal (b_max_tokens b) \<and>
     valid_decimal (b_max_cost_microusd b) \<and> valid_count (b_max_actions b) \<and>
     valid_count (b_max_work_items b) \<and> valid_count (b_max_depth b) \<and>
     valid_decimal (b_deadline_ms b)"

definition valid_Grant :: "Grant \<Rightarrow> bool" where
  "valid_Grant g \<longleftrightarrow>
     valid_name (g_id g) \<and> valid_Scope (g_scope g) \<and> valid_names (g_paths g) \<and>
     valid_names (g_tools g) \<and> length (g_profiles g) \<le> 1000 \<and> valid_Budget (g_budget g) \<and>
     valid_name (g_context g) \<and> length (g_visible_splits g) \<le> 1000 \<and>
     valid_opt valid_names (g_required_checks g) \<and> valid_opt valid_names (g_writable_paths g) \<and>
     valid_opt valid_VersionRef (g_discovery_corpus g) \<and> valid_opt valid_name (g_prepared_run g)"

definition valid_BudgetAllocationRequest :: "BudgetAllocationRequest \<Rightarrow> bool" where
  "valid_BudgetAllocationRequest q \<longleftrightarrow>
     valid_name (bar_id q) \<and> valid_name (bar_parent_id q) \<and> valid_name (bar_cause_id q) \<and>
     valid_name (bar_purpose q) \<and> valid_Budget (bar_budget q)"

definition valid_PermitRequest :: "PermitRequest \<Rightarrow> bool" where
  "valid_PermitRequest q \<longleftrightarrow>
     1 \<le> pr_max_output_tokens q \<and> pr_max_output_tokens q \<le> 16384 \<and>
     valid_decimal (pr_input_tokens_bound q) \<and> valid_decimal (pr_cost_microusd_bound q) \<and>
     valid_opt valid_name (pr_compaction_id q) \<and> valid_opt valid_name (pr_call_id q)"

definition valid_Usage :: "Usage \<Rightarrow> bool" where
  "valid_Usage u \<longleftrightarrow>
     valid_name (u_permit_id u) \<and> valid_decimal (u_input_tokens u) \<and>
     valid_decimal (u_output_tokens u) \<and> valid_decimal (u_cost_microusd u)"

definition valid_WorkRequest :: "WorkRequest \<Rightarrow> bool" where
  "valid_WorkRequest q \<longleftrightarrow>
     valid_name (wr_subject q) \<and> valid_name (wr_operator q) \<and> valid_text (wr_reason q) \<and>
     valid_names (wr_evidence_refs q)"

definition valid_Provenance :: "Provenance \<Rightarrow> bool" where
  "valid_Provenance p \<longleftrightarrow>
     valid_names (pv_source_refs p) \<and> valid_name (pv_scenario_family p) \<and>
     length (pv_limitations p) \<le> 1000 \<and> list_all valid_text (pv_limitations p)"

definition valid_Event :: "Event \<Rightarrow> bool" where
  "valid_Event e \<longleftrightarrow>
     valid_name (ev_id e) \<and> valid_Scope (ev_scope e) \<and> valid_name (ev_run_id e) \<and>
     valid_name (ev_producer e) \<and> valid_decimal (ev_sequence e) \<and> valid_name (ev_kind e) \<and>
     valid_decimal (ev_timestamp_ms e) \<and> valid_names (ev_parents e) \<and>
     valid_name (ev_correlation e) \<and> length (ev_artifacts e) \<le> 1000 \<and>
     list_all valid_ArtifactRef (ev_artifacts e) \<and> valid_Provenance (ev_provenance e)"

definition valid_Dependency :: "Dependency \<Rightarrow> bool" where
  "valid_Dependency d \<longleftrightarrow>
     valid_ArtifactRef (dep_source d) \<and> valid_ArtifactRef (dep_dependent d) \<and>
     valid_names (dep_evidence_refs d)"

definition valid_ContextState :: "ContextState \<Rightarrow> bool" where
  "valid_ContextState c \<longleftrightarrow>
     valid_name (cx_segment_id c) \<and> valid_decimal (cx_count c) \<and> valid_decimal (cx_generation c) \<and>
     valid_decimal (cx_tail_after c) \<and> valid_opt valid_name (cx_summary_ref c) \<and>
     valid_opt valid_decimal (cx_summary_through c)"

definition valid_Checkpoint :: "Checkpoint \<Rightarrow> bool" where
  "valid_Checkpoint c \<longleftrightarrow>
     cp_format c \<in> {''pi-0.85.1/1'', ''pi-0.85.1/2''} \<and> valid_name (cp_operator c) \<and>
     valid_name (cp_provider c) \<and> valid_name (cp_model c) \<and> length (cp_messages c) \<le> 1000 \<and>
     valid_names (cp_pending_operations c) \<and> valid_decimal (cp_event_cursor c) \<and>
     valid_opt valid_ContextState (cp_context c)"

definition valid_ImplementationInvocation :: "ImplementationInvocation \<Rightarrow> bool" where
  "valid_ImplementationInvocation i \<longleftrightarrow>
     valid_VersionRef (inv_implementation i) \<and> length (inv_bindings i) \<le> 32 \<and>
     length (inv_recipient_refs i) \<le> 100 \<and> list_all valid_name (inv_recipient_refs i)"

definition valid_AgentRunRequest :: "AgentRunRequest \<Rightarrow> bool" where
  "valid_AgentRunRequest q \<longleftrightarrow>
     valid_name (rq_run_id q) \<and> valid_name (rq_operator q) \<and> valid_text (rq_prompt q) \<and>
     valid_name (rq_provider q) \<and> valid_name (rq_model q) \<and>
     valid_opt valid_Checkpoint (rq_checkpoint q) \<and>
     valid_opt valid_name (rq_parent_allocation_id q) \<and>
     valid_opt valid_VersionRef (rq_discovery_corpus q) \<and>
     valid_opt valid_ImplementationInvocation (rq_invocation q)"

definition valid_AgentResult :: "AgentResult \<Rightarrow> bool" where
  "valid_AgentResult r \<longleftrightarrow> valid_text (res_summary r)"

definition valid_WorkWaitRequest :: "WorkWaitRequest \<Rightarrow> bool" where
  "valid_WorkWaitRequest q \<longleftrightarrow>
     1 \<le> length (ww_work_ids q) \<and> length (ww_work_ids q) \<le> 16 \<and> distinct (ww_work_ids q) \<and>
     list_all valid_name (ww_work_ids q)"

definition valid_SessionParkRequest :: "SessionParkRequest \<Rightarrow> bool" where
  "valid_SessionParkRequest q \<longleftrightarrow>
     1 \<le> length (sp_work_ids q) \<and> length (sp_work_ids q) \<le> 16 \<and> distinct (sp_work_ids q) \<and>
     list_all valid_name (sp_work_ids q) \<and> valid_Checkpoint (sp_checkpoint q)"

definition valid_MessageSend :: "MessageSend \<Rightarrow> bool" where
  "valid_MessageSend q \<longleftrightarrow>
     valid_name (ms_recipient q) \<and> valid_name (ms_topic q) \<and> valid_text (ms_body q) \<and>
     valid_name (ms_correlation q)"

definition valid_ContinuationRead :: "ContinuationRead \<Rightarrow> bool" where
  "valid_ContinuationRead q \<longleftrightarrow>
     valid_decimal (cr_after q) \<and> 1 \<le> cr_limit q \<and> cr_limit q \<le> 100"

definition valid_RetireRequest :: "RetireRequest \<Rightarrow> bool" where
  "valid_RetireRequest q \<longleftrightarrow> valid_name (rtr_id q) \<and> valid_decimal (rtr_expected_version q)"

definition valid_EvidenceRequest :: "EvidenceRequest \<Rightarrow> bool" where
  "valid_EvidenceRequest q \<longleftrightarrow>
     valid_decimal (erq_cursor q) \<and> 1 \<le> erq_limit q \<and> erq_limit q \<le> 100 \<and>
     valid_opt valid_name (erq_run_id q) \<and>
     valid_opt (\<lambda>refs. 1 \<le> length refs \<and> length refs \<le> 100 \<and> distinct refs \<and>
       list_all valid_name refs) (erq_event_refs q) \<and>
     valid_opt valid_name (erq_kind q) \<and> valid_opt valid_ArtifactRef (erq_artifact q) \<and>
     valid_opt (\<lambda>s. length s \<le> 500) (erq_query q) \<and> valid_opt valid_decimal (erq_through_cursor q)"

definition valid_AgentActivity :: "AgentActivity \<Rightarrow> bool" where
  "valid_AgentActivity a \<longleftrightarrow>
     valid_decimal (aa_sequence a) \<and> aa_sequence a \<noteq> ''0'' \<and> valid_decimal (aa_timestamp_ms a) \<and>
     valid_names (aa_source_refs a)"

definition valid_AgentActivityBatch :: "AgentActivityBatch \<Rightarrow> bool" where
  "valid_AgentActivityBatch b \<longleftrightarrow>
     1 \<le> length (aab_entries b) \<and> length (aab_entries b) \<le> 20 \<and>
     list_all valid_AgentActivity (aab_entries b)"

definition valid_Action :: "Action \<Rightarrow> bool" where
  "valid_Action a \<longleftrightarrow>
     valid_name (act_operation_id a) \<and> valid_opt valid_name (act_path a) \<and>
     valid_opt valid_name (act_expected_version a) \<and> valid_opt valid_text (act_content a) \<and>
     valid_opt valid_name (act_tool a) \<and> valid_opt valid_name (act_branch_id a) \<and>
     valid_opt valid_name (act_intervention_ref a) \<and>
     valid_opt valid_VersionRef (act_implementation a)"

definition valid_EffectSettlementRequest :: "EffectSettlementRequest \<Rightarrow> bool" where
  "valid_EffectSettlementRequest q \<longleftrightarrow>
     valid_name (esr_operation_id q) \<and> valid_name (esr_expected_receipt_version q) \<and>
     esr_executor_stopped q \<and> length (esr_workspace_versions q) \<le> 1000 \<and>
     list_all valid_ArtifactRef (esr_workspace_versions q) \<and> 1 \<le> length (esr_reason q) \<and>
     length (esr_reason q) \<le> 4000 \<and> valid_names (esr_source_refs q)"

definition valid_RepairHandoff :: "RepairHandoff \<Rightarrow> bool" where
  "valid_RepairHandoff h \<longleftrightarrow>
     valid_name (rh_generation h) \<and> valid_name (rh_work_id h) \<and> valid_decimal (rh_deadline_ms h)"

definition valid_Attachment :: "Attachment \<Rightarrow> bool" where
  "valid_Attachment a \<longleftrightarrow>
     valid_name (at_id a) \<and> valid_name (at_grant_id a) \<and> valid_Scope (at_scope a) \<and>
     valid_name (at_execution_id a) \<and> valid_name (at_connector a) \<and>
     valid_name (at_connector_version a) \<and> length (at_capabilities a) \<le> 100 \<and>
     valid_decimal (at_start_cursor a) \<and> valid_decimal (at_cursor a) \<and>
     length (at_coverage a) \<le> 20 \<and> list_all (\<lambda>c. length c \<le> 2000) (at_coverage a) \<and>
     valid_decimal (at_created_ms a) \<and> valid_decimal (at_updated_ms a) \<and>
     length (at_last_error a) \<le> 2000 \<and> valid_opt valid_RepairHandoff (at_handoff a)"

definition valid_AttachmentOpen :: "AttachmentOpen \<Rightarrow> bool" where
  "valid_AttachmentOpen q \<longleftrightarrow>
     1 \<le> length (ao_id q) \<and> length (ao_id q) \<le> 64 \<and> valid_name (ao_execution_id q) \<and>
     valid_name (ao_connector q) \<and> valid_name (ao_connector_version q) \<and>
     length (ao_capabilities q) \<le> 100"

definition valid_short_name :: "string \<Rightarrow> bool" where
  "valid_short_name s \<longleftrightarrow> 1 \<le> length s \<and> length s \<le> 128"

definition valid_HarnessEvent :: "HarnessEvent \<Rightarrow> bool" where
  "valid_HarnessEvent e \<longleftrightarrow>
     valid_short_name (he_id e) \<and> valid_short_name (he_producer e) \<and>
     valid_decimal (he_sequence e) \<and> valid_name (he_kind e) \<and>
     valid_decimal (he_timestamp_ms e) \<and> length (he_parents e) \<le> 100 \<and>
     list_all valid_short_name (he_parents e) \<and> valid_name (he_correlation e) \<and>
     length (he_artifacts e) \<le> 100 \<and> list_all valid_ArtifactRef (he_artifacts e)"

definition valid_AttachmentEvents :: "AttachmentEvents \<Rightarrow> bool" where
  "valid_AttachmentEvents q \<longleftrightarrow>
     valid_name (ae_attachment_id q) \<and> length (ae_events q) \<le> 100 \<and>
     list_all valid_HarnessEvent (ae_events q)"

definition valid_AttachmentFeedback :: "AttachmentFeedback \<Rightarrow> bool" where
  "valid_AttachmentFeedback f \<longleftrightarrow>
     valid_name (fb_id f) \<and> valid_name (fb_attachment_id f) \<and> valid_name (fb_run_id f) \<and>
     valid_text (fb_summary f) \<and> valid_names (fb_record_refs f) \<and> valid_names (fb_evidence_refs f) \<and>
     length (fb_artifact_versions f) \<le> 1000 \<and>
     list_all valid_ArtifactRef (fb_artifact_versions f) \<and> valid_decimal (fb_expires_ms f) \<and>
     valid_count (fb_attempts f) \<and> length (fb_detail f) \<le> 2000"

definition valid_FeedbackAcknowledgement :: "FeedbackAcknowledgement \<Rightarrow> bool" where
  "valid_FeedbackAcknowledgement q \<longleftrightarrow>
     valid_name (fa_attachment_id q) \<and> valid_name (fa_feedback_id q) \<and> length (fa_detail q) \<le> 2000"

definition valid_ContextSource :: "ContextSource \<Rightarrow> bool" where
  "valid_ContextSource v \<longleftrightarrow> valid_name (cs_id v) \<and> valid_name (cs_version v)"

definition valid_ContextEntry :: "ContextEntry \<Rightarrow> bool" where
  "valid_ContextEntry v \<longleftrightarrow>
     length (cen_sources v) \<le> 1000 \<and> list_all valid_ContextSource (cen_sources v)"

definition valid_ContextAppend :: "ContextAppend \<Rightarrow> bool" where
  "valid_ContextAppend q \<longleftrightarrow>
     valid_name (cap_segment_id q) \<and> valid_decimal (cap_after q) \<and> length (cap_entries q) \<le> 20 \<and>
     list_all valid_ContextEntry (cap_entries q)"

definition valid_ContextRead :: "ContextRead \<Rightarrow> bool" where
  "valid_ContextRead q \<longleftrightarrow>
     valid_name (crd_segment_id q) \<and> valid_decimal (crd_after q) \<and> 1 \<le> crd_limit q \<and> crd_limit q \<le> 20"

definition valid_CompactionCommit :: "CompactionCommit \<Rightarrow> bool" where
  "valid_CompactionCommit q \<longleftrightarrow>
     valid_name (cct_id q) \<and> 1 \<le> length (cct_text q) \<and> length (cct_text q) \<le> 16384 \<and>
     valid_name (cct_permit_id q)"

definition valid_ToolCall :: "ToolCall \<Rightarrow> bool" where
  "valid_ToolCall q \<longleftrightarrow> valid_name (tc_call_id q)"

definition valid_texts :: "string list \<Rightarrow> bool" where
  "valid_texts xs \<longleftrightarrow> length xs \<le> 1000 \<and> list_all valid_text xs"

definition valid_ArtifactChunk :: "ArtifactChunk \<Rightarrow> bool" where
  "valid_ArtifactChunk v \<longleftrightarrow>
     valid_ArtifactRef (ach_artifact v) \<and> valid_text (ach_content v) \<and>
     ach_offset v \<le> 4294967295 \<and> valid_decimal (ach_total_bytes v) \<and>
     valid_opt valid_name (ach_snapshot_id v)"

definition valid_ArtifactRead :: "ArtifactRead \<Rightarrow> bool" where
  "valid_ArtifactRead q \<longleftrightarrow>
     valid_name (ard_path q) \<and> ard_offset q \<le> 4294967295 \<and> 1 \<le> ard_length q \<and>
     ard_length q \<le> 65536 \<and> valid_opt valid_name (ard_branch_id q) \<and>
     valid_opt valid_name (ard_snapshot_id q)"

definition valid_ArtifactValidityRequest :: "ArtifactValidityRequest \<Rightarrow> bool" where
  "valid_ArtifactValidityRequest q \<longleftrightarrow> valid_name (avr_path q)"

text \<open>An \<open>IdRequest\<close> is the identity it carries.\<close>

definition valid_IdRequest :: "string \<Rightarrow> bool" where
  "valid_IdRequest i \<longleftrightarrow> valid_name i"

definition valid_ExportRequest :: "ExportRequest \<Rightarrow> bool" where
  "valid_ExportRequest q \<longleftrightarrow> valid_names (xq_record_ids q)"

definition valid_ExportResult :: "ExportResult \<Rightarrow> bool" where
  "valid_ExportResult v \<longleftrightarrow>
     valid_name (xr_path v) \<and> valid_count (xr_count v) \<and> valid_ArtifactRef (xr_artifact v)"

definition valid_RecordEnvelope :: "RecordEnvelope \<Rightarrow> bool" where
  "valid_RecordEnvelope r \<longleftrightarrow>
     r_schema_version r = ''1'' \<and> valid_name (r_id r) \<and> valid_Scope (r_scope r) \<and>
     valid_decimal (r_version r) \<and> valid_decimal (r_created_ms r) \<and>
     valid_decimal (r_updated_ms r) \<and> valid_Provenance (r_provenance r)"

definition valid_Memory :: "Memory \<Rightarrow> bool" where
  "valid_Memory m \<longleftrightarrow>
     valid_text (mem_content m) \<and> valid_text (mem_applicability m) \<and>
     valid_names (mem_evidence_refs m) \<and> valid_texts (mem_counterexamples m) \<and>
     valid_texts (mem_responses m) \<and> valid_texts (mem_regression_cases m) \<and>
     valid_opt valid_decimal (mem_expires_ms m) \<and> valid_names (mem_conflicts m) \<and>
     valid_names (mem_supersedes m)"

section \<open>A validated counter is canonical and fits\<close>

lemma parse_digits_bound:
  "list_all is_digit s \<Longrightarrow> \<exists>n. parse_digits acc s = Some n \<and> n < (acc + 1) * 10 ^ length s"
proof (induction s arbitrary: acc)
  case Nil
  then show ?case by simp
next
  case (Cons c s)
  then have d: "digit_value c < 10" by (simp add: digit_value_lt)
  from Cons obtain n where n: "parse_digits (acc * 10 + digit_value c) s = Some n"
    "n < (acc * 10 + digit_value c + 1) * 10 ^ length s" by force
  have le: "(acc * 10 + digit_value c + 1) * 10 ^ length s \<le> ((acc + 1) * 10) * 10 ^ length s"
    by (rule mult_le_mono1) (use d in simp)
  have eq: "((acc + 1) * 10) * 10 ^ length s = (acc + 1) * 10 ^ length (c # s)"
    by (simp only: mult.assoc list.size power.simps add_0_right add_Suc_right)
  from n(2) le have "n < (acc + 1) * 10 ^ length (c # s)" unfolding eq [symmetric] by (rule less_le_trans)
  with n(1) Cons.prems show ?case by simp
qed

lemma to_string_parse:
  "list_all is_digit s \<Longrightarrow> 0 < acc \<Longrightarrow> parse_digits acc s = Some n \<Longrightarrow>
     to_string n = to_string acc @ s"
proof (induction s arbitrary: acc)
  case Nil
  then show ?case by simp
next
  case (Cons c s)
  let ?m = "acc * 10 + digit_value c"
  from Cons.prems have d: "digit_value c < 10" "digit_char (digit_value c) = c"
    by (simp_all add: digit_value_lt digit_char_value)
  have "to_string ?m = to_string acc @ [c]"
    using Cons.prems(2) d by (subst to_string.simps) simp
  moreover have "parse_digits ?m s = Some n" "list_all is_digit s" "0 < ?m"
    using Cons.prems by auto
  ultimately show ?case using Cons.IH [of ?m] by simp
qed

lemma valid_decimal_counter:
  assumes "valid_decimal s"
  shows "\<exists>n < 10 ^ 19. counter s = Inr n \<and> to_string n = s"
proof (cases "s = ''0''")
  case True
  have "counter ''0'' = Inr 0"
    by (simp add: counter_def parse_u64_def is_digit_def digit_value_def u64_max_def)
  moreover have "to_string 0 = ''0''"
    by code_simp
  ultimately show ?thesis using True by (metis zero_less_power zero_less_numeral)
next
  case False
  with assms obtain c cs where s: "s = c # cs" "is_digit c" "list_all is_digit cs"
    "c \<noteq> CHR ''0''" and len: "length s \<le> 19" "list_all is_digit s" "s \<noteq> []"
    by (cases s) (auto simp: valid_decimal_def)
  from parse_digits_bound [OF len(2), of 0] obtain n
    where n: "parse_digits 0 s = Some n" "n < 10 ^ length s" by auto
  from len(1) have "(10::nat) ^ length s \<le> 10 ^ 19" by (rule power_increasing) simp
  with n have lt: "n < 10 ^ 19" by linarith
  moreover have "(10::nat) ^ 19 \<le> u64_max" by (simp add: u64_max_def)
  ultimately have "n \<le> u64_max" by linarith
  with n len have c: "counter s = Inr n" by (simp add: counter_def parse_u64_digits)
  have pos: "0 < digit_value c"
  proof (rule ccontr)
    assume "\<not> 0 < digit_value c"
    then have "digit_char 0 = c" using digit_char_value [OF s(2)] by simp
    moreover have "digit_char 0 = CHR ''0''" by code_simp
    ultimately show False using s(4) by simp
  qed
  have "to_string n = to_string (digit_value c) @ cs"
    using to_string_parse [OF s(3) pos] n(1) s by simp
  moreover have "to_string (digit_value c) = [c]"
    using s(2) by (subst to_string.simps) (simp add: digit_value_lt digit_char_value)
  ultimately show ?thesis using c lt s(1) by auto
qed

end
