(* ===== verification/Database.thy ===== *)
theory Database
  imports Validation "HOL-Library.AList" "HOL-Library.Char_ord" "HOL-Library.List_Lexorder"
    "HOL-Library.Product_Lexorder"
begin

text \<open>
  The SQLite store as a value: one list of rows per table, in rowid order (store.sql and the
  migrations), and the world an operation runs in.

  \<^item> JSON body columns hold the decoded struct; a column duplicated next to the body is a field
    of its own, as in the schema, so that the two can be compared.
  \<^item> A \<open>World\<close> is the store's connection (the tables and whether a transaction is open), the
    successive readings of the wall clock, the supply of UUIDs, and the third-party functions the
    code calls: the SHA-256 digest, the serialised sizes that serde_json determines, and its
    decoders of typed record bodies.
  \<^item> Strings are ordered bytewise (\<open>List_Lexorder\<close> over \<open>Char_ord\<close>), the order of SQLite's
    BINARY collation and of the keys of a \<open>BTreeMap\<close>.
  \<^item> The file system is a parameter as well: whether a directory is still the one recorded, what
    removing a managed file or a workspace returns, and the scan for unregistered exports.
  \<^item> \<open>transaction\<close> is \<open>Store::write_transaction\<close> with the commit or drop that ends it: an
    error, or a normal return without commit, restores the tables.
\<close>

datatype RunStatus = RunRunning | RunWaiting | RunEnded Disposition

datatype PermitState = PermitReserved | PermitDispatched | PermitSettled | PermitReleased

datatype EffectPhase = PhasePrepared | PhaseDispatching | PhaseObserved | PhaseFinalized

record GrantRow =
  gr_id :: string
  gr_body :: Grant

record RunRow =
  rr_id :: string
  rr_grant_id :: string
  rr_request :: AgentRunRequest
  rr_status :: RunStatus
  rr_result :: "AgentResult option"
  rr_started_ms :: string
  rr_finished_ms :: "string option"
  rr_result_source :: "string option"

record CheckpointRow =
  ck_run_id :: string
  ck_body :: Checkpoint

record EventRow =
  er_cursor :: nat
  er_id :: string
  er_client :: string
  er_project :: string
  er_run_id :: string
  er_producer :: string
  er_sequence :: string
  er_split :: Split
  er_body :: Event

record RecordRow =
  rec_id :: string
  rec_client :: string
  rec_project :: string
  rec_kind :: RecordKind
  rec_version :: string
  rec_split :: Split
  rec_body :: RecordEnvelope

record DependencyRow =
  dr_client :: string
  dr_project :: string
  dr_source :: string
  dr_dependent :: string
  dr_body :: Dependency

record PathGeneration =
  pg_client :: string
  pg_project :: string
  pg_path :: string
  pg_generation :: nat

record ScopeGeneration =
  sg_client :: string
  sg_project :: string
  sg_generation :: nat

record CreatedBranch =
  cb_id :: string
  cb_path :: string
  cb_versions :: "ArtifactRef list"

record EffectPreflight =
  epf_checks :: "(string \<times> string) list"
  epf_intervention :: "VersionRef option"
  epf_properties :: "PropertyBinding list"

record EffectObservation =
  eo_receipt :: ActionReceipt
  eo_writes :: "string list"
  eo_validation_generation :: nat
  eo_branch :: "CreatedBranch option"
  eo_preflight :: EffectPreflight

record EffectRow =
  ef_rowid :: nat
  ef_id :: string
  ef_run_id :: string
  ef_grant_id :: string
  ef_body :: ActionReceipt
  ef_phase :: EffectPhase
  ef_observation :: "EffectObservation option"
  ef_settlement :: "EffectSettlement option"
  ef_allocation_id :: "string option"
  ef_authority :: "Grant option"
  ef_potential_writes :: "string list"
  ef_validation_generation :: nat
  ef_preflight :: "EffectPreflight option"

record BranchRow =
  br_id :: string
  br_grant_id :: string
  br_path :: string
  br_versions :: "ArtifactRef list"

record PropertyValidation =
  pvr_client :: string
  pvr_project :: string
  pvr_path :: string
  pvr_obligation_id :: string
  pvr_obligation_version :: string
  pvr_artifact_version :: string
  pvr_operation_id :: string
  pvr_generation :: nat

record WorkRow =
  wk_id :: string
  wk_grant_id :: string
  wk_root_id :: string
  wk_subject :: string
  wk_status :: WorkItemStatus
  wk_lease_until_ms :: nat
  wk_body :: WorkItem
  wk_allocation_id :: "string option"
  wk_source_ref :: "string option"

record MessageRow =
  mr_sequence :: nat
  mr_id :: string
  mr_grant_id :: string
  mr_sender :: string
  mr_recipient :: string
  mr_acknowledged :: bool
  mr_attempts :: nat
  mr_body :: "Message option"
  mr_source_format :: nat

record PermitRow =
  pm_id :: string
  pm_grant_id :: string
  pm_run_id :: string
  pm_reserved_tokens :: nat
  pm_reserved_cost :: nat
  pm_usage :: "Usage option"
  pm_compaction_id :: "string option"
  pm_allocation_id :: "string option"
  pm_call_id :: "string option"
  pm_request :: "PermitRequest option"
  pm_state :: PermitState
  pm_dispatched_ms :: "string option"
  pm_observed_ms :: "string option"

record AllocationRow =
  al_id :: string
  al_grant_id :: string
  al_parent_id :: "string option"
  al_body :: BudgetAllocation

record RunAllocationRow =
  ra_run_id :: string
  ra_allocation_id :: string

record RunWaitRow =
  rw_run_id :: string
  rw_work_ids :: "string list"

record SourceEdge =
  se_rowid :: nat
  se_subject_kind :: string
  se_subject_id :: string
  se_source_kind :: string
  se_source_id :: string
  se_source_version :: "string option"
  se_requires_access :: bool

record Tombstone =
  ts_kind :: string
  ts_id :: string
  ts_client :: string
  ts_project :: string
  ts_deleted :: bool

record CleanupJob =
  cj_source_id :: string
  cj_client :: string
  cj_project :: string
  cj_delete_content :: bool
  cj_status :: string
  cj_error :: "string option"
  cj_source_kind :: string

record CleanupItem =
  ci_job_id :: string
  ci_kind :: string
  ci_id :: string
  ci_after_edge :: nat
  ci_payload_done :: bool
  ci_complete :: bool

record ArtifactSnapshot =
  as_id :: string
  as_client :: string
  as_project :: string
  as_grant_id :: string
  as_path :: string
  as_branch_id :: "string option"
  as_split :: Split
  as_version :: string
  as_current_version :: string
  as_required_freshness :: string
  as_available :: bool
  as_export_file :: "string option"
  as_result_run_id :: "string option"
  as_result_call_id :: "string option"
  as_result_args_hash :: "string option"
  as_result_method :: "string option"
  as_result_sources :: "ContextSource list"
  as_version_only :: bool
  as_body :: json
  as_result_content :: "string option"

record ContextSegment =
  sgm_id :: string
  sgm_run_id :: string
  sgm_source_format :: nat
  sgm_predecessor :: "string option"
  sgm_reason :: string

record ContextItem =
  it_segment_id :: string
  it_sequence :: nat
  it_kind :: string
  it_body :: "json option"
  it_previous_sequence :: "nat option"
  it_summary_ref :: "string option"

record ContextSourceRow =
  cso_segment_id :: string
  cso_first_sequence :: nat
  cso_kind :: string
  cso_id :: string
  cso_version :: string

record ContextSummaryRow =
  sm_id :: string
  sm_segment_id :: string
  sm_after_sequence :: nat
  sm_through_sequence :: nat
  sm_predecessor_id :: "string option"
  sm_status :: string
  sm_body :: "string option"
  sm_permit_id :: "string option"
  sm_created_ms :: string

record EvaluationSource =
  es_grant_id :: string
  es_owner_grant_id :: string
  es_kind :: string
  es_source_id :: string
  es_deliverable :: bool

record ExperimentRow =
  xp_id :: string
  xp_grant_id :: string
  xp_policy :: json
  xp_result :: "json option"

record CorpusRow =
  cor_client :: string
  cor_project :: string
  cor_id :: string
  cor_version :: string
  cor_body :: DiscoveryCorpus

record AttachmentRow =
  atr_id :: string
  atr_grant_id :: string
  atr_execution_id :: string
  atr_body :: Attachment

record AttachmentWorkRow =
  aw_work_id :: string
  aw_attachment_id :: string

record FeedbackRow =
  fbr_id :: string
  fbr_attachment_id :: string
  fbr_body :: AttachmentFeedback

record ArchiveRow =
  arc_client :: string
  arc_project :: string
  arc_context :: string
  arc_policy_id :: string
  arc_cell :: string
  arc_implementation_id :: string
  arc_evaluation_id :: string

text \<open>\<open>Subscription\<close> of subscriptions.rs, with the row that stores it.\<close>

record Subscription =
  sn_id :: string
  sn_grant_id :: string
  sn_kinds :: "string list"
  sn_profile :: Profile
  sn_operator :: string
  sn_subject :: string
  sn_batch_size :: nat
  sn_max_delay_ms :: nat

record SubscriptionRow =
  sub_id :: string
  sub_body :: Subscription
  sub_cursor :: string
  sub_pending :: "string list"
  sub_first_pending_ms :: string
  sub_source_run :: "string option"
  sub_attachment_id :: "string option"

record Db =
  grants :: "GrantRow list"
  runs :: "RunRow list"
  checkpoints :: "CheckpointRow list"
  events :: "EventRow list"
  records :: "RecordRow list"
  record_search :: "(string \<times> json_map) list"
  dependencies :: "DependencyRow list"
  invalidated :: "PathGeneration list"
  validity_clock :: "ScopeGeneration list"
  artifact_invalidation_generations :: "PathGeneration list"
  effects :: "EffectRow list"
  work :: "WorkRow list"
  messages :: "MessageRow list"
  permits :: "PermitRow list"
  budget_allocations :: "AllocationRow list"
  run_allocations :: "RunAllocationRow list"
  run_waits :: "RunWaitRow list"
  source_edges :: "SourceEdge list"
  source_tombstones :: "Tombstone list"
  source_policy :: "ScopeGeneration list"
  source_cleanup :: "CleanupJob list"
  source_cleanup_items :: "CleanupItem list"
  artifact_snapshots :: "ArtifactSnapshot list"
  context_segments :: "ContextSegment list"
  context_items :: "ContextItem list"
  context_sources :: "ContextSourceRow list"
  context_summaries :: "ContextSummaryRow list"
  evaluation_sources :: "EvaluationSource list"
  experiments :: "ExperimentRow list"
  discovery_corpora :: "CorpusRow list"
  attachments :: "AttachmentRow list"
  attachment_work :: "AttachmentWorkRow list"
  attachment_records :: "(string \<times> string) list"
  attachment_feedback :: "FeedbackRow list"
  archive :: "ArchiveRow list"
  subscriptions :: "SubscriptionRow list"
  branches :: "BranchRow list"
  property_validations :: "PropertyValidation list"

text \<open>
  The trait \<open>HostAdapter\<close> of host.rs. What a host answers depends on the outside world, so every
  method takes the number of the call: two calls with the same arguments may answer differently. The
  last two fields are the run's cancellation flag and the file test of export_files.rs.
\<close>

record PreparedTool =
  pt_writes :: "string list"
  pt_checker_version :: string
  pt_properties :: "PropertyBinding list"

record CheckOutput =
  co_success :: bool
  co_output :: string
  co_before :: "ArtifactRef list"
  co_after :: "ArtifactRef list"
  co_validates :: "string list"
  co_writes :: "string list"
  co_checker_version :: string
  co_validation_outcome :: ValidationEvidenceOutcome
  co_properties :: "PropertyBinding list"

record HostAdapter =
  hst_read :: "nat \<Rightarrow> Grant \<Rightarrow> ArtifactRead \<Rightarrow> string option \<Rightarrow> ArtifactChunk res"
  hst_version :: "nat \<Rightarrow> Grant \<Rightarrow> string \<Rightarrow> string option \<Rightarrow> ArtifactRef res"
  hst_prepare_edit :: "nat \<Rightarrow> Grant \<Rightarrow> string \<Rightarrow> string \<Rightarrow> string option \<Rightarrow> ArtifactRef res"
  hst_prepare_tool :: "nat \<Rightarrow> Grant \<Rightarrow> string \<Rightarrow> string option \<Rightarrow> bool \<Rightarrow> PreparedTool res"
  hst_checker_version :: "nat \<Rightarrow> string \<Rightarrow> string res"
  hst_edit :: "nat \<Rightarrow> Grant \<Rightarrow> string \<Rightarrow> string \<Rightarrow> string \<Rightarrow> string option \<Rightarrow> ArtifactRef res"
  hst_run_tool :: "nat \<Rightarrow> Grant \<Rightarrow> string \<Rightarrow> string option \<Rightarrow> bool \<Rightarrow> CheckOutput res"
  hst_branch :: "nat \<Rightarrow> Grant \<Rightarrow> string \<Rightarrow> ArtifactRef list res"
  hst_cancelled :: "nat \<Rightarrow> string \<Rightarrow> bool"
  hst_is_file :: "nat \<Rightarrow> string \<Rightarrow> bool res"

datatype Removal = Removed "unit res" | Absent | RemovalFailed Error

record World =
  store_db :: Db
  store_in_tx :: bool
  env_clock :: "nat \<Rightarrow> nat"
  env_reads :: nat
  env_uuids :: "nat \<Rightarrow> string"
  env_issued :: nat
  env_sha256 :: "string \<Rightarrow> string"
  env_event_bytes :: "Event \<Rightarrow> nat"
  env_checkpoint_bytes :: "Checkpoint \<Rightarrow> nat"
  env_bindings_bytes :: "json_map \<Rightarrow> nat"
  env_implementation_of :: "json_map \<Rightarrow> Implementation res"
  env_admission_of :: "json_map \<Rightarrow> Admission res"
  env_dependency_bytes :: "Dependency \<Rightarrow> nat"
  env_event_mentions :: "Event \<Rightarrow> string \<Rightarrow> bool"
  env_page_bytes :: "EvidencePage \<Rightarrow> nat"
  store_export_directory :: "string option"
  env_is_uuid :: "string \<Rightarrow> bool"
  env_same_directory :: "string \<Rightarrow> bool res"
  env_remove_file :: "string \<Rightarrow> Removal"
  env_remove_workspace :: "string \<Rightarrow> unit res"
  env_legacy_exports :: "Scope \<Rightarrow> string list \<Rightarrow> unit res"
  env_host :: HostAdapter
  env_host_calls :: nat
  env_state_dir :: string
  env_grant_json :: "Grant \<Rightarrow> string"
  env_receipt_json :: "ActionReceipt \<Rightarrow> string"
  env_receipt_map :: "ActionReceipt \<Rightarrow> json_map"
  env_settlement_map :: "EffectSettlement \<Rightarrow> json_map"
  env_settlement_bytes :: "EffectSettlementRequest \<Rightarrow> nat"
  env_batch_bytes :: "AttachmentEvents \<Rightarrow> nat"
  env_feedback_bytes :: "AttachmentFeedback \<Rightarrow> nat"
  env_json_text :: "json \<Rightarrow> string"
  env_json_parse :: "string \<Rightarrow> json res"
  env_pages_text :: "ContinuationPage list \<Rightarrow> string"
  env_append_bytes :: "ContextAppend \<Rightarrow> nat"
  env_compaction_bytes :: "CompactionInput \<Rightarrow> nat"
  env_chunk_json :: "ArtifactChunk \<Rightarrow> json"
  env_chunk_of :: "json \<Rightarrow> ArtifactChunk res"
  env_source_of :: "json \<Rightarrow> ContextSource res"
  env_intervention_of :: "json_map \<Rightarrow> Intervention res"
  env_obligation_of :: "json_map \<Rightarrow> Obligation res"
  env_memory_of :: "json_map \<Rightarrow> Memory res"
  env_episode_bytes :: "RecordEnvelope \<Rightarrow> Event list \<Rightarrow> ArtifactChunk list \<Rightarrow> nat"
  env_export_line :: "Origin \<Rightarrow> Scope \<Rightarrow> RecordEnvelope \<Rightarrow> string"
  env_read_file :: "string \<Rightarrow> string option res"
  env_write_file :: "string \<Rightarrow> string \<Rightarrow> unit res"

type_synonym 'a store_op = "(World, 'a) op"


section \<open>Connections\<close>

text \<open>
  \<open>query\<close> reads the tables, \<open>query_res\<close> is a read that can fail, \<open>exec\<close> writes them.
  \<open>now_ms\<close> consumes one reading of the clock, so two calls in one operation may see different
  times; \<open>as_millis() as u64\<close> keeps the low 64 bits. \<open>new_id\<close> is the UUID supply.
\<close>

definition query :: "(Db \<Rightarrow> 'a) \<Rightarrow> 'a store_op" where
  "query f = ask (\<lambda>s. f (store_db s))"

definition query_res :: "(Db \<Rightarrow> 'a res) \<Rightarrow> 'a store_op" where
  "query_res f s = (f (store_db s), s)"

definition exec :: "(Db \<Rightarrow> Db) \<Rightarrow> unit store_op" where
  "exec f = modify (\<lambda>s. s\<lparr>store_db := f (store_db s)\<rparr>)"

definition exec_res :: "(Db \<Rightarrow> Db res) \<Rightarrow> unit store_op" where
  "exec_res f s = (case f (store_db s) of
     Inl e \<Rightarrow> (Inl e, s) | Inr d \<Rightarrow> (Inr (), s\<lparr>store_db := d\<rparr>))"

definition now_ms :: "nat store_op" where
  "now_ms s = (Inr (env_clock s (env_reads s) mod 2 ^ 64), s\<lparr>env_reads := Suc (env_reads s)\<rparr>)"

definition new_id :: "string store_op" where
  "new_id s = (Inr (env_uuids s (env_issued s)), s\<lparr>env_issued := Suc (env_issued s)\<rparr>)"

text \<open>\<open>now_ms() + u64::from(x)\<close>, with the wrap-around of a release build.\<close>

definition add_u64 :: "nat \<Rightarrow> nat \<Rightarrow> nat" where
  "add_u64 a b = (a + b) mod 2 ^ 64"

text \<open>\<open>host_call\<close> asks the host and moves its call number on.\<close>

definition host_call :: "(HostAdapter \<Rightarrow> nat \<Rightarrow> 'a res) \<Rightarrow> 'a store_op" where
  "host_call f s =
     (f (env_host s) (env_host_calls s), s\<lparr>env_host_calls := Suc (env_host_calls s)\<rparr>)"

definition hash :: "string \<Rightarrow> string store_op" where
  "hash bytes = ask (\<lambda>s. env_sha256 s bytes)"

section \<open>Transactions\<close>

datatype 'a txn = Commit 'a | Rollback 'a

definition transaction :: "'a txn store_op \<Rightarrow> 'a store_op" where
  "transaction m s =
     (if store_in_tx s
      then (Inl (internal ''cannot start a transaction within a transaction''), s)
      else case m (s\<lparr>store_in_tx := True\<rparr>) of
          (Inl e, t) \<Rightarrow> (Inl e, t\<lparr>store_in_tx := False, store_db := store_db s\<rparr>)
        | (Inr (Commit x), t) \<Rightarrow> (Inr x, t\<lparr>store_in_tx := False\<rparr>)
        | (Inr (Rollback x), t) \<Rightarrow> (Inr x, t\<lparr>store_in_tx := False, store_db := store_db s\<rparr>))"

definition commit :: "'a \<Rightarrow> 'a txn store_op" where
  "commit x = ret (Commit x)"

text \<open>
  An INSERT whose primary key, unique indexes and foreign keys are the condition \<open>ok\<close>; a
  violation is the database's error. \<open>the_row\<close> is \<open>query_row\<close> without \<open>optional\<close>.
\<close>

definition insert_row :: "(Db \<Rightarrow> bool) \<Rightarrow> (Db \<Rightarrow> Db) \<Rightarrow> unit store_op" where
  "insert_row ok f = bind (query ok) (\<lambda>b. seq (need b (internal ''constraint failed'')) (exec f))"

definition the_row :: "'a option \<Rightarrow> 'a res" where
  "the_row x = ok_or x (internal ''Query returned no rows'')"

text \<open>\<open>is_autocommit().then(|| write_transaction())\<close>: join the open transaction, or run one.\<close>

definition joined_transaction :: "'a store_op \<Rightarrow> 'a store_op" where
  "joined_transaction m s =
     (if store_in_tx s then m s else transaction (bind m commit) s)"

lemma conn_runs [simp]:
  "query f s = (Inr (f (store_db s)), s)"
  "query_res g s = (g (store_db s), s)"
  "exec h s = (Inr (), s\<lparr>store_db := h (store_db s)\<rparr>)"
  "commit x s = (Inr (Commit x), s)"
  "hash b s = (Inr (env_sha256 s b), s)"
  by (simp_all add: query_def query_res_def exec_def commit_def hash_def)

lemma bind_query [simp]: "bind (query f) k s = k (f (store_db s)) s"
  by (simp add: bind_def)

lemma bind_query_res:
  "bind (query_res g) k s = (case g (store_db s) of Inl e \<Rightarrow> (Inl e, s) | Inr x \<Rightarrow> k x s)"
  by (simp add: bind_def)

lemma seq_exec [simp]: "seq (exec h) k s = k (s\<lparr>store_db := h (store_db s)\<rparr>)"
  by (simp add: exec_def)

lemma now_ms_run [simp]:
  "now_ms s = (r, t) \<longleftrightarrow>
     r = Inr (env_clock s (env_reads s) mod 2 ^ 64) \<and> t = s\<lparr>env_reads := Suc (env_reads s)\<rparr>"
  by (auto simp: now_ms_def)

lemma new_id_run [simp]:
  "new_id s = (r, t) \<longleftrightarrow>
     r = Inr (env_uuids s (env_issued s)) \<and> t = s\<lparr>env_issued := Suc (env_issued s)\<rparr>"
  by (auto simp: new_id_def)

lemma insert_row_eq [simp]:
  "insert_row ok f s = (r, t) \<longleftrightarrow>
     (if ok (store_db s) then r = Inr () \<and> t = s\<lparr>store_db := f (store_db s)\<rparr>
      else r = Inl (internal ''constraint failed'') \<and> t = s)"
  by (auto simp: insert_row_def seq_def bind_def need_def)

lemma for_each_query_res:
  "for_each xs (\<lambda>x. query_res (f x)) s = (for_res (\<lambda>x. f x (store_db s)) xs, s)"
  by (induction xs) (auto simp: seq_def bind_def and_then_def split: sum.splits)

lemma the_row_Inr_iff [simp]: "the_row x = Inr y \<longleftrightarrow> x = Some y"
  by (simp add: the_row_def)

lemma bind_now_ms [simp]:
  "bind now_ms k s = k (env_clock s (env_reads s) mod 2 ^ 64) (s\<lparr>env_reads := Suc (env_reads s)\<rparr>)"
  by (simp add: bind_def now_ms_def)

lemma bind_new_id [simp]:
  "bind new_id k s = k (env_uuids s (env_issued s)) (s\<lparr>env_issued := Suc (env_issued s)\<rparr>)"
  by (simp add: bind_def new_id_def)

lemma now_ms_le: "now_ms s = (Inr n, t) \<Longrightarrow> n \<le> u64_max"
  using mod_less_divisor [of "2 ^ 64" "env_clock s (env_reads s)"]
  unfolding u64_max_def by (auto simp del: mod_less_divisor)

text \<open>A successful transaction: what its body did, and what was kept of it.\<close>

lemma transaction_Inr_iff [op_simps]:
  "transaction m s = (Inr x, t) \<longleftrightarrow>
     \<not> store_in_tx s \<and>
     (\<exists>u. m (s\<lparr>store_in_tx := True\<rparr>) = (Inr (Commit x), u) \<and> t = u\<lparr>store_in_tx := False\<rparr> \<or>
          m (s\<lparr>store_in_tx := True\<rparr>) = (Inr (Rollback x), u) \<and>
            t = u\<lparr>store_in_tx := False, store_db := store_db s\<rparr>)"
  by (auto simp: transaction_def split: prod.splits sum.splits txn.splits)

text \<open>A failed transaction leaves every table as it was.\<close>

lemma transaction_Inl_db: "transaction m s = (Inl e, t) \<Longrightarrow> store_db t = store_db s"
  by (auto simp: transaction_def split: prod.splits sum.splits txn.splits if_splits)

lemma joined_transaction_Inl_db:
  "joined_transaction m s = (Inl e, t) \<Longrightarrow> \<not> store_in_tx s \<Longrightarrow> store_db t = store_db s"
  by (simp add: joined_transaction_def transaction_Inl_db)

lemma joined_transaction_in_tx [simp]: "store_in_tx s \<Longrightarrow> joined_transaction m s = m s"
  by (simp add: joined_transaction_def)

text \<open>A body that is one step on the tables is that step, joined or in a transaction of its own.\<close>

lemma joined_step:
  assumes step: "\<And>s t. m s = (Inr u, t) \<longleftrightarrow> (\<exists>d. f (store_db s) = Inr d \<and> t = s\<lparr>store_db := d\<rparr>)"
  shows "joined_transaction m s = (Inr u, t) \<longleftrightarrow>
    (\<exists>d. f (store_db s) = Inr d \<and> t = s\<lparr>store_db := d\<rparr>)"
proof (cases "store_in_tx s")
  case True
  then show ?thesis by (simp add: step)
next
  case False
  have closed: "s\<lparr>store_in_tx := True, store_db := d, store_in_tx := False\<rparr> = s\<lparr>store_db := d\<rparr>" for d
    using False by (cases s) simp
  have "joined_transaction m s = (Inr u, t) \<longleftrightarrow>
      (\<exists>v. m (s\<lparr>store_in_tx := True\<rparr>) = (Inr u, v) \<and> t = v\<lparr>store_in_tx := False\<rparr>)"
    using False by (auto simp: joined_transaction_def transaction_Inr_iff bind_Inr_iff)
  also have "\<dots> \<longleftrightarrow> (\<exists>d. f (store_db s) = Inr d \<and> t = s\<lparr>store_db := d\<rparr>)"
    using closed by (auto simp: step)
  finally show ?thesis .
qed

section \<open>Invariants of the tables\<close>

text \<open>\<open>db_inv I\<close> is a predicate of the tables alone, so the environment never breaks it.\<close>

definition db_inv :: "(Db \<Rightarrow> bool) \<Rightarrow> World \<Rightarrow> bool" where
  "db_inv I s \<longleftrightarrow> I (store_db s)"

lemma preserves_conn [keeps_intros]:
  "preserves P (query f)" "preserves P (query_res g)" "preserves P (hash b)" "preserves P (commit x)"
  by (simp_all add: preserves_def)

lemma preserves_env [keeps_intros]:
  "preserves (db_inv I) now_ms" "preserves (db_inv I) new_id" "preserves (db_inv I) (host_call h)"
  by (simp_all add: preserves_def db_inv_def now_ms_def new_id_def host_call_def)

lemma preserves_exec [keeps_intros]:
  "(\<And>d. I d \<Longrightarrow> I (h d)) \<Longrightarrow> preserves (db_inv I) (exec h)"
  by (simp add: preserves_def db_inv_def)

lemma preserves_exec_res [keeps_intros]:
  "(\<And>d d'. I d \<Longrightarrow> h d = Inr d' \<Longrightarrow> I d') \<Longrightarrow> preserves (db_inv I) (exec_res h)"
  by (auto simp: preserves_def db_inv_def exec_res_def split: sum.splits)

lemma exec_res_eq [simp]:
  "exec_res f s = (Inr u, t) \<longleftrightarrow> (\<exists>d. f (store_db s) = Inr d \<and> t = s\<lparr>store_db := d\<rparr>)"
  "exec_res f s = (Inl e, t) \<longleftrightarrow> f (store_db s) = Inl e \<and> t = s"
  by (auto simp: exec_res_def split: sum.splits)

lemma preserves_insert_row [keeps_intros]:
  "(\<And>d. I d \<Longrightarrow> ok d \<Longrightarrow> I (f d)) \<Longrightarrow> preserves (db_inv I) (insert_row ok f)"
  by (auto simp: preserves_def db_inv_def insert_row_def seq_def bind_def need_def)

lemma preserves_transaction [keeps_intros]:
  assumes "preserves (db_inv I) m"
  shows "preserves (db_inv I) (transaction m)"
proof (rule preservesI)
  fix s r t
  assume inv: "db_inv I s" and run: "transaction m s = (r, t)"
  obtain q u where m: "m (s\<lparr>store_in_tx := True\<rparr>) = (q, u)" by (cases "m (s\<lparr>store_in_tx := True\<rparr>)")
  from inv have "db_inv I (s\<lparr>store_in_tx := True\<rparr>)" by (simp add: db_inv_def)
  then have "db_inv I u" using preservesD [OF assms _ m] by blast
  with inv run m show "db_inv I t"
    by (cases q) (auto simp: transaction_def db_inv_def split: txn.splits if_splits)
qed

lemma preserves_joined [keeps_intros]:
  assumes "preserves (db_inv I) m"
  shows "preserves (db_inv I) (joined_transaction m)"
proof -
  have "preserves (db_inv I) (transaction (bind m commit))"
    using assms by (intro keeps_intros)
  with assms show ?thesis
    by (auto simp: preserves_def joined_transaction_def)
qed

lemma preserves_db_res [keeps_intros]:
  "(\<And>x. v = Inr x \<Longrightarrow> preserves P (f x)) \<Longrightarrow> (\<And>e. v = Inl e \<Longrightarrow> preserves P (g e)) \<Longrightarrow>
     preserves P (case v of Inl e \<Rightarrow> g e | Inr x \<Rightarrow> f x)"
  by (cases v) auto

section \<open>Operations that leave the tables alone\<close>

text \<open>
  \<open>quiet m\<close>: whatever \<open>m\<close> returns, only the clock, the UUID supply and the host's call number have
  moved on.
\<close>

definition same_store :: "World \<Rightarrow> World \<Rightarrow> bool" where
  "same_store s t \<longleftrightarrow> (\<exists>n k h. t = s\<lparr>env_reads := n, env_issued := k, env_host_calls := h\<rparr>)"

definition quiet :: "'a store_op \<Rightarrow> bool" where
  "quiet m \<longleftrightarrow> (\<forall>s. same_store s (snd (m s)))"

named_theorems quiet_intros \<open>operations that leave the tables alone\<close>

lemma same_store_intro:
  "s\<lparr>env_reads := n, env_issued := k, env_host_calls := h\<rparr> = t \<Longrightarrow> same_store s t"
  by (auto simp: same_store_def)

lemma same_store_refl [simp]: "same_store s s"
  by (rule same_store_intro [where n = "env_reads s" and k = "env_issued s" and h = "env_host_calls s"]) simp

lemma same_store_clock [simp]:
  "same_store s (s\<lparr>env_reads := n\<rparr>)" "same_store s (s\<lparr>env_issued := n\<rparr>)"
  "same_store s (s\<lparr>env_host_calls := n\<rparr>)"
  by (rule same_store_intro [where n = n and k = "env_issued s" and h = "env_host_calls s"]
      same_store_intro [where n = "env_reads s" and k = n and h = "env_host_calls s"]
      same_store_intro [where n = "env_reads s" and k = "env_issued s" and h = n]; cases s; simp; fail)+

lemma same_store_trans: "same_store s t \<Longrightarrow> same_store t u \<Longrightarrow> same_store s u"
  by (force simp: same_store_def)

lemma same_storeD:
  assumes "same_store s t"
  shows "store_db t = store_db s" "store_in_tx t = store_in_tx s" "env_sha256 t = env_sha256 s"
    "env_clock t = env_clock s" "env_uuids t = env_uuids s"
  using assms by (auto simp: same_store_def)

lemma quietD: "quiet m \<Longrightarrow> m s = (r, t) \<Longrightarrow> same_store s t"
  unfolding quiet_def by (metis snd_conv)

lemma quiet_db: "quiet m \<Longrightarrow> m s = (r, t) \<Longrightarrow> store_db t = store_db s"
  by (rule same_storeD(1)) (rule quietD)

lemma quiet_pure [quiet_intros]:
  "quiet (ret x)" "quiet (throw e)" "quiet (ask f)" "quiet (lift v)" "quiet (need b e)"
  "quiet (expect w e)" "quiet skip" "quiet (query q)" "quiet (query_res p)" "quiet (hash b')"
  "quiet (validate n ok)" "quiet (commit x)"
  by (auto simp: quiet_def need_def validate_def)

lemma quiet_env [quiet_intros]: "quiet now_ms" "quiet new_id" "quiet (host_call h)"
  by (simp_all add: quiet_def now_ms_def new_id_def host_call_def)

lemma quiet_bind [quiet_intros]:
  assumes "quiet m" "\<And>x. quiet (f x)"
  shows "quiet (bind m f)"
  unfolding quiet_def
proof
  fix s
  obtain r t where m: "m s = (r, t)" by (cases "m s")
  with assms(1) have "same_store s t" by (rule quietD)
  then show "same_store s (snd (bind m f s))"
    using m assms(2) by (cases r) (auto simp: bind_def quiet_def intro: same_store_trans)
qed

lemma quiet_seq [quiet_intros]: "quiet m \<Longrightarrow> quiet n \<Longrightarrow> quiet (seq m n)"
  unfolding seq_def by (rule quiet_bind)

lemma quiet_for_each [quiet_intros]: "(\<And>x. quiet (f x)) \<Longrightarrow> quiet (for_each xs f)"
  by (induction xs) (auto intro: quiet_intros simp del: op_runs)

lemma quiet_fold_op [quiet_intros]: "(\<And>a x. quiet (f a x)) \<Longrightarrow> quiet (fold_op f acc xs)"
  by (induction xs arbitrary: acc) (auto intro: quiet_intros simp del: op_runs)

lemma quiet_attempt [quiet_intros]: "quiet m \<Longrightarrow> quiet (attempt m)" "quiet m \<Longrightarrow> quiet (succeeds m)"
  by (auto simp: quiet_def attempt_def succeeds_def split: prod.splits) (metis snd_conv)+

lemma quiet_if [quiet_intros]:
  "(b \<Longrightarrow> quiet m) \<Longrightarrow> (\<not> b \<Longrightarrow> quiet n) \<Longrightarrow> quiet (if b then m else n)"
  by simp

lemma quiet_all_op [quiet_intros]:
  assumes "\<And>x. quiet (f x)"
  shows "quiet (all_op f xs)"
  by (induction xs) (unfold all_op.simps, (intro quiet_intros assms; assumption)+)

lemma quiet_option [quiet_intros]:
  "quiet m \<Longrightarrow> (\<And>x. quiet (f x)) \<Longrightarrow> quiet (case v of None \<Rightarrow> m | Some x \<Rightarrow> f x)"
  by (cases v) auto

lemma quiet_res [quiet_intros]:
  "(\<And>e. quiet (g e)) \<Longrightarrow> (\<And>x. quiet (f x)) \<Longrightarrow> quiet (case v of Inl e \<Rightarrow> g e | Inr x \<Rightarrow> f x)"
  by (cases v) auto

lemma quiet_preserves: "quiet m \<Longrightarrow> preserves (db_inv I) m"
  by (rule preservesI) (simp add: db_inv_def quiet_db)

section \<open>Decisive writes\<close>

text \<open>
  \<open>leads I J m\<close>: from tables in \<open>I\<close> the operation leaves tables in \<open>J\<close>, on success and on
  failure. The operations before the decisive write preserve \<open>I\<close>, and a read fixes the tables.
\<close>

definition leads :: "(Db \<Rightarrow> bool) \<Rightarrow> (Db \<Rightarrow> bool) \<Rightarrow> 'a store_op \<Rightarrow> bool" where
  "leads I J m \<longleftrightarrow> (\<forall>s. I (store_db s) \<longrightarrow> J (store_db (snd (m s))))"

named_theorems leads_intros \<open>composition up to a decisive write\<close>

lemma preserves_leads: "preserves (db_inv I) m \<longleftrightarrow> leads I I m"
  by (simp add: leads_def preserves_def db_inv_def)

lemma leads_weaken: "leads I' J m \<Longrightarrow> (\<And>d. I d \<Longrightarrow> I' d) \<Longrightarrow> leads I J m"
  by (simp add: leads_def)

lemma leads_quiet: "quiet m \<Longrightarrow> (\<And>d. I d \<Longrightarrow> J d) \<Longrightarrow> leads I J m"
  unfolding leads_def by (metis prod.collapse quiet_db)

lemma leads_query [leads_intros]:
  "(\<And>d. I d \<Longrightarrow> leads (\<lambda>d'. d' = d) J (f (g d))) \<Longrightarrow> leads I J (bind (query g) f)"
  by (simp add: leads_def)

lemma leads_query_res [leads_intros]:
  "(\<And>d e. I d \<Longrightarrow> g d = Inl e \<Longrightarrow> J d) \<Longrightarrow>
   (\<And>d x. I d \<Longrightarrow> g d = Inr x \<Longrightarrow> leads (\<lambda>d'. d' = d) J (f x)) \<Longrightarrow>
     leads I J (bind (query_res g) f)"
  by (auto simp: leads_def bind_query_res split: sum.splits)

lemma leads_need [leads_intros]:
  "(\<And>d. I d \<Longrightarrow> \<not> b \<Longrightarrow> J d) \<Longrightarrow> (b \<Longrightarrow> leads I J n) \<Longrightarrow> leads I J (seq (need b e) n)"
  by (auto simp: leads_def seq_def bind_def need_def)

lemma leads_lift [leads_intros]:
  "(\<And>d e. I d \<Longrightarrow> v = Inl e \<Longrightarrow> J d) \<Longrightarrow> (\<And>x. v = Inr x \<Longrightarrow> leads I J (f x)) \<Longrightarrow>
     leads I J (bind (lift v) f)"
  by (cases v) (auto simp: leads_def bind_def)

lemma leads_now [leads_intros]: "(\<And>n. leads I J (f n)) \<Longrightarrow> leads I J (bind now_ms f)"
  by (simp add: leads_def)

lemma leads_new_id [leads_intros]: "(\<And>i. leads I J (f i)) \<Longrightarrow> leads I J (bind new_id f)"
  by (simp add: leads_def)

lemma leads_ask [leads_intros]: "(\<And>x. leads I J (f x)) \<Longrightarrow> leads I J (bind (ask g) f)"
  by (simp add: leads_def)

lemma leads_exec_then [leads_intros]:
  assumes "leads (\<lambda>d'. \<exists>d. I d \<and> d' = h d) J n"
  shows "leads I J (seq (exec h) n)"
  unfolding leads_def
proof (intro allI impI)
  fix s :: World assume "I (store_db s)"
  then show "J (store_db (snd (seq (exec h) n s)))"
    using assms [unfolded leads_def, rule_format, of "s\<lparr>store_db := h (store_db s)\<rparr>"] by auto
qed

lemma leads_exec_res [leads_intros]:
  assumes "\<And>d. I d \<Longrightarrow> J d" "leads (\<lambda>d'. \<exists>d. I d \<and> h d = Inr d') J n"
  shows "leads I J (seq (exec_res h) n)"
  unfolding leads_def
proof (intro allI impI)
  fix s :: World assume "I (store_db s)"
  then show "J (store_db (snd (seq (exec_res h) n s)))"
    using assms(1) assms(2) [unfolded leads_def, rule_format, of "s\<lparr>store_db := d\<rparr>" for d]
    by (auto simp: seq_def bind_def exec_res_def split: sum.splits)
qed

lemma leads_exec: "(\<And>d. I d \<Longrightarrow> J (h d)) \<Longrightarrow> leads I J (exec h)"
  by (simp add: leads_def)

lemma leads_option [leads_intros]:
  "(v = None \<Longrightarrow> leads I J m) \<Longrightarrow> (\<And>x. v = Some x \<Longrightarrow> leads I J (f x)) \<Longrightarrow>
     leads I J (case v of None \<Rightarrow> m | Some x \<Rightarrow> f x)"
  by (cases v) simp_all

lemma leads_if [leads_intros]:
  "(b \<Longrightarrow> leads I J m) \<Longrightarrow> (\<not> b \<Longrightarrow> leads I J n) \<Longrightarrow> leads I J (if b then m else n)"
  by simp

lemma leads_pure [leads_intros]:
  assumes "\<And>d. I d \<Longrightarrow> J d"
  shows "leads I J (ret x)" "leads I J (throw e)" "leads I J (commit y)"
  using assms by (simp_all add: leads_def)

lemma leads_insert_row [leads_intros]:
  "(\<And>d. I d \<Longrightarrow> J d) \<Longrightarrow> (\<And>d. I d \<Longrightarrow> ok d \<Longrightarrow> J (f d)) \<Longrightarrow> leads I J (insert_row ok f)"
  by (auto simp: leads_def insert_row_def seq_def bind_def need_def)

lemma leads_transaction [leads_intros]: "leads I I m \<Longrightarrow> leads I I (transaction m)"
  using preserves_transaction by (simp add: preserves_leads)

lemma leads_bind:
  "(\<And>d. I d \<Longrightarrow> J d) \<Longrightarrow> preserves (db_inv I) m \<Longrightarrow> (\<And>x. leads I J (f x)) \<Longrightarrow> leads I J (bind m f)"
  by (force simp: leads_def preserves_def db_inv_def bind_def split: prod.splits sum.splits)

lemma leads_seq:
  "(\<And>d. I d \<Longrightarrow> J d) \<Longrightarrow> preserves (db_inv I) m \<Longrightarrow> leads I J n \<Longrightarrow> leads I J (seq m n)"
  unfolding seq_def by (rule leads_bind)

lemma leads_then: "leads I J m \<Longrightarrow> preserves (db_inv J) n \<Longrightarrow> leads I J (seq m n)"
  by (force simp: leads_def preserves_def db_inv_def seq_def bind_def split: prod.splits sum.splits)

lemma leads_exec_keeps:
  "(\<And>d. I d \<Longrightarrow> J (h d)) \<Longrightarrow> preserves (db_inv J) n \<Longrightarrow> leads I J (seq (exec h) n)"
  by (rule leads_then [OF leads_exec])

lemma leads_bind_then: "leads I J m \<Longrightarrow> (\<And>x. preserves (db_inv J) (f x)) \<Longrightarrow> leads I J (bind m f)"
  by (force simp: leads_def preserves_def db_inv_def bind_def split: prod.splits sum.splits)

lemma leads_insert_then:
  "(\<And>d. I d \<Longrightarrow> J d) \<Longrightarrow> leads (\<lambda>d'. \<exists>d. I d \<and> ok d \<and> d' = f d) J n \<Longrightarrow>
     leads I J (seq (insert_row ok f) n)"
  unfolding leads_def insert_row_def
proof (intro allI impI)
  fix s :: World assume keep: "\<And>d. I d \<Longrightarrow> J d" and I: "I (store_db s)"
    and n: "\<forall>s. (\<exists>d. I d \<and> ok d \<and> store_db s = f d) \<longrightarrow> J (store_db (snd (n s)))"
  show "J (store_db (snd (seq (bind (query ok) (\<lambda>b. seq (need b (internal ''constraint failed'')) (exec f))) n s)))"
    using keep [OF I] I n [rule_format, of "s\<lparr>store_db := f (store_db s)\<rparr>"]
    by (auto simp: seq_def bind_def need_def)
qed

lemma leads_read:
  assumes "quiet m" "\<And>s x t. m s = (Inr x, t) \<Longrightarrow> Q x" "\<And>d. I d \<Longrightarrow> J d"
    and "\<And>x. Q x \<Longrightarrow> leads I J (f x)"
  shows "leads I J (bind m f)"
  unfolding leads_def
proof (intro allI impI)
  fix s :: World assume I: "I (store_db s)"
  obtain r t where run: "m s = (r, t)" by (cases "m s") simp
  have "store_db t = store_db s" using quiet_db [OF assms(1) run] .
  with I run assms(2-4) show "J (store_db (snd (bind m f s)))"
    by (cases r) (auto simp: bind_def leads_def)
qed

section \<open>Returned values\<close>

text \<open>\<open>yields I Q m\<close>: from tables in \<open>I\<close>, a value the operation returns satisfies \<open>Q\<close>.\<close>

definition yields :: "(Db \<Rightarrow> bool) \<Rightarrow> ('a \<Rightarrow> bool) \<Rightarrow> 'a store_op \<Rightarrow> bool" where
  "yields I Q m \<longleftrightarrow> (\<forall>s x t. I (store_db s) \<longrightarrow> m s = (Inr x, t) \<longrightarrow> Q x)"

named_theorems yields_intros \<open>composition of claims about returned values\<close>

lemma yieldsD: "yields I Q m \<Longrightarrow> I (store_db s) \<Longrightarrow> m s = (Inr x, t) \<Longrightarrow> Q x"
  by (auto simp: yields_def)

lemma yields_bind [yields_intros]:
  assumes "preserves (db_inv I) m" "\<And>x. yields I Q (f x)"
  shows "yields I Q (bind m f)"
  unfolding yields_def
proof (intro allI impI)
  fix s y u assume "I (store_db s)" "bind m f s = (Inr y, u)"
  then obtain x t where m: "m s = (Inr x, t)" "f x t = (Inr y, u)" and "db_inv I s"
    by (auto simp: bind_Inr_iff db_inv_def)
  then have "db_inv I t" using preservesD [OF assms(1)] by blast
  with m assms(2) [of x] show "Q y" by (auto simp: yields_def db_inv_def)
qed

lemma yields_seq [yields_intros]:
  "preserves (db_inv I) m \<Longrightarrow> yields I Q n \<Longrightarrow> yields I Q (seq m n)"
  unfolding seq_def by (rule yields_bind)

lemma yields_query [yields_intros]:
  "(\<And>d. I d \<Longrightarrow> yields (\<lambda>d'. d' = d) Q (f (g d))) \<Longrightarrow> yields I Q (bind (query g) f)"
  by (simp add: yields_def)

lemma yields_query_res [yields_intros]:
  "(\<And>d x. I d \<Longrightarrow> g d = Inr x \<Longrightarrow> yields (\<lambda>d'. d' = d) Q (f x)) \<Longrightarrow>
     yields I Q (bind (query_res g) f)"
  by (auto simp: yields_def bind_query_res split: sum.splits)

lemma yields_need [yields_intros]: "(b \<Longrightarrow> yields I Q n) \<Longrightarrow> yields I Q (seq (need b e) n)"
  by (auto simp: yields_def seq_Inr_iff split: if_splits)

lemma yields_expect [yields_intros]:
  "(\<And>x. v = Some x \<Longrightarrow> yields I Q (f x)) \<Longrightarrow> yields I Q (bind (expect v e) f)"
  by (cases v) (auto simp: yields_def bind_def)

lemma yields_pure [yields_intros]:
  "(\<And>d. I d \<Longrightarrow> Q x) \<Longrightarrow> yields I Q (ret x)" "yields I Q (throw e)"
  "(\<And>d. I d \<Longrightarrow> Q (Commit y)) \<Longrightarrow> yields I Q (commit y)"
  by (auto simp: yields_def)

lemma yields_transaction [yields_intros]:
  assumes "yields I (\<lambda>v. case v of Commit x \<Rightarrow> Q x | Rollback x \<Rightarrow> Q x) m"
  shows "yields I Q (transaction m)"
  unfolding yields_def
proof (intro allI impI)
  fix s :: World and x t assume "I (store_db s)" "transaction m s = (Inr x, t)"
  then show "Q x"
    using assms [unfolded yields_def, rule_format, of "s\<lparr>store_in_tx := True\<rparr>"]
    by (auto simp: transaction_Inr_iff)
qed

end
