(* ===== verification/Grants.thy ===== *)
theory Grants
  imports Database
begin

text \<open>
  crates/ribosome-core/src/store.rs: registration and lookup of the owner's grants, and the
  contract it shares with the other append-only registries (evidence, discovery corpora,
  allocation identities): an identity is bound once and for all.
\<close>

section \<open>Immutable registries\<close>

text \<open>
  The interface: a successful registration binds the key, and no run of the operation, successful
  or not, changes what another or the same key was bound to. \<open>invar\<close> is what the provider keeps
  of its table.
\<close>

locale immutable_registry =
  fixes invar :: "Db \<Rightarrow> bool"
    and lookup :: "Db \<Rightarrow> 'k \<Rightarrow> 'v option"
    and register :: "'v \<Rightarrow> 'r store_op"
    and key :: "'v \<Rightarrow> 'k"
  assumes register_invar: "preserves (db_inv invar) (register v)"
    and register_binds:
      "invar (store_db s) \<Longrightarrow> register v s = (Inr r, t) \<Longrightarrow> lookup (store_db t) (key v) = Some v"
    and register_keeps:
      "lookup (store_db s) k = Some w \<Longrightarrow> register v s = (q, t) \<Longrightarrow> lookup (store_db t) k = Some w"
begin

lemma rebinding_refused:
  assumes "invar (store_db s)" "lookup (store_db s) (key v) = Some w" "w \<noteq> v"
  shows "\<exists>e t. register v s = (Inl e, t)"
proof (cases "fst (register v s)")
  case (Inl e)
  then show ?thesis by (metis prod.collapse)
next
  case (Inr r)
  then have run: "register v s = (Inr r, snd (register v s))" by (metis prod.collapse)
  with assms register_binds register_keeps show ?thesis by (metis option.inject)
qed

lemma register_all_keeps:
  "lookup (store_db s) k = Some w \<Longrightarrow>
     for_each vs (\<lambda>v. bind (register v) (\<lambda>_. skip)) s = (r, t) \<Longrightarrow>
     lookup (store_db t) k = Some w"
proof (induction vs arbitrary: s r t)
  case Nil
  then show ?case by simp
next
  case (Cons v vs)
  obtain q u where v: "register v s = (q, u)" by (cases "register v s")
  with Cons.prems(1) register_keeps have u: "lookup (store_db u) k = Some w" by blast
  show ?case
  proof (cases q)
    case (Inl e)
    with v u Cons.prems(2) show ?thesis by (simp add: seq_def bind_def)
  next
    case (Inr x)
    with v have "seq (bind (register v) (\<lambda>_. skip)) n s = n u" for n :: "unit store_op"
      by (simp add: seq_def bind_def)
    with Cons.prems(2) have "for_each vs (\<lambda>v. bind (register v) (\<lambda>_. skip)) u = (r, t)"
      by (simp only: for_each.simps)
    with u show ?thesis by (rule Cons.IH)
  qed
qed

end

section \<open>Grants\<close>

definition grant_body :: "Db \<Rightarrow> string \<Rightarrow> Grant option" where
  "grant_body d i = map_option gr_body (List.find (\<lambda>r. gr_id r = i) (grants d))"

definition register_grant :: "Grant \<Rightarrow> unit store_op" where
  "register_grant grant =
     seq (validate ''Grant'' (valid_Grant grant)) (
     seq (need (g_prepared_run grant = None)
            (invalid ''prepared_run is derived by Rust, not a registered grant setting'')) (
     bind (lift (counter (b_deadline_ms (g_budget grant)))) (\<lambda>deadline.
     bind now_ms (\<lambda>now.
     seq (need (now < deadline) (invalid ''grant already expired'')) (
     bind (query (\<lambda>d. grant_body d (g_id grant))) (\<lambda>existing.
     case existing of
       Some body \<Rightarrow> need (body = grant) (conflict ''grant IDs are immutable'')
     | None \<Rightarrow>
         exec (\<lambda>d. d\<lparr>grants := grants d @ [\<lparr>gr_id = g_id grant, gr_body = grant\<rparr>]\<rparr>)))))))"

definition store_grant :: "string \<Rightarrow> Db \<Rightarrow> Grant res" where
  "store_grant i d = ok_or (grant_body d i) (missing ''grant not found'')"

lemma grant_body_append:
  "grant_body (d\<lparr>grants := grants d @ [r]\<rparr>) i =
     (case grant_body d i of None \<Rightarrow> (if gr_id r = i then Some (gr_body r) else None) | Some g \<Rightarrow> Some g)"
  by (simp add: grant_body_def find_append split: option.splits)

lemma register_grant_Inr_iff:
  "register_grant g s = (Inr u, t) \<longleftrightarrow>
     valid_Grant g \<and> g_prepared_run g = None \<and>
     (\<exists>deadline. counter (b_deadline_ms (g_budget g)) = Inr deadline \<and>
        env_clock s (env_reads s) mod 2 ^ 64 < deadline) \<and>
     (case grant_body (store_db s) (g_id g) of
        Some body \<Rightarrow> body = g \<and> t = s\<lparr>env_reads := Suc (env_reads s)\<rparr>
      | None \<Rightarrow> t = s\<lparr>env_reads := Suc (env_reads s),
          store_db := (store_db s)\<lparr>grants := grants (store_db s) @ [\<lparr>gr_id = g_id g, gr_body = g\<rparr>]\<rparr>\<rparr>)"
  by (auto simp: register_grant_def op_simps split: option.splits if_splits)

lemma register_grant_keeps:
  assumes "grant_body (store_db s) k = Some w" "register_grant v s = (r, t)"
  shows "grant_body (store_db t) k = Some w"
  using assms
  by (auto simp: register_grant_def seq_def bind_def lift_def now_ms_def need_def validate_def
      grant_body_append exec_def split: if_splits sum.splits option.splits)

definition grants_ok :: "Db \<Rightarrow> bool" where
  "grants_ok d \<longleftrightarrow>
     distinct (map gr_id (grants d)) \<and> (\<forall>r \<in> set (grants d). gr_id r = g_id (gr_body r))"

lemma grants_ok_append:
  assumes "grants_ok d" "grant_body d (g_id g) = None"
  shows "grants_ok (d\<lparr>grants := grants d @ [\<lparr>gr_id = g_id g, gr_body = g\<rparr>]\<rparr>)"
  using assms by (auto simp: grants_ok_def grant_body_def find_None_iff2)

lemma grants_ok_id: "grants_ok d \<Longrightarrow> grant_body d i = Some g \<Longrightarrow> g_id g = i"
  by (auto simp: grants_ok_def grant_body_def dest!: find_Some_iff2)

lemma register_grant_ok: "preserves (db_inv grants_ok) (register_grant g)"
proof (rule preservesI)
  fix s r t
  assume inv: "db_inv grants_ok s" and run: "register_grant g s = (r, t)"
  then have "store_db t = store_db s \<or> grant_body (store_db s) (g_id g) = None \<and>
      store_db t = (store_db s)\<lparr>grants := grants (store_db s) @ [\<lparr>gr_id = g_id g, gr_body = g\<rparr>]\<rparr>"
    by (auto simp: register_grant_def seq_def bind_def lift_def now_ms_def need_def validate_def
        exec_def split: if_splits sum.splits option.splits)
  with inv show "db_inv grants_ok t" by (auto simp: db_inv_def grants_ok_append)
qed

interpretation grant_registry: immutable_registry grants_ok grant_body register_grant g_id
proof unfold_locales
  fix v
  show "preserves (db_inv grants_ok) (register_grant v)" by (rule register_grant_ok)
next
  fix v s and r :: unit and t
  assume "register_grant v s = (Inr r, t)"
  then show "grant_body (store_db t) (g_id v) = Some v"
    by (auto simp: register_grant_Inr_iff grant_body_append split: option.splits)
next
  fix s k w v and r :: "unit res" and t
  assume "grant_body (store_db s) k = Some w" "register_grant v s = (r, t)"
  then show "grant_body (store_db t) k = Some w" by (rule register_grant_keeps)
qed

text \<open>A grant that was found is found again after any registration.\<close>

lemma grant_stable:
  "store_grant i (store_db s) = Inr g \<Longrightarrow> register_grant v s = (r, t) \<Longrightarrow> store_grant i (store_db t) = Inr g"
  by (auto simp: store_grant_def intro: register_grant_keeps)

end
