(* ===== verification/Corpus.thy ===== *)
theory Corpus
  imports Grants
begin

text \<open>
  crates/ribosome-core/src/discovery_corpus.rs: the narrowing of a grant to a host-assigned
  discovery corpus, and the test that a source lies inside it. Registration of a corpus replays the
  motif checks of its events and definitions and is in Motifs.
\<close>

definition corpus_operator_allowed :: "Profile \<Rightarrow> string \<Rightarrow> bool" where
  "corpus_operator_allowed profile operator \<longleftrightarrow>
     profile = Profile.Curator \<or> profile = Profile.Caretaker \<and> operator = ''proofreading@1''"

definition discovery_corpus :: "Grant \<Rightarrow> VersionRef \<Rightarrow> Db \<Rightarrow> DiscoveryCorpus res" where
  "discovery_corpus grant reference d =
     ok_or (map_option cor_body (List.find (\<lambda>r.
         cor_client r = sc_client (g_scope grant) \<and> cor_project r = sc_project (g_scope grant) \<and>
         cor_id r = vr_id reference \<and> cor_version r = vr_version reference) (discovery_corpora d)))
       (missing ''discovery corpus is not registered in this scope'')"

definition selects_event :: "DiscoveryCorpus \<Rightarrow> string \<Rightarrow> bool" where
  "selects_event corpus event \<longleftrightarrow>
     list_ex (\<lambda>window. list_ex (\<lambda>i. i = event) (dw_event_refs window)) (dc_source_windows corpus)"

definition require_corpus_event :: "Grant \<Rightarrow> string \<Rightarrow> Db \<Rightarrow> unit res" where
  "require_corpus_event grant event d =
     (case g_discovery_corpus grant of
        None \<Rightarrow> Inr ()
      | Some reference \<Rightarrow>
          and_then (discovery_corpus grant reference d) (\<lambda>corpus.
          guard (selects_event corpus event)
            (denied ''event is outside the host-assigned corpus windows'')))"

definition discovery_grant :: "Grant \<Rightarrow> VersionRef option \<Rightarrow> Db \<Rightarrow> Grant res" where
  "discovery_grant grant requested d =
     (if (case (g_discovery_corpus grant, requested) of
            (Some root, Some request) \<Rightarrow> root \<noteq> request | _ \<Rightarrow> False)
      then Inl (denied (''run cannot replace the root grant''@ CHR 0x27 #
              ''s discovery corpus''))
      else
        let effective = grant\<lparr>g_discovery_corpus :=
              (case requested of Some r \<Rightarrow> Some r | None \<Rightarrow> g_discovery_corpus grant)\<rparr>
        in case g_discovery_corpus effective of
             None \<Rightarrow> Inr effective
           | Some reference \<Rightarrow>
               and_then (discovery_corpus grant reference d) (\<lambda>corpus.
               Inr (effective\<lparr>
                 g_mode := Mode.Observe,
                 g_tools := [],
                 g_writable_paths := Some [],
                 g_paths := filter (\<lambda>path.
                   list_ex (\<lambda>a. ar_path (ca_artifact a) = path) (dc_artifacts corpus))
                   (g_paths effective)\<rparr>)))"

text \<open>
  \<open>run_uses_discovery_corpus\<close>: the run's own request, or the parent's for work not yet begun,
  names the grant's corpus (the request's choice first, then the stored grant's).
\<close>

definition effective_corpus_of_run :: "Db \<Rightarrow> RunRow \<Rightarrow> VersionRef option" where
  "effective_corpus_of_run d r =
     (case rq_discovery_corpus (rr_request r) of
        Some c \<Rightarrow> Some c
      | None \<Rightarrow> Option.bind (grant_body d (rr_grant_id r)) g_discovery_corpus)"

definition run_uses_discovery_corpus :: "Grant \<Rightarrow> string \<Rightarrow> Db \<Rightarrow> bool res" where
  "run_uses_discovery_corpus grant run d =
     and_then (ok_or (g_discovery_corpus grant) (internal ''missing discovery authority'')) (\<lambda>reference.
     Inr (exists_where (\<lambda>r.
       rr_grant_id r = g_id grant \<and> grant_body d (rr_grant_id r) \<noteq> None \<and>
       (rr_id r = run \<or>
        \<not> exists_where (\<lambda>q. rr_id q = run) (runs d) \<and>
        exists_where (\<lambda>w. wk_id w = run \<and> wk_grant_id w = g_id grant \<and>
          w_parent_id (wk_body w) = rr_id r) (work d)) \<and>
       effective_corpus_of_run d r = Some reference) (runs d)))"

definition pinned_definition :: "DiscoveryCorpus \<Rightarrow> string \<Rightarrow> Db \<Rightarrow> bool" where
  "pinned_definition corpus i d =
     (case List.find (\<lambda>r. vr_id r = i) (dc_definition_refs corpus) of
        None \<Rightarrow> False
      | Some selected \<Rightarrow>
          Option.bind (List.find (\<lambda>r. rec_id r = i \<and> rec_kind r = RecordKind.Definition) (records d))
            (\<lambda>r. as_str (json_get (JObject (r_body (rec_body r))) ''version''))
          = Some (vr_version selected))"

definition submitting_runs :: "string \<Rightarrow> Db \<Rightarrow> string list" where
  "submitting_runs i d = remdups (List.map_filter as_result_run_id
     (filter (\<lambda>a. as_result_method a = Some ''record.submit'' \<and>
        list_ex (\<lambda>s. cs_kind s = ContextSourceKind.Record \<and> cs_id s = i) (as_result_sources a))
      (artifact_snapshots d)))"

definition corpus_artifact_allowed :: "Grant \<Rightarrow> DiscoveryCorpus \<Rightarrow> string \<Rightarrow> Db \<Rightarrow> bool res" where
  "corpus_artifact_allowed grant corpus i d =
     (case List.find (\<lambda>a. as_id a = i) (artifact_snapshots d) of
        None \<Rightarrow> Inr False
      | Some row \<Rightarrow>
          if list_ex (\<lambda>a. ca_snapshot_id a = i \<and> ar_path (ca_artifact a) = as_path row \<and>
               ar_version (ca_artifact a) = as_version row) (dc_artifacts corpus)
          then Inr True
          else case as_result_run_id row of
              Some run \<Rightarrow> run_uses_discovery_corpus grant run d
            | None \<Rightarrow> Inr (as_export_file row = None \<and>
                list_ex (\<lambda>a. ar_path (ca_artifact a) = as_path row \<and>
                  ar_version (ca_artifact a) = as_version row) (dc_artifacts corpus)))"

definition require_discovery_source_in ::
    "Grant \<Rightarrow> DiscoveryCorpus \<Rightarrow> string \<Rightarrow> string \<Rightarrow> Db \<Rightarrow> unit res" where
  "require_discovery_source_in grant corpus kind i d =
     and_then
       (if kind = ''event'' then
          and_then (case List.find (\<lambda>e. er_id e = i) (events d) of
              None \<Rightarrow> Inr False
            | Some e \<Rightarrow> if selects_event corpus i then Inr False
                else run_uses_discovery_corpus grant (er_run_id e) d) (\<lambda>used.
          Inr (selects_event corpus i \<or> used))
        else if kind = ''record'' then
          and_then (any_res (\<lambda>run. run_uses_discovery_corpus grant run d) (submitting_runs i d))
            (\<lambda>produced. Inr (pinned_definition corpus i d \<or> produced))
        else if kind = ''artifact'' then corpus_artifact_allowed grant corpus i d
        else Inr False) (\<lambda>allowed.
     guard allowed (denied (''source '' @ i @ '' is outside the host-assigned discovery corpus'')))"

definition require_discovery_sources :: "Grant \<Rightarrow> (string \<times> string) list \<Rightarrow> Db \<Rightarrow> unit res" where
  "require_discovery_sources grant sources d =
     (case g_discovery_corpus grant of
        None \<Rightarrow> Inr ()
      | Some reference \<Rightarrow>
          and_then (discovery_corpus grant reference d) (\<lambda>corpus.
          for_res (\<lambda>(kind, i). require_discovery_source_in grant corpus kind i d) sources))"

definition require_discovery_artifact :: "Grant \<Rightarrow> ArtifactRef \<Rightarrow> Db \<Rightarrow> unit res" where
  "require_discovery_artifact grant artifact d =
     (case g_discovery_corpus grant of
        None \<Rightarrow> Inr ()
      | Some reference \<Rightarrow>
          and_then (discovery_corpus grant reference d) (\<lambda>corpus.
          guard (list_ex (\<lambda>a. ca_artifact a = artifact) (dc_artifacts corpus))
            (denied ''artifact version is outside the host-assigned discovery corpus'')))"

section \<open>A corpus only narrows authority\<close>

text \<open>
  \<open>narrows g h\<close>: \<open>h\<close> is the same identity and scope as \<open>g\<close> with no more tools, paths,
  splits or effects.
\<close>

definition narrows :: "Grant \<Rightarrow> Grant \<Rightarrow> bool" where
  "narrows g h \<longleftrightarrow>
     g_id h = g_id g \<and> g_scope h = g_scope g \<and> g_budget h = g_budget g \<and>
     g_visible_splits h = g_visible_splits g \<and> g_profiles h = g_profiles g \<and>
     set (g_paths h) \<subseteq> set (g_paths g) \<and> set (g_tools h) \<subseteq> set (g_tools g) \<and>
     (g_mode h = g_mode g \<or> g_mode h = Mode.Observe)"

lemma narrows_refl [simp]: "narrows g g"
  by (simp add: narrows_def)

lemma narrows_trans: "narrows f g \<Longrightarrow> narrows g h \<Longrightarrow> narrows f h"
  by (auto simp: narrows_def)

lemma narrowsD:
  assumes "narrows g h"
  shows "g_id h = g_id g" "g_scope h = g_scope g" "g_budget h = g_budget g"
    "g_visible_splits h = g_visible_splits g"
  using assms by (simp_all add: narrows_def)

lemma discovery_grant_narrows: "discovery_grant g requested d = Inr h \<Longrightarrow> narrows g h"
  by (auto simp: discovery_grant_def narrows_def Let_def split: if_splits option.splits)

lemma discovery_grant_cases:
  assumes "discovery_grant g requested d = Inr h"
  shows "g_discovery_corpus h = (case requested of Some r \<Rightarrow> Some r | None \<Rightarrow> g_discovery_corpus g)"
    and "g_discovery_corpus g = Some c \<Longrightarrow> g_discovery_corpus h = Some c"
    and "g_discovery_corpus h = Some c \<Longrightarrow>
      g_mode h = Mode.Observe \<and> g_tools h = [] \<and> g_writable_paths h = Some []"
  using assms by (auto simp: discovery_grant_def Let_def split: if_splits option.splits)

end
