(* ===== verification/Authority.thy ===== *)
theory Authority
  imports Corpus
begin

text \<open>
  The authority a run acts under: its grant narrowed to its corpus and marked with its prepared
  operator (runs.rs, \<open>run_grant\<close>), its pinned invocation (invocation.rs, \<open>run_invocation\<close>)
  and its attachment (attachments/mod.rs, \<open>attachment\<close> and \<open>run_attachment\<close>).
\<close>

definition run_row :: "Db \<Rightarrow> string \<Rightarrow> RunRow option" where
  "run_row d run = List.find (\<lambda>r. rr_id r = run) (runs d)"

definition prepared_operator :: "string \<Rightarrow> bool" where
  "prepared_operator operator \<longleftrightarrow> operator = ''execute-motif@1'' \<or> operator = ''recombination@1''"

definition run_grant :: "string \<Rightarrow> Db \<Rightarrow> Grant res" where
  "run_grant run_id d =
     and_then (ok_or (run_row d run_id) (missing ''run not found'')) (\<lambda>row.
     and_then (store_grant (rr_grant_id row) d) (\<lambda>root.
     and_then (discovery_grant root (rq_discovery_corpus (rr_request row)) d) (\<lambda>grant.
     Inr (if prepared_operator (rq_operator (rr_request row))
          then grant\<lparr>g_prepared_run := Some run_id\<rparr> else grant))))"

definition run_invocation :: "string \<Rightarrow> Db \<Rightarrow> ImplementationInvocation option" where
  "run_invocation run d = Option.bind (run_row d run) (\<lambda>r. rq_invocation (rr_request r))"

definition attachment :: "string \<Rightarrow> Db \<Rightarrow> Attachment res" where
  "attachment i d =
     and_then (ok_or (List.find (\<lambda>r. atr_id r = i) (attachments d)) (missing ''attachment not found''))
       (\<lambda>row.
     and_then (the_row (List.find (\<lambda>r. sub_id r = i) (subscriptions d))) (\<lambda>sub.
     Inr ((atr_body row)\<lparr>at_cursor := sub_cursor sub\<rparr>)))"

definition run_attachment :: "string \<Rightarrow> Db \<Rightarrow> Attachment option res" where
  "run_attachment run_id d =
     (case List.find (\<lambda>r. aw_work_id r = run_id) (attachment_work d) of
        None \<Rightarrow> Inr None
      | Some row \<Rightarrow> and_then (attachment (aw_attachment_id row) d) (\<lambda>a. Inr (Some a)))"

text \<open>A coordinated repair in progress: the attachment's handoff is not released.\<close>

definition repair_in_progress :: "Attachment option \<Rightarrow> bool" where
  "repair_in_progress a =
     (case Option.bind a at_handoff of
        None \<Rightarrow> False | Some h \<Rightarrow> rh_state h \<noteq> RepairHandoffState.Released)"

section \<open>A run's authority is its owner's, at most\<close>

lemma run_grant_narrows:
  assumes "run_grant run d = Inr g"
  obtains row root where "run_row d run = Some row" "grant_body d (rr_grant_id row) = Some root"
    "narrows root g"
proof -
  from assms obtain row root h where *: "run_row d run = Some row"
    "grant_body d (rr_grant_id row) = Some root"
    "discovery_grant root (rq_discovery_corpus (rr_request row)) d = Inr h"
    "g = (if prepared_operator (rq_operator (rr_request row))
          then h\<lparr>g_prepared_run := Some run\<rparr> else h)"
    by (auto simp: run_grant_def store_grant_def)
  from discovery_grant_narrows [OF *(3)] *(4) have "narrows root g"
    by (auto simp: narrows_def)
  with * that show ?thesis by blast
qed

lemma run_grant_id:
  "run_grant run d = Inr g \<Longrightarrow> run_row d run = Some row \<Longrightarrow>
     (\<forall>i root. grant_body d i = Some root \<longrightarrow> g_id root = i) \<Longrightarrow> g_id g = rr_grant_id row"
  by (metis narrowsD(1) option.inject run_grant_narrows)

end
