(* ===== verification/Allocations.thy ===== *)
theory Allocations
  imports Authority
begin

text \<open>
  crates/ribosome-core/src/allocations.rs: the tree of budget allocations under each grant, its
  ledger, and the ceilings a new reservation is checked against.
\<close>

section \<open>Model\<close>

definition allocation_id :: "(string \<Rightarrow> string) \<Rightarrow> string \<Rightarrow> string \<Rightarrow> string" where
  "allocation_id digest kind cause = kind @ '':'' @ digest cause"

definition allocation_row :: "Db \<Rightarrow> string \<Rightarrow> AllocationRow option" where
  "allocation_row d i = List.find (\<lambda>r. al_id r = i) (budget_allocations d)"

definition allocation :: "Grant \<Rightarrow> string \<Rightarrow> Db \<Rightarrow> BudgetAllocation res" where
  "allocation grant i d =
     ok_or (map_option al_body
         (List.find (\<lambda>r. al_id r = i \<and> al_grant_id r = g_id grant) (budget_allocations d)))
       (missing ''allocation not found in grant'')"

definition insert_allocation :: "AllocationRow \<Rightarrow> Db \<Rightarrow> Db" where
  "insert_allocation r d = d\<lparr>budget_allocations := budget_allocations d @ [r]\<rparr>"

definition allocation_keys_ok :: "AllocationRow \<Rightarrow> Db \<Rightarrow> bool" where
  "allocation_keys_ok r d \<longleftrightarrow>
     \<not> exists_where (\<lambda>q. al_id q = al_id r) (budget_allocations d) \<and>
     (al_parent_id r = None \<longrightarrow>
        \<not> exists_where (\<lambda>q. al_grant_id q = al_grant_id r \<and> al_parent_id q = None)
            (budget_allocations d))"

definition allocation_refs_ok :: "AllocationRow \<Rightarrow> Db \<Rightarrow> bool" where
  "allocation_refs_ok r d \<longleftrightarrow>
     grant_body d (al_grant_id r) \<noteq> None \<and>
     (case al_parent_id r of None \<Rightarrow> True
      | Some p \<Rightarrow> exists_where (\<lambda>q. al_id q = p) (budget_allocations d))"

definition allocation_row_of :: "BudgetAllocation \<Rightarrow> AllocationRow" where
  "allocation_row_of a =
     \<lparr>al_id = a_id a, al_grant_id = a_grant_id a, al_parent_id = a_parent_id a, al_body = a\<rparr>"

definition root_allocation :: "Grant \<Rightarrow> string \<Rightarrow> BudgetAllocation" where
  "root_allocation grant i =
     \<lparr>a_id = i, a_grant_id = g_id grant, a_parent_id = None, a_cause_id = g_id grant,
      a_purpose = ''root'', a_budget = g_budget grant, a_disposition = None\<rparr>"

text \<open>INSERT OR IGNORE: a key that is taken leaves the table as it is; a foreign key still fails.\<close>

definition root_allocation_in :: "Grant \<Rightarrow> BudgetAllocation store_op" where
  "root_allocation_in grant =
     bind (ask (\<lambda>s. allocation_id (env_sha256 s) ''root'' (g_id grant))) (\<lambda>i.
     let root = root_allocation grant i;
         row = allocation_row_of root
     in bind (query (allocation_keys_ok row)) (\<lambda>free.
        seq (if free then insert_row (allocation_refs_ok row) (insert_allocation row) else skip)
            (query_res (allocation grant i))))"

function ancestry_loop ::
    "Grant \<Rightarrow> BudgetAllocation list \<Rightarrow> string option \<Rightarrow> Db \<Rightarrow> BudgetAllocation list res" where
  "ancestry_loop grant result next d =
     (case next of
        None \<Rightarrow> Inr result
      | Some i \<Rightarrow>
          if 64 \<le> length result then Inl (invalid ''allocation ancestry exceeds 64 levels'')
          else case (if result = [] then allocation grant i d
                     else the_row (map_option al_body (allocation_row d i))) of
              Inl e \<Rightarrow> Inl e
            | Inr a \<Rightarrow> ancestry_loop grant (result @ [a]) (a_parent_id a) d)"
  by pat_completeness auto
termination
  by (relation "measure (\<lambda>(_, result, _, _). 64 - length result)") auto

declare ancestry_loop.simps [simp del]

definition allocation_ancestry :: "Grant \<Rightarrow> string \<Rightarrow> Db \<Rightarrow> BudgetAllocation list res" where
  "allocation_ancestry grant i d = ancestry_loop grant [] (Some i) d"

definition stopped :: "Disposition option \<Rightarrow> bool" where
  "stopped disposition \<longleftrightarrow> disposition \<in>
     {Some Disposition.Cancelled, Some Disposition.Exhausted, Some Disposition.Failed}"

definition owner_open :: "string \<Rightarrow> BudgetAllocation \<Rightarrow> unit store_op" where
  "owner_open i owner =
     seq (need (\<not> (a_id owner = i \<and> a_disposition owner \<noteq> None \<or> stopped (a_disposition owner)))
            (denied ''budget allocation is closed'')) (
     bind now_ms (\<lambda>now.
     bind (lift (counter (b_deadline_ms (a_budget owner)))) (\<lambda>deadline.
     need (now < deadline) (exhausted ''budget allocation expired''))))"

definition require_allocation_open :: "Grant \<Rightarrow> string \<Rightarrow> BudgetAllocation list store_op" where
  "require_allocation_open grant i =
     bind (query_res (allocation_ancestry grant i)) (\<lambda>ancestry.
     seq (for_each ancestry (owner_open i)) (
     ret ancestry))"

text \<open>The comparison of a requested budget with its parent's ceilings.\<close>

definition within_ceilings :: "Budget \<Rightarrow> Budget \<Rightarrow> bool res" where
  "within_ceilings budget ceiling =
     (if b_max_calls budget > b_max_calls ceiling \<or> b_max_actions budget > b_max_actions ceiling \<or>
         b_max_work_items budget > b_max_work_items ceiling \<or>
         b_max_depth budget > b_max_depth ceiling
      then Inr False
      else and_then (counter (b_max_tokens budget)) (\<lambda>t. and_then (counter (b_max_tokens ceiling)) (\<lambda>T.
        if t > T then Inr False
        else and_then (counter (b_max_cost_microusd budget)) (\<lambda>c.
             and_then (counter (b_max_cost_microusd ceiling)) (\<lambda>C.
          if c > C then Inr False
          else and_then (counter (b_deadline_ms budget)) (\<lambda>l.
               and_then (counter (b_deadline_ms ceiling)) (\<lambda>L. Inr (l \<le> L))))))))"

definition child_allocation ::
    "Grant \<Rightarrow> BudgetAllocationRequest \<Rightarrow> BudgetAllocation \<Rightarrow> BudgetAllocation" where
  "child_allocation grant request parent =
     \<lparr>a_id = bar_id request, a_grant_id = g_id grant, a_parent_id = Some (a_id parent),
      a_cause_id = bar_cause_id request, a_purpose = bar_purpose request,
      a_budget = bar_budget request, a_disposition = None\<rparr>"

definition allocate_in :: "Grant \<Rightarrow> BudgetAllocationRequest \<Rightarrow> BudgetAllocation store_op" where
  "allocate_in grant request =
     seq (validate ''BudgetAllocationRequest'' (valid_BudgetAllocationRequest request)) (
     bind (query_res (allocation grant (bar_parent_id request))) (\<lambda>parent.
     let alloc = child_allocation grant request parent;
         row = allocation_row_of alloc
     in bind (query (\<lambda>d. map_option al_body (allocation_row d (bar_id request)))) (\<lambda>found.
     case found of
       Some existing \<Rightarrow>
         seq (need (existing\<lparr>a_disposition := None\<rparr> = alloc)
                (conflict ''allocation identity or ceilings changed''))
             (ret existing)
     | None \<Rightarrow>
         seq (require_allocation_open grant (a_id parent)) (
         bind (query_res (allocation_ancestry grant (a_id parent))) (\<lambda>ancestry.
         seq (need (length ancestry < 64) (invalid ''allocation ancestry exceeds 64 levels'')) (
         bind (lift (within_ceilings (bar_budget request) (a_budget parent))) (\<lambda>fits.
         seq (need fits (denied ''child allocation exceeds parent ceilings'')) (
         seq (insert_row (\<lambda>d. allocation_keys_ok row d \<and> allocation_refs_ok row d)
                (insert_allocation row))
             (ret alloc)))))))))"

definition allocate :: "Grant \<Rightarrow> BudgetAllocationRequest \<Rightarrow> BudgetAllocation store_op" where
  "allocate grant request =
     bind (query_res (store_grant (g_id grant))) (\<lambda>stored.
     seq (need (stored = grant) (denied ''allocation requires the stored owner grant'')) (
     transaction (bind (allocate_in grant request) commit)))"

definition update_allocation ::
    "string \<Rightarrow> (BudgetAllocation \<Rightarrow> BudgetAllocation) \<Rightarrow> Db \<Rightarrow> Db" where
  "update_allocation i f d = d\<lparr>budget_allocations :=
     update_where (\<lambda>r. al_id r = i) (\<lambda>r. r\<lparr>al_body := f (al_body r)\<rparr>) (budget_allocations d)\<rparr>"

definition set_disposition :: "string option \<Rightarrow> Disposition option \<Rightarrow> Db \<Rightarrow> Db" where
  "set_disposition i disposition d =
     (case i of None \<Rightarrow> d
      | Some i \<Rightarrow> update_allocation i (\<lambda>a. a\<lparr>a_disposition := disposition\<rparr>) d)"

definition run_allocation_ref :: "string \<Rightarrow> Db \<Rightarrow> string option" where
  "run_allocation_ref run d =
     map_option ra_allocation_id (List.find (\<lambda>r. ra_run_id r = run) (run_allocations d))"

fun profile_name :: "Profile \<Rightarrow> string" where
  "profile_name Profile.Caretaker = ''caretaker''"
| "profile_name Profile.Curator = ''curator''"
| "profile_name Profile.Experimenter = ''experimenter''"

definition bind_run_allocation_in :: "Grant \<Rightarrow> AgentRunRequest \<Rightarrow> unit store_op" where
  "bind_run_allocation_in grant request =
     bind (query (run_allocation_ref (rq_run_id request))) (\<lambda>existing.
     if existing \<noteq> None then exec (set_disposition existing None)
     else
       bind (root_allocation_in grant) (\<lambda>root.
       bind (query (\<lambda>d. Option.bind (List.find (\<lambda>w. wk_id w = rq_run_id request) (work d))
              wk_allocation_id)) (\<lambda>work_parent.
       seq (need (\<not> (rq_parent_allocation_id request \<noteq> None \<and> work_parent \<noteq> None \<and>
                      rq_parent_allocation_id request \<noteq> work_parent))
              (denied ''scheduled work cannot change its allocation'')) (
       let parent_id = (case rq_parent_allocation_id request of Some p \<Rightarrow> p
             | None \<Rightarrow> (case work_parent of Some p \<Rightarrow> p | None \<Rightarrow> a_id root))
       in bind (query_res (allocation grant parent_id)) (\<lambda>parent.
          bind (ask (\<lambda>s. allocation_id (env_sha256 s) ''run'' (rq_run_id request))) (\<lambda>i.
          bind (allocate_in grant
                 \<lparr>bar_id = i, bar_parent_id = a_id parent, bar_cause_id = rq_run_id request,
                  bar_purpose = profile_name (rq_profile request), bar_budget = a_budget parent\<rparr>)
            (\<lambda>alloc.
          insert_row
            (\<lambda>d. \<not> exists_where (\<lambda>q. ra_run_id q = rq_run_id request) (run_allocations d) \<and>
               run_row d (rq_run_id request) \<noteq> None \<and> allocation_row d (a_id alloc) \<noteq> None)
            (\<lambda>d. d\<lparr>run_allocations := run_allocations d @
               [\<lparr>ra_run_id = rq_run_id request, ra_allocation_id = a_id alloc\<rparr>]\<rparr>))))))))"

definition run_allocation_in :: "string \<Rightarrow> BudgetAllocation store_op" where
  "run_allocation_in run =
     bind (query_res (run_grant run)) (\<lambda>grant.
     bind (query (run_allocation_ref run)) (\<lambda>found.
     case found of
       Some i \<Rightarrow> query_res (allocation grant i)
     | None \<Rightarrow> root_allocation_in grant))"

text \<open>
  The recursive CTE \<open>family\<close>: the subtree of an allocation, level by level. One level per
  stored allocation is enough (\<open>family_iff_ancestor\<close> below).
\<close>

definition children :: "Db \<Rightarrow> string \<Rightarrow> string list" where
  "children d i = map al_id (filter (\<lambda>r. al_parent_id r = Some i) (budget_allocations d))"

fun descend :: "nat \<Rightarrow> Db \<Rightarrow> string list \<Rightarrow> string list" where
  "descend 0 d ids = []"
| "descend (Suc n) d ids =
     (if ids = [] then [] else ids @ descend n d (concat (map (children d) ids)))"

definition family :: "Db \<Rightarrow> string \<Rightarrow> string list" where
  "family d i = descend (Suc (length (budget_allocations d))) d [i]"

text \<open>A row is charged to an allocation: through the subtree, or through the grant for a root.\<close>

definition charged :: "Db \<Rightarrow> string \<Rightarrow> string \<Rightarrow> bool \<Rightarrow> string \<Rightarrow> string option \<Rightarrow> bool" where
  "charged d i grant_id root row_grant row_allocation \<longleftrightarrow>
     row_grant = grant_id \<and> root \<or>
     (case row_allocation of None \<Rightarrow> False | Some a \<Rightarrow> a \<in> set (family d i))"

definition charged_permit :: "Db \<Rightarrow> string \<Rightarrow> string \<Rightarrow> bool \<Rightarrow> PermitRow \<Rightarrow> bool" where
  "charged_permit d i grant_id root p \<longleftrightarrow>
     charged d i grant_id root (pm_grant_id p) (pm_allocation_id p) \<and> pm_state p \<noteq> PermitReleased"

text \<open>SQLite's integer sum fails past \<open>i64::MAX\<close>.\<close>

definition sql_sum :: "nat \<Rightarrow> nat res" where
  "sql_sum n = (if n \<le> i64_max then Inr n else Inl (internal ''integer overflow''))"

definition allocation_ledger_status :: "Grant \<Rightarrow> string \<Rightarrow> Db \<Rightarrow> BudgetStatus res" where
  "allocation_ledger_status grant i d =
     and_then (allocation grant i d) (\<lambda>alloc.
     let root = (a_parent_id alloc = None);
         mine = charged_permit d i (g_id grant) root;
         calls = count_where mine (permits d);
         undispatched = count_where (\<lambda>p. mine p \<and> pm_state p = PermitReserved) (permits d);
         unknown = count_where (\<lambda>p. mine p \<and> pm_state p = PermitDispatched) (permits d);
         settled = (\<lambda>p. mine p \<and> pm_state p = PermitSettled);
         reserved = (\<lambda>p. mine p \<and> pm_state p \<noteq> PermitSettled)
     in and_then (sql_sum (sum_where settled pm_reserved_tokens (permits d))) (\<lambda>settled_tokens.
        and_then (sql_sum (sum_where reserved pm_reserved_tokens (permits d))) (\<lambda>reserved_tokens.
        and_then (sql_sum (sum_where settled pm_reserved_cost (permits d))) (\<lambda>settled_cost.
        and_then (sql_sum (sum_where reserved pm_reserved_cost (permits d))) (\<lambda>reserved_cost.
        let actions = count_where (\<lambda>e. charged d i (g_id grant) root (ef_grant_id e)
              (ef_allocation_id e)) (effects d);
            work_items = count_where (\<lambda>w. charged d i (g_id grant) root (wk_grant_id w)
              (wk_allocation_id w)) (work d);
            budget = a_budget alloc
        in and_then (counter (b_max_tokens budget)) (\<lambda>max_tokens.
           and_then (counter (b_max_cost_microusd budget)) (\<lambda>max_cost.
           Inr \<lparr>bs_allocation = alloc,
             bs_usage = \<lparr>bu_model_calls = calls, bu_undispatched_calls = undispatched,
               bu_unknown_calls = unknown,
               bu_settled_tokens = to_string settled_tokens,
               bu_reserved_tokens = to_string reserved_tokens,
               bu_settled_cost_microusd = to_string settled_cost,
               bu_reserved_cost_microusd = to_string reserved_cost,
               bu_actions = actions, bu_work_items = work_items\<rparr>,
             bs_remaining = budget\<lparr>
               b_max_calls := b_max_calls budget - calls,
               b_max_actions := b_max_actions budget - actions,
               b_max_work_items := b_max_work_items budget - work_items,
               b_max_tokens := to_string (max_tokens - settled_tokens - reserved_tokens),
               b_max_cost_microusd := to_string (max_cost - settled_cost - reserved_cost)\<rparr>\<rparr>)))))))"

definition min_counters :: "string \<Rightarrow> string \<Rightarrow> string res" where
  "min_counters a b =
     and_then (counter a) (\<lambda>x. and_then (counter b) (\<lambda>y. Inr (to_string (min x y))))"

definition meet_budget :: "Budget \<Rightarrow> Budget \<Rightarrow> Budget res" where
  "meet_budget remaining other =
     and_then (min_counters (b_max_tokens remaining) (b_max_tokens other)) (\<lambda>tokens.
     and_then (min_counters (b_max_cost_microusd remaining) (b_max_cost_microusd other)) (\<lambda>cost.
     and_then (min_counters (b_deadline_ms remaining) (b_deadline_ms other)) (\<lambda>deadline.
     Inr \<lparr>b_max_calls = min (b_max_calls remaining) (b_max_calls other),
          b_max_tokens = tokens, b_max_cost_microusd = cost,
          b_max_actions = min (b_max_actions remaining) (b_max_actions other),
          b_max_work_items = min (b_max_work_items remaining) (b_max_work_items other),
          b_max_depth = min (b_max_depth remaining) (b_max_depth other),
          b_deadline_ms = deadline\<rparr>)))"

fun meet_owners :: "Db \<Rightarrow> Budget \<Rightarrow> BudgetAllocation list \<Rightarrow> Budget res" where
  "meet_owners d remaining [] = Inr remaining"
| "meet_owners d remaining (owner # owners) =
     and_then (store_grant (a_grant_id owner) d) (\<lambda>g.
     and_then (allocation_ledger_status g (a_id owner) d) (\<lambda>other.
     and_then (meet_budget remaining (bs_remaining other)) (\<lambda>remaining'.
     meet_owners d remaining' owners)))"

definition allocation_remaining :: "Grant \<Rightarrow> string \<Rightarrow> Db \<Rightarrow> Budget res" where
  "allocation_remaining grant i d =
     and_then (allocation grant i d) (\<lambda>alloc.
     and_then (allocation_ancestry grant i d) (\<lambda>ancestry.
     meet_owners d (a_budget alloc) ancestry))"

definition budget_status :: "Grant \<Rightarrow> string \<Rightarrow> Db \<Rightarrow> BudgetStatus res" where
  "budget_status grant i d =
     and_then (allocation_ledger_status grant i d) (\<lambda>status.
     and_then (allocation_remaining grant i d) (\<lambda>remaining.
     Inr (status\<lparr>bs_remaining := remaining\<rparr>)))"

definition root_budget_status :: "Grant \<Rightarrow> BudgetStatus store_op" where
  "root_budget_status grant =
     bind (query_res (store_grant (g_id grant))) (\<lambda>stored.
     seq (need (stored = grant) (denied ''budget inspection requires the stored owner grant'')) (
     transaction (
       bind (root_allocation_in grant) (\<lambda>root.
       bind (query_res (budget_status grant (a_id root))) commit))))"

definition run_budget_status :: "string \<Rightarrow> BudgetStatus store_op" where
  "run_budget_status run =
     transaction (
       bind (run_allocation_in run) (\<lambda>alloc.
       bind (query_res (run_grant run)) (\<lambda>grant.
       bind (query_res (budget_status grant (a_id alloc))) commit)))"

definition finish_allocation :: "Grant \<Rightarrow> string \<Rightarrow> Disposition \<Rightarrow> unit store_op" where
  "finish_allocation grant i disposition =
     transaction (
       bind (query_res (allocation grant i)) (\<lambda>alloc.
       case a_disposition alloc of
         Some existing \<Rightarrow>
           seq (need (existing = disposition) (conflict ''allocation already finished''))
               (ret (Rollback ()))
       | None \<Rightarrow>
           seq (exec (update_allocation i (\<lambda>_. alloc\<lparr>a_disposition := Some disposition\<rparr>)))
               (commit ())))"

end
