(* ===== verification/Forest.thy ===== *)
theory Forest
  imports Main
begin

text \<open>
  Parent chains. Allocations, work items and runs all form forests in which a parent is stored
  before its children; this is what their ancestry loops and subtree queries rest on.
\<close>

fun climb :: "('n \<Rightarrow> 'n option) \<Rightarrow> nat \<Rightarrow> 'n \<Rightarrow> 'n option" where
  "climb f 0 x = Some x"
| "climb f (Suc k) x = Option.bind (climb f k x) f"

lemma climb_Suc_first: "climb f (Suc k) x = Option.bind (f x) (climb f k)"
proof (induction k)
  case 0
  then show ?case by (cases "f x") auto
next
  case (Suc k)
  show ?case
    by (subst climb.simps(2), subst Suc) (cases "f x"; simp)
qed

lemma climb_add: "climb f (j + k) x = Option.bind (climb f k x) (climb f j)"
proof (induction j)
  case 0
  then show ?case by (cases "climb f k x") auto
next
  case (Suc j)
  then show ?case by (cases "climb f k x") auto
qed

text \<open>The interface: parents have strictly smaller rank.\<close>

locale ranked_forest =
  fixes invar :: "'d \<Rightarrow> bool"
    and parent :: "'d \<Rightarrow> 'n \<Rightarrow> 'n option"
    and rank :: "'d \<Rightarrow> 'n \<Rightarrow> nat"
  assumes parent_rank: "invar d \<Longrightarrow> parent d x = Some y \<Longrightarrow> rank d y < rank d x"
begin

lemma climb_rank: "invar d \<Longrightarrow> climb (parent d) k x = Some y \<Longrightarrow> rank d y + k \<le> rank d x"
proof (induction k arbitrary: y)
  case 0
  then show ?case by simp
next
  case (Suc k)
  then obtain z where "climb (parent d) k x = Some z" "parent d z = Some y"
    by (auto simp: bind_eq_Some_conv)
  with Suc show ?case using parent_rank [of d z y] by fastforce
qed

lemma no_cycle: "invar d \<Longrightarrow> climb (parent d) k x = Some x \<Longrightarrow> k = 0"
  using climb_rank [of d k x x] by simp

lemma climb_level_unique:
  assumes "invar d" "climb (parent d) j x = Some y" "climb (parent d) k x = Some y"
  shows "j = k"
proof -
  have "j = k" if "j \<le> k" "climb (parent d) j x = Some y" "climb (parent d) k x = Some y" for j k
  proof -
    have "climb (parent d) (k - j) y = Some y"
      using climb_add [of "parent d" "k - j" j x] that by simp
    with assms(1) have "k - j = 0" by (rule no_cycle)
    with that show ?thesis by simp
  qed
  with assms show ?thesis by (metis nat_le_linear)
qed

end

end
