(* ===== verification/AllocationTree.thy ===== *)
theory AllocationTree
  imports Allocations Forest
begin

text \<open>
  The allocation table is a forest: a parent is stored before its children and is at least as
  generous. Every operation of Allocations keeps it so, an ancestry always ends, and the subtree
  a ledger query sums over is exactly the set of allocations that have the queried one among
  their ancestors.
\<close>

section \<open>The invariant\<close>

definition budget_le :: "Budget \<Rightarrow> Budget \<Rightarrow> bool" where
  "budget_le b c \<longleftrightarrow> within_ceilings b c = Inr True"

lemma budget_le_iff:
  "budget_le b c \<longleftrightarrow>
     b_max_calls b \<le> b_max_calls c \<and> b_max_actions b \<le> b_max_actions c \<and>
     b_max_work_items b \<le> b_max_work_items c \<and> b_max_depth b \<le> b_max_depth c \<and>
     (\<exists>t T. counter (b_max_tokens b) = Inr t \<and> counter (b_max_tokens c) = Inr T \<and> t \<le> T) \<and>
     (\<exists>t T. counter (b_max_cost_microusd b) = Inr t \<and> counter (b_max_cost_microusd c) = Inr T \<and>
        t \<le> T) \<and>
     (\<exists>t T. counter (b_deadline_ms b) = Inr t \<and> counter (b_deadline_ms c) = Inr T \<and> t \<le> T)"
  by (auto simp: budget_le_def within_ceilings_def not_less and_then_def
      simp del: and_then_Inr_iff and_then_Inr_iff' split: if_splits sum.splits)

lemma budget_le_trans: "budget_le a b \<Longrightarrow> budget_le b c \<Longrightarrow> budget_le a c"
  unfolding budget_le_iff by (elim conjE exE, intro conjI) force+

definition row_ok :: "AllocationRow list \<Rightarrow> AllocationRow \<Rightarrow> bool" where
  "row_ok older r \<longleftrightarrow>
     al_id r = a_id (al_body r) \<and> al_grant_id r = a_grant_id (al_body r) \<and>
     al_parent_id r = a_parent_id (al_body r) \<and> al_id r \<notin> al_id ` set older \<and>
     (case al_parent_id r of
        None \<Rightarrow> \<forall>q \<in> set older. al_grant_id q = al_grant_id r \<longrightarrow> al_parent_id q \<noteq> None
      | Some p \<Rightarrow> \<exists>q \<in> set older. al_id q = p \<and> al_grant_id q = al_grant_id r \<and>
          budget_le (a_budget (al_body r)) (a_budget (al_body q)))"

fun rows_ok :: "AllocationRow list \<Rightarrow> bool" where
  "rows_ok [] = True"
| "rows_ok (r # older) = (row_ok older r \<and> rows_ok older)"

definition tree_ok :: "Db \<Rightarrow> bool" where
  "tree_ok d \<longleftrightarrow> rows_ok (rev (budget_allocations d))"

definition parent_of :: "Db \<Rightarrow> string \<Rightarrow> string option" where
  "parent_of d i = Option.bind (allocation_row d i) al_parent_id"

definition rank_of :: "Db \<Rightarrow> string \<Rightarrow> nat" where
  "rank_of d i = length (takeWhile (\<lambda>r. al_id r \<noteq> i) (budget_allocations d))"

lemma rows_ok_distinct: "rows_ok rows \<Longrightarrow> distinct (map al_id rows)"
  by (induction rows) (auto simp: row_ok_def)

lemma tree_ok_distinct: "tree_ok d \<Longrightarrow> distinct (map al_id (budget_allocations d))"
  using rows_ok_distinct [of "rev (budget_allocations d)"] by (simp add: tree_ok_def rev_map [symmetric])

lemma rows_ok_split:
  "rows_ok rows \<Longrightarrow> r \<in> set rows \<Longrightarrow> \<exists>newer older. rows = newer @ r # older \<and> row_ok older r"
proof (induction rows)
  case Nil
  then show ?case by simp
next
  case (Cons q rows)
  show ?case
  proof (cases "r = q")
    case True
    with Cons.prems show ?thesis by (auto intro: exI [of _ "[]"])
  next
    case False
    with Cons obtain newer older where "rows = newer @ r # older" "row_ok older r" by auto
    then show ?thesis by (auto intro: exI [of _ "q # newer"])
  qed
qed

lemma tree_ok_split:
  assumes "tree_ok d" "r \<in> set (budget_allocations d)"
  obtains older newer where "budget_allocations d = older @ r # newer" "row_ok older r"
proof -
  from assms obtain ns os where *: "rev (budget_allocations d) = ns @ r # os" "row_ok os r"
    using rows_ok_split [of "rev (budget_allocations d)" r] by (auto simp: tree_ok_def)
  then have "budget_allocations d = rev os @ r # rev ns"
    by (metis append.assoc append_Cons append_Nil rev.simps(2) rev_append rev_rev_ident)
  moreover from *(2) have "row_ok (rev os) r" by (auto simp: row_ok_def split: option.splits)
  ultimately show ?thesis by (rule that)
qed

lemma allocation_row_iff:
  "tree_ok d \<Longrightarrow> allocation_row d i = Some r \<longleftrightarrow> r \<in> set (budget_allocations d) \<and> al_id r = i"
  unfolding allocation_row_def
  using find_key [of al_id "budget_allocations d" r] tree_ok_distinct
  by (auto dest: find_Some_iff2)

lemma takeWhile_key:
  "al_id r \<notin> al_id ` set older \<Longrightarrow>
     takeWhile (\<lambda>q. al_id q \<noteq> al_id r) (older @ r # newer) = older"
  by (induction older) auto

lemma takeWhile_key_less:
  "q \<in> set older \<Longrightarrow> length (takeWhile (\<lambda>x. al_id x \<noteq> al_id q) (older @ rest)) < length older"
  by (induction older) auto

lemma parent_of_SomeD:
  assumes "tree_ok d" "parent_of d x = Some y"
  shows "\<exists>r q. allocation_row d x = Some r \<and> allocation_row d y = Some q \<and>
           rank_of d y < rank_of d x \<and> al_grant_id q = al_grant_id r \<and> budget_le (a_budget (al_body r)) (a_budget (al_body q))"
proof -
  from assms(2) obtain r where r: "allocation_row d x = Some r" "al_parent_id r = Some y"
    by (auto simp: parent_of_def bind_eq_Some_conv)
  with assms(1) have "r \<in> set (budget_allocations d)" "al_id r = x"
    by (simp_all add: allocation_row_iff)
  with assms(1) obtain older newer where
    split: "budget_allocations d = older @ r # newer" "row_ok older r"
    by (blast elim: tree_ok_split)
  with r(2) obtain q where q: "q \<in> set older" "al_id q = y"
    "budget_le (a_budget (al_body r)) (a_budget (al_body q))" "al_id r \<notin> al_id ` set older"
    "al_grant_id q = al_grant_id r"
    by (auto simp: row_ok_def)
  then have "allocation_row d y = Some q" using split(1) assms(1) by (simp add: allocation_row_iff)
  moreover have "rank_of d x = length older"
    using split(1) q(4) \<open>al_id r = x\<close> takeWhile_key [of r older newer] by (simp add: rank_of_def)
  moreover have "rank_of d y < length older"
    using split(1) q takeWhile_key_less [of q older "r # newer"] by (simp add: rank_of_def)
  ultimately show ?thesis using r q by auto
qed

interpretation alloc_forest: ranked_forest tree_ok parent_of rank_of
  by unfold_locales (blast dest: parent_of_SomeD)

lemma rank_of_le: "rank_of d x \<le> length (budget_allocations d)"
  by (simp add: rank_of_def length_takeWhile_le)

section \<open>Ancestries\<close>

text \<open>The list a loop has collected so far is the climb from its start.\<close>

definition chain :: "Db \<Rightarrow> string \<Rightarrow> BudgetAllocation list \<Rightarrow> bool" where
  "chain d i as \<longleftrightarrow> (\<forall>k < length as.
     \<exists>r. allocation_row d (a_id (as ! k)) = Some r \<and> al_body r = as ! k \<and>
       climb (parent_of d) k i = Some (a_id (as ! k)))"

lemma row_body_id:
  assumes "tree_ok d" "allocation_row d i = Some r"
  shows "a_id (al_body r) = i" "parent_of d i = a_parent_id (al_body r)"
    "a_grant_id (al_body r) = al_grant_id r"
proof -
  from assms have "r \<in> set (budget_allocations d)" and i: "al_id r = i"
    by (simp_all add: allocation_row_iff)
  with assms(1) obtain older where "row_ok older r" by (blast elim: tree_ok_split)
  then show "a_id (al_body r) = i" "parent_of d i = a_parent_id (al_body r)"
    "a_grant_id (al_body r) = al_grant_id r"
    using assms(2) i by (auto simp: row_ok_def parent_of_def)
qed

lemma allocation_InrD:
  assumes "tree_ok d" "allocation grant i d = Inr a"
  shows "\<exists>r. allocation_row d i = Some r \<and> al_body r = a \<and> a_id a = i \<and> a_grant_id a = g_id grant"
proof -
  from assms(2) obtain r where r: "r \<in> set (budget_allocations d)" "al_id r = i"
    "al_grant_id r = g_id grant" "al_body r = a"
    by (auto simp: allocation_def dest!: find_Some_iff2)
  with assms(1) have "allocation_row d i = Some r" by (simp add: allocation_row_iff)
  with r row_body_id [OF assms(1) this] show ?thesis by auto
qed

lemma chain_snoc:
  assumes "chain d i as" "allocation_row d j = Some r" "a_id (al_body r) = j"
    "climb (parent_of d) (length as) i = Some j"
  shows "chain d i (as @ [al_body r])"
  unfolding chain_def
proof (intro allI impI)
  fix k
  assume "k < length (as @ [al_body r])"
  then consider "k < length as" | "k = length as" by fastforce
  then show "\<exists>q. allocation_row d (a_id ((as @ [al_body r]) ! k)) = Some q \<and>
      al_body q = (as @ [al_body r]) ! k \<and>
      climb (parent_of d) k i = Some (a_id ((as @ [al_body r]) ! k))"
  proof cases
    case 1
    with assms(1) show ?thesis by (simp add: chain_def nth_append)
  next
    case 2
    with assms show ?thesis by simp
  qed
qed

lemma ancestry_loop_chain:
  "ancestry_loop grant result next d = Inr as \<Longrightarrow> tree_ok d \<Longrightarrow> chain d i result \<Longrightarrow>
     next = climb (parent_of d) (length result) i \<Longrightarrow>
     chain d i as \<and> climb (parent_of d) (length as) i = None \<and> length as \<le> max 64 (length result)"
proof (induction grant result "next" d arbitrary: as rule: ancestry_loop.induct)
  case (1 grant result nxt d)
  show ?case
  proof (cases nxt)
    case None
    with 1 show ?thesis by (simp add: ancestry_loop.simps [of grant result None])
  next
    case (Some j)
    define step where "step = (if result = [] then allocation grant j d
      else the_row (map_option al_body (allocation_row d j)))"
    from "1.prems"(1) Some obtain a where short: "\<not> 64 \<le> length result" and a: "step = Inr a"
      and rest: "ancestry_loop grant (result @ [a]) (a_parent_id a) d = Inr as"
      by (subst (asm) ancestry_loop.simps) (auto simp: step_def split: if_splits sum.splits)
    from a "1.prems"(2) obtain r where r: "allocation_row d j = Some r" "al_body r = a"
      by (auto simp: step_def split: if_splits dest: allocation_InrD)
    with "1.prems"(2) have ids: "a_id a = j" "parent_of d j = a_parent_id a"
      using row_body_id [of d j r] by auto
    have "chain d i (result @ [a])"
      using chain_snoc [OF "1.prems"(3) r(1)] ids r "1.prems"(4) Some by auto
    moreover have "a_parent_id a = climb (parent_of d) (length (result @ [a])) i"
      using "1.prems"(4) [symmetric] Some ids by simp
    ultimately have "chain d i as \<and> climb (parent_of d) (length as) i = None \<and>
        length as \<le> max 64 (length (result @ [a]))"
      using "1.IH" [OF Some short a [unfolded step_def] rest "1.prems"(2)] by blast
    with short show ?thesis by auto
  qed
qed

lemma ancestry_chain:
  assumes "allocation_ancestry grant i d = Inr as" "tree_ok d"
  shows "chain d i as" "climb (parent_of d) (length as) i = None" "length as \<le> 64"
  using ancestry_loop_chain [OF assms(1) [unfolded allocation_ancestry_def] assms(2), of i]
  by (auto simp: chain_def)

lemma ancestry_owner_iff:
  assumes "allocation_ancestry grant i d = Inr as" "tree_ok d"
  shows "owner \<in> set as \<longleftrightarrow>
    (\<exists>k r. climb (parent_of d) k i = Some (a_id owner) \<and>
       allocation_row d (a_id owner) = Some r \<and> al_body r = owner)"
proof
  assume "owner \<in> set as"
  then obtain k where "k < length as" "as ! k = owner" by (auto simp: in_set_conv_nth)
  with ancestry_chain(1) [OF assms] show "\<exists>k r. climb (parent_of d) k i = Some (a_id owner) \<and>
      allocation_row d (a_id owner) = Some r \<and> al_body r = owner"
    by (auto simp: chain_def)
next
  assume "\<exists>k r. climb (parent_of d) k i = Some (a_id owner) \<and>
      allocation_row d (a_id owner) = Some r \<and> al_body r = owner"
  then obtain k r where *: "climb (parent_of d) k i = Some (a_id owner)"
    "allocation_row d (a_id owner) = Some r" "al_body r = owner" by blast
  have "k < length as"
  proof (rule ccontr)
    assume "\<not> k < length as"
    then obtain j where k: "k = j + length as" by (metis le_add_diff_inverse2 not_less)
    have "climb (parent_of d) k i = None"
      unfolding k climb_add ancestry_chain(2) [OF assms] by (rule Option.bind.simps(1))
    with *(1) show False by (metis option.distinct(1))
  qed
  with ancestry_chain(1) [OF assms] obtain q where
    "allocation_row d (a_id (as ! k)) = Some q" "al_body q = as ! k"
    "climb (parent_of d) k i = Some (a_id (as ! k))"
    unfolding chain_def by blast
  with * have "as ! k = owner" by (metis option.inject)
  with \<open>k < length as\<close> show "owner \<in> set as" by auto
qed

section \<open>Subtrees\<close>

lemma children_iff: "tree_ok d \<Longrightarrow> x \<in> set (children d i) \<longleftrightarrow> parent_of d x = Some i"
  by (auto simp: children_def parent_of_def bind_eq_Some_conv allocation_row_iff)

lemma descend_iff:
  "tree_ok d \<Longrightarrow>
     x \<in> set (descend n d ids) \<longleftrightarrow> (\<exists>k < n. \<exists>i \<in> set ids. climb (parent_of d) k x = Some i)"
proof (induction n arbitrary: ids)
  case 0
  then show ?case by simp
next
  case (Suc n)
  have level: "(\<exists>i \<in> set (concat (map (children d) ids)). climb (parent_of d) k x = Some i) \<longleftrightarrow>
      (\<exists>i \<in> set ids. climb (parent_of d) (Suc k) x = Some i)" for k
    using Suc.prems by (auto simp: children_iff bind_eq_Some_conv)
  have "x \<in> set (descend (Suc n) d ids) \<longleftrightarrow>
      x \<in> set ids \<or> x \<in> set (descend n d (concat (map (children d) ids)))"
    by (cases n) auto
  also have "\<dots> \<longleftrightarrow>
      x \<in> set ids \<or> (\<exists>k < n. \<exists>i \<in> set ids. climb (parent_of d) (Suc k) x = Some i)"
    by (simp only: Suc.IH [OF Suc.prems] level)
  also have "\<dots> \<longleftrightarrow> (\<exists>k < Suc n. \<exists>i \<in> set ids. climb (parent_of d) k x = Some i)"
    unfolding Ex_less_Suc2 by simp
  finally show ?case .
qed

lemma family_iff_ancestor:
  assumes "tree_ok d"
  shows "x \<in> set (family d i) \<longleftrightarrow> (\<exists>k. climb (parent_of d) k x = Some i)"
proof -
  have "k < Suc (length (budget_allocations d))" if "climb (parent_of d) k x = Some i" for k
    using alloc_forest.climb_rank [OF assms that] rank_of_le [of d x] by linarith
  with assms show ?thesis unfolding family_def descend_iff [OF assms] by auto
qed

lemma ancestor_family:
  "allocation_ancestry grant i d = Inr as \<Longrightarrow> tree_ok d \<Longrightarrow> owner \<in> set as \<Longrightarrow>
     i \<in> set (family d (a_id owner))"
  by (auto simp: family_iff_ancestor ancestry_owner_iff)

section \<open>Ceilings along an ancestry\<close>

lemma climb_budget_le:
  "tree_ok d \<Longrightarrow> climb (parent_of d) k i = Some j \<Longrightarrow> 0 < k \<Longrightarrow>
     \<exists>r q. allocation_row d i = Some r \<and> allocation_row d j = Some q \<and>
       budget_le (a_budget (al_body r)) (a_budget (al_body q))"
proof (induction k arbitrary: j)
  case 0
  then show ?case by simp
next
  case (Suc k)
  from Suc.prems(2) obtain z where z: "climb (parent_of d) k i = Some z" "parent_of d z = Some j"
    by (auto simp: bind_eq_Some_conv)
  from parent_of_SomeD [OF Suc.prems(1) z(2)] obtain r q where
    rq: "allocation_row d z = Some r" "allocation_row d j = Some q"
    "budget_le (a_budget (al_body r)) (a_budget (al_body q))" by blast
  show ?case
  proof (cases "k = 0")
    case True
    with z rq show ?thesis by auto
  next
    case False
    with Suc.IH [OF Suc.prems(1) z(1)] rq show ?thesis by (auto intro: budget_le_trans)
  qed
qed

section \<open>Depth\<close>

definition depth_ok :: "Db \<Rightarrow> bool" where
  "depth_ok d \<longleftrightarrow> (\<forall>r \<in> set (budget_allocations d). climb (parent_of d) 64 (al_id r) = None)"

definition alloc_inv :: "Db \<Rightarrow> bool" where
  "alloc_inv d \<longleftrightarrow> tree_ok d \<and> depth_ok d"

lemma climb_None_mono: "climb f j x = None \<Longrightarrow> j \<le> k \<Longrightarrow> climb f k x = None"
  using climb_add [of f "k - j" j x] by simp

lemma ancestry_loop_total:
  assumes "tree_ok d" "climb (parent_of d) 64 i = None"
  shows "nxt = climb (parent_of d) (length result) i \<Longrightarrow> length result \<le> 64 \<Longrightarrow>
    (\<forall>j. nxt = Some j \<longrightarrow> (if result = [] then \<exists>a. allocation grant j d = Inr a
       else allocation_row d j \<noteq> None)) \<Longrightarrow>
    \<exists>as. ancestry_loop grant result nxt d = Inr as"
proof (induction "64 - length result" arbitrary: result nxt rule: less_induct)
  case less
  show ?case
  proof (cases nxt)
    case None
    then show ?thesis by (simp add: ancestry_loop.simps [of grant result None])
  next
    case (Some j)
    have short: "length result < 64"
      using less.prems(1,2) Some assms(2) by (cases "length result = 64") auto
    obtain a where a: "(if result = [] then allocation grant j d
        else the_row (map_option al_body (allocation_row d j))) = Inr a"
      using less.prems(3) Some by (cases "result = []") auto
    then obtain r where r: "allocation_row d j = Some r" "al_body r = a"
      using assms(1) by (auto split: if_splits dest: allocation_InrD)
    with assms(1) have p: "parent_of d j = a_parent_id a" using row_body_id(2) by blast
    have step: "ancestry_loop grant result nxt d = ancestry_loop grant (result @ [a]) (a_parent_id a) d"
      using Some short a by (subst ancestry_loop.simps) (simp split: if_splits)
    have "\<exists>as. ancestry_loop grant (result @ [a]) (a_parent_id a) d = Inr as"
    proof (rule less.hyps)
      show "64 - length (result @ [a]) < 64 - length result" using short by simp
      show "a_parent_id a = climb (parent_of d) (length (result @ [a])) i"
        using less.prems(1) [symmetric] Some p by simp
      show "length (result @ [a]) \<le> 64" using short by simp
      show "\<forall>k. a_parent_id a = Some k \<longrightarrow> (if result @ [a] = [] then \<exists>b. allocation grant k d = Inr b
          else allocation_row d k \<noteq> None)"
        using parent_of_SomeD [OF assms(1), of j] p by fastforce
    qed
    with step show ?thesis by simp
  qed
qed

lemma ancestry_total:
  assumes "alloc_inv d" "allocation grant i d = Inr a"
  shows "\<exists>as. allocation_ancestry grant i d = Inr as"
proof -
  from assms have tree: "tree_ok d" by (simp add: alloc_inv_def)
  with assms obtain r where "allocation_row d i = Some r" by (blast dest: allocation_InrD)
  with tree assms have "climb (parent_of d) 64 i = None"
    by (auto simp: alloc_inv_def depth_ok_def allocation_row_iff)
  with tree assms(2) show ?thesis
    unfolding allocation_ancestry_def by (intro ancestry_loop_total) auto
qed

section \<open>Preservation\<close>

lemma insert_allocation_rows [simp]:
  "budget_allocations (insert_allocation r d) = budget_allocations d @ [r]"
  by (simp add: insert_allocation_def)

lemma row_ok_set: "set older = set older' \<Longrightarrow> row_ok older r = row_ok older' r"
  by (simp add: row_ok_def split: option.splits)

lemma tree_ok_insert:
  "tree_ok d \<Longrightarrow> row_ok (budget_allocations d) r \<Longrightarrow> tree_ok (insert_allocation r d)"
  using row_ok_set [of "rev (budget_allocations d)" "budget_allocations d" r]
  by (simp add: tree_ok_def)

lemma allocation_row_insert:
  assumes "al_id r \<notin> al_id ` set (budget_allocations d)"
  shows "allocation_row (insert_allocation r d) i =
    (if i = al_id r then Some r else allocation_row d i)"
proof (cases "i = al_id r")
  case True
  have "allocation_row d (al_id r) = None"
    unfolding allocation_row_def find_None_iff2 using assms by (metis imageI)
  with True show ?thesis by (simp add: allocation_row_def find_append)
next
  case False
  then show ?thesis by (simp add: allocation_row_def find_append split: option.splits)
qed

lemma climb_insert:
  assumes "tree_ok d" "al_id r \<notin> al_id ` set (budget_allocations d)"
  shows "i \<noteq> al_id r \<Longrightarrow> climb (parent_of (insert_allocation r d)) k i = climb (parent_of d) k i"
proof (induction k)
  case 0
  then show ?case by simp
next
  case (Suc k)
  show ?case
  proof (cases "climb (parent_of d) k i")
    case None
    with Suc show ?thesis by simp
  next
    case (Some j)
    have "j \<noteq> al_id r"
    proof (cases "k = 0")
      case True
      with Some Suc.prems show ?thesis by simp
    next
      case False
      with climb_budget_le [OF assms(1) Some] obtain q where "allocation_row d j = Some q" by auto
      with assms have "j \<in> al_id ` set (budget_allocations d)" by (auto simp: allocation_row_iff)
      with assms(2) show ?thesis by blast
    qed
    then have "parent_of (insert_allocation r d) j = parent_of d j"
      using assms(2) by (simp add: parent_of_def allocation_row_insert)
    with Some Suc show ?thesis by simp
  qed
qed

lemma alloc_inv_insert:
  assumes "alloc_inv d" "row_ok (budget_allocations d) r"
    and "\<And>p. al_parent_id r = Some p \<Longrightarrow> climb (parent_of d) 63 p = None"
  shows "alloc_inv (insert_allocation r d)"
proof -
  let ?d = "insert_allocation r d"
  have tree: "tree_ok d" and fresh: "al_id r \<notin> al_id ` set (budget_allocations d)"
    using assms by (auto simp: alloc_inv_def row_ok_def)
  have top: "climb (parent_of ?d) 64 (al_id r) = None"
  proof (cases "al_parent_id r")
    case None
    with fresh have "climb (parent_of ?d) 1 (al_id r) = None"
      by (simp add: parent_of_def allocation_row_insert)
    then show ?thesis by (rule climb_None_mono) simp
  next
    case (Some p)
    with assms(2) have "p \<in> al_id ` set (budget_allocations d)" by (auto simp: row_ok_def)
    with fresh have "p \<noteq> al_id r" by blast
    then have "climb (parent_of ?d) 63 p = None"
      using climb_insert [OF tree fresh] assms(3) Some by simp
    moreover have "parent_of ?d (al_id r) = Some p"
      using fresh Some by (simp add: parent_of_def allocation_row_insert)
    ultimately have "climb (parent_of ?d) (Suc 63) (al_id r) = None"
      by (subst climb_Suc_first) simp
    then show ?thesis by (simp del: climb.simps)
  qed
  have "climb (parent_of ?d) 64 (al_id q) = None" if "q \<in> set (budget_allocations d)" for q
  proof -
    from that fresh have "al_id q \<noteq> al_id r" by (metis imageI)
    with climb_insert [OF tree fresh, of "al_id q" 64] assms(1) that show ?thesis
      by (simp add: alloc_inv_def depth_ok_def del: climb.simps)
  qed
  with top tree assms(2) show ?thesis
    by (auto simp: alloc_inv_def depth_ok_def tree_ok_insert)
qed

text \<open>Rewriting bodies keeps the forest when identity, parent and ceilings are kept.\<close>

definition same_shape :: "BudgetAllocation \<Rightarrow> BudgetAllocation \<Rightarrow> bool" where
  "same_shape a b \<longleftrightarrow> a_id b = a_id a \<and> a_grant_id b = a_grant_id a \<and>
     a_parent_id b = a_parent_id a \<and> a_budget b = a_budget a"

lemma rows_ok_update:
  assumes "\<And>r. r \<in> set rows \<Longrightarrow> P r \<Longrightarrow> same_shape (al_body r) (f (al_body r))"
    and "rows_ok rows"
  shows "rows_ok (update_where P (\<lambda>r. r\<lparr>al_body := f (al_body r)\<rparr>) rows)"
  using assms
proof (induction rows)
  case Nil
  then show ?case by simp
next
  case (Cons r rows)
  define u where "u = (\<lambda>r. if P r then r\<lparr>al_body := f (al_body r)\<rparr> else r)"
  have shape: "al_id (u q) = al_id q" "al_parent_id (u q) = al_parent_id q"
      "al_grant_id (u q) = al_grant_id q" "same_shape (al_body q) (al_body (u q))"
    if "q \<in> set (r # rows)" for q
    using Cons.prems(1) that by (auto simp: same_shape_def u_def)
  have ok: "row_ok rows r" "rows_ok rows" using Cons.prems(2) by auto
  have "al_id ` set (map u rows) = al_id ` set rows"
    using shape(1) by (simp add: image_image)
  moreover have "al_id r \<notin> al_id ` set rows" using ok(1) unfolding row_ok_def by blast
  ultimately have "al_id (u r) \<notin> al_id ` set (map u rows)"
    using shape(1) [of r] by simp
  moreover have "\<exists>q \<in> set (map u rows). al_id q = p \<and> al_grant_id q = al_grant_id r \<and>
      budget_le (a_budget (al_body (u r))) (a_budget (al_body q))"
    if "al_parent_id r = Some p" for p
  proof -
    from ok(1) that obtain q where "q \<in> set rows" "al_id q = p" "al_grant_id q = al_grant_id r"
      "budget_le (a_budget (al_body r)) (a_budget (al_body q))" by (auto simp: row_ok_def)
    then have "u q \<in> set (map u rows) \<and> al_id (u q) = p \<and> al_grant_id (u q) = al_grant_id r \<and>
        budget_le (a_budget (al_body (u r))) (a_budget (al_body (u q)))"
      using shape(1,3,4) [of q] shape(4) [of r] by (simp add: same_shape_def)
    then show ?thesis by blast
  qed
  moreover have "\<forall>q \<in> set (map u rows). al_grant_id q = al_grant_id r \<longrightarrow> al_parent_id q \<noteq> None"
    if "al_parent_id r = None"
    using ok(1) that shape(2,3) by (simp add: row_ok_def)
  ultimately have "row_ok (map u rows) (u r)"
    using ok(1) shape(1,2,3,4) [of r]
    unfolding row_ok_def same_shape_def by (auto split: option.splits)
  moreover have "rows_ok (map u rows)"
    using Cons.IH Cons.prems(1) ok(2) by (simp add: update_where_def u_def)
  ultimately show ?case by (simp add: update_where_def u_def)
qed

lemma update_allocation_rows [simp]:
  "budget_allocations (update_allocation i f d) =
     update_where (\<lambda>r. al_id r = i) (\<lambda>r. r\<lparr>al_body := f (al_body r)\<rparr>) (budget_allocations d)"
  by (simp add: update_allocation_def)

lemma allocation_row_update:
  "allocation_row (update_allocation i f d) j =
     map_option (\<lambda>r. if al_id r = i then r\<lparr>al_body := f (al_body r)\<rparr> else r) (allocation_row d j)"
  unfolding allocation_row_def update_allocation_rows by (rule find_update_where) simp

lemma parent_of_update [simp]: "parent_of (update_allocation i f d) = parent_of d"
proof
  fix j
  show "parent_of (update_allocation i f d) j = parent_of d j"
    by (cases "allocation_row d j") (simp_all add: parent_of_def allocation_row_update)
qed

lemma alloc_inv_update:
  assumes "alloc_inv d"
    and "\<And>r. r \<in> set (budget_allocations d) \<Longrightarrow> al_id r = i \<Longrightarrow> same_shape (al_body r) (f (al_body r))"
  shows "alloc_inv (update_allocation i f d)"
proof -
  have "rev (update_where P g rows) = update_where P g (rev rows)" for P g and rows :: "AllocationRow list"
    by (simp add: update_where_def rev_map)
  with assms rows_ok_update [of "rev (budget_allocations d)" "\<lambda>r. al_id r = i" f]
  have "tree_ok (update_allocation i f d)" by (simp add: alloc_inv_def tree_ok_def)
  moreover have "depth_ok (update_allocation i f d)"
    using assms(1) by (auto simp: alloc_inv_def depth_ok_def set_update_where simp del: climb.simps)
  ultimately show ?thesis by (simp add: alloc_inv_def)
qed

lemma alloc_inv_set_disposition: "alloc_inv d \<Longrightarrow> alloc_inv (set_disposition i v d)"
  by (auto simp: set_disposition_def same_shape_def intro: alloc_inv_update split: option.splits)

section \<open>Operations\<close>

lemma quiet_owner_open [quiet_intros]: "quiet (owner_open i owner)"
  unfolding owner_open_def by (intro quiet_intros)

lemma quiet_require_allocation_open [quiet_intros]: "quiet (require_allocation_open grant i)"
  unfolding require_allocation_open_def by (intro quiet_intros)

lemma allocation_row_of_simps [simp]:
  "al_id (allocation_row_of a) = a_id a" "al_grant_id (allocation_row_of a) = a_grant_id a"
  "al_parent_id (allocation_row_of a) = a_parent_id a" "al_body (allocation_row_of a) = a"
  by (simp_all add: allocation_row_of_def)

lemma root_allocation_in_db:
  assumes "root_allocation_in grant s = (r, t)"
  shows "same_store s t \<or>
    (\<exists>i. let row = allocation_row_of (root_allocation grant i) in
       allocation_keys_ok row (store_db s) \<and> allocation_refs_ok row (store_db s) \<and>
       t = s\<lparr>store_db := insert_allocation row (store_db s)\<rparr>)"
  using assms
  by (auto simp: root_allocation_in_def Let_def seq_def bind_def ask_def insert_row_def need_def
      split: if_splits sum.splits)

lemma root_allocation_in_keeps:
  "preserves (db_inv alloc_inv) (root_allocation_in grant)"
proof (rule preservesI)
  fix s r t
  assume inv: "db_inv alloc_inv s" and run: "root_allocation_in grant s = (r, t)"
  from root_allocation_in_db [OF run] consider "same_store s t"
    | i where "allocation_keys_ok (allocation_row_of (root_allocation grant i)) (store_db s)"
        "store_db t = insert_allocation (allocation_row_of (root_allocation grant i)) (store_db s)"
    by (auto simp: Let_def)
  then show "db_inv alloc_inv t"
  proof cases
    case 1
    with inv show ?thesis by (simp add: db_inv_def same_storeD)
  next
    case 2
    let ?row = "allocation_row_of (root_allocation grant i)"
    have "row_ok (budget_allocations (store_db s)) ?row"
      using 2(1) by (auto simp: row_ok_def allocation_keys_ok_def root_allocation_def)
    with inv 2(2) show ?thesis
      by (auto simp: db_inv_def root_allocation_def intro: alloc_inv_insert)
  qed
qed

text \<open>What \<open>allocate_in\<close> did, on every path.\<close>

lemma allocate_in_db:
  assumes "allocate_in grant q s = (r, t)"
  shows "same_store s t \<or>
    (\<exists>parent as u. allocation grant (bar_parent_id q) (store_db s) = Inr parent \<and>
       allocation_row (store_db s) (bar_id q) = None \<and>
       require_allocation_open grant (a_id parent) s = (Inr as, u) \<and> length as < 64 \<and>
       allocation_ancestry grant (a_id parent) (store_db s) = Inr as \<and>
       within_ceilings (bar_budget q) (a_budget parent) = Inr True \<and>
       r = Inr (child_allocation grant q parent) \<and>
       store_db t = insert_allocation (allocation_row_of (child_allocation grant q parent)) (store_db s))"
proof (cases "same_store s t")
  case False
  obtain parent where v: "valid_BudgetAllocationRequest q"
    and p: "allocation grant (bar_parent_id q) (store_db s) = Inr parent"
    and n: "allocation_row (store_db s) (bar_id q) = None"
    using assms False
    by (auto simp: allocate_in_def seq_def bind_def Let_def need_def validate_def
        split: if_splits sum.splits option.splits)
  obtain v' u where o: "require_allocation_open grant (a_id parent) s = (v', u)"
    by (cases "require_allocation_open grant (a_id parent) s")
  from quietD [OF quiet_require_allocation_open o] have su: "same_store s u" .
  then have du: "store_db u = store_db s" by (rule same_storeD)
  have run: "seq (require_allocation_open grant (a_id parent)) (
         bind (query_res (allocation_ancestry grant (a_id parent))) (\<lambda>ancestry.
         seq (need (length ancestry < 64) (invalid ''allocation ancestry exceeds 64 levels'')) (
         bind (lift (within_ceilings (bar_budget q) (a_budget parent))) (\<lambda>fits.
         seq (need fits (denied ''child allocation exceeds parent ceilings'')) (
         seq (insert_row (\<lambda>d. allocation_keys_ok (allocation_row_of (child_allocation grant q parent)) d \<and>
                allocation_refs_ok (allocation_row_of (child_allocation grant q parent)) d)
                (insert_allocation (allocation_row_of (child_allocation grant q parent))))
             (ret (child_allocation grant q parent))))))) s = (r, t)"
    using assms v p n by (simp add: allocate_in_def Let_def seq_def bind_def)
  show ?thesis
  proof (cases v')
    case (Inl e)
    with run o su False show ?thesis by (simp add: seq_def bind_def)
  next
    case (Inr bs)
    then have an: "allocation_ancestry grant (a_id parent) (store_db s) = Inr bs"
      using o by (auto simp: require_allocation_open_def op_simps)
    show ?thesis
      using run o Inr an du su False p n
      by (auto simp: seq_def bind_def insert_row_def need_def split: if_splits sum.splits)
  qed
qed simp

lemma allocate_in_keeps: "preserves (db_inv alloc_inv) (allocate_in grant q)"
proof (rule preservesI)
  fix s r t
  assume inv: "db_inv alloc_inv s" and run: "allocate_in grant q s = (r, t)"
  from inv have tree: "tree_ok (store_db s)" by (simp add: db_inv_def alloc_inv_def)
  from allocate_in_db [OF run] consider "same_store s t"
    | parent as where "allocation grant (bar_parent_id q) (store_db s) = Inr parent"
       "allocation_row (store_db s) (bar_id q) = None" "length as < 64"
       "allocation_ancestry grant (a_id parent) (store_db s) = Inr as"
       "within_ceilings (bar_budget q) (a_budget parent) = Inr True"
       "store_db t = insert_allocation (allocation_row_of (child_allocation grant q parent)) (store_db s)"
    by blast
  then show "db_inv alloc_inv t"
  proof cases
    case 1
    with inv show ?thesis by (simp add: db_inv_def same_storeD)
  next
    case 2
    let ?row = "allocation_row_of (child_allocation grant q parent)"
    from allocation_InrD [OF tree 2(1)] obtain p where
      row: "allocation_row (store_db s) (bar_parent_id q) = Some p" and
      p': "al_body p = parent" "a_id parent = bar_parent_id q" "a_grant_id parent = g_id grant"
      by blast
    then have p: "p \<in> set (budget_allocations (store_db s))" "al_id p = a_id parent" "al_body p = parent"
        "al_grant_id p = g_id grant"
      using tree row_body_id(3) [OF tree row] by (auto simp: allocation_row_iff)
    have "row_ok (budget_allocations (store_db s)) ?row"
      using 2(2,5) p
      by (force simp: row_ok_def child_allocation_def budget_le_def allocation_row_def find_None_iff2)
    moreover have "climb (parent_of (store_db s)) 63 (a_id parent) = None"
      using ancestry_chain(2) [OF 2(4) tree] 2(3) by (rule_tac climb_None_mono) auto
    ultimately have "alloc_inv (insert_allocation ?row (store_db s))"
      using inv by (intro alloc_inv_insert) (auto simp: db_inv_def child_allocation_def)
    with 2(6) show ?thesis by (simp add: db_inv_def)
  qed
qed

lemma allocate_keeps: "preserves (db_inv alloc_inv) (allocate grant q)"
  unfolding allocate_def by (intro keeps_intros allocate_in_keeps)

text \<open>The invariant reads one table only.\<close>

lemma alloc_inv_table:
  "budget_allocations d' = budget_allocations d \<Longrightarrow> alloc_inv d' = alloc_inv d"
  unfolding alloc_inv_def tree_ok_def depth_ok_def
  by (subgoal_tac "parent_of d' = parent_of d") (auto simp: parent_of_def allocation_row_def)

lemma alloc_inv_cong [simp]: "alloc_inv (d\<lparr>run_allocations := x\<rparr>) = alloc_inv d"
  by (rule alloc_inv_table) simp

lemma bind_run_allocation_keeps: "preserves (db_inv alloc_inv) (bind_run_allocation_in grant q)"
  unfolding bind_run_allocation_in_def Let_def
  by (intro keeps_intros root_allocation_in_keeps allocate_in_keeps)
     (auto intro: alloc_inv_set_disposition)

lemma run_allocation_keeps: "preserves (db_inv alloc_inv) (run_allocation_in run)"
  unfolding run_allocation_in_def by (intro keeps_intros root_allocation_in_keeps)

lemma finish_allocation_db:
  assumes "finish_allocation grant i v s = (r, t)"
  shows "store_db t = store_db s \<or>
    (\<exists>a. allocation grant i (store_db s) = Inr a \<and> a_disposition a = None \<and> r = Inr () \<and>
       store_db t = update_allocation i (\<lambda>_. a\<lparr>a_disposition := Some v\<rparr>) (store_db s))"
  using assms
  by (auto simp: finish_allocation_def transaction_def bind_def seq_def need_def commit_def
      split: if_splits sum.splits option.splits)

lemma finish_allocation_keeps: "preserves (db_inv alloc_inv) (finish_allocation grant i v)"
proof (rule preservesI)
  fix s r t
  assume inv: "db_inv alloc_inv s" and run: "finish_allocation grant i v s = (r, t)"
  from inv have tree: "tree_ok (store_db s)" by (simp add: db_inv_def alloc_inv_def)
  from finish_allocation_db [OF run] show "db_inv alloc_inv t"
  proof (elim disjE exE conjE)
    fix a
    assume a: "allocation grant i (store_db s) = Inr a"
      and t: "store_db t = update_allocation i (\<lambda>_. a\<lparr>a_disposition := Some v\<rparr>) (store_db s)"
    from allocation_InrD [OF tree a] obtain q where
      q: "allocation_row (store_db s) i = Some q" "al_body q = a" by blast
    have "same_shape (al_body r) (a\<lparr>a_disposition := Some v\<rparr>)"
      if "r \<in> set (budget_allocations (store_db s))" "al_id r = i" for r
    proof -
      from that tree have "allocation_row (store_db s) i = Some r" by (simp add: allocation_row_iff)
      with q show ?thesis by (simp add: same_shape_def)
    qed
    with inv t show ?thesis by (simp add: db_inv_def alloc_inv_update)
  next
    assume "store_db t = store_db s"
    with inv show ?thesis by (simp add: db_inv_def)
  qed
qed

text \<open>Every operation of Allocations keeps the invariant, and the empty table has it.\<close>

lemmas allocation_ops_keep =
  root_allocation_in_keeps allocate_in_keeps allocate_keeps bind_run_allocation_keeps
  run_allocation_keeps finish_allocation_keeps

end
