(* ===== verification/Sources.thy ===== *)
theory Sources
  imports Authority
begin

text \<open>
  crates/ribosome-core/src/sources.rs and the parts of records.rs (\<open>expired\<close>), exports.rs
  (\<open>collect_references\<close>), artifact_context.rs (\<open>require_artifact_source\<close>) and invocation.rs
  (\<open>require_prepared_sources\<close>) it rests on: the lineage edges of every stored observation, and
  the authorization of a source by its whole ancestry.

  A \<open>Vec\<close> used as a stack is a list whose head is the top, so pushing the list \<open>xs\<close> in order
  gives \<open>rev xs @ stack\<close>.
\<close>

section \<open>References inside a body\<close>

definition list_reference_keys :: "string list" where
  "list_reference_keys =
     [''evidence_refs'', ''event_refs'', ''evaluation_refs'', ''source_refs'', ''memory_start_refs'',
      ''conflicts'', ''supersedes'', ''incoming_context_refs'', ''support_refs'',
      ''contradiction_refs'', ''occurrence_refs'', ''recipient_entry_refs'', ''result_refs'']"

definition single_reference_keys :: "string list" where
  "single_reference_keys = [''finding_ref'', ''source_event_ref'', ''target_event_ref'']"

definition version_reference_keys :: "string list" where
  "version_reference_keys =
     [''definition'', ''implementation'', ''donor'', ''candidate'', ''baseline'']"

definition version_list_keys :: "string list" where
  "version_list_keys = [''motifs'', ''definition_refs'', ''discovery_refs'']"

definition nested_keys :: "string list" where
  "nested_keys = [''functional_contract'', ''grounding'', ''local_outcome'', ''instruction_contract'']"

definition nested_list_keys :: "string list" where
  "nested_list_keys =
     [''obligations'', ''relations'', ''role_bindings'', ''dependency_evidence'', ''source_windows'',
      ''hypotheses'', ''alternatives'']"

definition json_items :: "json \<Rightarrow> json list" where
  "json_items v = (case as_array v of None \<Rightarrow> [] | Some xs \<Rightarrow> xs)"

definition json_strings :: "json list \<Rightarrow> string list" where
  "json_strings vs = List.map_filter as_str vs"

lemma size_member: "(k, v) \<in> set m \<Longrightarrow> size v \<le> size_list (size_prod (\<lambda>x. 0) size) m"
  by (induction m) auto

lemma size_json_get: "size (json_get v k) \<le> size v"
  by (cases v) (auto split: option.splits dest!: map_of_SomeD size_member)

lemma size_json_items: "x \<in> set (json_items v) \<Longrightarrow> size x < size v"
  by (cases v) (auto simp: json_items_def less_Suc_eq_le size_list_estimation')

function (sequential) collect_references :: "json \<Rightarrow> string list"
  and collect_member :: "string \<times> json \<Rightarrow> string list" where
  "collect_references (JObject m) = concat (map collect_member m)"
| "collect_references _ = []"
| "collect_member (key, v) =
     (if key \<in> set list_reference_keys then json_strings (json_items v)
      else if key \<in> set single_reference_keys then
        (case as_str v of None \<Rightarrow> [] | Some r \<Rightarrow> [r])
      else if key \<in> set version_reference_keys then
        (case as_str (json_get v ''id'') of None \<Rightarrow> [] | Some r \<Rightarrow> [r])
      else if key \<in> set version_list_keys then
        json_strings (map (\<lambda>x. json_get x ''id'') (json_items v))
      else if key = ''development_cases'' then
        concat (map (\<lambda>c. collect_references (json_get c ''provenance'')) (json_items v))
      else if key \<in> set nested_keys then collect_references v
      else if key \<in> set nested_list_keys then concat (map collect_references (json_items v))
      else [])"
  by pat_completeness auto
termination
  by (relation "measure (\<lambda>x. case x of Inl v \<Rightarrow> 2 * size v | Inr (k, v) \<Rightarrow> 2 * size v + 1)")
     (auto dest: size_json_items size_member simp: less_Suc_eq_le
       intro: order_trans [OF size_json_get] less_imp_le)

declare collect_references.simps [simp del] collect_member.simps [simp del]

section \<open>Edges\<close>

definition source_kind_of :: "Db \<Rightarrow> string \<Rightarrow> string option" where
  "source_kind_of d reference =
     (if exists_where (\<lambda>r. rec_id r = reference) (records d) then Some ''record''
      else if exists_where (\<lambda>e. er_id e = reference) (events d) then Some ''event''
      else if exists_where (\<lambda>a. as_id a = reference) (artifact_snapshots d) then Some ''artifact''
      else None)"

definition tombstoned :: "string \<Rightarrow> string \<Rightarrow> Db \<Rightarrow> bool" where
  "tombstoned kind i d = exists_where (\<lambda>t. ts_kind t = kind \<and> ts_id t = i) (source_tombstones d)"

definition edges_from :: "string \<Rightarrow> string \<Rightarrow> Db \<Rightarrow> SourceEdge list" where
  "edges_from kind i d =
     filter (\<lambda>e. se_subject_kind e = kind \<and> se_subject_id e = i) (source_edges d)"

type_synonym pending_edge = "string \<times> string \<times> string option \<times> bool"

type_synonym captured_edge = "(string \<times> string) \<times> (string option \<times> bool)"

definition capture_entry :: "pending_edge \<Rightarrow> captured_edge list \<Rightarrow> captured_edge list" where
  "capture_entry edge captured =
     (case edge of (kind, source, version, access) \<Rightarrow>
        AList.update (kind, source)
          (case map_of captured (kind, source) of
             None \<Rightarrow> (version, access)
           | Some (previous_version, previous_access) \<Rightarrow>
               (if previous_version \<noteq> version then None else previous_version,
                previous_access \<or> access))
          captured)"

function capture_loop ::
    "Db \<Rightarrow> captured_edge list \<Rightarrow> (string \<times> bool) list \<Rightarrow> pending_edge list \<Rightarrow>
     captured_edge list res" where
  "capture_loop d captured visited pending =
     (case pending of
        [] \<Rightarrow> Inr captured
      | (kind, source, version, access) # rest \<Rightarrow>
          let captured' = capture_entry (kind, source, version, access) captured in
          if kind \<noteq> ''record'' \<or> (source, access) \<in> set visited
          then capture_loop d captured' visited rest
          else if 1000 < Suc (length visited)
          then Inl (exhausted ''record ancestry exceeds the bounded source capture'')
          else if tombstoned ''record'' source d
          then capture_loop d captured' ((source, access) # visited) rest
          else capture_loop d captured' ((source, access) # visited)
            (rev (map (\<lambda>e. (se_source_kind e, se_source_id e, se_source_version e,
                      access \<and> se_requires_access e)) (edges_from ''record'' source d)) @ rest))"
  by pat_completeness auto
termination
  by (relation "measures [\<lambda>(_, _, visited, _). 1000 - length visited, \<lambda>(_, _, _, pending). length pending]")
     auto

declare capture_loop.simps [simp del]

definition reopen_cleanup :: "string \<Rightarrow> string \<Rightarrow> Db \<Rightarrow> Db" where
  "reopen_cleanup kind source d = d\<lparr>
     source_cleanup := update_where (\<lambda>j. exists_where (\<lambda>i. ci_job_id i = cj_source_id j \<and>
         ci_kind i = kind \<and> ci_id i = source) (source_cleanup_items d))
       (\<lambda>j. j\<lparr>cj_status := ''pending'', cj_error := None\<rparr>) (source_cleanup d),
     source_cleanup_items := update_where (\<lambda>i. ci_kind i = kind \<and> ci_id i = source)
       (\<lambda>i. i\<lparr>ci_complete := False, ci_after_edge := 0, ci_payload_done := False\<rparr>)
       (source_cleanup_items d)\<rparr>"

text \<open>SQLite gives a new row the largest rowid in use plus one.\<close>

definition next_rowid :: "Db \<Rightarrow> nat" where
  "next_rowid d = Suc (foldr max (map se_rowid (source_edges d)) 0)"

definition write_edge :: "string \<Rightarrow> string \<Rightarrow> captured_edge \<Rightarrow> Db \<Rightarrow> Db" where
  "write_edge kind i edge d =
     (case edge of ((source_kind, source), (version, access)) \<Rightarrow>
        reopen_cleanup source_kind source (d\<lparr>source_edges := source_edges d @
          [\<lparr>se_rowid = next_rowid d, se_subject_kind = kind, se_subject_id = i, se_source_kind = source_kind,
            se_source_id = source, se_source_version = version, se_requires_access = access\<rparr>]\<rparr>))"

definition write_edges :: "string \<Rightarrow> string \<Rightarrow> captured_edge list \<Rightarrow> Db \<Rightarrow> Db" where
  "write_edges kind i captured d =
     fold (write_edge kind i) (sort_key fst captured)
       (d\<lparr>source_edges := delete_where (\<lambda>e. se_subject_kind e = kind \<and> se_subject_id e = i)
            (source_edges d)\<rparr>)"

definition capture_mutable_ancestry ::
    "string \<Rightarrow> string \<Rightarrow> pending_edge list \<Rightarrow> Db \<Rightarrow> Db res" where
  "capture_mutable_ancestry kind i pending d =
     and_then (capture_loop d [] [] (rev pending)) (\<lambda>captured. Inr (write_edges kind i captured d))"

definition add_source_edges ::
    "string \<Rightarrow> string \<Rightarrow> string list \<Rightarrow> string list \<Rightarrow> Db \<Rightarrow> Db res" where
  "add_source_edges kind i references released d =
     capture_mutable_ancestry kind i
       (map (\<lambda>reference.
          (case source_kind_of d reference of None \<Rightarrow> ''unknown'' | Some k \<Rightarrow> k,
           reference, None, reference \<notin> set released)) references) d"

definition aggregate_record :: "Db \<Rightarrow> string \<Rightarrow> bool" where
  "aggregate_record d i =
     (case List.find (\<lambda>r. rec_id r = i) (records d) of
        None \<Rightarrow> False
      | Some r \<Rightarrow> rec_kind r = RecordKind.Evaluation \<or> rec_kind r = RecordKind.Recommendation)"

definition bump_policy :: "Scope \<Rightarrow> Db \<Rightarrow> Db" where
  "bump_policy scope d = d\<lparr>source_policy :=
     (if exists_where (\<lambda>g. sg_client g = sc_client scope \<and> sg_project g = sc_project scope)
          (source_policy d)
      then update_where (\<lambda>g. sg_client g = sc_client scope \<and> sg_project g = sc_project scope)
          (\<lambda>g. g\<lparr>sg_generation := sg_generation g + 1\<rparr>) (source_policy d)
      else source_policy d @
          [\<lparr>sg_client = sc_client scope, sg_project = sc_project scope, sg_generation = 1\<rparr>])\<rparr>"

definition add_tombstone :: "string \<Rightarrow> string \<Rightarrow> Scope \<Rightarrow> bool \<Rightarrow> Db \<Rightarrow> Db" where
  "add_tombstone kind i scope deleted d = d\<lparr>source_tombstones :=
     (if tombstoned kind i d
      then update_where (\<lambda>t. ts_kind t = kind \<and> ts_id t = i)
          (\<lambda>t. t\<lparr>ts_deleted := ts_deleted t \<or> deleted\<rparr>) (source_tombstones d)
      else source_tombstones d @
          [\<lparr>ts_kind = kind, ts_id = i, ts_client = sc_client scope, ts_project = sc_project scope,
            ts_deleted = deleted\<rparr>])\<rparr>"

definition queue_cleanup :: "string \<Rightarrow> Scope \<Rightarrow> bool \<Rightarrow> Db \<Rightarrow> Db" where
  "queue_cleanup i scope deleted d = d\<lparr>source_cleanup :=
     (if exists_where (\<lambda>j. cj_source_id j = i) (source_cleanup d)
      then update_where (\<lambda>j. cj_source_id j = i)
          (\<lambda>j. j\<lparr>cj_delete_content := cj_delete_content j \<or> deleted, cj_status := ''pending'',
                 cj_error := None\<rparr>) (source_cleanup d)
      else source_cleanup d @
          [\<lparr>cj_source_id = i, cj_client = sc_client scope, cj_project = sc_project scope,
            cj_delete_content = deleted, cj_status = ''pending'', cj_error = None,
            cj_source_kind = ''record''\<rparr>])\<rparr>"

definition restart_items :: "string \<Rightarrow> Db \<Rightarrow> Db" where
  "restart_items i d = d\<lparr>source_cleanup_items :=
     (if exists_where (\<lambda>j. cj_source_id j = i \<and> \<not> cj_delete_content j) (source_cleanup d)
      then update_where (\<lambda>c. ci_job_id c = i)
          (\<lambda>c. c\<lparr>ci_complete := False, ci_payload_done := False\<rparr>) (source_cleanup_items d)
      else source_cleanup_items d)\<rparr>"

definition record_sources :: "RecordEnvelope \<Rightarrow> Db \<Rightarrow> Db res" where
  "record_sources r d =
     (let references = pv_source_refs (r_provenance r) @ collect_references (JObject (r_body r));
          released = (if r_kind r \<in> {RecordKind.Recommendation, RecordKind.Admission}
            then filter (aggregate_record d) references else []);
          has_edges = (edges_from ''record'' (r_id r) d \<noteq> [])
      in and_then (if \<not> r_retired r \<or> \<not> has_edges
                   then add_source_edges ''record'' (r_id r) references released d else Inr d) (\<lambda>d.
         Inr (if r_retired r then
                let deleted = (r_body r = []);
                    d = add_tombstone ''record'' (r_id r) (r_scope r) deleted d;
                    d = bump_policy (r_scope r) d;
                    d = (if deleted then restart_items (r_id r) d else d)
                in queue_cleanup (r_id r) (r_scope r) deleted d
              else d)))"

section \<open>What the lineage writes change\<close>

text \<open>Only the five lineage tables.\<close>

definition without_lineage :: "Db \<Rightarrow> Db" where
  "without_lineage d = d\<lparr>source_edges := [], source_tombstones := [], source_policy := [],
     source_cleanup := [], source_cleanup_items := []\<rparr>"

definition only_lineage :: "Db \<Rightarrow> Db \<Rightarrow> bool" where
  "only_lineage d d' \<longleftrightarrow> without_lineage d' = without_lineage d"

lemma only_lineage_refl [simp]: "only_lineage d d"
  by (simp add: only_lineage_def)

lemma only_lineage_trans: "only_lineage a b \<Longrightarrow> only_lineage b c \<Longrightarrow> only_lineage a c"
  by (simp add: only_lineage_def)

lemma only_lineage_field:
  "only_lineage d d' \<Longrightarrow> (\<And>x. f (without_lineage x) = f x) \<Longrightarrow> f d' = f d"
  unfolding only_lineage_def by metis

lemma only_lineageD:
  assumes "only_lineage d d'"
  shows "records d' = records d" "events d' = events d" "runs d' = runs d" "work d' = work d"
    "grants d' = grants d" "budget_allocations d' = budget_allocations d" "permits d' = permits d"
    "run_allocations d' = run_allocations d" "messages d' = messages d" "effects d' = effects d"
    "artifact_snapshots d' = artifact_snapshots d" "run_waits d' = run_waits d"
    "attachment_work d' = attachment_work d" "evaluation_sources d' = evaluation_sources d"
    "attachments d' = attachments d" "dependencies d' = dependencies d"
  by (rule only_lineage_field [OF assms], simp add: without_lineage_def)+

lemma reopen_cleanup_frame [simp]:
  "only_lineage d (reopen_cleanup k i d)"
  "source_tombstones (reopen_cleanup k i d) = source_tombstones d"
  "source_edges (reopen_cleanup k i d) = source_edges d"
  by (simp_all add: reopen_cleanup_def only_lineage_def without_lineage_def)

lemma write_edge_frame [simp]:
  "only_lineage d (write_edge kind i e d)"
  "source_tombstones (write_edge kind i e d) = source_tombstones d"
  by (simp_all add: write_edge_def reopen_cleanup_def only_lineage_def without_lineage_def
      split: prod.split)

lemma write_edges_frame:
  "only_lineage d (write_edges kind i captured d)"
  "source_tombstones (write_edges kind i captured d) = source_tombstones d"
proof -
  have fold: "only_lineage d (fold (write_edge kind i) es d) \<and>
      source_tombstones (fold (write_edge kind i) es d) = source_tombstones d" for es d
    by (induction es arbitrary: d) (auto intro: only_lineage_trans [OF write_edge_frame(1)])
  have "only_lineage d (d\<lparr>source_edges := x\<rparr>)" for x
    by (simp add: only_lineage_def without_lineage_def)
  with fold show "only_lineage d (write_edges kind i captured d)"
    "source_tombstones (write_edges kind i captured d) = source_tombstones d"
    unfolding write_edges_def by (auto intro: only_lineage_trans)
qed

lemma add_source_edges_frame:
  "add_source_edges kind i refs released d = Inr d' \<Longrightarrow>
     only_lineage d d' \<and> source_tombstones d' = source_tombstones d"
  by (auto simp: add_source_edges_def capture_mutable_ancestry_def write_edges_frame)

lemma retire_sources_frame [simp]:
  "only_lineage d (add_tombstone kind i scope deleted d)"
  "only_lineage d (bump_policy scope d)"
  "only_lineage d (restart_items i d)"
  "only_lineage d (queue_cleanup i scope deleted d)"
  by (simp_all add: add_tombstone_def bump_policy_def restart_items_def queue_cleanup_def
      only_lineage_def without_lineage_def)

lemma record_sources_frame:
  assumes "record_sources r d = Inr d'"
  shows "only_lineage d d'"
  using assms
  by (auto simp: record_sources_def Let_def dest!: add_source_edges_frame split: if_splits
      intro!: only_lineage_trans [OF _ retire_sources_frame(4)] only_lineage_trans [OF _ retire_sources_frame(3)]
        only_lineage_trans [OF _ retire_sources_frame(2)] only_lineage_trans [OF _ retire_sources_frame(1)])

lemma tombstoned_add: "tombstoned kind i (add_tombstone kind i scope deleted d)"
  by (auto simp: tombstoned_def add_tombstone_def)

lemma tombstones_kept_by_add:
  "tombstoned k j d \<Longrightarrow> tombstoned k j (add_tombstone kind i scope deleted d)"
  by (auto simp: tombstoned_def add_tombstone_def)

lemma tombstoned_frame [simp]:
  "tombstoned k j (bump_policy scope d) = tombstoned k j d"
  "tombstoned k j (restart_items i d) = tombstoned k j d"
  "tombstoned k j (queue_cleanup i scope deleted d) = tombstoned k j d"
  by (simp_all add: tombstoned_def bump_policy_def restart_items_def queue_cleanup_def)

lemma record_sources_tombstones:
  assumes "record_sources r d = Inr d'"
  shows "r_retired r \<Longrightarrow> tombstoned ''record'' (r_id r) d'"
    and "tombstoned k j d \<Longrightarrow> tombstoned k j d'"
  using assms
  by (auto simp: record_sources_def Let_def tombstoned_add intro!: tombstones_kept_by_add
      dest!: add_source_edges_frame split: if_splits)
     (auto simp: tombstoned_def)

end
