(* ===== verification/Lineage.thy ===== *)
theory Lineage
  imports Sources
begin

text \<open>
  Authorization of a source by its whole ancestry: sources.rs (\<open>evaluation_source_grant\<close>,
  \<open>require_sources\<close>, \<open>require_source\<close>, \<open>source_available\<close>), artifact_context.rs
  (\<open>require_artifact_source\<close>), invocation.rs (\<open>require_prepared_sources\<close>) and records.rs
  (\<open>expired\<close>). The specification is \<open>lineage\<close>, the set of sources an authorization
  depends on; the traversal succeeds exactly when it has checked all of it.
\<close>

section \<open>Model\<close>

definition quoted :: "string \<Rightarrow> string" where
  "quoted s = CHR 0x22 # s @ [CHR 0x22]"

definition unavailable :: "string \<Rightarrow> Error" where
  "unavailable i = denied (''source reference '' @ quoted i @ '' is absent or inaccessible'')"

definition expired :: "RecordEnvelope \<Rightarrow> bool store_op" where
  "expired r =
     (if r_kind r \<noteq> RecordKind.Memory then ret False
      else case Option.bind (map_of (r_body r) ''expires_ms'') as_str of
          None \<Rightarrow> ret False
        | Some v \<Rightarrow> bind (lift (counter v)) (\<lambda>expiry. bind now_ms (\<lambda>now. ret (expiry \<le> now))))"

text \<open>The starting memory a study froze for its evaluation subjects, as pinned in its policy.\<close>

definition frozen_version :: "Db \<Rightarrow> string \<Rightarrow> string \<Rightarrow> string option" where
  "frozen_version d grant_id source =
     Option.bind (List.find (\<lambda>m. as_str (json_get m ''id'') = Some source)
       (concat (map (\<lambda>a. concat (map (\<lambda>p. concat (map (\<lambda>e.
            json_items (json_get (xp_policy e) ''memory_start''))
          (filter (\<lambda>e. xp_id e = a_cause_id (al_body p)) (experiments d))))
          (filter (\<lambda>p. al_parent_id a = Some (al_id p)) (budget_allocations d))))
        (filter (\<lambda>a. al_grant_id a = grant_id \<and> a_purpose (al_body a) = ''evaluation-subject'')
          (budget_allocations d)))))
       (\<lambda>m. as_str (json_get m ''version''))"

definition evaluation_source_grant ::
    "Grant \<Rightarrow> string \<Rightarrow> string \<Rightarrow> bool \<Rightarrow> Db \<Rightarrow> Grant res" where
  "evaluation_source_grant grant kind source root d =
     (case List.find (\<lambda>m. es_grant_id m = g_id grant \<and> es_kind m = kind \<and> es_source_id m = source)
             (evaluation_sources d) of
        None \<Rightarrow> Inr grant
      | Some mapping \<Rightarrow>
          and_then (guard (\<not> (root \<and> \<not> es_deliverable mapping))
            (denied ''evaluation donor ancestry is not deliverable'')) (\<lambda>_.
          and_then
            (case (if kind = ''record'' then frozen_version d (g_id grant) source else None) of
               None \<Rightarrow> Inr ()
             | Some version \<Rightarrow>
                 guard (map_option rec_version (List.find (\<lambda>r. rec_id r = source) (records d)) =
                     Some version)
                   (denied ''starting memory changed after study selection'')) (\<lambda>_.
          and_then (store_grant (es_owner_grant_id mapping) d) (\<lambda>owner.
          Inr (grant\<lparr>g_scope := g_scope owner\<rparr>)))))"

definition require_artifact_source :: "Grant \<Rightarrow> string \<Rightarrow> bool \<Rightarrow> Db \<Rightarrow> unit res" where
  "require_artifact_source grant source lineage_only d =
     (let refusal = denied ''artifact observation is absent or inaccessible'' in
      and_then (ok_or (List.find (\<lambda>a. as_id a = source \<and> as_client a = sc_client (g_scope grant) \<and>
          as_project a = sc_project (g_scope grant)) (artifact_snapshots d)) refusal) (\<lambda>access.
      guard (\<not> (\<not> as_available access \<or>
          \<not> lineage_only \<and> as_result_run_id access = None \<and> as_export_file access = None \<and>
            as_path access \<notin> set (g_paths grant) \<or>
          \<not> lineage_only \<and> as_export_file access \<noteq> None \<and> \<not> g_allow_export grant \<or>
          as_split access \<notin> set (g_visible_splits grant) \<or>
          \<not> lineage_only \<and> as_branch_id access \<noteq> None \<and> as_grant_id access \<noteq> g_id grant))
        refusal))"

text \<open>
  What a prepared run may be handed: its own recipients and observations, and the kinds of
  prepared material.
\<close>

definition prepared_allowed :: "string \<Rightarrow> string \<Rightarrow> string \<Rightarrow> Db \<Rightarrow> bool" where
  "prepared_allowed run kind i d =
     (if kind = ''record'' then exists_where (\<lambda>r. rec_id r = i \<and> rec_kind r \<in>
          {RecordKind.Implementation, RecordKind.Definition, RecordKind.Memory, RecordKind.Admission})
          (records d)
      else if kind = ''event'' then exists_where (\<lambda>e. er_id e = i \<and> er_run_id e = run) (events d)
      else if kind = ''artifact'' then
        exists_where (\<lambda>a. as_id a = i \<and> as_result_run_id a = Some run) (artifact_snapshots d)
      else False)"

fun source_kind_name :: "ContextSourceKind \<Rightarrow> string" where
  "source_kind_name ContextSourceKind.Record = ''record''"
| "source_kind_name ContextSourceKind.Event = ''event''"
| "source_kind_name ContextSourceKind.Artifact = ''artifact''"

definition prepared_observed :: "string \<Rightarrow> string \<Rightarrow> string \<Rightarrow> Db \<Rightarrow> bool" where
  "prepared_observed run kind i d =
     exists_where (\<lambda>a. as_result_run_id a = Some run \<and>
       list_ex (\<lambda>s. source_kind_name (cs_kind s) = kind \<and> cs_id s = i) (as_result_sources a))
       (artifact_snapshots d)"

definition require_prepared_sources :: "Grant \<Rightarrow> (string \<times> string) list \<Rightarrow> Db \<Rightarrow> unit res" where
  "require_prepared_sources grant sources d =
     (case g_prepared_run grant of
        None \<Rightarrow> Inr ()
      | Some run \<Rightarrow>
          let invocation = run_invocation run d in
          for_res (\<lambda>(kind, i).
            if (case invocation of None \<Rightarrow> False | Some v \<Rightarrow> i \<in> set (inv_recipient_refs v))
            then Inr ()
            else guard (prepared_allowed run kind i d \<or> prepared_observed run kind i d)
              (denied ''source is outside prepared reuse and recipient observations'')) sources)"

definition scoped_record :: "Grant \<Rightarrow> string \<Rightarrow> Db \<Rightarrow> RecordEnvelope option" where
  "scoped_record grant i d =
     map_option rec_body (List.find (\<lambda>r. rec_id r = i \<and> rec_client r = sc_client (g_scope grant) \<and>
       rec_project r = sc_project (g_scope grant)) (records d))"

definition scoped_event :: "Grant \<Rightarrow> string \<Rightarrow> Db \<Rightarrow> Event option" where
  "scoped_event grant i d =
     map_option er_body (List.find (\<lambda>e. er_id e = i \<and> er_client e = sc_client (g_scope grant) \<and>
       er_project e = sc_project (g_scope grant)) (events d))"

text \<open>The body of the traversal loop: one source, checked under the grant that delivers it.\<close>

definition check_source ::
    "Grant \<Rightarrow> (string \<times> string) list \<Rightarrow> string \<Rightarrow> string \<Rightarrow> bool \<Rightarrow> unit store_op" where
  "check_source grant roots kind i access =
     bind (query (tombstoned kind i)) (\<lambda>tombstone.
     seq (need (\<not> tombstone) (unavailable i)) (
     bind (query_res (evaluation_source_grant grant kind i ((kind, i) \<in> set roots))) (\<lambda>effective.
     if kind = ''artifact'' then
       query_res (require_artifact_source effective i
         ((g_prepared_run effective \<noteq> None \<or> g_discovery_corpus effective \<noteq> None) \<and>
          (kind, i) \<notin> set roots))
     else if kind = ''record'' then
       bind (query_res (\<lambda>d. ok_or (scoped_record effective i d) (unavailable i))) (\<lambda>r.
       bind (if r_retired r then ret True else expired r) (\<lambda>gone.
       need (\<not> (gone \<or> access \<and> pv_split (r_provenance r) \<notin> set (g_visible_splits effective)))
         (unavailable i)))
     else if kind = ''event'' then
       bind (query_res (\<lambda>d. ok_or (scoped_event effective i d) (unavailable i))) (\<lambda>e.
       seq (need (\<not> (ev_producer e = ''ribosome-host'' \<and>
                      map_of (ev_payload e) ''content_available'' \<noteq> Some (JBool True)))
              (unavailable i))
           (need (\<not> (access \<and> pv_split (ev_provenance e) \<notin> set (g_visible_splits effective)))
              (unavailable i)))
     else throw (unavailable i))))"

definition source_parents :: "Db \<Rightarrow> string \<times> string \<times> bool \<Rightarrow> (string \<times> string \<times> bool) list" where
  "source_parents d source = (case source of (kind, i, access) \<Rightarrow>
     map (\<lambda>e. (se_source_kind e, se_source_id e, access \<and> se_requires_access e))
       (edges_from kind i d))"

function lineage_loop ::
    "Grant \<Rightarrow> (string \<times> string) list \<Rightarrow> (string \<times> string \<times> bool) list \<Rightarrow>
     (string \<times> string \<times> bool) list \<Rightarrow> unit store_op" where
  "lineage_loop grant roots visited pending s =
     (case pending of
        [] \<Rightarrow> (Inr (), s)
      | (kind, i, access) # rest \<Rightarrow>
          if (kind, i, access) \<in> set visited then lineage_loop grant roots visited rest s
          else if 1000 < Suc (length visited)
          then (Inl (exhausted ''source lineage exceeds the local reference bound''), s)
          else case check_source grant roots kind i access s of
              (Inl e, t) \<Rightarrow> (Inl e, t)
            | (Inr _, t) \<Rightarrow> lineage_loop grant roots ((kind, i, access) # visited)
                (rev (source_parents (store_db t) (kind, i, access)) @ rest) t)"
  by pat_completeness auto
termination
  by (relation "measures [\<lambda>(_, _, visited, _, _). 1000 - length visited,
        \<lambda>(_, _, _, pending, _). length pending]") auto

declare lineage_loop.simps [simp del]

definition require_sources :: "Grant \<Rightarrow> (string \<times> string) list \<Rightarrow> unit store_op" where
  "require_sources grant sources =
     seq (query_res (require_discovery_sources grant sources)) (
     seq (query_res (require_prepared_sources grant sources))
         (lineage_loop grant sources [] (rev (map (\<lambda>(kind, i). (kind, i, True)) sources))))"

definition require_source :: "Grant \<Rightarrow> string \<Rightarrow> string \<Rightarrow> unit store_op" where
  "require_source grant kind i = require_sources grant [(kind, i)]"

text \<open>\<open>denied\<close> and \<open>missing\<close> mean "not available"; other errors pass through.\<close>

definition available_if :: "unit store_op \<Rightarrow> bool store_op" where
  "available_if m s =
     (case m s of
        (Inr _, t) \<Rightarrow> (Inr True, t)
      | (Inl e, t) \<Rightarrow>
          if e_code e = -32001 \<or> e_code e = -32004 then (Inr False, t) else (Inl e, t))"

definition source_available :: "Grant \<Rightarrow> string \<Rightarrow> string \<Rightarrow> bool store_op" where
  "source_available grant kind i = available_if (require_source grant kind i)"

section \<open>The tables are only read\<close>

lemma quiet_expired [quiet_intros]: "quiet (expired r)"
  unfolding expired_def by (intro quiet_intros)

lemma quiet_check_source [quiet_intros]: "quiet (check_source grant roots kind i access)"
  unfolding check_source_def by (intro quiet_intros)

lemma lineage_loop_simps:
  "lineage_loop grant roots visited [] s = (Inr (), s)"
  "(k, i, a) \<in> set visited \<Longrightarrow>
     lineage_loop grant roots visited ((k, i, a) # rest) s = lineage_loop grant roots visited rest s"
  "(k, i, a) \<notin> set visited \<Longrightarrow> 1000 < Suc (length visited) \<Longrightarrow>
     lineage_loop grant roots visited ((k, i, a) # rest) s =
       (Inl (exhausted ''source lineage exceeds the local reference bound''), s)"
  "(k, i, a) \<notin> set visited \<Longrightarrow> \<not> 1000 < Suc (length visited) \<Longrightarrow>
     check_source grant roots k i a s = (Inl e, t) \<Longrightarrow>
     lineage_loop grant roots visited ((k, i, a) # rest) s = (Inl e, t)"
  "(k, i, a) \<notin> set visited \<Longrightarrow> \<not> 1000 < Suc (length visited) \<Longrightarrow>
     check_source grant roots k i a s = (Inr u, t) \<Longrightarrow>
     lineage_loop grant roots visited ((k, i, a) # rest) s =
       lineage_loop grant roots ((k, i, a) # visited) (rev (source_parents (store_db t) (k, i, a)) @ rest) t"
  by (subst lineage_loop.simps; simp)+

text \<open>The induction rule of the loop, with the cases named by what the loop does.\<close>

lemma lineage_loop_induct [case_names Nil Seen Bound Fail Step]:
  assumes "\<And>visited s. P visited [] s"
    and "\<And>k i a visited rest s. (k, i, a) \<in> set visited \<Longrightarrow> P visited rest s \<Longrightarrow>
           P visited ((k, i, a) # rest) s"
    and "\<And>k i a visited rest s. (k, i, a) \<notin> set visited \<Longrightarrow> 1000 < Suc (length visited) \<Longrightarrow>
           P visited ((k, i, a) # rest) s"
    and "\<And>k i a visited rest s e t. (k, i, a) \<notin> set visited \<Longrightarrow> \<not> 1000 < Suc (length visited) \<Longrightarrow>
           check_source grant roots k i a s = (Inl e, t) \<Longrightarrow> P visited ((k, i, a) # rest) s"
    and "\<And>k i a visited rest s t. (k, i, a) \<notin> set visited \<Longrightarrow> \<not> 1000 < Suc (length visited) \<Longrightarrow>
           check_source grant roots k i a s = (Inr (), t) \<Longrightarrow> same_store s t \<Longrightarrow>
           P ((k, i, a) # visited) (rev (source_parents (store_db s) (k, i, a)) @ rest) t \<Longrightarrow>
           P visited ((k, i, a) # rest) s"
  shows "P visited pending s"
proof (induction "1000 - length visited" arbitrary: visited pending s rule: less_induct)
  case (less visited pending s)
  show ?case
  proof (induction pending arbitrary: s)
    case Nil
    show ?case by (rule assms(1))
  next
    case (Cons p rest)
    obtain k i a where p: "p = (k, i, a)" by (cases p)
    obtain r t where c: "check_source grant roots k i a s = (r, t)"
      by (cases "check_source grant roots k i a s")
    have same: "same_store s t" by (rule quietD [OF quiet_check_source c])
    consider "(k, i, a) \<in> set visited" | "(k, i, a) \<notin> set visited" "1000 < Suc (length visited)"
      | e where "(k, i, a) \<notin> set visited" "\<not> 1000 < Suc (length visited)" "r = Inl e"
      | "(k, i, a) \<notin> set visited" "\<not> 1000 < Suc (length visited)" "r = Inr ()"
      by (cases r) auto
    then show ?case
    proof cases
      case 1
      then show ?thesis unfolding p using Cons.IH by (rule assms(2))
    next
      case 2
      then show ?thesis unfolding p by (rule assms(3))
    next
      case 3
      with c show ?thesis unfolding p by (metis assms(4))
    next
      case 4
      then have "1000 - length ((k, i, a) # visited) < 1000 - length visited" by simp
      from less.hyps [OF this] 4 c same show ?thesis unfolding p by (intro assms(5)) auto
    qed
  qed
qed

lemma lineage_loop_same: "same_store s (snd (lineage_loop grant roots visited pending s))"
proof (induction visited pending s rule: lineage_loop_induct [where grant = grant and roots = roots])
  case (Step k i a visited rest s t)
  with same_storeD(1) [OF Step(4)] show ?case
    using same_store_trans [OF Step(4) Step(5)] by (simp add: lineage_loop_simps)
qed (auto simp: lineage_loop_simps dest: quietD [OF quiet_check_source])

lemma quiet_lineage_loop [quiet_intros]: "quiet (lineage_loop grant roots visited pending)"
  unfolding quiet_def using lineage_loop_same by blast

lemma quiet_require_sources [quiet_intros]: "quiet (require_sources grant sources)"
  unfolding require_sources_def by (intro quiet_intros)

lemma quiet_require_source [quiet_intros]: "quiet (require_source grant kind i)"
  unfolding require_source_def by (rule quiet_intros)

lemma quiet_available_if [quiet_intros]: "quiet m \<Longrightarrow> quiet (available_if m)"
  unfolding quiet_def available_if_def
  by (auto split: prod.splits sum.splits) (metis snd_conv)+

lemma quiet_source_available [quiet_intros]: "quiet (source_available grant kind i)"
  unfolding source_available_def by (intro quiet_intros)

section \<open>Specification\<close>

inductive lineage :: "Db \<Rightarrow> (string \<times> string \<times> bool) list \<Rightarrow> string \<times> string \<times> bool \<Rightarrow> bool"
  for d :: Db and starts :: "(string \<times> string \<times> bool) list" where
  start: "x \<in> set starts \<Longrightarrow> lineage d starts x"
| parent: "lineage d starts x \<Longrightarrow> y \<in> set (source_parents d x) \<Longrightarrow> lineage d starts y"

definition passes :: "Grant \<Rightarrow> (string \<times> string) list \<Rightarrow> World \<Rightarrow> string \<times> string \<times> bool \<Rightarrow> bool" where
  "passes grant roots s x \<longleftrightarrow> (\<exists>s' t. same_store s s' \<and>
     check_source grant roots (fst x) (fst (snd x)) (snd (snd x)) s' = (Inr (), t))"

lemma passes_same: "same_store s s' \<Longrightarrow> passes grant roots s' x \<Longrightarrow> passes grant roots s x"
  unfolding passes_def by (blast intro: same_store_trans)

text \<open>A traversal that succeeds has checked a set closed under parents.\<close>

lemma lineage_loop_closed:
  "lineage_loop grant roots visited pending s = (Inr u, t) \<Longrightarrow>
   (\<forall>x \<in> set visited. set (source_parents (store_db s) x) \<subseteq> set visited \<union> set pending) \<Longrightarrow>
   (\<forall>x \<in> set visited. passes grant roots s0 x) \<Longrightarrow> same_store s0 s \<Longrightarrow>
   \<exists>V. set visited \<union> set pending \<subseteq> V \<and> (\<forall>x \<in> V. set (source_parents (store_db s0) x) \<subseteq> V) \<and>
      (\<forall>x \<in> V. passes grant roots s0 x)"
proof (induction visited pending s arbitrary: u t
    rule: lineage_loop_induct [where grant = grant and roots = roots])
  case (Nil visited s)
  then show ?case by (intro exI [of _ "set visited"]) (auto simp: same_storeD)
next
  case (Seen k i a visited rest s)
  have "\<forall>x \<in> set visited. set (source_parents (store_db s) x) \<subseteq> set visited \<union> set rest"
    using Seen.prems(2) Seen.hyps(1) by auto
  with Seen obtain V where "set visited \<union> set rest \<subseteq> V"
    "\<forall>x \<in> V. set (source_parents (store_db s0) x) \<subseteq> V" "\<forall>x \<in> V. passes grant roots s0 x"
    by (auto simp: lineage_loop_simps)
  with Seen.hyps(1) show ?case by (intro exI [of _ V]) auto
next
  case (Bound k i a visited rest s)
  then show ?case by (simp add: lineage_loop_simps)
next
  case (Fail k i a visited rest s e t')
  then show ?case by (simp add: lineage_loop_simps)
next
  case (Step k i a visited rest s t')
  let ?v = "(k, i, a) # visited"
  let ?p = "rev (source_parents (store_db s) (k, i, a)) @ rest"
  have db: "store_db t' = store_db s" "store_db s = store_db s0"
    using Step.hyps(4) Step.prems(4) by (simp_all add: same_storeD)
  have 1: "lineage_loop grant roots ?v ?p t' = (Inr u, t)"
    using Step.prems(1) Step.hyps db by (simp add: lineage_loop_simps)
  have 2: "\<forall>x \<in> set ?v. set (source_parents (store_db t') x) \<subseteq> set ?v \<union> set ?p"
    using Step.prems(2) db by auto
  have 3: "\<forall>x \<in> set ?v. passes grant roots s0 x"
    using Step.prems(3,4) Step.hyps(3) by (auto simp: passes_def)
  have 4: "same_store s0 t'" using Step.prems(4) Step.hyps(4) by (rule same_store_trans)
  obtain V where "set ?v \<union> set ?p \<subseteq> V"
    "\<forall>x \<in> V. set (source_parents (store_db s0) x) \<subseteq> V" "\<forall>x \<in> V. passes grant roots s0 x"
    using Step.IH [OF 1 2 3 4] by (elim exE conjE)
  then show ?case by (intro exI [of _ V]) auto
qed

definition starts_of :: "(string \<times> string) list \<Rightarrow> (string \<times> string \<times> bool) list" where
  "starts_of sources = map (\<lambda>(kind, i). (kind, i, True)) sources"

lemma require_sources_lineage:
  assumes "require_sources grant sources s = (Inr u, t)"
    and "lineage (store_db s) (starts_of sources) x"
  shows "passes grant sources s x"
proof -
  have "lineage_loop grant sources [] (rev (starts_of sources)) s = (Inr u, t)"
    using assms(1) by (auto simp: require_sources_def starts_of_def op_simps)
  from lineage_loop_closed [OF this, of s] obtain V where V: "set (starts_of sources) \<subseteq> V"
    "\<forall>y \<in> V. set (source_parents (store_db s) y) \<subseteq> V" "\<forall>y \<in> V. passes grant sources s y"
    by auto
  from assms(2) have "x \<in> V" by induction (use V in auto)
  with V(3) show ?thesis by blast
qed

text \<open>Conversely, a refusal names a source of the lineage that failed its check, or its size.\<close>

lemma lineage_loop_refusal:
  "lineage_loop grant roots visited pending s = (Inl e, t) \<Longrightarrow>
   (\<forall>x \<in> set visited \<union> set pending. lineage (store_db s0) starts x) \<Longrightarrow> same_store s0 s \<Longrightarrow>
   distinct visited \<Longrightarrow>
   (\<exists>k i a s'. lineage (store_db s0) starts (k, i, a) \<and> same_store s0 s' \<and>
      check_source grant roots k i a s' = (Inl e, t)) \<or>
   e = exhausted ''source lineage exceeds the local reference bound'' \<and>
     (\<exists>xs. distinct xs \<and> 1000 < length xs \<and> (\<forall>x \<in> set xs. lineage (store_db s0) starts x))"
proof (induction visited pending s rule: lineage_loop_induct [where grant = grant and roots = roots])
  case (Nil visited s)
  then show ?case by (simp add: lineage_loop_simps)
next
  case (Seen k i a visited rest s)
  then show ?case by (simp add: lineage_loop_simps)
next
  case (Bound k i a visited rest s)
  then show ?case
    by (intro disjI2) (auto simp: lineage_loop_simps intro!: exI [of _ "(k, i, a) # visited"])
next
  case (Fail k i a visited rest s e' t')
  then show ?case by (intro disjI1) (force simp: lineage_loop_simps)
next
  case (Step k i a visited rest s t')
  have db: "store_db t' = store_db s" "store_db s = store_db s0"
    using Step.hyps(4) Step.prems(3) by (simp_all add: same_storeD)
  show ?case
  proof (rule Step.IH)
    show "lineage_loop grant roots ((k, i, a) # visited)
        (rev (source_parents (store_db s) (k, i, a)) @ rest) t' = (Inl e, t)"
      using Step.prems(1) Step.hyps db by (simp add: lineage_loop_simps)
    show "\<forall>x \<in> set ((k, i, a) # visited) \<union> set (rev (source_parents (store_db s) (k, i, a)) @ rest).
        lineage (store_db s0) starts x"
      using Step.prems(2) db by (auto intro: lineage.parent)
    show "same_store s0 t'" using Step.prems(3) Step.hyps(4) by (rule same_store_trans)
    show "distinct ((k, i, a) # visited)" using Step.prems(4) Step.hyps(1) by simp
  qed
qed

text \<open>What a source that passed its check is known to be.\<close>

lemma passesD:
  assumes "passes grant roots s (kind, i, access)"
  obtains effective where "\<not> tombstoned kind i (store_db s)"
    "evaluation_source_grant grant kind i ((kind, i) \<in> set roots) (store_db s) = Inr effective"
    "kind = ''artifact'' \<and> require_artifact_source effective i
        ((g_prepared_run effective \<noteq> None \<or> g_discovery_corpus effective \<noteq> None) \<and>
         (kind, i) \<notin> set roots) (store_db s) = Inr () \<or>
     kind = ''record'' \<and> (\<exists>r. scoped_record effective i (store_db s) = Some r \<and> \<not> r_retired r \<and>
        (access \<longrightarrow> pv_split (r_provenance r) \<in> set (g_visible_splits effective))) \<or>
     kind = ''event'' \<and> (\<exists>e. scoped_event effective i (store_db s) = Some e \<and>
        (ev_producer e = ''ribosome-host'' \<longrightarrow>
           map_of (ev_payload e) ''content_available'' = Some (JBool True)) \<and>
        (access \<longrightarrow> pv_split (ev_provenance e) \<in> set (g_visible_splits effective)))"
proof -
  from assms obtain s' t where same: "same_store s s'"
    and run: "check_source grant roots kind i access s' = (Inr (), t)"
    by (auto simp: passes_def)
  have db: "store_db s' = store_db s" using same by (rule same_storeD)
  from run db obtain effective where *: "\<not> tombstoned kind i (store_db s)"
    "evaluation_source_grant grant kind i ((kind, i) \<in> set roots) (store_db s) = Inr effective"
    by (auto simp: check_source_def bind_Inr_iff seq_Inr_iff simp del: bind_query)
  consider "kind = ''artifact''" | "kind = ''record''" | "kind = ''event''"
    | "kind \<noteq> ''artifact''" "kind \<noteq> ''record''" "kind \<noteq> ''event''" by blast
  then show ?thesis
  proof cases
    case 1
    with run db * show ?thesis by (intro that [of effective]) (simp_all add: check_source_def op_simps)
  next
    case 2
    with run db * show ?thesis
      by (intro that [of effective]) (auto simp: check_source_def op_simps split: if_splits)
  next
    case 3
    with run db * show ?thesis
      by (intro that [of effective]) (auto simp: check_source_def op_simps)
  next
    case 4
    with run db * show ?thesis by (simp add: check_source_def op_simps)
  qed
qed

lemma evaluation_source_grant_splits:
  "evaluation_source_grant grant kind i root d = Inr g \<Longrightarrow> g_visible_splits g = g_visible_splits grant"
  by (auto simp: evaluation_source_grant_def split: option.splits if_splits)

end
