(* ===== verification/ContextStore.thy ===== *)
theory ContextStore
  imports Lineage
begin

text \<open>
  The parts of crates/ribosome-core/src/context.rs and artifact_context.rs the run lifecycle rests
  on: the retained context of a run, its sources and their availability, and the check of a
  continuation against the retained frontier. Building, appending and reading segments is in
  ContextLog, their summaries in Compaction.
\<close>

definition context_count :: "string \<Rightarrow> Db \<Rightarrow> nat" where
  "context_count segment d =
     foldr max (map it_sequence (filter (\<lambda>i. it_segment_id i = segment) (context_items d))) 0"

definition require_context_owner :: "string \<Rightarrow> string \<Rightarrow> Db \<Rightarrow> unit res" where
  "require_context_owner run segment d =
     guard (exists_where (\<lambda>s. sgm_id s = segment \<and> sgm_run_id s = run) (context_segments d))
       (denied ''context belongs to another run'')"

definition newest :: "'a list \<Rightarrow> 'a option" where
  "newest rows = (if rows = [] then None else Some (last rows))"

definition context_head :: "string \<Rightarrow> Db \<Rightarrow> string option" where
  "context_head run d =
     map_option sgm_id (newest (filter (\<lambda>s. sgm_run_id s = run) (context_segments d)))"

definition latest_summary :: "string option \<Rightarrow> Db \<Rightarrow> string option" where
  "latest_summary segment d =
     map_option sm_id (newest (sort_key sm_through_sequence
       (filter (\<lambda>s. segment = Some (sm_segment_id s) \<and> sm_status s = ''committed'')
         (context_summaries d))))"

definition run_context_sources :: "string \<Rightarrow> Db \<Rightarrow> string list" where
  "run_context_sources run d =
     (let head = context_head run d;
          sources = map cso_id (filter (\<lambda>c. head = Some (cso_segment_id c)) (context_sources d));
          summary = (case latest_summary head d of None \<Rightarrow> [] | Some i \<Rightarrow> [i]);
          invoked = (case run_invocation run d of
              None \<Rightarrow> []
            | Some v \<Rightarrow> vr_id (inv_implementation v) # inv_recipient_refs v)
      in remdups_adj (sort (sources @ summary @ invoked)))"

definition context_available :: "Grant \<Rightarrow> string \<Rightarrow> bool store_op" where
  "context_available grant segment =
     bind (query_res (\<lambda>d. the_row (List.find (\<lambda>s. sgm_id s = segment) (context_segments d)))) (\<lambda>row.
     if sgm_source_format row \<noteq> 4 then ret False
     else bind (query (\<lambda>d. remdups (map (\<lambda>c. (cso_kind c, cso_id c))
            (filter (\<lambda>c. cso_segment_id c = segment) (context_sources d))))) (\<lambda>sources.
          available_if (require_sources grant sources)))"

definition context_cursor :: "string \<Rightarrow> nat res" where
  "context_cursor value =
     and_then (counter value) (\<lambda>n.
     if n \<le> i64_max then Inr n else Inl (invalid ''context cursor exceeds SQLite integer capacity''))"

definition check_context_checkpoint :: "string \<Rightarrow> Checkpoint \<Rightarrow> unit store_op" where
  "check_context_checkpoint run checkpoint =
     (if cp_format checkpoint = ''pi-0.85.1/1'' then ret ()
      else
        seq (need (cp_messages checkpoint = [])
               (invalid (''version 2 continuation references retained messages; '' @
                 ''embedded messages forbidden''))) (
        bind (expect (cp_context checkpoint)
               (invalid ''version 2 continuation requires a context descriptor'')) (\<lambda>context.
        seq (query_res (require_context_owner run (cx_segment_id context))) (
        bind (lift (context_cursor (cx_count context))) (\<lambda>count.
        bind (query (context_count (cx_segment_id context))) (\<lambda>retained.
        seq (need (count = retained)
               (conflict ''continuation does not match retained context frontier'')) (
        bind (ask (\<lambda>s. env_checkpoint_bytes s checkpoint)) (\<lambda>bytes.
        need (bytes \<le> 256 * 1024) (exhausted ''continuation descriptor exceeds 256 KiB'')))))))))"

definition context_is_current :: "string \<Rightarrow> Db \<Rightarrow> bool" where
  "context_is_current segment d \<longleftrightarrow>
     \<not> exists_where (\<lambda>c. cso_segment_id c = segment \<and> cso_kind c = ''artifact'' \<and>
       exists_where (\<lambda>a. as_id a = cso_id c \<and> as_required_freshness a = ''current'' \<and>
         as_version a \<noteq> as_current_version a) (artifact_snapshots d)) (context_sources d)"

lemma quiet_context [quiet_intros]:
  "quiet (context_available grant segment)" "quiet (check_context_checkpoint run checkpoint)"
  unfolding context_available_def check_context_checkpoint_def by (intro quiet_intros)+

lemma distinct_remdups_adj: "sorted (xs :: 'a :: linorder list) \<Longrightarrow> distinct (remdups_adj xs)"
  by (induction xs rule: remdups_adj.induct) (auto simp: less_le dest: antisym)

lemma run_context_sources_distinct: "distinct (run_context_sources run d)"
  unfolding run_context_sources_def Let_def by (rule distinct_remdups_adj) simp

end
