(* ===== verification/Retention.thy ===== *)
theory Retention
  imports Lineage
begin

text \<open>
  crates/ribosome-core/src/source_cleanup.rs: the retention pass that follows a withdrawn source
  through everything derived from it, with the redactions it applies: of copied continuations
  (context.rs, \<open>redact_context_source\<close>), of receipts (effect_context.rs), of exported files
  (export_files.rs) and of study workspaces (experiment_files.rs).

  A job is a resumable traversal. Its items are the nodes reached so far, each with a cursor over
  the rowids of the edges that leave it; a step advances one item by one transaction, and a pass
  performs at most one hundred node and edge operations for each job.
\<close>

section \<open>Receipts\<close>

definition withheld_output :: string where
  "withheld_output =
     ''Receipt content withheld because its sources are unavailable or unverified.''"

definition withhold_settlement :: "EffectSettlement \<Rightarrow> EffectSettlement" where
  "withhold_settlement s = s\<lparr>est_request := (est_request s)\<lparr>
     esr_reason := ''Source content withheld.'', esr_source_refs := []\<rparr>\<rparr>"

definition withhold_content :: "ActionReceipt \<Rightarrow> ActionReceipt" where
  "withhold_content r = r\<lparr>rcp_content_available := Some False,
     rcp_action := (rcp_action r)\<lparr>act_content := None\<rparr>, rcp_output := withheld_output,
     rcp_side_effects := [], rcp_validations := None, rcp_restored_validity := None,
     rcp_restored_properties := None,
     rcp_settlement := map_option withhold_settlement (rcp_settlement r)\<rparr>"

text \<open>The stored grants of a scope that satisfy \<open>P\<close>, as a test of a grant id.\<close>

definition scope_grant :: "Scope \<Rightarrow> (Grant \<Rightarrow> bool) \<Rightarrow> Db \<Rightarrow> string \<Rightarrow> bool" where
  "scope_grant scope P d i \<longleftrightarrow> exists_where (\<lambda>g. gr_id g = i \<and>
     sc_client (g_scope (gr_body g)) = sc_client scope \<and>
     sc_project (g_scope (gr_body g)) = sc_project scope \<and> P (gr_body g)) (grants d)"

definition any_grant :: "Grant \<Rightarrow> bool" where
  "any_grant g = True"

definition receipt_copy :: "string option \<Rightarrow> Scope option \<Rightarrow> Db \<Rightarrow> EffectRow \<Rightarrow> bool" where
  "receipt_copy source legacy d e \<longleftrightarrow>
     source \<noteq> None \<and> rcp_evidence_ref (ef_body e) = source \<or>
     source \<noteq> None \<and> map_option est_evidence_ref (ef_settlement e) = source \<or>
     rcp_content_available (ef_body e) = None \<and>
       (case legacy of None \<Rightarrow> False
        | Some scope \<Rightarrow> scope_grant scope
            (\<lambda>g. g_visible_splits g = [Split.Development]) d (ef_grant_id e))"

definition withhold_effect :: "EffectRow \<Rightarrow> EffectRow" where
  "withhold_effect e = e\<lparr>ef_body := withhold_content (ef_body e),
     ef_observation :=
       map_option (\<lambda>x. x\<lparr>eo_receipt := withhold_content (eo_receipt x)\<rparr>) (ef_observation e),
     ef_settlement := map_option withhold_settlement (ef_settlement e)\<rparr>"

definition cleanup_receipt_copies :: "string option \<Rightarrow> Scope option \<Rightarrow> Db \<Rightarrow> Db res" where
  "cleanup_receipt_copies source legacy d =
     and_then (guard (list_all (\<lambda>e. receipt_copy source legacy d e \<longrightarrow> ef_phase e = PhaseFinalized)
         (effects d)) (conflict ''receipt cleanup awaits effect reconciliation'')) (\<lambda>_.
     Inr (d\<lparr>effects := update_where (receipt_copy source legacy d) withhold_effect (effects d)\<rparr>))"

section \<open>Copied continuations\<close>

definition development_only :: "Grant \<Rightarrow> bool" where
  "development_only g \<longleftrightarrow> list_all (\<lambda>s. s = Split.Development) (g_visible_splits g)"

definition expire_feedback :: "string \<Rightarrow> (RunRow \<Rightarrow> bool) \<Rightarrow> Db \<Rightarrow> Db" where
  "expire_feedback detail selected d = d\<lparr>attachment_feedback :=
     update_where (\<lambda>f. exists_where (\<lambda>r. rr_id r = fb_run_id (fbr_body f) \<and> selected r) (runs d))
       (\<lambda>f. f\<lparr>fbr_body := (fbr_body f)\<lparr>fb_summary := [], fb_detail := detail,
              fb_state := FeedbackState.Expired\<rparr>\<rparr>) (attachment_feedback d)\<rparr>"

definition drop_results :: "(RunRow \<Rightarrow> bool) \<Rightarrow> Db \<Rightarrow> Db" where
  "drop_results selected d =
     d\<lparr>runs := update_where selected (\<lambda>r. r\<lparr>rr_result := None\<rparr>) (runs d)\<rparr>"

definition withdraw_messages :: "(MessageRow \<Rightarrow> bool) \<Rightarrow> Db \<Rightarrow> Db" where
  "withdraw_messages selected d = d\<lparr>messages :=
     update_where selected (\<lambda>m. m\<lparr>mr_body := None, mr_acknowledged := True\<rparr>) (messages d)\<rparr>"

definition redact_legacy :: "Scope \<Rightarrow> Db \<Rightarrow> Db" where
  "redact_legacy scope d =
     (let legacy = scope_grant scope development_only d;
          d = d\<lparr>checkpoints := update_where (\<lambda>c. cp_format (ck_body c) \<noteq> ''pi-0.85.1/2'' \<and>
                cp_messages (ck_body c) \<noteq> [] \<and>
                exists_where (\<lambda>r. rr_id r = ck_run_id c \<and> legacy (rr_grant_id r)) (runs d))
              (\<lambda>c. c\<lparr>ck_body := (ck_body c)\<lparr>cp_messages := []\<rparr>\<rparr>) (checkpoints d)\<rparr>;
          d = withdraw_messages (\<lambda>m. mr_source_format m = 0 \<and> mr_body m \<noteq> None \<and>
                legacy (mr_grant_id m)) d;
          d = expire_feedback ''Unverified legacy feedback removed after source deletion.''
                (\<lambda>r. rr_result_source r = None \<and> legacy (rr_grant_id r)) d;
          d = drop_results (\<lambda>r. rr_result_source r = None \<and> rr_result r \<noteq> None \<and>
                legacy (rr_grant_id r)) d
      in d\<lparr>artifact_snapshots := update_where (\<lambda>a. as_result_content a \<noteq> None \<and> \<not> as_available a \<and>
             as_result_method a \<in> {Some ''message.send'', Some ''message.inbox''} \<and>
             as_client a = sc_client scope \<and> as_project a = sc_project scope \<and>
             as_split a = Split.Development)
           (\<lambda>a. a\<lparr>as_result_content := None\<rparr>) (artifact_snapshots d)\<rparr>)"

text \<open>The first observation of the source in a segment of the scope, when there is one.\<close>

definition redaction_boundary :: "Scope \<Rightarrow> string \<Rightarrow> string \<Rightarrow> Db \<Rightarrow> string \<Rightarrow> nat option" where
  "redaction_boundary scope kind source d segment =
     (let scoped = exists_where (\<lambda>c. sgm_id c = segment \<and>
            exists_where (\<lambda>r. rr_id r = sgm_run_id c \<and> scope_grant scope any_grant d (rr_grant_id r))
              (runs d)) (context_segments d);
          seen = filter (\<lambda>s. cso_segment_id s = segment \<and> cso_kind s = kind \<and> cso_id s = source)
            (context_sources d)
      in if scoped \<and> seen \<noteq> [] then Some (foldr min (map cso_first_sequence seen)
           (cso_first_sequence (hd seen))) else None)"

definition beyond :: "nat option \<Rightarrow> nat \<Rightarrow> bool" where
  "beyond boundary n \<longleftrightarrow> (case boundary of None \<Rightarrow> False | Some first \<Rightarrow> first \<le> n)"

definition redact_context_source :: "Scope \<Rightarrow> string \<Rightarrow> string \<Rightarrow> Db \<Rightarrow> Db" where
  "redact_context_source scope kind source d =
     (let d = redact_legacy scope d; boundary = redaction_boundary scope kind source d
      in d\<lparr>context_items := update_where
             (\<lambda>i. beyond (boundary (it_segment_id i)) (it_sequence i))
             (\<lambda>i. i\<lparr>it_body := None\<rparr>) (context_items d),
           context_summaries := update_where
             (\<lambda>s. beyond (boundary (sm_segment_id s)) (sm_through_sequence s))
             (\<lambda>s. s\<lparr>sm_body := None, sm_status := ''redacted''\<rparr>) (context_summaries d)\<rparr>)"

section \<open>Managed files\<close>

definition export_path :: "string \<Rightarrow> string \<Rightarrow> string store_op" where
  "export_path snapshot filename =
     bind (ask (\<lambda>s. env_is_uuid s snapshot)) (\<lambda>uuid.
     seq (need (uuid \<and> filename = snapshot @ ''.jsonl'')
            (denied ''invalid managed export filename'')) (
     bind (ask store_export_directory) (\<lambda>found.
     bind (expect found (internal (''export file cleanup requires a Runtime bound to its state '' @
            ''directory''))) (\<lambda>directory.
     bind (ask (\<lambda>s. env_same_directory s directory)) (\<lambda>checked.
     bind (lift checked) (\<lambda>same.
     seq (need same (denied ''managed exports directory changed''))
         (ret (directory @ ''/'' @ filename))))))))"

definition removal :: "Removal \<Rightarrow> unit res" where
  "removal outcome = (case outcome of Removed synced \<Rightarrow> synced | Absent \<Rightarrow> Inr ()
     | RemovalFailed e \<Rightarrow> Inl e)"

definition remove_export_file :: "string \<Rightarrow> unit store_op" where
  "remove_export_file snapshot =
     bind (query (\<lambda>d. Option.bind (List.find (\<lambda>a. as_id a = snapshot \<and> as_split a = Split.Development)
         (artifact_snapshots d)) as_export_file)) (\<lambda>found.
     case found of
       None \<Rightarrow> skip
     | Some filename \<Rightarrow>
         bind (export_path snapshot filename) (\<lambda>path.
         bind (ask (\<lambda>s. env_remove_file s path)) (\<lambda>outcome.
         seq (lift (removal outcome))
             (exec (\<lambda>d. d\<lparr>artifact_snapshots := update_where (\<lambda>a. as_id a = snapshot)
                (\<lambda>a. a\<lparr>as_available := False\<rparr>) (artifact_snapshots d)\<rparr>)))))"

text \<open>
  \<open>cleanup_legacy_exports\<close>: the directory is checked here; the scan itself, which reads and
  removes unregistered files and writes no table, is \<open>env_legacy_exports\<close>.
\<close>

definition cleanup_legacy_exports :: "Grant \<Rightarrow> unit store_op" where
  "cleanup_legacy_exports grant =
     bind (ask store_export_directory) (\<lambda>found.
     case found of
       None \<Rightarrow> skip
     | Some directory \<Rightarrow>
         bind (ask (\<lambda>s. env_same_directory s directory)) (\<lambda>checked.
         bind (lift checked) (\<lambda>same.
         seq (need same (denied ''managed exports directory changed'')) (
         bind (query (\<lambda>d. List.map_filter as_export_file (artifact_snapshots d))) (\<lambda>registered.
         bind (ask (\<lambda>s. env_legacy_exports s (g_scope grant) registered)) (\<lambda>scanned.
         lift scanned))))))"

fun json_flag :: "json \<Rightarrow> bool" where
  "json_flag (JBool b) = b"
| "json_flag (JNumber n) = (n \<noteq> ''0'')"
| "json_flag _ = False"

text \<open>\<open>json_set\<close> of one member of an object, replaced in place or appended.\<close>

fun json_put :: "string \<Rightarrow> json \<Rightarrow> json \<Rightarrow> json" where
  "json_put k v (JObject m) = JObject (AList.update k v m)"
| "json_put k v j = j"

definition update_policy :: "string \<Rightarrow> (json \<Rightarrow> json) \<Rightarrow> Db \<Rightarrow> Db" where
  "update_policy i f d = d\<lparr>experiments :=
     update_where (\<lambda>x. xp_id x = i) (\<lambda>x. x\<lparr>xp_policy := f (xp_policy x)\<rparr>) (experiments d)\<rparr>"

definition study_row :: "Scope \<Rightarrow> string \<Rightarrow> Db \<Rightarrow> ExperimentRow option" where
  "study_row scope experiment d =
     List.find (\<lambda>x. xp_id x = experiment \<and> scope_grant scope any_grant d (xp_grant_id x)) (experiments d)"

definition study_active :: "ExperimentRow \<Rightarrow> bool" where
  "study_active x \<longleftrightarrow> xp_result x = None \<and>
     \<not> json_flag (json_get (json_get (xp_policy x) ''workspace'') ''executor_stopped'')"

definition cleanup_confirmed :: "json \<Rightarrow> bool" where
  "cleanup_confirmed policy = json_flag (json_get policy ''workspace_cleanup_confirmed'')"

text \<open>The checks on the path and the removal of the directory are \<open>env_remove_workspace\<close>.\<close>

definition cleanup_experiment_files :: "Grant \<Rightarrow> string \<Rightarrow> unit store_op" where
  "cleanup_experiment_files grant experiment =
     bind (query (study_row (g_scope grant) experiment)) (\<lambda>saved.
     case saved of
       None \<Rightarrow> skip
     | Some x \<Rightarrow>
         case as_str (json_get (json_get (xp_policy x) ''workspace'') ''path'') of
           None \<Rightarrow>
             need (\<not> (study_active x \<and> \<not> cleanup_confirmed (xp_policy x)))
               (conflict (''legacy evaluator workspace location was not recorded; the owner must '' @
                 ''confirm executors stopped and copied files were removed''))
         | Some path \<Rightarrow>
             seq (need (\<not> study_active x)
                    (conflict (''evaluator still owns its workspace; the owner must confirm its '' @
                      ''executor stopped before cleanup''))) (
             bind (ask (\<lambda>s. env_remove_workspace s path)) (\<lambda>removed.
             seq (lift removed)
                 (exec (update_policy experiment
                    (json_put ''workspace_cleanup_confirmed'' (JBool True)))))))"

end
