(* ===== verification/Cleanup.thy ===== *)
theory Cleanup
  imports Retention
begin

text \<open>
  crates/ribosome-core/src/source_cleanup.rs: withdrawing one source's payload, one step of a
  cleanup job, and the pass over the jobs of a scope. The frames at the end say which tables a pass
  can touch.
\<close>

section \<open>One source\<close>

definition retired_version :: "RecordEnvelope \<Rightarrow> nat \<Rightarrow> nat \<Rightarrow> RecordEnvelope" where
  "retired_version r version now =
     r\<lparr>r_retired := True, r_updated_ms := to_string now, r_version := to_string (add_u64 version 1)\<rparr>"

definition without_content :: "RecordEnvelope \<Rightarrow> RecordEnvelope" where
  "without_content r = r\<lparr>r_body := [], r_provenance := (r_provenance r)\<lparr>pv_source_refs := []\<rparr>\<rparr>"

definition cleanup_tombstone :: "Scope \<Rightarrow> string \<Rightarrow> string \<Rightarrow> bool \<Rightarrow> Db \<Rightarrow> Db" where
  "cleanup_tombstone scope kind source delete d =
     (let previous = map_option ts_deleted
            (List.find (\<lambda>t. ts_kind t = kind \<and> ts_id t = source) (source_tombstones d));
          d = add_tombstone kind source scope delete d
      in if previous = None \<or> delete \<and> previous = Some False then bump_policy scope d else d)"

definition drop_archive :: "Scope \<Rightarrow> string \<Rightarrow> Db \<Rightarrow> Db" where
  "drop_archive scope source d = d\<lparr>archive := delete_where (\<lambda>a. arc_implementation_id a = source \<and>
     arc_client a = sc_client scope \<and> arc_project a = sc_project scope) (archive d)\<rparr>"

text \<open>The stored policy of a development study without its copied inputs.\<close>

definition source_free_policy :: "json \<Rightarrow> json" where
  "source_free_policy policy = JObject
     [(''policy'', json_get policy ''policy''), (''source_deleted'', JBool True),
      (''workspace_cleanup_confirmed'',
        JNumber (if cleanup_confirmed policy then ''1'' else ''0''))]"

definition development_study :: "json \<Rightarrow> bool" where
  "development_study policy \<longleftrightarrow>
     (case as_array (json_get policy ''cases'') of
        None \<Rightarrow> False
      | Some cases \<Rightarrow> cases \<noteq> [] \<and>
          list_all (\<lambda>c. json_get c ''split'' = JString ''development'') cases)"

definition strip_study :: "string \<Rightarrow> Db \<Rightarrow> Db" where
  "strip_study source d = d\<lparr>experiments :=
     update_where (\<lambda>x. xp_id x = source \<and> development_study (xp_policy x))
       (\<lambda>x. x\<lparr>xp_policy := source_free_policy (xp_policy x)\<rparr>) (experiments d)\<rparr>"

definition rewrite_record :: "string \<Rightarrow> RecordEnvelope \<Rightarrow> Db \<Rightarrow> Db" where
  "rewrite_record i r d = d\<lparr>records := update_where (\<lambda>q. rec_id q = i)
     (\<lambda>q. q\<lparr>rec_body := r, rec_version := r_version r\<rparr>) (records d)\<rparr>"

definition drop_index :: "string \<Rightarrow> Db \<Rightarrow> Db" where
  "drop_index i d = d\<lparr>record_search := delete_where (\<lambda>x. fst x = i) (record_search d)\<rparr>"

definition protected_record :: "RecordEnvelope \<Rightarrow> bool" where
  "protected_record r \<longleftrightarrow> r_kind r = RecordKind.Admission \<or>
     r_kind r = RecordKind.Evaluation \<and> pv_split (r_provenance r) \<noteq> Split.Development"

definition cleanup_record :: "Grant \<Rightarrow> string \<Rightarrow> bool \<Rightarrow> unit store_op" where
  "cleanup_record grant source delete =
     bind (query_res (\<lambda>d. the_row (List.find (\<lambda>q. rec_id q = source) (records d)))) (\<lambda>row.
     let r = rec_body row in
     if protected_record r then skip
     else
       seq (if delete \<and> r_kind r = RecordKind.Experiment
            then seq (cleanup_experiment_files grant source) (exec (strip_study source))
            else skip) (
       seq (if \<not> r_retired r \<or> delete \<and> r_body r \<noteq> []
            then
              bind (lift (counter (r_version r))) (\<lambda>version.
              bind now_ms (\<lambda>now.
              let r = retired_version r version now;
                  r = (if delete then without_content r else r)
              in exec (rewrite_record source r)))
            else skip) (
       seq (exec (drop_index source))
           (exec (cleanup_tombstone (g_scope grant) ''record'' source delete)))))"

definition redacted_payload :: json_map where
  "redacted_payload = [(''reason'', JString ''source deleted''), (''redacted'', JBool True)]"

definition redact_event :: "string \<Rightarrow> Event \<Rightarrow> Db \<Rightarrow> Db" where
  "redact_event i e d = d\<lparr>events := update_where (\<lambda>q. er_id q = i)
     (\<lambda>q. q\<lparr>er_body := e\<lparr>ev_payload := redacted_payload\<rparr>\<rparr>) (events d)\<rparr>"

definition cleanup_event :: "Grant \<Rightarrow> string \<Rightarrow> unit store_op" where
  "cleanup_event grant source =
     bind (query_res (\<lambda>d. the_row (List.find (\<lambda>q. er_id q = source) (events d)))) (\<lambda>row.
     let e = er_body row; scope = g_scope grant in
     if pv_split (ev_provenance e) \<noteq> Split.Development then skip
     else
       seq (exec_res (cleanup_receipt_copies (Some source) None)) (
       seq (exec (redact_event source e)) (
       seq (exec (cleanup_tombstone scope ''event'' source True)) (
       seq (exec (\<lambda>d. withdraw_messages (\<lambda>m. mr_id m = source \<and> mr_source_format m = 1 \<and>
              scope_grant scope any_grant d (mr_grant_id m)) d)) (
       seq (exec (\<lambda>d. expire_feedback ''Source deleted; feedback withdrawn.''
              (\<lambda>r. rr_result_source r = Some source \<and> scope_grant scope any_grant d (rr_grant_id r)) d))
           (exec (\<lambda>d. drop_results (\<lambda>r. rr_result_source r = Some source \<and>
              scope_grant scope any_grant d (rr_grant_id r)) d)))))))"

definition cleanup_artifact :: "string \<Rightarrow> Db \<Rightarrow> Db" where
  "cleanup_artifact source d = d\<lparr>artifact_snapshots :=
     update_where (\<lambda>a. as_id a = source \<and> as_split a = Split.Development)
       (\<lambda>a. a\<lparr>as_body := JObject [], as_result_content := None\<rparr>) (artifact_snapshots d)\<rparr>"

definition cleanup_source_payload :: "Grant \<Rightarrow> string \<Rightarrow> string \<Rightarrow> bool \<Rightarrow> unit store_op" where
  "cleanup_source_payload grant kind source delete =
     seq (exec (drop_archive (g_scope grant) source)) (
     seq (if delete then exec (redact_context_source (g_scope grant) kind source) else skip) (
     seq (if kind = ''artifact'' then remove_export_file source else skip) (
     if kind = ''record'' then cleanup_record grant source delete
     else if kind = ''event'' \<and> delete then cleanup_event grant source
     else if kind = ''artifact'' \<and> delete then exec (cleanup_artifact source)
     else skip)))"

section \<open>One job\<close>

definition is_item :: "string \<Rightarrow> string \<Rightarrow> string \<Rightarrow> CleanupItem \<Rightarrow> bool" where
  "is_item job kind i c \<longleftrightarrow> ci_job_id c = job \<and> ci_kind c = kind \<and> ci_id c = i"

text \<open>INSERT OR IGNORE: a node is an item of a job once.\<close>

definition add_item :: "string \<Rightarrow> string \<times> string \<Rightarrow> Db \<Rightarrow> Db" where
  "add_item job node d = (case node of (kind, i) \<Rightarrow>
     if exists_where (is_item job kind i) (source_cleanup_items d) then d
     else d\<lparr>source_cleanup_items := source_cleanup_items d @
       [\<lparr>ci_job_id = job, ci_kind = kind, ci_id = i, ci_after_edge = 0, ci_payload_done = False,
         ci_complete = False\<rparr>]\<rparr>)"

definition next_item :: "string \<Rightarrow> Db \<Rightarrow> CleanupItem option" where
  "next_item job d =
     List.find (\<lambda>c. ci_job_id c = job \<and> \<not> ci_complete c) (source_cleanup_items d)"

definition update_item ::
    "CleanupItem \<Rightarrow> (CleanupItem \<Rightarrow> CleanupItem) \<Rightarrow> Db \<Rightarrow> Db" where
  "update_item item f d = d\<lparr>source_cleanup_items :=
     update_where (is_item (ci_job_id item) (ci_kind item) (ci_id item)) f (source_cleanup_items d)\<rparr>"

definition update_job :: "string \<Rightarrow> (CleanupJob \<Rightarrow> CleanupJob) \<Rightarrow> Db \<Rightarrow> Db" where
  "update_job job f d =
     d\<lparr>source_cleanup := update_where (\<lambda>j. cj_source_id j = job) f (source_cleanup d)\<rparr>"

definition owned_source :: "Scope \<Rightarrow> string \<Rightarrow> string \<Rightarrow> Db \<Rightarrow> bool" where
  "owned_source scope kind i d \<longleftrightarrow>
     kind = ''record'' \<and> exists_where (\<lambda>r. rec_id r = i \<and> rec_client r = sc_client scope \<and>
       rec_project r = sc_project scope) (records d) \<or>
     kind = ''event'' \<and> exists_where (\<lambda>e. er_id e = i \<and> er_client e = sc_client scope \<and>
       er_project e = sc_project scope) (events d) \<or>
     kind = ''artifact'' \<and> exists_where (\<lambda>a. as_id a = i \<and> as_client a = sc_client scope \<and>
       as_project a = sc_project scope) (artifact_snapshots d)"

definition derived_from :: "string \<Rightarrow> string \<Rightarrow> nat \<Rightarrow> Db \<Rightarrow> SourceEdge list" where
  "derived_from kind i after d = sort_key se_rowid (filter (\<lambda>e. se_source_kind e = kind \<and>
     se_source_id e = i \<and> after < se_rowid e) (source_edges d))"

text \<open>Events of the host that predate content flags go with a deleted source of their scope.\<close>

definition unflagged_host_events :: "Scope \<Rightarrow> Db \<Rightarrow> (string \<times> string) list" where
  "unflagged_host_events scope d = map (\<lambda>e. (''event'', er_id e))
     (filter (\<lambda>e. er_client e = sc_client scope \<and> er_project e = sc_project scope \<and>
        er_split e = Split.Development \<and> er_producer e = ''ribosome-host'' \<and>
        json_get (JObject (ev_payload (er_body e))) ''content_available'' = JNull) (events d))"

definition cleanup_payload :: "Grant \<Rightarrow> string \<Rightarrow> bool \<Rightarrow> CleanupItem \<Rightarrow> unit store_op" where
  "cleanup_payload grant job delete item =
     seq (if delete \<and> ci_id item = job
          then
            seq (cleanup_legacy_exports grant) (
            seq (exec_res (cleanup_receipt_copies None (Some (g_scope grant))))
                (exec (\<lambda>d. fold (add_item job) (unflagged_host_events (g_scope grant) d) d)))
          else skip)
         (cleanup_source_payload grant (ci_kind item) (ci_id item) delete)"

definition follow_edges :: "string \<Rightarrow> CleanupItem \<Rightarrow> nat \<Rightarrow> Db \<Rightarrow> nat \<times> Db" where
  "follow_edges job item limit d =
     (let children = take limit (derived_from (ci_kind item) (ci_id item) (ci_after_edge item) d);
          next = (if children = [] then ci_after_edge item else se_rowid (last children));
          d = fold (add_item job) (map (\<lambda>e. (se_subject_kind e, se_subject_id e)) children) d;
          more = (derived_from (ci_kind item) (ci_id item) next d \<noteq> []);
          d = update_item item
            (\<lambda>c. c\<lparr>ci_after_edge := next, ci_payload_done := True, ci_complete := \<not> more\<rparr>) d;
          d = update_job job (\<lambda>j. j\<lparr>cj_status := (if next_item job d = None then ''complete''
                else ''pending''), cj_error := None\<rparr>) d
      in (length children, d))"

definition cleanup_step :: "Grant \<Rightarrow> string \<Rightarrow> nat \<Rightarrow> nat option txn store_op" where
  "cleanup_step grant job remaining =
     bind (query_res (\<lambda>d. the_row (List.find (\<lambda>j. cj_source_id j = job \<and>
         cj_client j = sc_client (g_scope grant) \<and> cj_project j = sc_project (g_scope grant))
         (source_cleanup d)))) (\<lambda>row.
     seq (exec (add_item job (cj_source_kind row, job))) (
     bind (query (next_item job)) (\<lambda>found.
     case found of
       None \<Rightarrow>
         seq (exec (update_job job (\<lambda>j. j\<lparr>cj_status := ''complete'', cj_error := None\<rparr>)))
             (commit None)
     | Some item \<Rightarrow>
         bind (query (owned_source (g_scope grant) (ci_kind item) (ci_id item))) (\<lambda>owned.
         if \<not> owned then
           seq (exec (update_item item (\<lambda>c. c\<lparr>ci_complete := True\<rparr>))) (commit (Some 0))
         else
           seq (if ci_payload_done item then skip
                else cleanup_payload grant job (cj_delete_content row) item) (
           bind (query (\<lambda>d. fst (follow_edges job item remaining d))) (\<lambda>followed.
           seq (exec (\<lambda>d. snd (follow_edges job item remaining d)))
               (commit (Some followed))))))))"

function advance_loop :: "Grant \<Rightarrow> string \<Rightarrow> nat \<Rightarrow> unit store_op" where
  "advance_loop grant job 0 = ret ()"
| "advance_loop grant job (Suc remaining) =
     bind (transaction (cleanup_step grant job remaining)) (\<lambda>followed.
     case followed of
       None \<Rightarrow> ret ()
     | Some n \<Rightarrow> advance_loop grant job (remaining - n))"
  by pat_completeness auto
termination by (relation "measure (\<lambda>(_, _, n). n)") auto

definition BATCH_WORK :: nat where
  "BATCH_WORK = 100"

definition advance_cleanup :: "Grant \<Rightarrow> string \<Rightarrow> unit store_op" where
  "advance_cleanup grant job = advance_loop grant job BATCH_WORK"

section \<open>A pass over a scope\<close>

definition cleanup_jobs :: "Scope \<Rightarrow> nat \<Rightarrow> Db \<Rightarrow> string list" where
  "cleanup_jobs scope limit d = take limit (map cj_source_id
     (sort_key (\<lambda>j. if cj_status j = ''pending'' then 0 else 1 :: nat)
       (filter (\<lambda>j. cj_client j = sc_client scope \<and> cj_project j = sc_project scope \<and>
          cj_status j \<noteq> ''complete'') (source_cleanup d))))"

definition cleanup_sources :: "Grant \<Rightarrow> nat \<Rightarrow> unit store_op" where
  "cleanup_sources grant limit =
     seq (need (1 \<le> limit \<and> limit \<le> 100) (invalid ''cleanup limit must be 1..100'')) (
     bind (query (cleanup_jobs (g_scope grant) limit)) (\<lambda>jobs.
     for_each jobs (\<lambda>job. handle (advance_cleanup grant job) (\<lambda>e.
       exec (update_job job (\<lambda>j. j\<lparr>cj_status := ''failed'', cj_error := Some (e_message e)\<rparr>))))))"

section \<open>What a pass leaves alone\<close>

text \<open>
  Retention writes records, events and every table that holds a copy of their content. An invariant
  that speaks of none of these is kept by it, and tombstones only ever accumulate.
\<close>

definition outside_retention :: "Db \<Rightarrow> Db" where
  "outside_retention d = (without_lineage d)\<lparr>records := [], record_search := [],
     attachment_records := [], events := [], runs := [], checkpoints := [], messages := [],
     effects := [], artifact_snapshots := [], context_items := [], context_summaries := [],
     experiments := [], attachment_feedback := [], archive := []\<rparr>"

definition ignores_retention :: "(Db \<Rightarrow> bool) \<Rightarrow> bool" where
  "ignores_retention I \<longleftrightarrow>
     (\<forall>d d'. outside_retention d' = outside_retention d \<longrightarrow> I d \<longrightarrow> I d')"

lemma ignores_retentionD:
  "ignores_retention I \<Longrightarrow> outside_retention d' = outside_retention d \<Longrightarrow> I d \<Longrightarrow> I d'"
  by (simp add: ignores_retention_def)

text \<open>The primitive writes of a pass, apart from the tombstones.\<close>

lemmas retention_writes =
  withdraw_messages_def expire_feedback_def drop_results_def redact_legacy_def
  redact_context_source_def update_policy_def drop_archive_def strip_study_def rewrite_record_def
  drop_index_def redact_event_def cleanup_artifact_def update_item_def update_job_def

lemma retention_frame [simp]:
  "outside_retention (drop_archive sc i d) = outside_retention d"
  "outside_retention (redact_context_source sc kind i d) = outside_retention d"
  "outside_retention (update_policy i f d) = outside_retention d"
  "outside_retention (strip_study i d) = outside_retention d"
  "outside_retention (rewrite_record i r d) = outside_retention d"
  "outside_retention (drop_index i d) = outside_retention d"
  "outside_retention (redact_event i e d) = outside_retention d"
  "outside_retention (withdraw_messages P d) = outside_retention d"
  "outside_retention (expire_feedback t Q d) = outside_retention d"
  "outside_retention (drop_results Q d) = outside_retention d"
  "outside_retention (cleanup_artifact i d) = outside_retention d"
  "outside_retention (update_item c g d) = outside_retention d"
  "outside_retention (update_job j h d) = outside_retention d"
  "outside_retention (d\<lparr>artifact_snapshots := as\<rparr>) = outside_retention d"
  by (simp_all add: retention_writes outside_retention_def without_lineage_def Let_def)

lemma retention_tombstones [simp]:
  "source_tombstones (drop_archive sc i d) = source_tombstones d"
  "source_tombstones (redact_context_source sc kind i d) = source_tombstones d"
  "source_tombstones (update_policy i f d) = source_tombstones d"
  "source_tombstones (strip_study i d) = source_tombstones d"
  "source_tombstones (rewrite_record i r d) = source_tombstones d"
  "source_tombstones (drop_index i d) = source_tombstones d"
  "source_tombstones (redact_event i e d) = source_tombstones d"
  "source_tombstones (withdraw_messages P d) = source_tombstones d"
  "source_tombstones (expire_feedback t Q d) = source_tombstones d"
  "source_tombstones (drop_results Q d) = source_tombstones d"
  "source_tombstones (cleanup_artifact i d) = source_tombstones d"
  "source_tombstones (update_item c g d) = source_tombstones d"
  "source_tombstones (update_job j h d) = source_tombstones d"
  by (simp_all add: retention_writes Let_def)

lemma retention_events [simp]:
  "events (drop_archive sc i d) = events d"
  "events (redact_context_source sc kind i d) = events d"
  "events (update_policy i f d) = events d"
  "events (strip_study i d) = events d"
  "events (rewrite_record i r d) = events d"
  "events (drop_index i d) = events d"
  "events (withdraw_messages P d) = events d"
  "events (expire_feedback t Q d) = events d"
  "events (drop_results Q d) = events d"
  "events (cleanup_artifact i d) = events d"
  "events (update_item c g d) = events d"
  "events (update_job j h d) = events d"
  "events (d\<lparr>artifact_snapshots := as\<rparr>) = events d"
  by (simp_all add: retention_writes Let_def)

lemma retention_records [simp]:
  "records (drop_archive sc i d) = records d"
  "records (redact_context_source sc kind i d) = records d"
  "records (update_policy i f d) = records d"
  "records (strip_study i d) = records d"
  "records (drop_index i d) = records d"
  "records (withdraw_messages P d) = records d"
  "records (expire_feedback t Q d) = records d"
  "records (drop_results Q d) = records d"
  "records (cleanup_artifact i d) = records d"
  "records (update_item c g d) = records d"
  "records (update_job j h d) = records d"
  "records (d\<lparr>artifact_snapshots := as\<rparr>) = records d"
  "records (redact_event i e d) = records d"
  by (simp_all add: retention_writes Let_def)

lemma outside_lineage: "only_lineage d d' \<Longrightarrow> outside_retention d' = outside_retention d"
  by (simp add: outside_retention_def only_lineage_def)

lemma cleanup_tombstone_tables [simp]:
  "events (cleanup_tombstone sc kind i delete d) = events d"
  "records (cleanup_tombstone sc kind i delete d) = records d"
  by (auto simp: cleanup_tombstone_def Let_def add_tombstone_def bump_policy_def)

lemma cleanup_tombstone_frame [simp]:
  "outside_retention (cleanup_tombstone sc kind i delete d) = outside_retention d"
  by (rule outside_lineage)
     (auto simp: cleanup_tombstone_def Let_def
       intro: only_lineage_trans [OF retire_sources_frame(1) retire_sources_frame(2)])

lemma add_items_frame [simp]:
  "outside_retention (fold (add_item job) ns d) = outside_retention d"
  "source_tombstones (fold (add_item job) ns d) = source_tombstones d"
  "events (fold (add_item job) ns d) = events d"
  "records (fold (add_item job) ns d) = records d"
proof -
  have one: "outside_retention (add_item job n d) = outside_retention d \<and>
      source_tombstones (add_item job n d) = source_tombstones d \<and>
      events (add_item job n d) = events d \<and> records (add_item job n d) = records d" for n d
    by (simp add: add_item_def outside_retention_def without_lineage_def split: prod.split)
  then show "outside_retention (fold (add_item job) ns d) = outside_retention d"
    "source_tombstones (fold (add_item job) ns d) = source_tombstones d"
    "events (fold (add_item job) ns d) = events d"
    "records (fold (add_item job) ns d) = records d"
    by (induction ns arbitrary: d) auto
qed

lemma add_item_frame [simp]:
  "outside_retention (add_item job n d) = outside_retention d"
  "source_tombstones (add_item job n d) = source_tombstones d"
  "events (add_item job n d) = events d"
  "records (add_item job n d) = records d"
  using add_items_frame [of job "[n]" d] by simp_all

lemma follow_edges_frame [simp]:
  "outside_retention (snd (follow_edges job item n d)) = outside_retention d"
  "source_tombstones (snd (follow_edges job item n d)) = source_tombstones d"
  "events (snd (follow_edges job item n d)) = events d"
  "records (snd (follow_edges job item n d)) = records d"
  by (simp_all add: follow_edges_def Let_def)

lemma receipt_copies_frame:
  assumes "cleanup_receipt_copies source legacy d = Inr d'"
  shows "outside_retention d' = outside_retention d" "source_tombstones d' = source_tombstones d"
    "events d' = events d" "records d' = records d"
  using assms by (auto simp: cleanup_receipt_copies_def outside_retention_def without_lineage_def)

text \<open>
  What a pass removes of the copies: content of finalized receipts, message bodies and the messages of
  retained contexts. The rows themselves stay where they are.
\<close>

definition erased_effect :: "EffectRow \<Rightarrow> EffectRow \<Rightarrow> bool" where
  "erased_effect e q \<longleftrightarrow> q = e \<or> ef_phase e = PhaseFinalized \<and> q = withhold_effect e"

definition erased_message :: "MessageRow \<Rightarrow> MessageRow \<Rightarrow> bool" where
  "erased_message m q \<longleftrightarrow> q = m \<or> q = m\<lparr>mr_body := None, mr_acknowledged := True\<rparr>"

definition erased_item :: "ContextItem \<Rightarrow> ContextItem \<Rightarrow> bool" where
  "erased_item i q \<longleftrightarrow> q = i \<or> q = i\<lparr>it_body := None\<rparr>"

definition erased :: "Db \<Rightarrow> Db \<Rightarrow> bool" where
  "erased d d' \<longleftrightarrow> list_all2 erased_effect (effects d) (effects d') \<and>
     list_all2 erased_message (messages d) (messages d') \<and>
     list_all2 erased_item (context_items d) (context_items d')"

lemma list_all2_update_where:
  "(\<And>r. r \<in> set rows \<Longrightarrow> R r r) \<Longrightarrow> (\<And>r. r \<in> set rows \<Longrightarrow> P r \<Longrightarrow> R r (f r)) \<Longrightarrow>
     list_all2 R rows (update_where P f rows)"
  by (induction rows) auto

lemma erased_rows [simp]:
  "list_all2 erased_effect rows rows" "list_all2 erased_message ms ms" "list_all2 erased_item is is"
  "list_all2 erased_message ms (update_where P (\<lambda>m. m\<lparr>mr_body := None, mr_acknowledged := True\<rparr>) ms)"
  "list_all2 erased_item is (update_where Q (\<lambda>i. i\<lparr>it_body := None\<rparr>) is)"
  by (auto intro!: list_all2_update_where list.rel_refl simp: erased_effect_def erased_message_def
      erased_item_def)

definition copies :: "Db \<Rightarrow> EffectRow list \<times> MessageRow list \<times> ContextItem list" where
  "copies d = (effects d, messages d, context_items d)"

lemma erased_same: "copies d' = copies d \<Longrightarrow> erased d d'"
  by (simp add: erased_def copies_def)

lemma copies_lineage: "only_lineage d d' \<Longrightarrow> copies d' = copies d"
  by (rule only_lineage_field) (simp_all add: without_lineage_def copies_def)

lemma erased_refl [simp]: "erased d d"
  by (simp add: erased_same)

lemma erased_writes [simp]:
  "erased d (drop_archive sc i d)" "erased d (redact_context_source sc kind i d)"
  "erased d (update_policy i f d)" "erased d (strip_study i d)" "erased d (rewrite_record i r d)"
  "erased d (drop_index i d)" "erased d (redact_event i e d)" "erased d (withdraw_messages P d)"
  "erased d (expire_feedback t Q d)" "erased d (drop_results Q d)" "erased d (cleanup_artifact i d)"
  "erased d (update_item c g d)" "erased d (update_job j h d)" "erased d (d\<lparr>artifact_snapshots := as\<rparr>)"
  by (simp_all add: retention_writes erased_def Let_def)

lemma erased_lineage: "only_lineage d d' \<Longrightarrow> erased d d'"
  by (rule erased_same) (rule copies_lineage)

lemma erased_items [simp]:
  "erased d (fold (add_item job) ns d)" "erased d (add_item job n d)"
  "erased d (snd (follow_edges job item k d))" "erased d (cleanup_tombstone sc kind i delete d)"
proof -
  have one: "copies (add_item job n d) = copies d" for n d
    by (simp add: add_item_def copies_def split: prod.split)
  have all: "copies (fold (add_item job) ns d) = copies d" for ns d
    by (induction ns arbitrary: d) (simp_all add: one)
  then show "erased d (fold (add_item job) ns d)" by (simp add: erased_same)
  show "erased d (add_item job n d)" using one by (simp add: erased_same)
  show "erased d (snd (follow_edges job item k d))"
    by (rule erased_same) (use all in \<open>simp add: follow_edges_def Let_def update_item_def update_job_def copies_def\<close>)
  show "erased d (cleanup_tombstone sc kind i delete d)"
    by (rule erased_lineage)
       (auto simp: cleanup_tombstone_def Let_def
         intro: only_lineage_trans [OF retire_sources_frame(1) retire_sources_frame(2)])
qed

lemma receipt_copies_erased: "cleanup_receipt_copies source legacy d = Inr d' \<Longrightarrow> erased d d'"
  by (auto simp: cleanup_receipt_copies_def erased_def erased_effect_def list_all_iff
      intro!: list_all2_update_where)

text \<open>Any predicate the primitive writes keep is kept by the whole pass.\<close>

definition content_safe :: "(Db \<Rightarrow> bool) \<Rightarrow> bool" where
  "content_safe I \<longleftrightarrow> (\<forall>d d'. outside_retention d' = outside_retention d \<longrightarrow>
     source_tombstones d' = source_tombstones d \<longrightarrow> events d' = events d \<longrightarrow> records d' = records d \<longrightarrow>
     erased d d' \<longrightarrow> I d \<longrightarrow> I d')"

definition retention_safe :: "(Db \<Rightarrow> bool) \<Rightarrow> bool" where
  "retention_safe I \<longleftrightarrow> content_safe I \<and>
     (\<forall>sc kind i delete d. I d \<longrightarrow> I (cleanup_tombstone sc kind i delete d)) \<and>
     (\<forall>i row d. List.find (\<lambda>q. er_id q = i) (events d) = Some row \<longrightarrow> I d \<longrightarrow>
        I (redact_event i (er_body row) d)) \<and>
     (\<forall>i row r d. List.find (\<lambda>q. rec_id q = i) (records d) = Some row \<longrightarrow>
        r_id r = r_id (rec_body row) \<longrightarrow> I d \<longrightarrow> I (rewrite_record i r d))"

lemma content_safeD:
  "content_safe I \<Longrightarrow> outside_retention d' = outside_retention d \<Longrightarrow>
     source_tombstones d' = source_tombstones d \<Longrightarrow> events d' = events d \<Longrightarrow>
     records d' = records d \<Longrightarrow> erased d d' \<Longrightarrow> I d \<Longrightarrow> I d'"
  by (simp add: content_safe_def)

lemma retention_safeD:
  "retention_safe I \<Longrightarrow> outside_retention d' = outside_retention d \<Longrightarrow>
     source_tombstones d' = source_tombstones d \<Longrightarrow> events d' = events d \<Longrightarrow>
     records d' = records d \<Longrightarrow> erased d d' \<Longrightarrow> I d \<Longrightarrow> I d'"
  "retention_safe I \<Longrightarrow> I d \<Longrightarrow> I (cleanup_tombstone sc kind i delete d)"
  "retention_safe I \<Longrightarrow> List.find (\<lambda>q. er_id q = i) (events d) = Some row \<Longrightarrow> I d \<Longrightarrow>
     I (redact_event i (er_body row) d)"
  "retention_safe I \<Longrightarrow> List.find (\<lambda>q. rec_id q = i) (records d) = Some stored \<Longrightarrow>
     r_id r = r_id (rec_body stored) \<Longrightarrow> I d \<Longrightarrow> I (rewrite_record i r d)"
  by (simp_all add: retention_safe_def content_safe_def)

lemma safe_content: "retention_safe I \<Longrightarrow> content_safe I"
  by (simp add: retention_safe_def)

lemma ignores_retention_safe: "ignores_retention I \<Longrightarrow> retention_safe I"
  unfolding ignores_retention_def retention_safe_def content_safe_def
  by (blast intro: cleanup_tombstone_frame retention_frame)

lemma tombstoned_safe: "retention_safe (tombstoned k i)"
  unfolding retention_safe_def content_safe_def
  by (auto simp: rewrite_record_def redact_event_def tombstoned_def cleanup_tombstone_def Let_def add_tombstone_def bump_policy_def)

lemma remove_export_safe:
  "retention_safe I \<Longrightarrow> preserves (db_inv I) (remove_export_file i)"
  unfolding remove_export_file_def export_path_def
  by (intro keeps_intros; erule retention_safeD(1)) simp_all

lemma cleanup_study_safe:
  "content_safe I \<Longrightarrow> preserves (db_inv I) (cleanup_experiment_files grant i)"
  unfolding cleanup_experiment_files_def
  by (intro keeps_intros; erule content_safeD) simp_all

lemma retired_ids [simp]:
  "r_id (retired_version r version now) = r_id r" "r_id (without_content r) = r_id r"
  by (simp_all add: retired_version_def without_content_def)

text \<open>The rewritten body is derived from the stored one: nothing in between writes records.\<close>

lemma cleanup_record_safe:
  assumes "retention_safe I"
  shows "preserves (db_inv I) (cleanup_record grant i delete)"
proof -
  have row_safe: "content_safe (\<lambda>d. I d \<and> List.find (\<lambda>q. rec_id q = i) (records d) = Some row)" for row
    using safe_content [OF assms] by (simp add: content_safe_def)
  let ?R = "\<lambda>row d. I d \<and> List.find (\<lambda>q. rec_id q = i) (records d) = Some row"
  have tail: "preserves (db_inv I) (seq (exec (drop_index i))
      (exec (cleanup_tombstone (g_scope grant) ''record'' i delete)))"
    by (intro keeps_intros retention_safeD(2) [OF assms]; erule retention_safeD(1) [OF assms, rotated -1])
       simp_all
  have files: "preserves (db_inv (?R row)) (if b then seq (cleanup_experiment_files grant i) (exec (strip_study i))
      else skip)" for row b
    by (intro keeps_intros cleanup_study_safe row_safe; erule content_safeD [OF row_safe, rotated -1]) simp_all
  show ?thesis
    unfolding preserves_leads cleanup_record_def Let_def
  proof (intro leads_query_res leads_if)
    fix d row
    assume row: "the_row (List.find (\<lambda>q. rec_id q = i) (records d)) = Inr row" and d: "I d"
    have rewritten: "leads (?R row) I (if b then bind (lift v) (\<lambda>version. bind now_ms (\<lambda>now. exec (rewrite_record i
        (if delete then without_content (retired_version (rec_body row) version now)
         else retired_version (rec_body row) version now)))) else skip)" for b v
      by (intro leads_if leads_lift leads_now leads_exec)
         (auto simp: leads_def intro: retention_safeD(4) [OF assms])
    show "leads (\<lambda>d'. d' = d) I (seq (if delete \<and> r_kind (rec_body row) = RecordKind.Experiment
          then seq (cleanup_experiment_files grant i) (exec (strip_study i)) else skip)
        (seq (if \<not> r_retired (rec_body row) \<or> delete \<and> r_body (rec_body row) \<noteq> []
          then bind (lift (counter (r_version (rec_body row)))) (\<lambda>version. bind now_ms (\<lambda>now.
            exec (rewrite_record i (if delete then without_content (retired_version (rec_body row) version now)
              else retired_version (rec_body row) version now)))) else skip)
        (seq (exec (drop_index i)) (exec (cleanup_tombstone (g_scope grant) ''record'' i delete)))))"
      using row d by (intro leads_weaken [OF leads_seq [OF _ files leads_then [OF rewritten tail]]]) simp_all
  qed (auto simp: leads_def)
qed

lemma retention_safe_writes:
  assumes "retention_safe I" "I d"
  shows "I (withdraw_messages P d)" "I (expire_feedback t Q d)" "I (drop_results Q d)"
  by (rule retention_safeD(1) [OF assms(1) _ _ _ _ _ assms(2)]; simp)+

lemma cleanup_event_safe:
  assumes "retention_safe I"
  shows "preserves (db_inv I) (cleanup_event grant i)"
  unfolding preserves_leads cleanup_event_def Let_def
proof (intro leads_query_res leads_if leads_exec_res leads_exec_keeps keeps_intros; clarsimp?)
  fix d d' row
  assume "I d" "cleanup_receipt_copies (Some i) None d = Inr d'"
    "List.find (\<lambda>q. er_id q = i) (events d) = Some row"
  then show "I (redact_event i (er_body row) d')"
    using retention_safeD(1) [OF assms] retention_safeD(3) [OF assms]
    by (metis receipt_copies_frame receipt_copies_erased)
qed (auto simp: leads_def skip_def intro: retention_safeD(2) [OF assms] retention_safe_writes [OF assms])

lemma cleanup_payload_safe:
  assumes "retention_safe I"
  shows "preserves (db_inv I) (cleanup_payload grant job delete item)"
  unfolding cleanup_payload_def cleanup_source_payload_def cleanup_legacy_exports_def
  by (intro keeps_intros remove_export_safe cleanup_record_safe cleanup_event_safe assms;
      rule retention_safeD(1) [OF assms]) (simp_all add: receipt_copies_frame receipt_copies_erased)

lemma cleanup_step_safe:
  assumes "retention_safe I"
  shows "preserves (db_inv I) (cleanup_step grant job n)"
  unfolding cleanup_step_def
  by (intro keeps_intros cleanup_payload_safe assms; rule retention_safeD(1) [OF assms]) simp_all

lemma advance_loop_safe: "retention_safe I \<Longrightarrow> preserves (db_inv I) (advance_loop grant job n)"
proof (induction grant job n rule: advance_loop.induct)
  case (1 grant job)
  show ?case unfolding advance_loop.simps by (rule keeps_intros)
next
  case (2 grant job n)
  show ?case unfolding advance_loop.simps
    by (intro keeps_intros cleanup_step_safe 2)
qed

lemma cleanup_sources_safe:
  assumes "retention_safe I"
  shows "preserves (db_inv I) (cleanup_sources grant limit)"
  unfolding cleanup_sources_def advance_cleanup_def
  by (intro keeps_intros advance_loop_safe assms; rule retention_safeD(1) [OF assms]) simp_all

lemma cleanup_sources_keeps: "ignores_retention I \<Longrightarrow> preserves (db_inv I) (cleanup_sources grant n)"
  by (intro cleanup_sources_safe ignores_retention_safe)

lemma cleanup_sources_tombstones:
  "cleanup_sources grant n s = (r, t) \<Longrightarrow> tombstoned k i (store_db s) \<Longrightarrow> tombstoned k i (store_db t)"
  using preservesD [OF cleanup_sources_safe [OF tombstoned_safe]] by (fastforce simp: db_inv_def)

end
