(* ===== verification/Records.thy ===== *)
theory Records
  imports Cleanup
begin

text \<open>
  crates/ribosome-core/src/records.rs: versioned records with optimistic concurrency, their
  delivery under a grant, admission of implementations, retirement and the expiry of memories.
  \<open>submit_for_run\<close>, whose checks of motif records are a component of their own, is in Motifs.
\<close>

section \<open>Model\<close>

definition record_row :: "Db \<Rightarrow> string \<Rightarrow> RecordRow option" where
  "record_row d i = List.find (\<lambda>r. rec_id r = i) (records d)"

definition update_record :: "RecordEnvelope \<Rightarrow> string \<Rightarrow> Db \<Rightarrow> Db" where
  "update_record r expected d = d\<lparr>
     records := update_where (\<lambda>q. rec_id q = r_id r \<and> rec_version q = expected)
       (\<lambda>q. q\<lparr>rec_version := r_version r, rec_body := r\<rparr>) (records d),
     record_search := delete_where (\<lambda>(i, _). i = r_id r) (record_search d)\<rparr>"

definition insert_record :: "RecordEnvelope \<Rightarrow> Db \<Rightarrow> Db" where
  "insert_record r d = d\<lparr>records := records d @
     [\<lparr>rec_id = r_id r, rec_client = sc_client (r_scope r), rec_project = sc_project (r_scope r),
       rec_kind = r_kind r, rec_version = r_version r, rec_split = pv_split (r_provenance r),
       rec_body = r\<rparr>]\<rparr>"

definition index_record :: "RecordEnvelope \<Rightarrow> Db \<Rightarrow> Db" where
  "index_record r d =
     (if r_retired r then d else d\<lparr>record_search := record_search d @ [(r_id r, r_body r)]\<rparr>)"

definition attribute_record :: "string option \<Rightarrow> RecordEnvelope \<Rightarrow> Db \<Rightarrow> Db" where
  "attribute_record run r d =
     (case run of
        None \<Rightarrow> d
      | Some run_id \<Rightarrow>
          if exists_where (\<lambda>w. aw_work_id w = run_id) (attachment_work d) \<and>
             (run_id, r_id r) \<notin> set (attachment_records d)
          then d\<lparr>attachment_records := attachment_records d @ [(run_id, r_id r)]\<rparr> else d)"

definition save_record_for_run ::
    "RecordEnvelope \<Rightarrow> string option \<Rightarrow> string option \<Rightarrow> unit store_op" where
  "save_record_for_run r expected run =
     joined_transaction (
       seq (case expected of
              Some version \<Rightarrow>
                bind (query (\<lambda>d. count_where (\<lambda>q. rec_id q = r_id r \<and> rec_version q = version)
                    (records d))) (\<lambda>changed.
                seq (exec (update_record r version))
                    (need (changed = 1) (conflict ''record changed concurrently'')))
            | None \<Rightarrow>
                insert_row (\<lambda>d. \<not> exists_where (\<lambda>q. rec_id q = r_id r) (records d)) (insert_record r))
      (seq (exec (index_record r))
      (seq (exec_res (record_sources r))
           (exec (attribute_record run r)))))"

definition expire_memory :: "Grant \<Rightarrow> RecordEnvelope \<Rightarrow> unit store_op" where
  "expire_memory grant r =
     bind (if r_retired r then ret False else expired r) (\<lambda>gone.
     if gone then
       bind (lift (counter (r_version r))) (\<lambda>version.
       bind now_ms (\<lambda>now.
       seq (save_record_for_run (retired_version r version now) (Some (r_version r)) None)
           (cleanup_sources grant 1)))
     else skip)"

definition expire_memories :: "Grant \<Rightarrow> unit store_op" where
  "expire_memories grant =
     bind (query (\<lambda>d. map rec_body (filter (\<lambda>r. rec_client r = sc_client (g_scope grant) \<and>
         rec_project r = sc_project (g_scope grant) \<and> rec_kind r = RecordKind.Memory) (records d))))
       (\<lambda>rows. for_each rows (expire_memory grant))"

definition read_record :: "Grant \<Rightarrow> string \<Rightarrow> RecordEnvelope store_op" where
  "read_record grant i =
     seq (expire_memories grant) (
     bind (query_res (evaluation_source_grant grant ''record'' i True)) (\<lambda>effective.
     bind (query_res (\<lambda>d. ok_or (scoped_record effective i d)
         (missing ''record not found in granted scope''))) (\<lambda>r.
     bind (if r_retired r \<or> pv_split (r_provenance r) \<notin> set (g_visible_splits grant) then ret True
           else expired r) (\<lambda>gone.
     seq (need (\<not> gone) (missing ''record unavailable'')) (
     seq (require_source grant ''record'' i) (
     ret r))))))"

definition require_reference :: "Grant \<Rightarrow> string \<Rightarrow> unit store_op" where
  "require_reference grant i =
     seq (expire_memories grant) (
     bind (query (\<lambda>d. exists_where (\<lambda>r. rec_id r = i) (records d))) (\<lambda>is_record.
     bind (query (\<lambda>d. exists_where (\<lambda>a. as_id a = i) (artifact_snapshots d))) (\<lambda>is_artifact.
     require_source grant
       (if is_record then ''record'' else if is_artifact then ''artifact'' else ''event'') i)))"

text \<open>The newest admission decision about an implementation version, in descending id order.\<close>

fun scan_admissions ::
    "Grant \<Rightarrow> string \<Rightarrow> string \<Rightarrow> RecordEnvelope list \<Rightarrow> bool store_op" where
  "scan_admissions grant i version [] = ret False"
| "scan_admissions grant i version (r # rs) =
     (if r_retired r \<or> pv_split (r_provenance r) \<notin> set (g_visible_splits grant)
      then scan_admissions grant i version rs
      else bind (source_available grant ''record'' (r_id r)) (\<lambda>available.
           if \<not> available then scan_admissions grant i version rs
           else bind (ask (\<lambda>s. env_admission_of s (r_body r))) (\<lambda>decoded.
                bind (lift decoded) (\<lambda>a.
                if vr_id (adm_implementation a) = i \<and> vr_version (adm_implementation a) = version \<and>
                   adm_context a = g_context grant
                then ret (adm_decision a = AdmissionDecision.Accepted)
                else scan_admissions grant i version rs))))"

definition is_admitted :: "Grant \<Rightarrow> RecordEnvelope \<Rightarrow> bool store_op" where
  "is_admitted grant implementation =
     bind (source_available grant ''record'' (r_id implementation)) (\<lambda>available.
     if \<not> available then ret False
     else bind (ask (\<lambda>s. env_implementation_of s (r_body implementation))) (\<lambda>decoded.
          bind (lift decoded) (\<lambda>imp.
          if \<not> list_all (\<lambda>t. t \<in> set (g_tools grant)) (imp_required_capabilities imp) then ret False
          else if g_mode grant = Mode.Observe \<and> imp_possible_effects imp \<noteq> [] then ret False
          else bind (query (\<lambda>d. map rec_body (rev (sort_key rec_id
                 (filter (\<lambda>r. rec_client r = sc_client (g_scope grant) \<and>
                    rec_project r = sc_project (g_scope grant) \<and> rec_kind r = RecordKind.Admission)
                  (records d)))))) (\<lambda>rows.
               scan_admissions grant (r_id implementation) (imp_version imp) rows))))"

definition retire :: "Grant \<Rightarrow> RetireRequest \<Rightarrow> unit store_op" where
  "retire grant request =
     seq (validate ''RetireRequest'' (valid_RetireRequest request)) (
     bind (query_res (\<lambda>d. ok_or (scoped_record grant (rtr_id request) d)
         (missing ''record not found in granted scope''))) (\<lambda>r.
     seq (need (pv_split (r_provenance r) \<in> set (g_visible_splits grant))
            (denied ''record unavailable'')) (
     seq (need (r_version r = rtr_expected_version request) (conflict ''record version mismatch'')) (
     seq (need (r_kind r \<noteq> RecordKind.Admission \<and> r_kind r \<noteq> RecordKind.Evaluation)
            (denied ''protected record'')) (
     if r_retired r \<and> (\<not> rtr_delete request \<or> r_body r = []) then cleanup_sources grant 1
     else
       bind now_ms (\<lambda>now.
       bind (lift (counter (r_version r))) (\<lambda>version.
       let r' = retired_version r version now;
           r' = (if rtr_delete request
                 then r'\<lparr>r_body := [], r_provenance := (r_provenance r')\<lparr>pv_source_refs := []\<rparr>\<rparr>
                 else r')
       in seq (save_record_for_run r' (Some (rtr_expected_version request)) None) (
          cleanup_sources grant 1))))))))"

section \<open>Versions are compared and swapped\<close>

definition record_keys :: "Db \<Rightarrow> bool" where
  "record_keys d \<longleftrightarrow> distinct (map rec_id (records d))"

lemma attribute_record_frame [simp]:
  "records (attribute_record run r d) = records d"
  "source_tombstones (attribute_record run r d) = source_tombstones d"
  by (simp_all add: attribute_record_def split: option.splits)

lemma index_record_frame [simp]:
  "records (index_record r d) = records d"
  "source_tombstones (index_record r d) = source_tombstones d"
  by (simp_all add: index_record_def)

lemma update_record_rows [simp]:
  "records (update_record r v d) = update_where (\<lambda>q. rec_id q = r_id r \<and> rec_version q = v)
     (\<lambda>q. q\<lparr>rec_version := r_version r, rec_body := r\<rparr>) (records d)"
  "source_tombstones (update_record r v d) = source_tombstones d"
  by (simp_all add: update_record_def)

text \<open>What a successful save did, joined to an open transaction or run in its own.\<close>

definition save_step :: "RecordEnvelope \<Rightarrow> string option \<Rightarrow> string option \<Rightarrow> Db \<Rightarrow> Db res" where
  "save_step r expected run d =
     and_then (case expected of
         Some v \<Rightarrow>
           and_then (guard (count_where (\<lambda>q. rec_id q = r_id r \<and> rec_version q = v) (records d) = 1)
             (conflict ''record changed concurrently'')) (\<lambda>_. Inr (update_record r v d))
       | None \<Rightarrow>
           and_then (guard (\<not> exists_where (\<lambda>q. rec_id q = r_id r) (records d))
             (internal ''constraint failed'')) (\<lambda>_. Inr (insert_record r d))) (\<lambda>d.
     and_then (record_sources r (index_record r d)) (\<lambda>d.
     Inr (attribute_record run r d)))"

lemma save_record_Inr_iff:
  "save_record_for_run r expected run s = (Inr u, t) \<longleftrightarrow>
     (\<exists>d. save_step r expected run (store_db s) = Inr d \<and> t = s\<lparr>store_db := d\<rparr>)"
proof -
  have body: "(seq (case expected of
        Some version \<Rightarrow>
          bind (query (\<lambda>d. count_where (\<lambda>q. rec_id q = r_id r \<and> rec_version q = version)
              (records d))) (\<lambda>changed. seq (exec (update_record r version))
              (need (changed = 1) (conflict ''record changed concurrently'')))
      | None \<Rightarrow> insert_row (\<lambda>d. \<not> exists_where (\<lambda>q. rec_id q = r_id r) (records d)) (insert_record r))
      (seq (exec (index_record r)) (seq (exec_res (record_sources r))
           (exec (attribute_record run r))))) s = (Inr u, t) \<longleftrightarrow>
      (\<exists>d. save_step r expected run (store_db s) = Inr d \<and> t = s\<lparr>store_db := d\<rparr>)" for s t
    by (cases expected) (auto simp: save_step_def op_simps simp del: exists_where_iff split: if_splits)
  show ?thesis unfolding save_record_for_run_def by (rule joined_step) (rule body)
qed

lemma save_step_records:
  assumes "save_step r (Some v) run d = Inr d'" "record_keys d"
  obtains q where "record_row d (r_id r) = Some q" "rec_version q = v"
    "record_row d' (r_id r) = Some (q\<lparr>rec_version := r_version r, rec_body := r\<rparr>)"
    "records d' = update_where (\<lambda>q. rec_id q = r_id r \<and> rec_version q = v)
       (\<lambda>q. q\<lparr>rec_version := r_version r, rec_body := r\<rparr>) (records d)"
proof -
  from assms(1) obtain e where count: "count_where (\<lambda>q. rec_id q = r_id r \<and> rec_version q = v) (records d) = 1"
    and e: "record_sources r (index_record r (update_record r v d)) = Inr e"
    and d': "d' = attribute_record run r e"
    by (auto simp: save_step_def)
  have rows: "records d' = update_where (\<lambda>q. rec_id q = r_id r \<and> rec_version q = v)
       (\<lambda>q. q\<lparr>rec_version := r_version r, rec_body := r\<rparr>) (records d)"
    using only_lineageD(1) [OF record_sources_frame [OF e]] d' by simp
  from count obtain q where q: "q \<in> set (records d)" "rec_id q = r_id r" "rec_version q = v"
    unfolding count_where_def by (metis (mono_tags, lifting) filter_empty_conv length_0_conv zero_neq_one)
  then have row: "record_row d (r_id r) = Some q"
    unfolding record_row_def using find_key [of rec_id "records d" q] assms(2) by (simp add: record_keys_def)
  moreover have "record_row d' (r_id r) = Some (q\<lparr>rec_version := r_version r, rec_body := r\<rparr>)"
    unfolding record_row_def rows using row q
    by (subst find_update_where) (auto simp: record_row_def)
  ultimately show ?thesis using q rows that by blast
qed

text \<open>
  No lost update: once a writer has replaced version \<open>v\<close>, every other writer that still expects
  \<open>v\<close> is refused, and what the first one wrote is kept.
\<close>

lemma stale_version_gone:
  assumes "save_step r (Some v) run d = Inr d'" "record_keys d" "r_version r \<noteq> v" "i = r_id r"
  shows "count_where (\<lambda>x. rec_id x = i \<and> rec_version x = v) (records d') = 0"
proof -
  from save_step_records [OF assms(1,2)] have
    rows: "records d' = update_where (\<lambda>q. rec_id q = r_id r \<and> rec_version q = v)
       (\<lambda>q. q\<lparr>rec_version := r_version r, rec_body := r\<rparr>) (records d)" by blast
  show ?thesis
    unfolding rows count_where_def using assms(3,4) by (auto simp: filter_empty_conv set_update_where)
qed

lemma stale_save_refused:
  assumes "count_where (\<lambda>x. rec_id x = r_id q \<and> rec_version x = v) (records (store_db s)) = 0"
  shows "fst (save_record_for_run q (Some v) run s) = Inl (conflict ''record changed concurrently'')"
  using assms
  by (simp add: save_record_for_run_def joined_transaction_def transaction_def seq_def bind_def)

lemma save_keeps_keys:
  assumes "save_step r expected run d = Inr d'" "record_keys d"
  shows "record_keys d'"
proof (cases expected)
  case None
  with assms obtain e where e: "record_sources r (index_record r (insert_record r d)) = Inr e"
    and "d' = attribute_record run r e" and fresh: "\<not> exists_where (\<lambda>q. rec_id q = r_id r) (records d)"
    by (auto simp: save_step_def)
  with only_lineageD(1) [OF record_sources_frame [OF e]] assms(2) show ?thesis
    by (auto simp: record_keys_def insert_record_def)
next
  case (Some v)
  with assms obtain e where e: "record_sources r (index_record r (update_record r v d)) = Inr e"
    and "d' = attribute_record run r e"
    by (auto simp: save_step_def)
  with only_lineageD(1) [OF record_sources_frame [OF e]] assms(2) show ?thesis
    by (simp add: record_keys_def map_update_where)
qed

section \<open>Retirement withdraws\<close>

lemma save_step_tombstones:
  assumes "save_step r expected run d = Inr d'"
  shows "r_retired r \<Longrightarrow> tombstoned ''record'' (r_id r) d'"
    and "tombstoned k j d \<Longrightarrow> tombstoned k j d'"
proof -
  obtain c e where c: "source_tombstones c = source_tombstones d"
    and e: "record_sources r (index_record r c) = Inr e"
    and d': "d' = attribute_record run r e"
  proof (cases expected)
    case None
    with assms that [of "insert_record r d"] show ?thesis
      by (auto simp: save_step_def insert_record_def)
  next
    case (Some v)
    with assms that [of "update_record r v d"] show ?thesis by (auto simp: save_step_def)
  qed
  show "tombstoned ''record'' (r_id r) d'" if "r_retired r"
    using record_sources_tombstones(1) [OF e that] d' by (simp add: tombstoned_def)
  show "tombstoned k j d'" if "tombstoned k j d"
    using record_sources_tombstones(2) [OF e, of k j] that c d' by (simp add: tombstoned_def)
qed

lemma retire_live_tombstones:
  assumes "retire grant q s = (Inr u, t)"
    and r: "scoped_record grant (rtr_id q) (store_db s) = Some r" and rid: "r_id r = rtr_id q"
    and live: "\<not> r_retired r"
  shows "tombstoned ''record'' (rtr_id q) (store_db t)"
proof -
  define s' where "s' = s\<lparr>env_reads := Suc (env_reads s)\<rparr>"
  from assms(1) r live obtain r' d where
    d: "save_step r' (Some (rtr_expected_version q)) None (store_db s') = Inr d"
    and r': "r_retired r'" "r_id r' = r_id r"
    and run: "cleanup_sources grant 1 (s'\<lparr>store_db := d\<rparr>) = (Inr u, t)"
    unfolding s'_def
    by (atomize_elim, auto simp: retire_def Let_def op_simps save_record_Inr_iff retired_version_def)
      (intro exI conjI, assumption, auto)+
  from save_step_tombstones(1) [OF d r'(1)] have "tombstoned ''record'' (rtr_id q) d"
    using r'(2) rid by simp
  with run show ?thesis by (auto dest: cleanup_sources_tombstones)
qed

end
