(* ===== verification/Invocation.thy ===== *)
theory Invocation
  imports Records
begin

text \<open>
  crates/ribosome-core/src/invocation.rs: the pinned invocation of a prepared implementation.
  \<open>run_invocation\<close> is in Authority and \<open>require_prepared_sources\<close> in Lineage;
  \<open>validate_transplant\<close>, part of record submission, is in Motifs.
\<close>

definition binding_ok :: "Grant \<Rightarrow> BindingSlotKind \<Rightarrow> json \<Rightarrow> bool" where
  "binding_ok grant kind value =
     (case kind of
        BindingSlotKind.String \<Rightarrow> (case value of JString _ \<Rightarrow> True | _ \<Rightarrow> False)
      | BindingSlotKind.Number \<Rightarrow> (case value of JNumber _ \<Rightarrow> True | _ \<Rightarrow> False)
      | BindingSlotKind.Boolean \<Rightarrow> (case value of JBool _ \<Rightarrow> True | _ \<Rightarrow> False)
      | BindingSlotKind.Object \<Rightarrow> (case value of JObject _ \<Rightarrow> True | _ \<Rightarrow> False)
      | BindingSlotKind.Array \<Rightarrow> (case value of JArray _ \<Rightarrow> True | _ \<Rightarrow> False)
      | BindingSlotKind.ArtifactPath \<Rightarrow>
          (case as_str value of None \<Rightarrow> False | Some path \<Rightarrow> path \<in> set (g_paths grant))
      | BindingSlotKind.Tool \<Rightarrow>
          (case as_str value of None \<Rightarrow> False | Some tool \<Rightarrow> tool \<in> set (g_tools grant)))"

fun check_slots :: "Grant \<Rightarrow> json_map \<Rightarrow> string list \<Rightarrow> BindingSlot list \<Rightarrow> string list res" where
  "check_slots grant bindings names [] = Inr names"
| "check_slots grant bindings names (slot # slots) =
     (if slot_name slot \<in> set names
      then Inl (invalid ''instruction input names must be unique'')
      else case map_of bindings (slot_name slot) of
          None \<Rightarrow>
            if slot_required slot then Inl (invalid ''required invocation binding is missing'')
            else check_slots grant bindings (slot_name slot # names) slots
        | Some value \<Rightarrow>
            if \<not> binding_ok grant (slot_kind slot) value
            then Inl (invalid ''invocation binding has the wrong shape or capability'')
            else check_slots grant bindings (slot_name slot # names) slots)"

definition check_discovery_ref :: "Grant \<Rightarrow> VersionRef \<Rightarrow> Db \<Rightarrow> unit res" where
  "check_discovery_ref grant reference d =
     and_then (evaluation_source_grant grant ''record'' (vr_id reference) False d) (\<lambda>effective.
     guard (case List.find (\<lambda>r. rec_id r = vr_id reference \<and>
                rec_client r = sc_client (g_scope effective) \<and>
                rec_project r = sc_project (g_scope effective)) (records d) of
              None \<Rightarrow> False
            | Some r \<Rightarrow> rec_kind r \<in> {RecordKind.Definition, RecordKind.Occurrence, RecordKind.Discovery} \<and>
                rec_version r = vr_version reference)
       (invalid ''instruction discovery linkage must pin an available motif record version''))"

definition validate_invocation ::
    "Grant \<Rightarrow> string \<Rightarrow> ImplementationInvocation \<Rightarrow> Implementation store_op" where
  "validate_invocation grant run invocation =
     seq (validate ''ImplementationInvocation'' (valid_ImplementationInvocation invocation)) (
     let prepared = grant\<lparr>g_prepared_run := Some run\<rparr> in
     bind (read_record prepared (vr_id (inv_implementation invocation))) (\<lambda>r.
     seq (need (r_kind r = RecordKind.Implementation)
            (invalid ''invocation requires an implementation'')) (
     bind (ask (\<lambda>s. env_implementation_of s (r_body r))) (\<lambda>decoded.
     bind (lift decoded) (\<lambda>imp.
     seq (need (imp_version imp = vr_version (inv_implementation invocation))
            (conflict ''implementation version does not match invocation'')) (
     seq (need (imp_format imp = ImplementationFormat.Instructions)
            (invalid ''registered tools use action.execute'')) (
     seq (need (list_all (\<lambda>tool. tool \<in> set (g_tools grant)) (imp_required_capabilities imp) \<and>
                \<not> (g_mode grant = Mode.Observe \<and> imp_possible_effects imp \<noteq> []))
            (denied ''implementation capabilities or effects are not granted'')) (
     seq (case inv_purpose invocation of
            ImplementationInvocationPurpose.Production \<Rightarrow>
              bind (is_admitted prepared r) (\<lambda>admitted.
              need admitted (denied ''implementation is not admitted in this context''))
          | ImplementationInvocationPurpose.Experimental \<Rightarrow>
              need (g_mode grant = Mode.Sandbox)
                (denied ''experimental invocation requires a host sandbox grant'')) (
     bind (expect (imp_instruction_contract imp)
            (invalid ''instruction invocation requires instruction_contract'')) (\<lambda>contract.
     bind (lift (check_slots grant (inv_bindings invocation) [] (ic_inputs contract))) (\<lambda>names.
     bind (ask (\<lambda>s. env_bindings_bytes s (inv_bindings invocation))) (\<lambda>bytes.
     seq (need (list_all (\<lambda>(name, _). name \<in> set names) (inv_bindings invocation) \<and> bytes \<le> 65536)
            (invalid ''invocation contains undeclared or oversized bindings'')) (
     seq (for_each (inv_recipient_refs invocation)
            (require_reference (grant\<lparr>g_prepared_run := None\<rparr>))) (
     seq (for_each (ic_discovery_refs contract) (\<lambda>reference.
            query_res (check_discovery_ref grant reference))) (
     ret imp)))))))))))))))"

definition invocation_material :: "string \<Rightarrow> Grant \<Rightarrow> InvocationMaterial store_op" where
  "invocation_material run grant =
     bind (query_res (\<lambda>d. ok_or (run_invocation run d)
         (missing ''run has no implementation invocation''))) (\<lambda>invocation.
     bind (validate_invocation grant run invocation) (\<lambda>imp.
     ret \<lparr>im_invocation = invocation, im_implementation = imp\<rparr>))"

section \<open>What a validated invocation binds\<close>

lemma check_slots_sound:
  "check_slots grant bindings names slots = Inr names' \<Longrightarrow>
     set names' = set names \<union> slot_name ` set slots \<and>
     (\<forall>slot \<in> set slots. case map_of bindings (slot_name slot) of
        None \<Rightarrow> \<not> slot_required slot
      | Some value \<Rightarrow> binding_ok grant (slot_kind slot) value)"
  by (induction grant bindings names slots rule: check_slots.induct)
     (auto split: if_splits option.splits)

section \<open>Frames\<close>

lemma outside_retention_steps [simp]:
  "outside_retention (update_record r v d) = outside_retention d"
  "outside_retention (insert_record r d) = outside_retention d"
  "outside_retention (index_record r d) = outside_retention d"
  "outside_retention (attribute_record run r d) = outside_retention d"
  by (simp_all add: outside_retention_def without_lineage_def update_record_def insert_record_def
      index_record_def attribute_record_def split: option.splits)

lemma events_steps [simp]:
  "events (update_record r v d) = events d" "events (insert_record r d) = events d"
  "events (index_record r d) = events d" "events (attribute_record run r d) = events d"
  by (simp_all add: update_record_def insert_record_def index_record_def attribute_record_def
      split: option.splits)

lemma copies_steps [simp]:
  "copies (update_record r v d) = copies d" "copies (insert_record r d) = copies d"
  "copies (index_record r d) = copies d" "copies (attribute_record run r d) = copies d"
  by (simp_all add: copies_def update_record_def insert_record_def index_record_def attribute_record_def
      split: option.splits)

text \<open>Saving a record stays inside the tables of the retention pass.\<close>

lemma save_record_keeps:
  assumes "ignores_retention I"
  shows "preserves (db_inv I) (save_record_for_run r expected run)"
  unfolding save_record_for_run_def
  by (intro keeps_intros; erule ignores_retentionD [OF assms, rotated])
     (simp_all add: outside_lineage record_sources_frame)

lemma save_record_keeps_copies:
  assumes "\<And>d d'. outside_retention d' = outside_retention d \<Longrightarrow> events d' = events d \<Longrightarrow>
    copies d' = copies d \<Longrightarrow> I d \<Longrightarrow> I d'"
  shows "preserves (db_inv I) (save_record_for_run r expected run)"
  unfolding save_record_for_run_def
  by (intro keeps_intros; erule assms [rotated 3])
     (simp_all add: outside_lineage only_lineageD(2) copies_lineage record_sources_frame)

lemma quiet_scan_admissions [quiet_intros]: "quiet (scan_admissions grant i v rs)"
proof (induction grant i v rs rule: scan_admissions.induct)
  case (1 grant i version)
  show ?case unfolding scan_admissions.simps by (rule quiet_intros)
next
  case (2 grant i version r rs)
  show ?case unfolding scan_admissions.simps by (intro quiet_intros 2)
qed

lemma quiet_is_admitted [quiet_intros]: "quiet (is_admitted grant r)"
  unfolding is_admitted_def by (intro quiet_intros)

end
