(* ===== verification/Evidence.thy ===== *)
theory Evidence
  imports Sources Lineage
begin

text \<open>
  crates/ribosome-core/src/evidence.rs: the append-only event log and its paged, authorized view,
  agent activity, and the invalidation of the artifacts that depend on a changed one.
\<close>

section \<open>The event log\<close>

definition event_row :: "Db \<Rightarrow> string \<Rightarrow> EventRow option" where
  "event_row d i = List.find (\<lambda>e. er_id e = i) (events d)"

definition event_body :: "Db \<Rightarrow> string \<Rightarrow> Event option" where
  "event_body d i = map_option er_body (event_row d i)"

definition same_event :: "Event \<Rightarrow> EventRow \<Rightarrow> bool" where
  "same_event event e \<longleftrightarrow>
     er_id e = ev_id event \<or>
     er_client e = sc_client (ev_scope event) \<and> er_project e = sc_project (ev_scope event) \<and>
     er_run_id e = ev_run_id event \<and> er_producer e = ev_producer event \<and>
     er_sequence e = ev_sequence event"

definition next_cursor :: "Db \<Rightarrow> nat" where
  "next_cursor d = Suc (foldr max (map er_cursor (events d)) 0)"

definition event_row_of :: "nat \<Rightarrow> Event \<Rightarrow> EventRow" where
  "event_row_of cursor event =
     \<lparr>er_cursor = cursor, er_id = ev_id event, er_client = sc_client (ev_scope event),
      er_project = sc_project (ev_scope event), er_run_id = ev_run_id event,
      er_producer = ev_producer event, er_sequence = ev_sequence event,
      er_split = pv_split (ev_provenance event), er_body = event\<rparr>"

definition insert_event :: "Event \<Rightarrow> Db \<Rightarrow> Db" where
  "insert_event event d = d\<lparr>events := events d @ [event_row_of (next_cursor d) event]\<rparr>"

definition fresh_event :: "Event \<Rightarrow> Db \<Rightarrow> bool" where
  "fresh_event event d \<longleftrightarrow> \<not> exists_where (same_event event) (events d)"

definition write_event :: "Event \<Rightarrow> unit store_op" where
  "write_event event =
     joined_transaction (
       seq (insert_row (fresh_event event) (insert_event event))
           (exec_res (add_source_edges ''event'' (ev_id event)
              (pv_source_refs (ev_provenance event)) [])))"

definition ingest :: "Event \<Rightarrow> bool store_op" where
  "ingest event =
     seq (validate ''Event'' (valid_Event event)) (
     bind (ask (\<lambda>s. env_event_bytes s event)) (\<lambda>bytes.
     seq (need (bytes \<le> MAX_FRAME div 4)
            (invalid ''event exceeds 256 KiB; reference large artifacts instead'')) (
     bind (query (\<lambda>d. List.find (same_event event) (events d))) (\<lambda>previous.
     case previous of
       Some e \<Rightarrow>
         seq (need (er_body e = event) (conflict ''event identity reused with different evidence''))
             (ret False)
     | None \<Rightarrow>
         seq (write_event event) (ret True)))))"

section \<open>The evidence view\<close>

definition hidden_activity :: "string option \<Rightarrow> EventRow \<Rightarrow> bool" where
  "hidden_activity active e \<longleftrightarrow>
     active = Some (er_run_id e) \<and> er_producer e \<in> {''pi-agent'', ''pi-compactor''}"

definition in_scope :: "Grant \<Rightarrow> EventRow \<Rightarrow> bool" where
  "in_scope grant e \<longleftrightarrow>
     er_client e = sc_client (g_scope grant) \<and> er_project e = sc_project (g_scope grant) \<and>
     er_split e \<in> set (g_visible_splits grant)"

fun accepts :: "('a \<Rightarrow> bool) \<Rightarrow> 'a option \<Rightarrow> bool" where
  "accepts P None = True"
| "accepts P (Some x) = P x"

definition selected_event ::
    "(Event \<Rightarrow> string \<Rightarrow> bool) \<Rightarrow> Db \<Rightarrow> Grant \<Rightarrow> EvidenceRequest \<Rightarrow> nat \<Rightarrow> nat option \<Rightarrow>
     string list option \<Rightarrow> string option \<Rightarrow> EventRow \<Rightarrow> bool" where
  "selected_event mentions d grant request cursor through corpus active e \<longleftrightarrow>
     in_scope grant e \<and> cursor < er_cursor e \<and>
     accepts (\<lambda>run. er_run_id e = run) (erq_run_id request) \<and>
     \<not> hidden_activity active e \<and>
     accepts (\<lambda>c. er_cursor e \<le> c) through \<and>
     accepts (\<lambda>selection. er_id e \<in> set selection) corpus \<and>
     accepts (\<lambda>kind. ev_kind (er_body e) = kind) (erq_kind request) \<and>
     accepts (mentions (er_body e)) (erq_query request) \<and>
     accepts (\<lambda>a. a \<in> set (ev_artifacts (er_body e))) (erq_artifact request) \<and>
     accepts (\<lambda>refs. er_id e \<in> set refs \<or>
         erq_neighbors request = Some True \<and>
         (exists_where (\<lambda>seed. er_id seed \<in> set refs \<and> er_id e \<in> set (ev_parents (er_body seed)))
            (events d) \<or>
          list_ex (\<lambda>p. p \<in> set refs) (ev_parents (er_body e))))
       (erq_event_refs request)"

record evidence_progress =
  ep_events :: "Event list"
  ep_next :: nat
  ep_frontier :: json_map
  ep_bytes :: nat

definition frontier_of :: "json_map \<Rightarrow> Event \<Rightarrow> json_map res" where
  "frontier_of frontier event =
     (let key = ev_run_id event @ ''/'' @ ev_producer event in
      and_then (counter (ev_sequence event)) (\<lambda>seq.
      and_then (case Option.bind (map_of frontier key) as_str of
          None \<Rightarrow> Inr 0 | Some v \<Rightarrow> counter v) (\<lambda>old.
      Inr (map_insert key (JString (to_string (max seq old))) frontier))))"

text \<open>The row loop: skips what is no longer available, stops before the page overflows.\<close>

fun evidence_rows ::
    "Grant \<Rightarrow> evidence_progress \<Rightarrow> EventRow list \<Rightarrow> evidence_progress store_op" where
  "evidence_rows grant p [] = ret p"
| "evidence_rows grant p (e # rows) =
     bind (source_available grant ''event'' (ev_id (er_body e))) (\<lambda>available.
     if \<not> available then evidence_rows grant (p\<lparr>ep_next := er_cursor e\<rparr>) rows
     else bind (ask (\<lambda>s. env_event_bytes s (er_body e))) (\<lambda>size.
          if ep_bytes p + size > MAX_FRAME div 2 then ret p
          else bind (lift (frontier_of (ep_frontier p) (er_body e))) (\<lambda>frontier.
               evidence_rows grant
                 \<lparr>ep_events = ep_events p @ [er_body e], ep_next = er_cursor e,
                  ep_frontier = frontier, ep_bytes = ep_bytes p + size\<rparr> rows)))"

definition scope_dependencies :: "Scope \<Rightarrow> Db \<Rightarrow> Dependency list" where
  "scope_dependencies scope d =
     take 1000 (map dr_body (filter (\<lambda>r. dr_client r = sc_client scope \<and> dr_project r = sc_project scope)
       (dependencies d)))"

definition invalidated_paths :: "Scope \<Rightarrow> Db \<Rightarrow> string list" where
  "invalidated_paths scope d =
     take 1000 (map pg_path (filter (\<lambda>r. pg_client r = sc_client scope \<and> pg_project r = sc_project scope)
       (invalidated d)))"

definition check_event_ref ::
    "Grant \<Rightarrow> string list option \<Rightarrow> string option \<Rightarrow> string \<Rightarrow> unit store_op" where
  "check_event_ref grant corpus active reference =
     (let refusal = missing ''selected source event is unavailable'' in
      seq (need (accepts (\<lambda>selection. reference \<in> set selection) corpus) refusal) (
      bind (query (\<lambda>d. exists_where (\<lambda>e. er_id e = reference \<and> in_scope grant e \<and>
          \<not> hidden_activity active e) (events d))) (\<lambda>visible.
      seq (need visible refusal) (
      bind (source_available grant ''event'' reference) (\<lambda>available.
      need available refusal)))))"

definition page_dependencies ::
    "Grant \<Rightarrow> bool \<Rightarrow> ArtifactRef list \<Rightarrow> Dependency list \<Rightarrow> Dependency list" where
  "page_dependencies grant targeted artifacts deps =
     filter (\<lambda>x. ar_path (dep_source x) \<in> set (g_paths grant) \<and>
         ar_path (dep_dependent x) \<in> set (g_paths grant) \<and>
         (\<not> targeted \<or> dep_source x \<in> set artifacts \<or> dep_dependent x \<in> set artifacts)) deps"

definition evidence_excluding_activity ::
    "Grant \<Rightarrow> EvidenceRequest \<Rightarrow> string option \<Rightarrow> EvidencePage store_op" where
  "evidence_excluding_activity grant request active =
     seq (validate ''EvidenceRequest'' (valid_EvidenceRequest request)) (
     bind (lift (counter (erq_cursor request))) (\<lambda>cursor.
     let cursor = min cursor i64_max in
     bind (lift (case erq_through_cursor request of None \<Rightarrow> Inr None
                 | Some c \<Rightarrow> and_then (counter c) (\<lambda>v. Inr (Some (min v i64_max))))) (\<lambda>through.
     bind (query_res (\<lambda>d. case g_discovery_corpus grant of None \<Rightarrow> Inr None
             | Some reference \<Rightarrow> and_then (discovery_corpus grant reference d) (\<lambda>c. Inr (Some c))))
       (\<lambda>corpus.
     let corpus_events = map_option (\<lambda>c. concat (map dw_event_refs (dc_source_windows c))) corpus in
     seq (need (\<not> (erq_neighbors request = Some True \<and> erq_event_refs request = None))
            (invalid ''neighbor selection requires explicit event_refs'')) (
     seq (case erq_event_refs request of None \<Rightarrow> skip
          | Some refs \<Rightarrow> for_each refs (check_event_ref grant corpus_events active)) (
     seq (case erq_run_id request of None \<Rightarrow> skip
          | Some run \<Rightarrow>
              bind (query (\<lambda>d. exists_where (\<lambda>e. in_scope grant e \<and> er_run_id e = run \<and>
                  \<not> hidden_activity active e \<and>
                  accepts (\<lambda>selection. er_id e \<in> set selection) corpus_events) (events d)))
                (\<lambda>found. need found (missing (''No visible source events for this run_id; omit run_id '' @
                  ''to inspect all workflows in the granted scope'')))) (
     bind (ask env_event_mentions) (\<lambda>mentions.
     bind (query (\<lambda>d. take (erq_limit request) (sort_key er_cursor
         (filter (selected_event mentions d grant request cursor through corpus_events active)
           (events d))))) (\<lambda>rows.
     bind (evidence_rows grant
         \<lparr>ep_events = [], ep_next = cursor, ep_frontier = [], ep_bytes = 0\<rparr> rows) (\<lambda>p.
     let targeted = (erq_event_refs request \<noteq> None \<or> erq_kind request \<noteq> None \<or>
           erq_artifact request \<noteq> None \<or> erq_query request \<noteq> None);
         artifacts = concat (map ev_artifacts (ep_events p))
     in bind (query (\<lambda>d. filter (\<lambda>path. path \<in> set (g_paths grant) \<and>
             (\<not> targeted \<or> path \<in> ar_path ` set artifacts)) (invalidated_paths (g_scope grant) d)))
          (\<lambda>paths.
        bind (query (\<lambda>d. case corpus of Some c \<Rightarrow> dc_dependencies c
                | None \<Rightarrow> scope_dependencies (g_scope grant) d)) (\<lambda>deps.
        let page = \<lparr>epg_events = ep_events p, epg_cursor = to_string (ep_next p),
              epg_frontier = ep_frontier p,
              epg_dependencies = page_dependencies grant targeted artifacts deps,
              epg_invalidated_paths = (if corpus = None then paths else [])\<rparr>
        in bind (ask (\<lambda>s. env_page_bytes s page)) (\<lambda>bytes.
           seq (need (bytes \<le> MAX_FRAME - 8192)
                  (exhausted (''evidence view exceeds transport capacity; reduce the event limit '' @
                    ''or narrow granted paths'')))
               (ret page))))))))))))))"

definition evidence :: "Grant \<Rightarrow> EvidenceRequest \<Rightarrow> EvidencePage store_op" where
  "evidence grant request = evidence_excluding_activity grant request None"

section \<open>Agent activity\<close>

fun activity_role :: "AgentActivityRole \<Rightarrow> string" where
  "activity_role AgentActivityRole.User = ''user''"
| "activity_role AgentActivityRole.Assistant = ''assistant''"
| "activity_role AgentActivityRole.ToolResult = ''tool_result''"

definition activity_payload :: "AgentActivity \<Rightarrow> json_map" where
  "activity_payload entry =
     [(''authority'', JString ''role-authored message; verify effects through host receipts''),
      (''content'', JObject (aa_content entry)),
      (''role'', JString (activity_role (aa_role entry)))]"

definition activity_event :: "Grant \<Rightarrow> string \<Rightarrow> AgentActivity \<Rightarrow> string \<Rightarrow> Event" where
  "activity_event grant run entry i =
     \<lparr>ev_id = i, ev_scope = g_scope grant, ev_run_id = run, ev_producer = ''pi-agent'',
      ev_sequence = aa_sequence entry, ev_kind = ''agent_message'',
      ev_timestamp_ms = aa_timestamp_ms entry, ev_parents = [], ev_correlation = run,
      ev_artifacts = [], ev_payload = activity_payload entry,
      ev_provenance = \<lparr>pv_origin = Origin.Observed, pv_source_refs = aa_source_refs entry,
        pv_scenario_family = ''pi-agent-activity'',
        pv_split = derived_split (g_visible_splits grant),
        pv_limitations = [''Observed Pi message, not verified task truth or a host effect receipt. '' @
          ''References conservatively include earlier retrieved records, events and artifact '' @
          ''observations.'']\<rparr>\<rparr>"

definition append_activity :: "Grant \<Rightarrow> string \<Rightarrow> AgentActivity \<Rightarrow> unit store_op" where
  "append_activity grant run entry =
     bind (query (\<lambda>d. List.find (\<lambda>e. er_client e = sc_client (g_scope grant) \<and>
         er_project e = sc_project (g_scope grant) \<and> er_run_id e = run \<and>
         er_producer e = ''pi-agent'' \<and> er_sequence e = aa_sequence entry) (events d))) (\<lambda>previous.
     case previous of
       Some e \<Rightarrow>
         need (\<not> (ev_payload (er_body e) \<noteq> activity_payload entry \<or>
                  ev_timestamp_ms (er_body e) \<noteq> aa_timestamp_ms entry \<or>
                  pv_source_refs (ev_provenance (er_body e)) \<noteq> aa_source_refs entry))
           (conflict ''agent activity sequence reused with different content'')
     | None \<Rightarrow>
         bind new_id (\<lambda>i.
         bind (ingest (activity_event grant run entry i)) (\<lambda>_. skip)))"

definition append_agent_activity :: "string \<Rightarrow> AgentActivityBatch \<Rightarrow> unit store_op" where
  "append_agent_activity run batch =
     seq (validate ''AgentActivityBatch'' (valid_AgentActivityBatch batch)) (
     bind (query_res (run_grant run)) (\<lambda>grant.
     joined_transaction (for_each (aab_entries batch) (append_activity grant run))))"

section \<open>Dependencies and invalidation\<close>

definition of_scope :: "Scope \<Rightarrow> DependencyRow \<Rightarrow> bool" where
  "of_scope scope r \<longleftrightarrow> dr_client r = sc_client scope \<and> dr_project r = sc_project scope"

definition dependency_key :: "Scope \<Rightarrow> Dependency \<Rightarrow> DependencyRow \<Rightarrow> bool" where
  "dependency_key scope dependency r \<longleftrightarrow>
     of_scope scope r \<and> dr_source r = ar_path (dep_source dependency) \<and>
     dr_dependent r = ar_path (dep_dependent dependency)"

definition add_dependency :: "Scope \<Rightarrow> Dependency \<Rightarrow> unit store_op" where
  "add_dependency scope dependency =
     seq (validate ''Dependency'' (valid_Dependency dependency)) (
     transaction (
       bind (ask env_dependency_bytes) (\<lambda>size.
       bind (query (\<lambda>d. filter (\<lambda>r. of_scope scope r \<and> \<not> dependency_key scope dependency r)
           (dependencies d))) (\<lambda>others.
       seq (need (\<not> (1000 \<le> length others \<or>
               sum_list (map (size \<circ> dr_body) others) + size dependency > MAX_FRAME div 4))
             (exhausted (''dependency graph exceeds the local scope capacity of 1000 edges '' @
               ''or 256 KiB''))) (
       seq (exec (\<lambda>d. d\<lparr>dependencies := upsert (dependency_key scope dependency)
             (\<lambda>r. r\<lparr>dr_body := dependency\<rparr>)
             \<lparr>dr_client = sc_client scope, dr_project = sc_project scope,
              dr_source = ar_path (dep_source dependency),
              dr_dependent = ar_path (dep_dependent dependency), dr_body = dependency\<rparr>
             (dependencies d)\<rparr>))
           (commit ()))))))"

definition validity_generation :: "Scope \<Rightarrow> Db \<Rightarrow> nat" where
  "validity_generation scope d =
     (case List.find (\<lambda>g. sg_client g = sc_client scope \<and> sg_project g = sc_project scope)
        (validity_clock d) of None \<Rightarrow> 0 | Some g \<Rightarrow> sg_generation g)"

definition tick_validity :: "Scope \<Rightarrow> Db \<Rightarrow> Db" where
  "tick_validity scope d = d\<lparr>validity_clock :=
     upsert (\<lambda>g. sg_client g = sc_client scope \<and> sg_project g = sc_project scope)
       (\<lambda>g. g\<lparr>sg_generation := sg_generation g + 1\<rparr>)
       \<lparr>sg_client = sc_client scope, sg_project = sc_project scope, sg_generation = 1\<rparr>
       (validity_clock d)\<rparr>"

definition dependents_of :: "Scope \<Rightarrow> Db \<Rightarrow> string \<Rightarrow> string list" where
  "dependents_of scope d path =
     map dr_dependent (filter (\<lambda>r. of_scope scope r \<and> dr_source r = path) (dependencies d))"

text \<open>
  The recursive CTE \<open>affected\<close>: rows leave the queue one at a time, \<open>UNION\<close> drops what was
  already produced, and \<open>LIMIT 1000\<close> ends it.
\<close>

function affected_loop :: "(string \<Rightarrow> string list) \<Rightarrow> string list \<Rightarrow> string list \<Rightarrow> string list" where
  "affected_loop next out [] = out"
| "affected_loop next out (p # queue) =
     (if 1000 \<le> length out then out
      else affected_loop next (out @ [p])
        (queue @ filter (\<lambda>q. q \<notin> set (out @ p # queue)) (remdups (next p))))"
  by pat_completeness auto
termination by (relation "measure (\<lambda>(_, out, _). 1000 - length out)") auto

definition affected_paths :: "Scope \<Rightarrow> string \<Rightarrow> Db \<Rightarrow> string list" where
  "affected_paths scope path d =
     affected_loop (dependents_of scope d) [] (remdups (dependents_of scope d path))"

definition path_key :: "Scope \<Rightarrow> string \<Rightarrow> PathGeneration \<Rightarrow> bool" where
  "path_key scope path g \<longleftrightarrow>
     pg_client g = sc_client scope \<and> pg_project g = sc_project scope \<and> pg_path g = path"

definition put_generation ::
    "Scope \<Rightarrow> string \<Rightarrow> nat \<Rightarrow> PathGeneration list \<Rightarrow> PathGeneration list" where
  "put_generation scope path generation rows =
     upsert (path_key scope path) (\<lambda>g. g\<lparr>pg_generation := generation\<rparr>)
       \<lparr>pg_client = sc_client scope, pg_project = sc_project scope, pg_path = path,
        pg_generation = generation\<rparr> rows"

definition mark_invalid :: "Scope \<Rightarrow> nat \<Rightarrow> string \<Rightarrow> Db \<Rightarrow> Db" where
  "mark_invalid scope generation path d = d\<lparr>
     artifact_invalidation_generations :=
       put_generation scope path generation (artifact_invalidation_generations d),
     invalidated := put_generation scope path generation (invalidated d)\<rparr>"

definition invalidate_dependents :: "Scope \<Rightarrow> string \<Rightarrow> string list store_op" where
  "invalidate_dependents scope path =
     joined_transaction (
       seq (exec (tick_validity scope)) (
       bind (query (validity_generation scope)) (\<lambda>generation.
       bind (query (affected_paths scope path)) (\<lambda>paths.
       seq (for_each paths (\<lambda>p. exec (mark_invalid scope generation p))) (
       ret paths)))))"

definition invalidate_artifact_and_dependents :: "Scope \<Rightarrow> string \<Rightarrow> unit store_op" where
  "invalidate_artifact_and_dependents scope path =
     joined_transaction (
       bind (invalidate_dependents scope path) (\<lambda>_.
       bind (query (validity_generation scope)) (\<lambda>generation.
       exec (mark_invalid scope generation path))))"

definition artifact_invalidation_generation :: "Scope \<Rightarrow> string \<Rightarrow> Db \<Rightarrow> nat" where
  "artifact_invalidation_generation scope path d =
     (case List.find (path_key scope path) (artifact_invalidation_generations d) of
        None \<Rightarrow> 0 | Some g \<Rightarrow> pg_generation g)"

end
