(* ===== verification/EventLog.thy ===== *)
theory EventLog
  imports Evidence Grants
begin

text \<open>
  The event log is an immutable registry with increasing cursors: an event that was accepted stays
  as it was, offering it again changes nothing, and no other evidence can take its identity.
\<close>

definition log_ok :: "Db \<Rightarrow> bool" where
  "log_ok d \<longleftrightarrow>
     (\<forall>e \<in> set (events d). e = event_row_of (er_cursor e) (er_body e)) \<and>
     distinct (map er_id (events d)) \<and> sorted_wrt (<) (map er_cursor (events d))"

lemma event_row_of_simps [simp]:
  "er_id (event_row_of c e) = ev_id e" "er_body (event_row_of c e) = e"
  "er_cursor (event_row_of c e) = c" "er_run_id (event_row_of c e) = ev_run_id e"
  "er_producer (event_row_of c e) = ev_producer e" "er_sequence (event_row_of c e) = ev_sequence e"
  by (simp_all add: event_row_of_def)

lemma log_ok_id: "log_ok d \<Longrightarrow> e \<in> set (events d) \<Longrightarrow> er_id e = ev_id (er_body e)"
  unfolding log_ok_def by (metis event_row_of_simps(1))

lemma next_cursor_gt: "e \<in> set (events d) \<Longrightarrow> er_cursor e < next_cursor d"
proof -
  have "c \<in> set cs \<Longrightarrow> c \<le> foldr max cs (0::nat)" for c cs by (induction cs) auto
  then show "e \<in> set (events d) \<Longrightarrow> er_cursor e < next_cursor d"
    by (simp add: next_cursor_def less_Suc_eq_le)
qed

lemma insert_event_events [simp]:
  "events (insert_event e d) = events d @ [event_row_of (next_cursor d) e]"
  by (simp add: insert_event_def)

lemma log_ok_insert:
  assumes "log_ok d" "fresh_event e d"
  shows "log_ok (insert_event e d)"
proof -
  have "ev_id e \<notin> er_id ` set (events d)"
    using assms(2) by (auto simp: fresh_event_def same_event_def)
  with assms(1) next_cursor_gt [of _ d] show ?thesis
    by (auto simp: log_ok_def sorted_wrt_append)
qed

text \<open>What \<open>ingest\<close> does to the tables, on every path.\<close>

definition ingest_step :: "Event \<Rightarrow> Db \<Rightarrow> Db res" where
  "ingest_step event d =
     and_then (guard (fresh_event event d) (internal ''constraint failed''))
       (\<lambda>_. add_source_edges ''event'' (ev_id event) (pv_source_refs (ev_provenance event)) []
              (insert_event event d))"

lemma write_event_Inr_iff:
  "write_event event s = (Inr u, t) \<longleftrightarrow>
     (\<exists>d. ingest_step event (store_db s) = Inr d \<and> t = s\<lparr>store_db := d\<rparr>)"
  unfolding write_event_def
  by (rule joined_step) (auto simp: ingest_step_def seq_Inr_iff split: if_splits)

lemma ingest_Inr_iff:
  "ingest event s = (Inr b, t) \<longleftrightarrow>
     valid_Event event \<and> env_event_bytes s event \<le> MAX_FRAME div 4 \<and>
     (case List.find (same_event event) (events (store_db s)) of
        Some e \<Rightarrow> er_body e = event \<and> \<not> b \<and> t = s
      | None \<Rightarrow> b \<and> (\<exists>d. ingest_step event (store_db s) = Inr d \<and> t = s\<lparr>store_db := d\<rparr>))"
  by (auto simp: ingest_def bind_Inr_iff seq_Inr_iff write_event_Inr_iff ask_def split: option.splits)

lemma ingest_step_events:
  "ingest_step event d = Inr d' \<Longrightarrow> events d' = events d @ [event_row_of (next_cursor d) event]"
  by (auto simp: ingest_step_def dest!: add_source_edges_frame only_lineageD(2))

text \<open>A failed write keeps the log, or (inside an open transaction) adds the row it could not link.\<close>

definition log_grew :: "Event \<Rightarrow> Db \<Rightarrow> Db \<Rightarrow> bool" where
  "log_grew event d d' \<longleftrightarrow> events d' = events d \<or>
     fresh_event event d \<and> events d' = events d @ [event_row_of (next_cursor d) event]"

lemma log_grew_cong: "events c = events d \<Longrightarrow> log_grew event c = log_grew event d"
  by (simp add: log_grew_def fresh_event_def next_cursor_def fun_eq_iff)

lemma write_event_any: "write_event event s = (r, t) \<Longrightarrow> log_grew event (store_db s) (store_db t)"
proof -
  define w where "w = seq (insert_row (fresh_event event) (insert_event event))
      (exec_res (add_source_edges ''event'' (ev_id event) (pv_source_refs (ev_provenance event)) []))"
  have w: "log_grew event (store_db s) (store_db v)" if "w s = (q, v)" for s q v
    using that
    by (auto simp: w_def log_grew_def seq_def bind_def insert_row_def need_def exec_res_def
        split: if_splits sum.splits dest!: add_source_edges_frame only_lineageD(2))
  assume "write_event event s = (r, t)"
  then have run: "joined_transaction w s = (r, t)" by (simp add: write_event_def w_def)
  show "log_grew event (store_db s) (store_db t)"
  proof (cases "store_in_tx s")
    case True
    with run w show ?thesis by simp
  next
    case False
    obtain q' v' where "w (s\<lparr>store_in_tx := True\<rparr>) = (q', v')" by (cases "w (s\<lparr>store_in_tx := True\<rparr>)")
    with run w [OF this] False show ?thesis
      by (cases q') (auto simp: joined_transaction_def transaction_def bind_def commit_def log_grew_def)
  qed
qed

lemma ingest_any:
  assumes "ingest event s = (r, t)"
  shows "log_grew event (store_db s) (store_db t)"
proof (cases "t = s")
  case True
  then show ?thesis by (simp add: log_grew_def)
next
  case False
  with assms obtain q where "write_event event s = (q, t)"
    by (auto simp: ingest_def seq_def bind_def ask_def need_def validate_def
        split: if_splits option.splits sum.splits prod.splits)
  then show ?thesis by (rule write_event_any)
qed

lemma log_grew_ok: "log_grew event d d' \<Longrightarrow> log_ok d \<Longrightarrow> log_ok d'"
  using log_ok_insert [of d event] by (auto simp: log_grew_def log_ok_def)

lemma ingest_ok: "preserves (db_inv log_ok) (ingest event)"
  by (rule preservesI) (auto simp: db_inv_def intro: log_grew_ok ingest_any)

lemma event_body_append:
  "event_body (d\<lparr>events := events d @ [e]\<rparr>) i =
     (case event_body d i of None \<Rightarrow> (if er_id e = i then Some (er_body e) else None) | Some b \<Rightarrow> Some b)"
  by (simp add: event_body_def event_row_def find_append split: option.splits)

lemma event_body_table: "events d' = events d \<Longrightarrow> event_body d' i = event_body d i"
  by (simp add: event_body_def event_row_def)

lemma event_body_grow:
  "events d' = events d @ [e] \<Longrightarrow> event_body d' i =
     (case event_body d i of None \<Rightarrow> (if er_id e = i then Some (er_body e) else None) | Some b \<Rightarrow> Some b)"
  using event_body_append [of d e i] event_body_table [of d' "d\<lparr>events := events d @ [e]\<rparr>" i] by simp

lemma event_body_in:
  "log_ok d \<Longrightarrow> e \<in> set (events d) \<Longrightarrow> event_body d (er_id e) = Some (er_body e)"
  unfolding event_body_def event_row_def
  using find_key [of er_id "events d" e] by (simp add: log_ok_def)

interpretation event_log: immutable_registry log_ok event_body ingest ev_id
proof unfold_locales
  fix v
  show "preserves (db_inv log_ok) (ingest v)" by (rule ingest_ok)
next
  fix s v and b :: bool and t
  assume ok: "log_ok (store_db s)" and run: "ingest v s = (Inr b, t)"
  show "event_body (store_db t) (ev_id v) = Some v"
  proof (cases "List.find (same_event v) (events (store_db s))")
    case None
    with run obtain d where d: "ingest_step v (store_db s) = Inr d" "store_db t = d"
      by (auto simp: ingest_Inr_iff)
    have "event_body (store_db s) (ev_id v) = None"
      using None by (auto simp: event_body_def event_row_def find_None_iff2 same_event_def)
    with event_body_grow [OF ingest_step_events [OF d(1)]] d(2) show ?thesis by simp
  next
    case (Some e)
    with run have "t = s" "er_body e = v" by (auto simp: ingest_Inr_iff)
    with Some ok event_body_in [OF ok, of e] log_ok_id [OF ok, of e] show ?thesis
      by (auto dest: find_Some_iff2)
  qed
next
  fix s k w v and q :: "bool res" and t
  assume "event_body (store_db s) k = Some w" "ingest v s = (q, t)"
  then have old: "event_body (store_db s) k = Some w"
    and "log_grew v (store_db s) (store_db t)" by (auto dest: ingest_any)
  then consider "events (store_db t) = events (store_db s)"
    | "events (store_db t) = events (store_db s) @ [event_row_of (next_cursor (store_db s)) v]"
    by (auto simp: log_grew_def)
  then show "event_body (store_db t) k = Some w"
  proof cases
    case 1
    show ?thesis unfolding event_body_table [OF 1] by (rule old)
  next
    case 2
    show ?thesis unfolding event_body_grow [OF 2] old by simp
  qed
qed

end
