(* ===== verification/Runs.thy ===== *)
theory Runs
  imports AllocationTree ContextStore Invocation EventLog
begin

text \<open>
  crates/ribosome-core/src/runs.rs with \<open>work_source\<close> of parking.rs: the life of a run, from its
  pinned request to its reported result. \<open>run_grant\<close> is in Authority; \<open>inspect_run\<close>, a
  report for people, is not modelled.
\<close>

section \<open>Model\<close>

definition work_row :: "Db \<Rightarrow> string \<Rightarrow> WorkRow option" where
  "work_row d i = List.find (\<lambda>w. wk_id w = i) (work d)"

definition event_source :: "string \<Rightarrow> Db \<Rightarrow> ContextSource res" where
  "event_source i d =
     and_then (the_row (event_row d i)) (\<lambda>e.
     Inr \<lparr>cs_kind = ContextSourceKind.Event, cs_id = i, cs_version = er_sequence e\<rparr>)"

definition work_source :: "Grant \<Rightarrow> string \<Rightarrow> ContextSource option store_op" where
  "work_source grant i =
     bind (query (\<lambda>d. List.find (\<lambda>w. wk_id w = i \<and> wk_grant_id w = g_id grant) (work d))) (\<lambda>found.
     case found of
       None \<Rightarrow> ret None
     | Some row \<Rightarrow>
         bind (expect (wk_source_ref row)
           (denied ''legacy work has no verified task lineage; owner review is required'')) (\<lambda>source.
         seq (require_source grant ''event'' source) (
         bind (query_res (event_source source)) (\<lambda>s. ret (Some s)))))"

definition recheck_invocation :: "string \<Rightarrow> Grant \<Rightarrow> unit store_op" where
  "recheck_invocation run grant =
     bind (query (run_invocation run)) (\<lambda>invocation.
     if invocation \<noteq> None then bind (invocation_material run grant) (\<lambda>_. skip) else skip)"

definition require_live :: "string \<Rightarrow> Db \<Rightarrow> unit res" where
  "require_live run d =
     and_then (run_attachment run d) (\<lambda>attached.
     and_then (guard (case attached of None \<Rightarrow> True | Some a \<Rightarrow> at_state a = AttachmentState.Active)
       (denied ''attached execution is no longer active'')) (\<lambda>_.
     and_then (the_row (run_row d run)) (\<lambda>row.
     guard (rr_status row = RunRunning) (denied ''run is not active''))))"

definition require_active :: "string \<Rightarrow> Grant store_op" where
  "require_active run =
     bind (query_res (run_grant run)) (\<lambda>grant.
     bind (work_source grant run) (\<lambda>_.
     seq (recheck_invocation run grant) (
     seq (query_res (require_live run)) (
     bind now_ms (\<lambda>now.
     bind (lift (counter (b_deadline_ms (g_budget grant)))) (\<lambda>deadline.
     seq (need (now < deadline) (exhausted ''grant deadline reached'')) (
     bind (run_allocation_in run) (\<lambda>alloc.
     bind (require_allocation_open grant (a_id alloc)) (\<lambda>_.
     ret grant)))))))))"

definition run_waiting :: "Db \<Rightarrow> string \<Rightarrow> bool" where
  "run_waiting d run \<longleftrightarrow> exists_where (\<lambda>w. rw_run_id w = run) (run_waits d)"

definition update_run :: "string \<Rightarrow> (RunRow \<Rightarrow> RunRow) \<Rightarrow> Db \<Rightarrow> Db" where
  "update_run run f d = d\<lparr>runs := update_where (\<lambda>r. rr_id r = run) f (runs d)\<rparr>"

definition insert_run :: "string \<Rightarrow> string \<Rightarrow> AgentRunRequest \<Rightarrow> nat \<Rightarrow> Db \<Rightarrow> Db" where
  "insert_run run grant_id pinned now d = d\<lparr>runs := runs d @
     [\<lparr>rr_id = run, rr_grant_id = grant_id, rr_request = pinned, rr_status = RunRunning,
       rr_result = None, rr_started_ms = to_string now, rr_finished_ms = None,
       rr_result_source = None\<rparr>]\<rparr>"

text \<open>The parent run of scheduled work, when it is a stored run.\<close>

definition parent_run :: "string \<Rightarrow> Db \<Rightarrow> string option" where
  "parent_run run d =
     Option.bind (work_row d run) (\<lambda>w.
       if run_row d (w_parent_id (wk_body w)) \<noteq> None then Some (w_parent_id (wk_body w)) else None)"

definition begin_run :: "string \<Rightarrow> string \<Rightarrow> AgentRunRequest \<Rightarrow> unit store_op" where
  "begin_run run grant_id request =
     bind (query_res (store_grant grant_id)) (\<lambda>grant.
     seq (need (rq_profile request \<in> set (g_profiles grant)) (denied ''profile not granted'')) (
     seq (validate ''AgentRunRequest'' (valid_AgentRunRequest request)) (
     seq (need ((rq_operator request = ''execute-motif@1'') = (rq_invocation request \<noteq> None))
            (invalid (''execute-motif requires a pinned invocation and other operators '' @
              ''cannot receive one''))) (
     seq (case rq_invocation request of
            None \<Rightarrow> skip
          | Some invocation \<Rightarrow>
              seq (need (rq_profile request = Profile.Caretaker \<and>
                         rq_discovery_corpus request = None \<and> g_discovery_corpus grant = None)
                     (denied ''instruction execution requires a caretaker outside discovery''))
                  (bind (validate_invocation grant run invocation) (\<lambda>_. skip))) (
     bind (query_res (discovery_grant grant (rq_discovery_corpus request))) (\<lambda>effective.
     seq (need (\<not> (g_discovery_corpus effective \<noteq> None \<and>
                    \<not> corpus_operator_allowed (rq_profile request) (rq_operator request)))
            (denied ''corpus assignments support curator work and caretaker proofreading'')) (
     bind (query (parent_run run)) (\<lambda>parent.
     seq (case parent of
            None \<Rightarrow> skip
          | Some p \<Rightarrow>
              bind (query_res (run_grant p)) (\<lambda>parent_grant.
              need (\<not> (g_discovery_corpus parent_grant \<noteq> None \<and>
                        g_discovery_corpus parent_grant \<noteq> g_discovery_corpus effective))
                (denied (''child cannot replace its parent'' @ CHR 0x27 # ''s discovery corpus'')))) (
     transaction (
       bind (query (\<lambda>d. run_row d run)) (\<lambda>existing.
       let pinned = request\<lparr>rq_checkpoint := None\<rparr> in
       seq (case existing of
              Some row \<Rightarrow>
                seq (need (rr_grant_id row = grant_id \<and> rr_request row = pinned)
                       (conflict ''run identity or pinned configuration changed'')) (
                seq (need (rr_status row = RunEnded Disposition.Interrupted)
                       (conflict ''only interrupted runs can resume''))
                    (exec (\<lambda>d. update_run run (\<lambda>r. r\<lparr>rr_status :=
                       (if run_waiting d run then RunWaiting else RunRunning)\<rparr>) d)))
            | None \<Rightarrow>
                bind now_ms (\<lambda>now.
                insert_row (\<lambda>d. run_row d run = None \<and> grant_body d grant_id \<noteq> None)
                  (insert_run run grant_id pinned now))) (
       seq (bind_run_allocation_in grant request) (
       commit ())))))))))))))"

definition next_sequence :: "string \<Rightarrow> string \<Rightarrow> Db \<Rightarrow> nat" where
  "next_sequence run producer d =
     foldr max (map (cast_integer \<circ> er_sequence)
       (filter (\<lambda>e. er_run_id e = run \<and> er_producer e = producer) (events d))) 0 + 1"

fun disposition_name :: "Disposition \<Rightarrow> string" where
  "disposition_name Disposition.Completed = ''completed''"
| "disposition_name Disposition.Abstained = ''abstained''"
| "disposition_name Disposition.Failed = ''failed''"
| "disposition_name Disposition.Cancelled = ''cancelled''"
| "disposition_name Disposition.Exhausted = ''exhausted''"
| "disposition_name Disposition.Interrupted = ''interrupted''"

definition result_event ::
    "Grant \<Rightarrow> string \<Rightarrow> AgentResult \<Rightarrow> string \<Rightarrow> nat \<Rightarrow> nat \<Rightarrow> string list \<Rightarrow> Event" where
  "result_event grant run result source sequence now sources =
     \<lparr>ev_id = source, ev_scope = g_scope grant, ev_run_id = run, ev_producer = ''run-result'',
      ev_sequence = to_string sequence, ev_kind = ''run_finished'', ev_timestamp_ms = to_string now,
      ev_parents = [], ev_correlation = run, ev_artifacts = [],
      ev_payload = [(''authority'', JString ''run-reported disposition; summary is retained with the run''),
        (''disposition'', JString (disposition_name (res_disposition result))),
        (''run_id'', JString run)],
      ev_provenance = \<lparr>pv_origin = Origin.Observed, pv_source_refs = sources,
        pv_scenario_family = ''run-result'', pv_split = derived_split (g_visible_splits grant),
        pv_limitations = []\<rparr>\<rparr>"

definition run_active :: "RunRow \<Rightarrow> bool" where
  "run_active r \<longleftrightarrow> rr_status r = RunRunning \<or> rr_status r = RunWaiting"

definition finish_run :: "string \<Rightarrow> AgentResult \<Rightarrow> unit store_op" where
  "finish_run run result =
     seq (validate ''AgentResult'' (valid_AgentResult result)) (
     transaction (
       bind (query (\<lambda>d. exists_where (\<lambda>r. rr_id r = run \<and> run_active r) (runs d))) (\<lambda>running.
       if \<not> running then ret (Rollback ())
       else
         bind (query_res (run_grant run)) (\<lambda>grant.
         bind new_id (\<lambda>source.
         bind (query (next_sequence run ''run-result'')) (\<lambda>sequence.
         bind now_ms (\<lambda>now.
         bind (query (run_context_sources run)) (\<lambda>sources.
         bind (ingest (result_event grant run result source sequence now sources)) (\<lambda>_.
         bind now_ms (\<lambda>finished.
         seq (exec (\<lambda>d. d\<lparr>runs := update_where (\<lambda>r. rr_id r = run \<and> run_active r)
                (\<lambda>r. r\<lparr>rr_status := RunEnded (res_disposition result), rr_result := Some result,
                  rr_finished_ms := Some (to_string finished), rr_result_source := Some source\<rparr>)
                (runs d)\<rparr>)) (
         seq (exec (\<lambda>d. set_disposition (run_allocation_ref run d) (Some (res_disposition result)) d)) (
         seq (if res_disposition result \<noteq> Disposition.Interrupted
              then exec (\<lambda>d. d\<lparr>run_waits := delete_where (\<lambda>w. rw_run_id w = run) (run_waits d)\<rparr>)
              else skip)
             (commit ())))))))))))))"

definition save_checkpoint :: "string \<Rightarrow> Checkpoint \<Rightarrow> unit store_op" where
  "save_checkpoint run checkpoint =
     seq (validate ''Checkpoint'' (valid_Checkpoint checkpoint)) (
     bind (query_res (\<lambda>d. the_row (run_row d run))) (\<lambda>row.
     let pinned = rr_request row in
     seq (need (cp_profile checkpoint = rq_profile pinned \<and> cp_operator checkpoint = rq_operator pinned \<and>
                cp_provider checkpoint = rq_provider pinned \<and> cp_model checkpoint = rq_model pinned)
            (conflict ''checkpoint changes pinned profile, operator, or model'')) (
     seq (check_context_checkpoint run checkpoint) (
     exec (\<lambda>d. d\<lparr>checkpoints := upsert (\<lambda>c. ck_run_id c = run) (\<lambda>c. c\<lparr>ck_body := checkpoint\<rparr>)
       \<lparr>ck_run_id = run, ck_body = checkpoint\<rparr> (checkpoints d)\<rparr>)))))"

definition load_checkpoint :: "string \<Rightarrow> Db \<Rightarrow> Checkpoint option" where
  "load_checkpoint run d =
     map_option (\<lambda>c. if cp_format (ck_body c) \<noteq> ''pi-0.85.1/2'' then (ck_body c)\<lparr>cp_messages := []\<rparr>
                     else ck_body c)
       (List.find (\<lambda>c. ck_run_id c = run) (checkpoints d))"

definition run_result_available :: "string \<Rightarrow> bool store_op" where
  "run_result_available run =
     bind (query (\<lambda>d. run_row d run)) (\<lambda>found.
     case found of
       None \<Rightarrow> ret False
     | Some row \<Rightarrow>
         if rr_result row = None then ret False
         else case rr_result_source row of
             None \<Rightarrow> ret False
           | Some source \<Rightarrow>
               bind (query_res (run_grant run)) (\<lambda>grant. source_available grant ''event'' source))"

definition withheld_summary :: string where
  "withheld_summary =
     ''The run'' @ CHR 0x27 # ''s completion text is withheld because its source lineage or retained '' @
     ''payload is unavailable. Inspect authorized host receipts for the outcome.''"

definition run_result_for_delivery :: "string \<Rightarrow> AgentResult store_op" where
  "run_result_for_delivery run =
     bind (query_res (\<lambda>d. the_row (run_row d run))) (\<lambda>row.
     bind (run_result_available run) (\<lambda>available.
     if available then expect (rr_result row) (internal ''called Option::unwrap() on a None value'')
     else case rr_status row of
         RunEnded disposition \<Rightarrow>
           ret \<lparr>res_disposition = disposition, res_summary = withheld_summary\<rparr>
       | _ \<Rightarrow> throw (internal ''unknown variant'')))"

section \<open>An active run\<close>

lemma quiet_work_source [quiet_intros]: "quiet (work_source grant i)"
  unfolding work_source_def by (intro quiet_intros)

text \<open>What being active means, in the tables it was decided on.\<close>

lemma require_active_grant:
  "require_active run s = (Inr grant, t) \<Longrightarrow> run_grant run (store_db s) = Inr grant"
  by (auto simp: require_active_def bind_Inr_iff seq_Inr_iff simp del: bind_query bind_now_ms)

lemma require_live_running:
  "require_live run d = Inr () \<Longrightarrow> \<exists>row. run_row d run = Some row \<and> rr_status row = RunRunning"
  by (auto simp: require_live_def)

lemma require_active_facts:
  assumes "require_active run s = (Inr grant, t)"
  obtains s' row now deadline s1 alloc s2 as where "run_row (store_db s') run = Some row"
    "rr_status row = RunRunning" "counter (b_deadline_ms (g_budget grant)) = Inr deadline"
    "now < deadline" "same_store s' s1" "run_allocation_in run s1 = (Inr alloc, s2)"
    "require_allocation_open grant (a_id alloc) s2 = (Inr as, t)"
proof -
  from assms obtain s' deadline alloc s2 as where
    live: "require_live run (store_db s') = Inr ()" and
    "counter (b_deadline_ms (g_budget grant)) = Inr deadline"
    "env_clock s' (env_reads s') mod 2 ^ 64 < deadline"
    "run_allocation_in run (s'\<lparr>env_reads := Suc (env_reads s')\<rparr>) = (Inr alloc, s2)"
    "require_allocation_open grant (a_id alloc) s2 = (Inr as, t)"
    unfolding require_active_def by (auto simp: bind_Inr_iff seq_Inr_iff)
  moreover have "same_store s' (s'\<lparr>env_reads := Suc (env_reads s')\<rparr>)"
    by (rule same_store_clock)
  ultimately show ?thesis using require_live_running [OF live] that by blast
qed

end
