(* ===== verification/Accounting.thy ===== *)
theory Accounting
  imports Runs
begin

text \<open>
  crates/ribosome-core/src/accounting.rs: provider-call permits. A call is reserved against every
  allocation above it, dispatched, and settled by its reported usage, or released before dispatch.
  \<open>require_compaction\<close> is that of compaction.rs.
\<close>

section \<open>Model\<close>

definition require_compaction :: "string \<Rightarrow> string \<Rightarrow> ContextSummaryRow store_op" where
  "require_compaction run summary =
     bind (query_res (\<lambda>d. ok_or (List.find (\<lambda>c. sm_id c = summary \<and>
         exists_where (\<lambda>s. sgm_id s = sm_segment_id c \<and> sgm_run_id s = run) (context_segments d))
         (context_summaries d)) (denied ''compaction does not belong to this run''))) (\<lambda>plan.
     bind (query_res (\<lambda>d. the_row (context_head run d))) (\<lambda>latest.
     bind (query_res (run_grant run)) (\<lambda>grant.
     bind (if latest \<noteq> sm_segment_id plan then ret False
           else bind (context_available grant (sm_segment_id plan)) (\<lambda>available.
                if \<not> available then ret False
                else query (context_is_current (sm_segment_id plan)))) (\<lambda>eligible.
     seq (need eligible
            (conflict ''compaction input no longer eligible; authorize a clean continuation''))
         (ret plan)))))"

definition find_call :: "string \<Rightarrow> string \<Rightarrow> Db \<Rightarrow> PermitRow option" where
  "find_call run call d = List.find (\<lambda>p. pm_run_id p = run \<and> pm_call_id p = Some call) (permits d)"

definition fits_ledger :: "nat \<Rightarrow> nat \<Rightarrow> BudgetStatus \<Rightarrow> bool res" where
  "fits_ledger reserved cost status =
     (if b_max_calls (bs_remaining status) = 0 then Inr False
      else and_then (counter (b_max_tokens (bs_remaining status))) (\<lambda>tokens.
        if reserved > tokens then Inr False
        else and_then (counter (b_max_cost_microusd (bs_remaining status))) (\<lambda>c.
          Inr (cost \<le> c))))"

definition check_owner :: "nat \<Rightarrow> nat \<Rightarrow> BudgetAllocation \<Rightarrow> Db \<Rightarrow> unit res" where
  "check_owner reserved cost owner d =
     and_then (store_grant (a_grant_id owner) d) (\<lambda>g.
     and_then (allocation_ledger_status g (a_id owner) d) (\<lambda>status.
     and_then (fits_ledger reserved cost status) (\<lambda>fits.
     guard fits (exhausted ''root or child model budget exhausted''))))"

definition permit_row_of ::
    "string \<Rightarrow> Grant \<Rightarrow> string \<Rightarrow> nat \<Rightarrow> nat \<Rightarrow> string \<Rightarrow> PermitRequest \<Rightarrow> PermitRow" where
  "permit_row_of i grant run reserved cost alloc request =
     \<lparr>pm_id = i, pm_grant_id = g_id grant, pm_run_id = run, pm_reserved_tokens = reserved,
      pm_reserved_cost = cost, pm_usage = None, pm_compaction_id = pr_compaction_id request,
      pm_allocation_id = Some alloc, pm_call_id = pr_call_id request, pm_request = Some request,
      pm_state = (if pr_call_id request \<noteq> None then PermitReserved else PermitDispatched),
      pm_dispatched_ms = None, pm_observed_ms = None\<rparr>"

definition insert_permit :: "PermitRow \<Rightarrow> Db \<Rightarrow> Db" where
  "insert_permit p d = d\<lparr>permits := permits d @ [p]\<rparr>"

definition permit_keys_ok :: "PermitRow \<Rightarrow> Db \<Rightarrow> bool" where
  "permit_keys_ok p d \<longleftrightarrow>
     \<not> exists_where (\<lambda>q. pm_id q = pm_id p) (permits d) \<and>
     (pm_call_id p \<noteq> None \<longrightarrow>
        \<not> exists_where (\<lambda>q. pm_run_id q = pm_run_id p \<and> pm_call_id q = pm_call_id p) (permits d)) \<and>
     run_row d (pm_run_id p) \<noteq> None \<and>
     (case pm_allocation_id p of None \<Rightarrow> True | Some a \<Rightarrow> allocation_row d a \<noteq> None)"

definition issue_permit ::
    "Grant \<Rightarrow> string \<Rightarrow> BudgetAllocation \<Rightarrow> nat \<Rightarrow> nat \<Rightarrow> string \<Rightarrow> PermitRequest \<Rightarrow> Permit txn store_op" where
  "issue_permit grant run run_alloc reserved cost alloc request =
     bind (require_allocation_open grant alloc) (\<lambda>ancestry.
     seq (need (list_ex (\<lambda>a. a_id a = a_id run_alloc) ancestry)
            (denied ''provider allocation is outside this run'')) (
     seq (for_each ancestry (\<lambda>owner. query_res (check_owner reserved cost owner))) (
     bind new_id (\<lambda>i.
     let row = permit_row_of i grant run reserved cost alloc request in
     seq (insert_row (permit_keys_ok row) (insert_permit row))
         (commit \<lparr>p_id = i, p_max_output_tokens = pr_max_output_tokens request\<rparr>)))))"

definition compaction_allocation ::
    "Grant \<Rightarrow> string \<Rightarrow> PermitRequest \<Rightarrow> string \<Rightarrow> string store_op" where
  "compaction_allocation grant run request alloc =
     (case pr_compaction_id request of
        None \<Rightarrow> ret alloc
      | Some summary \<Rightarrow>
          bind (require_compaction run summary) (\<lambda>_.
          bind (query_res (allocation grant alloc)) (\<lambda>parent.
          bind (ask (\<lambda>s. allocation_id (env_sha256 s) ''compaction'' (run @ '':'' @ summary))) (\<lambda>i.
          bind (allocate_in grant \<lparr>bar_id = i, bar_parent_id = a_id parent, bar_cause_id = summary,
                  bar_purpose = ''compaction'', bar_budget = a_budget parent\<rparr>) (\<lambda>a.
          ret (a_id a))))))"

definition reuse_permit :: "PermitRow \<Rightarrow> string \<Rightarrow> PermitRequest \<Rightarrow> Permit txn store_op" where
  "reuse_permit p alloc request =
     bind (expect (pm_request p) (internal ''Invalid column type'')) (\<lambda>body.
     bind (expect (pm_allocation_id p) (internal ''Invalid column type'')) (\<lambda>owner.
     seq (need (body = request \<and> owner = alloc)
            (conflict ''provider call identity or allocation changed''))
         (ret (Rollback \<lparr>p_id = pm_id p, p_max_output_tokens = pr_max_output_tokens request\<rparr>))))"

definition permit_in_allocation ::
    "string \<Rightarrow> PermitRequest \<Rightarrow> string option \<Rightarrow> Permit store_op" where
  "permit_in_allocation run request chosen =
     seq (validate ''PermitRequest'' (valid_PermitRequest request)) (
     bind (require_active run) (\<lambda>grant.
     bind (lift (counter (pr_input_tokens_bound request))) (\<lambda>input.
     let reserved = input + pr_max_output_tokens request in
     seq (need (reserved \<le> u64_max) (invalid ''token bound overflow'')) (
     bind (lift (counter (pr_cost_microusd_bound request))) (\<lambda>cost.
     seq (need (reserved \<le> i64_max \<and> cost \<le> i64_max)
            (invalid ''reservation exceeds local accounting range'')) (
     transaction (
       bind (run_allocation_in run) (\<lambda>run_alloc.
       bind (compaction_allocation grant run request
               (case chosen of None \<Rightarrow> a_id run_alloc | Some a \<Rightarrow> a)) (\<lambda>alloc.
       bind (query (\<lambda>d. Option.bind (pr_call_id request) (\<lambda>call. find_call run call d))) (\<lambda>previous.
       case previous of
         Some p \<Rightarrow> reuse_permit p alloc request
       | None \<Rightarrow> issue_permit grant run run_alloc reserved cost alloc request))))))))))"

definition permit :: "string \<Rightarrow> PermitRequest \<Rightarrow> Permit store_op" where
  "permit run request = permit_in_allocation run request None"

definition lookup_permit :: "string \<Rightarrow> string \<Rightarrow> Db \<Rightarrow> Permit res" where
  "lookup_permit run call d =
     and_then (ok_or (find_call run call d) (missing ''provider call not found for run'')) (\<lambda>p.
     and_then (ok_or (pm_request p) (internal ''Invalid column type'')) (\<lambda>request.
     Inr \<lparr>p_id = pm_id p, p_max_output_tokens = pr_max_output_tokens request\<rparr>))"

definition run_permit :: "string \<Rightarrow> string \<Rightarrow> Db \<Rightarrow> PermitRow option" where
  "run_permit run i d = List.find (\<lambda>p. pm_id p = i \<and> pm_run_id p = run) (permits d)"

definition update_permit :: "string \<Rightarrow> (PermitRow \<Rightarrow> PermitRow) \<Rightarrow> Db \<Rightarrow> Db" where
  "update_permit i f d = d\<lparr>permits := update_where (\<lambda>p. pm_id p = i) f (permits d)\<rparr>"

definition dispatch_reserved :: "string \<Rightarrow> string \<Rightarrow> Grant \<Rightarrow> unit txn store_op" where
  "dispatch_reserved run i grant =
     bind (query_res (\<lambda>d. and_then
         (ok_or (List.find (\<lambda>p. pm_id p = i \<and> pm_run_id p = run \<and> pm_state p = PermitReserved) (permits d))
           (conflict ''permit is not undispatched; do not repeat provider transport'')) (\<lambda>p.
         ok_or (pm_allocation_id p) (internal ''Invalid column type'')))) (\<lambda>alloc.
     bind (require_allocation_open grant alloc) (\<lambda>_.
     bind now_ms (\<lambda>now.
     seq (exec (update_permit i (\<lambda>p. p\<lparr>pm_state := PermitDispatched,
            pm_dispatched_ms := Some (to_string now)\<rparr>)))
         (commit ()))))"

definition dispatch_permit :: "string \<Rightarrow> string \<Rightarrow> unit store_op" where
  "dispatch_permit run i = transaction (bind (require_active run) (dispatch_reserved run i))"

definition release_permit :: "string \<Rightarrow> string \<Rightarrow> unit store_op" where
  "release_permit run i =
     transaction (
       bind (query_res (\<lambda>d. ok_or (run_permit run i d) (missing ''permit not found for run''))) (\<lambda>p.
       seq (need (pm_state p = PermitReserved \<or> pm_state p = PermitReleased)
              (conflict ''dispatched or settled usage cannot be released'')) (
       seq (exec (update_permit i (\<lambda>p. p\<lparr>pm_state := PermitReleased\<rparr>)))
           (commit ()))))"

definition record_usage :: "Usage \<Rightarrow> nat \<Rightarrow> nat \<Rightarrow> nat \<Rightarrow> PermitRow \<Rightarrow> PermitRow" where
  "record_usage u tokens cost now p =
     (if u_complete u
      then p\<lparr>pm_usage := Some u, pm_reserved_tokens := tokens, pm_reserved_cost := cost,
          pm_state := PermitSettled, pm_observed_ms := Some (to_string now)\<rparr>
      else p\<lparr>pm_usage := Some u, pm_observed_ms := Some (to_string now)\<rparr>)"

definition report_usage :: "string \<Rightarrow> Usage \<Rightarrow> unit txn store_op" where
  "report_usage run u =
     bind (query_res (\<lambda>d. ok_or (run_permit run (u_permit_id u) d)
       (missing ''permit not found for run''))) (\<lambda>p.
     case pm_usage p of
       Some previous \<Rightarrow>
         if previous = u then ret (Rollback ()) else throw (conflict ''usage already recorded'')
     | None \<Rightarrow>
         seq (need (pm_state p = PermitDispatched) (conflict ''usage requires a dispatched permit'')) (
         bind (lift (counter (u_input_tokens u))) (\<lambda>input.
         bind (lift (counter (u_output_tokens u))) (\<lambda>output.
         let tokens = input + output in
         seq (need (tokens \<le> u64_max) (invalid ''usage overflow'')) (
         bind (lift (counter (u_cost_microusd u))) (\<lambda>cost.
         seq (need (tokens \<le> i64_max \<and> cost \<le> i64_max)
                (invalid ''usage exceeds local accounting range'')) (
         bind now_ms (\<lambda>now.
         seq (exec (update_permit (u_permit_id u) (record_usage u tokens cost now)))
             (commit ())))))))))"

definition usage :: "string \<Rightarrow> Usage \<Rightarrow> unit store_op" where
  "usage run u =
     seq (validate ''Usage'' (valid_Usage u)) (
     transaction (report_usage run u))"

end
