(* ===== verification/Ledger.thy ===== *)
theory Ledger
  imports Accounting
begin

text \<open>
  What the permits and the allocation tree guarantee together: no allocation is ever charged more
  model calls, or has more outstanding tokens or cost, than its ceilings, whichever of its
  descendants the calls were made under. A call counts against an allocation when the allocation
  is an ancestor of the one it was reserved in; the ledger queries of Allocations compute exactly
  that.
\<close>

section \<open>Charges\<close>

definition under :: "Db \<Rightarrow> string \<Rightarrow> PermitRow \<Rightarrow> bool" where
  "under d i p \<longleftrightarrow> (\<exists>a k. pm_allocation_id p = Some a \<and> climb (parent_of d) k a = Some i)"

definition live :: "PermitRow \<Rightarrow> bool" where
  "live p \<longleftrightarrow> pm_state p \<noteq> PermitReleased"

definition outstanding :: "PermitRow \<Rightarrow> bool" where
  "outstanding p \<longleftrightarrow> pm_state p \<noteq> PermitReleased \<and> pm_state p \<noteq> PermitSettled"

definition calls_under :: "Db \<Rightarrow> string \<Rightarrow> nat" where
  "calls_under d i = count_where (\<lambda>p. live p \<and> under d i p) (permits d)"

definition tokens_under :: "Db \<Rightarrow> string \<Rightarrow> nat" where
  "tokens_under d i = sum_where (\<lambda>p. outstanding p \<and> under d i p) pm_reserved_tokens (permits d)"

definition cost_under :: "Db \<Rightarrow> string \<Rightarrow> nat" where
  "cost_under d i = sum_where (\<lambda>p. outstanding p \<and> under d i p) pm_reserved_cost (permits d)"

definition permits_ok :: "Db \<Rightarrow> bool" where
  "permits_ok d \<longleftrightarrow> distinct (map pm_id (permits d)) \<and>
     (\<forall>p \<in> set (permits d). \<exists>a r. pm_allocation_id p = Some a \<and> allocation_row d a = Some r \<and>
        al_grant_id r = pm_grant_id p)"

definition within_budget :: "Db \<Rightarrow> AllocationRow \<Rightarrow> bool" where
  "within_budget d r \<longleftrightarrow>
     calls_under d (al_id r) \<le> b_max_calls (a_budget (al_body r)) \<and>
     tokens_under d (al_id r) \<le> count_of (b_max_tokens (a_budget (al_body r))) \<and>
     cost_under d (al_id r) \<le> count_of (b_max_cost_microusd (a_budget (al_body r)))"

definition ledger_inv :: "Db \<Rightarrow> bool" where
  "ledger_inv d \<longleftrightarrow> alloc_inv d \<and> permits_ok d \<and> (\<forall>r \<in> set (budget_allocations d). within_budget d r)"

lemma ledger_inv_tree: "ledger_inv d \<Longrightarrow> tree_ok d"
  by (simp add: ledger_inv_def alloc_inv_def)

section \<open>The ledger queries compute the charges\<close>

lemma rows_ok_root_unique:
  "rows_ok rows \<Longrightarrow> r \<in> set rows \<Longrightarrow> q \<in> set rows \<Longrightarrow> al_parent_id r = None \<Longrightarrow>
     al_parent_id q = None \<Longrightarrow> al_grant_id r = al_grant_id q \<Longrightarrow> r = q"
  by (induction rows) (fastforce simp: row_ok_def)+

lemma root_unique:
  assumes "tree_ok d" "allocation_row d i = Some r" "allocation_row d j = Some q"
    "al_parent_id r = None" "al_parent_id q = None" "al_grant_id r = al_grant_id q"
  shows "i = j"
proof -
  have "r \<in> set (budget_allocations d)" "q \<in> set (budget_allocations d)" "al_id r = i" "al_id q = j"
    using assms(1-3) by (simp_all add: allocation_row_iff)
  with assms rows_ok_root_unique [of "rev (budget_allocations d)" r q] show ?thesis
    by (auto simp: tree_ok_def)
qed

lemma climbs_to_root:
  assumes "tree_ok d" "allocation_row d a = Some r"
  shows "\<exists>k j q. climb (parent_of d) k a = Some j \<and> allocation_row d j = Some q \<and>
    al_parent_id q = None \<and> al_grant_id q = al_grant_id r"
  using assms(2)
proof (induction "rank_of d a" arbitrary: a r rule: less_induct)
  case less
  show ?case
  proof (cases "al_parent_id r")
    case None
    with less.prems show ?thesis by (intro exI [of _ 0]) auto
  next
    case (Some b)
    with less.prems have p: "parent_of d a = Some b" by (simp add: parent_of_def)
    from parent_of_SomeD [OF assms(1) p] less.prems obtain s where
      s: "allocation_row d b = Some s" "rank_of d b < rank_of d a" "al_grant_id s = al_grant_id r" by auto
    from less.hyps [OF s(2,1)] obtain k j q where
      "climb (parent_of d) k b = Some j" "allocation_row d j = Some q" "al_parent_id q = None"
      "al_grant_id q = al_grant_id s" by blast
    moreover from this(1) p have "climb (parent_of d) (Suc k) a = Some j"
      by (simp only: climb_Suc_first) simp
    ultimately show ?thesis using s(3) by metis
  qed
qed

lemma charged_permit_iff:
  assumes "tree_ok d" "permits_ok d" "allocation_row d i = Some r" "p \<in> set (permits d)"
  shows "charged_permit d i (al_grant_id r) (al_parent_id r = None) p \<longleftrightarrow> live p \<and> under d i p"
proof -
  from assms(2,4) obtain a q where a: "pm_allocation_id p = Some a" "allocation_row d a = Some q"
    "al_grant_id q = pm_grant_id p" by (auto simp: permits_ok_def)
  have fam: "a \<in> set (family d i) \<longleftrightarrow> under d i p"
    using family_iff_ancestor [OF assms(1)] a(1) by (auto simp: under_def)
  have "under d i p" if root: "al_parent_id r = None" and g: "pm_grant_id p = al_grant_id r"
  proof -
    from climbs_to_root [OF assms(1) a(2)] obtain k j s where
      "climb (parent_of d) k a = Some j" "allocation_row d j = Some s" "al_parent_id s = None"
      "al_grant_id s = al_grant_id q" by blast
    with root_unique [OF assms(1,3), of j s] root g a(3) have "climb (parent_of d) k a = Some i" by simp
    with a(1) show ?thesis by (auto simp: under_def)
  qed
  with fam a(1) show ?thesis by (auto simp: charged_permit_def charged_def live_def)
qed

definition settled_under :: "(PermitRow \<Rightarrow> nat) \<Rightarrow> Db \<Rightarrow> string \<Rightarrow> nat" where
  "settled_under f d i = sum_where (\<lambda>p. pm_state p = PermitSettled \<and> under d i p) f (permits d)"

lemma ledger_status_sums:
  assumes "tree_ok d" "permits_ok d" "allocation_ledger_status g i d = Inr st"
  obtains r T C where "allocation_row d i = Some r" "al_grant_id r = g_id g"
    "counter (b_max_tokens (a_budget (al_body r))) = Inr T"
    "counter (b_max_cost_microusd (a_budget (al_body r))) = Inr C"
    "b_max_calls (bs_remaining st) = b_max_calls (a_budget (al_body r)) - calls_under d i"
    "b_max_tokens (bs_remaining st) =
       to_string (T - settled_under pm_reserved_tokens d i - tokens_under d i)"
    "b_max_cost_microusd (bs_remaining st) =
       to_string (C - settled_under pm_reserved_cost d i - cost_under d i)"
proof -
  from assms(3) obtain a where a: "allocation g i d = Inr a"
    by (auto simp: allocation_ledger_status_def Let_def simp del: and_then_Inr_iff' dest!: and_then_Inr_iff [THEN iffD1])
  from allocation_InrD [OF assms(1) this] obtain r where r: "allocation_row d i = Some r" "al_body r = a"
    "a_grant_id a = g_id g" by blast
  have ids: "al_grant_id r = g_id g" "a_parent_id a = al_parent_id r"
    using row_body_id [OF assms(1) r(1)] r by (auto simp: parent_of_def)
  have mine: "charged_permit d i (g_id g) (a_parent_id a = None) p \<longleftrightarrow> live p \<and> under d i p"
    if "p \<in> set (permits d)" for p
    using charged_permit_iff [OF assms(1,2) r(1) that] ids by simp
  have sums:
    "count_where (charged_permit d i (g_id g) (a_parent_id a = None)) (permits d) = calls_under d i"
    "sum_where (\<lambda>p. charged_permit d i (g_id g) (a_parent_id a = None) p \<and> pm_state p = PermitSettled) f
       (permits d) = settled_under f d i"
    "sum_where (\<lambda>p. charged_permit d i (g_id g) (a_parent_id a = None) p \<and> pm_state p \<noteq> PermitSettled) f
       (permits d) = sum_where (\<lambda>p. outstanding p \<and> under d i p) f (permits d)" for f
    unfolding calls_under_def settled_under_def
    by (auto intro!: count_where_cong sum_where_cong simp: mine live_def outstanding_def)
  from assms(3) a show ?thesis
    by (auto simp: allocation_ledger_status_def Let_def sums [unfolded calls_under_def] sql_sum_def r(2)
        tokens_under_def cost_under_def calls_under_def
        intro!: that [OF r(1) ids(1)] split: if_splits)
qed

lemma ledger_fits:
  assumes "tree_ok d" "permits_ok d" "allocation_ledger_status g i d = Inr st"
    "fits_ledger n c st = Inr True"
  obtains r where "allocation_row d i = Some r" "calls_under d i < b_max_calls (a_budget (al_body r))"
    "0 < n \<Longrightarrow> tokens_under d i + n \<le> count_of (b_max_tokens (a_budget (al_body r)))"
    "0 < c \<Longrightarrow> cost_under d i + c \<le> count_of (b_max_cost_microusd (a_budget (al_body r)))"
proof -
  from ledger_status_sums [OF assms(1-3)] obtain r T C where r: "allocation_row d i = Some r"
    "counter (b_max_tokens (a_budget (al_body r))) = Inr T"
    "counter (b_max_cost_microusd (a_budget (al_body r))) = Inr C"
    "b_max_calls (bs_remaining st) = b_max_calls (a_budget (al_body r)) - calls_under d i"
    "b_max_tokens (bs_remaining st) =
       to_string (T - settled_under pm_reserved_tokens d i - tokens_under d i)"
    "b_max_cost_microusd (bs_remaining st) =
       to_string (C - settled_under pm_reserved_cost d i - cost_under d i)"
    by metis
  have "T \<le> u64_max" "C \<le> u64_max" using r(2,3) counter_bound by blast+
  then have "counter (b_max_tokens (bs_remaining st)) =
        Inr (T - settled_under pm_reserved_tokens d i - tokens_under d i)"
      "counter (b_max_cost_microusd (bs_remaining st)) =
        Inr (C - settled_under pm_reserved_cost d i - cost_under d i)"
    unfolding r(5,6) by (simp_all add: counter_to_string)
  with assms(4) r(4) have "calls_under d i < b_max_calls (a_budget (al_body r))"
    "n \<le> T - settled_under pm_reserved_tokens d i - tokens_under d i"
    "c \<le> C - settled_under pm_reserved_cost d i - cost_under d i"
    by (auto simp: fits_ledger_def split: if_splits)
  with r that [OF r(1)] show ?thesis by auto
qed

section \<open>Preservation\<close>

text \<open>The invariant reads two tables.\<close>

lemma parent_of_table: "budget_allocations d' = budget_allocations d \<Longrightarrow> parent_of d' = parent_of d"
  by (simp add: parent_of_def allocation_row_def fun_eq_iff)

lemma ledger_inv_tables:
  assumes "budget_allocations d' = budget_allocations d" "permits d' = permits d"
  shows "ledger_inv d' = ledger_inv d"
proof -
  have "allocation_row d' = allocation_row d" using assms(1) by (simp add: allocation_row_def fun_eq_iff)
  then show ?thesis
    using assms parent_of_table [OF assms(1)] alloc_inv_table [OF assms(1)]
    by (simp add: ledger_inv_def permits_ok_def within_budget_def calls_under_def tokens_under_def
        cost_under_def under_def)
qed

lemma ledger_inv_other:
  "budget_allocations d' = budget_allocations d \<Longrightarrow> permits d' = permits d \<Longrightarrow> ledger_inv d \<Longrightarrow>
     ledger_inv d'"
  using ledger_inv_tables by blast

subsection \<open>Allocations\<close>

lemma ledger_inv_update:
  assumes "ledger_inv d"
    and "\<And>r. r \<in> set (budget_allocations d) \<Longrightarrow> al_id r = i \<Longrightarrow> same_shape (al_body r) (f (al_body r))"
  shows "ledger_inv (update_allocation i f d)"
proof -
  let ?d = "update_allocation i f d"
  have permits: "permits ?d = permits d" by (simp add: update_allocation_def)
  have ok: "permits_ok d" using assms(1) by (simp add: ledger_inv_def)
  have "\<exists>a r. pm_allocation_id p = Some a \<and> allocation_row ?d a = Some r \<and>
      al_grant_id r = pm_grant_id p" if "p \<in> set (permits d)" for p
  proof -
    from ok that obtain a r where "pm_allocation_id p = Some a" "allocation_row d a = Some r"
      "al_grant_id r = pm_grant_id p" unfolding permits_ok_def by blast
    then show ?thesis by (simp add: allocation_row_update)
  qed
  with ok have "permits_ok ?d" by (simp add: permits_ok_def permits)
  moreover have "within_budget ?d q" if "q \<in> set (budget_allocations ?d)" for q
  proof -
    from that obtain r where r: "r \<in> set (budget_allocations d)" "al_id q = al_id r"
      "a_budget (al_body q) = a_budget (al_body r)"
      using assms(2) by (auto simp: set_update_where same_shape_def)
    with assms(1) have "within_budget d r" by (simp add: ledger_inv_def)
    with r permits show ?thesis
      by (simp add: within_budget_def calls_under_def tokens_under_def cost_under_def under_def)
  qed
  moreover have "alloc_inv ?d" using assms alloc_inv_update by (auto simp: ledger_inv_def)
  ultimately show ?thesis by (simp add: ledger_inv_def)
qed

lemma ledger_inv_set_disposition: "ledger_inv d \<Longrightarrow> ledger_inv (set_disposition i v d)"
  by (auto simp: set_disposition_def same_shape_def intro: ledger_inv_update split: option.splits)

lemma climb_target:
  "tree_ok d \<Longrightarrow> allocation_row d a \<noteq> None \<Longrightarrow> climb (parent_of d) k a = Some i \<Longrightarrow>
     allocation_row d i \<noteq> None"
  using climb_budget_le [of d k a i] by (cases "k = 0") auto

lemma ledger_inv_insert:
  assumes inv: "ledger_inv d" and new: "alloc_inv (insert_allocation r d)"
    and fresh: "al_id r \<notin> al_id ` set (budget_allocations d)"
  shows "ledger_inv (insert_allocation r d)"
proof -
  let ?d = "insert_allocation r d"
  have tree: "tree_ok d" by (rule ledger_inv_tree [OF inv])
  have permits: "permits ?d = permits d" by (simp add: insert_allocation_def)
  have none: "allocation_row d (al_id r) = None"
    unfolding allocation_row_def find_None_iff2 using fresh by (metis imageI)
  have rows: "allocation_row ?d a = Some q" if "allocation_row d a = Some q" for a q
    using that none allocation_row_insert [OF fresh, of a] by auto
  have ok: "permits_ok d" using inv by (simp add: ledger_inv_def)
  have "permits_ok ?d"
    using ok rows unfolding permits_ok_def permits by blast
  have under: "under ?d i p \<longleftrightarrow> under d i p \<and> i \<noteq> al_id r" if p: "p \<in> set (permits d)" for i p
  proof -
    from ok p obtain a q where a: "pm_allocation_id p = Some a" "allocation_row d a = Some q"
      by (auto simp: permits_ok_def)
    with none have "a \<noteq> al_id r" by auto
    then have "climb (parent_of ?d) k a = climb (parent_of d) k a" for k
      by (rule climb_insert [OF tree fresh])
    moreover have "climb (parent_of d) k a \<noteq> Some (al_id r)" for k
      using climb_target [OF tree, of a k "al_id r"] a none by auto
    ultimately show ?thesis using a by (auto simp: under_def)
  qed
  have old: "calls_under ?d i = calls_under d i" "tokens_under ?d i = tokens_under d i"
      "cost_under ?d i = cost_under d i" if "i \<noteq> al_id r" for i
    unfolding calls_under_def tokens_under_def cost_under_def permits
    using that by (auto intro!: count_where_cong sum_where_cong simp: under)
  have "calls_under ?d (al_id r) = count_where (\<lambda>_. False) (permits d)"
      "tokens_under ?d (al_id r) = sum_where (\<lambda>_. False) pm_reserved_tokens (permits d)"
      "cost_under ?d (al_id r) = sum_where (\<lambda>_. False) pm_reserved_cost (permits d)"
    unfolding calls_under_def tokens_under_def cost_under_def permits
    by (auto intro!: count_where_cong sum_where_cong simp: under)
  then have top: "within_budget ?d r"
    by (simp add: within_budget_def count_where_def sum_where_def)
  have "within_budget ?d q" if "q \<in> set (budget_allocations d)" for q
  proof -
    have "al_id q \<noteq> al_id r" using fresh that by (metis imageI)
    with inv that old [of "al_id q"] show ?thesis by (simp add: ledger_inv_def within_budget_def)
  qed
  with top new \<open>permits_ok ?d\<close> show ?thesis by (auto simp: ledger_inv_def)
qed

lemma root_allocation_ledger: "preserves (db_inv ledger_inv) (root_allocation_in grant)"
proof (rule preservesI)
  fix s r t
  assume inv: "db_inv ledger_inv s" and run: "root_allocation_in grant s = (r, t)"
  then have "db_inv alloc_inv s" by (simp add: db_inv_def ledger_inv_def)
  from preservesD [OF root_allocation_in_keeps this run] have new: "alloc_inv (store_db t)"
    by (simp add: db_inv_def)
  from root_allocation_in_db [OF run] show "db_inv ledger_inv t"
  proof (elim disjE exE)
    assume "same_store s t"
    with inv show ?thesis by (simp add: db_inv_def same_storeD)
  next
    fix i
    assume "let row = allocation_row_of (root_allocation grant i) in
       allocation_keys_ok row (store_db s) \<and> allocation_refs_ok row (store_db s) \<and>
       t = s\<lparr>store_db := insert_allocation row (store_db s)\<rparr>"
    then have keys: "allocation_keys_ok (allocation_row_of (root_allocation grant i)) (store_db s)"
      and t: "store_db t = insert_allocation (allocation_row_of (root_allocation grant i)) (store_db s)"
      by (simp_all add: Let_def)
    from keys have "al_id (allocation_row_of (root_allocation grant i)) \<notin>
        al_id ` set (budget_allocations (store_db s))"
      by (auto simp: allocation_keys_ok_def)
    with inv new t show ?thesis by (simp add: db_inv_def ledger_inv_insert)
  qed
qed

lemma allocate_in_ledger: "preserves (db_inv ledger_inv) (allocate_in grant q)"
proof (rule preservesI)
  fix s r t
  assume inv: "db_inv ledger_inv s" and run: "allocate_in grant q s = (r, t)"
  then have "db_inv alloc_inv s" by (simp add: db_inv_def ledger_inv_def)
  from preservesD [OF allocate_in_keeps this run] have new: "alloc_inv (store_db t)"
    by (simp add: db_inv_def)
  from allocate_in_db [OF run] consider "same_store s t"
    | parent where "allocation_row (store_db s) (bar_id q) = None"
       "store_db t = insert_allocation (allocation_row_of (child_allocation grant q parent)) (store_db s)"
    by blast
  then show "db_inv ledger_inv t"
  proof cases
    case 1
    with inv show ?thesis by (simp add: db_inv_def same_storeD)
  next
    case 2
    from 2(1) have "bar_id q \<notin> al_id ` set (budget_allocations (store_db s))"
      by (auto simp: allocation_row_def find_None_iff2)
    with inv new 2(2) show ?thesis
      by (simp add: db_inv_def ledger_inv_insert child_allocation_def)
  qed
qed

lemma finish_allocation_ledger: "preserves (db_inv ledger_inv) (finish_allocation grant i v)"
proof (rule preservesI)
  fix s r t
  assume inv: "db_inv ledger_inv s" and run: "finish_allocation grant i v s = (r, t)"
  then have "db_inv alloc_inv s" by (simp add: db_inv_def ledger_inv_def)
  from inv have tree: "tree_ok (store_db s)" by (simp add: db_inv_def ledger_inv_tree)
  from finish_allocation_db [OF run] show "db_inv ledger_inv t"
  proof (elim disjE exE conjE)
    fix a
    assume a: "allocation grant i (store_db s) = Inr a"
      and t: "store_db t = update_allocation i (\<lambda>_. a\<lparr>a_disposition := Some v\<rparr>) (store_db s)"
    from allocation_InrD [OF tree a] obtain q where
      q: "allocation_row (store_db s) i = Some q" "al_body q = a" by blast
    have "same_shape (al_body r) (a\<lparr>a_disposition := Some v\<rparr>)"
      if "r \<in> set (budget_allocations (store_db s))" "al_id r = i" for r
    proof -
      from that tree have "allocation_row (store_db s) i = Some r" by (simp add: allocation_row_iff)
      with q show ?thesis by (simp add: same_shape_def)
    qed
    with inv t show ?thesis by (simp add: db_inv_def ledger_inv_update)
  next
    assume "store_db t = store_db s"
    with inv show ?thesis by (simp add: db_inv_def)
  qed
qed

subsection \<open>Issuing\<close>

lemma ancestry_start: "allocation_ancestry grant i d = Inr as \<Longrightarrow> \<exists>a. allocation grant i d = Inr a"
  unfolding allocation_ancestry_def
  by (subst (asm) ancestry_loop.simps) (auto split: sum.splits)

lemma insert_permit_tables [simp]:
  "permits (insert_permit p d) = permits d @ [p]"
  "budget_allocations (insert_permit p d) = budget_allocations d"
  by (simp_all add: insert_permit_def)

lemma ledger_inv_insert_permit:
  assumes inv: "ledger_inv d" and anc: "allocation_ancestry grant alloc d = Inr as"
    and keys: "permit_keys_ok p d" and p: "pm_allocation_id p = Some alloc" "pm_grant_id p = g_id grant"
    and fits: "\<And>owner. owner \<in> set as \<Longrightarrow>
      check_owner (pm_reserved_tokens p) (pm_reserved_cost p) owner d = Inr ()"
  shows "ledger_inv (insert_permit p d)"
proof -
  let ?d = "insert_permit p d"
  have tree: "tree_ok d" by (rule ledger_inv_tree [OF inv])
  have ok: "permits_ok d" and alloc: "alloc_inv d" using inv by (simp_all add: ledger_inv_def)
  have par: "parent_of ?d = parent_of d" by (rule parent_of_table) simp
  have row: "allocation_row ?d = allocation_row d" by (simp add: allocation_row_def fun_eq_iff)
  have under: "under ?d = under d" by (simp add: under_def par fun_eq_iff)
  from ancestry_start [OF anc] obtain a where "allocation grant alloc d = Inr a" by blast
  from allocation_InrD [OF tree this] obtain r where r: "allocation_row d alloc = Some r"
    "a_grant_id (al_body r) = g_id grant" by blast
  with row_body_id(3) [OF tree r(1)] have "al_grant_id r = pm_grant_id p" using p(2) by simp
  with r p(1) ok keys have "permits_ok ?d"
    unfolding permits_ok_def row by (auto simp: permit_keys_ok_def)
  moreover have "within_budget ?d q" if q: "q \<in> set (budget_allocations d)" for q
  proof -
    have old: "within_budget d q" using inv q by (simp add: ledger_inv_def)
    have sums: "calls_under ?d (al_id q) =
          calls_under d (al_id q) + (if live p \<and> under d (al_id q) p then 1 else 0)"
        "tokens_under ?d (al_id q) = tokens_under d (al_id q) +
          (if outstanding p \<and> under d (al_id q) p then pm_reserved_tokens p else 0)"
        "cost_under ?d (al_id q) = cost_under d (al_id q) +
          (if outstanding p \<and> under d (al_id q) p then pm_reserved_cost p else 0)"
      by (simp_all add: calls_under_def tokens_under_def cost_under_def under)
    show ?thesis
    proof (cases "under d (al_id q) p")
      case False
      with old sums show ?thesis by (simp add: within_budget_def)
    next
      case True
      then obtain k where k: "climb (parent_of d) k alloc = Some (al_id q)"
        using p(1) by (auto simp: under_def)
      have qrow: "allocation_row d (al_id q) = Some q" using tree q by (simp add: allocation_row_iff)
      have "a_id (al_body q) = al_id q" using row_body_id(1) [OF tree qrow] .
      with k qrow have "al_body q \<in> set as"
        unfolding ancestry_owner_iff [OF anc tree] by (auto intro!: exI [of _ k] exI [of _ q])
      from fits [OF this] \<open>a_id (al_body q) = al_id q\<close> obtain g st where
        "allocation_ledger_status g (al_id q) d = Inr st"
        "fits_ledger (pm_reserved_tokens p) (pm_reserved_cost p) st = Inr True"
        by (auto simp: check_owner_def)
      from ledger_fits [OF tree ok this] qrow have
        "calls_under d (al_id q) < b_max_calls (a_budget (al_body q))"
        "0 < pm_reserved_tokens p \<Longrightarrow> tokens_under d (al_id q) + pm_reserved_tokens p \<le>
           count_of (b_max_tokens (a_budget (al_body q)))"
        "0 < pm_reserved_cost p \<Longrightarrow> cost_under d (al_id q) + pm_reserved_cost p \<le>
           count_of (b_max_cost_microusd (a_budget (al_body q)))"
        by (metis option.inject)+
      with old sums show ?thesis
        by (cases "pm_reserved_tokens p = 0"; cases "pm_reserved_cost p = 0")
           (auto simp: within_budget_def)
    qed
  qed
  moreover have "alloc_inv ?d" using alloc by (rule alloc_inv_table [THEN iffD2, rotated]) simp
  ultimately show ?thesis by (simp add: ledger_inv_def)
qed

text \<open>What \<open>issue_permit\<close> did, on every path.\<close>

lemma require_open_ancestry:
  assumes "require_allocation_open grant i s = (Inr as, t)"
  shows "allocation_ancestry grant i (store_db s) = Inr as"
    and "\<forall>owner \<in> set as. \<not> (a_id owner = i \<and> a_disposition owner \<noteq> None) \<and> \<not> stopped (a_disposition owner)"
proof -
  have each: "for_each xs (owner_open i) s = (Inr u, t) \<Longrightarrow>
      \<forall>owner \<in> set xs. \<not> (a_id owner = i \<and> a_disposition owner \<noteq> None) \<and> \<not> stopped (a_disposition owner)"
    for xs s u t
    by (induction xs arbitrary: s u) (auto simp: seq_Inr_iff owner_open_def)
  from assms show "allocation_ancestry grant i (store_db s) = Inr as"
    by (auto simp: require_allocation_open_def bind_Inr_iff seq_Inr_iff)
  from assms each show "\<forall>owner \<in> set as. \<not> (a_id owner = i \<and> a_disposition owner \<noteq> None) \<and>
      \<not> stopped (a_disposition owner)"
    by (force simp: require_allocation_open_def bind_Inr_iff seq_Inr_iff)
qed

lemma issue_permit_db:
  assumes "issue_permit grant run ra n c alloc q s = (r, t)"
  shows "same_store s t \<or>
    (\<exists>as i u. require_allocation_open grant alloc s = (Inr as, u) \<and>
       (\<exists>a \<in> set as. a_id a = a_id ra) \<and>
       (\<forall>owner \<in> set as. check_owner n c owner (store_db s) = Inr ()) \<and>
       permit_keys_ok (permit_row_of i grant run n c alloc q) (store_db s) \<and>
       r = Inr (Commit \<lparr>p_id = i, p_max_output_tokens = pr_max_output_tokens q\<rparr>) \<and>
       store_db t = insert_permit (permit_row_of i grant run n c alloc q) (store_db s))"
proof -
  obtain v u where o: "require_allocation_open grant alloc s = (v, u)"
    by (cases "require_allocation_open grant alloc s")
  from quietD [OF quiet_require_allocation_open o] have su: "same_store s u" .
  then have du: "store_db u = store_db s" by (rule same_storeD)
  show ?thesis
  proof (cases v)
    case (Inl e)
    with assms o su show ?thesis by (simp add: issue_permit_def bind_def)
  next
    case (Inr as)
    show ?thesis
    proof (cases "(\<exists>a \<in> set as. a_id a = a_id ra) \<and>
        (\<forall>owner \<in> set as. check_owner n c owner (store_db s) = Inr ())")
      case True
      let ?i = "env_uuids u (env_issued u)"
      let ?u = "u\<lparr>env_issued := Suc (env_issued u)\<rparr>"
      have checks: "for_each as (\<lambda>owner. query_res (check_owner n c owner)) u = (Inr (), u)"
        using True unfolding for_each_query_res du by simp
      have run: "seq (insert_row (permit_keys_ok (permit_row_of ?i grant run n c alloc q))
            (insert_permit (permit_row_of ?i grant run n c alloc q)))
          (commit \<lparr>p_id = ?i, p_max_output_tokens = pr_max_output_tokens q\<rparr>) ?u = (r, t)"
        using assms o Inr True checks
        by (simp add: issue_permit_def Let_def seq_def bind_def list_ex_iff new_id_def)
      have "same_store u ?u" by (rule same_store_clock)
      with su have same: "same_store s ?u" by (rule same_store_trans)
      show ?thesis
      proof (cases "permit_keys_ok (permit_row_of ?i grant run n c alloc q) (store_db s)")
        case keys: True
        with run du o Inr True show ?thesis
          by (intro disjI2 exI [of _ as] exI [of _ ?i] exI [of _ u])
             (auto simp: seq_def bind_def insert_row_def need_def)
      next
        case False
        with run du same show ?thesis
          by (auto simp: seq_def bind_def insert_row_def need_def)
      qed
    next
      case False
      have "\<exists>v'. for_res (\<lambda>x. check_owner n c x (store_db u)) as = v'" by blast
      with False assms o Inr su du show ?thesis
        by (cases "\<exists>a \<in> set as. a_id a = a_id ra")
           (auto simp: issue_permit_def seq_def bind_def list_ex_iff need_def for_each_query_res
             split: sum.splits)
    qed
  qed
qed

lemma issue_permit_ledger: "preserves (db_inv ledger_inv) (issue_permit grant run ra n c alloc q)"
proof (rule preservesI)
  fix s r t
  assume inv: "db_inv ledger_inv s" and run: "issue_permit grant run ra n c alloc q s = (r, t)"
  from issue_permit_db [OF run] consider "same_store s t"
    | as i u where "require_allocation_open grant alloc s = (Inr as, u)"
       "\<forall>owner \<in> set as. check_owner n c owner (store_db s) = Inr ()"
       "permit_keys_ok (permit_row_of i grant run n c alloc q) (store_db s)"
       "store_db t = insert_permit (permit_row_of i grant run n c alloc q) (store_db s)"
    by blast
  then show "db_inv ledger_inv t"
  proof cases
    case 1
    with inv show ?thesis by (simp add: db_inv_def same_storeD)
  next
    case 2
    have "ledger_inv (insert_permit (permit_row_of i grant run n c alloc q) (store_db s))"
      by (rule ledger_inv_insert_permit [OF _ require_open_ancestry(1) [OF 2(1)] 2(3)])
         (use inv 2(2) in \<open>auto simp: db_inv_def permit_row_of_def\<close>)
    with 2(4) show ?thesis by (simp add: db_inv_def)
  qed
qed

subsection \<open>Settling\<close>

lemma ledger_inv_update_permit:
  assumes inv: "ledger_inv d"
    and f: "\<And>p. p \<in> set (permits d) \<Longrightarrow> pm_id p = i \<Longrightarrow>
      pm_id (f p) = pm_id p \<and> pm_allocation_id (f p) = pm_allocation_id p \<and>
      pm_grant_id (f p) = pm_grant_id p \<and> (live (f p) \<longrightarrow> live p) \<and>
      (outstanding (f p) \<longrightarrow> outstanding p \<and> pm_reserved_tokens (f p) = pm_reserved_tokens p \<and>
         pm_reserved_cost (f p) = pm_reserved_cost p)"
  shows "ledger_inv (update_permit i f d)"
proof -
  let ?d = "update_permit i f d"
  have rows: "budget_allocations ?d = budget_allocations d"
    and permits: "permits ?d = update_where (\<lambda>p. pm_id p = i) f (permits d)"
    by (simp_all add: update_permit_def)
  have row: "allocation_row ?d = allocation_row d" by (simp add: allocation_row_def rows fun_eq_iff)
  have under: "under ?d j p = under d j p" for j p
    by (simp add: under_def parent_of_table [OF rows])
  have ok: "permits_ok d" using inv by (simp add: ledger_inv_def)
  have same: "under d j (f p) = under d j p" if "p \<in> set (permits d)" "pm_id p = i" for j p
    using f [OF that] by (simp add: under_def)
  have ids: "map pm_id (permits ?d) = map pm_id (permits d)"
    unfolding permits update_where_def using f by (induction "permits d") auto
  have "\<exists>a r. pm_allocation_id p = Some a \<and> allocation_row d a = Some r \<and> al_grant_id r = pm_grant_id p"
    if "p \<in> set (permits ?d)" for p
    using that ok f unfolding permits by (fastforce simp: set_update_where permits_ok_def)
  with ok ids have "permits_ok ?d" by (simp add: permits_ok_def row)
  moreover have "within_budget ?d q" if "q \<in> set (budget_allocations ?d)" for q
  proof -
    have "within_budget d q" using inv that rows by (simp add: ledger_inv_def)
    moreover have "calls_under ?d (al_id q) \<le> calls_under d (al_id q)"
      unfolding calls_under_def under permits by (rule count_update_le) (use f same in auto)
    moreover have "tokens_under ?d (al_id q) \<le> tokens_under d (al_id q)"
      unfolding tokens_under_def under permits by (rule sum_update_le) (use f same in auto)
    moreover have "cost_under ?d (al_id q) \<le> cost_under d (al_id q)"
      unfolding cost_under_def under permits by (rule sum_update_le) (use f same in auto)
    ultimately show ?thesis by (auto simp: within_budget_def)
  qed
  moreover have "alloc_inv ?d"
    using inv by (auto simp: ledger_inv_def intro: alloc_inv_table [THEN iffD2, OF rows])
  ultimately show ?thesis by (simp add: ledger_inv_def rows)
qed

text \<open>The row a permit id finds is the only one with that id.\<close>

lemma permit_unique:
  "ledger_inv d \<Longrightarrow> p \<in> set (permits d) \<Longrightarrow> q \<in> set (permits d) \<Longrightarrow> pm_id p = pm_id q \<Longrightarrow> p = q"
  unfolding ledger_inv_def permits_ok_def by (metis distinct_key_eq)

lemma dispatch_reserved_db:
  assumes "dispatch_reserved run i grant s = (r, t)"
  shows "same_store s t \<or> (\<exists>p now. p \<in> set (permits (store_db s)) \<and> pm_id p = i \<and> pm_run_id p = run \<and>
    pm_state p = PermitReserved \<and> store_db t = update_permit i (\<lambda>p. p\<lparr>pm_state := PermitDispatched,
            pm_dispatched_ms := Some (to_string now)\<rparr>) (store_db s))"
proof (cases "List.find (\<lambda>p. pm_id p = i \<and> pm_run_id p = run \<and> pm_state p = PermitReserved)
    (permits (store_db s))")
  case None
  with assms show ?thesis by (simp add: dispatch_reserved_def bind_def)
next
  case (Some p)
  show ?thesis
  proof (cases "pm_allocation_id p")
    case None
    with assms Some show ?thesis by (simp add: dispatch_reserved_def bind_def)
  next
    case alloc: (Some a)
    obtain v u where o: "require_allocation_open grant a s = (v, u)"
      by (cases "require_allocation_open grant a s")
    from quietD [OF quiet_require_allocation_open o] have su: "same_store s u" .
    then have du: "store_db u = store_db s" by (rule same_storeD)
    show ?thesis
    proof (cases v)
      case (Inl e)
      with assms Some alloc o su show ?thesis by (simp add: dispatch_reserved_def bind_def)
    next
      case (Inr as)
      with assms Some alloc o du find_Some_iff2 [OF Some] show ?thesis
        by (intro disjI2 exI [of _ p] exI [of _ "env_clock u (env_reads u) mod 2 ^ 64"])
           (auto simp: dispatch_reserved_def bind_def seq_def now_ms_def)
    qed
  qed
qed

lemma dispatch_reserved_ledger: "preserves (db_inv ledger_inv) (dispatch_reserved run i grant)"
proof (rule preservesI)
  fix s r t
  assume inv: "db_inv ledger_inv s" and run: "dispatch_reserved run i grant s = (r, t)"
  then have l: "ledger_inv (store_db s)" by (simp add: db_inv_def)
  from dispatch_reserved_db [OF run] show "db_inv ledger_inv t"
  proof (elim disjE exE conjE)
    assume "same_store s t"
    with inv show ?thesis by (simp add: db_inv_def same_storeD)
  next
    fix p now
    assume p: "p \<in> set (permits (store_db s))" "pm_id p = i" "pm_state p = PermitReserved"
      and t: "store_db t = update_permit i (\<lambda>p. p\<lparr>pm_state := PermitDispatched,
            pm_dispatched_ms := Some (to_string now)\<rparr>) (store_db s)"
    have "q = p" if "q \<in> set (permits (store_db s))" "pm_id q = i" for q
      using permit_unique [OF l that(1) p(1)] that p by simp
    with p have "ledger_inv (store_db t)"
      unfolding t by (intro ledger_inv_update_permit [OF l]) (auto simp: live_def outstanding_def)
    then show ?thesis by (simp add: db_inv_def)
  qed
qed

lemma release_permit_ledger: "preserves (db_inv ledger_inv) (release_permit run i)"
  unfolding release_permit_def
  by (intro keeps_intros ledger_inv_update_permit) (auto simp: live_def outstanding_def)

lemma report_usage_db:
  assumes "report_usage run u s = (r, t)"
  shows "same_store s t \<or> (\<exists>p n c now. p \<in> set (permits (store_db s)) \<and> pm_id p = u_permit_id u \<and>
    pm_run_id p = run \<and> pm_state p = PermitDispatched \<and> pm_usage p = None \<and>
    store_db t = update_permit (u_permit_id u) (record_usage u n c now) (store_db s))"
proof (cases "\<exists>p n c. List.find (\<lambda>p. pm_id p = u_permit_id u \<and> pm_run_id p = run) (permits (store_db s)) = Some p \<and>
    pm_usage p = None \<and> pm_state p = PermitDispatched \<and>
    store_db t = update_permit (u_permit_id u) (record_usage u n c (env_clock s (env_reads s) mod 2 ^ 64)) (store_db s)")
  case True
  then show ?thesis by (blast dest: find_Some_iff2)
next
  case False
  with assms have "same_store s t"
    by (auto simp: report_usage_def Let_def bind_def seq_def need_def lift_def now_ms_def run_permit_def
        split: sum.splits option.splits if_splits) blast
  then show ?thesis ..
qed

lemma report_usage_ledger: "preserves (db_inv ledger_inv) (report_usage run u)"
proof (rule preservesI)
  fix s r t
  assume inv: "db_inv ledger_inv s" and run: "report_usage run u s = (r, t)"
  then have l: "ledger_inv (store_db s)" by (simp add: db_inv_def)
  from report_usage_db [OF run] show "db_inv ledger_inv t"
  proof (elim disjE exE conjE)
    assume "same_store s t"
    with inv show ?thesis by (simp add: db_inv_def same_storeD)
  next
    fix p n c now
    assume p: "p \<in> set (permits (store_db s))" "pm_id p = u_permit_id u" "pm_state p = PermitDispatched"
      and t: "store_db t = update_permit (u_permit_id u) (record_usage u n c now) (store_db s)"
    have "q = p" if "q \<in> set (permits (store_db s))" "pm_id q = u_permit_id u" for q
      using permit_unique [OF l that(1) p(1)] that p by simp
    with p have "ledger_inv (store_db t)"
      unfolding t
      by (intro ledger_inv_update_permit [OF l]) (auto simp: live_def outstanding_def record_usage_def)
    then show ?thesis by (simp add: db_inv_def)
  qed
qed

section \<open>Retention does not touch it\<close>

lemma ledger_ignores_retention: "ignores_retention ledger_inv"
  unfolding ignores_retention_def
proof (intro allI impI)
  fix d d'
  assume eq: "outside_retention d' = outside_retention d" and i: "ledger_inv d"
  from arg_cong [OF eq, of budget_allocations] arg_cong [OF eq, of permits]
  have "budget_allocations d' = budget_allocations d" "permits d' = permits d"
    by (simp_all add: outside_retention_def without_lineage_def)
  then show "ledger_inv d'" using i by (rule ledger_inv_other)
qed

end
