(* ===== verification/Work.thy ===== *)
theory Work
  imports Ledger
begin

text \<open>
  crates/ribosome-core/src/work.rs: the queue of follow-up work under each grant. Enqueueing is
  bounded by the grant and by every allocation above the requesting run; a claim is a lease that
  expires; an item is attempted at most three times.

  The claim loop is given fuel, one unit for each stored item and one more: every round fails one
  item, so it never runs out (\<open>claim_loop_enough\<close> in WorkQueue).
\<close>

section \<open>Model\<close>

definition work_open :: "WorkItemStatus \<Rightarrow> bool" where
  "work_open status \<longleftrightarrow>
     status \<in> {WorkItemStatus.Queued, WorkItemStatus.Running, WorkItemStatus.Interrupted}"

definition validate_work_request :: "Grant \<Rightarrow> WorkRequest \<Rightarrow> unit store_op" where
  "validate_work_request grant request =
     seq (validate ''WorkRequest'' (valid_WorkRequest request))
         (for_each (wr_evidence_refs request) (require_reference grant))"

definition work_position :: "string \<Rightarrow> Db \<Rightarrow> nat \<times> string" where
  "work_position run d =
     (case work_row d run of
        Some parent \<Rightarrow> (w_depth (wk_body parent) + 1, w_root_id (wk_body parent))
      | None \<Rightarrow> (1, run))"

definition work_room :: "nat \<Rightarrow> BudgetAllocation \<Rightarrow> Db \<Rightarrow> unit res" where
  "work_room depth owner d =
     (let refusal = exhausted ''child work budget or depth exhausted'' in
      if depth > b_max_depth (a_budget owner) then Inl refusal
      else and_then (store_grant (a_grant_id owner) d) (\<lambda>g.
           and_then (allocation_ledger_status g (a_id owner) d) (\<lambda>status.
           guard (b_max_work_items (bs_remaining status) \<noteq> 0) refusal)))"

definition new_work_item ::
    "Grant \<Rightarrow> WorkRequest \<Rightarrow> string \<Rightarrow> string \<Rightarrow> nat \<Rightarrow> string \<Rightarrow> WorkItem" where
  "new_work_item grant request i run depth root_id =
     \<lparr>w_id = i, w_scope = g_scope grant, w_subject = wr_subject request,
      w_profile = wr_profile request, w_operator = wr_operator request, w_reason = wr_reason request,
      w_evidence_refs = wr_evidence_refs request, w_root_id = root_id, w_parent_id = run,
      w_depth = depth, w_status = WorkItemStatus.Queued, w_attempts = 0,
      w_lease_until_ms = ''0'', w_owner = run\<rparr>"

definition request_event ::
    "Grant \<Rightarrow> WorkItem \<Rightarrow> string \<Rightarrow> nat \<Rightarrow> string list \<Rightarrow> Event" where
  "request_event grant item source now sources =
     \<lparr>ev_id = source, ev_scope = g_scope grant, ev_run_id = w_id item, ev_producer = ''work-request'',
      ev_sequence = ''1'', ev_kind = ''work_requested'', ev_timestamp_ms = to_string now,
      ev_parents = [], ev_correlation = w_id item, ev_artifacts = [],
      ev_payload = [(''parent_id'', JString (w_parent_id item)), (''work_id'', JString (w_id item))],
      ev_provenance = \<lparr>pv_origin = Origin.Observed, pv_source_refs = sources,
        pv_scenario_family = ''work-request'', pv_split = derived_split (g_visible_splits grant),
        pv_limitations =
          [''Records requested work and task lineage; does not establish its outcome.'']\<rparr>\<rparr>"

definition work_row_of :: "Grant \<Rightarrow> WorkItem \<Rightarrow> string \<Rightarrow> string \<Rightarrow> WorkRow" where
  "work_row_of grant item alloc source =
     \<lparr>wk_id = w_id item, wk_grant_id = g_id grant, wk_root_id = w_root_id item,
      wk_subject = w_subject item, wk_status = WorkItemStatus.Queued, wk_lease_until_ms = 0,
      wk_body = item, wk_allocation_id = Some alloc, wk_source_ref = Some source\<rparr>"

definition insert_work :: "WorkRow \<Rightarrow> Db \<Rightarrow> Db" where
  "insert_work row d = d\<lparr>work := work d @ [row]\<rparr>"

definition inherit_attachment :: "string \<Rightarrow> string \<Rightarrow> Db \<Rightarrow> Db" where
  "inherit_attachment i run d = d\<lparr>attachment_work := attachment_work d @
     map (\<lambda>w. \<lparr>aw_work_id = i, aw_attachment_id = aw_attachment_id w\<rparr>)
       (filter (\<lambda>w. aw_work_id w = run) (attachment_work d))\<rparr>"

definition create_work :: "Grant \<Rightarrow> string \<Rightarrow> WorkRequest \<Rightarrow> nat \<Rightarrow> string \<Rightarrow> BudgetAllocation \<Rightarrow> WorkItem store_op"
  where
  "create_work grant run request depth root_id parent =
     bind new_id (\<lambda>i.
     let item = new_work_item grant request i run depth root_id in
     bind (ask (\<lambda>s. allocation_id (env_sha256 s) ''work'' i)) (\<lambda>alloc_id.
     bind (allocate_in grant \<lparr>bar_id = alloc_id, bar_parent_id = a_id parent, bar_cause_id = i,
             bar_purpose = ''work'', bar_budget = a_budget parent\<rparr>) (\<lambda>alloc.
     bind new_id (\<lambda>source.
     bind (query (run_context_sources run)) (\<lambda>context.
     bind now_ms (\<lambda>now.
     bind (ingest (request_event grant item source now
             (remdups_adj (sort (context @ wr_evidence_refs request))))) (\<lambda>_.
     let row = work_row_of grant item (a_id alloc) source in
     seq (insert_row (\<lambda>d. work_row d i = None \<and> allocation_row d (a_id alloc) \<noteq> None \<and>
            event_row d source \<noteq> None) (insert_work row)) (
     seq (exec (inherit_attachment i run)) (
     ret item)))))))))"

definition enqueue_work_in :: "Grant \<Rightarrow> string \<Rightarrow> WorkRequest \<Rightarrow> WorkItem store_op" where
  "enqueue_work_in grant run request =
     seq (validate ''WorkRequest'' (valid_WorkRequest request)) (
     seq (need (wr_profile request \<in> set (g_profiles grant)) (denied ''requested profile not granted'')) (
     bind (query (\<lambda>d. List.find (\<lambda>w. wk_grant_id w = g_id grant \<and> wk_subject w = wr_subject request \<and>
         work_open (wk_status w)) (work d))) (\<lambda>active.
     case active of
       Some row \<Rightarrow> ret (wk_body row)
     | None \<Rightarrow>
         bind (query (work_position run)) (\<lambda>(depth, root_id).
         seq (need (depth \<le> b_max_depth (g_budget grant)) (exhausted ''follow-up depth exhausted'')) (
         bind (query (\<lambda>d. count_where (\<lambda>w. wk_grant_id w = g_id grant) (work d))) (\<lambda>count.
         seq (need (count < b_max_work_items (g_budget grant)) (exhausted ''root work budget exhausted'')) (
         bind (query (\<lambda>d. exists_where (\<lambda>w. wk_grant_id w = g_id grant \<and>
             wk_subject w = wr_subject request) (work d))) (\<lambda>repeated.
         seq (need (\<not> repeated) (conflict (''subject already processed in this root grant; '' @
                ''owner must schedule a new bounded investigation''))) (
         bind (query (run_allocation_ref run)) (\<lambda>found.
         bind (case found of Some i \<Rightarrow> query_res (allocation grant i)
               | None \<Rightarrow> root_allocation_in grant) (\<lambda>parent.
         bind (query_res (allocation_ancestry grant (a_id parent))) (\<lambda>owners.
         seq (for_each owners (\<lambda>owner. query_res (work_room depth owner))) (
         create_work grant run request depth root_id parent)))))))))))))"

definition enqueue_work :: "Grant \<Rightarrow> string \<Rightarrow> WorkRequest \<Rightarrow> WorkItem store_op" where
  "enqueue_work grant run request =
     seq (validate_work_request grant request)
         (transaction (bind (enqueue_work_in grant run request) commit))"

definition request_work :: "string \<Rightarrow> WorkRequest \<Rightarrow> WorkItem store_op" where
  "request_work run request =
     bind (require_active run) (\<lambda>grant.
     seq (need (g_prepared_run grant = None \<and> wr_operator request \<noteq> ''execute-motif@1'')
            (denied (''nested prepared invocation is not supported; the host must schedule a '' @
              ''separately scoped invocation''))) (
     seq (need (g_discovery_corpus grant = None \<or>
                corpus_operator_allowed (wr_profile request) (wr_operator request))
            (denied (''assigned evidence permits curator work and caretaker proofreading '' @
              ''within its corpus''))) (
     bind (query_res (run_attachment run)) (\<lambda>attached.
     seq (need (\<not> repair_in_progress attached)
            (denied ''coordinated repair must finish within its current work item'')) (
     enqueue_work grant run request)))))"

text \<open>\<open>lease_until_ms < now_ms() as i64\<close>: a time past \<open>i64::MAX\<close> is negative as an \<open>i64\<close>.\<close>

definition lease_expired :: "nat \<Rightarrow> nat \<Rightarrow> bool" where
  "lease_expired lease now \<longleftrightarrow> now \<le> i64_max \<and> lease < now"

definition attached_work :: "Db \<Rightarrow> string \<Rightarrow> bool" where
  "attached_work d i \<longleftrightarrow>
     exists_where (\<lambda>w. aw_work_id w = i \<and>
       exists_where (\<lambda>a. atr_id a = aw_attachment_id w \<and>
         at_state (atr_body a) = AttachmentState.Active \<and>
         (case at_handoff (atr_body a) of
            None \<Rightarrow> True
          | Some h \<Rightarrow> rh_state h = RepairHandoffState.Released \<or>
              rh_state h = RepairHandoffState.Held \<and> rh_work_id h = i)) (attachments d))
       (attachment_work d)"

definition waited_for :: "Db \<Rightarrow> string \<Rightarrow> bool" where
  "waited_for d i \<longleftrightarrow> exists_where (\<lambda>w. i \<in> set (rw_work_ids w)) (run_waits d)"

definition claimable ::
    "Db \<Rightarrow> string \<Rightarrow> bool \<Rightarrow> string list option \<Rightarrow> nat \<Rightarrow> WorkRow \<Rightarrow> bool" where
  "claimable d grant_id attached_only ids now w \<longleftrightarrow>
     wk_grant_id w = grant_id \<and>
     (wk_status w = WorkItemStatus.Queued \<or> wk_status w = WorkItemStatus.Interrupted \<or>
      wk_status w = WorkItemStatus.Running \<and> lease_expired (wk_lease_until_ms w) now) \<and>
     (attached_only \<longrightarrow> attached_work d (wk_id w)) \<and>
     (case ids of Some selected \<Rightarrow> wk_id w \<in> set selected | None \<Rightarrow> \<not> waited_for d (wk_id w))"

definition first_claimable ::
    "string \<Rightarrow> bool \<Rightarrow> string list option \<Rightarrow> nat \<Rightarrow> Db \<Rightarrow> WorkItem option" where
  "first_claimable grant_id attached_only ids now d =
     (case sort_key wk_id (filter (claimable d grant_id attached_only ids now) (work d)) of
        [] \<Rightarrow> None | w # _ \<Rightarrow> Some (wk_body w))"

definition update_work :: "string \<Rightarrow> (WorkRow \<Rightarrow> WorkRow) \<Rightarrow> Db \<Rightarrow> Db" where
  "update_work i f d = d\<lparr>work := update_where (\<lambda>w. wk_id w = i) f (work d)\<rparr>"

definition work_allocation_ref :: "string \<Rightarrow> Db \<Rightarrow> string option" where
  "work_allocation_ref i d = Option.bind (work_row d i) wk_allocation_id"

definition fail_work :: "WorkItem \<Rightarrow> Db \<Rightarrow> Db" where
  "fail_work item d =
     (let item = item\<lparr>w_status := WorkItemStatus.Failed\<rparr>;
          d = update_work (w_id item) (\<lambda>w. w\<lparr>wk_status := WorkItemStatus.Failed, wk_body := item\<rparr>) d
      in set_disposition (work_allocation_ref (w_id item) d) (Some Disposition.Failed) d)"

definition leased :: "WorkItem \<Rightarrow> string \<Rightarrow> nat \<Rightarrow> WorkItem" where
  "leased item owner lease =
     item\<lparr>w_status := WorkItemStatus.Running, w_attempts := w_attempts item + 1, w_owner := owner,
          w_lease_until_ms := to_string lease\<rparr>"

definition write_lease :: "WorkItem \<Rightarrow> nat \<Rightarrow> Db \<Rightarrow> Db" where
  "write_lease item lease = update_work (w_id item) (\<lambda>w. w\<lparr>wk_status := WorkItemStatus.Running,
     wk_lease_until_ms := lease, wk_body := item\<rparr>)"

fun claim_loop ::
    "nat \<Rightarrow> Grant \<Rightarrow> string \<Rightarrow> nat \<Rightarrow> bool \<Rightarrow> string list option \<Rightarrow> WorkItem option txn store_op" where
  "claim_loop 0 grant owner lease_ms attached_only ids = throw (internal ''claim loop out of fuel'')"
| "claim_loop (Suc fuel) grant owner lease_ms attached_only ids =
     bind now_ms (\<lambda>now.
     bind (query (first_claimable (g_id grant) attached_only ids now)) (\<lambda>found.
     case found of
       None \<Rightarrow> commit None
     | Some item \<Rightarrow>
         if 3 \<le> w_attempts item
         then seq (exec (fail_work item)) (claim_loop fuel grant owner lease_ms attached_only ids)
         else
           bind now_ms (\<lambda>now.
           bind (lift (counter (b_deadline_ms (g_budget grant)))) (\<lambda>deadline.
           let lease = min (add_u64 now lease_ms) deadline;
               item = leased item owner lease
           in seq (exec (write_lease item lease)) (commit (Some item))))))"

definition claim_work_filter ::
    "string \<Rightarrow> string \<Rightarrow> nat \<Rightarrow> bool \<Rightarrow> string list option \<Rightarrow> WorkItem option store_op" where
  "claim_work_filter grant_id owner lease_ms attached_only ids =
     bind (query_res (store_grant grant_id)) (\<lambda>grant.
     bind (lift (counter (b_deadline_ms (g_budget grant)))) (\<lambda>deadline.
     bind now_ms (\<lambda>now.
     seq (need (now < deadline) (exhausted ''grant expired'')) (
     seq (need (owner \<noteq> [] \<and> lease_ms \<noteq> 0 \<and> lease_ms \<le> 300000) (invalid ''invalid lease'')) (
     transaction (
       bind (query (\<lambda>d. Suc (length (work d)))) (\<lambda>fuel.
       claim_loop fuel grant owner lease_ms attached_only ids)))))))"

definition claim_work_matching :: "string \<Rightarrow> string \<Rightarrow> nat \<Rightarrow> bool \<Rightarrow> WorkItem option store_op" where
  "claim_work_matching grant_id owner lease_ms attached_only =
     claim_work_filter grant_id owner lease_ms attached_only None"

definition claim_work :: "string \<Rightarrow> string \<Rightarrow> nat \<Rightarrow> WorkItem option store_op" where
  "claim_work grant_id owner lease_ms = claim_work_matching grant_id owner lease_ms False"

definition claim_waited_work :: "string \<Rightarrow> string \<Rightarrow> string list \<Rightarrow> WorkItem option store_op" where
  "claim_waited_work grant_id owner ids = claim_work_filter grant_id owner 300000 False (Some ids)"

definition close_work :: "string \<Rightarrow> WorkItem \<Rightarrow> WorkItemStatus \<Rightarrow> Db \<Rightarrow> Db" where
  "close_work i item status d =
     update_work i (\<lambda>w. w\<lparr>wk_status := status, wk_body := item\<lparr>w_status := status\<rparr>\<rparr>)
       (set_disposition (work_allocation_ref i d) (work_disposition status) d)"

definition finish_work :: "string \<Rightarrow> string \<Rightarrow> WorkItemStatus \<Rightarrow> unit store_op" where
  "finish_work i owner status =
     seq (need (status \<noteq> WorkItemStatus.Running \<and> status \<noteq> WorkItemStatus.Queued)
            (invalid ''completion must be terminal'')) (
     transaction (
       bind (query_res (\<lambda>d. the_row (work_row d i))) (\<lambda>row.
       let item = wk_body row in
       seq (need (w_owner item = owner) (denied ''work lease belongs to another owner'')) (
       if w_status item = status then ret (Rollback ())
       else
         seq (need (w_status item = WorkItemStatus.Running) (conflict ''work already completed'')) (
         seq (exec (close_work i item status))
             (commit ()))))))"

definition renew_work :: "string \<Rightarrow> string \<Rightarrow> nat \<Rightarrow> unit store_op" where
  "renew_work i owner lease_ms =
     seq (need (lease_ms \<noteq> 0 \<and> lease_ms \<le> 300000) (invalid ''invalid lease'')) (
     transaction (
       bind (query_res (\<lambda>d. the_row (work_row d i))) (\<lambda>row.
       let item = wk_body row; refusal = conflict ''work lease unavailable'' in
       seq (need (w_owner item = owner \<and> w_status item = WorkItemStatus.Running) refusal) (
       bind (lift (counter (w_lease_until_ms item))) (\<lambda>lease.
       bind now_ms (\<lambda>now.
       seq (need (now \<le> lease) refusal) (
       bind (query_res (store_grant (wk_grant_id row))) (\<lambda>grant.
       bind (lift (counter (b_deadline_ms (g_budget grant)))) (\<lambda>deadline.
       bind now_ms (\<lambda>now.
       let lease = min (add_u64 now lease_ms) deadline;
           item = item\<lparr>w_lease_until_ms := to_string lease\<rparr>
       in seq (exec (update_work i (\<lambda>w. w\<lparr>wk_lease_until_ms := lease, wk_body := item\<rparr>)))
              (commit ())))))))))))"

end
