(* ===== verification/Subscriptions.thy ===== *)
theory Subscriptions
  imports Work Evidence
begin

text \<open>
  crates/ribosome-core/src/subscriptions.rs: host routing of events into bounded work. A poll moves
  the subscription's cursor over one page of evidence, keeps the matching events pending, and turns
  them into one work item when the batch is full, has waited long enough or is flushed.
\<close>

section \<open>Model\<close>

definition subscription_ok :: "Subscription \<Rightarrow> Grant \<Rightarrow> bool" where
  "subscription_ok n grant \<longleftrightarrow>
     \<not> (sn_id n = [] \<or> length (sn_subject n) > 100 \<or> sn_kinds n = [] \<or>
        \<not> (1 \<le> sn_batch_size n \<and> sn_batch_size n \<le> 100) \<or>
        \<not> (1 \<le> sn_max_delay_ms n \<and> sn_max_delay_ms n \<le> 300000) \<or>
        sn_profile n \<notin> set (g_profiles grant))"

definition subscription_row :: "string \<Rightarrow> Db \<Rightarrow> SubscriptionRow option" where
  "subscription_row i d = List.find (\<lambda>r. sub_id r = i) (subscriptions d)"

definition insert_subscription :: "SubscriptionRow \<Rightarrow> Db \<Rightarrow> Db" where
  "insert_subscription row d = d\<lparr>subscriptions := subscriptions d @ [row]\<rparr>"

definition subscribe_from ::
    "Subscription \<Rightarrow> string option \<Rightarrow> string \<Rightarrow> string option \<Rightarrow> unit store_op" where
  "subscribe_from n source_run cursor attachment_id =
     bind (lift (counter cursor)) (\<lambda>_.
     bind (query_res (store_grant (sn_grant_id n))) (\<lambda>grant.
     seq (need (subscription_ok n grant) (invalid ''invalid subscription or profile grant'')) (
     bind (query (subscription_row (sn_id n))) (\<lambda>previous.
     case previous of
       Some row \<Rightarrow> need (sub_body row = n) (conflict ''subscription IDs are immutable'')
     | None \<Rightarrow>
         insert_row (\<lambda>d. subscription_row (sn_id n) d = None)
           (insert_subscription \<lparr>sub_id = sn_id n, sub_body = n, sub_cursor = cursor,
             sub_pending = [], sub_first_pending_ms = ''0'', sub_source_run = source_run,
             sub_attachment_id = attachment_id\<rparr>)))))"

definition subscribe :: "Subscription \<Rightarrow> unit store_op" where
  "subscribe n = subscribe_from n None ''0'' None"

definition routing_request :: "SubscriptionRow \<Rightarrow> EvidenceRequest" where
  "routing_request row =
     \<lparr>erq_cursor = sub_cursor row, erq_limit = 100, erq_run_id = sub_source_run row,
      erq_event_refs = None, erq_neighbors = None, erq_kind = None, erq_artifact = None,
      erq_query = None, erq_through_cursor = None\<rparr>"

text \<open>Appending the page's matching events; the first of a batch reads the clock.\<close>

definition route_event ::
    "string list \<Rightarrow> string list \<times> nat \<Rightarrow> Event \<Rightarrow> (string list \<times> nat) store_op" where
  "route_event kinds batch e =
     (case batch of (pending, first) \<Rightarrow>
        if ev_kind e \<in> set kinds
        then bind (if pending = [] then now_ms else ret first) (\<lambda>first. ret (pending @ [ev_id e], first))
        else ret (pending, first))"

definition batch_ready :: "Subscription \<Rightarrow> bool \<Rightarrow> string list \<Rightarrow> nat \<Rightarrow> bool store_op" where
  "batch_ready n flush pending first =
     (if pending \<noteq> [] \<and> flush \<or> sn_batch_size n \<le> length pending then ret True
      else if pending = [] then ret False
      else bind now_ms (\<lambda>now. ret (sn_max_delay_ms n \<le> now - first)))"

definition routed_work :: "Subscription \<Rightarrow> string \<Rightarrow> string list \<Rightarrow> WorkRequest" where
  "routed_work n cursor pending =
     \<lparr>wr_subject = sn_subject n @ '':'' @ cursor, wr_profile = sn_profile n,
      wr_operator = sn_operator n,
      wr_reason = ''Inspect a host-routed batch of '' @ to_string (length pending) @
        '' events of kinds '' @ join_strings '', '' (sn_kinds n),
      wr_evidence_refs = pending\<rparr>"

text \<open>\<open>INSERT OR IGNORE\<close>: an existing key is left alone; the attachment must exist.\<close>

definition attach_work :: "string \<Rightarrow> string \<Rightarrow> unit store_op" where
  "attach_work i attachment_id =
     bind (query (\<lambda>d. exists_where (\<lambda>w. aw_work_id w = i) (attachment_work d))) (\<lambda>known.
     if known then skip
     else insert_row (\<lambda>d. exists_where (\<lambda>a. atr_id a = attachment_id) (attachments d))
       (\<lambda>d. d\<lparr>attachment_work := attachment_work d @
          [\<lparr>aw_work_id = i, aw_attachment_id = attachment_id\<rparr>]\<rparr>))"

definition save_cursor :: "string \<Rightarrow> string \<Rightarrow> string list \<Rightarrow> nat \<Rightarrow> Db \<Rightarrow> Db" where
  "save_cursor i cursor pending first d = d\<lparr>subscriptions := update_where (\<lambda>r. sub_id r = i)
     (\<lambda>r. r\<lparr>sub_cursor := cursor, sub_pending := pending, sub_first_pending_ms := to_string first\<rparr>)
     (subscriptions d)\<rparr>"

definition close_batch ::
    "Grant \<Rightarrow> SubscriptionRow \<Rightarrow> string \<Rightarrow> string list \<Rightarrow> WorkItem store_op" where
  "close_batch grant row cursor pending =
     bind (enqueue_work_in grant (sub_id row) (routed_work (sub_body row) cursor pending)) (\<lambda>item.
     seq (case sub_attachment_id row of None \<Rightarrow> skip | Some a \<Rightarrow> attach_work (w_id item) a)
         (ret item))"

definition advance_subscription ::
    "Grant \<Rightarrow> SubscriptionRow \<Rightarrow> string \<Rightarrow> string list \<Rightarrow> nat \<Rightarrow> bool \<Rightarrow> WorkItem option store_op" where
  "advance_subscription grant row cursor pending first ready =
     transaction (
       bind (query_res (\<lambda>d. the_row (subscription_row (sub_id row) d))) (\<lambda>current.
       seq (need (sub_cursor current = sub_cursor row) (conflict ''subscription advanced concurrently'')) (
       if ready
       then bind (close_batch grant row cursor pending) (\<lambda>item.
            seq (exec (save_cursor (sub_id row) cursor [] 0)) (commit (Some item)))
       else seq (exec (save_cursor (sub_id row) cursor pending first)) (commit None))))"

definition poll_subscription_with_flush :: "string \<Rightarrow> bool \<Rightarrow> WorkItem option store_op" where
  "poll_subscription_with_flush i flush =
     bind (query_res (\<lambda>d. ok_or (subscription_row i d) (missing ''subscription not found''))) (\<lambda>row.
     bind (query_res (store_grant (sn_grant_id (sub_body row)))) (\<lambda>grant.
     bind (lift (counter (b_deadline_ms (g_budget grant)))) (\<lambda>deadline.
     bind now_ms (\<lambda>now.
     seq (need (\<not> deadline \<le> now) (exhausted ''subscription grant expired'')) (
     bind (lift (counter (sub_first_pending_ms row))) (\<lambda>first.
     bind (evidence grant (routing_request row)) (\<lambda>page.
     bind (fold_op (route_event (sn_kinds (sub_body row))) (sub_pending row, first) (epg_events page))
       (\<lambda>(pending, first).
     bind (batch_ready (sub_body row) flush pending first) (\<lambda>ready.
     seq (if ready then for_each pending (require_reference grant) else skip) (
     advance_subscription grant row (epg_cursor page) pending first ready))))))))))"

definition poll_subscription :: "string \<Rightarrow> WorkItem option store_op" where
  "poll_subscription i = poll_subscription_with_flush i False"

section \<open>What a poll reads\<close>

lemma quiet_evidence_rows [quiet_intros]: "quiet (evidence_rows grant p rows)"
  by (induction grant p rows rule: evidence_rows.induct)
     (simp_all only: evidence_rows.simps Let_def, (intro quiet_intros; simp)+)

lemma quiet_evidence [quiet_intros]: "quiet (evidence grant request)"
  unfolding evidence_def evidence_excluding_activity_def check_event_ref_def Let_def
  by (intro quiet_intros)

lemma quiet_routing [quiet_intros]:
  "quiet (route_event kinds batch e)" "quiet (batch_ready n flush pending first)"
  unfolding route_event_def batch_ready_def split_beta by (intro quiet_intros)+

definition routed_ids :: "string list \<Rightarrow> Event list \<Rightarrow> string list" where
  "routed_ids kinds es = map ev_id (filter (\<lambda>e. ev_kind e \<in> set kinds) es)"

lemma route_event_pending:
  "route_event kinds (pending, first) e s = (Inr (p, f), t) \<Longrightarrow>
     p = (if ev_kind e \<in> set kinds then pending @ [ev_id e] else pending)"
  by (auto simp: route_event_def bind_Inr_iff split: if_splits)

lemma route_events:
  "fold_op (route_event kinds) (pending, first) es s = (Inr (pending', first'), t) \<Longrightarrow>
     pending' = pending @ routed_ids kinds es"
proof (induction es arbitrary: pending first s)
  case Nil
  then show ?case by (simp add: routed_ids_def)
next
  case (Cons e es)
  from Cons.prems obtain p f u where "fold_op (route_event kinds) (p, f) es u = (Inr (pending', first'), t)"
    "route_event kinds (pending, first) e s = (Inr (p, f), u)"
    by (auto simp: bind_Inr_iff)
  with Cons.IH [of p f u] route_event_pending show ?case by (fastforce simp: routed_ids_def)
qed

lemma batch_ready_pending:
  "batch_ready n flush pending first s = (Inr True, t) \<Longrightarrow> 1 \<le> sn_batch_size n \<Longrightarrow> pending \<noteq> []"
  by (auto simp: batch_ready_def split: if_splits)

lemma batch_ready_size:
  "batch_ready n flush pending first s = (Inr False, t) \<Longrightarrow> length pending < sn_batch_size n"
  by (auto simp: batch_ready_def split: if_splits)

end
