(* ===== verification/Attachments.thy ===== *)
theory Attachments
  imports Subscriptions
begin

text \<open>
  crates/ribosome-core/src/attachments/mod.rs and events.rs: an attachment binds a grant to an
  execution outside the process. The host opens it, reports the events of the execution in batches,
  and interrupts, completes or detaches it; its subscription routes what was reported into work.
  \<open>attachment\<close> and \<open>run_attachment\<close> are in Authority.
\<close>

section \<open>Policy\<close>

record AttachmentPolicy =
  ap_event_kinds :: "string list"
  ap_batch_size :: nat
  ap_max_delay_ms :: nat
  ap_max_backlog :: nat
  ap_feedback_ttl_ms :: nat
  ap_allow_steering :: bool
  ap_allow_coordinated_writes :: bool

definition default_policy :: AttachmentPolicy where
  "default_policy = \<lparr>ap_event_kinds = [''tool.completed'', ''artifact.changed'', ''execution.completed'',
     ''execution.failed''], ap_batch_size = 8, ap_max_delay_ms = 200, ap_max_backlog = 1000,
     ap_feedback_ttl_ms = 300000, ap_allow_steering = False, ap_allow_coordinated_writes = False\<rparr>"

definition own_kind :: "string \<Rightarrow> bool" where
  "own_kind kind \<longleftrightarrow> take 9 kind = ''ribosome.''"

definition policy_ok :: "AttachmentPolicy \<Rightarrow> bool" where
  "policy_ok p \<longleftrightarrow>
     ap_event_kinds p \<noteq> [] \<and> length (ap_event_kinds p) \<le> 100 \<and>
     list_all (\<lambda>k. \<not> own_kind k \<and> length k \<le> 200) (ap_event_kinds p) \<and>
     1 \<le> ap_batch_size p \<and> ap_batch_size p \<le> 100 \<and>
     1 \<le> ap_max_delay_ms p \<and> ap_max_delay_ms p \<le> 300000 \<and>
     100 \<le> ap_max_backlog p \<and> ap_max_backlog p \<le> 10000 \<and>
     1 \<le> ap_feedback_ttl_ms p \<and> ap_feedback_ttl_ms p \<le> 300000"

definition validate_policy :: "AttachmentPolicy \<Rightarrow> unit store_op" where
  "validate_policy p = need (policy_ok p) (invalid ''invalid attachment routing or capacity limits'')"

definition offered_capabilities :: "AttachmentPolicy \<Rightarrow> AttachmentCapability list" where
  "offered_capabilities p = [AttachmentCapability.Observe] @
     (if ap_allow_steering p then [AttachmentCapability.Steer] else []) @
     (if ap_allow_coordinated_writes p then [AttachmentCapability.CoordinatedWrite] else [])"

section \<open>Opening\<close>

definition save_attachment :: "Attachment \<Rightarrow> unit store_op" where
  "save_attachment a =
     seq (validate ''Attachment'' (valid_Attachment a))
         (exec (\<lambda>d. d\<lparr>attachments := update_where (\<lambda>r. atr_id r = at_id a)
            (\<lambda>r. r\<lparr>atr_body := a\<rparr>) (attachments d)\<rparr>))"

definition same_connection :: "Grant \<Rightarrow> AttachmentOpen \<Rightarrow> Attachment \<Rightarrow> bool" where
  "same_connection grant q a \<longleftrightarrow>
     at_grant_id a = g_id grant \<and> at_execution_id a = ao_execution_id q \<and>
     at_connector a = ao_connector q \<and> at_connector_version a = ao_connector_version q \<and>
     at_capabilities a = ao_capabilities q"

definition attachment_over :: "Attachment \<Rightarrow> bool" where
  "attachment_over a \<longleftrightarrow>
     at_state a = AttachmentState.Detached \<or> at_state a = AttachmentState.Completed"

text \<open>The connection of a known attachment resumes unless the attachment is over.\<close>

definition reopen_attachment :: "Grant \<Rightarrow> AttachmentOpen \<Rightarrow> Attachment store_op" where
  "reopen_attachment grant q =
     bind (query_res (attachment (ao_id q))) (\<lambda>old.
     seq (need (same_connection grant q old) (conflict ''attachment identity or capabilities changed'')) (
     seq (need (\<not> attachment_over old)
            (conflict ''attachment is terminal; use a new execution identity'')) (
     bind now_ms (\<lambda>now.
     let a = old\<lparr>at_state := AttachmentState.Active, at_updated_ms := to_string now\<rparr> in
     seq (save_attachment a) (ret a)))))"

definition attached_execution :: "Scope \<Rightarrow> string \<Rightarrow> Db \<Rightarrow> bool" where
  "attached_execution scope execution d \<longleftrightarrow> exists_where (\<lambda>a. atr_execution_id a = execution \<and>
     (case grant_body d (atr_grant_id a) of None \<Rightarrow> False
      | Some g \<Rightarrow> sc_client (g_scope g) = sc_client scope \<and> sc_project (g_scope g) = sc_project scope))
     (attachments d)"

definition handoff_unsettled :: "Attachment \<Rightarrow> bool" where
  "handoff_unsettled a \<longleftrightarrow> (case at_handoff a of None \<Rightarrow> False
     | Some h \<Rightarrow> rh_state h = RepairHandoffState.Held \<or> rh_state h = RepairHandoffState.Unknown)"

definition event_cursor :: "Db \<Rightarrow> string" where
  "event_cursor d = to_string (foldr max (map er_cursor (events d)) 0)"

definition start_coverage :: "AttachmentOpenStart \<Rightarrow> string" where
  "start_coverage start =
     (if start = AttachmentOpenStart.Now then ''Earlier execution history was not requested.''
      else ''Includes only history already supplied by the host; missing history is unknown.'')"

definition new_attachment :: "Grant \<Rightarrow> AttachmentOpen \<Rightarrow> string \<Rightarrow> nat \<Rightarrow> Attachment" where
  "new_attachment grant q cursor now =
     \<lparr>at_id = ao_id q, at_grant_id = g_id grant, at_scope = g_scope grant,
      at_execution_id = ao_execution_id q, at_connector = ao_connector q,
      at_connector_version = ao_connector_version q, at_capabilities = ao_capabilities q,
      at_state = AttachmentState.Active, at_source_status = AttachmentSourceStatus.Unknown,
      at_start_cursor = cursor, at_cursor = cursor, at_frontier = [],
      at_coverage = [start_coverage (ao_start q)], at_created_ms = to_string now,
      at_updated_ms = to_string now, at_last_error = [], at_handoff = None\<rparr>"

definition attachment_subscription ::
    "Grant \<Rightarrow> AttachmentPolicy \<Rightarrow> AgentRunRequest \<Rightarrow> string \<Rightarrow> Subscription" where
  "attachment_subscription grant p template i =
     \<lparr>sn_id = i, sn_grant_id = g_id grant, sn_kinds = ap_event_kinds p,
      sn_profile = rq_profile template, sn_operator = rq_operator template, sn_subject = i,
      sn_batch_size = ap_batch_size p, sn_max_delay_ms = ap_max_delay_ms p\<rparr>"

definition insert_attachment :: "Attachment \<Rightarrow> unit store_op" where
  "insert_attachment a = insert_row
     (\<lambda>d. \<not> exists_where (\<lambda>r. atr_id r = at_id a \<or>
          atr_grant_id r = at_grant_id a \<and> atr_execution_id r = at_execution_id a) (attachments d) \<and>
        grant_body d (at_grant_id a) \<noteq> None)
     (\<lambda>d. d\<lparr>attachments := attachments d @ [\<lparr>atr_id = at_id a, atr_grant_id = at_grant_id a,
        atr_execution_id = at_execution_id a, atr_body = a\<rparr>]\<rparr>)"

definition connect_attachment ::
    "Grant \<Rightarrow> AttachmentOpen \<Rightarrow> AttachmentPolicy \<Rightarrow> AgentRunRequest \<Rightarrow> Attachment store_op" where
  "connect_attachment grant q p template =
     bind (query (\<lambda>d. count_where (\<lambda>a. atr_grant_id a = g_id grant) (attachments d))) (\<lambda>count.
     seq (need (count < 16) (exhausted ''attachment capacity reached'')) (
     bind (query (attached_execution (g_scope grant) (ao_execution_id q))) (\<lambda>duplicate.
     seq (need (\<not> duplicate) (conflict ''execution already has an attachment in this scope'')) (
     bind (query (\<lambda>d. exists_where (\<lambda>a. handoff_unsettled (atr_body a)) (attachments d))) (\<lambda>held.
     seq (need (\<not> held) (conflict ''writer handoff must settle before another attachment opens'')) (
     bind (query (\<lambda>d. if ao_start q = AttachmentOpenStart.Now then event_cursor d else ''0'')) (\<lambda>cursor.
     bind now_ms (\<lambda>now.
     let a = new_attachment grant q cursor now in
     transaction (
       seq (insert_attachment a) (
       seq (subscribe_from (attachment_subscription grant p template (ao_id q))
              (Some (ao_execution_id q)) cursor (Some (ao_id q)))
           (commit a)))))))))))"

definition open_attachment ::
    "Grant \<Rightarrow> AttachmentOpen \<Rightarrow> AttachmentPolicy \<Rightarrow> AgentRunRequest \<Rightarrow> Attachment store_op" where
  "open_attachment grant q p template =
     seq (validate ''AttachmentOpen'' (valid_AttachmentOpen q)) (
     seq (validate_policy p) (
     bind now_ms (\<lambda>now.
     bind (lift (counter (b_deadline_ms (g_budget grant)))) (\<lambda>deadline.
     seq (need (\<not> deadline \<le> now) (exhausted ''attachment grant expired'')) (
     seq (need (AttachmentCapability.Observe \<in> set (ao_capabilities q) \<and>
                set (ao_capabilities q) \<subseteq> set (offered_capabilities p))
            (denied ''attachment capability not offered by host'')) (
     bind (query (\<lambda>d. exists_where (\<lambda>a. atr_id a = ao_id q) (attachments d))) (\<lambda>known.
     if known then reopen_attachment grant q else connect_attachment grant q p template)))))))"

section \<open>The life of an attachment\<close>

definition active_attachment :: "string \<Rightarrow> (Attachment \<times> Grant) store_op" where
  "active_attachment i =
     bind (query_res (attachment i)) (\<lambda>a.
     bind (query_res (store_grant (at_grant_id a))) (\<lambda>g.
     seq (need (at_state a = AttachmentState.Active) (denied ''attachment is not active'')) (
     bind now_ms (\<lambda>now.
     bind (lift (counter (b_deadline_ms (g_budget g)))) (\<lambda>deadline.
     seq (need (\<not> deadline \<le> now) (exhausted ''attachment grant expired''))
         (ret (a, g)))))))"

definition release_doubt :: "RepairHandoff \<Rightarrow> RepairHandoff" where
  "release_doubt h = (if rh_state h = RepairHandoffState.Held
     then h\<lparr>rh_state := RepairHandoffState.Unknown\<rparr> else h)"

definition interrupted_attachment :: "string \<Rightarrow> nat \<Rightarrow> Attachment \<Rightarrow> Attachment" where
  "interrupted_attachment reason now a =
     (let error = take 2000 reason in
      a\<lparr>at_state := AttachmentState.Interrupted,
        at_source_status := (if at_source_status a = AttachmentSourceStatus.Running
          then AttachmentSourceStatus.Unknown else at_source_status a),
        at_last_error := error,
        at_coverage := (if length (at_coverage a) < 20 \<and> error \<notin> set (at_coverage a)
          then at_coverage a @ [error] else at_coverage a),
        at_updated_ms := to_string now,
        at_handoff := map_option release_doubt (at_handoff a)\<rparr>)"

definition interrupt_attachment :: "string \<Rightarrow> string \<Rightarrow> unit store_op" where
  "interrupt_attachment i reason =
     bind (query_res (attachment i)) (\<lambda>a.
     if attachment_over a then skip
     else bind now_ms (\<lambda>now. save_attachment (interrupted_attachment reason now a)))"

definition complete_attachment_source :: "string \<Rightarrow> unit store_op" where
  "complete_attachment_source i =
     bind (active_attachment i) (\<lambda>(a, _).
     bind now_ms (\<lambda>now.
     save_attachment (a\<lparr>at_updated_ms := to_string now,
       at_source_status := (if at_source_status a \<in> {AttachmentSourceStatus.Running,
           AttachmentSourceStatus.Unknown} then AttachmentSourceStatus.Completed
         else at_source_status a)\<rparr>)))"

definition attachment_items :: "string \<Rightarrow> Db \<Rightarrow> WorkRow list" where
  "attachment_items i d = filter (\<lambda>w. exists_where (\<lambda>aw. aw_work_id aw = wk_id w \<and>
     aw_attachment_id aw = i) (attachment_work d)) (work d)"

definition waiting_status :: "WorkItemStatus \<Rightarrow> bool" where
  "waiting_status ws \<longleftrightarrow> ws = WorkItemStatus.Queued \<or> ws = WorkItemStatus.Interrupted"

definition undelivered :: "string \<Rightarrow> FeedbackRow \<Rightarrow> bool" where
  "undelivered i f \<longleftrightarrow> fbr_attachment_id f = i \<and>
     (fb_state (fbr_body f) = FeedbackState.Pending \<or> fb_state (fbr_body f) = FeedbackState.Delivered)"

definition reported_cost :: "PermitRow \<Rightarrow> nat" where
  "reported_cost p = (case pm_usage p of None \<Rightarrow> 0
     | Some u \<Rightarrow> (case parse_u64 (u_cost_microusd u) of None \<Rightarrow> 0 | Some n \<Rightarrow> min n i64_max))"

definition unknown_call :: "PermitRow \<Rightarrow> bool" where
  "unknown_call p \<longleftrightarrow> (case pm_usage p of None \<Rightarrow> True | Some u \<Rightarrow> \<not> u_complete u)"

definition usage_summary :: "string \<Rightarrow> Db \<Rightarrow> json_map" where
  "usage_summary grant d =
     (let calls = filter (\<lambda>p. pm_grant_id p = grant \<and> pm_state p \<noteq> PermitReleased) (permits d)
      in [(''calls'', JNumber (to_string (length calls))),
          (''observed_cost_microusd'', JString (to_string (sum_list (map reported_cost calls)))),
          (''unknown_calls'', JNumber (to_string (count_where unknown_call calls)))])"

fun feedback_state_name :: "FeedbackState \<Rightarrow> string" where
  "feedback_state_name FeedbackState.Pending = ''pending''"
| "feedback_state_name FeedbackState.Delivered = ''delivered''"
| "feedback_state_name FeedbackState.Acknowledged = ''acknowledged''"
| "feedback_state_name FeedbackState.Rejected = ''rejected''"
| "feedback_state_name FeedbackState.Expired = ''expired''"
| "feedback_state_name FeedbackState.Unknown = ''unknown''"

definition feedback_totals :: "string \<Rightarrow> Db \<Rightarrow> json_map" where
  "feedback_totals i d =
     (let names = map (\<lambda>f. feedback_state_name (fb_state (fbr_body f)))
            (filter (\<lambda>f. fbr_attachment_id f = i) (attachment_feedback d))
      in map (\<lambda>n. (n, JNumber (to_string (count_list names n)))) (remdups_adj (sort names)))"

definition attachment_status :: "string \<Rightarrow> Db \<Rightarrow> AttachmentStatus res" where
  "attachment_status i d =
     and_then (attachment i d) (\<lambda>a. Inr
       \<lparr>ats_attachment = a,
        ats_queued_work = count_where (\<lambda>w. waiting_status (wk_status w)) (attachment_items i d),
        ats_running_work = count_where (\<lambda>w. wk_status w = WorkItemStatus.Running) (attachment_items i d),
        ats_pending_feedback = count_where (undelivered i) (attachment_feedback d),
        ats_usage = usage_summary (at_grant_id a) d,
        ats_feedback_states = feedback_totals i d\<rparr>)"

definition nothing_left :: "AttachmentStatus \<Rightarrow> bool" where
  "nothing_left st \<longleftrightarrow>
     ats_queued_work st = 0 \<and> ats_running_work st = 0 \<and> ats_pending_feedback st = 0"

definition cancel_row :: "WorkRow \<Rightarrow> WorkRow" where
  "cancel_row w = w\<lparr>wk_status := WorkItemStatus.Cancelled,
     wk_body := (wk_body w)\<lparr>w_status := WorkItemStatus.Cancelled\<rparr>\<rparr>"

definition cancel_attached_work :: "string \<Rightarrow> Db \<Rightarrow> Db" where
  "cancel_attached_work i d = d\<lparr>work := update_where (\<lambda>w. waiting_status (wk_status w) \<and>
       exists_where (\<lambda>aw. aw_work_id aw = wk_id w \<and> aw_attachment_id aw = i) (attachment_work d))
     cancel_row (work d)\<rparr>"

definition detach_attachment :: "string \<Rightarrow> unit store_op" where
  "detach_attachment i =
     bind (query_res (attachment i)) (\<lambda>a.
     seq (need (\<not> repair_in_progress (Some a))
            (conflict ''unsettled writer handoff; keep the external writer stopped'')) (
     bind (query_res (attachment_status i)) (\<lambda>st.
     bind now_ms (\<lambda>now.
     let over = (if at_source_status a = AttachmentSourceStatus.Completed \<and> nothing_left st
           then AttachmentState.Completed else AttachmentState.Detached)
     in transaction (
          seq (save_attachment (a\<lparr>at_state := over, at_updated_ms := to_string now\<rparr>)) (
          seq (exec (cancel_attached_work i)) (commit ())))))))"

definition attachment_ids :: "string \<Rightarrow> Db \<Rightarrow> string list" where
  "attachment_ids grant d = sort (map atr_id (filter (\<lambda>a. atr_grant_id a = grant) (attachments d)))"

section \<open>Reported events\<close>

definition source_limitation :: string where
  "source_limitation =
     ''Reported by the external host; assistant statements are not Ribosome effect receipts.''"

definition prefixed :: "string \<Rightarrow> string \<Rightarrow> string" where
  "prefixed i name = i @ '':'' @ name"

definition source_event :: "Attachment \<Rightarrow> Grant \<Rightarrow> HarnessEvent \<Rightarrow> Event" where
  "source_event a grant e =
     \<lparr>ev_id = prefixed (at_id a) (he_id e), ev_scope = at_scope a, ev_run_id = at_execution_id a,
      ev_producer = ''source:'' @ prefixed (at_id a) (he_producer e), ev_sequence = he_sequence e,
      ev_kind = he_kind e, ev_timestamp_ms = he_timestamp_ms e,
      ev_parents = map (prefixed (at_id a)) (he_parents e), ev_correlation = he_correlation e,
      ev_artifacts = he_artifacts e, ev_payload = he_payload e,
      ev_provenance = \<lparr>pv_origin = Origin.Observed, pv_source_refs = [],
        pv_scenario_family = ''attached-execution'', pv_split = derived_split (g_visible_splits grant),
        pv_limitations = [source_limitation]\<rparr>\<rparr>"

definition check_source_event :: "Grant \<Rightarrow> HarnessEvent \<Rightarrow> unit store_op" where
  "check_source_event grant e =
     seq (need (\<not> own_kind (he_kind e))
            (denied ''Ribosome feedback cannot be ingested as source activity''))
         (need (list_all (\<lambda>r. ar_path r \<in> set (g_paths grant)) (he_artifacts e))
            (denied ''event references an ungranted artifact''))"

definition producer_frontier :: "Attachment \<Rightarrow> string \<Rightarrow> nat res" where
  "producer_frontier a producer =
     (case Option.bind (map_of (at_frontier a) producer) as_str of
        None \<Rightarrow> Inr 0 | Some v \<Rightarrow> counter v)"

definition gap_note :: "string \<Rightarrow> nat \<Rightarrow> nat \<Rightarrow> string" where
  "gap_note producer previous sequence =
     ''Producer '' @ producer @ '' has unobserved sequence numbers between '' @ to_string previous @
     '' and '' @ to_string sequence @ ''.''"

definition source_status_after :: "string \<Rightarrow> AttachmentSourceStatus \<Rightarrow> AttachmentSourceStatus" where
  "source_status_after kind status =
     (if kind = ''execution.started'' then AttachmentSourceStatus.Running
      else if kind = ''execution.completed'' then AttachmentSourceStatus.Completed
      else if kind = ''execution.failed'' then AttachmentSourceStatus.Failed
      else if kind = ''execution.cancelled'' then AttachmentSourceStatus.Cancelled
      else status)"

text \<open>The frontier and coverage after a new event of a producer; a repeated number is a conflict.\<close>

definition advance_frontier :: "HarnessEvent \<Rightarrow> Attachment \<Rightarrow> Attachment res" where
  "advance_frontier e a =
     and_then (producer_frontier a (he_producer e)) (\<lambda>previous.
     and_then (counter (he_sequence e)) (\<lambda>sequence.
     and_then (guard (previous < sequence)
       (conflict (''source sequence decreased or was reused; use a new producer identity '' @
         ''after restart''))) (\<lambda>_.
     and_then (guard (\<not> (map_of (at_frontier a) (he_producer e) = None \<and> length (at_frontier a) \<ge> 100))
       (exhausted ''attachment producer capacity reached'')) (\<lambda>_.
     Inr (a\<lparr>at_coverage := (if sequence \<noteq> previous + 1 \<and> length (at_coverage a) < 20
              then at_coverage a @ [gap_note (he_producer e) previous sequence] else at_coverage a),
            at_frontier := map_insert (he_producer e) (JString (he_sequence e)) (at_frontier a),
            at_source_status := source_status_after (he_kind e) (at_source_status a)\<rparr>)))))"

definition append_source_event ::
    "Grant \<Rightarrow> AttachmentPolicy \<Rightarrow> nat \<Rightarrow> Attachment \<times> nat \<times> nat \<Rightarrow> HarnessEvent \<Rightarrow>
     (Attachment \<times> nat \<times> nat) store_op" where
  "append_source_event grant p backlog state e = (case state of (a, inserted, duplicates) \<Rightarrow>
     seq (check_source_event grant e) (
     bind (ingest (source_event a grant e)) (\<lambda>fresh.
     if \<not> fresh then ret (a, inserted, duplicates + 1)
     else
       seq (need (backlog + (inserted + 1) \<le> ap_max_backlog p)
              (exhausted ''attachment evidence backlog full; source coverage interrupted'')) (
       bind (lift (advance_frontier e a)) (\<lambda>a.
       ret (a, inserted + 1, duplicates))))))"

definition execution_events :: "Attachment \<Rightarrow> Db \<Rightarrow> EventRow list" where
  "execution_events a d = filter (\<lambda>e. er_client e = sc_client (at_scope a) \<and>
     er_project e = sc_project (at_scope a) \<and> er_run_id e = at_execution_id a) (events d)"

definition evidence_backlog :: "Attachment \<Rightarrow> Db \<Rightarrow> nat" where
  "evidence_backlog a d =
     count_where (\<lambda>e. cast_integer (at_cursor a) < er_cursor e) (execution_events a d)"

definition append_attachment_events ::
    "AttachmentEvents \<Rightarrow> AttachmentPolicy \<Rightarrow> IngestionReceipt store_op" where
  "append_attachment_events q p =
     seq (validate ''AttachmentEvents'' (valid_AttachmentEvents q)) (
     bind (ask (\<lambda>s. env_batch_bytes s q)) (\<lambda>bytes.
     seq (need (bytes \<le> 256 * 1024) (exhausted ''event batch exceeds 256 KiB'')) (
     bind (active_attachment (ae_attachment_id q)) (\<lambda>(a, grant).
     bind (query (evidence_backlog a)) (\<lambda>backlog.
     transaction (
       bind (fold_op (append_source_event grant p backlog) (a, 0, 0) (ae_events q))
         (\<lambda>(a, inserted, duplicates).
       bind now_ms (\<lambda>now.
       seq (save_attachment (a\<lparr>at_updated_ms := to_string now\<rparr>)) (
       bind (query (\<lambda>d. foldr max (map er_cursor (execution_events a d)) 0)) (\<lambda>cursor.
       commit \<lparr>ir_inserted = inserted, ir_duplicates = duplicates,
         ir_cursor = to_string cursor\<rparr>))))))))))"

definition route_attachment :: "string \<Rightarrow> unit store_op" where
  "route_attachment i =
     bind (active_attachment i) (\<lambda>(a, _).
     bind (query (\<lambda>d. execution_events a d \<noteq> [])) (\<lambda>reported.
     if \<not> reported \<or> repair_in_progress (Some a) then skip
     else bind (poll_subscription_with_flush i
         (at_source_status a \<noteq> AttachmentSourceStatus.Running)) (\<lambda>_. skip)))"

end
