(* ===== verification/Artifacts.thy ===== *)
theory Artifacts
  imports Cleanup Evidence
begin

text \<open>
  Observed artifacts: where a branch's workspace lies (effects.rs), the refresh of what the store
  knows about files of the workspace (artifact_context.rs) and about training exports
  (export_files.rs). A file found gone withdraws the snapshots that were read from it.
\<close>

section \<open>Branches\<close>

definition branch_row :: "string \<Rightarrow> string \<Rightarrow> Db \<Rightarrow> BranchRow option" where
  "branch_row grant_id i d = List.find (\<lambda>b. br_id b = i \<and> br_grant_id b = grant_id) (branches d)"

definition branch_path :: "Grant \<Rightarrow> string option \<Rightarrow> Db \<Rightarrow> string option res" where
  "branch_path grant branch d =
     (case branch of
        None \<Rightarrow> Inr None
      | Some i \<Rightarrow>
          and_then (ok_or (branch_row (g_id grant) i d) (missing ''branch not found in grant'')) (\<lambda>row.
          Inr (Some (br_path row))))"

definition host_version :: "Grant \<Rightarrow> string \<Rightarrow> string option \<Rightarrow> ArtifactRef store_op" where
  "host_version grant path workspace =
     host_call (\<lambda>h n. hst_version h n grant path workspace)"

section \<open>Withdrawn snapshots\<close>

text \<open>\<open>INSERT OR IGNORE\<close>: what is already withdrawn or queued is left as it is.\<close>

definition ignore_tombstone :: "ArtifactSnapshot \<Rightarrow> Db \<Rightarrow> Db" where
  "ignore_tombstone a d =
     (if tombstoned ''artifact'' (as_id a) d then d
      else d\<lparr>source_tombstones := source_tombstones d @
        [\<lparr>ts_kind = ''artifact'', ts_id = as_id a, ts_client = as_client a,
          ts_project = as_project a, ts_deleted = True\<rparr>]\<rparr>)"

definition ignore_cleanup :: "ArtifactSnapshot \<Rightarrow> Db \<Rightarrow> Db" where
  "ignore_cleanup a d =
     (if exists_where (\<lambda>j. cj_source_id j = as_id a) (source_cleanup d) then d
      else d\<lparr>source_cleanup := source_cleanup d @
        [\<lparr>cj_source_id = as_id a, cj_client = as_client a, cj_project = as_project a,
          cj_delete_content = True, cj_status = ''pending'', cj_error = None,
          cj_source_kind = ''artifact''\<rparr>]\<rparr>)"

definition withdraw_rows :: "(ArtifactSnapshot \<Rightarrow> bool) \<Rightarrow> Db \<Rightarrow> Db" where
  "withdraw_rows selected d =
     fold ignore_cleanup (filter selected (artifact_snapshots d))
       (fold ignore_tombstone (filter selected (artifact_snapshots d)) d)"

definition update_snapshots ::
    "(ArtifactSnapshot \<Rightarrow> bool) \<Rightarrow> (ArtifactSnapshot \<Rightarrow> ArtifactSnapshot) \<Rightarrow> Db \<Rightarrow> Db" where
  "update_snapshots selected f d = d\<lparr>artifact_snapshots := update_where selected f (artifact_snapshots d)\<rparr>"

section \<open>Training exports\<close>

definition is_export :: "string \<Rightarrow> ArtifactSnapshot \<Rightarrow> bool" where
  "is_export snapshot a \<longleftrightarrow> as_id a = snapshot \<and> as_export_file a \<noteq> None"

definition withdraw_export_rows :: "string \<Rightarrow> Db \<Rightarrow> Db" where
  "withdraw_export_rows snapshot d =
     (let rows = filter (is_export snapshot) (artifact_snapshots d);
          fresh = filter (\<lambda>a. \<not> tombstoned ''artifact'' (as_id a) d) rows;
          d = withdraw_rows (is_export snapshot)
                (update_snapshots (is_export snapshot) (\<lambda>a. a\<lparr>as_available := False\<rparr>) d)
      in case fresh of [] \<Rightarrow> d
         | a # _ \<Rightarrow> bump_policy \<lparr>sc_client = as_client a, sc_project = as_project a\<rparr> d)"

definition withdraw_export :: "string \<Rightarrow> unit store_op" where
  "withdraw_export snapshot = transaction (seq (exec (withdraw_export_rows snapshot)) (commit ()))"

definition ready_exports :: "Scope \<Rightarrow> Db \<Rightarrow> (string \<times> string) list" where
  "ready_exports scope d = List.map_filter
     (\<lambda>a. if as_client a = sc_client scope \<and> as_project a = sc_project scope \<and> as_available a
          then map_option (\<lambda>f. (as_id a, f)) (as_export_file a) else None) (artifact_snapshots d)"

definition refresh_export_files :: "Grant \<Rightarrow> unit store_op" where
  "refresh_export_files grant =
     bind (query (ready_exports (g_scope grant))) (\<lambda>rows.
     for_each rows (\<lambda>(snapshot, filename).
       bind (export_path snapshot filename) (\<lambda>path.
       bind (host_call (\<lambda>h n. hst_is_file h n path)) (\<lambda>present.
       if present then skip else withdraw_export snapshot))))"

definition recover_export_files :: "unit store_op" where
  "recover_export_files =
     bind (query (\<lambda>d. filter (\<lambda>a. as_export_file a \<noteq> None) (artifact_snapshots d))) (\<lambda>rows.
     seq (for_each (filter (\<lambda>a. \<not> as_available a) rows) (\<lambda>a. withdraw_export (as_id a))) (
     for_each (remdups (map as_grant_id rows)) (\<lambda>owner.
       bind (query_res (store_grant owner)) (\<lambda>grant.
       seq (refresh_export_files grant) (cleanup_sources grant 100)))))"

section \<open>Files of the workspace\<close>

definition at_location :: "Scope \<Rightarrow> string \<Rightarrow> string option \<Rightarrow> ArtifactSnapshot \<Rightarrow> bool" where
  "at_location scope path branch a \<longleftrightarrow>
     as_client a = sc_client scope \<and> as_project a = sc_project scope \<and> as_path a = path \<and>
     as_branch_id a = branch"

definition tracked_locations :: "Scope \<Rightarrow> Db \<Rightarrow> (string \<times> string option \<times> string) list" where
  "tracked_locations scope d = remdups (map (\<lambda>a. (as_path a, as_branch_id a, as_grant_id a))
     (filter (\<lambda>a. as_client a = sc_client scope \<and> as_project a = sc_project scope \<and> as_available a \<and>
        as_result_run_id a = None \<and> as_export_file a = None) (artifact_snapshots d)))"

definition observe_location :: "Scope \<Rightarrow> string \<Rightarrow> string option \<Rightarrow> string \<Rightarrow> Db \<Rightarrow> Db" where
  "observe_location scope path branch version d =
     (let here = at_location scope path branch;
          d = (if version = ''absent''
               then bump_policy scope (withdraw_rows (\<lambda>a. here a \<and> as_available a) d) else d)
      in update_snapshots here (\<lambda>a. a\<lparr>as_current_version := version,
           as_available := (if version = ''absent'' then False else as_available a)\<rparr>) d)"

definition refresh_location :: "Grant \<Rightarrow> string \<times> string option \<times> string \<Rightarrow> unit store_op" where
  "refresh_location grant location = (case location of (path, branch, owner) \<Rightarrow>
     if path \<notin> set (g_paths grant) \<or> branch \<noteq> None \<and> owner \<noteq> g_id grant then skip
     else
       bind (query_res (branch_path grant branch)) (\<lambda>workspace.
       bind (host_version grant path workspace) (\<lambda>observed.
       transaction (
         seq (exec (observe_location (g_scope grant) path branch (ar_version observed)))
             (commit ())))))"

definition refresh_artifact_sources :: "Grant \<Rightarrow> unit store_op" where
  "refresh_artifact_sources grant =
     bind (query (tracked_locations (g_scope grant))) (\<lambda>locations.
     seq (for_each locations (refresh_location grant)) (
     seq (refresh_export_files grant)
         (cleanup_sources grant 20)))"

section \<open>What a refresh writes\<close>

lemma quiet_branch [quiet_intros]: "quiet (host_version grant path workspace)" "quiet (export_path i f)"
  unfolding host_version_def export_path_def by (intro quiet_intros)+

lemma ignore_frames:
  "tombstoned k i d \<Longrightarrow> tombstoned k i (ignore_tombstone a d)"
  "tombstoned k i (ignore_cleanup a d) = tombstoned k i d"
  "artifact_snapshots (ignore_tombstone a d) = artifact_snapshots d"
  "artifact_snapshots (ignore_cleanup a d) = artifact_snapshots d"
  "tombstoned ''artifact'' (as_id a) (ignore_tombstone a d)"
  by (auto simp: ignore_tombstone_def ignore_cleanup_def tombstoned_def)

lemma fold_ignore_tombstone:
  "tombstoned k i d \<Longrightarrow> tombstoned k i (fold ignore_tombstone as d)"
  "a \<in> set as \<Longrightarrow> tombstoned ''artifact'' (as_id a) (fold ignore_tombstone as d)"
proof -
  show keep: "tombstoned k i d \<Longrightarrow> tombstoned k i (fold ignore_tombstone as d)" for k i d
    by (induction as arbitrary: d) (auto simp: ignore_frames(1))
  show "a \<in> set as \<Longrightarrow> tombstoned ''artifact'' (as_id a) (fold ignore_tombstone as d)"
  proof (induction as arbitrary: d)
    case (Cons b as)
    have "tombstoned k i d' \<Longrightarrow> tombstoned k i (fold ignore_tombstone as d')" for k i d'
      by (induction as arbitrary: d') (auto simp: ignore_frames(1))
    with Cons ignore_frames(5) show ?case by auto
  qed simp
qed

lemma fold_ignore_cleanup [simp]:
  "tombstoned k i (fold ignore_cleanup as d) = tombstoned k i d"
  "artifact_snapshots (fold ignore_cleanup as d) = artifact_snapshots d"
  by (induction as arbitrary: d) (simp_all add: ignore_frames)

lemma fold_ignore_snapshots [simp]:
  "artifact_snapshots (fold ignore_tombstone as d) = artifact_snapshots d"
  by (induction as arbitrary: d) (simp_all add: ignore_frames)

text \<open>A file found gone withdraws every snapshot that was read from it.\<close>

lemma withdraw_rows_withdraws:
  "a \<in> set (artifact_snapshots d) \<Longrightarrow> selected a \<Longrightarrow>
     tombstoned ''artifact'' (as_id a) (withdraw_rows selected d)"
  "tombstoned k i d \<Longrightarrow> tombstoned k i (withdraw_rows selected d)"
  by (simp_all add: withdraw_rows_def fold_ignore_tombstone)

lemma bump_policy_tombstoned [simp]: "tombstoned k i (bump_policy scope d) = tombstoned k i d"
  by (simp add: bump_policy_def tombstoned_def)

lemma update_snapshots_tombstoned [simp]:
  "tombstoned k i (update_snapshots selected f d) = tombstoned k i d"
  by (simp add: update_snapshots_def tombstoned_def)

lemma absent_location_withdrawn:
  "a \<in> set (artifact_snapshots d) \<Longrightarrow> at_location scope path branch a \<Longrightarrow> as_available a \<Longrightarrow>
     tombstoned ''artifact'' (as_id a) (observe_location scope path branch ''absent'' d)"
  unfolding observe_location_def Let_def
  by (simp add: withdraw_rows_withdraws)

end
