(* ===== verification/PropertyValidation.thy ===== *)
theory PropertyValidation
  imports Artifacts Records Runs
begin

text \<open>
  crates/ribosome-core/src/property_validation.rs with \<open>policy_version\<close> of effect_validation.rs:
  which obligations speak of an artifact, which of them a past check still establishes, and whether
  together they make the artifact valid again.
\<close>

section \<open>Obligations\<close>

text \<open>\<open>json_each\<close>: the elements of an array or object; a scalar is its own only element.\<close>

fun json_each :: "json \<Rightarrow> json list" where
  "json_each (JArray xs) = xs"
| "json_each (JObject m) = map snd m"
| "json_each v = [v]"

definition declares_output :: "string \<Rightarrow> json_map \<Rightarrow> bool" where
  "declares_output path body \<longleftrightarrow>
     (case map_of body ''affected_outputs'' of
        None \<Rightarrow> False | Some v \<Rightarrow> JString path \<in> set (json_each v))"

definition obligation_ids :: "Scope \<Rightarrow> string \<Rightarrow> Db \<Rightarrow> string list res" where
  "obligation_ids scope path d =
     (let ids = take 1001 (sort (map rec_id (filter (\<lambda>r. rec_client r = sc_client scope \<and>
            rec_project r = sc_project scope \<and> rec_kind r = RecordKind.Obligation \<and>
            \<not> r_retired (rec_body r) \<and> declares_output path (r_body (rec_body r))) (records d))))
      in and_then (guard (length ids \<le> 1000)
           (exhausted ''artifact has more than 1000 declared obligations; narrow its property set''))
         (\<lambda>_. Inr ids))"

definition require_property_binding :: "Grant \<Rightarrow> PropertyBinding \<Rightarrow> unit store_op" where
  "require_property_binding grant binding =
     bind (read_record grant (vr_id (pb_obligation binding))) (\<lambda>r.
     seq (need (r_kind r = RecordKind.Obligation \<and> r_version r = vr_version (pb_obligation binding))
            (conflict ''registered property no longer matches its obligation version'')) (
     bind (ask (\<lambda>s. env_obligation_of s (r_body r))) (\<lambda>decoded.
     bind (lift decoded) (\<lambda>obligation.
     need (pb_path binding \<in> set (g_paths grant) \<and>
           pb_path binding \<in> set (obl_affected_outputs obligation))
       (denied ''registered property target is outside the obligation or granted artifacts'')))))"

definition require_property_bindings :: "Grant \<Rightarrow> PropertyBinding list \<Rightarrow> unit store_op" where
  "require_property_bindings grant bindings = for_each bindings (require_property_binding grant)"

text \<open>Denied and missing, the codes that make a withdrawn obligation count as absent.\<close>

definition withdrawn_error :: "Error \<Rightarrow> bool" where
  "withdrawn_error e \<longleftrightarrow> e_code e = -32001 \<or> e_code e = -32004"

definition validation_key :: "Scope \<Rightarrow> string \<Rightarrow> string \<Rightarrow> PropertyValidation \<Rightarrow> bool" where
  "validation_key scope path obligation v \<longleftrightarrow>
     pvr_client v = sc_client scope \<and> pvr_project v = sc_project scope \<and> pvr_path v = path \<and>
     pvr_obligation_id v = obligation"

definition property_supported :: "Scope \<Rightarrow> ValidatedProperty \<Rightarrow> nat \<Rightarrow> Db \<Rightarrow> bool" where
  "property_supported scope p generation d \<longleftrightarrow> exists_where (\<lambda>v.
     validation_key scope (ar_path (vp_artifact p)) (vr_id (vp_obligation p)) v \<and>
     pvr_obligation_version v = vr_version (vp_obligation p) \<and>
     pvr_artifact_version v = ar_version (vp_artifact p) \<and> generation \<le> pvr_generation v)
     (property_validations d)"

definition covered_by ::
    "Grant \<Rightarrow> ArtifactRef \<Rightarrow> ValidatedProperty list \<Rightarrow> nat \<Rightarrow> string \<Rightarrow> bool store_op" where
  "covered_by grant artifact candidates generation i =
     bind (attempt (read_record grant i)) (\<lambda>outcome.
     case outcome of
       Inl e \<Rightarrow> if withdrawn_error e then ret False else throw e
     | Inr r \<Rightarrow>
         let p = \<lparr>vp_obligation = \<lparr>vr_id = i, vr_version = r_version r\<rparr>, vp_artifact = artifact\<rparr> in
         if p \<notin> set candidates then ret False
         else query (property_supported (g_scope grant) p generation))"

definition properties_cover_artifact ::
    "Grant \<Rightarrow> ArtifactRef \<Rightarrow> ValidatedProperty list \<Rightarrow> bool store_op" where
  "properties_cover_artifact grant artifact candidates =
     bind (query_res (obligation_ids (g_scope grant) (ar_path artifact))) (\<lambda>ids.
     if ids = [] then ret False
     else
       bind (query (artifact_invalidation_generation (g_scope grant) (ar_path artifact))) (\<lambda>generation.
       all_op (covered_by grant artifact candidates generation) ids))"

section \<open>Current checks\<close>

definition policy_version :: "Grant \<Rightarrow> string store_op" where
  "policy_version grant =
     bind (ask (\<lambda>s. env_grant_json s (grant\<lparr>g_prepared_run := None\<rparr>))) hash"

definition checker_version :: "string \<Rightarrow> string store_op" where
  "checker_version name = host_call (\<lambda>h n. hst_checker_version h n name)"

definition version_is :: "Grant \<Rightarrow> ArtifactRef \<Rightarrow> bool store_op" where
  "version_is grant input =
     bind (attempt (host_version grant (ar_path input) None)) (\<lambda>v. ret (v = Inr input))"

definition checker_is :: "string \<Rightarrow> string \<Rightarrow> bool store_op" where
  "checker_is name version = bind (attempt (checker_version name)) (\<lambda>v. ret (v = Inr version))"

text \<open>The conjuncts of a check's validity, in the order the code evaluates them.\<close>

fun and_op :: "bool store_op list \<Rightarrow> bool store_op" where
  "and_op [] = ret True"
| "and_op (m # ms) = bind m (\<lambda>ok. if ok then and_op ms else ret False)"

definition check_current :: "Grant \<Rightarrow> string \<Rightarrow> ValidationEvidence \<Rightarrow> bool store_op" where
  "check_current grant policy check =
     and_op [
       ret (ve_outcome check = ValidationEvidenceOutcome.Passed),
       ret (ve_policy_version check = policy),
       succeeds (require_source grant ''event'' (ve_receipt_ref check)),
       checker_is (ve_check_ref check) (ve_checker_version check),
       all_op (version_is grant) (ve_inputs check @ ve_targets check)]"

definition established :: "ActionReceipt \<Rightarrow> bool" where
  "established r \<longleftrightarrow> rcp_status r = EffectStatus.Succeeded \<and>
     rcp_outcome_basis r = Some EffectOutcomeBasis.ExecutionEstablished"

definition property_receipt_current :: "Grant \<Rightarrow> ActionReceipt \<Rightarrow> bool store_op" where
  "property_receipt_current grant receipt =
     (if \<not> established receipt then ret False
      else case rcp_evidence_ref receipt of
          None \<Rightarrow> ret False
        | Some source \<Rightarrow>
            bind (succeeds (require_source grant ''event'' source)) (\<lambda>available.
            if \<not> available then ret False
            else case rcp_validations receipt of
                None \<Rightarrow> ret False
              | Some [] \<Rightarrow> ret False
              | Some checks \<Rightarrow>
                  bind (policy_version grant) (\<lambda>policy. all_op (check_current grant policy) checks)))"

section \<open>Assessment\<close>

definition effect_row :: "Db \<Rightarrow> string \<Rightarrow> EffectRow option" where
  "effect_row d i = List.find (\<lambda>e. ef_id e = i) (effects d)"

type_synonym receipt_cache = "(string \<times> ActionReceipt option) list"

text \<open>The receipt behind a stored validation, checked once in an assessment.\<close>

definition cached_receipt ::
    "Grant \<Rightarrow> receipt_cache \<Rightarrow> string \<Rightarrow> receipt_cache store_op" where
  "cached_receipt grant cache operation =
     (if map_of cache operation \<noteq> None then ret cache
      else
        bind (query_res (\<lambda>d. the_row (effect_row d operation))) (\<lambda>row.
        bind (property_receipt_current grant (ef_body row)) (\<lambda>eligible.
        ret ((operation, if eligible then Some (ef_body row) else None) # cache))))"

definition assessed ::
    "ValidatedProperty \<Rightarrow> nat \<Rightarrow> PropertyValidation \<Rightarrow> ActionReceipt option \<Rightarrow> PropertyAssessment" where
  "assessed p generation past receipt =
     (case receipt of
        Some r \<Rightarrow>
          if pvr_obligation_version past = vr_version (vp_obligation p) \<and>
             pvr_artifact_version past = ar_version (vp_artifact p) \<and>
             generation \<le> pvr_generation past \<and>
             (case rcp_restored_properties r of None \<Rightarrow> False | Some ps \<Rightarrow> p \<in> set ps)
          then \<lparr>pa_obligation = vp_obligation p, pa_state = PropertyAssessmentState.Validated,
                pa_evidence_refs = (case rcp_evidence_ref r of None \<Rightarrow> [] | Some e \<Rightarrow> [e])\<rparr>
          else \<lparr>pa_obligation = vp_obligation p, pa_state = PropertyAssessmentState.Stale,
                pa_evidence_refs = []\<rparr>
      | None \<Rightarrow> \<lparr>pa_obligation = vp_obligation p, pa_state = PropertyAssessmentState.Stale,
                pa_evidence_refs = []\<rparr>)"

definition assess_one ::
    "Grant \<Rightarrow> ArtifactRef \<Rightarrow> nat \<Rightarrow> receipt_cache \<times> PropertyAssessment list \<Rightarrow> string \<Rightarrow>
     (receipt_cache \<times> PropertyAssessment list) store_op" where
  "assess_one grant artifact generation state i = (case state of (cache, assessments) \<Rightarrow>
     bind (attempt (read_record grant i)) (\<lambda>outcome.
     case outcome of
       Inl e \<Rightarrow> if withdrawn_error e then ret (cache, assessments) else throw e
     | Inr r \<Rightarrow>
         let reference = \<lparr>vr_id = r_id r, vr_version = r_version r\<rparr>;
             p = \<lparr>vp_obligation = reference, vp_artifact = artifact\<rparr>
         in bind (query (\<lambda>d. List.find
                (validation_key (g_scope grant) (ar_path artifact) (vr_id reference))
                (property_validations d))) (\<lambda>found.
            case found of
              None \<Rightarrow> ret (cache, assessments @ [\<lparr>pa_obligation = reference,
                  pa_state = PropertyAssessmentState.Unproven, pa_evidence_refs = []\<rparr>])
            | Some past \<Rightarrow>
                bind (cached_receipt grant cache (pvr_operation_id past)) (\<lambda>cache.
                ret (cache, assessments @ [assessed p generation past
                  (Option.bind (map_of cache (pvr_operation_id past)) (\<lambda>x. x))])))))"

definition assess_properties :: "Grant \<Rightarrow> ArtifactRef \<Rightarrow> PropertyAssessment list store_op" where
  "assess_properties grant artifact =
     bind (query (artifact_invalidation_generation (g_scope grant) (ar_path artifact))) (\<lambda>generation.
     bind (query_res (obligation_ids (g_scope grant) (ar_path artifact))) (\<lambda>ids.
     bind (fold_op (assess_one grant artifact generation) ([], []) ids) (\<lambda>(cache, assessments).
     ret assessments)))"

definition version_snapshot :: "Grant \<Rightarrow> ArtifactRef \<Rightarrow> string \<Rightarrow> ArtifactSnapshot" where
  "version_snapshot grant artifact i =
     \<lparr>as_id = i, as_client = sc_client (g_scope grant), as_project = sc_project (g_scope grant),
      as_grant_id = g_id grant, as_path = ar_path artifact, as_branch_id = None,
      as_split = derived_split (g_visible_splits grant), as_version = ar_version artifact,
      as_current_version = ar_version artifact, as_required_freshness = ''historical'',
      as_available = True, as_export_file = None, as_result_run_id = None,
      as_result_call_id = None, as_result_args_hash = None,
      as_result_method = None, as_result_sources = [], as_version_only = True,
      as_body = JObject [(''artifact'', JObject [(''path'', JString (ar_path artifact)),
          (''version'', JString (ar_version artifact))]),
        (''snapshot_id'', JString i), (''version_only'', JBool True)],
      as_result_content = None\<rparr>"

text \<open>The primary key, and the unique indexes of exports and of retained results.\<close>

definition clashes :: "ArtifactSnapshot \<Rightarrow> ArtifactSnapshot \<Rightarrow> bool" where
  "clashes a r \<longleftrightarrow> as_id r = as_id a \<or>
     as_export_file a \<noteq> None \<and> as_export_file r = as_export_file a \<or>
     as_result_run_id a \<noteq> None \<and> as_result_call_id a \<noteq> None \<and>
       as_result_run_id r = as_result_run_id a \<and> as_result_call_id r = as_result_call_id a"

definition insert_snapshot :: "ArtifactSnapshot \<Rightarrow> unit store_op" where
  "insert_snapshot a = insert_row
     (\<lambda>d. \<not> exists_where (clashes a) (artifact_snapshots d))
     (\<lambda>d. d\<lparr>artifact_snapshots := artifact_snapshots d @ [a]\<rparr>)"

definition artifact_validity :: "Grant \<Rightarrow> ArtifactValidityRequest \<Rightarrow> ArtifactValidity store_op" where
  "artifact_validity grant request =
     bind (host_version grant (avr_path request) None) (\<lambda>artifact.
     seq (need (ar_version artifact \<noteq> ''absent'') (missing ''artifact does not exist'')) (
     bind (assess_properties grant artifact) (\<lambda>properties.
     bind new_id (\<lambda>snapshot.
     bind (query (artifact_invalidation_generation (g_scope grant) (ar_path artifact))) (\<lambda>generation.
     seq (insert_snapshot (version_snapshot grant artifact snapshot)) (
     bind now_ms (\<lambda>now.
     ret \<lparr>av_artifact = artifact, av_snapshot_id = snapshot, av_observed_ms = to_string now,
          av_generation = to_string generation, av_properties = properties\<rparr>)))))))"

end
