(* ===== verification/EffectLog.thy ===== *)
theory EffectLog
  imports PropertyValidation
begin

text \<open>
  The durable life of an effect (effect_finalization.rs, effect_validation.rs, effect_context.rs and
  the writer handoff of attachments/repair.rs): prepared, dispatching, observed, finalized. Each
  phase is one conditional UPDATE, so an operation that lost its phase is refused.

  An operation that revises the pending observation runs on the world and the observation together;
  an error leaves the revised observation behind, as \<open>&mut EffectObservation\<close> does.
\<close>

section \<open>Observations in progress\<close>

type_synonym 'a effect_op = "(World \<times> EffectObservation, 'a) op"

definition observing :: "'a store_op \<Rightarrow> 'a effect_op" where
  "observing m = (\<lambda>(s, x). case m s of (r, t) \<Rightarrow> (r, (t, x)))"

definition observed :: "(EffectObservation \<Rightarrow> 'a) \<Rightarrow> 'a effect_op" where
  "observed f = ask (\<lambda>(s, x). f x)"

definition revise :: "(EffectObservation \<Rightarrow> EffectObservation) \<Rightarrow> unit effect_op" where
  "revise f = modify (\<lambda>(s, x). (s, f x))"

definition revise_receipt :: "(ActionReceipt \<Rightarrow> ActionReceipt) \<Rightarrow> unit effect_op" where
  "revise_receipt f = revise (\<lambda>x. x\<lparr>eo_receipt := f (eo_receipt x)\<rparr>)"

definition revise_preflight :: "(EffectPreflight \<Rightarrow> EffectPreflight) \<Rightarrow> unit effect_op" where
  "revise_preflight f = revise (\<lambda>x. x\<lparr>eo_preflight := f (eo_preflight x)\<rparr>)"

definition run_observed ::
    "unit effect_op \<Rightarrow> EffectObservation \<Rightarrow> (unit res \<times> EffectObservation) store_op" where
  "run_observed m x s = (case m (s, x) of (r, (t, y)) \<Rightarrow> (Inr (r, y), t))"

definition new_observation :: "ActionReceipt \<Rightarrow> EffectObservation" where
  "new_observation receipt =
     \<lparr>eo_receipt = receipt, eo_writes = [], eo_validation_generation = 0, eo_branch = None,
      eo_preflight = \<lparr>epf_checks = [], epf_intervention = None, epf_properties = []\<rparr>\<rparr>"

section \<open>Phases\<close>

definition update_effect :: "string \<Rightarrow> (EffectRow \<Rightarrow> EffectRow) \<Rightarrow> Db \<Rightarrow> Db" where
  "update_effect i f d = d\<lparr>effects := update_where (\<lambda>e. ef_id e = i) f (effects d)\<rparr>"

text \<open>An UPDATE of the row in one of the given phases; no such row is the refusal.\<close>

definition move_effect ::
    "string \<Rightarrow> EffectPhase set \<Rightarrow> string \<Rightarrow> (EffectRow \<Rightarrow> EffectRow) \<Rightarrow> unit store_op" where
  "move_effect i phases refusal f =
     bind (query (\<lambda>d. exists_where (\<lambda>e. ef_id e = i \<and> ef_phase e \<in> phases) (effects d))) (\<lambda>found.
     seq (need found (conflict refusal)) (exec (update_effect i f)))"

definition pin_effect_checks :: "EffectObservation \<Rightarrow> unit store_op" where
  "pin_effect_checks x =
     move_effect (rcp_operation_id (eo_receipt x)) {PhasePrepared}
       ''effect is no longer prepared for checker preflight''
       (\<lambda>e. e\<lparr>ef_preflight := Some (eo_preflight x)\<rparr>)"

definition live_write :: "Action \<Rightarrow> bool" where
  "live_write a \<longleftrightarrow> act_kind a = ActionKind.Apply \<or>
     act_branch_id a = None \<and> (act_kind a = ActionKind.Edit \<or> act_kind a = ActionKind.Execute)"

definition holds_writer :: "string \<Rightarrow> Attachment \<Rightarrow> bool store_op" where
  "holds_writer run a =
     (if AttachmentCapability.CoordinatedWrite \<notin> set (at_capabilities a) then ret False
      else case at_handoff a of
          None \<Rightarrow> ret False
        | Some h \<Rightarrow>
            if \<not> (rh_state h = RepairHandoffState.Held \<and> rh_work_id h = run) then ret False
            else case counter (rh_deadline_ms h) of
                Inl _ \<Rightarrow> ret False
              | Inr deadline \<Rightarrow> bind now_ms (\<lambda>now. ret (now < deadline)))"

definition require_attachment_write :: "string \<Rightarrow> Action \<Rightarrow> unit store_op" where
  "require_attachment_write run action =
     (if \<not> live_write action then skip
      else
        bind (query_res (run_attachment run)) (\<lambda>attached.
        case attached of
          None \<Rightarrow> skip
        | Some a \<Rightarrow>
            bind (holds_writer run a) (\<lambda>holds.
            need holds
              (denied ''live attachment writes require a current cooperative writer handoff''))))"

definition cancellation :: "string \<Rightarrow> bool store_op" where
  "cancellation run = host_call (\<lambda>h n. Inr (hst_cancelled h n run))"

text \<open>Another effect that may still write the workspace.\<close>

definition may_write :: "EffectRow \<Rightarrow> bool" where
  "may_write e \<longleftrightarrow> ef_potential_writes e \<noteq> [] \<or> live_write (rcp_action (ef_body e))"

definition pending_write :: "string \<Rightarrow> EffectRow \<Rightarrow> bool" where
  "pending_write i e \<longleftrightarrow> ef_id e \<noteq> i \<and>
     (ef_phase e = PhaseDispatching \<or> ef_phase e = PhaseObserved \<or>
      rcp_status (ef_body e) = EffectStatus.Unknown \<and> ef_settlement e = None) \<and>
     may_write e"

definition check_intervention_version :: "Grant \<Rightarrow> VersionRef option \<Rightarrow> unit store_op" where
  "check_intervention_version grant pinned =
     (case pinned of
        None \<Rightarrow> skip
      | Some reference \<Rightarrow>
          bind (read_record grant (vr_id reference)) (\<lambda>current.
          need (r_version current = vr_version reference)
            (conflict ''intervention changed during effect preflight'')))"

definition dispatched_row :: "EffectObservation \<Rightarrow> EffectRow \<Rightarrow> EffectRow" where
  "dispatched_row x e = e\<lparr>ef_phase := PhaseDispatching, ef_body := eo_receipt x,
     ef_potential_writes := eo_writes x, ef_validation_generation := eo_validation_generation x\<rparr>"

definition start_dispatch :: "Grant \<Rightarrow> string list \<Rightarrow> unit effect_op" where
  "start_dispatch grant writes =
     bind (observed eo_receipt) (\<lambda>receipt.
     bind (observed eo_preflight) (\<lambda>preflight.
     bind (observing (require_active (rcp_run_id receipt))) (\<lambda>active.
     seq (need (active = grant) (denied ''owner policy changed during effect preflight'')) (
     bind (observing (cancellation (rcp_run_id receipt))) (\<lambda>cancelled.
     seq (need (\<not> cancelled) (denied ''run cancelled before adapter dispatch'')) (
     seq (observing (require_attachment_write (rcp_run_id receipt) (rcp_action receipt))) (
     seq (observing (check_intervention_version grant (epf_intervention preflight))) (
     seq (observing (require_property_bindings grant (epf_properties preflight))) (
     bind (observing (query (\<lambda>d. writes \<noteq> [] \<and>
         exists_where (pending_write (rcp_operation_id receipt)) (effects d)))) (\<lambda>unsettled.
     seq (need (\<not> unsettled) (denied (''unsettled workspace effects retain write ownership; '' @
            ''reconcile them before new live writes''))) (
     bind (observing (query (validity_generation (g_scope grant)))) (\<lambda>generation.
     seq (revise (\<lambda>x. x\<lparr>eo_validation_generation := generation, eo_writes := writes\<rparr>)) (
     bind (observed (\<lambda>x. x)) (\<lambda>x.
     observing (move_effect (rcp_operation_id receipt) {PhasePrepared}
       ''effect is no longer prepared for dispatch'' (dispatched_row x))))))))))))))))"

definition capture_effect :: "EffectObservation \<Rightarrow> unit store_op" where
  "capture_effect x =
     move_effect (rcp_operation_id (eo_receipt x)) {PhasePrepared, PhaseDispatching}
       ''effect observation was already captured''
       (\<lambda>e. e\<lparr>ef_phase := PhaseObserved, ef_observation := Some x\<rparr>)"

section \<open>Transferable validation\<close>

definition check_evidence ::
    "Grant \<Rightarrow> ActionReceipt \<Rightarrow> CheckOutput \<Rightarrow> nat \<Rightarrow> ValidationEvidence store_op" where
  "check_evidence grant receipt result generation =
     bind (expect (act_tool (rcp_action receipt)) (internal ''checked action has a registered tool'')) (\<lambda>tool.
     bind (policy_version grant) (\<lambda>policy.
     bind (hash (rcp_operation_id receipt)) (\<lambda>digest.
     ret \<lparr>ve_check_ref = tool, ve_checker_version = co_checker_version result,
          ve_policy_version = policy, ve_authority = ''ribosome-host'',
          ve_receipt_ref = ''receipt:'' @ digest, ve_inputs = co_before result,
          ve_targets = filter (\<lambda>a. ar_path a \<in> set (co_validates result)) (co_after result),
          ve_outcome = co_validation_outcome result, ve_branch_id = act_branch_id (rcp_action receipt),
          ve_generation = to_string generation,
          ve_properties = Some (List.map_filter (\<lambda>b. map_option
              (\<lambda>a. \<lparr>vp_obligation = pb_obligation b, vp_artifact = a\<rparr>)
              (List.find (\<lambda>a. ar_path a = pb_path b) (co_after result))) (co_properties result))\<rparr>)))"

text \<open>The targets of all checks by path; of two generations the older one counts.\<close>

definition add_target ::
    "nat \<Rightarrow> (string \<times> ArtifactRef \<times> nat) list \<Rightarrow> ArtifactRef \<Rightarrow> (string \<times> ArtifactRef \<times> nat) list" where
  "add_target generation targets target =
     (case map_of targets (ar_path target) of
        None \<Rightarrow> map_insert (ar_path target) (target, generation) targets
      | Some (first, cutoff) \<Rightarrow>
          map_insert (ar_path target) (first, min cutoff generation) targets)"

definition check_transfers :: "Grant \<Rightarrow> string \<Rightarrow> ValidationEvidence \<Rightarrow> bool store_op" where
  "check_transfers grant policy check =
     and_op [
       ret (ve_outcome check = ValidationEvidenceOutcome.Passed),
       ret (ve_policy_version check = policy),
       checker_is (ve_check_ref check) (ve_checker_version check),
       all_op (version_is grant) (ve_inputs check @ ve_targets check)]"

definition transfer_targets :: "Action \<Rightarrow> ArtifactRef list \<Rightarrow> ArtifactRef list" where
  "transfer_targets action targets =
     filter (\<lambda>t. act_kind action \<noteq> ActionKind.Apply \<or> act_path action = Some (ar_path t)) targets"

fun collect_targets ::
    "Grant \<Rightarrow> string \<Rightarrow> Action \<Rightarrow> (string \<times> ArtifactRef \<times> nat) list \<Rightarrow> ValidationEvidence list \<Rightarrow>
     (string \<times> ArtifactRef \<times> nat) list option store_op" where
  "collect_targets grant policy action targets [] = ret (Some targets)"
| "collect_targets grant policy action targets (check # checks) =
     bind (check_transfers grant policy check) (\<lambda>ok.
     if \<not> ok then ret None
     else
       bind (lift (counter (ve_generation check))) (\<lambda>generation.
       collect_targets grant policy action
         (foldl (add_target (min generation i64_max)) targets
           (transfer_targets action (ve_targets check))) checks))"

definition checks_as_planned :: "(string \<times> string) list \<Rightarrow> ValidationEvidence list \<Rightarrow> bool" where
  "checks_as_planned planned checks \<longleftrightarrow> length planned = length checks \<and>
     list_all (\<lambda>(name, version). exists_where (\<lambda>c. ve_check_ref c = name \<and>
       ve_checker_version c = version) checks) planned"

definition intervention_current :: "Grant \<Rightarrow> ActionReceipt \<Rightarrow> EffectPreflight \<Rightarrow> bool store_op" where
  "intervention_current grant receipt preflight =
     (case epf_intervention preflight of
        None \<Rightarrow> ret False
      | Some reference \<Rightarrow>
          bind (attempt (read_record grant (vr_id reference))) (\<lambda>outcome.
          if \<not> (case outcome of Inl _ \<Rightarrow> False | Inr r \<Rightarrow> r_version r = vr_version reference)
          then ret False
          else succeeds (require_attachment_write (rcp_run_id receipt) (rcp_action receipt))))"

definition transferable_validation ::
    "Grant \<Rightarrow> ActionReceipt \<Rightarrow> EffectPreflight \<Rightarrow> (ArtifactRef \<times> nat) list store_op" where
  "transferable_validation grant receipt preflight =
     (let action = rcp_action receipt in
      if \<not> established receipt \<or> act_kind action \<noteq> ActionKind.Apply \<and> act_branch_id action \<noteq> None
      then ret []
      else case rcp_validations receipt of
          None \<Rightarrow> ret []
        | Some checks \<Rightarrow>
            if checks = [] then ret []
            else
              bind (query_res (run_grant (rcp_run_id receipt))) (\<lambda>current.
              if current \<noteq> grant then ret []
              else
                bind (lift (counter (b_deadline_ms (g_budget grant)))) (\<lambda>deadline.
                bind now_ms (\<lambda>now.
                if deadline \<le> now then ret []
                else
                  bind (if act_kind action = ActionKind.Apply
                        then intervention_current grant receipt preflight else ret True) (\<lambda>fresh.
                  if \<not> fresh then ret []
                  else
                    bind (policy_version grant) (\<lambda>policy.
                    bind (collect_targets grant policy action [] checks) (\<lambda>collected.
                    case collected of
                      None \<Rightarrow> ret []
                    | Some targets \<Rightarrow>
                        if \<not> checks_as_planned (epf_checks preflight) checks then ret []
                        else
                          bind (lift (map_res (\<lambda>c. counter (ve_generation c)) checks)) (\<lambda>generations.
                          let oldest = min (foldr min (tl generations) (hd generations)) i64_max in
                          ret (map (\<lambda>(path, target, generation). (target, min generation oldest))
                            targets)))))))))"

section \<open>Delivery\<close>

definition receipt_for_delivery :: "Grant \<Rightarrow> ActionReceipt \<Rightarrow> ActionReceipt store_op" where
  "receipt_for_delivery grant receipt =
     bind (case rcp_evidence_ref receipt of
             None \<Rightarrow> ret False
           | Some reference \<Rightarrow>
               bind (source_available grant ''event'' reference) (\<lambda>ok.
               ret (rcp_content_available receipt = Some True \<and> ok))) (\<lambda>available.
     bind (case rcp_settlement receipt of
             None \<Rightarrow> ret available
           | Some settlement \<Rightarrow>
               bind (source_available grant ''event'' (est_evidence_ref settlement)) (\<lambda>ok.
               ret (available \<and> ok))) (\<lambda>available.
     ret (if available then receipt else withhold_content receipt)))"

end
