(* ===== verification/Finalization.thy ===== *)
theory Finalization
  imports EffectLog
begin

text \<open>
  \<open>finalize_effect\<close> of effect_finalization.rs: the retryable bookkeeping that turns a captured
  observation into the receipt of record. What the effect may have written is invalidated, what an
  established check still covers is restored, and the receipt is ingested as an event.
\<close>

section \<open>Model\<close>

definition effect_authority :: "EffectRow \<Rightarrow> Db \<Rightarrow> Grant option" where
  "effect_authority e d = (case ef_authority e of Some g \<Rightarrow> Some g | None \<Rightarrow> grant_body d (ef_grant_id e))"

definition validated_properties :: "ArtifactRef \<Rightarrow> PropertyAssessment list \<Rightarrow> ValidatedProperty list" where
  "validated_properties artifact assessments =
     map (\<lambda>a. \<lparr>vp_obligation = pa_obligation a, vp_artifact = artifact\<rparr>)
       (filter (\<lambda>a. pa_state a = PropertyAssessmentState.Validated) assessments)"

text \<open>What each target was already known to satisfy, before this effect's checks.\<close>

definition previous_properties ::
    "Grant \<Rightarrow> (ArtifactRef \<times> nat) list \<Rightarrow> (string \<times> ValidatedProperty list) list store_op" where
  "previous_properties grant validated =
     fold_op (\<lambda>previous (artifact, _). bind (assess_properties grant artifact) (\<lambda>assessments.
       ret (map_insert (ar_path artifact) (validated_properties artifact assessments) previous)))
       [] validated"

definition record_branch :: "Grant \<Rightarrow> CreatedBranch option \<Rightarrow> unit store_op" where
  "record_branch grant branch =
     (case branch of
        None \<Rightarrow> skip
      | Some b \<Rightarrow> insert_row (\<lambda>d. \<not> exists_where (\<lambda>r. br_id r = cb_id b) (branches d))
          (\<lambda>d. d\<lparr>branches := branches d @
             [\<lparr>br_id = cb_id b, br_grant_id = g_id grant, br_path = cb_path b,
               br_versions = cb_versions b\<rparr>]\<rparr>))"

definition invalidate_writes :: "Scope \<Rightarrow> string list \<Rightarrow> string list \<Rightarrow> string list store_op" where
  "invalidate_writes scope side_effects writes =
     fold_op (\<lambda>effects path. bind (invalidate_dependents scope path) (\<lambda>affected.
       ret (effects @ affected))) side_effects writes"

definition put_validation :: "PropertyValidation \<Rightarrow> Db \<Rightarrow> Db" where
  "put_validation v d = d\<lparr>property_validations := upsert
     (\<lambda>w. pvr_client w = pvr_client v \<and> pvr_project w = pvr_project v \<and> pvr_path w = pvr_path v \<and>
       pvr_obligation_id w = pvr_obligation_id v)
     (\<lambda>w. if pvr_generation w \<le> pvr_generation v then v else w) v (property_validations d)\<rparr>"

definition validation_of ::
    "Scope \<Rightarrow> ArtifactRef \<Rightarrow> ValidatedProperty \<Rightarrow> string \<Rightarrow> nat \<Rightarrow> PropertyValidation" where
  "validation_of scope artifact p operation generation =
     \<lparr>pvr_client = sc_client scope, pvr_project = sc_project scope, pvr_path = ar_path artifact,
      pvr_obligation_id = vr_id (vp_obligation p),
      pvr_obligation_version = vr_version (vp_obligation p),
      pvr_artifact_version = ar_version artifact, pvr_operation_id = operation,
      pvr_generation = generation\<rparr>"

definition push_new :: "'a \<Rightarrow> 'a list \<Rightarrow> 'a list" where
  "push_new x xs = (if x \<in> set xs then xs else xs @ [x])"

text \<open>Denied, conflicting or missing: the obligation changed, and the property is passed over.\<close>

definition passed_over :: "Error \<Rightarrow> bool" where
  "passed_over e \<longleftrightarrow> e_code e = -32001 \<or> e_code e = -32002 \<or> e_code e = -32004"

definition restore_property ::
    "Grant \<Rightarrow> string \<Rightarrow> ArtifactRef \<Rightarrow> nat \<Rightarrow> ValidatedProperty list \<times> ValidatedProperty list \<Rightarrow>
     ValidatedProperty \<Rightarrow> (ValidatedProperty list \<times> ValidatedProperty list) store_op" where
  "restore_property grant operation artifact generation state p = (case state of (covered, restored) \<Rightarrow>
     bind (attempt (require_property_binding grant
         \<lparr>pb_obligation = vp_obligation p, pb_path = ar_path artifact\<rparr>)) (\<lambda>outcome.
     case outcome of
       Inl e \<Rightarrow> if passed_over e then ret (covered, restored) else throw e
     | Inr _ \<Rightarrow>
         seq (exec (put_validation (validation_of (g_scope grant) artifact p operation generation)))
             (ret (push_new p covered, push_new p restored))))"

definition clear_invalid :: "Scope \<Rightarrow> string \<Rightarrow> nat \<Rightarrow> Db \<Rightarrow> Db" where
  "clear_invalid scope path generation d = d\<lparr>invalidated := delete_where
     (\<lambda>g. path_key scope path g \<and> pg_generation g \<le> generation) (invalidated d)\<rparr>"

definition checked_properties :: "ActionReceipt \<Rightarrow> ArtifactRef \<Rightarrow> ValidatedProperty list" where
  "checked_properties receipt artifact =
     filter (\<lambda>p. vp_artifact p = artifact)
       (concat (map (\<lambda>c. case ve_properties c of None \<Rightarrow> [] | Some ps \<Rightarrow> ps)
         (case rcp_validations receipt of None \<Rightarrow> [] | Some cs \<Rightarrow> cs)))"

text \<open>The receipt's restored artifacts and properties so far.\<close>

type_synonym restoration = "ArtifactRef list \<times> ValidatedProperty list"

definition restore_artifact ::
    "Grant \<Rightarrow> string \<Rightarrow> ActionReceipt \<Rightarrow> (string \<times> ValidatedProperty list) list \<Rightarrow> restoration \<Rightarrow>
     ArtifactRef \<times> nat \<Rightarrow> restoration store_op" where
  "restore_artifact grant operation receipt previous state target =
     (case state of (validity, restored) \<Rightarrow> case target of (artifact, generation) \<Rightarrow>
      bind (query (artifact_invalidation_generation (g_scope grant) (ar_path artifact))) (\<lambda>latest.
      if generation < latest then ret (validity, restored)
      else
        let known = (case map_of previous (ar_path artifact) of None \<Rightarrow> [] | Some ps \<Rightarrow> ps) in
        bind (fold_op (restore_property grant operation artifact generation) (known, restored)
            (checked_properties receipt artifact)) (\<lambda>(covered, restored).
        bind (properties_cover_artifact grant artifact covered) (\<lambda>covers.
        if covers
        then seq (exec (clear_invalid (g_scope grant) (ar_path artifact) generation))
                 (ret (validity @ [artifact], restored))
        else ret (validity, restored)))))"

definition restoration_note :: "ActionReceipt \<Rightarrow> restoration \<Rightarrow> string" where
  "restoration_note receipt state = (case state of (validity, restored) \<Rightarrow>
     if act_kind (rcp_action receipt) = ActionKind.Apply \<and> rcp_status receipt = EffectStatus.Succeeded \<and>
        validity = []
     then if restored \<noteq> []
          then '' Only the listed properties were restored; other declared properties remain unproven.''
          else '' Current validity was not restored; fresh authorized checks are required.''
     else [])"

definition receipt_kind :: "ActionReceipt \<Rightarrow> string" where
  "receipt_kind receipt =
     (if rcp_reconciled receipt then ''action_reconciliation''
      else if act_kind (rcp_action receipt) = ActionKind.Check then ''check_completion''
      else ''action_completion'')"

definition receipt_event ::
    "Grant \<Rightarrow> string \<Rightarrow> ActionReceipt \<Rightarrow> string \<Rightarrow> nat \<Rightarrow> string \<Rightarrow> string list \<Rightarrow> json_map \<Rightarrow> Event" where
  "receipt_event grant operation receipt reference sequence timestamp sources payload =
     \<lparr>ev_id = reference, ev_scope = g_scope grant, ev_run_id = rcp_run_id receipt,
      ev_producer = ''ribosome-host'', ev_sequence = to_string sequence,
      ev_kind = receipt_kind receipt, ev_timestamp_ms = timestamp, ev_parents = [],
      ev_correlation = operation, ev_artifacts = rcp_after receipt, ev_payload = payload,
      ev_provenance = \<lparr>pv_origin = Origin.Observed, pv_source_refs = sources,
        pv_scenario_family = ''host-effects'', pv_split = derived_split (g_visible_splits grant),
        pv_limitations = []\<rparr>\<rparr>"

definition finished_ms :: "ActionReceipt \<Rightarrow> string store_op" where
  "finished_ms receipt =
     (case rcp_finished_ms receipt of
        Some t \<Rightarrow> ret t | None \<Rightarrow> bind now_ms (\<lambda>now. ret (to_string now)))"

definition publish_receipt :: "Grant \<Rightarrow> string \<Rightarrow> ActionReceipt \<Rightarrow> ActionReceipt store_op" where
  "publish_receipt grant operation receipt =
     bind (hash operation) (\<lambda>digest.
     let reference = ''receipt:'' @ digest;
         sources = (case rcp_evidence_ref receipt of None \<Rightarrow> [] | Some r \<Rightarrow> [r]);
         receipt = receipt\<lparr>rcp_evidence_ref := Some reference\<rparr>
     in bind (query_res (\<lambda>d. the_row (effect_row d operation))) (\<lambda>row.
        bind (finished_ms receipt) (\<lambda>timestamp.
        bind (ask (\<lambda>s. env_receipt_map s receipt)) (\<lambda>payload.
        bind (ingest (receipt_event grant operation receipt reference (ef_rowid row) timestamp
            sources payload)) (\<lambda>_.
        seq (exec (update_effect operation
               (\<lambda>e. e\<lparr>ef_phase := PhaseFinalized, ef_body := receipt\<rparr>)))
            (ret receipt))))))"

definition finalize_observed ::
    "Grant \<Rightarrow> string \<Rightarrow> EffectObservation \<Rightarrow> (ArtifactRef \<times> nat) list \<Rightarrow>
     (string \<times> ValidatedProperty list) list \<Rightarrow> ActionReceipt txn store_op" where
  "finalize_observed grant operation x validated previous =
     bind (query_res (\<lambda>d. the_row (effect_row d operation))) (\<lambda>row.
     if ef_phase row = PhaseFinalized then ret (Rollback (ef_body row))
     else
       seq (need (ef_phase row = PhaseObserved) (conflict ''effect outcome changed before finalization'')) (
       seq (record_branch grant (eo_branch x)) (
       bind (invalidate_writes (g_scope grant) (rcp_side_effects (eo_receipt x)) (eo_writes x)) (\<lambda>effects.
       let receipt = (eo_receipt x)\<lparr>rcp_side_effects := remdups_adj (sort effects)\<rparr> in
       bind (fold_op (restore_artifact grant operation receipt previous) ([], []) validated) (\<lambda>restored.
       let receipt = receipt\<lparr>rcp_restored_validity := Some (fst restored),
             rcp_restored_properties := Some (snd restored),
             rcp_output := rcp_output receipt @ restoration_note receipt restored\<rparr>
       in bind (publish_receipt grant operation receipt) commit)))))"

definition finalize_effect :: "string \<Rightarrow> ActionReceipt store_op" where
  "finalize_effect operation =
     bind (query_res (\<lambda>d. the_row (effect_row d operation))) (\<lambda>row.
     bind (query (effect_authority row)) (\<lambda>authority.
     bind (expect authority (internal ''Invalid column type'')) (\<lambda>grant.
     if ef_phase row = PhaseFinalized then ret (ef_body row)
     else
       seq (need (ef_phase row = PhaseObserved) (conflict ''effect has no captured outcome to finalize'')) (
       bind (expect (ef_observation row) (internal ''observed effect lacks its adapter outcome'')) (\<lambda>x.
       bind (transferable_validation grant (eo_receipt x) (eo_preflight x)) (\<lambda>validated.
       bind (previous_properties grant validated) (\<lambda>previous.
       transaction (finalize_observed grant operation x validated previous))))))))"

end
