(* ===== verification/Effects.thy ===== *)
theory Effects
  imports Finalization
begin

text \<open>
  crates/ribosome-core/src/effects.rs: the execution of an action. The intent is committed before
  the host is asked for anything, the host's outcome is captured before any bookkeeping, and an
  operation id is executed at most once: a repetition looks the first execution up.
\<close>

section \<open>Recovery\<close>

definition reconciled_output :: string where
  "reconciled_output =
     ''Host has no captured adapter outcome. No retry was dispatched; '' @
     ''owner reconciliation remains required.''"

definition postcondition_output :: string where
  "postcondition_output =
     ''Desired current content observed. This does not establish dispatch, execution, or required '' @
     ''checks. Owner reconciliation and fresh validation remain required.''"

definition unresolved :: "ActionReceipt \<Rightarrow> nat \<Rightarrow> ActionReceipt" where
  "unresolved receipt now = receipt\<lparr>rcp_reconciled := True, rcp_finished_ms := Some (to_string now),
     rcp_status := EffectStatus.Unknown, rcp_outcome_basis := Some EffectOutcomeBasis.Unresolved,
     rcp_output := reconciled_output\<rparr>"

definition recovery_writes :: "Grant \<Rightarrow> Action \<Rightarrow> string list \<Rightarrow> string list" where
  "recovery_writes grant action writes =
     (if writes = [] \<and> act_kind action = ActionKind.Execute \<and> act_branch_id action = None
      then (case g_writable_paths grant of Some ps \<Rightarrow> ps | None \<Rightarrow> g_paths grant)
      else writes)"

text \<open>Whether the content an edit or application wanted is there now.\<close>

definition observe_postcondition ::
    "Grant \<Rightarrow> ActionReceipt \<Rightarrow> string list \<Rightarrow> (ActionReceipt \<times> string list) store_op" where
  "observe_postcondition grant receipt writes =
     (let action = rcp_action receipt in
      if act_kind action \<noteq> ActionKind.Edit \<and> act_kind action \<noteq> ActionKind.Apply
      then ret (receipt, writes)
      else
        bind (query (\<lambda>d. branch_path grant
            (if act_kind action = ActionKind.Edit then act_branch_id action else None) d)) (\<lambda>found.
        case (found, act_path action, act_content action) of
          (Inr workspace, Some path, Some content) \<Rightarrow>
            let writes = (if workspace = None then writes @ [path] else writes) in
            bind (attempt (host_version grant path workspace)) (\<lambda>current.
            bind (hash content) (\<lambda>digest.
            case current of
              Inl _ \<Rightarrow> ret (receipt, writes)
            | Inr a \<Rightarrow>
                if ar_version a = digest
                then ret (receipt\<lparr>
                    rcp_outcome_basis := Some EffectOutcomeBasis.CurrentPostconditionObserved,
                    rcp_after := [a], rcp_output := postcondition_output\<rparr>, writes)
                else ret (receipt, writes)))
        | _ \<Rightarrow> ret (receipt, writes)))"

definition reconcile :: "Grant \<Rightarrow> ActionReceipt \<Rightarrow> ActionReceipt store_op" where
  "reconcile grant receipt =
     bind now_ms (\<lambda>now.
     let receipt = unresolved receipt now in
     bind (query_res (\<lambda>d. the_row (effect_row d (rcp_operation_id receipt)))) (\<lambda>row.
     bind (observe_postcondition grant receipt
         (recovery_writes grant (rcp_action receipt) (ef_potential_writes row))) (\<lambda>(receipt, writes).
     seq (capture_effect ((new_observation receipt)\<lparr>eo_writes := writes,
            eo_validation_generation := ef_validation_generation row\<rparr>))
         (finalize_effect (rcp_operation_id receipt)))))"

definition lookup_for_recovery :: "string \<Rightarrow> string \<Rightarrow> ActionReceipt store_op" where
  "lookup_for_recovery run operation =
     bind (query_res (run_grant run)) (\<lambda>grant.
     bind (query_res (\<lambda>d. ok_or (List.find (\<lambda>e. ef_id e = operation \<and> ef_grant_id e = g_id grant)
         (effects d)) (missing ''operation not found''))) (\<lambda>row.
     let receipt = (ef_body row)\<lparr>rcp_settlement := ef_settlement row\<rparr> in
     if ef_phase row = PhaseFinalized then ret receipt
     else if ef_phase row = PhaseObserved then finalize_effect operation
     else reconcile grant receipt))"

definition lookup :: "string \<Rightarrow> string \<Rightarrow> ActionReceipt store_op" where
  "lookup run operation =
     bind (query_res (run_grant run)) (\<lambda>grant.
     bind (lookup_for_recovery run operation) (\<lambda>receipt.
     seq (refresh_artifact_sources grant)
         (receipt_for_delivery grant receipt)))"

definition reconcile_run :: "string \<Rightarrow> ActionReceipt list store_op" where
  "reconcile_run run =
     bind (query (\<lambda>d. map ef_id (filter (\<lambda>e. ef_run_id e = run) (effects d)))) (\<lambda>ids.
     fold_op (\<lambda>receipts i. bind (lookup run i) (\<lambda>r. ret (receipts @ [r]))) [] ids)"

section \<open>The gates before a dispatch\<close>

definition action_room :: "Grant \<Rightarrow> BudgetAllocation \<Rightarrow> unit store_op" where
  "action_room grant owner =
     bind now_ms (\<lambda>now.
     bind (lift (counter (b_deadline_ms (a_budget owner)))) (\<lambda>deadline.
     seq (need (\<not> deadline \<le> now) (exhausted ''child action budget or deadline exhausted'')) (
     bind (query_res (store_grant (a_grant_id owner))) (\<lambda>g.
     bind (query_res (allocation_ledger_status g (a_id owner))) (\<lambda>status.
     need (bu_actions (bs_usage status) \<le> b_max_actions (a_budget owner))
       (exhausted ''child action budget or deadline exhausted''))))))"

definition dispatch_gate :: "string \<Rightarrow> Grant \<Rightarrow> unit store_op" where
  "dispatch_gate run grant =
     bind (require_active run) (\<lambda>_.
     bind (cancellation run) (\<lambda>cancelled.
     seq (need (\<not> cancelled) (denied ''run cancelled; effect not dispatched'')) (
     seq (need (g_mode grant \<noteq> Mode.Observe) (denied ''observe grants cannot dispatch effects'')) (
     bind (query (\<lambda>d. count_where (\<lambda>e. ef_grant_id e = g_id grant) (effects d))) (\<lambda>attempts.
     seq (need (attempts \<le> b_max_actions (g_budget grant)) (exhausted ''root action budget exhausted'')) (
     bind (run_allocation_in run) (\<lambda>alloc.
     bind (query_res (allocation_ancestry grant (a_id alloc))) (\<lambda>owners.
     for_each owners (action_room grant)))))))))"

definition decode_intervention :: "RecordEnvelope \<Rightarrow> Intervention store_op" where
  "decode_intervention r =
     bind (ask (\<lambda>s. env_intervention_of s (r_body r))) lift"

definition check_read_versions :: "Grant \<Rightarrow> string option \<Rightarrow> ArtifactRef list \<Rightarrow> unit store_op" where
  "check_read_versions grant workspace references =
     for_each references (\<lambda>reference.
       bind (host_version grant (ar_path reference) workspace) (\<lambda>current.
       need (ar_version current = ar_version reference)
         (conflict ''intervention read versions are stale'')))"

definition check_intervention :: "Grant \<Rightarrow> string option \<Rightarrow> Action \<Rightarrow> unit store_op" where
  "check_intervention grant workspace action =
     (case act_intervention_ref action of
        None \<Rightarrow> skip
      | Some i \<Rightarrow>
          bind (read_record grant i) (\<lambda>r.
          seq (need (r_kind r = RecordKind.Intervention)
                 (invalid ''intervention_ref is not an intervention'')) (
          bind (decode_intervention r) (\<lambda>v.
          check_read_versions grant workspace (itv_read_versions v)))))"

section \<open>Kinds of action\<close>

definition established_success :: "ActionReceipt \<Rightarrow> ActionReceipt" where
  "established_success r = r\<lparr>rcp_outcome_basis := Some EffectOutcomeBasis.ExecutionEstablished,
     rcp_status := EffectStatus.Succeeded\<rparr>"

definition dispatch_branch :: "Grant \<Rightarrow> unit effect_op" where
  "dispatch_branch grant =
     bind (observing new_id) (\<lambda>branch.
     bind (observing (ask (\<lambda>s. env_state_dir s @ ''/branches/'' @ branch))) (\<lambda>path.
     seq (start_dispatch grant []) (
     bind (observing (host_call (\<lambda>h n. hst_branch h n grant path))) (\<lambda>versions.
     seq (revise (\<lambda>x. x\<lparr>eo_branch := Some \<lparr>cb_id = branch, cb_path = path, cb_versions = versions\<rparr>\<rparr>)) (
     seq (revise_receipt (\<lambda>r. r\<lparr>rcp_output := branch, rcp_after := versions\<rparr>))
         (revise_receipt established_success))))))"

definition dispatch_edit :: "Grant \<Rightarrow> string option \<Rightarrow> Action \<Rightarrow> unit effect_op" where
  "dispatch_edit grant workspace action =
     seq (need (\<not> (workspace = None \<and> (case g_required_checks grant of
              None \<Rightarrow> False | Some checks \<Rightarrow> checks \<noteq> [])))
            (denied (''host-required checks require edits in a branch followed by checked '' @
              ''application''))) (
     bind (expect (act_path action) (invalid ''edit requires path'')) (\<lambda>path.
     bind (expect (act_expected_version action) (invalid ''edit requires expected_version'')) (\<lambda>expected.
     bind (expect (act_content action) (invalid ''edit requires content'')) (\<lambda>content.
     bind (observing (host_call (\<lambda>h n. hst_prepare_edit h n grant path expected workspace))) (\<lambda>before.
     seq (revise_receipt (\<lambda>r. r\<lparr>rcp_before := [before]\<rparr>)) (
     seq (start_dispatch grant (if workspace = None then [path] else [])) (
     bind (observing (host_call (\<lambda>h n. hst_edit h n grant path expected content workspace))) (\<lambda>after.
     seq (revise_receipt (\<lambda>r. r\<lparr>rcp_after := [after],
            rcp_output := ''Artifact written; fresh checks remain required.''\<rparr>))
         (revise_receipt established_success)))))))))"

text \<open>The registered tool an action names; to execute, it must be an admitted implementation's.\<close>

definition admitted_tool :: "Grant \<Rightarrow> Action \<Rightarrow> string \<Rightarrow> string store_op" where
  "admitted_tool grant action tool =
     (if act_kind action \<noteq> ActionKind.Execute then ret tool
      else
        bind (expect (act_implementation action)
          (invalid ''execute requires an admitted implementation'')) (\<lambda>reference.
        bind (read_record grant (vr_id reference)) (\<lambda>r.
        bind (ask (\<lambda>s. env_implementation_of s (r_body r))) (\<lambda>decoded.
        bind (lift decoded) (\<lambda>imp.
        bind (is_admitted grant r) (\<lambda>admitted.
        seq (need (admitted \<and> vr_version reference = imp_version imp)
               (denied ''implementation is not admitted in this context'')) (
        seq (need (imp_format imp = ImplementationFormat.RegisteredTool \<and> imp_material imp = tool)
               (invalid (''instruction implementations must be adapted by the agent; '' @
                 ''code requires a suitable host adapter'')))
            (ret (imp_material imp)))))))))"

definition stale_check :: "string \<Rightarrow> CheckOutput \<Rightarrow> CheckOutput" where
  "stale_check planned result =
     (if co_checker_version result = planned then result
      else result\<lparr>co_success := False, co_validation_outcome := ValidationEvidenceOutcome.Stale,
        co_output := co_output result @ CHR 0x0A #
          ''Checker identity changed after preflight; validation is stale.''\<rparr>)"

definition dispatch_tool :: "Grant \<Rightarrow> string option \<Rightarrow> Action \<Rightarrow> unit effect_op" where
  "dispatch_tool grant workspace action =
     bind (expect (act_tool action) (invalid ''check/execute requires a registered tool'')) (\<lambda>named.
     bind (observing (admitted_tool grant action named)) (\<lambda>tool.
     let read_only = (act_kind action = ActionKind.Check) in
     bind (observing (host_call (\<lambda>h n. hst_prepare_tool h n grant tool workspace read_only))) (\<lambda>prepared.
     seq (observing (require_property_bindings grant (pt_properties prepared))) (
     seq (revise_preflight (\<lambda>p. p\<lparr>epf_properties := pt_properties prepared,
            epf_checks := [(tool, pt_checker_version prepared)]\<rparr>)) (
     bind (observed (\<lambda>x. x)) (\<lambda>x.
     seq (observing (pin_effect_checks x)) (
     seq (start_dispatch grant (if workspace = None then pt_writes prepared else [])) (
     bind (observing (host_call (\<lambda>h n. hst_run_tool h n grant tool workspace read_only))) (\<lambda>raw.
     let result = stale_check (pt_checker_version prepared) raw in
     bind (observed (\<lambda>x. x)) (\<lambda>x.
     bind (observing (check_evidence grant (eo_receipt x) result (eo_validation_generation x))) (\<lambda>evidence.
     seq (revise_receipt (\<lambda>r. r\<lparr>rcp_validations := Some [evidence], rcp_before := co_before result,
            rcp_after := co_after result, rcp_output := co_output result,
            rcp_outcome_basis := Some EffectOutcomeBasis.ExecutionEstablished\<rparr>)) (
     seq (revise (\<lambda>x. if workspace = None then x\<lparr>eo_writes := co_writes result\<rparr> else x)) (
     if \<not> co_success result then revise_receipt (\<lambda>r. r\<lparr>rcp_status := EffectStatus.Failed\<rparr>)
     else revise_receipt established_success)))))))))))))"

end
