(* ===== verification/Execution.thy ===== *)
theory Execution
  imports Effects ContextStore
begin

text \<open>
  crates/ribosome-core/src/effects.rs, continued: the application of checked branch content to the
  live workspace, and \<open>execute\<close>, which commits the intent, dispatches, captures and finalizes.

  An application executes its acceptance checks through \<open>execute\<close> itself, so the model recurses on
  fuel. A check never executes another action, and two levels are all there is: \<open>execute_eq\<close> is
  the code's own recursive equation.
\<close>

section \<open>Application\<close>

definition branch_base :: "Grant \<Rightarrow> Action \<Rightarrow> ArtifactRef list store_op" where
  "branch_base grant action =
     bind (query_res (\<lambda>d. the_row (List.find (\<lambda>b. act_branch_id action = Some (br_id b) \<and>
         br_grant_id b = g_id grant) (branches d)))) (\<lambda>row. ret (br_versions row))"

definition check_live_dependencies ::
    "Grant \<Rightarrow> ArtifactRef list \<Rightarrow> string \<Rightarrow> ArtifactRef list \<Rightarrow> unit store_op" where
  "check_live_dependencies grant base refusal references =
     for_each references (\<lambda>reference.
       bind (expect (List.find (\<lambda>r. ar_path r = ar_path reference) base)
         (conflict ''intervention references state outside branch snapshot'')) (\<lambda>original.
       bind (host_version grant (ar_path reference) None) (\<lambda>live.
       need (ar_version live = ar_version original) (conflict refusal))))"

definition required_checks :: "Grant \<Rightarrow> Intervention \<Rightarrow> string list" where
  "required_checks grant v = remdups_adj (sort (itv_required_checks v @
     (case g_required_checks grant of None \<Rightarrow> [] | Some checks \<Rightarrow> checks)))"

definition prepare_check :: "Grant \<Rightarrow> string \<Rightarrow> string \<Rightarrow> unit effect_op" where
  "prepare_check grant branch name =
     bind (observing (host_call (\<lambda>h n. hst_prepare_tool h n grant name (Some branch) True))) (\<lambda>prepared.
     seq (observing (require_property_bindings grant (pt_properties prepared)))
         (revise_preflight (\<lambda>p. p\<lparr>epf_checks := epf_checks p @ [(name, pt_checker_version prepared)],
            epf_properties := epf_properties p @ pt_properties prepared\<rparr>)))"

definition check_action :: "Action \<Rightarrow> nat \<Rightarrow> string \<Rightarrow> Action" where
  "check_action action index name =
     \<lparr>act_operation_id = act_operation_id action @ ''/check/'' @ to_string index,
      act_kind = ActionKind.Check, act_path = None, act_expected_version = None, act_content = None,
      act_tool = Some name, act_branch_id = act_branch_id action, act_intervention_ref = None,
      act_implementation = None\<rparr>"

text \<open>The one certificate of an established check.\<close>

definition certificate :: "ActionReceipt \<Rightarrow> ValidationEvidence res" where
  "certificate result =
     and_then (guard (established result)
       (denied ''application requires established successful acceptance checks'')) (\<lambda>_.
     case rcp_validations result of
       Some [c] \<Rightarrow> Inr c
     | _ \<Rightarrow> Inl (denied ''acceptance check lacks captured validation evidence''))"

definition certifies ::
    "Action \<Rightarrow> string \<Rightarrow> string \<Rightarrow> string \<Rightarrow> ValidationEvidence \<Rightarrow> bool" where
  "certifies action name version policy c \<longleftrightarrow>
     ve_check_ref c = name \<and> ve_branch_id c = act_branch_id action \<and>
     ve_outcome c = ValidationEvidenceOutcome.Passed \<and> ve_policy_version c = policy \<and>
     ve_checker_version c = version"

definition push_validation :: "ValidationEvidence \<Rightarrow> ActionReceipt \<Rightarrow> ActionReceipt" where
  "push_validation c r = r\<lparr>rcp_validations := map_option (\<lambda>cs. cs @ [c]) (rcp_validations r)\<rparr>"

text \<open>\<open>nested\<close> executes an action of the same run; the result is the checked inputs and receipts so far.\<close>

definition run_check ::
    "(Action \<Rightarrow> ActionReceipt store_op) \<Rightarrow> Grant \<Rightarrow> Action \<Rightarrow> ArtifactRef list \<times> string list \<Rightarrow>
     nat \<times> string \<Rightarrow> (ArtifactRef list \<times> string list) effect_op" where
  "run_check nested grant action acc check = (case acc of (inputs, receipts) \<Rightarrow>
     case check of (index, name) \<Rightarrow>
     seq (observing (validate ''Action'' (valid_Action (check_action action index name)))) (
     bind (observing (nested (check_action action index name))) (\<lambda>result.
     bind (lift (certificate result)) (\<lambda>c.
     bind (observed (\<lambda>x. map_of (epf_checks (eo_preflight x)) name)) (\<lambda>planned.
     bind (expect planned (internal ''called Option::unwrap() on a None value'')) (\<lambda>version.
     bind (observing (policy_version grant)) (\<lambda>policy.
     seq (need (certifies action name version policy c)
            (conflict (''acceptance check evidence no longer matches the pinned checker, '' @
              ''branch or policy''))) (
     seq (revise_receipt (push_validation c))
         (ret (inputs @ ve_inputs c, receipts @ [rcp_operation_id result]))))))))))"

definition checked_content :: "Grant \<Rightarrow> string \<Rightarrow> string \<Rightarrow> Action \<Rightarrow> ArtifactChunk store_op" where
  "checked_content grant path branch action =
     bind (host_call (\<lambda>h n. hst_read h n grant \<lparr>ard_path = path, ard_offset = 0, ard_length = 65536,
         ard_branch_id = None, ard_snapshot_id = None, ard_required_freshness = None\<rparr> (Some branch)))
       (\<lambda>chunk.
     seq (need (ach_eof chunk) (invalid ''apply supports text artifacts up to 64 KiB'')) (
     seq (need (act_content action = Some (ach_content chunk))
            (conflict ''apply content must match checked branch content''))
         (ret chunk)))"

definition check_checkers :: "(string \<times> string) list \<Rightarrow> unit store_op" where
  "check_checkers planned = for_each planned (\<lambda>(name, version).
     bind (checker_version name) (\<lambda>current.
     need (current = version) (conflict ''required checker changed during branch validation'')))"

definition check_inputs :: "Grant \<Rightarrow> string \<Rightarrow> string \<Rightarrow> ArtifactRef list \<Rightarrow> unit store_op" where
  "check_inputs grant path branch inputs = for_each inputs (\<lambda>input.
     bind (host_version grant (ar_path input) (Some branch)) (\<lambda>checked.
     seq (need (ar_version checked = ar_version input)
            (conflict ''branch input changed after acceptance checks'')) (
     if ar_path input = path then skip
     else bind (host_version grant (ar_path input) None) (\<lambda>live.
       need (ar_version live = ar_version input)
         (conflict ''checked dependency differs from the live recipient'')))))"

definition target_validated :: "ArtifactRef \<Rightarrow> ActionReceipt \<Rightarrow> bool" where
  "target_validated a receipt \<longleftrightarrow> (case rcp_validations receipt of
     None \<Rightarrow> False | Some checks \<Rightarrow> a \<in> set (concat (map ve_targets checks)))"

text \<open>What an application names: path, workspace, live version and intervention.\<close>

definition apply_arguments ::
    "string option \<Rightarrow> Action \<Rightarrow> (string \<times> string \<times> string \<times> string) res" where
  "apply_arguments workspace action =
     and_then (ok_or (act_path action) (invalid ''apply requires path'')) (\<lambda>path.
     and_then (ok_or workspace (invalid ''apply requires branch_id'')) (\<lambda>branch.
     and_then (ok_or (act_expected_version action) (invalid ''apply requires live expected_version''))
       (\<lambda>expected.
     and_then (ok_or (act_intervention_ref action) (invalid ''apply requires intervention_ref''))
       (\<lambda>reference. Inr (path, branch, expected, reference)))))"

text \<open>Everything up to the acceptance checks: the pinned intervention, the base and the checkers.\<close>

definition prepare_apply ::
    "Grant \<Rightarrow> Action \<Rightarrow> string \<Rightarrow> string \<Rightarrow> (Intervention \<times> ArtifactRef list \<times> string list) effect_op" where
  "prepare_apply grant action branch reference =
     bind (observing (read_record grant reference)) (\<lambda>r.
     seq (revise_preflight (\<lambda>p. p\<lparr>epf_intervention := Some \<lparr>vr_id = r_id r, vr_version = r_version r\<rparr>\<rparr>)) (
     bind (observing (decode_intervention r)) (\<lambda>v.
     bind (observing (branch_base grant action)) (\<lambda>base.
     seq (observing (check_live_dependencies grant base
            ''live dependency changed since branch creation'' (itv_read_versions v))) (
     let checks = required_checks grant v in
     seq (need (checks \<noteq> []) (denied ''apply requires named acceptance checks'')) (
     seq (for_each checks (prepare_check grant branch)) (
     bind (observed (\<lambda>x. x)) (\<lambda>x.
     seq (observing (pin_effect_checks x))
         (ret (v, base, checks))))))))))"

definition dispatch_apply ::
    "(Action \<Rightarrow> ActionReceipt store_op) \<Rightarrow> string \<Rightarrow> Grant \<Rightarrow> string option \<Rightarrow> Action \<Rightarrow> unit effect_op" where
  "dispatch_apply nested run grant workspace action =
     seq (need (g_mode grant = Mode.Apply) (denied ''live application requires apply mode'')) (
     bind (lift (apply_arguments workspace action)) (\<lambda>(path, branch, expected, reference).
     bind (prepare_apply grant action branch reference) (\<lambda>(v, base, checks).
     seq (revise_receipt (\<lambda>r. r\<lparr>rcp_validations := Some []\<rparr>)) (
     bind (fold_op (run_check nested grant action) ([], []) (enumerate 0 checks)) (\<lambda>(inputs, receipts).
     bind (observing (checked_content grant path branch action)) (\<lambda>chunk.
     bind (observed eo_receipt) (\<lambda>receipt.
     seq (need (target_validated (ach_artifact chunk) receipt)
            (denied ''acceptance checks did not explicitly validate the applied artifact'')) (
     bind (observed eo_preflight) (\<lambda>preflight.
     seq (observing (check_checkers (epf_checks preflight))) (
     seq (observing (check_inputs grant path branch inputs)) (
     seq (observing (check_live_dependencies grant base
            ''live dependency changed during branch checks'' (itv_read_versions v))) (
     bind (observing (host_call (\<lambda>h n. hst_prepare_edit h n grant path expected None))) (\<lambda>before.
     seq (revise_receipt (\<lambda>r. r\<lparr>rcp_before := [before]\<rparr>)) (
     seq (observing (require_attachment_write run action)) (
     seq (start_dispatch grant [path]) (
     bind (observing (host_call (\<lambda>h n. hst_edit h n grant path expected (ach_content chunk) None))) (\<lambda>after.
     seq (revise_receipt (\<lambda>r. r\<lparr>rcp_after := [after],
            rcp_output := ''Checked branch artifact applied. Check receipts: '' @
              join_strings '', '' receipts\<rparr>))
         (revise_receipt established_success))))))))))))))))))"

section \<open>Dispatch\<close>

definition dispatch_kind ::
    "(Action \<Rightarrow> ActionReceipt store_op) \<Rightarrow> string \<Rightarrow> Grant \<Rightarrow> string option \<Rightarrow> Action \<Rightarrow> unit effect_op" where
  "dispatch_kind nested run grant workspace action =
     (case act_kind action of
        ActionKind.Branch \<Rightarrow> dispatch_branch grant
      | ActionKind.Edit \<Rightarrow> dispatch_edit grant workspace action
      | ActionKind.Check \<Rightarrow> dispatch_tool grant workspace action
      | ActionKind.Execute \<Rightarrow> dispatch_tool grant workspace action
      | ActionKind.Apply \<Rightarrow> dispatch_apply nested run grant workspace action)"

definition dispatch ::
    "(Action \<Rightarrow> ActionReceipt store_op) \<Rightarrow> string \<Rightarrow> Grant \<Rightarrow> unit effect_op" where
  "dispatch nested run grant =
     seq (observing (dispatch_gate run grant)) (
     bind (observed (\<lambda>x. rcp_action (eo_receipt x))) (\<lambda>action.
     seq (observing (require_attachment_write run action)) (
     bind (observing (query_res (branch_path grant (act_branch_id action)))) (\<lambda>workspace.
     seq (observing (check_intervention grant workspace action))
         (dispatch_kind nested run grant workspace action)))))"

section \<open>Execution\<close>

definition new_receipt :: "string \<Rightarrow> Action \<Rightarrow> string \<Rightarrow> nat \<Rightarrow> ActionReceipt" where
  "new_receipt run action source now =
     \<lparr>rcp_operation_id = act_operation_id action, rcp_run_id = run, rcp_status = EffectStatus.Started,
      rcp_action = action, rcp_before = [], rcp_after = [], rcp_output = [], rcp_side_effects = [],
      rcp_started_ms = to_string now, rcp_finished_ms = None, rcp_elapsed_ms = None,
      rcp_reconciled = False, rcp_evidence_ref = Some source, rcp_outcome_basis = None,
      rcp_validations = None, rcp_restored_validity = None, rcp_restored_properties = None,
      rcp_settlement = None, rcp_content_available = Some True\<rparr>"

definition next_effect_rowid :: "Db \<Rightarrow> nat" where
  "next_effect_rowid d = Suc (foldr max (map ef_rowid (effects d)) 0)"

definition prepared_row :: "ActionReceipt \<Rightarrow> Grant \<Rightarrow> string \<Rightarrow> nat \<Rightarrow> EffectRow" where
  "prepared_row receipt grant budget rowid =
     \<lparr>ef_rowid = rowid, ef_id = rcp_operation_id receipt, ef_run_id = rcp_run_id receipt,
      ef_grant_id = g_id grant, ef_body = receipt, ef_phase = PhasePrepared, ef_observation = None,
      ef_settlement = None, ef_allocation_id = Some budget, ef_authority = Some grant,
      ef_potential_writes = [], ef_validation_generation = 0, ef_preflight = None\<rparr>"

definition insert_effect :: "ActionReceipt \<Rightarrow> Grant \<Rightarrow> string \<Rightarrow> nat store_op" where
  "insert_effect receipt grant budget =
     bind (query next_effect_rowid) (\<lambda>rowid.
     seq (insert_row
            (\<lambda>d. effect_row d (rcp_operation_id receipt) = None \<and>
              exists_where (\<lambda>r. rr_id r = rcp_run_id receipt) (runs d) \<and>
              exists_where (\<lambda>a. al_id a = budget) (budget_allocations d))
            (\<lambda>d. d\<lparr>effects := effects d @ [prepared_row receipt grant budget rowid]\<rparr>))
         (ret rowid))"

definition effect_context_event :: "Grant \<Rightarrow> ActionReceipt \<Rightarrow> string \<Rightarrow> nat \<Rightarrow> string list \<Rightarrow> Event" where
  "effect_context_event grant receipt source sequence references =
     \<lparr>ev_id = source, ev_scope = g_scope grant, ev_run_id = rcp_run_id receipt,
      ev_producer = ''effect-context'', ev_sequence = to_string sequence, ev_kind = ''effect_context'',
      ev_timestamp_ms = rcp_started_ms receipt, ev_parents = [],
      ev_correlation = rcp_operation_id receipt, ev_artifacts = [],
      ev_payload = [(''operation_id'', JString (rcp_operation_id receipt))],
      ev_provenance = \<lparr>pv_origin = Origin.Observed, pv_source_refs = references,
        pv_scenario_family = ''host-effects'', pv_split = derived_split (g_visible_splits grant),
        pv_limitations = []\<rparr>\<rparr>"

definition action_references :: "Action \<Rightarrow> string list" where
  "action_references action =
     (case act_intervention_ref action of None \<Rightarrow> [] | Some i \<Rightarrow> [i]) @
     (case act_implementation action of None \<Rightarrow> [] | Some i \<Rightarrow> [vr_id i])"

text \<open>The intent is committed before the adapter is allowed to execute an effect.\<close>

definition commit_intent :: "string \<Rightarrow> Grant \<Rightarrow> ActionReceipt \<Rightarrow> string \<Rightarrow> unit store_op" where
  "commit_intent run grant receipt source =
     transaction (
       bind (run_allocation_in run) (\<lambda>alloc.
       bind (insert_effect receipt grant (a_id alloc)) (\<lambda>sequence.
       bind (query (run_context_sources run)) (\<lambda>references.
       bind (ingest (effect_context_event grant receipt source sequence
           (references @ action_references (rcp_action receipt)))) (\<lambda>_.
       commit ())))))"

definition refused_status :: "Error \<Rightarrow> EffectStatus" where
  "refused_status e =
     (if e_code e = -32001 then EffectStatus.Denied
      else if e_code e = -32002 then EffectStatus.Stale else EffectStatus.Failed)"

text \<open>What a failed dispatch observed: nothing happened if the effect is still prepared.\<close>

definition failed_observation :: "EffectPhase \<Rightarrow> Error \<Rightarrow> EffectObservation \<Rightarrow> EffectObservation" where
  "failed_observation phase e x =
     (if phase = PhasePrepared
      then x\<lparr>eo_writes := [], eo_receipt := (eo_receipt x)\<lparr>rcp_status := refused_status e,
             rcp_outcome_basis := Some EffectOutcomeBasis.NotDispatched, rcp_output := e_message e\<rparr>\<rparr>
      else x\<lparr>eo_receipt := (eo_receipt x)\<lparr>rcp_status := EffectStatus.Unknown,
             rcp_outcome_basis := Some EffectOutcomeBasis.Unresolved, rcp_output := e_message e\<rparr>\<rparr>)"

definition observed_outcome :: "unit res \<Rightarrow> EffectObservation \<Rightarrow> EffectObservation store_op" where
  "observed_outcome outcome x =
     (case outcome of
        Inr _ \<Rightarrow> ret x
      | Inl e \<Rightarrow>
          bind (query_res (\<lambda>d. the_row (effect_row d (rcp_operation_id (eo_receipt x))))) (\<lambda>row.
          ret (failed_observation (ef_phase row) e x)))"

definition finish_observation :: "EffectObservation \<Rightarrow> EffectObservation store_op" where
  "finish_observation x =
     bind now_ms (\<lambda>finished.
     bind now_ms (\<lambda>now.
     bind (lift (counter (rcp_started_ms (eo_receipt x)))) (\<lambda>started.
     ret (x\<lparr>eo_receipt := (eo_receipt x)\<lparr>rcp_finished_ms := Some (to_string finished),
            rcp_elapsed_ms := Some (to_string (now - started))\<rparr>\<rparr>))))"

definition execute_new ::
    "(Action \<Rightarrow> ActionReceipt store_op) \<Rightarrow> string \<Rightarrow> Grant \<Rightarrow> Action \<Rightarrow> ActionReceipt store_op" where
  "execute_new nested run grant action =
     bind new_id (\<lambda>source.
     bind now_ms (\<lambda>now.
     let receipt = new_receipt run action source now in
     seq (commit_intent run grant receipt source) (
     bind (run_observed (dispatch nested run grant) (new_observation receipt)) (\<lambda>(outcome, x).
     bind (observed_outcome outcome x) (\<lambda>x.
     bind (finish_observation x) (\<lambda>x.
     seq (capture_effect x) (
     bind (finalize_effect (rcp_operation_id (eo_receipt x))) (\<lambda>receipt.
     receipt_for_delivery grant receipt))))))))"

definition execute_action ::
    "(Action \<Rightarrow> ActionReceipt store_op) \<Rightarrow> string \<Rightarrow> Action \<Rightarrow> ActionReceipt store_op" where
  "execute_action nested run action =
     seq (validate ''Action'' (valid_Action action)) (
     bind (query_res (run_grant run)) (\<lambda>grant.
     bind (query (\<lambda>d. effect_row d (act_operation_id action))) (\<lambda>existing.
     case existing of
       Some row \<Rightarrow>
         seq (need (\<not> (ef_grant_id row \<noteq> g_id grant \<or> rcp_action (ef_body row) \<noteq> action))
                (conflict ''operation ID reused with different grant or arguments''))
             (lookup run (act_operation_id action))
     | None \<Rightarrow> execute_new nested run grant action)))"

fun execute_within :: "nat \<Rightarrow> string \<Rightarrow> Action \<Rightarrow> ActionReceipt store_op" where
  "execute_within 0 run action = throw (internal ''recursion limit'')"
| "execute_within (Suc n) run action = execute_action (execute_within n run) run action"

definition execute :: "string \<Rightarrow> Action \<Rightarrow> ActionReceipt store_op" where
  "execute = execute_within 2"

section \<open>Two levels are enough\<close>

lemma observing_run [simp]: "observing m (s, x) = (fst (m s), (snd (m s), x))"
  by (simp add: observing_def split: prod.splits)

lemma seq_observing_run:
  "seq (observing m) n (s, x) = (case m s of (Inl e, t) \<Rightarrow> (Inl e, (t, x)) | (Inr v, t) \<Rightarrow> n (t, x))"
  by (auto simp: seq_def bind_def split: prod.splits sum.splits)

lemma bind_observing_run:
  "bind (observing m) f (s, x) = (case m s of (Inl e, t) \<Rightarrow> (Inl e, (t, x)) | (Inr v, t) \<Rightarrow> f v (t, x))"
  by (auto simp: bind_def split: prod.splits sum.splits)

lemma bind_observed_run: "bind (observed g) f (s, x) = f (g x) (s, x)"
  by (simp add: observed_def)

text \<open>A check never reaches the nested execution, \<dots>\<close>

lemma dispatch_kind_check:
  "act_kind action = ActionKind.Check \<Longrightarrow>
     dispatch_kind f run grant workspace action = dispatch_kind g run grant workspace action"
  by (simp add: dispatch_kind_def)

lemma dispatch_check:
  assumes "act_kind (rcp_action (eo_receipt x)) = ActionKind.Check"
  shows "dispatch f run grant (s, x) = dispatch g run grant (s, x)"
  unfolding dispatch_def seq_observing_run bind_observed_run bind_observing_run
  unfolding dispatch_kind_check [OF assms, of f run grant _ g] ..

lemma execute_action_check:
  assumes "act_kind action = ActionKind.Check"
  shows "execute_action f run action = execute_action g run action"
proof -
  have "run_observed (dispatch f run grant) (new_observation (new_receipt run action i now)) =
      run_observed (dispatch g run grant) (new_observation (new_receipt run action i now))"
    for grant i now
    using assms by (intro ext)
      (simp add: run_observed_def dispatch_check [of _ f run grant _ g] new_observation_def new_receipt_def)
  then have "execute_new f run grant action = execute_new g run grant action" for grant
    by (simp add: execute_new_def Let_def)
  then show ?thesis by (simp only: execute_action_def)
qed

text \<open>\<dots> and every nested execution is of a check.\<close>

lemma execute_action_cong:
  assumes "\<And>a. act_kind a = ActionKind.Check \<Longrightarrow> f a = g a"
  shows "execute_action f run action = execute_action g run action"
proof -
  have "f (check_action action i name) = g (check_action action i name)" for action i name
    by (rule assms) (simp add: check_action_def)
  then have "run_check f = run_check g"
    by (intro ext) (simp add: run_check_def)
  then show ?thesis
    by (simp only: execute_action_def execute_new_def dispatch_def dispatch_kind_def dispatch_apply_def)
qed

lemma execute_within_Suc:
  "execute_within (Suc (Suc (Suc n))) run action = execute_within (Suc (Suc n)) run action"
proof -
  have "execute_within (Suc (Suc n)) run a = execute_within (Suc n) run a"
    if "act_kind a = ActionKind.Check" for a
    using execute_action_check [OF that] by simp
  then show ?thesis
    unfolding execute_within.simps(2) [of "Suc (Suc n)"] execute_within.simps(2) [of "Suc n"]
    by (rule execute_action_cong)
qed

lemma execute_within_enough: "execute_within (Suc (Suc n)) run action = execute run action"
  by (induction n) (simp_all only: execute_within_Suc execute_def numeral_2_eq_2)

lemma execute_eq: "execute run action = execute_action (execute run) run action"
proof -
  have "execute_within (Suc (Suc 0)) run = execute run"
    by (rule ext) (rule execute_within_enough)
  then show ?thesis
    using execute_within_enough [of 1 run action] by simp
qed

end
