(* ===== verification/Settlement.thy ===== *)
theory Settlement
  imports Execution
begin

text \<open>
  crates/ribosome-core/src/effect_settlement.rs: the owner's inspection and settlement of an effect
  whose outcome stayed unknown. Settling releases write ownership; it never establishes the outcome.
  The interruption of whatever a previous host process left running (\<open>Runtime::new\<close>) is here too.
\<close>

section \<open>Inspection\<close>

definition require_effect_owner :: "Grant \<Rightarrow> string \<Rightarrow> string store_op" where
  "require_effect_owner owner operation =
     bind (query_res (store_grant (g_id owner))) (\<lambda>stored.
     seq (need (stored = owner) (denied ''owner grant does not match the stored policy'')) (
     bind (query (\<lambda>d. List.find (\<lambda>e. ef_id e = operation \<and> ef_grant_id e = g_id owner) (effects d))) (\<lambda>found.
     bind (expect found (missing ''operation not found in owner grant'')) (\<lambda>row.
     ret (ef_run_id row)))))"

definition workspace_versions :: "Grant \<Rightarrow> ArtifactRef list store_op" where
  "workspace_versions owner =
     map_op (\<lambda>path. host_version owner path None) (remdups_adj (sort (g_paths owner)))"

definition receipt_version :: "string \<Rightarrow> string store_op" where
  "receipt_version operation =
     bind (query_res (\<lambda>d. the_row (effect_row d operation))) (\<lambda>row.
     bind (ask (\<lambda>s. env_receipt_json s (ef_body row))) hash)"

definition run_is_running :: "Db \<Rightarrow> string \<Rightarrow> bool" where
  "run_is_running d run \<longleftrightarrow> exists_where (\<lambda>r. rr_id r = run \<and> rr_status r = RunRunning) (runs d)"

definition inspect_effect :: "Grant \<Rightarrow> string \<Rightarrow> EffectInspection store_op" where
  "inspect_effect owner operation =
     bind (require_effect_owner owner operation) (\<lambda>run.
     bind (query_res (\<lambda>d. the_row (effect_row d operation))) (\<lambda>row.
     bind (query (\<lambda>d. ef_phase row \<noteq> PhaseFinalized \<and> run_is_running d (ef_run_id row))) (\<lambda>active.
     seq (need (\<not> active) (conflict ''stop the owning run before inspecting an unsettled effect'')) (
     bind (lookup run operation) (\<lambda>receipt.
     bind (receipt_version operation) (\<lambda>version.
     bind (workspace_versions owner) (\<lambda>versions.
     ret \<lparr>ei_receipt = receipt, ei_workspace_versions = versions, ei_receipt_version = version\<rparr>)))))))"

section \<open>Settlement\<close>

definition decided_otherwise :: Error where
  "decided_otherwise = conflict ''operation already settled with a different decision''"

definition settled_receipt :: "Grant \<Rightarrow> EffectSettlementRequest \<Rightarrow> ActionReceipt \<Rightarrow> ActionReceipt store_op" where
  "settled_receipt owner request receipt =
     seq (need (case rcp_settlement receipt of None \<Rightarrow> False | Some s \<Rightarrow> est_request s = request)
            decided_otherwise)
         (receipt_for_delivery owner receipt)"

text \<open>What the executor may still have written: as captured, or as the action could.\<close>

definition settlement_writes :: "Grant \<Rightarrow> Action \<Rightarrow> EffectObservation option \<Rightarrow> string list" where
  "settlement_writes owner action captured =
     (case captured of
        Some x \<Rightarrow> eo_writes x
      | None \<Rightarrow>
          let paths = (case act_path action of None \<Rightarrow> [] | Some p \<Rightarrow> [p]) in
          if act_kind action = ActionKind.Apply then paths
          else if act_kind action = ActionKind.Edit \<and> act_branch_id action = None then paths
          else if act_kind action = ActionKind.Execute \<and> act_branch_id action = None
          then (case g_writable_paths owner of Some ps \<Rightarrow> ps | None \<Rightarrow> g_paths owner)
          else [])"

definition settlement_limitation :: string where
  "settlement_limitation =
     ''The owner attests that the executor has stopped. This does not establish the original '' @
     ''effect or certify current artifacts; fresh validation remains required.''"

definition settlement_event ::
    "Grant \<Rightarrow> string \<Rightarrow> EffectSettlement \<Rightarrow> string option \<Rightarrow> nat \<Rightarrow> json_map \<Rightarrow> Event" where
  "settlement_event owner run settlement outcome sequence payload =
     (let request = est_request settlement;
          parents = (case outcome of None \<Rightarrow> [] | Some e \<Rightarrow> [e])
      in \<lparr>ev_id = est_evidence_ref settlement, ev_scope = g_scope owner, ev_run_id = run,
          ev_producer = ''ribosome-host-settlement'', ev_sequence = to_string sequence,
          ev_kind = ''effect_settled'', ev_timestamp_ms = est_recorded_ms settlement,
          ev_parents = parents, ev_correlation = esr_operation_id request,
          ev_artifacts = esr_workspace_versions request, ev_payload = payload,
          ev_provenance = \<lparr>pv_origin = Origin.Observed,
            pv_source_refs = remdups_adj (sort (esr_source_refs request @ parents)),
            pv_scenario_family = ''host-effect-settlement'',
            pv_split = derived_split (g_visible_splits owner),
            pv_limitations = [settlement_limitation]\<rparr>\<rparr>)"

definition current_unknown :: "string \<Rightarrow> ActionReceipt \<Rightarrow> EffectSettlementRequest \<Rightarrow> unit store_op" where
  "current_unknown operation receipt request =
     seq (need (rcp_status receipt = EffectStatus.Unknown)
            (conflict ''settlement requires the current unknown receipt'')) (
     bind (receipt_version operation) (\<lambda>version.
     need (version = esr_expected_receipt_version request)
       (conflict ''settlement requires the current unknown receipt'')))"

definition require_settled_bookkeeping :: "EffectRow \<Rightarrow> EffectSettlementRequest \<Rightarrow> unit store_op" where
  "require_settled_bookkeeping row request =
     (let refusal = conflict (''stop the owning run and settle its pending bookkeeping before '' @
            ''releasing the executor'')
      in bind (query (\<lambda>d. run_is_running d (ef_run_id row))) (\<lambda>running.
         seq (need (ef_phase row = PhaseFinalized \<and> \<not> running) refusal) (
         bind (receipt_version (ef_id row)) (\<lambda>version.
         need (version = esr_expected_receipt_version request) refusal))))"

definition record_settlement ::
    "Grant \<Rightarrow> string \<Rightarrow> ActionReceipt \<Rightarrow> EffectSettlementRequest \<Rightarrow> EffectRow \<Rightarrow> ActionReceipt store_op" where
  "record_settlement owner run receipt request row =
     seq (for_each (settlement_writes owner (rcp_action receipt) (ef_observation row))
            (invalidate_artifact_and_dependents (g_scope owner))) (
     bind (hash (esr_operation_id request)) (\<lambda>digest.
     bind now_ms (\<lambda>now.
     let settlement = \<lparr>est_request = request, est_evidence_ref = ''settlement:'' @ digest,
           est_recorded_ms = to_string now\<rparr>
     in bind (ask (\<lambda>s. env_settlement_map s settlement)) (\<lambda>payload.
        bind (ingest (settlement_event owner run settlement (rcp_evidence_ref receipt) (ef_rowid row)
            payload)) (\<lambda>_.
        seq (exec (update_effect (esr_operation_id request) (\<lambda>e. e\<lparr>ef_settlement := Some settlement\<rparr>)))
            (ret (receipt\<lparr>rcp_settlement := Some settlement\<rparr>)))))))"

text \<open>With the receipt, whether it is delivered already: another settlement came first.\<close>

definition settle_transaction ::
    "Grant \<Rightarrow> string \<Rightarrow> ActionReceipt \<Rightarrow> EffectSettlementRequest \<Rightarrow> (bool \<times> ActionReceipt) txn store_op" where
  "settle_transaction owner run receipt request =
     bind (require_effect_owner owner (esr_operation_id request)) (\<lambda>_.
     bind (query_res (\<lambda>d. the_row (effect_row d (esr_operation_id request)))) (\<lambda>row.
     if ef_settlement row \<noteq> None
     then
       bind (lookup_for_recovery run (esr_operation_id request)) (\<lambda>saved.
       bind (settled_receipt owner request saved) (\<lambda>r. ret (Rollback (True, r))))
     else
       seq (require_settled_bookkeeping row request) (
       bind (record_settlement owner run receipt request row) (\<lambda>r. commit (False, r)))))"

definition settle_effect :: "Grant \<Rightarrow> EffectSettlementRequest \<Rightarrow> ActionReceipt store_op" where
  "settle_effect owner request =
     seq (validate ''EffectSettlementRequest'' (valid_EffectSettlementRequest request)) (
     bind (ask (\<lambda>s. env_settlement_bytes s request)) (\<lambda>bytes.
     seq (need (bytes \<le> MAX_FRAME div 4) (invalid ''settlement exceeds 256 KiB'')) (
     bind (require_effect_owner owner (esr_operation_id request)) (\<lambda>run.
     bind (query_res (\<lambda>d. the_row (effect_row d (esr_operation_id request)))) (\<lambda>row.
     bind (query (\<lambda>d. ef_settlement row = None \<and> run_is_running d (ef_run_id row))) (\<lambda>active.
     seq (need (\<not> active) (conflict ''stop the owning run before settling its executor'')) (
     bind (lookup_for_recovery run (esr_operation_id request)) (\<lambda>receipt.
     if rcp_settlement receipt \<noteq> None then settled_receipt owner request receipt
     else
       seq (current_unknown (esr_operation_id request) receipt request) (
       bind (workspace_versions owner) (\<lambda>versions.
       seq (need (sort_key ar_path (esr_workspace_versions request) = versions)
              (conflict (''workspace changed or settlement omitted a granted artifact; '' @
                ''inspect again''))) (
       seq (for_each (esr_source_refs request) (require_reference owner)) (
       bind (transaction (settle_transaction owner run receipt request)) (\<lambda>(delivered, settled).
       if delivered then ret settled else receipt_for_delivery owner settled)))))))))))))"

text \<open>\<open>ActionReceipt::requires_reconciliation\<close>.\<close>

definition requires_reconciliation :: "ActionReceipt \<Rightarrow> bool" where
  "requires_reconciliation r \<longleftrightarrow> rcp_status r = EffectStatus.Started \<or>
     rcp_status r = EffectStatus.Unknown \<and> rcp_settlement r = None"

section \<open>Startup\<close>

definition interrupt_work :: "Db \<Rightarrow> Db" where
  "interrupt_work d = d\<lparr>work := update_where (\<lambda>w. wk_status w = WorkItemStatus.Running)
     (\<lambda>w. w\<lparr>wk_status := WorkItemStatus.Interrupted,
        wk_body := (wk_body w)\<lparr>w_status := WorkItemStatus.Interrupted\<rparr>\<rparr>) (work d)\<rparr>"

definition interrupt_runs :: "Db \<Rightarrow> Db" where
  "interrupt_runs d = d\<lparr>runs := update_where (\<lambda>r. rr_status r = RunRunning \<or> rr_status r = RunWaiting)
     (\<lambda>r. r\<lparr>rr_status := RunEnded Disposition.Interrupted\<rparr>) (runs d)\<rparr>"

section \<open>Files of studies\<close>

text \<open>experiment_files.rs; \<open>cleanup_experiment_files\<close> is in Retention.\<close>

definition workspace_field :: "ExperimentRow \<Rightarrow> string \<Rightarrow> json" where
  "workspace_field x k = json_get (json_get (xp_policy x) ''workspace'') k"

definition recoverable_study :: "ExperimentRow \<Rightarrow> bool" where
  "recoverable_study x \<longleftrightarrow> workspace_field x ''path'' \<noteq> JNull \<and>
     (xp_result x \<noteq> None \<or> workspace_field x ''executor_stopped'' = JBool True)"

definition recover_experiment_files :: "unit store_op" where
  "recover_experiment_files =
     bind (query (\<lambda>d. filter recoverable_study (experiments d))) (\<lambda>rows.
     for_each rows (\<lambda>x.
       bind (query_res (store_grant (xp_grant_id x))) (\<lambda>grant.
       seq (cleanup_experiment_files grant (xp_id x)) (cleanup_sources grant 100))))"

definition legacy_study :: "Grant \<Rightarrow> string \<Rightarrow> ExperimentRow \<Rightarrow> bool" where
  "legacy_study owner i x \<longleftrightarrow> xp_id x = i \<and> xp_grant_id x = g_id owner \<and> xp_result x = None \<and>
     workspace_field x ''path'' = JNull"

definition confirm_legacy_experiment_cleanup :: "Grant \<Rightarrow> string \<Rightarrow> unit store_op" where
  "confirm_legacy_experiment_cleanup owner experiment =
     bind (query_res (store_grant (g_id owner))) (\<lambda>stored.
     seq (need (stored = owner) (denied ''legacy cleanup requires the stored owner grant'')) (
     bind (query (\<lambda>d. exists_where (legacy_study owner experiment) (experiments d))) (\<lambda>found.
     seq (exec (\<lambda>d. d\<lparr>experiments := update_where (legacy_study owner experiment)
            (\<lambda>x. x\<lparr>xp_policy := json_put ''workspace_cleanup_confirmed'' (JBool True) (xp_policy x)\<rparr>)
            (experiments d)\<rparr>)) (
     seq (need found (missing ''unregistered interrupted experiment not found in owner grant''))
         (cleanup_sources owner 100)))))"

definition stop_executor :: "json \<Rightarrow> json" where
  "stop_executor policy = json_put ''workspace''
     (json_put ''executor_stopped'' (JBool True) (json_get policy ''workspace'')) policy"

definition study_run_active :: "ExperimentRow \<Rightarrow> Db \<Rightarrow> bool" where
  "study_run_active x d \<longleftrightarrow> exists_where (\<lambda>r. JString (rr_id r) = workspace_field x ''run_id'' \<and>
     (rr_status r = RunRunning \<or> rr_status r = RunWaiting)) (runs d)"

definition settle_experiment_workspace :: "Grant \<Rightarrow> string \<Rightarrow> bool \<Rightarrow> unit store_op" where
  "settle_experiment_workspace owner experiment executor_stopped =
     (let refusal = denied (''workspace cleanup requires the stored owner grant and confirmation '' @
            ''that the executor stopped'')
      in seq (need executor_stopped refusal) (
         bind (query_res (store_grant (g_id owner))) (\<lambda>stored.
         seq (need (stored = owner) refusal) (
         seq (transaction (
           bind (query (\<lambda>d. List.find (\<lambda>x. xp_id x = experiment \<and> xp_grant_id x = g_id owner \<and>
               workspace_field x ''path'' \<noteq> JNull) (experiments d))) (\<lambda>found.
           bind (expect found (missing ''experiment workspace not found in owner grant'')) (\<lambda>x.
           bind (query (study_run_active x)) (\<lambda>running.
           seq (need (\<not> running)
                  (conflict ''stop the owning run before confirming evaluator workspace cleanup'')) (
           seq (exec (update_policy experiment stop_executor)) (commit ()))))))) (
         seq (cleanup_experiment_files owner experiment)
             (cleanup_sources owner 100))))))"

section \<open>Restart\<close>

definition start_runtime :: "string \<Rightarrow> unit store_op" where
  "start_runtime exports =
     seq (modify (\<lambda>s. s\<lparr>store_export_directory := Some exports\<rparr>)) (
     seq recover_export_files (
     seq (exec interrupt_work) (
     seq (exec interrupt_runs)
         recover_experiment_files)))"

end
