(* ===== verification/Feedback.thy ===== *)
theory Feedback
  imports Attachments Settlement
begin

text \<open>
  crates/ribosome-core/src/attachments/feedback.rs, repair.rs and the bookkeeping of service.rs:
  finished work becomes feedback, feedback is delivered at most three times and only while every
  source it rests on is current, and a coordinated repair holds the writer until it is released.
\<close>

section \<open>Publication\<close>

type_synonym versions = "(string \<times> string) list"

definition note_artifacts :: "ArtifactRef list \<Rightarrow> versions \<Rightarrow> versions" where
  "note_artifacts artifacts versions =
     foldl (\<lambda>vs a. map_insert (ar_path a) (ar_version a) vs) versions artifacts"

definition evidence_versions :: "string list \<Rightarrow> Db \<Rightarrow> versions" where
  "evidence_versions references d = foldl (\<lambda>vs i. case event_row d i of
       None \<Rightarrow> vs | Some e \<Rightarrow> note_artifacts (ev_artifacts (er_body e)) vs) [] references"

text \<open>A readable intervention among the run's records makes the feedback a proposal.\<close>

definition note_record ::
    "Grant \<Rightarrow> bool \<times> versions \<Rightarrow> string \<Rightarrow> (bool \<times> versions) store_op" where
  "note_record grant state reference = (case state of (proposal, versions) \<Rightarrow>
     bind (attempt (read_record grant reference)) (\<lambda>outcome.
     case outcome of
       Inl _ \<Rightarrow> ret (proposal, versions)
     | Inr r \<Rightarrow>
         if r_kind r \<noteq> RecordKind.Intervention then ret (proposal, versions)
         else
           bind (decode_intervention r) (\<lambda>v.
           ret (True, note_artifacts (itv_read_versions v) versions))))"

definition supersedes_inputs :: "ActionReceipt \<Rightarrow> bool" where
  "supersedes_inputs r \<longleftrightarrow> rcp_status r = EffectStatus.Succeeded \<and>
     (act_kind (rcp_action r) = ActionKind.Apply \<or> act_branch_id (rcp_action r) = None)"

definition note_effects :: "string \<Rightarrow> versions \<Rightarrow> Db \<Rightarrow> versions" where
  "note_effects run versions d = foldl (\<lambda>vs e.
       if supersedes_inputs (ef_body e) then note_artifacts (rcp_after (ef_body e)) vs else vs)
     versions (filter (\<lambda>e. ef_run_id e = run) (effects d))"

definition run_records :: "string \<Rightarrow> Db \<Rightarrow> string list" where
  "run_records run d = sort (map snd (filter (\<lambda>(r, _). r = run) (attachment_records d)))"

definition new_feedback ::
    "WorkItem \<Rightarrow> Attachment \<Rightarrow> AgentResult \<Rightarrow> string \<Rightarrow> bool \<Rightarrow> string list \<Rightarrow> versions \<Rightarrow> nat \<Rightarrow>
     AttachmentFeedback" where
  "new_feedback item a result summary proposal refs versions expires =
     \<lparr>fb_id = w_id item, fb_attachment_id = at_id a, fb_run_id = w_id item,
      fb_kind = (if proposal then AttachmentFeedbackKind.Proposal else AttachmentFeedbackKind.Finding),
      fb_state = FeedbackState.Pending, fb_summary = summary,
      fb_disposition = res_disposition result, fb_record_refs = refs,
      fb_evidence_refs = w_evidence_refs item,
      fb_artifact_versions = map (\<lambda>(p, v). \<lparr>ar_path = p, ar_version = v\<rparr>) versions,
      fb_expires_ms = to_string expires, fb_attempts = 0, fb_detail = []\<rparr>"

text \<open>\<open>INSERT OR IGNORE\<close>: the first feedback of a run stays.\<close>

definition insert_feedback :: "AttachmentFeedback \<Rightarrow> Db \<Rightarrow> Db" where
  "insert_feedback f d =
     (if exists_where (\<lambda>r. fbr_id r = fb_id f) (attachment_feedback d) then d
      else d\<lparr>attachment_feedback := attachment_feedback d @ [\<lparr>fbr_id = fb_id f,
        fbr_attachment_id = fb_attachment_id f, fbr_body = f\<rparr>]\<rparr>)"

definition publish_attachment_result ::
    "WorkItem \<Rightarrow> AgentResult \<Rightarrow> AttachmentPolicy \<Rightarrow> unit store_op" where
  "publish_attachment_result item result p =
     bind (query_res (run_attachment (w_id item))) (\<lambda>attached.
     case attached of
       None \<Rightarrow> skip
     | Some a \<Rightarrow>
         bind (query (run_records (w_id item))) (\<lambda>refs.
         bind (query_res (store_grant (at_grant_id a))) (\<lambda>grant.
         bind (query (evidence_versions (w_evidence_refs item))) (\<lambda>versions.
         bind (fold_op (note_record grant) (False, versions) refs) (\<lambda>(proposal, versions).
         bind (query (note_effects (w_id item) versions)) (\<lambda>versions.
         bind (run_result_for_delivery (w_id item)) (\<lambda>delivered.
         bind now_ms (\<lambda>now.
         bind (lift (counter (b_deadline_ms (g_budget grant)))) (\<lambda>deadline.
         let f = new_feedback item a result (res_summary delivered) proposal refs versions
               (min (add_u64 now (ap_feedback_ttl_ms p)) deadline)
         in seq (validate ''AttachmentFeedback'' (valid_AttachmentFeedback f)) (
            bind (ask (\<lambda>s. env_feedback_bytes s f)) (\<lambda>bytes.
            seq (need (bytes \<le> MAX_FRAME - 2048)
                   (exhausted ''feedback exceeds frame capacity; inspect the persisted run directly''))
                (exec (insert_feedback f)))))))))))))"

section \<open>Acknowledgement\<close>

definition feedback :: "string \<Rightarrow> string \<Rightarrow> Db \<Rightarrow> AttachmentFeedback res" where
  "feedback attachment_id i d =
     and_then (ok_or (List.find (\<lambda>r. fbr_attachment_id r = attachment_id \<and> fbr_id r = i)
         (attachment_feedback d)) (missing ''feedback not found in attachment'')) (\<lambda>row.
     Inr (fbr_body row))"

text \<open>Delivery changes the status only, never the summary that cleanup may have removed.\<close>

definition save_feedback :: "AttachmentFeedback \<Rightarrow> Db \<Rightarrow> Db" where
  "save_feedback f d = d\<lparr>attachment_feedback := update_where (\<lambda>r. fbr_id r = fb_id f)
     (\<lambda>r. r\<lparr>fbr_body := (fbr_body r)\<lparr>fb_state := fb_state f, fb_attempts := fb_attempts f,
        fb_detail := fb_detail f\<rparr>\<rparr>) (attachment_feedback d)\<rparr>"

fun acknowledged_state :: "FeedbackAcknowledgementOutcome \<Rightarrow> FeedbackState" where
  "acknowledged_state FeedbackAcknowledgementOutcome.Acknowledged = FeedbackState.Acknowledged"
| "acknowledged_state FeedbackAcknowledgementOutcome.Rejected = FeedbackState.Rejected"
| "acknowledged_state FeedbackAcknowledgementOutcome.Unknown = FeedbackState.Unknown"

definition acknowledge_feedback :: "FeedbackAcknowledgement \<Rightarrow> unit store_op" where
  "acknowledge_feedback q =
     seq (validate ''FeedbackAcknowledgement'' (valid_FeedbackAcknowledgement q)) (
     bind (query_res (feedback (fa_attachment_id q) (fa_feedback_id q))) (\<lambda>f.
     let st = acknowledged_state (fa_outcome q) in
     if fb_state f = st then skip
     else
       seq (need (fb_state f = FeedbackState.Delivered \<or> fb_state f = FeedbackState.Unknown)
              (conflict ''feedback has not been delivered or is already terminal''))
           (exec (save_feedback (f\<lparr>fb_state := st, fb_detail := fa_detail q\<rparr>)))))"

definition attachment_record :: "string \<Rightarrow> string \<Rightarrow> RecordEnvelope store_op" where
  "attachment_record attachment_id record_id =
     bind (query_res (attachment attachment_id)) (\<lambda>a.
     bind (query (\<lambda>d. exists_where (\<lambda>(run, r). r = record_id \<and> exists_where (\<lambda>w. aw_work_id w = run \<and>
         aw_attachment_id w = attachment_id) (attachment_work d)) (attachment_records d))) (\<lambda>published.
     seq (need published (missing ''record not published by this attachment'')) (
     bind (query_res (store_grant (at_grant_id a))) (\<lambda>grant.
     read_record grant record_id))))"

section \<open>Settlement of finished work\<close>

definition ended_work_status :: "RunStatus \<Rightarrow> WorkItemStatus option" where
  "ended_work_status rs = (case rs of
     RunEnded Disposition.Completed \<Rightarrow> Some WorkItemStatus.Completed
   | RunEnded Disposition.Abstained \<Rightarrow> Some WorkItemStatus.Completed
   | RunEnded Disposition.Failed \<Rightarrow> Some WorkItemStatus.Failed
   | RunEnded Disposition.Cancelled \<Rightarrow> Some WorkItemStatus.Cancelled
   | RunEnded Disposition.Exhausted \<Rightarrow> Some WorkItemStatus.Exhausted
   | RunEnded Disposition.Interrupted \<Rightarrow> None
   | RunRunning \<Rightarrow> None
   | RunWaiting \<Rightarrow> None)"

text \<open>
  Attached work of the grant whose run ended, while the work is open or unpublished. A waiting run
  passes the status test of the query as well, but has no result, and nothing happens to its work.
\<close>

definition unsettled_attached :: "string \<Rightarrow> Db \<Rightarrow> (WorkItem \<times> AgentResult \<times> WorkItemStatus) list" where
  "unsettled_attached grant d = List.map_filter (\<lambda>w.
     if wk_grant_id w = grant \<and> exists_where (\<lambda>aw. aw_work_id aw = wk_id w) (attachment_work d) \<and>
        (wk_status w = WorkItemStatus.Running \<or> wk_status w = WorkItemStatus.Interrupted \<or>
         \<not> exists_where (\<lambda>f. fbr_id f = wk_id w) (attachment_feedback d))
     then Option.bind (run_row d (wk_id w)) (\<lambda>r.
          Option.bind (rr_result r) (\<lambda>result.
          Option.bind (ended_work_status (rr_status r)) (\<lambda>st. Some (wk_body w, result, st))))
     else None) (work d)"

definition set_work_status :: "string \<Rightarrow> WorkItemStatus \<Rightarrow> Db \<Rightarrow> Db" where
  "set_work_status i st = update_work i (\<lambda>w. w\<lparr>wk_status := st,
     wk_body := (wk_body w)\<lparr>w_status := st\<rparr>\<rparr>)"

definition settle_attachment_work :: "string \<Rightarrow> AttachmentPolicy \<Rightarrow> unit store_op" where
  "settle_attachment_work grant p =
     bind (query (unsettled_attached grant)) (\<lambda>rows.
     for_each rows (\<lambda>(item, result, st).
       seq (publish_attachment_result item result p)
           (exec (set_work_status (w_id item) st))))"

definition requeue_delivered :: "string \<Rightarrow> Db \<Rightarrow> Db" where
  "requeue_delivered grant d = d\<lparr>attachment_feedback := update_where
     (\<lambda>f. exists_where (\<lambda>a. atr_id a = fbr_attachment_id f \<and> atr_grant_id a = grant) (attachments d) \<and>
        fb_state (fbr_body f) = FeedbackState.Delivered)
     (\<lambda>f. f\<lparr>fbr_body := (fbr_body f)\<lparr>fb_state := FeedbackState.Pending\<rparr>\<rparr>) (attachment_feedback d)\<rparr>"

definition recover_attachment_deliveries :: "string \<Rightarrow> unit store_op" where
  "recover_attachment_deliveries grant =
     bind (query (attachment_ids grant)) (\<lambda>ids.
     seq (for_each ids (\<lambda>i. interrupt_attachment i
            ''Host connection lost; reconnect and report any missing source observations.''))
         (exec (requeue_delivered grant)))"

section \<open>Delivery\<close>

definition valid_attachment_feedback :: "AttachmentFeedback \<Rightarrow> bool store_op" where
  "valid_attachment_feedback f =
     bind (query_res (attachment (fb_attachment_id f))) (\<lambda>a.
     bind (query_res (store_grant (at_grant_id a))) (\<lambda>grant.
     bind (if at_state a \<noteq> AttachmentState.Active then ret False
           else
             bind now_ms (\<lambda>now.
             bind (lift (counter (fb_expires_ms f))) (\<lambda>expires. ret (now < expires)))) (\<lambda>fresh.
     if \<not> fresh then ret False
     else
       seq (refresh_artifact_sources grant) (
       and_op [
         run_result_available (fb_run_id f),
         all_op (\<lambda>r. succeeds (read_record grant r)) (fb_record_refs f),
         all_op (\<lambda>r. succeeds (require_reference grant r)) (fb_evidence_refs f),
         all_op (version_is grant) (fb_artifact_versions f)]))))"

definition expired_feedback :: "AttachmentFeedback \<Rightarrow> AttachmentFeedback" where
  "expired_feedback f = f\<lparr>fb_state := FeedbackState.Expired, fb_detail :=
     ''Feedback expired, source versions changed, or supporting records were withdrawn.''\<rparr>"

definition undeliverable_feedback :: "AttachmentFeedback \<Rightarrow> AttachmentFeedback" where
  "undeliverable_feedback f = f\<lparr>fb_state := FeedbackState.Unknown, fb_detail :=
     ''Delivery attempts exhausted without acknowledgement.''\<rparr>"

definition delivered_feedback :: "AttachmentFeedback \<Rightarrow> AttachmentFeedback" where
  "delivered_feedback f = f\<lparr>fb_state := FeedbackState.Delivered, fb_attempts := fb_attempts f + 1\<rparr>"

text \<open>A page stops before the feedback that would not fit the frame.\<close>

fun feedback_loop ::
    "nat \<Rightarrow> AttachmentFeedback list \<Rightarrow> AttachmentFeedback list \<Rightarrow> AttachmentFeedback list store_op" where
  "feedback_loop bytes items [] = ret items"
| "feedback_loop bytes items (f # fs) =
     bind (valid_attachment_feedback f) (\<lambda>ok.
     if \<not> ok then seq (exec (save_feedback (expired_feedback f))) (feedback_loop bytes items fs)
     else if 3 \<le> fb_attempts f
     then seq (exec (save_feedback (undeliverable_feedback f))) (feedback_loop bytes items fs)
     else
       bind (ask (\<lambda>s. env_feedback_bytes s f + 128)) (\<lambda>size.
       if MAX_FRAME - 1024 < bytes + size then ret items
       else seq (exec (save_feedback (delivered_feedback f)))
              (feedback_loop (bytes + size) (items @ [delivered_feedback f]) fs)))"

definition attachment_feedback_page :: "string \<Rightarrow> AttachmentFeedbackPage store_op" where
  "attachment_feedback_page i =
     bind (active_attachment i) (\<lambda>_.
     bind (query (\<lambda>d. map fbr_body (take 20 (filter (undelivered i) (attachment_feedback d))))) (\<lambda>rows.
     bind (feedback_loop 1024 [] rows) (\<lambda>items.
     ret \<lparr>fp_items = items\<rparr>)))"

definition begin_attachment_steering :: "FeedbackRequest \<Rightarrow> unit store_op" where
  "begin_attachment_steering q =
     bind (active_attachment (fr_attachment_id q)) (\<lambda>(a, _).
     seq (need (AttachmentCapability.Steer \<in> set (at_capabilities a))
            (denied ''steering not granted to this connector'')) (
     bind (query_res (feedback (at_id a) (fr_feedback_id q))) (\<lambda>f.
     let refusal = conflict ''steering requires current, delivered feedback'' in
     seq (need (fb_state f = FeedbackState.Delivered) refusal) (
     bind (valid_attachment_feedback f) (\<lambda>ok.
     seq (need ok refusal) (
     bind new_id (\<lambda>intent.
     exec (save_feedback (f\<lparr>fb_state := FeedbackState.Unknown,
       fb_detail := ''Control intent '' @ intent @
         '' persisted; external acceptance has not been acknowledged.''\<rparr>)))))))))"

section \<open>Coordinated repair\<close>

definition repair_request :: "string \<Rightarrow> AgentRunRequest \<Rightarrow> string list \<Rightarrow> WorkRequest" where
  "repair_request generation template references =
     \<lparr>wr_subject = ''repair:'' @ generation, wr_profile = Profile.Caretaker,
      wr_operator = ''excision-repair@1'',
      wr_reason = rq_prompt template @ '' The external host has stopped its writers and granted a '' @
        ''bounded handoff. Repair the supported defect through a checked branch and preserve '' @
        ''independent work. Complete within this run; do not request follow-up work.'',
      wr_evidence_refs = references\<rparr>"

definition recent_evidence :: "Attachment \<Rightarrow> Db \<Rightarrow> string list" where
  "recent_evidence a d =
     (let ids = map er_id (execution_events a d) in drop (length ids - 100) ids)"

definition repair_allowed :: "Grant \<Rightarrow> Attachment \<Rightarrow> bool" where
  "repair_allowed grant a \<longleftrightarrow> AttachmentCapability.CoordinatedWrite \<in> set (at_capabilities a) \<and>
     g_mode grant = Mode.Apply \<and>
     (case g_required_checks grant of None \<Rightarrow> False | Some checks \<Rightarrow> checks \<noteq> [])"

definition other_coordinator :: "string \<Rightarrow> Db \<Rightarrow> bool" where
  "other_coordinator i d \<longleftrightarrow>
     exists_where (\<lambda>a. atr_id a \<noteq> i \<and> \<not> attachment_over (atr_body a)) (attachments d)"

definition repair_idle :: "AttachmentStatus \<Rightarrow> bool" where
  "repair_idle st \<longleftrightarrow> ats_running_work st + ats_queued_work st = 0"

definition insert_attachment_work :: "string \<Rightarrow> string \<Rightarrow> unit store_op" where
  "insert_attachment_work i attachment_id = insert_row
     (\<lambda>d. \<not> exists_where (\<lambda>w. aw_work_id w = i) (attachment_work d) \<and>
        exists_where (\<lambda>a. atr_id a = attachment_id) (attachments d))
     (\<lambda>d. d\<lparr>attachment_work := attachment_work d @ [\<lparr>aw_work_id = i, aw_attachment_id = attachment_id\<rparr>]\<rparr>)"

definition grant_handoff ::
    "Attachment \<Rightarrow> Grant \<Rightarrow> string \<Rightarrow> WorkRequest \<Rightarrow> RepairHandoff store_op" where
  "grant_handoff a grant generation request =
     transaction (
       bind (enqueue_work_in grant (at_id a) request) (\<lambda>item.
       seq (insert_attachment_work (w_id item) (at_id a)) (
       bind now_ms (\<lambda>now.
       bind (lift (counter (b_deadline_ms (g_budget grant)))) (\<lambda>deadline.
       let h = \<lparr>rh_generation = generation, rh_work_id = w_id item,
             rh_deadline_ms = to_string (min (add_u64 now 300000) deadline),
             rh_state = RepairHandoffState.Held\<rparr>
       in bind now_ms (\<lambda>updated.
          seq (save_attachment (a\<lparr>at_handoff := Some h, at_updated_ms := to_string updated\<rparr>))
              (commit h)))))))"

definition begin_attachment_repair :: "string \<Rightarrow> AgentRunRequest \<Rightarrow> RepairHandoff store_op" where
  "begin_attachment_repair i template =
     bind (active_attachment i) (\<lambda>(a, grant).
     seq (need (repair_allowed grant a)
            (denied (''coordinated repair requires the host capability, an apply grant and '' @
              ''mandatory checks''))) (
     seq (need (\<not> repair_in_progress (Some a))
            (conflict ''previous handoff must be reconciled and released'')) (
     bind (query (other_coordinator i)) (\<lambda>others.
     seq (need (\<not> others)
            (denied ''coordinated repair supports one external writer coordinator per workspace'')) (
     bind (query_res (attachment_status i)) (\<lambda>st.
     seq (need (repair_idle st)
            (conflict ''finish pending maintenance before handing off the writer'')) (
     bind (query (recent_evidence a)) (\<lambda>references.
     seq (need (references \<noteq> []) (denied ''repair requires observed source evidence'')) (
     bind new_id (\<lambda>generation.
     let request = repair_request generation template references in
     seq (validate_work_request grant request)
         (grant_handoff a grant generation request)))))))))))"

definition release_work :: "string \<Rightarrow> Db \<Rightarrow> Db" where
  "release_work i d = d\<lparr>work := update_where (\<lambda>w. wk_id w = i \<and>
       (waiting_status (wk_status w) \<or> wk_status w = WorkItemStatus.Running)) cancel_row (work d)\<rparr>"

definition settle_repair_effects :: "string \<Rightarrow> unit store_op" where
  "settle_repair_effects run =
     bind (query (\<lambda>d. run_row d run \<noteq> None)) (\<lambda>started.
     if \<not> started then skip
     else
       bind (reconcile_run run) (\<lambda>receipts.
       need (\<not> list_ex requires_reconciliation receipts)
         (conflict (''unknown effects require owner reconciliation; writer handoff remains '' @
           ''blocked''))))"

definition release_attachment_repair :: "AttachmentRelease \<Rightarrow> unit store_op" where
  "release_attachment_repair q =
     bind (query_res (attachment (arl_attachment_id q))) (\<lambda>a.
     bind (expect (at_handoff a) (missing ''attachment has no writer handoff'')) (\<lambda>h.
     seq (need (rh_generation h = arl_generation q) (conflict ''stale writer handoff generation'')) (
     if rh_state h = RepairHandoffState.Released then skip
     else
       bind (query (\<lambda>d. run_is_running d (rh_work_id h))) (\<lambda>running.
       seq (need (\<not> running) (conflict ''maintenance still owns the writer handoff'')) (
       seq (settle_repair_effects (rh_work_id h)) (
       transaction (
         seq (exec (release_work (rh_work_id h))) (
         bind now_ms (\<lambda>now.
         seq (save_attachment (a\<lparr>at_updated_ms := to_string now,
                at_handoff := Some (h\<lparr>rh_state := RepairHandoffState.Released\<rparr>)\<rparr>))
             (commit ()))))))))))"

section \<open>The attachment host\<close>

text \<open>
  \<open>tick\<close> and \<open>completed\<close> of service.rs. Cancellation of a worker is a signal to its process and has
  no model; \<open>busy\<close> is whether a worker is active. \<open>host_tick\<close> returns the request of the run to start.
\<close>

definition start_host :: "string \<Rightarrow> AttachmentPolicy \<Rightarrow> AgentRunRequest \<Rightarrow> Grant store_op" where
  "start_host grant_id p template =
     seq (validate_policy p) (
     seq (validate ''AgentRunRequest'' (valid_AgentRunRequest template)) (
     bind (query_res (store_grant grant_id)) (\<lambda>grant.
     seq (recover_attachment_deliveries grant_id) (
     seq (settle_attachment_work grant_id p)
         (ret grant)))))"

definition disconnect_host :: "Grant \<Rightarrow> unit store_op" where
  "disconnect_host grant =
     bind (query (attachment_ids (g_id grant))) (\<lambda>ids.
     for_each ids (\<lambda>i. interrupt_attachment i
       ''Host disconnected; source execution status is unknown.''))"

definition route_or_interrupt :: "string \<Rightarrow> unit store_op" where
  "route_or_interrupt i =
     bind (query_res (attachment i)) (\<lambda>a.
     if at_state a \<noteq> AttachmentState.Active then skip
     else handle (route_attachment i) (\<lambda>e. interrupt_attachment i (e_message e)))"

definition host_request :: "AgentRunRequest \<Rightarrow> WorkItem \<Rightarrow> AgentRunRequest" where
  "host_request template item = template\<lparr>rq_run_id := w_id item, rq_profile := w_profile item,
     rq_operator := w_operator item, rq_checkpoint := None,
     rq_prompt := rq_prompt template @ CHR 0x0A # ''Follow-up for '' @ w_subject item @ '': '' @
       w_reason item @ ''. Evidence references: '' @ join_strings '', '' (w_evidence_refs item)\<rparr>"

definition host_tick ::
    "Grant \<Rightarrow> AttachmentPolicy \<Rightarrow> string \<Rightarrow> AgentRunRequest \<Rightarrow> bool \<Rightarrow> AgentRunRequest option store_op" where
  "host_tick grant p owner template busy =
     seq (settle_attachment_work (g_id grant) p) (
     bind (query (attachment_ids (g_id grant))) (\<lambda>ids.
     seq (for_each ids route_or_interrupt) (
     if busy then ret None
     else
       bind now_ms (\<lambda>now.
       bind (lift (counter (b_deadline_ms (g_budget grant)))) (\<lambda>deadline.
       if deadline \<le> now then ret None
       else
         bind (claim_work_matching (g_id grant) owner 300000 True) (\<lambda>claimed.
         ret (map_option (host_request template) claimed)))))))"

fun disposition_status :: "Disposition \<Rightarrow> WorkItemStatus" where
  "disposition_status Disposition.Completed = WorkItemStatus.Completed"
| "disposition_status Disposition.Abstained = WorkItemStatus.Completed"
| "disposition_status Disposition.Cancelled = WorkItemStatus.Cancelled"
| "disposition_status Disposition.Exhausted = WorkItemStatus.Exhausted"
| "disposition_status Disposition.Interrupted = WorkItemStatus.Interrupted"
| "disposition_status Disposition.Failed = WorkItemStatus.Failed"

definition run_completed ::
    "Grant \<Rightarrow> AttachmentPolicy \<Rightarrow> string \<Rightarrow> string \<Rightarrow> AgentResult res \<Rightarrow> unit store_op" where
  "run_completed grant p owner run outcome =
     (let result = (case outcome of Inr r \<Rightarrow> r
            | Inl e \<Rightarrow> \<lparr>res_disposition = Disposition.Failed, res_summary = e_message e\<rparr>)
      in seq (finish_run run result) (
         bind (run_result_for_delivery run) (\<lambda>result.
         bind (query_res (\<lambda>d. the_row (work_row d run))) (\<lambda>row.
         seq (publish_attachment_result (wk_body row) result p) (
         bind (if res_disposition result \<noteq> Disposition.Interrupted then ret None
               else query_res (run_attachment run)) (\<lambda>attached.
         seq (case attached of None \<Rightarrow> skip
              | Some a \<Rightarrow> interrupt_attachment (at_id a) (res_summary result)) (
         seq (settle_attachment_work (g_id grant) p)
             (finish_work run owner (disposition_status (res_disposition result))))))))))"

end
