(* ===== verification/Windows.thy ===== *)
theory Windows
  imports Database
begin

text \<open>
  \<open>utf8_window\<close> of crates/ribosome-core/src/tool_results.rs: the bounded excerpt of a text a reader
  asked for. A character of the model is a byte, so a text is its UTF-8 encoding; a window never
  splits an encoded character. A reader that continues at the end of each window reads the whole
  text.
\<close>

section \<open>Model\<close>

definition continuation_byte :: "char \<Rightarrow> bool" where
  "continuation_byte c \<longleftrightarrow> 128 \<le> (of_char c :: nat) \<and> (of_char c :: nat) < 192"

definition char_boundary :: "string \<Rightarrow> nat \<Rightarrow> bool" where
  "char_boundary s i \<longleftrightarrow> i = 0 \<or> i = length s \<or> i < length s \<and> \<not> continuation_byte (s ! i)"

text \<open>\<open>while !is_char_boundary(end) { end -= 1 }\<close>.\<close>

fun floor_boundary :: "string \<Rightarrow> nat \<Rightarrow> nat" where
  "floor_boundary s 0 = 0"
| "floor_boundary s (Suc n) = (if char_boundary s (Suc n) then Suc n else floor_boundary s n)"

definition utf8_window :: "string \<Rightarrow> nat \<Rightarrow> nat \<Rightarrow> string res" where
  "utf8_window content offset len =
     (if length content < offset \<or> \<not> char_boundary content offset
      then Inl (invalid ''artifact offset must be within the retained UTF-8 content'')
      else
        let stop = floor_boundary content (min (offset + len) (length content)) in
        if stop = offset \<and> offset < length content
        then Inl (invalid ''artifact length is smaller than the next UTF-8 character'')
        else Inr (take (stop - offset) (drop offset content)))"

text \<open>\<open>String::from_utf8\<close> accepts exactly the shortest encodings of Unicode scalar values.\<close>

definition tail_byte :: "nat \<Rightarrow> bool" where
  "tail_byte n \<longleftrightarrow> 128 \<le> n \<and> n < 192"

fun valid_utf8 :: "nat list \<Rightarrow> bool" where
  "valid_utf8 [] = True"
| "valid_utf8 (a # bs) =
     (if a < 128 then valid_utf8 bs
      else case bs of
          [] \<Rightarrow> False
        | b # cs \<Rightarrow>
            if 194 \<le> a \<and> a < 224 then tail_byte b \<and> valid_utf8 cs
            else case cs of
                [] \<Rightarrow> False
              | c # ds \<Rightarrow>
                  if 224 \<le> a \<and> a < 240
                  then tail_byte b \<and> (a = 224 \<longrightarrow> 160 \<le> b) \<and> (a = 237 \<longrightarrow> b < 160) \<and> tail_byte c \<and>
                    valid_utf8 ds
                  else case ds of
                      [] \<Rightarrow> False
                    | e # es \<Rightarrow>
                        240 \<le> a \<and> a < 245 \<and> tail_byte b \<and> (a = 240 \<longrightarrow> 144 \<le> b) \<and>
                        (a = 244 \<longrightarrow> b < 144) \<and> tail_byte c \<and> tail_byte e \<and> valid_utf8 es)"

definition from_utf8 :: "string \<Rightarrow> bool" where
  "from_utf8 s \<longleftrightarrow> valid_utf8 (map of_char s)"

section \<open>One window\<close>

lemma floor_boundary_le: "floor_boundary s n \<le> n"
  by (induction n) auto

lemma floor_boundary_boundary: "char_boundary s (floor_boundary s n)"
  by (induction n) (auto simp: char_boundary_def)

lemma floor_boundary_ge: "char_boundary s i \<Longrightarrow> i \<le> n \<Longrightarrow> i \<le> floor_boundary s n"
proof (induction n)
  case (Suc n)
  then show ?case by (cases "i = Suc n") auto
qed simp

lemma utf8_windowD:
  assumes "utf8_window s offset len = Inr w"
  shows "offset \<le> length s" "char_boundary s offset" "char_boundary s (offset + length w)"
    "length w \<le> len" "take (length w) (drop offset s) = w" "w = [] \<Longrightarrow> offset = length s"
proof -
  define stop where "stop = floor_boundary s (min (offset + len) (length s))"
  from assms have start: "offset \<le> length s" "char_boundary s offset"
    and w: "w = take (stop - offset) (drop offset s)" and moved: "stop = offset \<longrightarrow> offset = length s"
    by (auto simp: utf8_window_def stop_def Let_def not_less split: if_splits)
  from start have ge: "offset \<le> stop"
    unfolding stop_def by (intro floor_boundary_ge) auto
  have le: "stop \<le> offset + len" "stop \<le> length s"
    using floor_boundary_le [of s "min (offset + len) (length s)"] by (simp_all add: stop_def)
  from ge le have size: "length w = stop - offset" by (simp add: w)
  show "offset \<le> length s" "char_boundary s offset" by (rule start)+
  show "char_boundary s (offset + length w)"
    using floor_boundary_boundary ge by (simp add: size stop_def)
  show "length w \<le> len" using le ge by (simp add: size)
  show "take (length w) (drop offset s) = w" unfolding size by (rule w [symmetric])
  show "offset = length s" if "w = []" using that size ge moved by simp
qed

section \<open>Reading a whole text\<close>

text \<open>Every encoded character is a leading byte with at most three continuation bytes.\<close>

fun utf8_from :: "nat \<Rightarrow> string \<Rightarrow> bool" where
  "utf8_from n [] = True"
| "utf8_from n (c # cs) =
     (if continuation_byte c then 0 < n \<and> utf8_from (n - 1) cs else utf8_from 3 cs)"

definition utf8_text :: "string \<Rightarrow> bool" where
  "utf8_text s \<longleftrightarrow> utf8_from 0 s"

lemma utf8_from_mono: "utf8_from m s \<Longrightarrow> m \<le> n \<Longrightarrow> utf8_from n s"
proof (induction m s arbitrary: n rule: utf8_from.induct)
  case (2 m c cs)
  then show ?case by (cases "continuation_byte c") auto
qed simp

lemma utf8_from_ascii: "\<not> continuation_byte c \<Longrightarrow> utf8_from n (c # cs) = utf8_from 3 cs"
  by simp

lemma tail_byte_continuation: "tail_byte (of_char c) \<longleftrightarrow> continuation_byte c"
  by (simp add: tail_byte_def continuation_byte_def)

lemma from_utf8_text: "from_utf8 s \<Longrightarrow> utf8_text s"
proof -
  have "valid_utf8 xs \<Longrightarrow> xs = map of_char s \<Longrightarrow> utf8_from 0 s" for xs and s :: string
  proof (induction xs arbitrary: s rule: valid_utf8.induct)
    case (2 a bs)
    from 2(6) obtain ch u where s: "s = ch # u" "a = of_char ch" "bs = map of_char u" by (cases s) auto
    have lead: "\<not> continuation_byte ch" if "a < 128 \<or> 192 \<le> a"
      using that s(2) by (auto simp: continuation_byte_def)
    show ?case
    proof (cases "a < 128")
      case True
      with 2(5) have "valid_utf8 bs" by simp
      with True 2(1) s(3) have "utf8_from 0 u" by blast
      with lead True s(1) utf8_from_mono [of 0 u 3] show ?thesis by simp
    next
      case False
      with 2(5) obtain b cs where bs: "bs = b # cs" by (auto split: list.splits)
      with s(3) obtain ch2 v where u: "u = ch2 # v" "b = of_char ch2" "cs = map of_char v" by (cases u) auto
      show ?thesis
      proof (cases "194 \<le> a \<and> a < 224")
        case True
        with False 2(5) bs have "tail_byte b" "valid_utf8 cs" by simp_all
        with False True bs 2(2) u(3) have "utf8_from 0 v" by blast
        with \<open>tail_byte b\<close> True lead s(1) u utf8_from_mono [of 0 v] show ?thesis
          by (simp add: tail_byte_continuation)
      next
        case two: False
        with False 2(5) bs obtain c ds where cs: "cs = c # ds" by (auto split: list.splits)
        with u(3) obtain ch3 w where v: "v = ch3 # w" "c = of_char ch3" "ds = map of_char w" by (cases v) auto
        show ?thesis
        proof (cases "224 \<le> a \<and> a < 240")
          case True
          with False two 2(5) bs cs have "tail_byte b" "tail_byte c" "valid_utf8 ds"
            by (auto split: if_splits)
          with False two True bs cs 2(3) v(3) have "utf8_from 0 w" by blast
          with \<open>tail_byte b\<close> \<open>tail_byte c\<close> True lead s(1) u v utf8_from_mono [of 0 w] show ?thesis
            by (simp add: tail_byte_continuation)
        next
          case three: False
          with False two 2(5) bs cs obtain e es where ds: "ds = e # es" by (auto split: list.splits)
          with v(3) obtain ch4 y where w: "w = ch4 # y" "e = of_char ch4" "es = map of_char y" by (cases w) auto
          from False two three 2(5) bs cs ds
          have all: "tail_byte b" "tail_byte c" "tail_byte e" "valid_utf8 es" "240 \<le> a"
            by (auto split: if_splits)
          with False two three bs cs ds 2(4) w(3) have "utf8_from 0 y" by blast
          with all lead s(1) u v w show ?thesis by (simp add: tail_byte_continuation)
        qed
      qed
    qed
  qed simp
  then show "from_utf8 s \<Longrightarrow> utf8_text s" by (simp add: from_utf8_def utf8_text_def)
qed

lemma utf8_from_run:
  "utf8_from n s \<Longrightarrow> n < length s \<Longrightarrow> \<exists>i \<le> n. \<not> continuation_byte (s ! i)"
proof (induction n s rule: utf8_from.induct)
  case (2 n c cs)
  show ?case
  proof (cases "continuation_byte c")
    case True
    with 2 have "n - 1 < length cs" "0 < n" "utf8_from (n - 1) cs" by auto
    with 2(1) True obtain i where "i \<le> n - 1" "\<not> continuation_byte (cs ! i)" by blast
    with \<open>0 < n\<close> show ?thesis by (intro exI [of _ "Suc i"]) auto
  qed auto
qed simp

lemma utf8_from_drop:
  "utf8_from n s \<Longrightarrow> i < length s \<Longrightarrow> \<not> continuation_byte (s ! i) \<Longrightarrow> utf8_from 3 (drop (Suc i) s)"
proof (induction n s arbitrary: i rule: utf8_from.induct)
  case (2 n c cs)
  then show ?case by (cases i) (auto split: if_splits)
qed simp

lemma next_boundary:
  assumes utf: "utf8_text s" and bnd: "char_boundary s i" "i < length s"
  shows "\<exists>j. i < j \<and> j \<le> i + 4 \<and> j \<le> length s \<and> char_boundary s j"
proof (cases "length s \<le> i + 4")
  case True
  with bnd show ?thesis by (intro exI [of _ "length s"]) (auto simp: char_boundary_def)
next
  case False
  have "\<not> continuation_byte (s ! 0)" if "s \<noteq> []"
    using utf that by (cases s) (auto simp: utf8_text_def split: if_splits)
  with bnd have start: "\<not> continuation_byte (s ! i)" by (auto simp: char_boundary_def)
  from utf bnd(2) start have "utf8_from 3 (drop (Suc i) s)"
    unfolding utf8_text_def by (rule utf8_from_drop)
  moreover have "3 < length (drop (Suc i) s)" using False by simp
  ultimately obtain k where "k \<le> 3" "\<not> continuation_byte (drop (Suc i) s ! k)"
    using utf8_from_run by blast
  with False have "k \<le> 3" "\<not> continuation_byte (s ! (Suc i + k))" by auto
  with False show ?thesis by (intro exI [of _ "Suc i + k"]) (auto simp: char_boundary_def)
qed

text \<open>A window of at least four bytes is never empty before the end.\<close>

lemma utf8_window_progress:
  assumes utf: "utf8_text s" and bnd: "char_boundary s i" "i < length s" and len: "4 \<le> len"
  shows "\<exists>w. utf8_window s i len = Inr w \<and> w \<noteq> []"
proof -
  define stop where "stop = floor_boundary s (min (i + len) (length s))"
  from next_boundary [OF utf bnd] obtain j where j: "i < j" "j \<le> i + 4" "j \<le> length s" "char_boundary s j"
    by blast
  with len have "j \<le> stop" unfolding stop_def by (intro floor_boundary_ge) auto
  moreover have "stop \<le> length s"
    using floor_boundary_le [of s "min (i + len) (length s)"] by (simp add: stop_def)
  ultimately show ?thesis
    using bnd j(1) by (auto simp: utf8_window_def Let_def stop_def [symmetric])
qed

text \<open>The loop of a reader: ask, continue after what was returned, stop at the end.\<close>

fun read_windows :: "nat \<Rightarrow> string \<Rightarrow> nat \<Rightarrow> nat \<Rightarrow> string list res" where
  "read_windows 0 s offset len = Inl (internal ''fuel'')"
| "read_windows (Suc fuel) s offset len =
     and_then (utf8_window s offset len) (\<lambda>w.
     if offset + length w = length s then Inr [w]
     else and_then (read_windows fuel s (offset + length w) len) (\<lambda>ws. Inr (w # ws)))"

lemma read_windows_complete:
  assumes utf: "utf8_text s" and len: "4 \<le> len"
  shows "char_boundary s offset \<Longrightarrow> offset \<le> length s \<Longrightarrow> length s - offset < fuel \<Longrightarrow>
    \<exists>ws. read_windows fuel s offset len = Inr ws \<and> concat ws = drop offset s \<and>
      list_all (\<lambda>w. length w \<le> len) ws"
proof (induction fuel arbitrary: offset)
  case (Suc fuel)
  show ?case
  proof (cases "offset = length s")
    case True
    then have "utf8_window s offset len = Inr []"
      using Suc.prems(1) floor_boundary_ge [OF Suc.prems(1), of "min (offset + len) (length s)"]
        floor_boundary_le [of s "min (offset + len) (length s)"]
      by (simp add: utf8_window_def Let_def)
    with True show ?thesis by simp
  next
    case False
    with Suc.prems have "offset < length s" by simp
    from utf8_window_progress [OF utf Suc.prems(1) this len] obtain w
      where w: "utf8_window s offset len = Inr w" "w \<noteq> []" by blast
    note facts = utf8_windowD [OF w(1)]
    have in_text: "offset + length w \<le> length s"
      using facts(3) by (auto simp: char_boundary_def)
    have split: "w @ drop (offset + length w) s = drop offset s"
      using facts(5) by (metis append_take_drop_id add.commute drop_drop)
    show ?thesis
    proof (cases "offset + length w = length s")
      case True
      with split have "w = drop offset s" by simp
      with True w(1) facts(4) show ?thesis by simp
    next
      case False
      have "length s - (offset + length w) < fuel" using w(2) Suc.prems(3) in_text by (cases w) auto
      from Suc.IH [OF facts(3) in_text this] obtain ws where
        "read_windows fuel s (offset + length w) len = Inr ws"
        "concat ws = drop (offset + length w) s" "list_all (\<lambda>w. length w \<le> len) ws" by blast
      with w(1) False facts(4) split show ?thesis by (intro exI [of _ "w # ws"]) simp
    qed
  qed
qed simp

end
