(* ===== verification/Parking.thy ===== *)
theory Parking
  imports Work
begin

text \<open>
  crates/ribosome-core/src/parking.rs: a run that waits for its child work. It is parked with the
  ids it waits for, resumes when all of them have settled, and when it is stopped while it waits its
  children's allowances are closed. \<open>work_source\<close> is in Runs.
\<close>

section \<open>Model\<close>

definition terminal :: "WorkItemStatus \<Rightarrow> bool" where
  "terminal status \<longleftrightarrow>
     status \<noteq> WorkItemStatus.Queued \<and> status \<noteq> WorkItemStatus.Running \<and>
     status \<noteq> WorkItemStatus.Interrupted"

definition child_work :: "string \<Rightarrow> string \<Rightarrow> Db \<Rightarrow> WorkItem res" where
  "child_work parent i d =
     and_then (run_grant parent d) (\<lambda>grant.
     and_then (ok_or (List.find (\<lambda>w. wk_id w = i \<and> wk_grant_id w = g_id grant \<and>
         w_parent_id (wk_body w) = parent) (work d))
       (denied (''waiting and status require this run'' @ CHR 0x27 # ''s direct child work''))) (\<lambda>row.
     Inr (wk_body row)))"

definition work_wait_status :: "string \<Rightarrow> WorkWaitRequest \<Rightarrow> WorkWaitResult store_op" where
  "work_wait_status run request =
     seq (validate ''WorkWaitRequest'' (valid_WorkWaitRequest request)) (
     bind (query_res (\<lambda>d. map_res (\<lambda>i. child_work run i d) (ww_work_ids request))) (\<lambda>children.
     ret \<lparr>wwr_work_ids = ww_work_ids request,
          wwr_wait_required = list_ex (\<lambda>w. \<not> terminal (w_status w)) children\<rparr>))"

definition wait_for_work :: "string \<Rightarrow> WorkWaitRequest \<Rightarrow> WorkWaitResult store_op" where
  "wait_for_work run request = bind (require_active run) (\<lambda>_. work_wait_status run request)"

definition saved_result :: "string \<Rightarrow> Db \<Rightarrow> (AgentResult \<times> string) option" where
  "saved_result i d = Option.bind (run_row d i) (\<lambda>r.
     case (rr_result r, rr_result_source r) of (Some x, Some s) \<Rightarrow> Some (x, s) | _ \<Rightarrow> None)"

definition work_status :: "string \<Rightarrow> string \<Rightarrow> WorkStatus store_op" where
  "work_status run i =
     bind (query_res (child_work run i)) (\<lambda>child.
     let status = \<lparr>ws_work_id = i, ws_status = w_status child, ws_result_available = False,
           ws_result = None, ws_source = None\<rparr> in
     bind (query (saved_result i)) (\<lambda>saved.
     case saved of
       None \<Rightarrow> ret status
     | Some (result, source) \<Rightarrow>
         bind (query_res (run_grant run)) (\<lambda>grant.
         bind (source_available grant ''event'' source) (\<lambda>available.
         if available
         then bind (query_res (event_source source)) (\<lambda>s.
              ret (status\<lparr>ws_result := Some result, ws_result_available := True,
                     ws_source := Some s\<rparr>))
         else ret status))))"

text \<open>An effect whose outcome is still owed.\<close>

definition unsettled_effect :: "EffectRow \<Rightarrow> bool" where
  "unsettled_effect e \<longleftrightarrow>
     ef_phase e \<noteq> PhaseFinalized \<or>
     rcp_status (ef_body e) = EffectStatus.Unknown \<and> ef_settlement e = None"

text \<open>
  The last tool exchange of a retained context: the newest assistant message, and the calls that
  have a result after it. A \<open>toolCallId\<close> that is no string is rusqlite's column type error.
\<close>

definition item_role :: "ContextItem \<Rightarrow> string option" where
  "item_role item = Option.bind (it_body item) (\<lambda>b. as_str (json_get b ''role''))"

definition last_assistant :: "string \<Rightarrow> Db \<Rightarrow> ContextItem option" where
  "last_assistant segment d =
     newest (sort_key it_sequence (filter (\<lambda>i. it_segment_id i = segment \<and>
       item_role i = Some ''assistant'') (context_items d)))"

definition completed_calls :: "string \<Rightarrow> nat \<Rightarrow> Db \<Rightarrow> string list res" where
  "completed_calls segment sequence d =
     map_res (\<lambda>i. ok_or (Option.bind (it_body i) (\<lambda>b. as_str (json_get b ''toolCallId'')))
         (internal ''Invalid column type''))
       (filter (\<lambda>i. it_segment_id i = segment \<and> sequence < it_sequence i \<and>
         item_role i = Some ''toolResult'') (context_items d))"

definition unfinished_call :: "string list \<Rightarrow> json \<Rightarrow> bool" where
  "unfinished_call completed part \<longleftrightarrow>
     json_get part ''type'' = JString ''toolCall'' \<and>
     (case as_str (json_get part ''id'') of None \<Rightarrow> True | Some i \<Rightarrow> i \<notin> set completed)"

definition check_exchange :: "string \<Rightarrow> Db \<Rightarrow> unit res" where
  "check_exchange segment d =
     and_then (ok_or (last_assistant segment d) (invalid ''parking requires a completed tool exchange''))
       (\<lambda>item.
     and_then (ok_or (it_body item) (internal ''Invalid column type'')) (\<lambda>body.
     and_then (completed_calls segment (it_sequence item) d) (\<lambda>completed.
     and_then (ok_or (as_array (json_get body ''content''))
         (invalid ''assistant content is not a tool exchange'')) (\<lambda>parts.
     guard (\<not> list_ex (unfinished_call completed) parts)
       (conflict ''parking cannot discard an unfinished tool exchange'')))))"

definition insert_wait :: "string \<Rightarrow> string list \<Rightarrow> Db \<Rightarrow> Db" where
  "insert_wait run ids d = d\<lparr>run_waits := run_waits d @ [\<lparr>rw_run_id = run, rw_work_ids = ids\<rparr>]\<rparr>"

definition set_run_status :: "string \<Rightarrow> RunStatus \<Rightarrow> Db \<Rightarrow> Db" where
  "set_run_status run status = update_run run (\<lambda>r. r\<lparr>rr_status := status\<rparr>)"

definition park_run :: "string \<Rightarrow> SessionParkRequest \<Rightarrow> unit store_op" where
  "park_run run request =
     seq (validate ''SessionParkRequest'' (valid_SessionParkRequest request)) (
     transaction (
       bind (require_active run) (\<lambda>grant.
       bind (query_res (run_attachment run)) (\<lambda>attached.
       seq (need (\<not> repair_in_progress attached)
              (denied ''coordinated repair must finish within its current work item'')) (
       bind (work_wait_status run \<lparr>ww_work_ids = sp_work_ids request\<rparr>) (\<lambda>_.
       let checkpoint = sp_checkpoint request in
       seq (need (cp_format checkpoint = ''pi-0.85.1/2'' \<and> cp_pending_operations checkpoint = [])
              (denied ''parking requires a bounded checkpoint without pending effects'')) (
       seq (save_checkpoint run checkpoint) (
       bind (expect (cp_context checkpoint) (invalid ''parking requires retained context'')) (\<lambda>context.
       bind (context_available grant (cx_segment_id context)) (\<lambda>available.
       seq (need available (denied ''parking context is no longer authorized'')) (
       bind (query (\<lambda>d. exists_where (\<lambda>e. ef_run_id e = run \<and> unsettled_effect e) (effects d))) (\<lambda>unsettled.
       seq (need (\<not> unsettled) (conflict ''issued effects must settle before parking'')) (
       seq (query_res (check_exchange (cx_segment_id context))) (
       seq (insert_row (\<lambda>d. \<not> run_waiting d run) (insert_wait run (sp_work_ids request))) (
       seq (exec (set_run_status run RunWaiting)) (
       commit ()))))))))))))))))"

definition waiting_work :: "string \<Rightarrow> Db \<Rightarrow> WorkWaitRequest option" where
  "waiting_work run d =
     map_option (\<lambda>w. \<lparr>ww_work_ids = rw_work_ids w\<rparr>) (List.find (\<lambda>w. rw_run_id w = run) (run_waits d))"

definition delete_wait :: "string \<Rightarrow> Db \<Rightarrow> Db" where
  "delete_wait run d = d\<lparr>run_waits := delete_where (\<lambda>w. rw_run_id w = run) (run_waits d)\<rparr>"

definition wake_run :: "string \<Rightarrow> Db \<Rightarrow> Db" where
  "wake_run run d = d\<lparr>runs := update_where (\<lambda>r. rr_id r = run \<and> rr_status r = RunWaiting)
     (\<lambda>r. r\<lparr>rr_status := RunRunning\<rparr>) (runs d)\<rparr>"

definition resume_waiting :: "string \<Rightarrow> unit store_op" where
  "resume_waiting run =
     transaction (
       bind (query (waiting_work run)) (\<lambda>found.
       bind (expect found (conflict ''run has no waiting continuation'')) (\<lambda>wait.
       bind (work_wait_status run wait) (\<lambda>status.
       seq (need (\<not> wwr_wait_required status) (conflict ''child work has not settled'')) (
       seq (exec (delete_wait run)) (
       seq (exec (wake_run run)) (
       commit ())))))))"

text \<open>The status a stopped child gets: the disposition under its wire name.\<close>

fun stopped_status :: "Disposition \<Rightarrow> WorkItemStatus" where
  "stopped_status Disposition.Exhausted = WorkItemStatus.Exhausted"
| "stopped_status _ = WorkItemStatus.Cancelled"

definition stop_row :: "WorkItemStatus \<Rightarrow> WorkRow \<Rightarrow> WorkRow" where
  "stop_row status w = w\<lparr>wk_status := status, wk_body := (wk_body w)\<lparr>w_status := status\<rparr>\<rparr>"

definition close_allowance :: "string \<Rightarrow> Disposition \<Rightarrow> Db \<Rightarrow> Db" where
  "close_allowance i disposition d = set_disposition (work_allocation_ref i d) (Some disposition) d"

definition stop_child ::
    "string \<Rightarrow> Disposition \<Rightarrow> string list \<Rightarrow> string \<Rightarrow> string list store_op" where
  "stop_child run disposition running i =
     bind (query_res (child_work run i)) (\<lambda>child.
     if terminal (w_status child) then ret running
     else
       seq (exec (close_allowance i disposition)) (
       if w_status child = WorkItemStatus.Queued \<or> w_status child = WorkItemStatus.Interrupted
       then seq (exec (update_work i (stop_row (stopped_status disposition)))) (ret running)
       else ret (running @ [i])))"

definition stop_waiting_children :: "string \<Rightarrow> Disposition \<Rightarrow> string list store_op" where
  "stop_waiting_children run disposition =
     seq (need (disposition = Disposition.Cancelled \<or> disposition = Disposition.Exhausted)
            (invalid ''child stopping requires cancellation or exhaustion'')) (
     bind (query (waiting_work run)) (\<lambda>found.
     case found of
       None \<Rightarrow> ret []
     | Some wait \<Rightarrow>
         transaction (bind (fold_op (stop_child run disposition) [] (ww_work_ids wait)) commit)))"

section \<open>Reads of the children\<close>

lemma quiet_waits [quiet_intros]:
  "quiet (work_wait_status run q)" "quiet (work_status run i)"
  unfolding work_wait_status_def work_status_def Let_def split_beta by (intro quiet_intros)+

lemma child_work_row:
  "child_work run i d = Inr item \<longleftrightarrow> (\<exists>g row. run_grant run d = Inr g \<and>
     List.find (\<lambda>w. wk_id w = i \<and> wk_grant_id w = g_id g \<and> w_parent_id (wk_body w) = run) (work d) =
       Some row \<and> item = wk_body row)"
  by (auto simp: child_work_def)

lemma map_res_list_all:
  "map_res f xs = Inr ys \<Longrightarrow> list_all P ys \<Longrightarrow> x \<in> set xs \<Longrightarrow> \<exists>y. f x = Inr y \<and> P y"
  by (induction xs arbitrary: ys) (auto simp: and_then_Inr_iff)

lemma wait_over_iff:
  "work_wait_status run q s = (Inr st, t) \<Longrightarrow>
     t = s \<and> (\<not> wwr_wait_required st \<longrightarrow>
       (\<forall>i \<in> set (ww_work_ids q). \<exists>item. child_work run i (store_db s) = Inr item \<and> terminal (w_status item)))"
  by (auto simp: work_wait_status_def seq_Inr_iff bind_Inr_iff list_ex_iff
      dest!: map_res_list_all [where P = "\<lambda>w. terminal (w_status w)", rotated 2] simp: list_all_iff)

end
