(* ===== verification/ContextLog.thy ===== *)
theory ContextLog
  imports Runs Parking
begin

text \<open>
  crates/ribosome-core/src/context.rs and continuation.rs: the retained messages of a run. A run owns
  a chain of segments; a segment is a log of messages with the sources they rest on. Authorization
  reuses the newest segment while its sources are available and current, and otherwise starts a clean
  one. The reads the run lifecycle rests on are in ContextStore.
\<close>

section \<open>State of a segment\<close>

definition ITEM_BYTES :: nat where
  "ITEM_BYTES = 240 * 1024"

definition PAGE_BYTES :: nat where
  "PAGE_BYTES = 480 * 1024"

definition segment_items :: "string \<Rightarrow> Db \<Rightarrow> ContextItem list" where
  "segment_items segment d =
     sort_key it_sequence (filter (\<lambda>i. it_segment_id i = segment) (context_items d))"

definition policy_generation :: "Scope \<Rightarrow> Db \<Rightarrow> nat" where
  "policy_generation scope d = (case List.find (\<lambda>g. sg_client g = sc_client scope \<and>
     sg_project g = sc_project scope) (source_policy d) of None \<Rightarrow> 0 | Some g \<Rightarrow> sg_generation g)"

definition summary_head :: "string \<Rightarrow> Db \<Rightarrow> (string \<times> nat) option" where
  "summary_head segment d = map_option (\<lambda>s. (sm_id s, sm_through_sequence s))
     (newest (sort_key sm_through_sequence (filter (\<lambda>s. sm_segment_id s = segment \<and>
        sm_status s = ''committed'') (context_summaries d))))"

definition text_bytes :: "json option \<Rightarrow> World \<Rightarrow> nat" where
  "text_bytes body s = (case body of None \<Rightarrow> 0 | Some j \<Rightarrow> length (env_json_text s j))"

fun without_member :: "string \<Rightarrow> json \<Rightarrow> json" where
  "without_member k (JObject m) = JObject (filter (\<lambda>(n, _). n \<noteq> k) m)"
| "without_member k j = j"

text \<open>The details of an observation are kept out of the provider's context.\<close>

definition item_bytes :: "ContextItem \<Rightarrow> World \<Rightarrow> nat" where
  "item_bytes i s = text_bytes (if it_kind i = ''observed_evidence''
     then map_option (without_member ''details'') (it_body i) else it_body i) s"

definition owner_bytes :: "string \<Rightarrow> World \<Rightarrow> nat" where
  "owner_bytes segment s = sum_list (map (\<lambda>i. text_bytes (it_body i) s)
     (filter (\<lambda>i. it_sequence i = 1 \<and> it_kind i = ''owner_instruction'')
       (segment_items segment (store_db s))))"

text \<open>From the newest item back: where the tail that fits begins, never between a call and its result.\<close>

fun tail_loop :: "nat \<Rightarrow> nat \<Rightarrow> nat option \<Rightarrow> (nat \<times> string \<times> nat) list \<Rightarrow> nat" where
  "tail_loop limit bytes boundary [] = 0"
| "tail_loop limit bytes boundary ((sequence, kind, width) # rows) =
     (case (limit < bytes + width, boundary) of
        (True, Some b) \<Rightarrow> b
      | _ \<Rightarrow> tail_loop limit (bytes + width)
               (if kind \<noteq> ''observed_evidence'' then Some (sequence - 1) else boundary) rows)"

definition context_tail :: "string \<Rightarrow> nat store_op" where
  "context_tail segment = ask (\<lambda>s.
     tail_loop (180000 - (owner_bytes segment s + 16 * 1024 + 2000)) 0 None
       (map (\<lambda>i. (it_sequence i, it_kind i, item_bytes i s))
         (rev (segment_items segment (store_db s)))))"

definition context_state :: "Grant \<Rightarrow> string \<Rightarrow> bool \<Rightarrow> ContextState store_op" where
  "context_state grant segment rebuilt =
     bind (query (policy_generation (g_scope grant))) (\<lambda>generation.
     bind (query (summary_head segment)) (\<lambda>summary.
     bind (query (context_count segment)) (\<lambda>count.
     bind (context_tail segment) (\<lambda>tail.
     ret \<lparr>cx_segment_id = segment, cx_count = to_string count, cx_generation = to_string generation,
          cx_rebuilt = rebuilt, cx_tail_after = to_string tail,
          cx_summary_ref = map_option fst summary,
          cx_summary_through = Some (to_string (case summary of None \<Rightarrow> 0 | Some (_, t) \<Rightarrow> t))\<rparr>))))"

section \<open>Navigation references\<close>

definition obligation_open :: "RecordEnvelope \<Rightarrow> bool" where
  "obligation_open r \<longleftrightarrow>
     json_get (JObject (r_body r)) ''state'' \<notin> {JNull, JString ''satisfied''}"

definition seen_by_run :: "string \<Rightarrow> string \<Rightarrow> Db \<Rightarrow> bool" where
  "seen_by_run run i d \<longleftrightarrow> exists_where (\<lambda>c. cso_kind c = ''record'' \<and> cso_id c = i \<and>
     exists_where (\<lambda>s. sgm_id s = cso_segment_id c \<and> sgm_run_id s = run) (context_segments d))
     (context_sources d)"

text \<open>Rows of \<open>records\<close> and \<open>work\<close> are never deleted, so their rowid is their position.\<close>

definition continuation_rows ::
    "string \<Rightarrow> Grant \<Rightarrow> ContinuationKind \<Rightarrow> Db \<Rightarrow> (nat \<times> string \<times> string option) list" where
  "continuation_rows run grant kind d = (case kind of
     ContinuationKind.Obligation \<Rightarrow>
       map (\<lambda>(n, r). (n, rec_id r, Some (rec_version r)))
         (filter (\<lambda>(n, r). rec_kind r = RecordKind.Obligation \<and>
            rec_client r = sc_client (g_scope grant) \<and> rec_project r = sc_project (g_scope grant) \<and>
            obligation_open (rec_body r) \<and> seen_by_run run (rec_id r) d) (enumerate 1 (records d)))
   | ContinuationKind.Effect \<Rightarrow>
       map (\<lambda>e. (ef_rowid e, ef_id e, None))
         (filter (\<lambda>e. ef_run_id e = run \<and> ef_grant_id e = g_id grant) (effects d))
   | ContinuationKind.Work \<Rightarrow>
       map (\<lambda>(n, w). (n, wk_id w, None))
         (filter (\<lambda>(n, w). w_parent_id (wk_body w) = run \<and> wk_grant_id w = g_id grant)
           (enumerate 1 (work d))))"

definition keep_reference ::
    "Grant \<Rightarrow> ContinuationKind \<Rightarrow> ContinuationReference list \<Rightarrow> nat \<times> string \<times> string option \<Rightarrow>
     ContinuationReference list store_op" where
  "keep_reference grant kind references row = (case row of (_, i, version) \<Rightarrow>
     let kept = references @ [\<lparr>cref_id = i, cref_version = version\<rparr>] in
     if kind \<noteq> ContinuationKind.Obligation then ret kept
     else
       bind (attempt (read_record grant i)) (\<lambda>outcome.
       case outcome of
         Inr _ \<Rightarrow> ret kept
       | Inl e \<Rightarrow> if e_code e = -32001 \<or> e_code e = -32004 then ret references else throw e))"

definition checkpointed_cursor :: "string \<Rightarrow> Db \<Rightarrow> string" where
  "checkpointed_cursor run d = (case List.find (\<lambda>c. ck_run_id c = run) (checkpoints d) of
     None \<Rightarrow> ''0'' | Some c \<Rightarrow> cp_event_cursor (ck_body c))"

definition continuation :: "string \<Rightarrow> ContinuationRead \<Rightarrow> ContinuationPage store_op" where
  "continuation run q =
     seq (validate ''ContinuationRead'' (valid_ContinuationRead q)) (
     bind (query_res (run_grant run)) (\<lambda>grant.
     bind (lift (counter (cr_after q))) (\<lambda>n.
     let after = min n i64_max in
     bind (query (\<lambda>d. take (cr_limit q) (sort_key fst (filter (\<lambda>r. after < fst r)
         (continuation_rows run grant (cr_kind q) d))))) (\<lambda>rows.
     bind (fold_op (keep_reference grant (cr_kind q)) [] rows) (\<lambda>references.
     bind (query (checkpointed_cursor run)) (\<lambda>cursor.
     ret \<lparr>cpg_kind = cr_kind q, cpg_references = references,
          cpg_next = to_string (if rows = [] then after else fst (last rows)),
          cpg_complete = (length rows < cr_limit q), cpg_evidence_cursor = cursor\<rparr>))))))"

section \<open>Messages\<close>

definition visible_part :: "json \<Rightarrow> json option" where
  "visible_part part =
     (case as_str (json_get part ''type'') of
        Some t \<Rightarrow>
          if t = ''thinking'' then None
          else if t = ''text''
          then Some (JObject [(''text'', json_get part ''text''), (''type'', JString ''text'')])
          else if t = ''toolCall''
          then Some (JObject [(''arguments'', json_get part ''arguments''), (''id'', json_get part ''id''),
                 (''name'', json_get part ''name''), (''type'', JString ''toolCall'')])
          else Some (JObject [(''omitted'', JBool True),
                 (''reason'', JString ''Non-text content is retained in the context store.''),
                 (''type'', json_get part ''type'')])
      | None \<Rightarrow> Some (JObject [(''omitted'', JBool True),
                 (''reason'', JString ''Non-text content is retained in the context store.''),
                 (''type'', json_get part ''type'')]))"

definition visible_content :: "json \<Rightarrow> json list res" where
  "visible_content message =
     (case as_str (json_get message ''content'') of
        Some t \<Rightarrow> Inr [JObject [(''text'', JString t), (''type'', JString ''text'')]]
      | None \<Rightarrow>
          and_then (ok_or (as_array (json_get message ''content''))
            (invalid ''context message content required'')) (\<lambda>parts.
          Inr (List.map_filter visible_part parts)))"

fun as_u64 :: "json \<Rightarrow> nat option" where
  "as_u64 (JNumber n) = parse_u64 n"
| "as_u64 _ = None"

definition message_kind :: "string \<Rightarrow> (string \<times> AgentActivityRole) res" where
  "message_kind role =
     (if role = ''user'' then Inr (''owner_instruction'', AgentActivityRole.User)
      else if role = ''assistant'' then Inr (''interpretation'', AgentActivityRole.Assistant)
      else if role = ''toolResult'' then Inr (''observed_evidence'', AgentActivityRole.ToolResult)
      else Inl (invalid ''unsupported context message role''))"

definition next_activity :: "string \<Rightarrow> Grant \<Rightarrow> Db \<Rightarrow> nat" where
  "next_activity run grant d = Suc (foldr max (map (\<lambda>e. cast_integer (er_sequence e))
     (filter (\<lambda>e. er_run_id e = run \<and> er_producer e = ''pi-agent'' \<and>
        er_client e = sc_client (g_scope grant) \<and> er_project e = sc_project (g_scope grant)) (events d))) 0)"

definition item_sources :: "string \<Rightarrow> nat \<Rightarrow> Db \<Rightarrow> string list" where
  "item_sources segment sequence d = remdups_adj (sort (map cso_id
     (filter (\<lambda>c. cso_segment_id c = segment \<and> cso_first_sequence c \<le> sequence) (context_sources d))))"

definition insert_item :: "string \<Rightarrow> nat \<Rightarrow> string \<Rightarrow> json \<Rightarrow> string option \<Rightarrow> unit store_op" where
  "insert_item segment sequence kind body summary = insert_row
     (\<lambda>d. \<not> exists_where (\<lambda>i. it_segment_id i = segment \<and> it_sequence i = sequence) (context_items d) \<and>
        exists_where (\<lambda>s. sgm_id s = segment) (context_segments d))
     (\<lambda>d. d\<lparr>context_items := context_items d @ [\<lparr>it_segment_id = segment, it_sequence = sequence,
        it_kind = kind, it_body = Some body,
        it_previous_sequence = (if 1 < sequence then Some (sequence - 1) else None),
        it_summary_ref = summary\<rparr>]\<rparr>)"

definition activity_entry ::
    "nat \<Rightarrow> AgentActivityRole \<Rightarrow> nat \<Rightarrow> string list \<Rightarrow> json list \<Rightarrow> AgentActivityBatch" where
  "activity_entry n role timestamp sources parts =
     \<lparr>aab_entries = [\<lparr>aa_sequence = to_string n, aa_role = role, aa_timestamp_ms = to_string timestamp,
        aa_content = [(''parts'', JArray parts)], aa_source_refs = sources\<rparr>]\<rparr>"

definition insert_context_message ::
    "string \<Rightarrow> Grant \<Rightarrow> string \<Rightarrow> nat \<Rightarrow> json \<Rightarrow> ContextSource store_op" where
  "insert_context_message run grant segment sequence message =
     bind (ask (\<lambda>s. length (env_json_text s message))) (\<lambda>bytes.
     seq (need (bytes \<le> ITEM_BYTES)
            (exhausted ''context item exceeds 240 KiB; use bounded evidence or artifact excerpts'')) (
     bind (expect (as_str (json_get message ''role'')) (invalid ''context message role required'')) (\<lambda>role.
     bind (lift (message_kind role)) (\<lambda>(kind, activity_role).
     bind (expect (as_u64 (json_get message ''timestamp''))
       (invalid ''context message timestamp required'')) (\<lambda>timestamp.
     bind (query (\<lambda>d. map_option fst (summary_head segment d))) (\<lambda>summary.
     seq (insert_item segment sequence kind message summary) (
     bind (query (item_sources segment sequence)) (\<lambda>sources.
     bind (query (next_activity run grant)) (\<lambda>n.
     bind (lift (visible_content message)) (\<lambda>parts.
     seq (append_agent_activity run (activity_entry n activity_role timestamp
            (sources @ (case summary of None \<Rightarrow> [] | Some i \<Rightarrow> [i])) parts)) (
     bind (query_res (\<lambda>d. the_row (List.find (\<lambda>e. er_client e = sc_client (g_scope grant) \<and>
         er_project e = sc_project (g_scope grant) \<and> er_run_id e = run \<and> er_producer e = ''pi-agent'' \<and>
         er_sequence e = to_string n) (events d)))) (\<lambda>e.
     ret \<lparr>cs_kind = ContextSourceKind.Event, cs_id = er_id e, cs_version = to_string n\<rparr>))))))))))))"

section \<open>Authorization\<close>

definition segment_current :: "Grant \<Rightarrow> string \<Rightarrow> bool store_op" where
  "segment_current grant segment =
     bind (context_available grant segment) (\<lambda>available.
     if \<not> available then ret False else query (context_is_current segment))"

definition rebuild_reason :: "bool \<Rightarrow> bool \<Rightarrow> string" where
  "rebuild_reason superseded legacy =
     (if superseded
      then ''source unavailable, required artifact revised, or legacy source lineage incomplete''
      else if legacy then ''legacy continuation lacks verified lineage''
      else ''initial context'')"

definition insert_segment :: "string \<Rightarrow> string \<Rightarrow> string option \<Rightarrow> string \<Rightarrow> unit store_op" where
  "insert_segment segment run previous reason = insert_row
     (\<lambda>d. \<not> exists_where (\<lambda>s. sgm_id s = segment) (context_segments d) \<and> run_row d run \<noteq> None)
     (\<lambda>d. d\<lparr>context_segments := context_segments d @ [\<lparr>sgm_id = segment, sgm_run_id = run,
        sgm_source_format = 4, sgm_predecessor = previous, sgm_reason = reason\<rparr>]\<rparr>)"

definition source_row :: "string \<Rightarrow> nat \<Rightarrow> ContextSource \<Rightarrow> ContextSourceRow" where
  "source_row segment sequence source =
     \<lparr>cso_segment_id = segment, cso_first_sequence = sequence,
      cso_kind = source_kind_name (cs_kind source), cso_id = cs_id source, cso_version = cs_version source\<rparr>"

definition same_context_source :: "ContextSourceRow \<Rightarrow> ContextSourceRow \<Rightarrow> bool" where
  "same_context_source a b \<longleftrightarrow> cso_segment_id a = cso_segment_id b \<and> cso_kind a = cso_kind b \<and>
     cso_id a = cso_id b \<and> cso_version a = cso_version b"

definition insert_source :: "string \<Rightarrow> nat \<Rightarrow> ContextSource \<Rightarrow> unit store_op" where
  "insert_source segment sequence source = insert_row
     (\<lambda>d. \<not> exists_where (same_context_source (source_row segment sequence source)) (context_sources d))
     (\<lambda>d. d\<lparr>context_sources := context_sources d @ [source_row segment sequence source]\<rparr>)"

text \<open>\<open>INSERT OR IGNORE\<close>.\<close>

definition note_source :: "string \<Rightarrow> nat \<Rightarrow> ContextSource \<Rightarrow> Db \<Rightarrow> Db" where
  "note_source segment sequence source d =
     (if exists_where (same_context_source (source_row segment sequence source)) (context_sources d)
      then d else d\<lparr>context_sources := context_sources d @ [source_row segment sequence source]\<rparr>)"

definition rebuilt_text :: "string \<Rightarrow> string \<Rightarrow> string \<Rightarrow> string" where
  "rebuilt_text prompt reason pages =
     prompt @ CHR 0x0A # CHR 0x0A # ''The host started a clean continuation segment: '' @ reason @
     ''. Previous observations and interpretations have been withheld. Reinspect permitted current '' @
     ''evidence. Continue the owner task and inspect these references using record_read, '' @
     ''action_lookup or work_status. They do not establish completion or current validity. For any '' @
     ''incomplete page, call continuation_read with its kind and next as after; even an empty page '' @
     ''can advance. evidence_cursor is the last checkpointed evidence-read position, not proof of '' @
     ''complete investigation; repeat scoped evidence reads when their filters or required sources '' @
     ''change. References: '' @ pages"

definition first_page :: "string \<Rightarrow> ContinuationKind \<Rightarrow> ContinuationPage store_op" where
  "first_page run kind = continuation run \<lparr>cr_kind = kind, cr_after = ''0'', cr_limit = 20\<rparr>"

definition reintroduce :: "string \<Rightarrow> Grant \<Rightarrow> string \<Rightarrow> string \<Rightarrow> unit store_op" where
  "reintroduce run grant segment reason =
     bind (query_res (\<lambda>d. the_row (run_row d run))) (\<lambda>row.
     bind (fold_op (\<lambda>pages kind. bind (first_page run kind) (\<lambda>p. ret (pages @ [p]))) []
         [ContinuationKind.Obligation, ContinuationKind.Effect, ContinuationKind.Work]) (\<lambda>pages.
     bind (ask (\<lambda>s. env_pages_text s pages)) (\<lambda>references.
     bind now_ms (\<lambda>now.
     bind (insert_context_message run grant segment 1 (JObject
         [(''content'', JString (rebuilt_text (rq_prompt (rr_request row)) reason references)),
          (''role'', JString ''user''), (''timestamp'', JNumber (to_string now))])) (\<lambda>_. skip)))))"

definition new_segment ::
    "string \<Rightarrow> Grant \<Rightarrow> ContextSource option \<Rightarrow> string option \<Rightarrow> ContextState store_op" where
  "new_segment run grant origin previous =
     bind (query (\<lambda>d. exists_where (\<lambda>c. ck_run_id c = run) (checkpoints d))) (\<lambda>legacy.
     bind new_id (\<lambda>segment.
     let rebuilt = (previous \<noteq> None \<or> legacy);
         reason = rebuild_reason (previous \<noteq> None) legacy
     in seq (insert_segment segment run previous reason) (
        seq (case origin of None \<Rightarrow> skip | Some source \<Rightarrow> insert_source segment 1 source) (
        seq (if rebuilt then reintroduce run grant segment reason else skip)
            (context_state grant segment rebuilt)))))"

definition authorize_context :: "string \<Rightarrow> ContextState store_op" where
  "authorize_context run =
     transaction (
       bind (require_active run) (\<lambda>grant.
       bind (work_source grant run) (\<lambda>origin.
       bind (query (context_head run)) (\<lambda>previous.
       bind (case previous of None \<Rightarrow> ret False | Some segment \<Rightarrow> segment_current grant segment) (\<lambda>usable.
       case previous of
         Some segment \<Rightarrow>
           if usable then bind (context_state grant segment False) commit
           else bind (new_segment run grant origin previous) commit
       | None \<Rightarrow> bind (new_segment run grant origin previous) commit)))))"

section \<open>Appending\<close>

definition captured_revision :: "ContextEntry \<Rightarrow> ContextSource \<Rightarrow> Db \<Rightarrow> bool" where
  "captured_revision entry source d \<longleftrightarrow> exists_where (\<lambda>a. cs_kind a = ContextSourceKind.Artifact \<and>
     exists_where (\<lambda>e. se_subject_kind e = ''artifact'' \<and> se_subject_id e = cs_id a \<and>
       se_source_kind e = ''record'' \<and> se_source_id e = cs_id source \<and>
       se_source_version e = Some (cs_version source)) (source_edges d)) (cen_sources entry)"

text \<open>Whether the records of an entry need the saved activity as their anchor.\<close>

definition check_revision :: "ContextEntry \<Rightarrow> bool \<Rightarrow> ContextSource \<Rightarrow> bool store_op" where
  "check_revision entry anchor source =
     bind (query (captured_revision entry source)) (\<lambda>captured.
     if captured then ret anchor
     else
       bind (query (\<lambda>d. map_option rec_version (List.find (\<lambda>r. rec_id r = cs_id source) (records d)))) (\<lambda>current.
       bind (query (tombstoned ''record'' (cs_id source))) (\<lambda>withdrawn.
       seq (need (\<not> (current \<noteq> Some (cs_version source) \<and> \<not> withdrawn))
              (conflict ''record revision lacks a retained observation; rebuild from fresh evidence''))
           (ret True))))"

definition entry_records :: "ContextEntry \<Rightarrow> ContextSource list" where
  "entry_records entry = filter (\<lambda>s. cs_kind s = ContextSourceKind.Record) (cen_sources entry)"

definition append_entry ::
    "string \<Rightarrow> Grant \<Rightarrow> string \<Rightarrow> nat \<Rightarrow> nat \<times> ContextEntry \<Rightarrow> unit store_op" where
  "append_entry run grant segment count numbered = (case numbered of (sequence, entry) \<Rightarrow>
     let body = JObject (cen_message entry) in
     if sequence \<le> count
     then
       bind (query_res (\<lambda>d. the_row (List.find (\<lambda>i. it_segment_id i = segment \<and>
           it_sequence i = sequence) (context_items d)))) (\<lambda>item.
       need (it_body item = Some body) (conflict ''context sequence reused with different content''))
     else
       seq (for_each (cen_sources entry) (\<lambda>source. exec (note_source segment sequence source))) (
       bind (fold_op (check_revision entry) False (entry_records entry)) (\<lambda>anchor.
       bind (insert_context_message run grant segment sequence body) (\<lambda>activity.
       if anchor then insert_source segment sequence activity else skip))))"

definition append_context :: "string \<Rightarrow> ContextAppend \<Rightarrow> ContextState store_op" where
  "append_context run q =
     seq (validate ''ContextAppend'' (valid_ContextAppend q)) (
     bind (ask (\<lambda>s. env_append_bytes s q)) (\<lambda>bytes.
     seq (need (bytes \<le> PAGE_BYTES) (exhausted ''context batch exceeds 480 KiB'')) (
     bind (query_res (run_grant run)) (\<lambda>grant.
     transaction (
       seq (query_res (require_context_owner run (cap_segment_id q))) (
       bind (query_res (\<lambda>d. the_row (context_head run d))) (\<lambda>latest.
       seq (need (latest = cap_segment_id q)
              (conflict ''cannot append to a superseded context segment'')) (
       bind (lift (context_cursor (cap_after q))) (\<lambda>after.
       bind (query (context_count (cap_segment_id q))) (\<lambda>count.
       seq (need (after \<le> count) (conflict ''context append has a sequence gap'')) (
       seq (for_each (enumerate (after + 1) (cap_entries q))
              (append_entry run grant (cap_segment_id q) count)) (
       bind (context_state grant (cap_segment_id q) False) commit))))))))))))"

section \<open>Reading\<close>

text \<open>The bodies in sequence until the page is full; the last sequence read.\<close>

fun page_loop :: "nat \<Rightarrow> nat \<Rightarrow> json_map list \<Rightarrow> ContextItem list \<Rightarrow> (json_map list \<times> nat) store_op" where
  "page_loop bytes next kept [] = ret (kept, next)"
| "page_loop bytes next kept (i # rows) =
     bind (expect (it_body i) (denied ''context content deleted; authorize a clean segment'')) (\<lambda>body.
     bind (ask (\<lambda>s. length (env_json_text s body))) (\<lambda>width.
     if PAGE_BYTES < bytes + width then ret (kept, next)
     else
       bind (expect (as_object body) (internal ''invalid type: expected a map'')) (\<lambda>message.
       page_loop (bytes + width) (it_sequence i) (kept @ [message]) rows)))"

definition read_context :: "string \<Rightarrow> ContextRead \<Rightarrow> ContextPage store_op" where
  "read_context run q =
     seq (validate ''ContextRead'' (valid_ContextRead q)) (
     transaction (
       bind (require_active run) (\<lambda>grant.
       seq (query_res (require_context_owner run (crd_segment_id q))) (
       bind (segment_current grant (crd_segment_id q)) (\<lambda>usable.
       seq (need usable (denied ''context source withdrawn; authorize a clean segment'')) (
       bind (lift (context_cursor (crd_after q))) (\<lambda>after.
       bind (query (\<lambda>d. take (crd_limit q) (filter (\<lambda>i. after < it_sequence i)
           (segment_items (crd_segment_id q) d)))) (\<lambda>rows.
       bind (page_loop 0 after [] rows) (\<lambda>(kept, next).
       bind (query (context_count (crd_segment_id q))) (\<lambda>count.
       ret (Rollback \<lparr>cpa_messages = kept, cpa_next = to_string next, cpa_complete = (count \<le> next)\<rparr>)))))))))))"

definition segment_messages :: "Grant \<Rightarrow> nat \<times> json list \<Rightarrow> string \<Rightarrow> (nat \<times> json list) store_op" where
  "segment_messages grant acc segment = (case acc of (count, kept) \<Rightarrow>
     bind (query (context_count segment)) (\<lambda>n.
     bind (context_available grant segment) (\<lambda>available.
     if \<not> available then ret (count + n, kept)
     else
       bind (query (\<lambda>d. List.map_filter it_body (segment_items segment d))) (\<lambda>bodies.
       ret (count + n, kept @ bodies)))))"

definition inspect_context_messages :: "string \<Rightarrow> (nat \<times> json list) store_op" where
  "inspect_context_messages run =
     bind (query_res (run_grant run)) (\<lambda>grant.
     bind (query (\<lambda>d. map sgm_id (filter (\<lambda>s. sgm_run_id s = run) (context_segments d)))) (\<lambda>segments.
     fold_op (segment_messages grant) (0, []) segments))"

definition inherit_context_sources :: "string \<Rightarrow> RecordSubmission \<Rightarrow> Db \<Rightarrow> RecordSubmission" where
  "inherit_context_sources run q d = q\<lparr>rsb_provenance := (rsb_provenance q)\<lparr>pv_source_refs :=
     remdups_adj (sort (pv_source_refs (rsb_provenance q) @ run_context_sources run d))\<rparr>\<rparr>"

end
