(* ===== verification/ToolResults.thy ===== *)
theory ToolResults
  imports Windows ContextLog PropertyValidation
begin

text \<open>
  crates/ribosome-core/src/tool_results.rs and the reads of artifact_context.rs and export_files.rs:
  what a tool call returned is retained with the sources it rests on, and is read back by windows of
  UTF-8 text under the authorization of those sources.

  \<open>observe_tool\<close> takes the dispatcher of rpc.rs as the argument \<open>call\<close>, because the dispatcher
  calls it in turn; the methods a tool call may name exclude the tool call itself.
\<close>

section \<open>Reading an artifact\<close>

fun freshness_name :: "Freshness \<Rightarrow> string" where
  "freshness_name Freshness.Current = ''current''"
| "freshness_name Freshness.Historical = ''historical''"

definition strip_prefix :: "string \<Rightarrow> string \<Rightarrow> string option" where
  "strip_prefix p s = (if take (length p) s = p then Some (drop (length p) s) else None)"

definition RESULT_PREFIX :: string where
  "RESULT_PREFIX = ''ribosome-result:''"

definition EXPORT_PREFIX :: string where
  "EXPORT_PREFIX = ''ribosome-export:''"

definition INLINE_BYTES :: nat where
  "INLINE_BYTES = 32 * 1024"

definition MAX_EXPORT_BYTES :: nat where
  "MAX_EXPORT_BYTES = 16 * 1024 * 1024"

definition snapshot_row :: "string \<Rightarrow> Db \<Rightarrow> ArtifactSnapshot option" where
  "snapshot_row i d = List.find (\<lambda>a. as_id a = i) (artifact_snapshots d)"

definition default_freshness :: "Grant \<Rightarrow> ArtifactRead \<Rightarrow> Freshness" where
  "default_freshness grant q = (case ard_required_freshness q of
     Some f \<Rightarrow> f
   | None \<Rightarrow> if g_discovery_corpus grant \<noteq> None then Freshness.Historical else Freshness.Current)"

definition chunk_window :: "ArtifactChunk \<Rightarrow> ArtifactRead \<Rightarrow> ArtifactChunk res" where
  "chunk_window chunk q =
     (let content = ach_content chunk in
      if ard_offset q < ach_offset chunk
      then Inl (invalid ''requested bytes precede the retained snapshot window'')
      else
        let start = ard_offset q - ach_offset chunk;
            stop = floor_boundary content (min (start + ard_length q) (length content))
        in if length content < start \<or> start = length content \<and> \<not> ach_eof chunk
           then Inl (invalid ''requested bytes exceed the retained snapshot window; read the current artifact for other bytes'')
           else if \<not> char_boundary content start
           then Inl (invalid ''snapshot offset splits a UTF-8 character'')
           else if start = stop \<and> start < length content
           then Inl (invalid ''snapshot length is smaller than the next UTF-8 character'')
           else Inr (chunk\<lparr>ach_eof := ach_eof chunk \<and> stop = length content,
                  ach_content := take (stop - start) (drop start content),
                  ach_offset := ard_offset q\<rparr>))"

definition read_snapshot ::
    "Grant \<Rightarrow> ArtifactRead \<Rightarrow> Freshness \<Rightarrow> string \<Rightarrow> ArtifactChunk store_op" where
  "read_snapshot grant q freshness snapshot =
     seq (require_source grant ''artifact'' snapshot) (
     bind (query_res (\<lambda>d. the_row (snapshot_row snapshot d))) (\<lambda>row.
     seq (need (\<not> as_version_only row)
       (invalid ''snapshot records an artifact version only; request a fresh artifact read for content'')) (
     seq (need (as_result_run_id row = None \<and> as_export_file row = None)
       (denied ''retained result or export requires its own managed artifact path'')) (
     bind (ask (\<lambda>s. env_chunk_of s (as_body row))) (\<lambda>decoded.
     bind (lift decoded) (\<lambda>chunk.
     seq (need (ar_path (ach_artifact chunk) = ard_path q \<and> as_branch_id row = ard_branch_id q)
       (denied ''snapshot path or branch does not match the read'')) (
     seq (need (\<not> (freshness = Freshness.Current \<and>
                    as_current_version row \<noteq> ar_version (ach_artifact chunk)))
       (conflict ''snapshot is historical; reread the current artifact before acting''))
         (lift (chunk_window chunk q)))))))))"

definition read_live :: "Grant \<Rightarrow> ArtifactRead \<Rightarrow> ArtifactChunk store_op" where
  "read_live grant q =
     bind (query_res (branch_path grant (ard_branch_id q))) (\<lambda>workspace.
     host_call (\<lambda>h n. hst_read h n grant q workspace))"

definition snapshot_of ::
    "Grant \<Rightarrow> ArtifactRead \<Rightarrow> Freshness \<Rightarrow> string \<Rightarrow> ArtifactChunk \<Rightarrow> string \<Rightarrow> json \<Rightarrow> ArtifactSnapshot" where
  "snapshot_of grant q freshness i chunk version body =
     \<lparr>as_id = i, as_client = sc_client (g_scope grant), as_project = sc_project (g_scope grant),
      as_grant_id = g_id grant, as_path = ard_path q, as_branch_id = ard_branch_id q,
      as_split = derived_split (g_visible_splits grant), as_version = ar_version (ach_artifact chunk),
      as_current_version = version, as_required_freshness = freshness_name freshness,
      as_available = (version \<noteq> ''absent''), as_export_file = None, as_result_run_id = None,
      as_result_call_id = None, as_result_args_hash = None, as_result_method = None,
      as_result_sources = [], as_version_only = False, as_body = body, as_result_content = None\<rparr>"

definition read_artifact_context :: "Grant \<Rightarrow> ArtifactRead \<Rightarrow> ArtifactChunk store_op" where
  "read_artifact_context grant q =
     (let freshness = default_freshness grant q in
      seq (need (\<not> (g_discovery_corpus grant \<noteq> None \<and>
                     (ard_snapshot_id q = None \<or> freshness \<noteq> Freshness.Historical)))
        (denied ''assigned discovery requires an explicit historical artifact snapshot'')) (
      bind (case ard_snapshot_id q of
              Some snapshot \<Rightarrow> read_snapshot grant q freshness snapshot
            | None \<Rightarrow> read_live grant q) (\<lambda>found.
      seq (query_res (require_discovery_artifact grant (ach_artifact found))) (
      bind new_id (\<lambda>i.
      let chunk = found\<lparr>ach_snapshot_id := Some i, ach_required_freshness := Some freshness\<rparr> in
      bind (query_res (branch_path grant (ard_branch_id q))) (\<lambda>workspace.
      bind (host_version grant (ard_path q) workspace) (\<lambda>current.
      bind (ask (\<lambda>s. env_chunk_json s chunk)) (\<lambda>body.
      seq (joined_transaction (
        seq (insert_snapshot (snapshot_of grant q freshness i chunk (ar_version current) body))
            (case ard_snapshot_id q of None \<Rightarrow> skip
             | Some parent \<Rightarrow> exec_res (add_source_edges ''artifact'' i [parent] []))))
          (ret chunk)))))))))"

section \<open>Managed texts\<close>

definition managed_chunk :: "ArtifactRead \<Rightarrow> string \<Rightarrow> string \<Rightarrow> string \<Rightarrow> ArtifactChunk res" where
  "managed_chunk q snapshot version content =
     and_then (utf8_window content (ard_offset q) (min (ard_length q) 8192)) (\<lambda>found.
     Inr \<lparr>ach_artifact = \<lparr>ar_path = ard_path q, ar_version = version\<rparr>, ach_content = found,
          ach_offset = ard_offset q, ach_total_bytes = to_string (length content),
          ach_eof = (ard_offset q + length found = length content),
          ach_snapshot_id = Some snapshot, ach_required_freshness = Some Freshness.Historical\<rparr>)"

definition managed_reference ::
    "string \<Rightarrow> ArtifactRead \<Rightarrow> Error \<Rightarrow> Error \<Rightarrow> Error \<Rightarrow> string res" where
  "managed_reference p q stale malformed mismatch =
     (if ard_branch_id q \<noteq> None \<or> ard_required_freshness q = Some Freshness.Current then Inl stale
      else and_then (ok_or (strip_prefix p (ard_path q)) malformed) (\<lambda>snapshot.
        if ard_snapshot_id q \<noteq> None \<and> ard_snapshot_id q \<noteq> Some snapshot then Inl mismatch
        else Inr snapshot))"

definition read_result_artifact :: "Grant \<Rightarrow> ArtifactRead \<Rightarrow> ArtifactChunk store_op" where
  "read_result_artifact grant q =
     bind (lift (managed_reference RESULT_PREFIX q
       (conflict ''retained tool results are historical observations; inspect original artifacts for current state'')
       (invalid ''invalid tool-result artifact reference'')
       (denied ''snapshot does not match tool-result artifact''))) (\<lambda>snapshot.
     seq (require_source grant ''artifact'' snapshot) (
     bind (query (\<lambda>d. List.find (\<lambda>a. as_id a = snapshot \<and> as_result_run_id a \<noteq> None)
         (artifact_snapshots d))) (\<lambda>found.
     bind (expect found (denied ''reference is not a retained tool result'')) (\<lambda>row.
     bind (expect (as_result_content row) (denied ''retained tool result was deleted'')) (\<lambda>content.
     lift (managed_chunk q snapshot (as_version row) content))))))"

definition read_export_artifact :: "Grant \<Rightarrow> ArtifactRead \<Rightarrow> ArtifactChunk store_op" where
  "read_export_artifact grant q =
     bind (lift (managed_reference EXPORT_PREFIX q
       (conflict ''training exports are immutable historical products'')
       (invalid ''invalid export reference'')
       (denied ''snapshot does not match export reference''))) (\<lambda>snapshot.
     transaction (
       seq (require_source grant ''artifact'' snapshot) (
       bind (query (\<lambda>d. List.find (\<lambda>a. as_id a = snapshot \<and> as_export_file a \<noteq> None)
           (artifact_snapshots d))) (\<lambda>found.
       bind (expect found (denied ''reference is not a training export'')) (\<lambda>row.
       bind (export_path snapshot (case as_export_file row of None \<Rightarrow> '''' | Some f \<Rightarrow> f)) (\<lambda>path.
       bind (ask (\<lambda>s. env_read_file s path)) (\<lambda>outcome.
       bind (lift outcome) (\<lambda>file.
       bind (expect file (denied ''managed export is not a bounded regular file'')) (\<lambda>bytes.
       seq (need (length bytes \<le> MAX_EXPORT_BYTES)
              (denied ''managed export is not a bounded regular file'')) (
       bind (hash bytes) (\<lambda>digest.
       seq (need (digest = as_version row)
              (denied ''managed export content differs from its recorded version'')) (
       seq (need (from_utf8 bytes) (invalid ''export content is not UTF-8'')) (
       bind (lift (managed_chunk q snapshot (as_version row) bytes)) (\<lambda>chunk.
       ret (Rollback chunk)))))))))))))))"

section \<open>What a result rests on\<close>

fun method_name :: "ToolCallMethod \<Rightarrow> string" where
  "method_name ToolCallMethod.EvidenceRead = ''evidence.read''"
| "method_name ToolCallMethod.SearchQuery = ''search.query''"
| "method_name ToolCallMethod.RecordRead = ''record.read''"
| "method_name ToolCallMethod.ArtifactRead = ''artifact.read''"
| "method_name ToolCallMethod.ActionExecute = ''action.execute''"
| "method_name ToolCallMethod.ActionLookup = ''action.lookup''"
| "method_name ToolCallMethod.RecordSubmit = ''record.submit''"
| "method_name ToolCallMethod.RecordRetire = ''record.retire''"
| "method_name ToolCallMethod.WorkRequest = ''work.request''"
| "method_name ToolCallMethod.MessageSend = ''message.send''"
| "method_name ToolCallMethod.MessageInbox = ''message.inbox''"
| "method_name ToolCallMethod.MessageAck = ''message.ack''"
| "method_name ToolCallMethod.ExperimentRun = ''experiment.run''"
| "method_name ToolCallMethod.InventoryAdmissionRequest = ''inventory.admission_request''"
| "method_name ToolCallMethod.InventoryArchive = ''inventory.archive''"
| "method_name ToolCallMethod.TrainingExport = ''training.export''"
| "method_name ToolCallMethod.ArtifactValidity = ''artifact.validity''"
| "method_name ToolCallMethod.WorkWait = ''work.wait''"
| "method_name ToolCallMethod.WorkStatus = ''work.status''"
| "method_name ToolCallMethod.EvidenceCorpus = ''evidence.corpus''"
| "method_name ToolCallMethod.ContinuationRead = ''continuation.read''"

definition field :: "json \<Rightarrow> string \<Rightarrow> string \<Rightarrow> string res" where
  "field v k what = ok_or (as_str (json_get v k)) (internal what)"

definition items :: "json \<Rightarrow> string \<Rightarrow> string \<Rightarrow> json list res" where
  "items v k what = ok_or (as_array (json_get v k)) (internal what)"

definition record_source :: "json \<Rightarrow> ContextSource res" where
  "record_source v =
     and_then (field v ''id'' ''record tool omitted its identity'') (\<lambda>i.
     and_then (field v ''version'' ''record tool omitted its version'') (\<lambda>version.
     Inr \<lparr>cs_kind = ContextSourceKind.Record, cs_id = i, cs_version = version\<rparr>))"

definition listed_event :: "json \<Rightarrow> string \<Rightarrow> string \<Rightarrow> ContextSource res" where
  "listed_event v no_identity no_sequence =
     and_then (field v ''id'' no_identity) (\<lambda>i.
     and_then (field v ''sequence'' no_sequence) (\<lambda>n.
     Inr \<lparr>cs_kind = ContextSourceKind.Event, cs_id = i, cs_version = n\<rparr>))"

definition artifact_source :: "string \<Rightarrow> string \<Rightarrow> ContextSource" where
  "artifact_source i version = \<lparr>cs_kind = ContextSourceKind.Artifact, cs_id = i, cs_version = version\<rparr>"

definition stored_event_source :: "Db \<Rightarrow> string \<Rightarrow> ContextSource res" where
  "stored_event_source d reference =
     and_then (the_row (List.find (\<lambda>e. er_id e = reference) (events d))) (\<lambda>e.
     Inr \<lparr>cs_kind = ContextSourceKind.Event, cs_id = reference, cs_version = er_sequence e\<rparr>)"

definition assessment_sources :: "Db \<Rightarrow> json \<Rightarrow> ContextSource list res" where
  "assessment_sources d property =
     and_then (items property ''evidence_refs'' ''property assessment omitted evidence references'') (\<lambda>references.
     map_res (\<lambda>reference.
       and_then (ok_or (as_str reference) (internal ''property evidence reference is not an identity''))
         (stored_event_source d)) references)"

definition concat_res :: "('a \<Rightarrow> 'b list res) \<Rightarrow> 'a list \<Rightarrow> 'b list res" where
  "concat_res f xs = and_then (map_res f xs) (\<lambda>ys. Inr (concat ys))"

definition validity_sources :: "json \<Rightarrow> Db \<Rightarrow> ContextSource list res" where
  "validity_sources result d =
     and_then (items result ''properties'' ''validity view omitted properties'') (\<lambda>properties.
     and_then (map_res (\<lambda>p. record_source (json_get p ''obligation'')) properties) (\<lambda>obligations.
     and_then (field result ''snapshot_id'' ''validity view omitted version snapshot'') (\<lambda>snapshot.
     and_then (field (json_get result ''artifact'') ''version'' ''validity view omitted artifact version'') (\<lambda>version.
     and_then (concat_res (assessment_sources d) properties) (\<lambda>evidence_sources.
     Inr (obligations @ [artifact_source snapshot version] @ evidence_sources))))))"

text \<open>\<open>json!({"id": .., "version": ..})\<close> of the stored experiment.\<close>

definition experiment_sources :: "json_map \<Rightarrow> Db \<Rightarrow> ContextSource list res" where
  "experiment_sources arguments d =
     and_then (field (JObject arguments) ''id'' ''experiment request omitted its identity'') (\<lambda>reference.
     and_then (the_row (List.find (\<lambda>r. rec_id r = reference) (records d))) (\<lambda>r.
     Inr [\<lparr>cs_kind = ContextSourceKind.Record, cs_id = reference, cs_version = rec_version r\<rparr>]))"

definition receipt_sources :: "json \<Rightarrow> Db \<Rightarrow> ContextSource list res" where
  "receipt_sources result d =
     map_res (stored_event_source d) (List.map_filter as_str
       [json_get result ''evidence_ref'', json_get (json_get result ''settlement'') ''evidence_ref''])"

definition artifact_read_sources :: "json \<Rightarrow> ContextSource list res" where
  "artifact_read_sources result =
     and_then (field result ''snapshot_id'' ''artifact omitted its retained identity'') (\<lambda>i.
     and_then (field (json_get result ''artifact'') ''version'' ''artifact omitted its version'') (\<lambda>version.
     Inr [artifact_source i version]))"

definition export_sources :: "json \<Rightarrow> ContextSource list res" where
  "export_sources result =
     and_then (ok_or (Option.bind (as_str (json_get (json_get result ''artifact'') ''path''))
         (strip_prefix EXPORT_PREFIX)) (internal ''export omitted its artifact identity'')) (\<lambda>i.
     and_then (field (json_get result ''artifact'') ''version'' ''export omitted its version'') (\<lambda>version.
     Inr [artifact_source i version]))"

fun has_member :: "json \<Rightarrow> string \<Rightarrow> bool" where
  "has_member (JObject m) k = (map_of m k \<noteq> None)"
| "has_member _ k = False"

definition status_sources :: "(json \<Rightarrow> ContextSource res) \<Rightarrow> json \<Rightarrow> ContextSource list res" where
  "status_sources decode result =
     (if has_member result ''source''
      then and_then (decode (json_get result ''source'')) (\<lambda>source. Inr [source]) else Inr [])"

fun tool_output_sources ::
    "(json \<Rightarrow> ContextSource res) \<Rightarrow> ToolCallMethod \<Rightarrow> json_map \<Rightarrow> json \<Rightarrow> Db \<Rightarrow>
     ContextSource list res" where
  "tool_output_sources decode method arguments result d =
     (case method of
        ToolCallMethod.ExperimentRun \<Rightarrow> experiment_sources arguments d
      | ToolCallMethod.WorkStatus \<Rightarrow> status_sources decode result
      | ToolCallMethod.RecordRead \<Rightarrow> and_then (record_source result) (\<lambda>s. Inr [s])
      | ToolCallMethod.RecordSubmit \<Rightarrow> and_then (record_source result) (\<lambda>s. Inr [s])
      | ToolCallMethod.InventoryAdmissionRequest \<Rightarrow> and_then (record_source result) (\<lambda>s. Inr [s])
      | ToolCallMethod.ArtifactValidity \<Rightarrow> validity_sources result d
      | ToolCallMethod.SearchQuery \<Rightarrow>
          and_then (items result ''records'' ''search omitted records'') (map_res record_source)
      | ToolCallMethod.InventoryArchive \<Rightarrow>
          and_then (items result ''cells'' ''archive omitted cells'')
            (map_res (\<lambda>cell. record_source (json_get cell ''implementation'')))
      | ToolCallMethod.EvidenceRead \<Rightarrow>
          and_then (items result ''events'' ''evidence omitted events'')
            (map_res (\<lambda>e. listed_event e ''event omitted its identity'' ''event omitted its sequence''))
      | ToolCallMethod.MessageSend \<Rightarrow>
          and_then (listed_event result ''message omitted identity'' ''message omitted sequence'')
            (\<lambda>s. Inr [s])
      | ToolCallMethod.MessageInbox \<Rightarrow>
          and_then (items result ''messages'' ''inbox omitted messages'')
            (map_res (\<lambda>m. listed_event m ''message omitted identity'' ''message omitted sequence''))
      | ToolCallMethod.ArtifactRead \<Rightarrow> artifact_read_sources result
      | ToolCallMethod.TrainingExport \<Rightarrow> export_sources result
      | ToolCallMethod.ActionExecute \<Rightarrow>
          if json_get result ''content_available'' = JBool False then Inr [] else receipt_sources result d
      | ToolCallMethod.ActionLookup \<Rightarrow>
          if json_get result ''content_available'' = JBool False then Inr [] else receipt_sources result d
      | _ \<Rightarrow> Inr [])"

section \<open>Retained observations\<close>

definition result_row :: "string \<Rightarrow> string \<Rightarrow> Db \<Rightarrow> ArtifactSnapshot option" where
  "result_row run call_id d = List.find (\<lambda>a. as_result_run_id a = Some run \<and>
     as_result_call_id a = Some call_id) (artifact_snapshots d)"

definition retained_text :: "ArtifactRef \<Rightarrow> string \<Rightarrow> World \<Rightarrow> string res" where
  "retained_text artifact content s =
     (if length content \<le> INLINE_BYTES then Inr content
      else
        and_then (utf8_window content 0 4096) (\<lambda>excerpt.
        Inr (env_json_text s (JObject
          [(''complete'', JBool False), (''excerpt'', JString excerpt),
           (''next_offset'', JNumber (to_string (length excerpt))),
           (''note'', JString (''Historical tool result. Read further bytes with artifact_read; '' @
              ''re-read original artifacts before relying on current state.'')),
           (''offset'', JNumber (to_string 0)),
           (''retained_result'', JObject [(''path'', JString (ar_path artifact)),
              (''version'', JString (ar_version artifact))]),
           (''total_bytes'', JString (to_string (length content)))]))))"

definition result_cursor :: "string option \<Rightarrow> string \<Rightarrow> World \<Rightarrow> string option res" where
  "result_cursor method content s =
     (if method = Some ''evidence.read''
      then and_then (env_json_parse s content) (\<lambda>v. Inr (as_str (json_get v ''cursor''))) else Inr None)"

definition tool_observation :: "string \<Rightarrow> string \<Rightarrow> bool \<Rightarrow> ToolObservation store_op" where
  "tool_observation run call_id authorize =
     bind (query (result_row run call_id)) (\<lambda>found.
     bind (expect found (missing ''no retained result for this tool call'')) (\<lambda>row.
     seq (if authorize
          then bind (query_res (run_grant run)) (\<lambda>grant. require_source grant ''artifact'' (as_id row))
          else skip) (
     bind (expect (as_result_content row) (denied ''retained tool result was deleted'')) (\<lambda>content.
     let artifact = \<lparr>ar_path = as_path row, ar_version = as_version row\<rparr> in
     bind (ask (result_cursor (as_result_method row) content)) (\<lambda>parsed.
     bind (lift parsed) (\<lambda>cursor.
     bind (ask (retained_text artifact content)) (\<lambda>shown.
     bind (lift shown) (\<lambda>visible.
     ret \<lparr>tob_content = visible, tob_artifact = artifact,
          tob_sources = as_result_sources row @ [artifact_source (as_id row) (as_version row)],
          tob_total_bytes = to_string (length content), tob_cursor = cursor\<rparr>))))))))"

definition retained_tool :: "string \<Rightarrow> string \<Rightarrow> ToolObservation store_op" where
  "retained_tool run call_id =
     bind (require_active run) (\<lambda>grant.
     seq (refresh_artifact_sources grant) (
     tool_observation run call_id True))"

definition result_snapshot ::
    "Grant \<Rightarrow> string \<Rightarrow> string \<Rightarrow> ToolCall \<Rightarrow> string \<Rightarrow> string \<Rightarrow> string \<Rightarrow> ContextSource list \<Rightarrow>
     ArtifactSnapshot" where
  "result_snapshot grant run i q digest version content sources =
     \<lparr>as_id = i, as_client = sc_client (g_scope grant), as_project = sc_project (g_scope grant),
      as_grant_id = g_id grant, as_path = RESULT_PREFIX @ i, as_branch_id = None,
      as_split = derived_split (g_visible_splits grant), as_version = version,
      as_current_version = version, as_required_freshness = ''historical'', as_available = True,
      as_export_file = None, as_result_run_id = Some run, as_result_call_id = Some (tc_call_id q),
      as_result_args_hash = Some digest, as_result_method = Some (method_name (tc_method q)),
      as_result_sources = sources, as_version_only = False, as_body = JObject [],
      as_result_content = Some content\<rparr>"

definition record_unchanged :: "ContextSource \<Rightarrow> unit store_op" where
  "record_unchanged source =
     (if cs_kind source \<noteq> ContextSourceKind.Record then skip
      else
        bind (query_res (\<lambda>d. the_row (List.find (\<lambda>r. rec_id r = cs_id source) (records d)))) (\<lambda>r.
        need (rec_version r = cs_version source)
          (conflict ''record changed before its observation was retained; request fresh evidence'')))"

definition pin_source :: "string \<Rightarrow> ContextSource \<Rightarrow> Db \<Rightarrow> Db" where
  "pin_source snapshot source d = d\<lparr>source_edges := update_where
     (\<lambda>e. se_subject_kind e = ''artifact'' \<and> se_subject_id e = snapshot \<and> se_source_id e = cs_id source)
     (\<lambda>e. e\<lparr>se_source_version := Some (cs_version source)\<rparr>) (source_edges d)\<rparr>"

definition retain_result ::
    "Grant \<Rightarrow> string \<Rightarrow> ToolCall \<Rightarrow> string \<Rightarrow> string \<Rightarrow> ContextSource list \<Rightarrow> unit store_op" where
  "retain_result grant run q digest content sources =
     bind new_id (\<lambda>snapshot.
     bind (hash content) (\<lambda>version.
     transaction (
       seq (insert_snapshot (result_snapshot grant run snapshot q digest version content sources)) (
       seq (for_each sources record_unchanged) (
       bind (query (run_context_sources run)) (\<lambda>inherited.
       seq (exec_res (add_source_edges ''artifact'' snapshot
              (remdups_adj (sort (map cs_id sources @ inherited))) [])) (
       seq (for_each sources (\<lambda>source. exec (pin_source snapshot source)))
           (commit ()))))))))"

definition observe_tool ::
    "(string \<Rightarrow> ToolCallMethod \<Rightarrow> json_map \<Rightarrow> json store_op) \<Rightarrow> string \<Rightarrow> ToolCall \<Rightarrow>
     ToolObservation store_op" where
  "observe_tool call run q =
     seq (validate ''ToolCall'' (valid_ToolCall q)) (
     bind (require_active run) (\<lambda>grant.
     bind (ask (\<lambda>s. env_json_text s (JObject (tc_arguments q)))) (\<lambda>shown.
     bind (hash shown) (\<lambda>digest.
     bind (query (result_row run (tc_call_id q))) (\<lambda>saved.
     case saved of
       Some row \<Rightarrow>
         seq (need (as_result_method row = Some (method_name (tc_method q)) \<and>
                    as_result_args_hash row = Some digest)
                (conflict ''tool call identity reused with different arguments''))
             (retained_tool run (tc_call_id q))
     | None \<Rightarrow>
         bind (call run (tc_method q) (tc_arguments q)) (\<lambda>result.
         bind (ask (\<lambda>s. env_json_text s result)) (\<lambda>content.
         bind (ask (\<lambda>s. tool_output_sources (env_source_of s) (tc_method q) (tc_arguments q) result
             (store_db s))) (\<lambda>outcome.
         bind (lift outcome) (\<lambda>sources.
         seq (retain_result grant run q digest content sources)
             (tool_observation run (tc_call_id q) False))))))))))"

end
