(* ===== verification/External.thy ===== *)
theory External
  imports ToolResults
begin

text \<open>
  crates/ribosome-core/src/external_evidence.rs: the owner's publication of one external episode. A
  source memory stands for the episode; its snapshots and events cite that memory, so withdrawing it
  withdraws them.
\<close>

definition owner_source :: "Grant \<Rightarrow> RecordEnvelope \<Rightarrow> bool" where
  "owner_source grant r \<longleftrightarrow>
     r_scope r = g_scope grant \<and> r_kind r = RecordKind.Memory \<and> r_version r = ''1'' \<and> \<not> r_retired r \<and>
     pv_origin (r_provenance r) = Origin.Observed \<and> pv_source_refs (r_provenance r) = [] \<and>
     pv_split (r_provenance r) \<in> set (g_visible_splits grant) \<and> g_discovery_corpus grant = None"

definition independent_memory :: "Memory \<Rightarrow> bool" where
  "independent_memory m \<longleftrightarrow>
     mem_evidence_refs m = [] \<and> mem_conflicts m = [] \<and> mem_supersedes m = []"

definition episode_events :: "string \<Rightarrow> Db \<Rightarrow> nat" where
  "episode_events source d = count_where (\<lambda>e. se_subject_kind e = ''event'' \<and>
     se_source_kind e = ''record'' \<and> se_source_id e = source) (source_edges d)"

definition publish_source :: "RecordEnvelope \<Rightarrow> Event list \<Rightarrow> unit store_op" where
  "publish_source source evs =
     bind (query (\<lambda>d. map_option rec_body (List.find (\<lambda>r. rec_id r = r_id source) (records d)))) (\<lambda>previous.
     case previous of
       Some r \<Rightarrow>
         seq (need (r = source)
           (conflict ''external source identity already exists with different content or was withdrawn'')) (
         bind (query (episode_events (r_id source))) (\<lambda>retained.
         need (retained = length evs)
           (conflict ''external episode identity has a different message count'')))
     | None \<Rightarrow> save_record_for_run source None None)"

definition complete_projection :: "Grant \<Rightarrow> ArtifactChunk \<Rightarrow> bool" where
  "complete_projection grant chunk \<longleftrightarrow>
     ar_path (ach_artifact chunk) \<in> set (g_paths grant) \<and> ach_offset chunk = 0 \<and> ach_eof chunk \<and>
     ach_total_bytes chunk = to_string (length (ach_content chunk)) \<and>
     ach_required_freshness chunk = Some Freshness.Historical"

definition projection_row :: "Grant \<Rightarrow> RecordEnvelope \<Rightarrow> string \<Rightarrow> ArtifactChunk \<Rightarrow> json \<Rightarrow> ArtifactSnapshot" where
  "projection_row grant source i chunk body =
     \<lparr>as_id = i, as_client = sc_client (g_scope grant), as_project = sc_project (g_scope grant),
      as_grant_id = g_id grant, as_path = ar_path (ach_artifact chunk), as_branch_id = None,
      as_split = pv_split (r_provenance source), as_version = ar_version (ach_artifact chunk),
      as_current_version = ar_version (ach_artifact chunk), as_required_freshness = ''historical'',
      as_available = True, as_export_file = None, as_result_run_id = None, as_result_call_id = None,
      as_result_args_hash = None, as_result_method = None, as_result_sources = [],
      as_version_only = False, as_body = body, as_result_content = None\<rparr>"

definition publish_projection ::
    "Grant \<Rightarrow> RecordEnvelope \<Rightarrow> string list \<Rightarrow> ArtifactChunk \<Rightarrow> string list store_op" where
  "publish_projection grant source seen chunk =
     seq (validate ''ArtifactChunk'' (valid_ArtifactChunk chunk)) (
     bind (expect (ach_snapshot_id chunk) (invalid ''external snapshot requires an identity'')) (\<lambda>i.
     seq (need (i \<notin> set seen \<and> complete_projection grant chunk)
       (invalid ''external snapshot must be a complete, granted historical projection'')) (
     bind (ask (\<lambda>s. env_chunk_json s chunk)) (\<lambda>body.
     bind (query (snapshot_row i)) (\<lambda>previous.
     case previous of
       Some row \<Rightarrow>
         seq (need (as_client row = sc_client (g_scope grant) \<and>
                as_project row = sc_project (g_scope grant) \<and> as_body row = body)
           (conflict ''external snapshot identity has different content'')) (ret (seen @ [i]))
     | None \<Rightarrow>
         seq (insert_snapshot (projection_row grant source i chunk body)) (
         seq (exec_res (add_source_edges ''artifact'' i [r_id source] []))
             (ret (seen @ [i]))))))))"

definition external_event :: "Grant \<Rightarrow> RecordEnvelope \<Rightarrow> ArtifactChunk list \<Rightarrow> Event \<Rightarrow> bool" where
  "external_event grant source chunks e \<longleftrightarrow>
     ev_scope e = g_scope grant \<and> ev_kind e = ''external_message'' \<and>
     pv_origin (ev_provenance e) = Origin.Observed \<and>
     pv_split (ev_provenance e) = pv_split (r_provenance source) \<and>
     pv_source_refs (ev_provenance e) = [r_id source] \<and>
     Option.bind (map_of (ev_payload e) ''authority'') as_str = Some ''external_record'' \<and>
     list_all (\<lambda>a. list_ex (\<lambda>c. ach_artifact c = a) chunks) (ev_artifacts e)"

definition publish_event ::
    "Grant \<Rightarrow> RecordEnvelope \<Rightarrow> ArtifactChunk list \<Rightarrow> nat \<Rightarrow> Event \<Rightarrow> nat store_op" where
  "publish_event grant source chunks inserted e =
     seq (need (external_event grant source chunks e)
       (invalid ''external events must cite their source and projected snapshots with external_record authority'')) (
     bind (ingest e) (\<lambda>fresh.
     ret (if fresh then inserted + 1 else inserted)))"

definition import_external_episode ::
    "Grant \<Rightarrow> RecordEnvelope \<Rightarrow> Event list \<Rightarrow> ArtifactChunk list \<Rightarrow> nat store_op" where
  "import_external_episode grant source evs chunks =
     seq (validate ''RecordEnvelope'' (valid_RecordEnvelope source)) (
     bind (ask (\<lambda>s. env_memory_of s (r_body source))) (\<lambda>decoded.
     seq (validate ''Memory'' (case decoded of Inl _ \<Rightarrow> False | Inr m \<Rightarrow> valid_Memory m)) (
     seq (need (owner_source grant source)
       (denied ''external episode requires an owner-scoped observed source memory'')) (
     bind (lift decoded) (\<lambda>m.
     seq (need (independent_memory m) (invalid ''external source memory must be an independent source'')) (
     bind (ask (\<lambda>s. env_episode_bytes s source evs chunks)) (\<lambda>bytes.
     seq (need (\<not> (evs = [] \<or> 4000 < length evs \<or> 32 * 1024 * 1024 < bytes))
       (invalid ''external episode exceeds 4000 events or 32 MiB, or has no events'')) (
     transaction (
       seq (publish_source source evs) (
       bind (fold_op (publish_projection grant source) [] chunks) (\<lambda>_.
       bind (fold_op (publish_event grant source chunks) 0 evs) (\<lambda>inserted.
       commit inserted))))))))))))"

end
