(* ===== verification/Exports.thy ===== *)
theory Exports
  imports ToolResults
begin

text \<open>
  crates/ribosome-core/src/exports.rs: a training export. The records and their whole lineage are
  reviewed, a manifest commits before the file is written, and publication reviews the lineage again
  in the transaction that makes the export available.

  The set of reviewed sources is a list in the order of the review; the code iterates a hash set,
  whose order is unspecified.
\<close>

section \<open>Review of a lineage\<close>

definition protected_kind :: "RecordKind \<Rightarrow> bool" where
  "protected_kind k \<longleftrightarrow>
     k \<in> {RecordKind.Evaluation, RecordKind.Experiment, RecordKind.Admission, RecordKind.Recommendation}"

text \<open>The split of a stored source, and whether its kind is protected.\<close>

definition source_split :: "Scope \<Rightarrow> string \<Rightarrow> string \<Rightarrow> Db \<Rightarrow> (Split \<times> bool) res" where
  "source_split scope kind i d =
     (if kind = ''record''
      then the_row (map_option (\<lambda>r. (rec_split r, protected_kind (rec_kind r)))
        (List.find (\<lambda>r. rec_id r = i \<and> rec_client r = sc_client scope \<and> rec_project r = sc_project scope)
          (records d)))
      else if kind = ''event''
      then the_row (map_option (\<lambda>e. (er_split e, False))
        (List.find (\<lambda>e. er_id e = i \<and> er_client e = sc_client scope \<and> er_project e = sc_project scope)
          (events d)))
      else if kind = ''artifact''
      then the_row (map_option (\<lambda>a. (as_split a, False))
        (List.find (\<lambda>a. as_id a = i \<and> as_client a = sc_client scope \<and> as_project a = sc_project scope)
          (artifact_snapshots d)))
      else Inl (denied ''export lineage is missing or inaccessible''))"

definition review_source :: "Grant \<Rightarrow> string \<Rightarrow> string \<Rightarrow> unit store_op" where
  "review_source grant kind i =
     seq (require_source grant kind i) (
     bind (query_res (source_split (g_scope grant) kind i)) (\<lambda>(split, protected).
     need (split = Split.Development \<and> \<not> protected)
       (denied ''evaluation and holdout material cannot enter training exports'')))"

definition direct_sources :: "string \<Rightarrow> string \<Rightarrow> Db \<Rightarrow> (string \<times> string) list" where
  "direct_sources kind i d = map (\<lambda>e. (se_source_kind e, se_source_id e)) (edges_from kind i d)"

text \<open>The recursion of the code, with the calls that are still to be made as a stack.\<close>

function review_loop ::
    "Grant \<Rightarrow> (string \<times> string) list \<Rightarrow> (string \<times> string) list \<Rightarrow> (string \<times> string) list store_op" where
  "review_loop grant checked pending s =
     (case pending of
        [] \<Rightarrow> (Inr checked, s)
      | (kind, i) # rest \<Rightarrow>
          if (kind, i) \<in> set checked then review_loop grant checked rest s
          else if 1000 < Suc (length checked)
          then (Inl (exhausted ''export lineage exceeds bounded review size''), s)
          else case review_source grant kind i s of
              (Inl e, t) \<Rightarrow> (Inl e, t)
            | (Inr _, t) \<Rightarrow> review_loop grant (checked @ [(kind, i)])
                (direct_sources kind i (store_db t) @ rest) t)"
  by pat_completeness auto
termination
  by (relation "measures [\<lambda>(_, checked, _, _). 1000 - length checked,
        \<lambda>(_, _, pending, _). length pending]") auto

declare review_loop.simps [simp del]

definition check_export_lineage ::
    "Grant \<Rightarrow> string \<Rightarrow> string \<Rightarrow> (string \<times> string) list \<Rightarrow> (string \<times> string) list store_op" where
  "check_export_lineage grant kind i checked = review_loop grant checked [(kind, i)]"

section \<open>The export\<close>

definition select_record ::
    "Grant \<Rightarrow> Origin \<Rightarrow> RecordEnvelope list \<times> (string \<times> string) list \<Rightarrow> string \<Rightarrow>
     (RecordEnvelope list \<times> (string \<times> string) list) store_op" where
  "select_record grant product acc i = (case acc of (chosen, checked) \<Rightarrow>
     bind (read_record grant i) (\<lambda>r.
     seq (need (pv_origin (r_provenance r) = product)
       (denied ''export cannot relabel observed, reexecuted or synthetic material'')) (
     bind (check_export_lineage grant ''record'' i checked) (\<lambda>reviewed.
     seq (need (product = Origin.Synthetic \<or> pv_source_refs (r_provenance r) \<noteq> [])
       (denied ''observed or reexecuted training material requires source evidence''))
         (ret (chosen @ [r], reviewed))))))"

fun export_content :: "(RecordEnvelope \<Rightarrow> string) \<Rightarrow> string \<Rightarrow> RecordEnvelope list \<Rightarrow> string res" where
  "export_content line content [] = Inr content"
| "export_content line content (r # rs) =
     (let grown = content @ line r @ [CHR 0x0A] in
      if MAX_EXPORT_BYTES < length grown
      then Inl (exhausted ''training export exceeds the 16 MiB artifact limit; select fewer records'')
      else export_content line grown rs)"

definition manifest_row :: "Grant \<Rightarrow> string \<Rightarrow> ArtifactRef \<Rightarrow> string \<Rightarrow> ArtifactSnapshot" where
  "manifest_row grant i artifact filename =
     \<lparr>as_id = i, as_client = sc_client (g_scope grant), as_project = sc_project (g_scope grant),
      as_grant_id = g_id grant, as_path = ar_path artifact, as_branch_id = None,
      as_split = Split.Development, as_version = ar_version artifact,
      as_current_version = ar_version artifact, as_required_freshness = ''historical'',
      as_available = False, as_export_file = Some filename, as_result_run_id = None,
      as_result_call_id = None, as_result_args_hash = None, as_result_method = None,
      as_result_sources = [], as_version_only = False, as_body = JObject [],
      as_result_content = None\<rparr>"

definition source_version :: "string \<Rightarrow> string \<Rightarrow> Db \<Rightarrow> string res" where
  "source_version kind i d =
     (if kind = ''record'' then the_row (map_option rec_version (List.find (\<lambda>r. rec_id r = i) (records d)))
      else if kind = ''event'' then the_row (map_option er_sequence (List.find (\<lambda>e. er_id e = i) (events d)))
      else if kind = ''artifact''
      then the_row (map_option as_version (List.find (\<lambda>a. as_id a = i) (artifact_snapshots d)))
      else Inl (denied ''unknown export source kind''))"

definition manifest_edge :: "string \<Rightarrow> string \<times> string \<Rightarrow> unit store_op" where
  "manifest_edge snapshot source = (case source of (kind, i) \<Rightarrow>
     bind (query_res (source_version kind i)) (\<lambda>version.
     insert_row (\<lambda>d. (kind, i) \<notin> set (direct_sources ''artifact'' snapshot d))
       (\<lambda>d. d\<lparr>source_edges := source_edges d @
          [\<lparr>se_rowid = next_rowid d, se_subject_kind = ''artifact'', se_subject_id = snapshot,
            se_source_kind = kind, se_source_id = i, se_source_version = Some version,
            se_requires_access = True\<rparr>]\<rparr>)))"

record export_plan =
  xpl_snapshot :: string
  xpl_content :: string
  xpl_result :: ExportResult
  xpl_checked :: "(string \<times> string) list"

definition manifest :: "Grant \<Rightarrow> ExportRequest \<Rightarrow> export_plan store_op" where
  "manifest grant q =
     transaction (
       bind (fold_op (select_record grant (xq_product q)) ([], []) (xq_record_ids q)) (\<lambda>(chosen, checked).
       bind (ask (\<lambda>s. export_content (env_export_line s (xq_product q) (g_scope grant)) [] chosen)) (\<lambda>outcome.
       bind (lift outcome) (\<lambda>content.
       bind new_id (\<lambda>snapshot.
       bind (export_path snapshot (snapshot @ ''.jsonl'')) (\<lambda>path.
       bind (hash content) (\<lambda>version.
       let artifact = \<lparr>ar_path = EXPORT_PREFIX @ snapshot, ar_version = version\<rparr>;
           result = \<lparr>xr_path = path, xr_count = length chosen, xr_artifact = artifact\<rparr> in
       seq (validate ''ExportResult'' (valid_ExportResult result)) (
       seq (insert_snapshot (manifest_row grant snapshot artifact (snapshot @ ''.jsonl''))) (
       seq (for_each checked (manifest_edge snapshot)) (
       commit \<lparr>xpl_snapshot = snapshot, xpl_content = content, xpl_result = result,
         xpl_checked = checked\<rparr>))))))))))"

definition make_available :: "string \<Rightarrow> Db \<Rightarrow> Db" where
  "make_available i d = update_snapshots (\<lambda>a. as_id a = i) (\<lambda>a. a\<lparr>as_available := True\<rparr>) d"

definition publish :: "Grant \<Rightarrow> export_plan \<Rightarrow> unit store_op" where
  "publish grant plan =
     transaction (
       bind (fold_op (\<lambda>rechecked (kind, i). check_export_lineage grant kind i rechecked) []
           (xpl_checked plan)) (\<lambda>_.
       bind (query (tombstoned ''artifact'' (xpl_snapshot plan))) (\<lambda>withdrawn.
       seq (need (\<not> withdrawn) (denied ''export was withdrawn before publication'')) (
       bind (ask (\<lambda>s. env_write_file s (xr_path (xpl_result plan)) (xpl_content plan))) (\<lambda>written.
       seq (lift written) (
       seq (exec (make_available (xpl_snapshot plan))) (
       seq (require_source grant ''artifact'' (xpl_snapshot plan))
           (commit ()))))))))"

definition export_training :: "string \<Rightarrow> ExportRequest \<Rightarrow> ExportResult store_op" where
  "export_training run q =
     seq (validate ''ExportRequest'' (valid_ExportRequest q)) (
     bind (require_active run) (\<lambda>grant.
     seq (need (g_allow_export grant) (denied ''training export is not granted'')) (
     seq (need (xq_record_ids q \<noteq> []) (invalid ''export selection is empty'')) (
     seq (refresh_artifact_sources grant) (
     bind (manifest grant q) (\<lambda>plan.
     bind (attempt (publish grant plan)) (\<lambda>published.
     case published of
       Inr _ \<Rightarrow> ret (xpl_result plan)
     | Inl e \<Rightarrow>
         seq (withdraw_export (xpl_snapshot plan)) (
         seq (cleanup_sources grant 1) (throw e)))))))))"

section \<open>What a review establishes\<close>

definition lineage_step :: "Db \<Rightarrow> ((string \<times> string) \<times> (string \<times> string)) set" where
  "lineage_step d = {((k, i), y). y \<in> set (direct_sources k i d)}"

definition exportable :: "Scope \<Rightarrow> Db \<Rightarrow> string \<times> string \<Rightarrow> bool" where
  "exportable scope d x \<longleftrightarrow> source_split scope (fst x) (snd x) d = Inr (Split.Development, False)"

lemma quiet_review_source [quiet_intros]: "quiet (review_source grant kind i)"
  unfolding review_source_def by (intro quiet_intros; auto split: prod.splits intro: quiet_intros)

lemma review_source_exportable:
  "review_source grant kind i s = (Inr u, t) \<Longrightarrow> exportable (g_scope grant) (store_db t) (kind, i)"
  unfolding review_source_def exportable_def
  by (auto simp: seq_def bind_def need_def throw_def ret_def split: prod.splits sum.splits if_splits)

text \<open>
  What the loop returns extends what it was given, holds every source it was asked about and is
  closed under lineage where it was extended.
\<close>

definition reviewed ::
    "Scope \<Rightarrow> Db \<Rightarrow> (string \<times> string) list \<Rightarrow> (string \<times> string) list \<Rightarrow> (string \<times> string) list \<Rightarrow> bool" where
  "reviewed scope d before pending after \<longleftrightarrow>
     set before \<subseteq> set after \<and> set pending \<subseteq> set after \<and>
     (\<forall>x \<in> set after - set before. exportable scope d x \<and>
        (\<forall>y. (x, y) \<in> lineage_step d \<longrightarrow> y \<in> set after))"

lemma reviewed_step:
  assumes ok: "exportable scope d (k, i)"
    and rev: "reviewed scope d (before @ [(k, i)]) (direct_sources k i d @ rest) after"
  shows "reviewed scope d before ((k, i) # rest) after"
proof -
  have "exportable scope d x \<and> (\<forall>y. (x, y) \<in> lineage_step d \<longrightarrow> y \<in> set after)"
    if "x \<in> set after - set before" for x
  proof (cases "x = (k, i)")
    case True
    with ok rev show ?thesis by (auto simp: reviewed_def lineage_step_def)
  next
    case False
    with that have "x \<in> set after - set (before @ [(k, i)])" by simp
    with rev show ?thesis unfolding reviewed_def by blast
  qed
  with rev show ?thesis by (simp add: reviewed_def)
qed

lemma review_loop_reviewed:
  "review_loop grant checked pending s = (Inr after, t) \<Longrightarrow>
     same_store s t \<and> reviewed (g_scope grant) (store_db s) checked pending after"
proof (induction grant checked pending s rule: review_loop.induct)
  case (1 grant checked pending s)
  show ?case
  proof (cases pending)
    case Nil
    with 1(3) show ?thesis by (simp add: review_loop.simps reviewed_def same_store_refl)
  next
    case (Cons p rest)
    obtain k i where p: "p = (k, i)" by (cases p)
    show ?thesis
    proof (cases "(k, i) \<in> set checked")
      case True
      with 1(3) Cons p have "review_loop grant checked rest s = (Inr after, t)"
        by (simp add: review_loop.simps [of grant checked "(k, i) # rest"])
      with 1(1) [OF Cons p [symmetric] True] True Cons p show ?thesis by (auto simp: reviewed_def)
    next
      case False
      with 1(3) Cons p have bound: "\<not> 1000 < Suc (length checked)"
        by (auto simp: review_loop.simps [of grant checked "(k, i) # rest"] split: if_splits)
      obtain r u where step: "review_source grant k i s = (r, u)" by (cases "review_source grant k i s")
      with False bound 1(3) Cons p obtain x where r: "r = Inr x"
        and rec: "review_loop grant (checked @ [(k, i)]) (direct_sources k i (store_db u) @ rest) u = (Inr after, t)"
        by (auto simp: review_loop.simps [of grant checked "(k, i) # rest"] split: sum.splits)
      have same: "same_store s u" using step quiet_review_source quietD by metis
      then have db: "store_db u = store_db s" by (rule same_storeD)
      have ok: "exportable (g_scope grant) (store_db s) (k, i)"
        using review_source_exportable step r db by metis
      from 1(2) [OF Cons p [symmetric] False bound step [symmetric] r rec]
      have "same_store u t" and rev: "reviewed (g_scope grant) (store_db s) (checked @ [(k, i)])
          (direct_sources k i (store_db s) @ rest) after" by (simp_all add: db)
      with same have "same_store s t" by (blast intro: same_store_trans)
      with reviewed_step [OF ok rev] Cons p show ?thesis by simp
    qed
  qed
qed

lemma check_export_lineage_reviewed:
  "check_export_lineage grant k i before s = (Inr after, t) \<Longrightarrow>
     same_store s t \<and> reviewed (g_scope grant) (store_db s) before [(k, i)] after"
  unfolding check_export_lineage_def by (rule review_loop_reviewed)

lemma reviewed_append:
  "reviewed scope d a xs b \<Longrightarrow> reviewed scope d b ys c \<Longrightarrow> reviewed scope d a (xs @ ys) c"
  unfolding reviewed_def by (auto, blast+)

lemma fold_review:
  "fold_op (\<lambda>acc (k, i). check_export_lineage grant k i acc) before xs s = (Inr after, t) \<Longrightarrow>
     same_store s t \<and> reviewed (g_scope grant) (store_db s) before xs after"
proof (induction xs arbitrary: before s)
  case Nil
  then show ?case by (simp add: reviewed_def ret_def)
next
  case (Cons x xs)
  obtain k i where x: "x = (k, i)" by (cases x)
  from Cons.prems x obtain mid u where
    first: "check_export_lineage grant k i before s = (Inr mid, u)"
    and others: "fold_op (\<lambda>acc (k, i). check_export_lineage grant k i acc) mid xs u = (Inr after, t)"
    by (auto simp: bind_def split: prod.splits sum.splits)
  from check_export_lineage_reviewed [OF first] have a: "same_store s u"
    "reviewed (g_scope grant) (store_db s) before [x] mid" by (simp_all add: x)
  from Cons.IH [OF others] same_storeD(1) [OF a(1)] have b: "same_store u t"
    "reviewed (g_scope grant) (store_db s) mid xs after" by simp_all
  from a b show ?case
    using reviewed_append [of "g_scope grant" "store_db s" before "[x]" mid xs after]
    by (auto intro: same_store_trans)
qed

lemma reviewed_reaches:
  assumes rev: "reviewed scope d [] roots after" and x: "x \<in> set roots" and xy: "(x, y) \<in> (lineage_step d)\<^sup>*"
  shows "exportable scope d y"
proof -
  from xy have "y \<in> set after"
    using x rev by (induction rule: rtrancl_induct) (auto simp: reviewed_def)
  with rev show ?thesis by (simp add: reviewed_def)
qed

section \<open>What an export establishes\<close>

lemma make_available_frames [simp]:
  "lineage_step (make_available i d) = lineage_step d"
  "source_split scope kind j (make_available i d) = source_split scope kind j d"
proof -
  have find: "map_option (\<lambda>a. (as_split a, False)) (List.find P (update_where Q f xs)) =
      map_option (\<lambda>a. (as_split a, False)) (List.find P xs)"
    if "\<And>a. P (f a) = P a" "\<And>a. as_split (f a) = as_split a"
    for P Q f and xs :: "ArtifactSnapshot list"
    using that by (induction xs) (auto simp: update_where_def)
  show "lineage_step (make_available i d) = lineage_step d"
    by (simp add: lineage_step_def direct_sources_def edges_from_def make_available_def update_snapshots_def)
  show "source_split scope kind j (make_available i d) = source_split scope kind j d"
    by (simp add: source_split_def make_available_def update_snapshots_def find)
qed

lemma publish_exportable:
  assumes run: "publish grant plan s = (Inr u, t)" and x: "x \<in> set (xpl_checked plan)"
    and xy: "(x, y) \<in> (lineage_step (store_db t))\<^sup>*"
  shows "exportable (g_scope grant) (store_db t) y"
proof -
  from run obtain after s1 s3 where
    fold: "fold_op (\<lambda>acc (k, i). check_export_lineage grant k i acc) [] (xpl_checked plan)
        (s\<lparr>store_in_tx := True\<rparr>) = (Inr after, s1)"
    and req: "require_source grant ''artifact'' (xpl_snapshot plan)
        (s1\<lparr>store_db := make_available (xpl_snapshot plan) (store_db s1)\<rparr>) = (Inr (), s3)"
    and t: "t = s3\<lparr>store_in_tx := False\<rparr>"
    unfolding publish_def
    by (auto simp: transaction_Inr_iff bind_Inr_iff seq_Inr_iff ask_def exec_def modify_def commit_def ret_def
        need_def throw_def lift_def split: if_splits)
  from fold_review [OF fold] have same: "same_store (s\<lparr>store_in_tx := True\<rparr>) s1"
    and rev: "reviewed (g_scope grant) (store_db s) [] (xpl_checked plan) after" by simp_all
  have "store_db s3 = make_available (xpl_snapshot plan) (store_db s1)"
    using same_storeD(1) [OF quietD [OF quiet_require_source req]] by simp
  with t same_storeD(1) [OF same]
  have db: "store_db t = make_available (xpl_snapshot plan) (store_db s)" by simp
  have "exportable (g_scope grant) (store_db s) y"
    using rev x xy by (intro reviewed_reaches) (simp_all add: db)
  then show ?thesis by (simp add: exportable_def db)
qed

lemma select_record_reviews:
  "select_record grant product (chosen, checked) i s = (Inr (chosen', checked'), t) \<Longrightarrow>
     set checked \<subseteq> set checked' \<and> (''record'', i) \<in> set checked'"
  unfolding select_record_def
  by (auto simp: bind_Inr_iff seq_Inr_iff ret_def reviewed_def dest!: check_export_lineage_reviewed)

lemma fold_select_reviews:
  "fold_op (select_record grant product) acc is s = (Inr (chosen, checked), t) \<Longrightarrow>
     set (snd acc) \<subseteq> set checked \<and> (\<forall>i \<in> set is. (''record'', i) \<in> set checked)"
proof (induction "is" arbitrary: acc s)
  case Nil
  then show ?case by (simp add: ret_def)
next
  case (Cons i "is")
  obtain c k where acc: "acc = (c, k)" by (cases acc)
  from Cons.prems obtain mid u where first: "select_record grant product acc i s = (Inr mid, u)"
    and others: "fold_op (select_record grant product) mid is u = (Inr (chosen, checked), t)"
    by (auto simp: bind_Inr_iff)
  obtain c' k' where "mid = (c', k')" by (cases mid)
  with first acc have "set k \<subseteq> set k' \<and> (''record'', i) \<in> set k'"
    using select_record_reviews by simp
  with Cons.IH [OF others] acc \<open>mid = (c', k')\<close> show ?case by auto
qed

lemma manifest_reviews:
  "manifest grant q s = (Inr plan, t) \<Longrightarrow> i \<in> set (xq_record_ids q) \<Longrightarrow>
     (''record'', i) \<in> set (xpl_checked plan)"
  unfolding manifest_def Let_def
  by (auto simp: transaction_Inr_iff bind_Inr_iff seq_Inr_iff commit_def ret_def
      dest!: fold_select_reviews)

end
