(* ===== verification/Compaction.thy ===== *)
theory Compaction
  imports ContextLog Accounting
begin

text \<open>
  crates/ribosome-core/src/compaction.rs: the summary of the oldest messages of a segment. A plan
  reserves a range after the last committed summary; the range is read, summarised by a call with its
  own permit, and committed once, on the settled usage of that permit. \<open>require_compaction\<close> is in
  Accounting.
\<close>

section \<open>Planning\<close>

definition visible_message :: "json \<Rightarrow> json res" where
  "visible_message message =
     and_then (visible_content message) (\<lambda>parts.
     Inr (JObject [(''content'', JArray parts), (''isError'', json_get message ''isError''),
       (''role'', json_get message ''role''), (''timestamp'', json_get message ''timestamp''),
       (''toolCallId'', json_get message ''toolCallId''), (''toolName'', json_get message ''toolName'')]))"

definition owner_task :: "ContextItem \<Rightarrow> bool" where
  "owner_task i \<longleftrightarrow> it_sequence i = 1 \<and> it_kind i = ''owner_instruction''"

definition compactable :: "string \<Rightarrow> nat \<Rightarrow> nat \<Rightarrow> Db \<Rightarrow> ContextItem list" where
  "compactable segment after through d =
     filter (\<lambda>i. after < it_sequence i \<and> it_sequence i \<le> through \<and> \<not> owner_task i)
       (segment_items segment d)"

definition visible_bytes :: "ContextItem \<Rightarrow> nat store_op" where
  "visible_bytes i =
     bind (expect (it_body i) (denied ''compaction input deleted'')) (\<lambda>body.
     bind (lift (visible_message body)) (\<lambda>message.
     ask (\<lambda>s. length (env_json_text s message))))"

text \<open>At least one message, then as many as fit.\<close>

fun plan_loop :: "nat \<Rightarrow> nat \<Rightarrow> nat \<Rightarrow> ContextItem list \<Rightarrow> nat store_op" where
  "plan_loop after through bytes [] = ret through"
| "plan_loop after through bytes (i # rows) =
     bind (visible_bytes i) (\<lambda>width.
     if after < through \<and> 180000 < bytes + width then ret through
     else plan_loop after (it_sequence i) (bytes + width) rows)"

definition prepared_summary :: "string \<Rightarrow> nat \<Rightarrow> nat \<Rightarrow> Db \<Rightarrow> string option" where
  "prepared_summary segment after through d = map_option sm_id
     (List.find (\<lambda>c. sm_segment_id c = segment \<and> sm_after_sequence c = after \<and>
        sm_through_sequence c = through \<and> sm_status c = ''prepared'') (context_summaries d))"

text \<open>\<open>INSERT OR IGNORE\<close>.\<close>

definition prepare_row :: "ContextSummaryRow \<Rightarrow> Db \<Rightarrow> Db" where
  "prepare_row row d =
     (if exists_where (\<lambda>c. sm_id c = sm_id row) (context_summaries d) then d
      else d\<lparr>context_summaries := context_summaries d @ [row]\<rparr>)"

definition prepare_compaction :: "string \<Rightarrow> CompactionPreparation store_op" where
  "prepare_compaction run =
     transaction (
       bind (require_active run) (\<lambda>grant.
       bind (query (context_head run)) (\<lambda>head.
       case head of
         None \<Rightarrow> ret (Rollback \<lparr>cpp_plan = None\<rparr>)
       | Some segment \<Rightarrow>
           bind (segment_current grant segment) (\<lambda>usable.
           seq (need usable
                  (conflict ''compaction input no longer eligible; authorize a clean continuation'')) (
           bind (query (summary_head segment)) (\<lambda>previous.
           let after = (case previous of None \<Rightarrow> 0 | Some (_, through) \<Rightarrow> through) in
           bind (context_tail segment) (\<lambda>target.
           bind (query (\<lambda>d. take 20 (compactable segment after target d))) (\<lambda>rows.
           bind (plan_loop after after 0 rows) (\<lambda>through.
           if through = after then ret (Rollback \<lparr>cpp_plan = None\<rparr>)
           else
             bind (query (prepared_summary segment after through)) (\<lambda>existing.
             bind (case existing of None \<Rightarrow> new_id | Some i \<Rightarrow> ret i) (\<lambda>summary.
             bind now_ms (\<lambda>now.
             seq (exec (prepare_row
                    \<lparr>sm_id = summary, sm_segment_id = segment, sm_after_sequence = after,
                     sm_through_sequence = through, sm_predecessor_id = map_option fst previous,
                     sm_status = ''prepared'', sm_body = None, sm_permit_id = None,
                     sm_created_ms = to_string now\<rparr>))
                 (commit \<lparr>cpp_plan = Some \<lparr>cpl_id = summary, cpl_segment_id = segment,
                    cpl_after = to_string after, cpl_through = to_string through\<rparr>\<rparr>)))))))))))))"

section \<open>Reading\<close>

definition summary_row :: "string \<Rightarrow> Db \<Rightarrow> ContextSummaryRow option" where
  "summary_row summary d = List.find (\<lambda>c. sm_id c = summary) (context_summaries d)"

definition parse_source_kind :: "string \<Rightarrow> ContextSourceKind res" where
  "parse_source_kind kind =
     (if kind = ''record'' then Inr ContextSourceKind.Record
      else if kind = ''event'' then Inr ContextSourceKind.Event
      else if kind = ''artifact'' then Inr ContextSourceKind.Artifact
      else Inl (internal ''unknown variant''))"

definition read_source :: "ContextSourceRow \<Rightarrow> ContextSource res" where
  "read_source c = and_then (parse_source_kind (cso_kind c)) (\<lambda>kind.
     Inr \<lparr>cs_kind = kind, cs_id = cso_id c, cs_version = cso_version c\<rparr>)"

definition sources_through :: "string \<Rightarrow> nat \<Rightarrow> Db \<Rightarrow> ContextSourceRow list" where
  "sources_through segment through d =
     sort_key cso_kind (sort_key cso_id (sort_key cso_version
       (filter (\<lambda>c. cso_segment_id c = segment \<and> cso_first_sequence c \<le> through) (context_sources d))))"

definition read_summary :: "string \<Rightarrow> string \<Rightarrow> ContextSummary store_op" where
  "read_summary run summary =
     bind (require_compaction run summary) (\<lambda>_.
     bind (query_res (run_grant run)) (\<lambda>grant.
     bind (query (\<lambda>d. List.find (\<lambda>c. sm_id c = summary \<and> sm_status c = ''committed'' \<and>
         exists_where (\<lambda>s. sgm_id s = sm_segment_id c \<and> sgm_run_id s = run) (context_segments d))
         (context_summaries d))) (\<lambda>found.
     bind (expect found (denied ''summary is absent or unavailable to this run'')) (\<lambda>row.
     bind (expect (sm_body row) (internal ''Invalid column type'')) (\<lambda>body.
     seq (require_source grant ''event'' summary) (
     bind (query_res (\<lambda>d. map_res read_source
         (sources_through (sm_segment_id row) (sm_through_sequence row) d))) (\<lambda>sources.
     ret \<lparr>csm_id = summary, csm_through = to_string (sm_through_sequence row), csm_text = body,
          csm_sources = sources\<rparr>)))))))"

definition plan_of :: "ContextSummaryRow \<Rightarrow> CompactionPlan" where
  "plan_of c = \<lparr>cpl_id = sm_id c, cpl_segment_id = sm_segment_id c,
     cpl_after = to_string (sm_after_sequence c), cpl_through = to_string (sm_through_sequence c)\<rparr>"

definition read_message :: "ContextItem \<Rightarrow> json_map store_op" where
  "read_message i =
     bind (expect (it_body i) (denied ''compaction input deleted'')) (\<lambda>body.
     bind (lift (visible_message body)) (\<lambda>message.
     expect (as_object message) (internal ''message'')))"

definition read_compaction :: "string \<Rightarrow> string \<Rightarrow> CompactionInput store_op" where
  "read_compaction run summary =
     transaction (
       bind (require_active run) (\<lambda>_.
       bind (require_compaction run summary) (\<lambda>plan.
       bind (case sm_predecessor_id plan of None \<Rightarrow> ret None
             | Some i \<Rightarrow> bind (read_summary run i) (\<lambda>previous. ret (Some previous))) (\<lambda>previous.
       bind (query_res (\<lambda>d. the_row (run_row d run))) (\<lambda>row.
       bind (query (compactable (sm_segment_id plan) (sm_after_sequence plan)
           (sm_through_sequence plan))) (\<lambda>rows.
       bind (map_op read_message rows) (\<lambda>found.
       let input = \<lparr>cin_plan = plan_of plan, cin_owner_task = rq_prompt (rr_request row),
                    cin_previous_summary = previous, cin_messages = found\<rparr> in
       bind (ask (\<lambda>s. env_compaction_bytes s input)) (\<lambda>bytes.
       seq (need (bytes \<le> 480 * 1024)
              (exhausted ''compaction input exceeds the bounded transport window''))
           (ret (Rollback input))))))))))"

section \<open>Committing\<close>

definition next_summary_sequence :: "string \<Rightarrow> Db \<Rightarrow> nat" where
  "next_summary_sequence run d = Suc (foldr max (map (\<lambda>e. cast_integer (er_sequence e))
     (filter (\<lambda>e. er_run_id e = run \<and> er_producer e = ''pi-compactor'') (events d))) 0)"

definition summary_event ::
    "Grant \<Rightarrow> string \<Rightarrow> ContextSummaryRow \<Rightarrow> CompactionCommit \<Rightarrow> string list \<Rightarrow> nat \<Rightarrow> nat \<Rightarrow> Event" where
  "summary_event grant run plan q references n now =
     \<lparr>ev_id = cct_id q, ev_scope = g_scope grant, ev_run_id = run, ev_producer = ''pi-compactor'',
      ev_sequence = to_string n, ev_kind = ''context_summary'', ev_timestamp_ms = to_string now,
      ev_parents = (case sm_predecessor_id plan of None \<Rightarrow> [] | Some i \<Rightarrow> [i]),
      ev_correlation = sm_segment_id plan, ev_artifacts = [],
      ev_payload =
        [(''after'', JString (to_string (sm_after_sequence plan))),
         (''authority'', JString ''Pi-authored interpretation; verify effects through host receipts''),
         (''permit_id'', JString (cct_permit_id q)), (''role'', JString ''assistant''),
         (''summary'', JString (cct_text q)),
         (''through'', JString (to_string (sm_through_sequence plan)))],
      ev_provenance = \<lparr>pv_origin = Origin.Observed, pv_source_refs = references,
        pv_scenario_family = ''context-compaction'', pv_split = derived_split (g_visible_splits grant),
        pv_limitations =
          [''Semantic continuation summary, not an independent validation of task truth.'']\<rparr>\<rparr>"

definition commit_row :: "CompactionCommit \<Rightarrow> Db \<Rightarrow> Db" where
  "commit_row q d = d\<lparr>context_summaries := update_where (\<lambda>c. sm_id c = cct_id q)
     (\<lambda>c. c\<lparr>sm_status := ''committed'', sm_body := Some (cct_text q),
        sm_permit_id := Some (cct_permit_id q)\<rparr>) (context_summaries d)\<rparr>"

definition compaction_usage :: "string \<Rightarrow> CompactionCommit \<Rightarrow> Db \<Rightarrow> Usage option" where
  "compaction_usage run q d =
     Option.bind (List.find (\<lambda>p. pm_id p = cct_permit_id q \<and> pm_run_id p = run \<and>
       pm_compaction_id p = Some (cct_id q)) (permits d)) pm_usage"

definition commit_prepared ::
    "string \<Rightarrow> CompactionCommit \<Rightarrow> ContextSummaryRow \<Rightarrow> ContextSummary txn store_op" where
  "commit_prepared run q plan =
     bind (query (summary_head (sm_segment_id plan))) (\<lambda>head.
     seq (need (sm_status plan = ''prepared'' \<and> map_option fst head = sm_predecessor_id plan)
            (conflict ''compaction predecessor changed'')) (
     bind (query (compaction_usage run q)) (\<lambda>reported.
     bind (expect reported
       (denied ''compaction requires settled usage from its own model permit'')) (\<lambda>usage.
     seq (need (u_complete usage)
            (denied ''incomplete model usage cannot establish a compaction result'')) (
     bind (query (item_sources (sm_segment_id plan) (sm_through_sequence plan))) (\<lambda>references.
     bind (query_res (run_grant run)) (\<lambda>grant.
     bind (query (next_summary_sequence run)) (\<lambda>n.
     bind now_ms (\<lambda>now.
     bind (ingest (summary_event grant run plan q
         (references @ (case sm_predecessor_id plan of None \<Rightarrow> [] | Some i \<Rightarrow> [i])) n now)) (\<lambda>_.
     seq (exec (commit_row q)) (
     bind (read_summary run (cct_id q)) commit)))))))))))"

definition commit_compaction :: "string \<Rightarrow> CompactionCommit \<Rightarrow> ContextSummary store_op" where
  "commit_compaction run q =
     seq (validate ''CompactionCommit'' (valid_CompactionCommit q)) (
     seq (need (length (cct_text q) \<le> 16 * 1024) (exhausted ''summary exceeds 16 KiB'')) (
     transaction (
       bind (require_compaction run (cct_id q)) (\<lambda>plan.
       if sm_status plan = ''committed''
       then
         seq (need (sm_body plan = Some (cct_text q) \<and> sm_permit_id plan = Some (cct_permit_id q))
                (conflict ''summary already committed with another result'')) (
         bind (read_summary run (cct_id q)) (\<lambda>summary. ret (Rollback summary)))
       else commit_prepared run q plan))))"

end
