(* ===== verification/Communication.thy ===== *)
theory Communication
  imports Work
begin

text \<open>
  crates/ribosome-core/src/communication.rs: messages between the runs of one grant. Sending is
  bounded by the unacknowledged messages of the grant, every send is an event of the log, and an
  inbox read delivers a message at most three times.
\<close>

section \<open>Model\<close>

definition INBOX_CAPACITY :: nat where
  "INBOX_CAPACITY = 100"

definition INBOX_BATCH :: nat where
  "INBOX_BATCH = 50"

definition MAX_DELIVERIES :: nat where
  "MAX_DELIVERIES = 3"

definition pending_message :: "string \<Rightarrow> MessageRow \<Rightarrow> bool" where
  "pending_message grant_id m \<longleftrightarrow>
     mr_grant_id m = grant_id \<and> \<not> mr_acknowledged m \<and> mr_source_format m = 1"

text \<open>How many of the pending messages still have an available source.\<close>

definition count_available :: "Grant \<Rightarrow> string list \<Rightarrow> nat store_op" where
  "count_available grant ids =
     fold_op (\<lambda>n i. bind (source_available grant ''event'' i) (\<lambda>ok.
       ret (if ok then n + 1 else n))) 0 ids"

text \<open>The AUTOINCREMENT key of \<open>messages\<close>; rows are never deleted.\<close>

definition next_message :: "Db \<Rightarrow> nat" where
  "next_message d = Suc (foldr max (map mr_sequence (messages d)) 0)"

definition new_message :: "string \<Rightarrow> MessageSend \<Rightarrow> string \<Rightarrow> Message" where
  "new_message run request i =
     \<lparr>m_id = i, m_sender = run, m_recipient = ms_recipient request, m_topic = ms_topic request,
      m_body = ms_body request, m_correlation = ms_correlation request, m_sequence = ''0'',
      m_attempts = 0\<rparr>"

definition message_row :: "Grant \<Rightarrow> string \<Rightarrow> Message \<Rightarrow> nat \<Rightarrow> MessageRow" where
  "message_row grant run message sequence =
     \<lparr>mr_sequence = sequence, mr_id = m_id message, mr_grant_id = g_id grant, mr_sender = run,
      mr_recipient = m_recipient message, mr_acknowledged = False, mr_attempts = 0,
      mr_body = Some message, mr_source_format = 1\<rparr>"

definition insert_message :: "MessageRow \<Rightarrow> Db \<Rightarrow> Db" where
  "insert_message row d = d\<lparr>messages := messages d @ [row]\<rparr>"

definition update_message :: "string \<Rightarrow> (MessageRow \<Rightarrow> MessageRow) \<Rightarrow> Db \<Rightarrow> Db" where
  "update_message i f d = d\<lparr>messages := update_where (\<lambda>m. mr_id m = i) f (messages d)\<rparr>"

definition message_event :: "Grant \<Rightarrow> Message \<Rightarrow> nat \<Rightarrow> string list \<Rightarrow> Event" where
  "message_event grant message now sources =
     \<lparr>ev_id = m_id message, ev_scope = g_scope grant, ev_run_id = m_sender message,
      ev_producer = ''communication'', ev_sequence = m_sequence message, ev_kind = ''message_sent'',
      ev_timestamp_ms = to_string now, ev_parents = [], ev_correlation = m_id message,
      ev_artifacts = [],
      ev_payload =
        [(''authority'', JString ''sender-authored message; content is retained in the inbox store''),
         (''message_ref'', JString (m_id message)), (''recipient'', JString (m_recipient message)),
         (''sender'', JString (m_sender message))],
      ev_provenance = \<lparr>pv_origin = Origin.Observed, pv_source_refs = sources,
        pv_scenario_family = ''communication'', pv_split = derived_split (g_visible_splits grant),
        pv_limitations = []\<rparr>\<rparr>"

definition post_message :: "Grant \<Rightarrow> string \<Rightarrow> MessageSend \<Rightarrow> Message store_op" where
  "post_message grant run request =
     bind new_id (\<lambda>i.
     let message = new_message run request i in
     bind (query next_message) (\<lambda>sequence.
     seq (insert_row (\<lambda>d. \<not> exists_where (\<lambda>m. mr_id m = i) (messages d))
            (insert_message (message_row grant run message sequence))) (
     let message = message\<lparr>m_sequence := to_string sequence\<rparr> in
     seq (exec (update_message i (\<lambda>m. m\<lparr>mr_body := Some message\<rparr>))) (
     bind now_ms (\<lambda>now.
     bind (query (run_context_sources run)) (\<lambda>sources.
     bind (ingest (message_event grant message now sources)) (\<lambda>_.
     ret message)))))))"

definition send_message :: "string \<Rightarrow> MessageSend \<Rightarrow> Message store_op" where
  "send_message run request =
     seq (validate ''MessageSend'' (valid_MessageSend request)) (
     transaction (
       bind (require_active run) (\<lambda>grant.
       bind (query_res (run_grant (ms_recipient request))) (\<lambda>recipient.
       seq (need (g_id recipient = g_id grant) (denied ''recipient is outside communication grant'')) (
       bind (query (\<lambda>d. map mr_id (filter (pending_message (g_id grant)) (messages d)))) (\<lambda>ids.
       bind (count_available grant ids) (\<lambda>count.
       seq (need (count < INBOX_CAPACITY) (exhausted ''inbox capacity reached'')) (
       bind (post_message grant run request) commit)))))))) "

definition deliverable :: "string \<Rightarrow> string \<Rightarrow> MessageRow \<Rightarrow> bool" where
  "deliverable run grant_id m \<longleftrightarrow>
     mr_recipient m = run \<and> pending_message grant_id m \<and> mr_attempts m < MAX_DELIVERIES"

definition delivered :: "MessageRow \<Rightarrow> Message \<Rightarrow> Message" where
  "delivered row message =
     message\<lparr>m_sequence := to_string (mr_sequence row), m_attempts := mr_attempts row + 1\<rparr>"

fun inbox_loop :: "Grant \<Rightarrow> MessageRow list \<Rightarrow> Message list \<Rightarrow> Message list store_op" where
  "inbox_loop grant [] batch = ret batch"
| "inbox_loop grant (row # rows) batch =
     bind (source_available grant ''event'' (mr_id row)) (\<lambda>available.
     if \<not> available then inbox_loop grant rows batch
     else
       bind (expect (mr_body row) (invalid ''missing field'')) (\<lambda>message.
       let batch = batch @ [delivered row message] in
       if length batch = INBOX_BATCH then ret batch else inbox_loop grant rows batch))"

definition count_delivery :: "Message \<Rightarrow> Db \<Rightarrow> Db" where
  "count_delivery message =
     update_message (m_id message) (\<lambda>m. m\<lparr>mr_attempts := mr_attempts m + 1\<rparr>)"

definition inbox :: "string \<Rightarrow> Inbox store_op" where
  "inbox run =
     transaction (
       bind (require_active run) (\<lambda>grant.
       bind (query (\<lambda>d. sort_key mr_sequence (filter (deliverable run (g_id grant)) (messages d)))) (\<lambda>rows.
       bind (inbox_loop grant rows []) (\<lambda>batch.
       seq (for_each batch (\<lambda>message. exec (count_delivery message))) (
       commit \<lparr>ib_messages = batch\<rparr>)))))"

definition acknowledge_message :: "string \<Rightarrow> string \<Rightarrow> unit store_op" where
  "acknowledge_message run i =
     bind (query (\<lambda>d. count_where (\<lambda>m. mr_id m = i \<and> mr_recipient m = run) (messages d))) (\<lambda>changed.
     seq (exec (\<lambda>d. d\<lparr>messages := update_where (\<lambda>m. mr_id m = i \<and> mr_recipient m = run)
            (\<lambda>m. m\<lparr>mr_acknowledged := True\<rparr>) (messages d)\<rparr>)) (
     need (changed = 1) (missing ''message not found for recipient'')))"

section \<open>Reading the inbox\<close>

lemma quiet_inbox [quiet_intros]:
  "quiet (count_available grant ids)" "quiet (inbox_loop grant rows batch)"
proof -
  show "quiet (count_available grant ids)"
    unfolding count_available_def by (intro quiet_intros)
  show "quiet (inbox_loop grant rows batch)"
    by (induction grant rows batch rule: inbox_loop.induct)
       (simp_all only: inbox_loop.simps Let_def, (intro quiet_intros; simp)+)
qed

text \<open>A delivered batch is drawn from the rows, one message for each, and is bounded.\<close>

lemma inbox_loop_batch:
  assumes "inbox_loop grant rows batch s = (Inr out, t)" "length batch < INBOX_BATCH"
  shows "\<exists>new. out = batch @ new \<and> length out \<le> INBOX_BATCH \<and>
    (\<forall>m \<in> set new. \<exists>row \<in> set rows. \<exists>b. mr_body row = Some b \<and> m = delivered row b)"
  using assms
proof (induction grant rows batch arbitrary: s rule: inbox_loop.induct)
  case (1 grant batch)
  then show ?case by simp
next
  case (2 grant row rows batch)
  from "2.prems"(1) obtain available u where
    first: "source_available grant ''event'' (mr_id row) s = (Inr available, u)" and
    rest: "(if \<not> available then inbox_loop grant rows batch
       else bind (expect (mr_body row) (invalid ''missing field'')) (\<lambda>message.
         let batch = batch @ [delivered row message] in
         if length batch = INBOX_BATCH then ret batch else inbox_loop grant rows batch)) u = (Inr out, t)"
    by (auto simp: bind_Inr_iff)
  show ?case
  proof (cases available)
    case False
    with rest "2.IH"(1) [of available u] "2.prems"(2) show ?thesis by fastforce
  next
    case True
    with rest obtain b where b: "mr_body row = Some b" and
      next_: "(if length (batch @ [delivered row b]) = INBOX_BATCH then ret (batch @ [delivered row b])
         else inbox_loop grant rows (batch @ [delivered row b])) u = (Inr out, t)"
      by (auto simp: bind_Inr_iff Let_def split: option.splits)
    show ?thesis
    proof (cases "length (batch @ [delivered row b]) = INBOX_BATCH")
      case True
      with next_ b show ?thesis by auto
    next
      case False
      with "2.prems"(2) have "length (batch @ [delivered row b]) < INBOX_BATCH" by simp
      with False next_ "2.IH"(2) [of available "batch @ [delivered row b]" b u] \<open>available\<close>
      obtain new where "out = (batch @ [delivered row b]) @ new" "length out \<le> INBOX_BATCH"
        "\<forall>m \<in> set new. \<exists>row \<in> set rows. \<exists>b. mr_body row = Some b \<and> m = delivered row b"
        by auto
      with b show ?thesis by (intro exI [of _ "delivered row b # new"]) auto
    qed
  qed
qed

end
