(* ===== verification/Rpc.thy ===== *)
theory Rpc
  imports Exports Compaction Communication Execution Runs Parking
begin

text \<open>
  crates/ribosome-core/src/rpc.rs: the frames of the wire and the dispatch of a worker's method calls
  under the grant of its run.

  A call is typed: the decoding of parameters and the encoding of results by their contracts is serde.
  The handlers of search.rs, inventory.rs, experiments.rs and of record submission are the argument
  \<open>others\<close>.
\<close>

section \<open>Frames\<close>

text \<open>
  The reader is the list of what \<open>fill_buf\<close> will return; an empty buffer is the end of the stream.
\<close>

definition newline :: char where
  "newline = CHR 0x0A"

fun position :: "('a \<Rightarrow> bool) \<Rightarrow> 'a list \<Rightarrow> nat option" where
  "position P [] = None"
| "position P (x # xs) = (if P x then Some 0 else map_option Suc (position P xs))"

definition consume :: "nat \<Rightarrow> string \<Rightarrow> string list \<Rightarrow> string list" where
  "consume n buffer rest = (if n < length buffer then drop n buffer # rest else rest)"

definition end_of_stream :: "string \<Rightarrow> (string option \<times> string list) res" where
  "end_of_stream frame = (if frame = [] then Inr (None, []) else Inl (invalid ''interrupted JSON frame''))"

fun frame_loop :: "string \<Rightarrow> string list \<Rightarrow> (string option \<times> string list) res" where
  "frame_loop frame [] = end_of_stream frame"
| "frame_loop frame (buffer # rest) =
     (if buffer = [] then end_of_stream frame
      else
        let found = position (\<lambda>b. b = newline) buffer;
            size = (case found of None \<Rightarrow> length buffer | Some i \<Rightarrow> i + 1)
        in if MAX_FRAME < length frame + size then Inl (invalid ''frame too large'')
           else case found of
               None \<Rightarrow> frame_loop (frame @ take size buffer) rest
             | Some _ \<Rightarrow> Inr (Some (frame @ take size buffer), consume size buffer rest))"

definition envelope_fields :: "json \<Rightarrow> string list" where
  "envelope_fields v =
     (if has_member v ''method'' then [''jsonrpc'', ''id'', ''method'', ''params'']
      else [''jsonrpc'', ''id'', ''result'', ''error''])"

definition check_envelope :: "json \<Rightarrow> unit res" where
  "check_envelope v =
     and_then (ok_or (as_object v) (invalid ''invalid JSON-RPC envelope'')) (\<lambda>object.
     and_then (guard (json_get v ''jsonrpc'' = JString ''2.0'' \<and> as_str (json_get v ''id'') \<noteq> None)
       (invalid ''JSON-RPC 2.0 and string id required'')) (\<lambda>_.
     and_then (guard (list_all (\<lambda>(k, _). k \<in> set (envelope_fields v)) object)
       (invalid ''unknown envelope field'')) (\<lambda>_.
     guard (has_member v ''method'' \<or> has_member v ''result'' \<noteq> has_member v ''error'')
       (invalid ''response requires exactly one result or error''))))"

definition read_frame ::
    "(string \<Rightarrow> json res) \<Rightarrow> string list \<Rightarrow> (json option \<times> string list) res" where
  "read_frame parse buffers =
     and_then (frame_loop [] buffers) (\<lambda>(frame, rest).
     case frame of
       None \<Rightarrow> Inr (None, rest)
     | Some bytes \<Rightarrow>
         (case parse bytes of
            Inl _ \<Rightarrow> Inl \<lparr>e_code = -32700, e_message = ''invalid UTF-8 JSON frame''\<rparr>
          | Inr v \<Rightarrow> and_then (check_envelope v) (\<lambda>_. Inr (Some v, rest))))"

text \<open>The reference: the first line of the whole stream, if it is short enough.\<close>

definition first_line :: "string \<Rightarrow> (string option \<times> string) res" where
  "first_line stream =
     (case position (\<lambda>b. b = newline) stream of
        Some i \<Rightarrow>
          if MAX_FRAME < i + 1 then Inl (invalid ''frame too large'')
          else Inr (Some (take (i + 1) stream), drop (i + 1) stream)
      | None \<Rightarrow>
          if MAX_FRAME < length stream then Inl (invalid ''frame too large'')
          else if stream = [] then Inr (None, [])
          else Inl (invalid ''interrupted JSON frame''))"

section \<open>Calls\<close>

datatype ('q, 'r) tool_request =
    InvocationRead
  | ContinuationPages ContinuationRead
  | EvidenceCorpus
  | ToolCalled ToolCall
  | ToolResult string
  | CompactionPrepare
  | CompactionRead string
  | CompactionSubmit CompactionCommit
  | SummaryRead string
  | ContextAuthorize
  | ContextAppended ContextAppend
  | ContextPages ContextRead
  | SessionGrant
  | BudgetOverview
  | ModelDispatch string
  | ModelRelease string
  | PermitLookup string
  | EvidencePages EvidenceRequest
  | RecordRead string
  | ArtifactWindow ArtifactRead
  | ActionExecute Action
  | ActionLookup string
  | ArtifactChecks ArtifactValidityRequest
  | RecordRetire RetireRequest
  | WorkWait WorkWaitRequest
  | WorkOverview string
  | WorkRequested WorkRequest
  | SessionCheckpoint Checkpoint
  | SessionEvents AgentActivityBatch
  | ModelPermit PermitRequest
  | ModelUsage Usage
  | MessageSent MessageSend
  | MessageInbox
  | MessageAck string
  | TrainingExport ExportRequest
  | Other string 'q

datatype ('q, 'r) tool_reply =
    Ok
  | Material InvocationMaterial
  | Continued ContinuationPage
  | Corpus DiscoveryCorpus
  | Observed ToolObservation
  | Prepared CompactionPreparation
  | Input CompactionInput
  | Summary ContextSummary
  | Context ContextState
  | Messages ContextPage
  | Granted Grant
  | Budgeted BudgetStatus
  | Permitted Permit
  | Evidence EvidencePage
  | RecordReply RecordEnvelope
  | Chunk ArtifactChunk
  | Receipt ActionReceipt
  | Validity ArtifactValidity
  | Waiting WorkWaitResult
  | StatusReply WorkStatus
  | Item WorkItem
  | Sent Message
  | InboxReply Inbox
  | Exported ExportResult
  | OtherReply 'r

fun request_method :: "('q, 'r) tool_request \<Rightarrow> string" where
  "request_method InvocationRead = ''invocation.read''"
| "request_method (ContinuationPages _) = ''continuation.read''"
| "request_method EvidenceCorpus = ''evidence.corpus''"
| "request_method (ToolCalled _) = ''tool.call''"
| "request_method (ToolResult _) = ''tool.result''"
| "request_method CompactionPrepare = ''session.compaction.prepare''"
| "request_method (CompactionRead _) = ''session.compaction.read''"
| "request_method (CompactionSubmit _) = ''session.compaction.commit''"
| "request_method (SummaryRead _) = ''session.summary''"
| "request_method ContextAuthorize = ''session.context''"
| "request_method (ContextAppended _) = ''session.context.append''"
| "request_method (ContextPages _) = ''session.context.read''"
| "request_method SessionGrant = ''session.grant''"
| "request_method BudgetOverview = ''budget.status''"
| "request_method (ModelDispatch _) = ''model.dispatch''"
| "request_method (ModelRelease _) = ''model.release''"
| "request_method (PermitLookup _) = ''model.permit.lookup''"
| "request_method (EvidencePages _) = ''evidence.read''"
| "request_method (RecordRead _) = ''record.read''"
| "request_method (ArtifactWindow _) = ''artifact.read''"
| "request_method (ActionExecute _) = ''action.execute''"
| "request_method (ActionLookup _) = ''action.lookup''"
| "request_method (ArtifactChecks _) = ''artifact.validity''"
| "request_method (RecordRetire _) = ''record.retire''"
| "request_method (WorkWait _) = ''work.wait''"
| "request_method (WorkOverview _) = ''work.status''"
| "request_method (WorkRequested _) = ''work.request''"
| "request_method (SessionCheckpoint _) = ''session.checkpoint''"
| "request_method (SessionEvents _) = ''session.events''"
| "request_method (ModelPermit _) = ''model.permit''"
| "request_method (ModelUsage _) = ''model.usage''"
| "request_method (MessageSent _) = ''message.send''"
| "request_method MessageInbox = ''message.inbox''"
| "request_method (MessageAck _) = ''message.ack''"
| "request_method (TrainingExport _) = ''training.export''"
| "request_method (Other m _) = m"

section \<open>The gates of a call\<close>

definition settling :: "string \<Rightarrow> bool" where
  "settling m \<longleftrightarrow> m \<in> set [''model.usage'', ''model.release'', ''model.permit.lookup'', ''budget.status'',
     ''session.compaction.commit'', ''session.context.append'', ''session.checkpoint'',
     ''session.events'', ''action.lookup'']"

definition outside_discovery :: "string \<Rightarrow> bool" where
  "outside_discovery m \<longleftrightarrow> m \<in> set [''action.execute'', ''record.retire'', ''message.ack'',
     ''artifact.validity'', ''experiment.run'', ''inventory.admission_request'', ''training.export'',
     ''message.send'', ''message.inbox'']"

definition refreshing :: "string \<Rightarrow> bool" where
  "refreshing m \<longleftrightarrow> m \<in> set [''session.context'', ''session.compaction.prepare'',
     ''session.compaction.read'', ''session.compaction.commit'', ''session.summary'', ''model.permit'',
     ''model.dispatch'', ''session.context.read'', ''artifact.read'', ''artifact.validity'',
     ''record.read'', ''record.submit'', ''search.query'', ''evidence.read'', ''continuation.read'',
     ''inventory.archive'', ''message.inbox'', ''message.send'', ''training.export'']"

definition outside_prepared :: "string \<Rightarrow> bool" where
  "outside_prepared m \<longleftrightarrow> m \<in> set [''message.inbox'', ''message.send'', ''training.export'',
     ''evidence.corpus'', ''experiment.run'']"

definition call_gate :: "string \<Rightarrow> string \<Rightarrow> Grant store_op" where
  "call_gate run m =
     bind (if settling m then query_res (run_grant run) else require_active run) (\<lambda>grant.
     bind (cancellation run) (\<lambda>cancelled.
     seq (need (\<not> (cancelled \<and> \<not> settling m)) (denied ''run cancelled'')) (
     seq (need (\<not> (g_discovery_corpus grant \<noteq> None \<and> outside_discovery m))
       (denied ''assigned discovery uses frozen evidence; this operation requires separate host-authorized work'')) (
     seq (if refreshing m then refresh_artifact_sources grant else skip) (
     seq (need (\<not> (g_prepared_run grant \<noteq> None \<and> outside_prepared m))
       (denied ''prepared reuse requires separate host-scoped investigation for this operation''))
         (ret grant))))))"

section \<open>Dispatch\<close>

definition bound_evidence :: "string \<Rightarrow> EvidenceRequest \<Rightarrow> Db \<Rightarrow> EvidenceRequest res" where
  "bound_evidence run q d =
     and_then (run_attachment run d) (\<lambda>attached.
     case attached of
       None \<Rightarrow> Inr q
     | Some a \<Rightarrow>
         if erq_run_id q \<noteq> None \<and> erq_run_id q \<noteq> Some (at_execution_id a)
         then Inl (denied ''evidence belongs to a different attached execution'')
         else Inr (q\<lparr>erq_run_id := Some (at_execution_id a)\<rparr>))"

definition read_artifact :: "Grant \<Rightarrow> ArtifactRead \<Rightarrow> ArtifactChunk store_op" where
  "read_artifact grant q =
     (if strip_prefix RESULT_PREFIX (ard_path q) \<noteq> None then read_result_artifact grant q
      else if strip_prefix EXPORT_PREFIX (ard_path q) \<noteq> None then read_export_artifact grant q
      else read_artifact_context grant q)"

definition reply :: "('a \<Rightarrow> ('q, 'r) tool_reply) \<Rightarrow> 'a store_op \<Rightarrow> ('q, 'r) tool_reply store_op" where
  "reply f m = bind m (\<lambda>x. ret (f x))"

definition done_reply :: "unit store_op \<Rightarrow> ('q, 'r) tool_reply store_op" where
  "done_reply m = seq m (ret Ok)"

definition not_available :: Error where
  "not_available = \<lparr>e_code = -32601, e_message = ''method not available to this worker''\<rparr>"

definition no_corpus :: Error where
  "no_corpus = missing ''run has no host-assigned discovery corpus''"

text \<open>The handlers behind the gates; \<open>observe\<close> is the handler of \<open>tool.call\<close>.\<close>

fun answer ::
    "(Grant \<Rightarrow> string \<Rightarrow> string \<Rightarrow> 'q \<Rightarrow> 'r store_op) \<Rightarrow> (ToolCall \<Rightarrow> ToolObservation store_op) \<Rightarrow>
     string \<Rightarrow> Grant \<Rightarrow> ('q, 'r) tool_request \<Rightarrow> ('q, 'r) tool_reply store_op" where
  "answer others observe run grant InvocationRead = reply Material (invocation_material run grant)"
| "answer others observe run grant (ContinuationPages q) = reply Continued (continuation run q)"
| "answer others observe run grant EvidenceCorpus =
     bind (expect (g_discovery_corpus grant) no_corpus) (\<lambda>reference.
     reply Corpus (query_res (discovery_corpus grant reference)))"
| "answer others observe run grant (ToolCalled q) = reply Observed (observe q)"
| "answer others observe run grant (ToolResult i) = reply Observed (retained_tool run i)"
| "answer others observe run grant CompactionPrepare = reply Prepared (prepare_compaction run)"
| "answer others observe run grant (CompactionRead i) = reply Input (read_compaction run i)"
| "answer others observe run grant (CompactionSubmit q) = reply Summary (commit_compaction run q)"
| "answer others observe run grant (SummaryRead i) = reply Summary (read_summary run i)"
| "answer others observe run grant ContextAuthorize = reply Context (authorize_context run)"
| "answer others observe run grant (ContextAppended q) = reply Context (append_context run q)"
| "answer others observe run grant (ContextPages q) = reply Messages (read_context run q)"
| "answer others observe run grant SessionGrant = ret (Granted grant)"
| "answer others observe run grant BudgetOverview = reply Budgeted (run_budget_status run)"
| "answer others observe run grant (ModelDispatch i) = done_reply (dispatch_permit run i)"
| "answer others observe run grant (ModelRelease i) = done_reply (release_permit run i)"
| "answer others observe run grant (PermitLookup i) = reply Permitted (query_res (lookup_permit run i))"
| "answer others observe run grant (EvidencePages q) =
     bind (query_res (bound_evidence run q)) (\<lambda>bound.
     reply Evidence (evidence_excluding_activity grant bound (Some run)))"
| "answer others observe run grant (RecordRead i) = reply RecordReply (read_record grant i)"
| "answer others observe run grant (ArtifactWindow q) = reply Chunk (read_artifact grant q)"
| "answer others observe run grant (ActionExecute action) = reply Receipt (execute run action)"
| "answer others observe run grant (ActionLookup i) = reply Receipt (lookup run i)"
| "answer others observe run grant (ArtifactChecks q) = reply Validity (artifact_validity grant q)"
| "answer others observe run grant (RecordRetire q) = done_reply (retire grant q)"
| "answer others observe run grant (WorkWait q) = reply Waiting (wait_for_work run q)"
| "answer others observe run grant (WorkOverview i) = reply StatusReply (work_status run i)"
| "answer others observe run grant (WorkRequested q) = reply Item (request_work run q)"
| "answer others observe run grant (SessionCheckpoint c) = done_reply (save_checkpoint run c)"
| "answer others observe run grant (SessionEvents batch) = done_reply (append_agent_activity run batch)"
| "answer others observe run grant (ModelPermit q) = reply Permitted (permit run q)"
| "answer others observe run grant (ModelUsage u) = done_reply (usage run u)"
| "answer others observe run grant (MessageSent q) = reply Sent (send_message run q)"
| "answer others observe run grant MessageInbox = reply InboxReply (inbox run)"
| "answer others observe run grant (MessageAck i) = done_reply (acknowledge_message run i)"
| "answer others observe run grant (TrainingExport q) = reply Exported (export_training run q)"
| "answer others observe run grant (Other m q) =
     (if m \<in> set [''search.query'', ''inventory.archive'', ''record.submit'', ''experiment.run'',
          ''inventory.admission_request'']
      then reply OtherReply (others grant run m q) else throw not_available)"

declare answer.simps [simp del]

text \<open>The input contract of a method. The other methods' are checked by their handlers.\<close>

fun input_contract :: "('q, 'r) tool_request \<Rightarrow> string \<times> bool" where
  "input_contract (ContinuationPages q) = (''ContinuationRead'', valid_ContinuationRead q)"
| "input_contract (ToolCalled q) = (''ToolCall'', valid_ToolCall q)"
| "input_contract (ToolResult i) = (''IdRequest'', valid_IdRequest i)"
| "input_contract (CompactionRead i) = (''IdRequest'', valid_IdRequest i)"
| "input_contract (CompactionSubmit q) = (''CompactionCommit'', valid_CompactionCommit q)"
| "input_contract (SummaryRead i) = (''IdRequest'', valid_IdRequest i)"
| "input_contract (ContextAppended q) = (''ContextAppend'', valid_ContextAppend q)"
| "input_contract (ContextPages q) = (''ContextRead'', valid_ContextRead q)"
| "input_contract (ModelDispatch i) = (''IdRequest'', valid_IdRequest i)"
| "input_contract (ModelRelease i) = (''IdRequest'', valid_IdRequest i)"
| "input_contract (PermitLookup i) = (''IdRequest'', valid_IdRequest i)"
| "input_contract (EvidencePages q) = (''EvidenceRequest'', valid_EvidenceRequest q)"
| "input_contract (RecordRead i) = (''IdRequest'', valid_IdRequest i)"
| "input_contract (ArtifactWindow q) = (''ArtifactRead'', valid_ArtifactRead q)"
| "input_contract (ActionExecute action) = (''Action'', valid_Action action)"
| "input_contract (ActionLookup i) = (''IdRequest'', valid_IdRequest i)"
| "input_contract (ArtifactChecks q) = (''ArtifactValidityRequest'', valid_ArtifactValidityRequest q)"
| "input_contract (RecordRetire q) = (''RetireRequest'', valid_RetireRequest q)"
| "input_contract (WorkWait q) = (''WorkWaitRequest'', valid_WorkWaitRequest q)"
| "input_contract (WorkOverview i) = (''IdRequest'', valid_IdRequest i)"
| "input_contract (WorkRequested q) = (''WorkRequest'', valid_WorkRequest q)"
| "input_contract (SessionCheckpoint c) = (''Checkpoint'', valid_Checkpoint c)"
| "input_contract (SessionEvents batch) = (''AgentActivityBatch'', valid_AgentActivityBatch batch)"
| "input_contract (ModelPermit q) = (''PermitRequest'', valid_PermitRequest q)"
| "input_contract (ModelUsage u) = (''Usage'', valid_Usage u)"
| "input_contract (MessageSent q) = (''MessageSend'', valid_MessageSend q)"
| "input_contract (MessageAck i) = (''IdRequest'', valid_IdRequest i)"
| "input_contract (TrainingExport q) = (''ExportRequest'', valid_ExportRequest q)"
| "input_contract _ = (''Empty'', True)"

definition gated ::
    "(Grant \<Rightarrow> string \<Rightarrow> string \<Rightarrow> 'q \<Rightarrow> 'r store_op) \<Rightarrow> (ToolCall \<Rightarrow> ToolObservation store_op) \<Rightarrow>
     string \<Rightarrow> ('q, 'r) tool_request \<Rightarrow> ('q, 'r) tool_reply store_op" where
  "gated others observe run q =
     seq (case input_contract q of (name, ok) \<Rightarrow> validate name ok) (
     bind (call_gate run (request_method q)) (\<lambda>grant. answer others observe run grant q))"

text \<open>
  A tool call names one of the other methods; its arguments are decoded and its result is encoded, by
  \<open>decode\<close> and \<open>encode\<close>, and the named method passes the gates again. The methods a tool call
  may name do not include \<open>tool.call\<close>.
\<close>

definition tool_call ::
    "(Grant \<Rightarrow> string \<Rightarrow> string \<Rightarrow> 'q \<Rightarrow> 'r store_op) \<Rightarrow>
     (ToolCallMethod \<Rightarrow> json_map \<Rightarrow> ('q, 'r) tool_request res) \<Rightarrow> (('q, 'r) tool_reply \<Rightarrow> json) \<Rightarrow>
     string \<Rightarrow> ('q, 'r) tool_request \<Rightarrow> ('q, 'r) tool_reply store_op" where
  "tool_call others decode encode run q =
     gated others (observe_tool (\<lambda>run method arguments.
         bind (lift (decode method arguments)) (\<lambda>inner.
         bind (gated others (\<lambda>_. throw not_available) run inner) (\<lambda>outcome.
         ret (encode outcome)))) run) run q"

section \<open>A frame is the first line of the stream\<close>

lemma position_append:
  "position P (xs @ ys) = (case position P xs of
     Some i \<Rightarrow> Some i | None \<Rightarrow> map_option (\<lambda>i. length xs + i) (position P ys))"
proof (induction xs)
  case Nil
  show ?case by (cases "position P ys") auto
next
  case (Cons x xs)
  then show ?case by (cases "position P ys") (auto split: option.splits)
qed

lemma position_less: "position P xs = Some i \<Longrightarrow> i < length xs"
  by (induction xs arbitrary: i) (auto split: if_splits)

lemma concat_consume: "n \<le> length b \<Longrightarrow> concat (consume n b rest) = drop n b @ concat rest"
  by (auto simp: consume_def)

lemma frame_loop_first_line:
  assumes "list_all (\<lambda>b. b \<noteq> []) buffers" "position (\<lambda>b. b = newline) frame = None"
    "length frame \<le> MAX_FRAME"
  shows "and_then (frame_loop frame buffers) (\<lambda>(f, rest). Inr (f, concat rest)) =
    first_line (frame @ concat buffers)"
  using assms
proof (induction buffers arbitrary: frame)
  case Nil
  then show ?case by (simp add: end_of_stream_def first_line_def)
next
  case (Cons b rest)
  show ?case
  proof (cases "position (\<lambda>b. b = newline) b")
    case None
    show ?thesis
    proof (cases "MAX_FRAME < length frame + length b")
      case True
      with None Cons.prems show ?thesis
        by (auto simp: first_line_def position_append split: option.splits)
    next
      case False
      with None Cons.prems Cons.IH [of "frame @ b"] show ?thesis
        by (simp add: position_append)
    qed
  next
    case (Some i)
    from position_less [OF Some] have "i + 1 \<le> length b" by simp
    with Some Cons.prems show ?thesis
      by (simp add: first_line_def position_append concat_consume)
  qed
qed

section \<open>What passed the gates\<close>

lemma call_gate_Inr:
  assumes "call_gate run m s = (Inr grant, t)"
  shows "run_grant run (store_db s) = Inr grant"
    "settling m \<or> (\<exists>s' u. require_active run s = (Inr grant, s') \<and> cancellation run s' = (Inr False, u))"
    "g_discovery_corpus grant \<noteq> None \<Longrightarrow> \<not> outside_discovery m"
    "g_prepared_run grant \<noteq> None \<Longrightarrow> \<not> outside_prepared m"
  using assms unfolding call_gate_def
  by (auto simp: bind_Inr_iff seq_Inr_iff need_def throw_def ret_def split: if_splits
      dest: require_active_grant)

end
