(* ===== verification/Invalidation.thy ===== *)
theory Invalidation
  imports Evidence
begin

text \<open>
  The invalidation closure of Evidence computes the transitive dependents of an artifact, exactly,
  because the capacity check of \<open>add_dependency\<close> keeps a scope's graph within the bound of the
  traversal. Invalidation generations only grow.
\<close>

section \<open>Specification\<close>

inductive affected :: "Scope \<Rightarrow> Db \<Rightarrow> string \<Rightarrow> string \<Rightarrow> bool" for scope d path where
  direct: "q \<in> set (dependents_of scope d path) \<Longrightarrow> affected scope d path q"
| indirect: "affected scope d path p \<Longrightarrow> q \<in> set (dependents_of scope d p) \<Longrightarrow> affected scope d path q"

definition within_capacity :: "Db \<Rightarrow> bool" where
  "within_capacity d \<longleftrightarrow> (\<forall>scope. length (filter (of_scope scope) (dependencies d)) \<le> 1000)"

section \<open>The traversal\<close>

lemma affected_loop_props:
  assumes "distinct (out @ queue)" "\<forall>p \<in> set out. set (next p) \<subseteq> set out \<union> set queue"
    "length out \<le> 1000"
  shows "distinct (affected_loop next out queue) \<and> length (affected_loop next out queue) \<le> 1000 \<and>
    set out \<subseteq> set (affected_loop next out queue) \<and>
    (length (affected_loop next out queue) < 1000 \<longrightarrow>
       set queue \<subseteq> set (affected_loop next out queue) \<and>
       (\<forall>p \<in> set (affected_loop next out queue). set (next p) \<subseteq> set (affected_loop next out queue)))"
  using assms
proof (induction "next" out queue rule: affected_loop.induct)
  case (1 "next" out)
  then show ?case by auto
next
  case (2 "next" out p queue)
  show ?case
  proof (cases "1000 \<le> length out")
    case True
    with 2(2,4) show ?thesis by auto
  next
    case False
    let ?new = "filter (\<lambda>q. q \<notin> set (out @ p # queue)) (remdups (next p))"
    have "distinct ((out @ [p]) @ queue @ ?new)" using 2(2) by auto
    moreover have "\<forall>x \<in> set (out @ [p]). set (next x) \<subseteq> set (out @ [p]) \<union> set (queue @ ?new)"
      using 2(3) by auto
    moreover have "length (out @ [p]) \<le> 1000" using False by simp
    ultimately show ?thesis using 2(1) [OF False] False by auto
  qed
qed

lemma affected_loop_subset:
  assumes "set out \<union> set queue \<subseteq> S" "\<And>p. p \<in> S \<Longrightarrow> set (next p) \<subseteq> S"
  shows "set (affected_loop next out queue) \<subseteq> S"
  using assms
proof (induction "next" out queue rule: affected_loop.induct)
  case (1 "next" out)
  then show ?case by simp
next
  case (2 "next" out p queue)
  have "set (affected_loop next (out @ [p])
      (queue @ filter (\<lambda>q. q \<notin> set (out @ p # queue)) (remdups (next p)))) \<subseteq> S"
    if "\<not> 1000 \<le> length out"
    using 2(1) [OF that] 2(2,3) by auto
  with 2(2) show ?case by auto
qed

lemma affected_dependent:
  "affected scope d path q \<Longrightarrow> q \<in> dr_dependent ` set (filter (of_scope scope) (dependencies d))"
  by (induction rule: affected.induct) (auto simp: dependents_of_def)

lemma affected_paths_props:
  "distinct (affected_paths scope path d)" "length (affected_paths scope path d) \<le> 1000"
  "set (affected_paths scope path d) \<subseteq> {q. affected scope d path q}"
  unfolding affected_paths_def
  using affected_loop_props [of "[]" "remdups (dependents_of scope d path)" "dependents_of scope d"]
  by (simp, simp) (rule affected_loop_subset; auto intro: affected.intros)

lemma affected_paths_exact:
  assumes "length (filter (of_scope scope) (dependencies d)) \<le> 1000"
  shows "set (affected_paths scope path d) = {q. affected scope d path q}"
proof
  show "set (affected_paths scope path d) \<subseteq> {q. affected scope d path q}" by (rule affected_paths_props)
  let ?r = "affected_paths scope path d"
  let ?D = "dr_dependent ` set (filter (of_scope scope) (dependencies d))"
  show "{q. affected scope d path q} \<subseteq> set ?r"
  proof (cases "length ?r < 1000")
    case True
    have closed: "set (remdups (dependents_of scope d path)) \<subseteq> set ?r \<and>
        (\<forall>p \<in> set ?r. set (dependents_of scope d p) \<subseteq> set ?r)"
      using True affected_loop_props [of "[]" "remdups (dependents_of scope d path)" "dependents_of scope d"]
      by (simp add: affected_paths_def)
    have "q \<in> set ?r" if "affected scope d path q" for q
      using that by induction (use closed in auto)
    then show ?thesis by blast
  next
    case False
    with affected_paths_props(1,2) [of scope path d] have "card (set ?r) = 1000"
      by (simp add: distinct_card)
    moreover have "card ?D \<le> 1000"
      using assms card_image_le [of "set (filter (of_scope scope) (dependencies d))" dr_dependent]
        card_length [of "filter (of_scope scope) (dependencies d)"]
      by (metis List.finite_set le_trans)
    moreover have "set ?r \<subseteq> ?D"
      using affected_paths_props(3) [of scope path d] affected_dependent by blast
    ultimately have "set ?r = ?D" by (intro card_seteq) auto
    then show ?thesis using affected_dependent by blast
  qed
qed

section \<open>The capacity\<close>

lemma of_scope_key: "dependency_key scope x r \<Longrightarrow> of_scope scope r"
  by (simp add: dependency_key_def)

lemma upsert_capacity:
  assumes "length (filter (\<lambda>r. of_scope scope r \<and> \<not> dependency_key scope x r) rows) < 1000"
    and "length (filter (of_scope sc) rows) \<le> 1000" and "of_scope scope row"
  shows "length (filter (of_scope sc) (upsert (dependency_key scope x)
    (\<lambda>r. r\<lparr>dr_body := x\<rparr>) row rows)) \<le> 1000"
proof (cases "exists_where (dependency_key scope x) rows")
  case True
  have "length (filter (of_scope sc) (update_where (dependency_key scope x) (\<lambda>r. r\<lparr>dr_body := x\<rparr>) rows)) =
      length (filter (of_scope sc) rows)"
    using count_update_where [of "dependency_key scope x" "of_scope sc" "\<lambda>r. r\<lparr>dr_body := x\<rparr>" rows]
    by (simp add: count_where_def of_scope_def)
  with True assms(2) show ?thesis by (simp add: upsert_def)
next
  case False
  then have none: "filter (\<lambda>r. of_scope scope r \<and> \<not> dependency_key scope x r) rows =
      filter (of_scope scope) rows"
    by (intro filter_cong) auto
  have "length (filter (of_scope sc) (rows @ [row])) \<le> 1000"
  proof (cases "of_scope sc row")
    case True
    then have "of_scope sc = of_scope scope" using assms(3) by (auto simp: of_scope_def fun_eq_iff)
    with assms(1) none show ?thesis by simp
  next
    case False
    with assms(2) show ?thesis by simp
  qed
  with False show ?thesis by (simp add: upsert_def del: exists_where_iff)
qed

lemma add_dependency_capacity: "preserves (db_inv within_capacity) (add_dependency scope x)"
proof (rule preservesI)
  fix s r t
  assume inv: "db_inv within_capacity s" and run: "add_dependency scope x s = (r, t)"
  let ?row = "\<lparr>dr_client = sc_client scope, dr_project = sc_project scope,
    dr_source = ar_path (dep_source x), dr_dependent = ar_path (dep_dependent x), dr_body = x\<rparr>"
  from run have "dependencies (store_db t) = dependencies (store_db s) \<or>
     length (filter (\<lambda>r. of_scope scope r \<and> \<not> dependency_key scope x r) (dependencies (store_db s))) < 1000 \<and>
     dependencies (store_db t) = upsert (dependency_key scope x) (\<lambda>r. r\<lparr>dr_body := x\<rparr>) ?row
       (dependencies (store_db s))"
    by (auto simp: add_dependency_def transaction_def seq_def bind_def need_def validate_def commit_def
        ask_def not_le split: if_splits)
  then show "db_inv within_capacity t"
  proof (elim disjE conjE)
    assume "dependencies (store_db t) = dependencies (store_db s)"
    with inv show ?thesis by (simp add: db_inv_def within_capacity_def)
  next
    assume small: "length (filter (\<lambda>r. of_scope scope r \<and> \<not> dependency_key scope x r)
        (dependencies (store_db s))) < 1000"
      and t: "dependencies (store_db t) = upsert (dependency_key scope x) (\<lambda>r. r\<lparr>dr_body := x\<rparr>) ?row
        (dependencies (store_db s))"
    have "of_scope scope ?row" by (simp add: of_scope_def)
    with small inv show ?thesis
      unfolding db_inv_def within_capacity_def t by (blast intro: upsert_capacity)
  qed
qed

section \<open>Generations\<close>

definition generation_of :: "Scope \<Rightarrow> string \<Rightarrow> PathGeneration list \<Rightarrow> nat" where
  "generation_of scope path rows =
     (case List.find (path_key scope path) rows of None \<Rightarrow> 0 | Some g \<Rightarrow> pg_generation g)"

lemma artifact_generation_eq:
  "artifact_invalidation_generation scope path d =
     generation_of scope path (artifact_invalidation_generations d)"
  by (simp add: artifact_invalidation_generation_def generation_of_def)

lemma generation_of_put:
  "generation_of sc q (put_generation scope path n rows) =
     (if sc_client sc = sc_client scope \<and> sc_project sc = sc_project scope \<and> q = path then n
      else generation_of sc q rows)"
proof (cases "sc_client sc = sc_client scope \<and> sc_project sc = sc_project scope \<and> q = path")
  case True
  then have key: "path_key sc q = path_key scope path" by (simp add: path_key_def fun_eq_iff)
  have "List.find (path_key scope path) (put_generation scope path n rows) =
      Some (case List.find (path_key scope path) rows of
        None \<Rightarrow> \<lparr>pg_client = sc_client scope, pg_project = sc_project scope, pg_path = path,
          pg_generation = n\<rparr>
      | Some g \<Rightarrow> g\<lparr>pg_generation := n\<rparr>)"
    unfolding put_generation_def by (rule upsert_find) (auto simp: path_key_def)
  with True key show ?thesis by (simp add: generation_of_def split: option.splits)
next
  case False
  then have "List.find (path_key sc q) (put_generation scope path n rows) = List.find (path_key sc q) rows"
    unfolding put_generation_def by (intro upsert_find_other) (auto simp: path_key_def)
  with False show ?thesis by (auto simp: generation_of_def)
qed

lemma validity_generation_tick:
  "validity_generation sc (tick_validity scope d) =
     (if sc_client sc = sc_client scope \<and> sc_project sc = sc_project scope
      then Suc (validity_generation sc d) else validity_generation sc d)"
proof -
  let ?P = "\<lambda>scope g. sg_client g = sc_client scope \<and> sg_project g = sc_project scope"
  let ?r = "\<lparr>sg_client = sc_client scope, sg_project = sc_project scope, sg_generation = 1\<rparr>"
  let ?u = "upsert (?P scope) (\<lambda>g. g\<lparr>sg_generation := sg_generation g + 1\<rparr>) ?r (validity_clock d)"
  show ?thesis
  proof (cases "sc_client sc = sc_client scope \<and> sc_project sc = sc_project scope")
    case True
    have "List.find (?P scope) ?u = Some (case List.find (?P scope) (validity_clock d) of
        None \<Rightarrow> ?r | Some g \<Rightarrow> g\<lparr>sg_generation := sg_generation g + 1\<rparr>)"
      by (rule upsert_find) auto
    with True show ?thesis
      by (simp add: validity_generation_def tick_validity_def split: option.splits)
  next
    case False
    have "List.find (?P sc) ?u = List.find (?P sc) (validity_clock d)"
      by (rule upsert_find_other) (use False in auto)
    with False show ?thesis by (auto simp: validity_generation_def tick_validity_def)
  qed
qed

text \<open>Every recorded generation is in the past of its scope's clock.\<close>

definition behind :: "Scope \<Rightarrow> string \<Rightarrow> nat \<Rightarrow> PathGeneration list \<Rightarrow> bool" where
  "behind scope path n rows \<longleftrightarrow> (\<forall>g \<in> set rows. path_key scope path g \<longrightarrow> pg_generation g \<le> n)"

definition generations_ok :: "Db \<Rightarrow> bool" where
  "generations_ok d \<longleftrightarrow> (\<forall>scope path.
     artifact_invalidation_generation scope path d \<le> validity_generation scope d \<and>
     behind scope path (validity_generation scope d) (invalidated d))"

lemma behind_put:
  assumes "behind sc q m rows"
    and "sc_client sc = sc_client scope \<Longrightarrow> sc_project sc = sc_project scope \<Longrightarrow> q = path \<Longrightarrow> n \<le> m"
  shows "behind sc q m (put_generation scope path n rows)"
  using assms by (auto simp: behind_def put_generation_def upsert_def set_update_where path_key_def)

definition mark_all :: "Scope \<Rightarrow> nat \<Rightarrow> string list \<Rightarrow> Db \<Rightarrow> Db" where
  "mark_all scope n paths d = fold (mark_invalid scope n) paths d"

lemma for_each_exec:
  "for_each xs (\<lambda>x. exec (f x)) s = (Inr (), s\<lparr>store_db := fold f xs (store_db s)\<rparr>)"
  by (induction xs arbitrary: s) (auto simp: seq_def bind_def)

lemma mark_all_frame [simp]:
  "validity_generation sc (mark_all scope n paths d) = validity_generation sc d"
  "dependencies (mark_all scope n paths d) = dependencies d"
proof -
  have "validity_clock (mark_all scope n paths d) = validity_clock d \<and>
      dependencies (mark_all scope n paths d) = dependencies d"
    unfolding mark_all_def by (induction paths arbitrary: d) (auto simp: mark_invalid_def)
  then show "validity_generation sc (mark_all scope n paths d) = validity_generation sc d"
    "dependencies (mark_all scope n paths d) = dependencies d"
    by (simp_all add: validity_generation_def)
qed

lemma mark_all_generation:
  "artifact_invalidation_generation sc q (mark_all scope n paths d) =
     (if sc_client sc = sc_client scope \<and> sc_project sc = sc_project scope \<and> q \<in> set paths then n
      else artifact_invalidation_generation sc q d)"
  "generation_of sc q (invalidated (mark_all scope n paths d)) =
     (if sc_client sc = sc_client scope \<and> sc_project sc = sc_project scope \<and> q \<in> set paths then n
      else generation_of sc q (invalidated d))"
  unfolding mark_all_def artifact_generation_eq
  by (induction paths arbitrary: d) (auto simp: mark_invalid_def generation_of_put)

lemma mark_all_behind:
  assumes "behind sc q m (invalidated d)"
    and "sc_client sc = sc_client scope \<Longrightarrow> sc_project sc = sc_project scope \<Longrightarrow> q \<in> set paths \<Longrightarrow> n \<le> m"
  shows "behind sc q m (invalidated (mark_all scope n paths d))"
  using assms
proof (induction paths arbitrary: d)
  case (Cons path paths)
  have "behind sc q m (invalidated (mark_invalid scope n path d))"
    using Cons.prems by (auto simp: mark_invalid_def intro!: behind_put)
  with Cons show ?case by (simp add: mark_all_def)
qed (simp add: mark_all_def)

text \<open>The step both entry points take.\<close>

definition invalidate_step :: "Scope \<Rightarrow> string \<Rightarrow> Db \<Rightarrow> string list \<times> Db" where
  "invalidate_step scope path d =
     (let d1 = tick_validity scope d; paths = affected_paths scope path d1
      in (paths, mark_all scope (validity_generation scope d1) paths d1))"

lemma joined_value:
  assumes "\<And>s. m s = (Inr (f (store_db s)), s\<lparr>store_db := g (store_db s)\<rparr>)"
  shows "joined_transaction m s = (Inr (f (store_db s)), s\<lparr>store_db := g (store_db s)\<rparr>)"
proof (cases "store_in_tx s")
  case False
  have "s\<lparr>store_in_tx := True, store_db := d, store_in_tx := False\<rparr> = s\<lparr>store_db := d\<rparr>" for d
    using False by (cases s) simp
  with False assms show ?thesis
    by (simp add: joined_transaction_def transaction_def bind_def commit_def)
qed (simp add: assms)

lemma invalidate_dependents_run:
  "invalidate_dependents scope path s =
     (Inr (fst (invalidate_step scope path (store_db s))),
      s\<lparr>store_db := snd (invalidate_step scope path (store_db s))\<rparr>)"
  unfolding invalidate_dependents_def
  by (rule joined_value) (simp add: invalidate_step_def Let_def seq_def bind_def for_each_exec mark_all_def)

lemma affected_tick [simp]: "affected_paths scope path (tick_validity sc d) = affected_paths scope path d"
proof -
  have "dependents_of scope (tick_validity sc d) = dependents_of scope d"
    by (simp add: dependents_of_def tick_validity_def fun_eq_iff)
  then show ?thesis by (simp add: affected_paths_def)
qed

lemma tick_generation [simp]:
  "artifact_invalidation_generation sc q (tick_validity scope d) = artifact_invalidation_generation sc q d"
  "invalidated (tick_validity scope d) = invalidated d"
  by (simp_all add: artifact_invalidation_generation_def tick_validity_def)

lemma validity_generation_scope:
  "sc_client sc = sc_client scope \<Longrightarrow> sc_project sc = sc_project scope \<Longrightarrow>
     validity_generation sc d = validity_generation scope d"
  by (simp add: validity_generation_def)

lemma invalidate_step_generations:
  assumes ok: "generations_ok d"
  shows "generations_ok (snd (invalidate_step scope path d))"
proof -
  let ?d = "tick_validity scope d" and ?n = "validity_generation scope (tick_validity scope d)"
  have clock: "validity_generation sc d \<le> validity_generation sc ?d" for sc
    by (simp add: validity_generation_tick)
  have "artifact_invalidation_generation sc q (mark_all scope ?n paths ?d) \<le> validity_generation sc ?d"
    for sc q paths
    using ok clock [of sc] validity_generation_scope [of sc scope ?d]
    by (auto simp: mark_all_generation generations_ok_def intro: le_trans)
  moreover have "behind sc q (validity_generation sc ?d) (invalidated (mark_all scope ?n paths ?d))"
    for sc q paths
    using ok clock [of sc] validity_generation_scope [of sc scope ?d]
    by (intro mark_all_behind) (auto simp: generations_ok_def behind_def intro: le_trans)
  ultimately show ?thesis by (simp add: generations_ok_def invalidate_step_def Let_def)
qed

end
