(* ===== verification/Motifs.thy ===== *)
theory Motifs
  imports Invocation Evidence
begin

text \<open>
  crates/ribosome-core/src/motif_records.rs with the submission of records (records.rs), the check of
  a transplant (invocation.rs) and the registration of a discovery corpus (discovery_corpus.rs): what
  an author may claim about motifs, and the evidence the claim has to rest on.

  Contract validation against the JSON schema, the decoding of a body into its struct and the size of
  a value as JSON text are third-party code; they are the argument \<open>codec\<close>.
\<close>

record MotifCodec =
  mcd_definition :: "json_map \<Rightarrow> Definition res"
  mcd_occurrence :: "json_map \<Rightarrow> Occurrence res"
  mcd_discovery :: "json_map \<Rightarrow> Discovery res"
  mcd_transplant :: "json_map \<Rightarrow> Transplant res"
  mcd_valid_body :: "RecordKind \<Rightarrow> json_map \<Rightarrow> bool"
  mcd_submission_bytes :: "RecordSubmission \<Rightarrow> nat"
  mcd_corpus_bytes :: "DiscoveryCorpus \<Rightarrow> nat"

section \<open>Frontiers\<close>

definition frontier_key :: "Event \<Rightarrow> string" where
  "frontier_key e = ev_run_id e @ CHR ''/'' # ev_producer e"

definition validate_frontier :: "json_map \<Rightarrow> unit res" where
  "validate_frontier frontier =
     and_then (guard (length frontier \<le> 128) (invalid ''motif frontier exceeds 128 producers'')) (\<lambda>_.
     for_res (\<lambda>(_, v). and_then (ok_or (as_str v) (invalid ''motif frontier values must be sequence strings''))
       (\<lambda>s. and_then (counter s) (\<lambda>_. Inr ()))) frontier)"

definition within_frontier :: "Event \<Rightarrow> json_map \<Rightarrow> unit res" where
  "within_frontier e frontier =
     and_then (ok_or (Option.bind (map_of frontier (frontier_key e)) as_str)
       (invalid ''motif frontier must include each cited event producer'')) (\<lambda>s.
     and_then (counter (ev_sequence e)) (\<lambda>seen.
     and_then (counter s) (\<lambda>last_seen.
     guard (seen \<le> last_seen) (invalid ''motif evidence lies after the declared frontier''))))"

definition motif_event :: "Grant \<Rightarrow> string \<Rightarrow> Event store_op" where
  "motif_event grant i =
     seq (require_reference grant i)
     (query_res (\<lambda>d. ok_or (map_option er_body (List.find (\<lambda>e. er_id e = i) (events d)))
       (invalid ''event reference must identify an event'')))"

definition raise_frontier :: "Grant \<Rightarrow> json_map \<Rightarrow> json \<Rightarrow> json_map store_op" where
  "raise_frontier grant frontier reference =
     bind (expect (as_str reference) (invalid ''event_refs must contain event IDs'')) (\<lambda>i.
     bind (motif_event grant i) (\<lambda>e.
     bind (lift (case Option.bind (map_of frontier (frontier_key e)) as_str of
         Some s \<Rightarrow> counter s | None \<Rightarrow> Inr 0)) (\<lambda>previous.
     bind (lift (counter (ev_sequence e))) (\<lambda>sequence.
     ret (if previous < sequence
          then map_insert (frontier_key e) (JString (ev_sequence e)) frontier else frontier)))))"

definition selected_frontier :: "Grant \<Rightarrow> json option \<Rightarrow> json_map store_op" where
  "selected_frontier grant references =
     bind (expect (Option.bind references as_array) (invalid ''event_refs must be an array''))
       (fold_op (raise_frontier grant) [])"

section \<open>Bookkeeping supplied by the host\<close>

text \<open>\<open>map.entry(key).or_insert(value)\<close>.\<close>

definition or_insert :: "string \<Rightarrow> json \<Rightarrow> json_map \<Rightarrow> json_map" where
  "or_insert k v m = (if map_of m k = None then map_insert k v m else m)"

definition owned_work :: "Grant \<Rightarrow> string \<Rightarrow> Db \<Rightarrow> bool" where
  "owned_work grant i d = exists_where (\<lambda>w. wk_id w = i \<and> wk_grant_id w = g_id grant) (work d)"

definition run_operator :: "string \<Rightarrow> Db \<Rightarrow> string res" where
  "run_operator run d = and_then (the_row (run_row d run)) (\<lambda>r. Inr (rq_operator (rr_request r)))"

definition complete_window :: "Grant \<Rightarrow> json \<Rightarrow> json store_op" where
  "complete_window grant window =
     (case window of
        JObject m \<Rightarrow>
          if map_of m ''frontier'' = None
          then bind (selected_frontier grant (map_of m ''event_refs'')) (\<lambda>frontier.
            ret (JObject (map_insert ''frontier'' (JObject frontier) m)))
          else ret window
      | _ \<Rightarrow> ret window)"

definition complete_discovery :: "Grant \<Rightarrow> string \<Rightarrow> json_map \<Rightarrow> json_map store_op" where
  "complete_discovery grant run body =
     bind (query (owned_work grant run)) (\<lambda>owned.
     let body = (if owned then or_insert ''work_ref'' (JString run) body else body);
         body = or_insert ''run_refs'' (JArray [JString run]) body
     in case Option.bind (map_of body ''source_windows'') as_array of
          None \<Rightarrow> ret body
        | Some windows \<Rightarrow> bind (map_op (complete_window grant) windows) (\<lambda>ws.
            ret (map_insert ''source_windows'' (JArray ws) body)))"

definition annotate :: "string \<Rightarrow> string \<Rightarrow> json_map \<Rightarrow> json_map" where
  "annotate run operator body =
     (case Option.bind (map_of body ''grounding'') as_object of
        None \<Rightarrow> body
      | Some grounding \<Rightarrow> map_insert ''grounding'' (JObject (or_insert ''annotator''
          (JObject [(''operator'', JString operator), (''run_id'', JString run)]) grounding)) body)"

definition complete_occurrence :: "Grant \<Rightarrow> string \<Rightarrow> json_map \<Rightarrow> json_map store_op" where
  "complete_occurrence grant run body =
     bind (if map_of body ''frontier'' = None
           then bind (selected_frontier grant (map_of body ''event_refs'')) (\<lambda>frontier.
             ret (map_insert ''frontier'' (JObject frontier) body))
           else ret body) (\<lambda>body.
     bind (query_res (run_operator run)) (\<lambda>operator.
     ret (annotate run operator (or_insert ''operator'' (JString operator) body))))"

definition complete_motif_context :: "Grant \<Rightarrow> string \<Rightarrow> RecordSubmission \<Rightarrow> RecordSubmission store_op" where
  "complete_motif_context grant run q =
     (if rsb_kind q = RecordKind.Discovery
      then bind (complete_discovery grant run (rsb_body q)) (\<lambda>body. ret (q\<lparr>rsb_body := body\<rparr>))
      else if rsb_kind q = RecordKind.Occurrence
      then bind (complete_occurrence grant run (rsb_body q)) (\<lambda>body. ret (q\<lparr>rsb_body := body\<rparr>))
      else ret q)"

section \<open>Evidence the author read\<close>

definition observed_by :: "string \<Rightarrow> string \<Rightarrow> Db \<Rightarrow> bool" where
  "observed_by run reference d = exists_where (\<lambda>a. as_result_run_id a = Some run \<and>
     as_result_content a \<noteq> None \<and> list_ex (\<lambda>s. cs_id s = reference) (as_result_sources a))
     (artifact_snapshots d)"

definition require_motif_observations :: "string option \<Rightarrow> json_map \<Rightarrow> unit store_op" where
  "require_motif_observations run body =
     (case run of
        None \<Rightarrow> skip
      | Some i \<Rightarrow> for_each (remdups (collect_references (JObject body))) (\<lambda>reference.
          bind (query (observed_by i reference)) (\<lambda>observed.
          need observed (denied
           ''motif evidence was not retrieved by this run; read the cited evidence before submitting''))))"

definition motif_definition :: "MotifCodec \<Rightarrow> Grant \<Rightarrow> VersionRef \<Rightarrow> Definition store_op" where
  "motif_definition codec grant reference =
     bind (read_record grant (vr_id reference)) (\<lambda>r.
     seq (need (r_kind r = RecordKind.Definition) (invalid ''motif reference must identify a definition''))
     (bind (lift (mcd_definition codec (r_body r))) (\<lambda>definition.
      seq (need (df_version definition = vr_version reference)
        (conflict ''motif definition semantic version does not match''))
      (ret definition))))"

section \<open>Definitions and occurrences\<close>

definition check_definition :: "MotifCodec \<Rightarrow> Grant \<Rightarrow> json_map \<Rightarrow> unit store_op" where
  "check_definition codec grant body =
     bind (lift (mcd_definition codec body)) (\<lambda>definition.
     case df_functional_contract definition of
       None \<Rightarrow> skip
     | Some contract \<Rightarrow>
         seq (need (distinct (map mro_name (fcn_roles contract)))
           (invalid ''functional role names must be unique''))
         (for_each (fcn_relations contract) (\<lambda>relation.
            bind (motif_definition codec grant (drl_definition relation)) (\<lambda>_. skip))))"

fun check_roles :: "string list \<Rightarrow> string list \<Rightarrow> string list \<Rightarrow> MotifRoleBinding list \<Rightarrow> unit res" where
  "check_roles roles bound cited [] = Inr ()"
| "check_roles roles bound cited (b # bs) =
     (if mrb_role b \<notin> set roles \<or> mrb_role b \<in> set bound
      then Inl (invalid ''role binding must name a unique role in the pinned definition'')
      else if \<not> set (mrb_event_refs b) \<subseteq> set cited
      then Inl (invalid ''role binding event lies outside the occurrence'')
      else check_roles roles (mrb_role b # bound) cited bs)"

definition connects :: "Occurrence \<Rightarrow> OccurrenceGrounding \<Rightarrow> MotifDependencyEvidence \<Rightarrow> bool" where
  "connects occurrence grounding e \<longleftrightarrow>
     mde_source_event_ref e \<noteq> mde_target_event_ref e \<and>
     mde_target_event_ref e \<in> set (oc_event_refs occurrence) \<and>
     (mde_source_event_ref e \<in> set (oc_event_refs occurrence) \<or>
      mde_source_event_ref e \<in> set (ocg_incoming_context_refs grounding))"

definition check_dependency ::
    "Grant \<Rightarrow> Occurrence \<Rightarrow> OccurrenceGrounding \<Rightarrow> MotifDependencyEvidence \<Rightarrow> unit store_op" where
  "check_dependency grant occurrence grounding e =
     seq (need (connects occurrence grounding e)
       (invalid ''dependency must connect occurrence evidence or an explicit incoming event''))
     (seq (motif_event grant (mde_source_event_ref e))
     (bind (motif_event grant (mde_target_event_ref e)) (\<lambda>target.
      need (\<not> (mde_basis e = MotifDependencyEvidenceBasis.SourceReported \<and>
          mde_source_event_ref e \<notin> set (ev_parents target)))
        (invalid (''source_reported dependency is absent from the target event'' @ CHR 0x27 #
          ''s parents; use inferred for a hypothesis'')))))"

definition assigned_online :: "Grant \<Rightarrow> Db \<Rightarrow> bool res" where
  "assigned_online annotator d =
     (case g_discovery_corpus annotator of
        None \<Rightarrow> Inr False
      | Some reference \<Rightarrow> and_then (discovery_corpus annotator reference d) (\<lambda>corpus.
          Inr (dc_visibility corpus = DiscoveryCorpusVisibility.Online)))"

definition check_annotator ::
    "Grant \<Rightarrow> Occurrence \<Rightarrow> OccurrenceGrounding \<Rightarrow> string option \<Rightarrow> unit store_op" where
  "check_annotator grant occurrence grounding run =
     (let annotator_run = man_run_id (ocg_annotator grounding) in
      bind (query_res (run_grant annotator_run)) (\<lambda>annotator.
      seq (need (\<not> (g_id annotator \<noteq> g_id grant \<or> (run \<noteq> None \<and> run \<noteq> Some annotator_run)))
        (denied ''occurrence annotator is outside the submitting run or root grant''))
      (bind (query_res (run_operator annotator_run)) (\<lambda>operator.
       seq (need (operator = man_operator (ocg_annotator grounding) \<and> operator = oc_operator occurrence)
         (invalid (''occurrence operator must match the annotator'' @ CHR 0x27 # ''s pinned operator'')))
       (bind (query_res (assigned_online annotator)) (\<lambda>online.
        need ((ocg_recognition_visibility grounding = OccurrenceGroundingRecognitionVisibility.Online) = online)
          (denied (''recognition visibility must match the host'' @ CHR 0x27 #
            ''s source-prefix assignment''))))))))"

definition validate_occurrence_grounding ::
    "MotifCodec \<Rightarrow> Grant \<Rightarrow> Occurrence \<Rightarrow> OccurrenceGrounding \<Rightarrow> string option \<Rightarrow> unit store_op" where
  "validate_occurrence_grounding codec grant occurrence grounding run =
     bind (motif_definition codec grant (oc_definition occurrence)) (\<lambda>definition.
     bind (expect (df_functional_contract definition)
       (invalid ''grounded occurrence requires a definition with a functional contract'')) (\<lambda>contract.
     seq (lift (validate_frontier (oc_frontier occurrence)))
     (seq (for_each (oc_event_refs occurrence) (\<lambda>i.
        seq (query_res (require_corpus_event grant i))
        (bind (motif_event grant i) (\<lambda>e. lift (within_frontier e (oc_frontier occurrence))))))
     (seq (lift (check_roles (map mro_name (fcn_roles contract)) [] (oc_event_refs occurrence)
        (ocg_role_bindings grounding)))
     (seq (for_each (ocg_dependency_evidence grounding) (check_dependency grant occurrence grounding))
     (seq (need (\<not> (mlo_state (ocg_local_outcome grounding) \<noteq> MotifLocalOutcomeState.Unresolved \<and>
          mlo_evidence_refs (ocg_local_outcome grounding) = []))
        (invalid ''local outcome requires evidence; otherwise leave it unresolved''))
     (check_annotator grant occurrence grounding run)))))))"

definition check_occurrence :: "MotifCodec \<Rightarrow> Grant \<Rightarrow> json_map \<Rightarrow> string option \<Rightarrow> unit store_op" where
  "check_occurrence codec grant body run =
     bind (lift (mcd_occurrence codec body)) (\<lambda>occurrence.
     case oc_grounding occurrence of
       None \<Rightarrow> skip
     | Some grounding \<Rightarrow>
         seq (validate_occurrence_grounding codec grant occurrence grounding run)
         (require_motif_observations run body))"

section \<open>Discoveries\<close>

definition proposes :: "DiscoveryHypothesis \<Rightarrow> bool" where
  "proposes h \<longleftrightarrow> dhy_decision h \<noteq> DiscoveryHypothesisDecision.Reject \<and>
     dhy_decision h \<noteq> DiscoveryHypothesisDecision.Inconclusive"

definition check_claims :: "Grant \<Rightarrow> Discovery \<Rightarrow> unit res" where
  "check_claims grant discovery =
     and_then (guard (case g_discovery_corpus grant of
         Some assigned \<Rightarrow> assigned = dis_corpus discovery | None \<Rightarrow> True)
       (denied ''discovery corpus must match the host assignment'')) (\<lambda>_.
     and_then (guard (\<not> (dis_decision discovery = DiscoveryDecision.Supported \<and>
         (dis_definition_refs discovery = [] \<or> dis_hypotheses discovery = [])))
       (invalid ''supported discovery requires a hypothesis and pinned definition'')) (\<lambda>_.
     and_then (guard (\<not> (dis_decision discovery = DiscoveryDecision.NoMotif \<and>
         dis_definition_refs discovery \<noteq> []))
       (invalid ''no_motif cannot claim output definitions'')) (\<lambda>_.
     guard (list_all (\<lambda>h. proposes h \<longrightarrow> dhy_support_refs h \<noteq> []) (dis_hypotheses discovery))
       (invalid ''a proposed motif requires supporting references''))))"

definition check_window_event :: "Grant \<Rightarrow> DiscoveryWindow \<Rightarrow> string \<Rightarrow> unit store_op" where
  "check_window_event grant window i =
     bind (motif_event grant i) (\<lambda>e.
     seq (query_res (require_corpus_event grant i))
     (seq (need (ev_run_id e = dw_execution window)
        (invalid ''discovery window event belongs to a different execution''))
     (lift (within_frontier e (dw_frontier window)))))"

definition check_windows :: "Grant \<Rightarrow> DiscoveryWindow list \<Rightarrow> unit store_op" where
  "check_windows grant windows =
     seq (for_each windows (\<lambda>window.
       seq (lift (validate_frontier (dw_frontier window)))
       (for_each (dw_event_refs window) (check_window_event grant window))))
     (need (length (remdups (concat (map dw_event_refs windows))) \<le> 1000)
       (invalid ''discovery selection exceeds 1000 events''))"

definition check_selection :: "string list \<Rightarrow> json_map \<Rightarrow> unit store_op" where
  "check_selection selected body =
     for_each (remdups (collect_references (JObject body))) (\<lambda>reference.
       bind (query (\<lambda>d. exists_where (\<lambda>e. er_id e = reference) (events d))) (\<lambda>is_event.
       need (\<not> (is_event \<and> reference \<notin> set selected))
         (invalid ''discovery event evidence must appear in a declared source window'')))"

definition check_occurrence_refs :: "Grant \<Rightarrow> string list \<Rightarrow> unit store_op" where
  "check_occurrence_refs grant references =
     for_each references (\<lambda>reference.
       bind (read_record grant reference) (\<lambda>r.
       need (r_kind r = RecordKind.Occurrence)
         (invalid ''occurrence_refs must identify occurrence records'')))"

definition check_runs :: "Grant \<Rightarrow> Discovery \<Rightarrow> string option \<Rightarrow> unit store_op" where
  "check_runs grant discovery run =
     seq (need (case run of Some i \<Rightarrow> i \<in> set (dis_run_refs discovery) | None \<Rightarrow> True)
       (invalid ''discovery run_refs must include the submitting run''))
     (seq (for_each (dis_run_refs discovery) (\<lambda>i.
        bind (query_res (run_grant i)) (\<lambda>g.
        need (g_id g = g_id grant) (denied ''discovery run is outside this root grant''))))
     (case dis_work_ref discovery of
        None \<Rightarrow> skip
      | Some work_ref \<Rightarrow>
          bind (query (owned_work grant work_ref)) (\<lambda>owned.
          need (owned \<and> (run = None \<or> run = Some work_ref))
            (denied (''work_ref must identify this run'' @ CHR 0x27 #
              ''s owned work item; omit work_ref for a directly started run'')))))"

definition check_discovery :: "MotifCodec \<Rightarrow> Grant \<Rightarrow> json_map \<Rightarrow> string option \<Rightarrow> unit store_op" where
  "check_discovery codec grant body run =
     bind (lift (mcd_discovery codec body)) (\<lambda>discovery.
     seq (lift (check_claims grant discovery))
     (seq (check_windows grant (dis_source_windows discovery))
     (seq (check_selection (concat (map dw_event_refs (dis_source_windows discovery))) body)
     (seq (for_each (dis_definition_refs discovery) (\<lambda>reference.
        bind (motif_definition codec grant reference) (\<lambda>_. skip)))
     (seq (check_occurrence_refs grant (dis_occurrence_refs discovery))
     (seq (check_runs grant discovery run)
     (require_motif_observations run body)))))))"

section \<open>Submissions\<close>

definition required_field :: "string \<Rightarrow> RecordKind \<Rightarrow> string option" where
  "required_field operator kind =
     (if operator = ''discovery@1'' \<and> kind = RecordKind.Definition then Some ''functional_contract''
      else if operator = ''discovery@1'' \<and> kind = RecordKind.Occurrence then Some ''grounding''
      else None)"

definition require_structure :: "string option \<Rightarrow> RecordSubmission \<Rightarrow> unit store_op" where
  "require_structure run q =
     (case run of
        None \<Rightarrow> skip
      | Some i \<Rightarrow> bind (query_res (run_operator i)) (\<lambda>operator.
          case required_field operator (rsb_kind q) of
            None \<Rightarrow> skip
          | Some field \<Rightarrow> need (map_of (rsb_body q) field \<noteq> None)
              (invalid (''discovery requires '' @ field))))"

definition validate_motif_submission ::
    "MotifCodec \<Rightarrow> Grant \<Rightarrow> RecordSubmission \<Rightarrow> string option \<Rightarrow> unit store_op" where
  "validate_motif_submission codec grant q run =
     seq (require_structure run q)
     (if rsb_kind q = RecordKind.Definition then check_definition codec grant (rsb_body q)
      else if rsb_kind q = RecordKind.Occurrence then check_occurrence codec grant (rsb_body q) run
      else if rsb_kind q = RecordKind.Discovery then check_discovery codec grant (rsb_body q) run
      else skip)"

definition require_run_references :: "string \<Rightarrow> string list \<Rightarrow> unit store_op" where
  "require_run_references run references =
     for_each references (\<lambda>reference.
       bind (query_res (run_grant run)) (\<lambda>g. require_reference g reference))"

definition entries :: "string list option \<Rightarrow> string list" where
  "entries refs = (case refs of Some rs \<Rightarrow> rs | None \<Rightarrow> [])"

definition validate_transplant :: "MotifCodec \<Rightarrow> Grant \<Rightarrow> RecordSubmission \<Rightarrow> unit store_op" where
  "validate_transplant codec grant q =
     (if rsb_kind q \<noteq> RecordKind.Transplant then skip
      else bind (lift (mcd_transplant codec (rsb_body q))) (\<lambda>transplant.
        case tp_invocation_run transplant of
          Some run \<Rightarrow>
            bind (query_res (run_grant run)) (\<lambda>g.
            seq (need (g_id g = g_id grant) (denied ''transplant invocation belongs to another grant''))
            (bind (query (run_invocation run)) (\<lambda>found.
             bind (expect found (invalid ''transplant run has no pinned invocation'')) (\<lambda>invocation.
             seq (need (inv_implementation invocation = tp_donor transplant \<and>
                 inv_bindings invocation = tp_bindings transplant)
               (invalid ''transplant must match the invoked implementation and bindings''))
             (require_run_references run
               (entries (tp_recipient_entry_refs transplant) @ entries (tp_result_refs transplant)))))))
        | None \<Rightarrow> need (entries (tp_result_refs transplant) = [])
            (invalid ''execution result references require an invocation run'')))"

definition valid_RecordSubmission :: "RecordSubmission \<Rightarrow> bool" where
  "valid_RecordSubmission q \<longleftrightarrow>
     valid_Provenance (rsb_provenance q) \<and> valid_opt valid_name (rsb_id q) \<and>
     valid_opt valid_decimal (rsb_expected_version q)"

text \<open>Derived records may not carry a less restricted label than the evidence they rest on.\<close>

definition lineage_grant :: "Grant \<Rightarrow> Split \<Rightarrow> Grant" where
  "lineage_grant grant split = grant\<lparr>g_visible_splits :=
     filter (\<lambda>s. split_level s \<le> split_level split) (g_visible_splits grant)\<rparr>"

definition evaluation_scope :: "string \<Rightarrow> Db \<Rightarrow> (string \<times> string) option" where
  "evaluation_scope i d = map_option (\<lambda>r. (rec_client r, rec_project r))
     (List.find (\<lambda>r. rec_id r = i \<and> rec_kind r = RecordKind.Evaluation) (records d))"

definition cites_evaluation :: "RecordSubmission \<Rightarrow> string \<Rightarrow> bool" where
  "cites_evaluation q reference \<longleftrightarrow> rsb_kind q = RecordKind.Recommendation \<and>
     (case as_array (json_get (JObject (rsb_body q)) ''evaluation_refs'') of
        Some refs \<Rightarrow> list_ex (\<lambda>v. as_str v = Some reference) refs
      | None \<Rightarrow> False)"

definition check_body_reference ::
    "Grant \<Rightarrow> RecordSubmission \<Rightarrow> bool \<Rightarrow> string \<Rightarrow> unit store_op" where
  "check_body_reference grant q protected reference =
     (if cites_evaluation q reference
      then bind (query (evaluation_scope reference)) (\<lambda>scope.
        need (scope = Some (sc_client (g_scope grant), sc_project (g_scope grant)))
          (denied ''evaluation reference is outside scope''))
      else if protected
      then require_reference (grant\<lparr>g_visible_splits :=
        [Split.Development, Split.Evaluation, Split.Holdout]\<rparr>) reference
      else require_reference (lineage_grant grant (pv_split (rsb_provenance q))) reference)"

definition immutable_kind :: "RecordKind \<Rightarrow> bool" where
  "immutable_kind kind \<longleftrightarrow> kind \<in> set [RecordKind.Implementation, RecordKind.Definition,
     RecordKind.Discovery, RecordKind.Experiment, RecordKind.Evaluation, RecordKind.Admission]"

definition submitted_record :: "Grant \<Rightarrow> RecordSubmission \<Rightarrow> string \<Rightarrow> nat \<Rightarrow> RecordEnvelope" where
  "submitted_record grant q i now =
     \<lparr>r_schema_version = ''1'', r_id = i, r_scope = g_scope grant, r_kind = rsb_kind q, r_version = ''1'',
      r_created_ms = to_string now, r_updated_ms = to_string now, r_retired = False,
      r_provenance = rsb_provenance q, r_body = rsb_body q\<rparr>"

definition replace_version :: "Grant \<Rightarrow> RecordSubmission \<Rightarrow> RecordEnvelope \<Rightarrow> RecordEnvelope store_op" where
  "replace_version grant q record =
     (case rsb_id q of
        Some i \<Rightarrow>
          bind (read_record grant i) (\<lambda>old.
          seq (need (r_scope old = g_scope grant)
            (denied ''delivered prepared records are read-only; save a recipient-owned derivative''))
          (seq (need (r_kind old = rsb_kind q \<and> rsb_expected_version q = Some (r_version old))
            (conflict ''record kind or version mismatch''))
          (seq (need (\<not> immutable_kind (r_kind old))
            (conflict ''versioned material is immutable; submit a new record''))
          (bind (lift (counter (r_version old))) (\<lambda>version.
           ret (record\<lparr>r_version := to_string (add_u64 version 1), r_created_ms := r_created_ms old\<rparr>))))))
      | None \<Rightarrow>
          seq (need (rsb_expected_version q = None) (invalid ''expected_version requires id''))
          (ret record))"

definition check_submission ::
    "MotifCodec \<Rightarrow> Grant \<Rightarrow> RecordSubmission \<Rightarrow> bool \<Rightarrow> unit store_op" where
  "check_submission codec grant q protected =
     seq (validate ''RecordSubmission'' (valid_RecordSubmission q))
     (seq (need (mcd_submission_bytes codec q \<le> MAX_FRAME div 4)
       (invalid ''record exceeds 256 KiB; reference large artifacts instead''))
     (seq (validate ''record'' (mcd_valid_body codec (rsb_kind q) (rsb_body q)))
     (seq (need (\<not> (\<not> protected \<and> (rsb_kind q = RecordKind.Admission \<or> rsb_kind q = RecordKind.Evaluation)))
       (denied ''only the host evaluator or admission authority may write this record''))
     (need (pv_split (rsb_provenance q) \<in> set (g_visible_splits grant)) (denied ''split not granted'')))))"

definition submit_for_run ::
    "MotifCodec \<Rightarrow> Grant \<Rightarrow> RecordSubmission \<Rightarrow> bool \<Rightarrow> string option \<Rightarrow> RecordEnvelope store_op" where
  "submit_for_run codec grant q protected run =
     (let lineage = lineage_grant grant (pv_split (rsb_provenance q)) in
      seq (check_submission codec grant q protected)
      (seq (for_each (pv_source_refs (rsb_provenance q)) (require_reference lineage))
      (seq (for_each (collect_references (JObject (rsb_body q))) (check_body_reference grant q protected))
      (seq (validate_motif_submission codec lineage q run)
      (seq (validate_transplant codec lineage q)
      (bind now_ms (\<lambda>now.
       bind (case rsb_id q of Some i \<Rightarrow> ret i | None \<Rightarrow> new_id) (\<lambda>i.
       bind (replace_version grant q (submitted_record grant q i now)) (\<lambda>record.
       seq (save_record_for_run record (rsb_expected_version q) run)
       (ret record))))))))))"

definition submit :: "MotifCodec \<Rightarrow> Grant \<Rightarrow> RecordSubmission \<Rightarrow> bool \<Rightarrow> RecordEnvelope store_op" where
  "submit codec grant q protected = submit_for_run codec grant q protected None"

section \<open>Registration of a corpus\<close>

definition valid_DiscoveryWindow :: "DiscoveryWindow \<Rightarrow> bool" where
  "valid_DiscoveryWindow w \<longleftrightarrow>
     valid_name (dw_execution w) \<and> length (dw_event_refs w) \<le> 128 \<and> list_all valid_name (dw_event_refs w)"

definition valid_CorpusArtifact :: "CorpusArtifact \<Rightarrow> bool" where
  "valid_CorpusArtifact a \<longleftrightarrow> valid_ArtifactRef (ca_artifact a) \<and> valid_name (ca_snapshot_id a)"

definition valid_DiscoveryCorpus :: "DiscoveryCorpus \<Rightarrow> bool" where
  "valid_DiscoveryCorpus c \<longleftrightarrow>
     valid_name (dc_id c) \<and> valid_decimal (dc_version c) \<and> length (dc_source_windows c) \<le> 64 \<and>
     list_all valid_DiscoveryWindow (dc_source_windows c) \<and> length (dc_definition_refs c) \<le> 100 \<and>
     list_all valid_VersionRef (dc_definition_refs c) \<and> length (dc_limitations c) \<le> 64 \<and>
     list_all (\<lambda>l. length l \<le> 8192) (dc_limitations c) \<and> length (dc_artifacts c) \<le> 100 \<and>
     list_all valid_CorpusArtifact (dc_artifacts c) \<and> length (dc_dependencies c) \<le> 100 \<and>
     list_all valid_Dependency (dc_dependencies c)"

definition corpus_row :: "Scope \<Rightarrow> DiscoveryCorpus \<Rightarrow> Db \<Rightarrow> CorpusRow option" where
  "corpus_row scope c d = List.find (\<lambda>r. cor_client r = sc_client scope \<and> cor_project r = sc_project scope \<and>
     cor_id r = dc_id c \<and> cor_version r = dc_version c) (discovery_corpora d)"

definition check_corpus_event :: "Grant \<Rightarrow> DiscoveryWindow \<Rightarrow> string \<Rightarrow> unit store_op" where
  "check_corpus_event owner window i =
     bind (motif_event owner i) (\<lambda>e.
     seq (need (ev_run_id e = dw_execution window)
       (invalid ''corpus window event belongs to another execution''))
     (lift (within_frontier e (dw_frontier window))))"

definition check_corpus_artifact :: "Grant \<Rightarrow> CorpusArtifact \<Rightarrow> unit store_op" where
  "check_corpus_artifact owner a =
     seq (require_source owner ''artifact'' (ca_snapshot_id a))
     (bind (query_res (\<lambda>d. the_row (List.find (\<lambda>s. as_id s = ca_snapshot_id a) (artifact_snapshots d)))) (\<lambda>s.
      need (as_path s = ar_path (ca_artifact a) \<and> as_version s = ar_version (ca_artifact a) \<and>
          \<not> as_version_only s)
        (invalid ''corpus artifact must identify a retained content snapshot at its declared version'')))"

definition check_corpus_dependency ::
    "Grant \<Rightarrow> DiscoveryCorpus \<Rightarrow> Dependency list \<Rightarrow> Dependency \<Rightarrow> unit store_op" where
  "check_corpus_dependency owner c stored dependency =
     seq (need (dependency \<in> set stored \<and> dep_source dependency \<in> set (map ca_artifact (dc_artifacts c)) \<and>
         dep_dependent dependency \<in> set (map ca_artifact (dc_artifacts c)))
       (invalid ''corpus dependency must match the stored edge and pinned artifacts''))
     (for_each (dep_evidence_refs dependency) (\<lambda>reference.
        seq (require_reference owner reference)
        (need (reference \<in> set (concat (map dw_event_refs (dc_source_windows c))))
          (invalid ''corpus dependency evidence must be selected in a source window''))))"

definition check_corpus :: "MotifCodec \<Rightarrow> Grant \<Rightarrow> DiscoveryCorpus \<Rightarrow> unit store_op" where
  "check_corpus codec owner c =
     seq (for_each (dc_source_windows c) (\<lambda>window.
       seq (lift (validate_frontier (dw_frontier window)))
       (for_each (dw_event_refs window) (check_corpus_event owner window))))
     (seq (need (length (remdups (concat (map dw_event_refs (dc_source_windows c)))) \<le> 1000)
        (invalid ''discovery corpus exceeds 1000 distinct events''))
     (seq (for_each (dc_definition_refs c) (\<lambda>reference.
        bind (motif_definition codec owner reference) (\<lambda>_. skip)))
     (seq (for_each (dc_artifacts c) (check_corpus_artifact owner))
     (bind (query (scope_dependencies (g_scope owner))) (\<lambda>stored.
      for_each (dc_dependencies c) (check_corpus_dependency owner c stored))))))"

definition insert_corpus :: "Scope \<Rightarrow> DiscoveryCorpus \<Rightarrow> Db \<Rightarrow> Db" where
  "insert_corpus scope c d = d\<lparr>discovery_corpora := discovery_corpora d @
     [\<lparr>cor_client = sc_client scope, cor_project = sc_project scope, cor_id = dc_id c,
       cor_version = dc_version c, cor_body = c\<rparr>]\<rparr>"

definition register_discovery_corpus :: "MotifCodec \<Rightarrow> Grant \<Rightarrow> DiscoveryCorpus \<Rightarrow> unit store_op" where
  "register_discovery_corpus codec grant c =
     seq (validate ''DiscoveryCorpus'' (valid_DiscoveryCorpus c))
     (seq (need (mcd_corpus_bytes codec c \<le> MAX_FRAME div 4)
       (invalid ''discovery corpus exceeds 256 KiB''))
     (transaction (
       bind (query (corpus_row (g_scope grant) c)) (\<lambda>old.
       case old of
         Some row \<Rightarrow>
           seq (need (cor_body row = c)
             (conflict ''discovery corpus identity is immutable; register a new version''))
           (ret (Rollback ()))
       | None \<Rightarrow>
           seq (check_corpus codec (grant\<lparr>g_discovery_corpus := None\<rparr>) c)
           (seq (insert_row (\<lambda>d. corpus_row (g_scope grant) c d = None)
             (insert_corpus (g_scope grant) c))
           (commit ()))))))"

end
