(* ===== verification/Reads.thy ===== *)
theory Reads
  imports Feedback External Rpc EventLog Invalidation Motifs
begin

text \<open>
  The operations of the components that write no table, and actions in progress, which run on the
  store and an observation together. What is shown here about both is what the contract of System
  needs to pass them over.
\<close>

section \<open>Reads\<close>

lemma quiet_require_compaction [quiet_intros]: "quiet (require_compaction run summary)"
  unfolding require_compaction_def by (intro quiet_intros)

lemma quiet_checkpoint_check [quiet_intros]: "quiet (check_context_checkpoint run c)"
  unfolding check_context_checkpoint_def by (intro quiet_intros)

lemma quiet_reuse_permit [quiet_intros]: "quiet (reuse_permit p alloc q)"
  unfolding reuse_permit_def by (intro quiet_intros)

lemma quiet_active_checks [quiet_intros]:
  "quiet (expired r)" "quiet (require_source grant kind i)" "quiet (source_available grant kind i)"
  by (intro quiet_intros)+

lemma quiet_operations [quiet_intros]:
  "quiet (cancellation run)" "quiet (policy_version grant)" "quiet (checker_version name)"
  "quiet (version_is grant input)" "quiet (checker_is name version)" "quiet (holds_writer run a)"
  unfolding cancellation_def policy_version_def checker_version_def version_is_def checker_is_def
    holds_writer_def
  by (intro quiet_intros; (simp split: sum.splits, intro allI impI conjI quiet_intros)?)+

lemma quiet_list [quiet_intros]:
  "quiet m \<Longrightarrow> (\<And>x xs. quiet (f x xs)) \<Longrightarrow> quiet (case v of [] \<Rightarrow> m | x # xs \<Rightarrow> f x xs)"
  by (cases v) auto

lemma quiet_and_op [quiet_intros]: "(\<And>m. m \<in> set ms \<Longrightarrow> quiet m) \<Longrightarrow> quiet (and_op ms)"
  by (induction ms) (unfold and_op.simps, (intro quiet_intros; simp)+)

lemma quiet_check_current [quiet_intros]: "quiet (check_current g policy check)"
  unfolding check_current_def
  by (intro quiet_and_op) (auto intro!: quiet_intros quiet_active_checks simp del: op_runs)

lemma quiet_receipt_current [quiet_intros]: "quiet (property_receipt_current g receipt)"
  unfolding property_receipt_current_def by (intro quiet_intros quiet_active_checks)

lemma quiet_collect_targets [quiet_intros]: "quiet (collect_targets g policy a targets checks)"
proof (induction g policy a targets checks rule: collect_targets.induct)
  case (2 grant policy a targets check checks)
  have "quiet (check_transfers grant policy check)"
    unfolding check_transfers_def by (intro quiet_and_op) (auto intro!: quiet_intros simp del: op_runs)
  then show ?case unfolding collect_targets.simps by (intro quiet_intros 2)
qed (simp only: collect_targets.simps, intro quiet_intros)

lemma quiet_run_status [quiet_intros]:
  "quiet m \<Longrightarrow> quiet n \<Longrightarrow> (\<And>x. quiet (f x)) \<Longrightarrow>
     quiet (case st of RunRunning \<Rightarrow> m | RunWaiting \<Rightarrow> n | RunEnded x \<Rightarrow> f x)"
  by (cases st) auto

lemma quiet_delivery [quiet_intros]:
  "quiet (receipt_for_delivery g receipt)" "quiet (run_result_available run)"
  "quiet (run_result_for_delivery run)"
proof -
  show "quiet (receipt_for_delivery g receipt)"
    unfolding receipt_for_delivery_def by (intro quiet_intros)
  show result: "quiet (run_result_available run)" for run
    unfolding run_result_available_def by (intro quiet_intros)
  show "quiet (run_result_for_delivery run)"
    unfolding run_result_for_delivery_def by (intro quiet_intros result)
qed

lemma quiet_review_loop: "quiet (review_loop g checked pending)"
proof -
  have "same_store s (snd (review_loop g checked pending s))" for s :: World
  proof (induction g checked pending s rule: review_loop.induct)
    case (1 g checked pending s)
    have source: "review_source g k i s = (r, u) \<Longrightarrow> same_store s u" for k i r u
      using quietD [OF quiet_review_source] .
    show ?case
      unfolding review_loop.simps [of g checked pending]
      using 1 source by (auto split: list.split sum.split prod.split)
        (rule same_store_trans, assumption, simp)
  qed
  then show ?thesis by (simp add: quiet_def)
qed

lemma quiet_evidence_pages: "quiet (evidence_excluding_activity g q except)"
  unfolding evidence_excluding_activity_def check_event_ref_def Let_def by (intro quiet_intros)

section \<open>Actions in progress\<close>

text \<open>An action runs on the world and its observation; the invariant is the world's.\<close>

definition obs_inv :: "(Db \<Rightarrow> bool) \<Rightarrow> World \<times> EffectObservation \<Rightarrow> bool" where
  "obs_inv I p \<longleftrightarrow> db_inv I (fst p)"

lemma preserves_observing [keeps_intros]:
  "preserves (db_inv I) m \<Longrightarrow> preserves (obs_inv I) (observing m)"
  by (simp add: preserves_def obs_inv_def)

lemma preserves_revise [keeps_intros]:
  "preserves (obs_inv I) (observed f)" "preserves (obs_inv I) (revise g)"
  "preserves (obs_inv I) (revise_receipt g')" "preserves (obs_inv I) (revise_preflight g'')"
  by (auto simp: preserves_def obs_inv_def observed_def revise_def revise_receipt_def revise_preflight_def)

lemma preserves_run_observed [keeps_intros]:
  assumes "preserves (obs_inv I) m"
  shows "preserves (db_inv I) (run_observed m x)"
proof (rule preservesI)
  fix s r t
  assume "db_inv I s" and run: "run_observed m x s = (r, t)"
  then have start: "obs_inv I (s, x)" by (simp add: obs_inv_def)
  obtain q u y where "m (s, x) = (q, (u, y))" by (metis prod.exhaust)
  with preservesD [OF assms start this] run show "db_inv I t"
    by (simp add: run_observed_def obs_inv_def)
qed

end
