(* ===== verification/System.thy ===== *)
theory System
  imports Reads
begin

text \<open>
  What an invariant of the tables has to satisfy for every operation of the program to keep it. The
  locale \<open>store_invariant\<close> is that contract: it lists the atomic writes, and from it follows that the
  operations of the run lifecycle, of the budget and of the queue keep the invariant; Steps extends
  this to every other component and to all sequences of steps. The smaller locales discharge the
  parts of the contract for an invariant that does not speak of a group of tables.
\<close>

text \<open>Work that no operation takes up again: completed, failed, cancelled or exhausted.\<close>

definition closed_work :: "WorkRow \<Rightarrow> bool" where
  "closed_work w \<longleftrightarrow> terminal (wk_status w)"

section \<open>Invariants of every operation\<close>

text \<open>Withdrawing artifacts writes lineage tables only.\<close>

lemma withdraw_rows_lineage: "only_lineage d (withdraw_rows sel d)"
proof -
  have step: "only_lineage d (ignore_tombstone a d)" "only_lineage d (ignore_cleanup a d)" for a d
    by (simp_all add: ignore_tombstone_def ignore_cleanup_def only_lineage_def without_lineage_def)
  have folded: "only_lineage d (fold f as d)" if "\<And>a d. only_lineage d (f a d)" for as d and f :: "ArtifactSnapshot \<Rightarrow> Db \<Rightarrow> Db"
  proof (induction as arbitrary: d)
    case (Cons a as)
    show ?case using only_lineage_trans [OF that Cons] by simp
  qed simp
  show ?thesis unfolding withdraw_rows_def
    by (rule only_lineage_trans [OF folded folded]) (rule step)+
qed

text \<open>
  Two smaller contracts come first: an invariant that saving and cleaning keep is kept by every
  read of a record, and one that also the root allocation keeps is kept by the authorization of a
  run.
\<close>

locale read_invariant =
  fixes I :: "Db \<Rightarrow> bool"
  assumes saved: "preserves (db_inv I) (save_record_for_run rec expected by)"
    and cleaned: "preserves (db_inv I) (cleanup_sources g k)"

context read_invariant
begin

lemma expire_memories: "preserves (db_inv I) (expire_memories g)"
  unfolding expire_memories_def expire_memory_def
  by (intro keeps_intros saved cleaned) (intro quiet_preserves quiet_intros)

lemma read_record: "preserves (db_inv I) (read_record g i)"
  unfolding read_record_def
  by (intro keeps_intros expire_memories quiet_preserves quiet_active_checks)

lemma require_reference: "preserves (db_inv I) (require_reference g i)"
  unfolding require_reference_def
  by (intro keeps_intros expire_memories quiet_preserves quiet_active_checks)

lemma retire: "preserves (db_inv I) (retire g q)"
  unfolding retire_def Let_def by (intro keeps_intros saved cleaned)

lemma validate_invocation: "preserves (db_inv I) (validate_invocation g run vi)"
  unfolding validate_invocation_def Let_def
  by (intro keeps_intros read_record require_reference; cases "inv_purpose vi")
     (simp_all, (intro keeps_intros quiet_preserves [OF quiet_is_admitted])+)

lemma properties_read:
  "preserves (db_inv I) (require_property_bindings g bs)"
  "preserves (db_inv I) (properties_cover_artifact g a ps)"
  "preserves (db_inv I) (assess_properties g a)"
proof -
  show "preserves (db_inv I) (require_property_bindings g bs)"
    unfolding require_property_bindings_def require_property_binding_def
    by (intro keeps_intros read_record)
  show "preserves (db_inv I) (properties_cover_artifact g a ps)"
    unfolding properties_cover_artifact_def covered_by_def Let_def
    by (intro keeps_intros read_record)
  have current: "preserves (db_inv I) (property_receipt_current g r)" for r
    by (intro quiet_preserves quiet_intros)
  show "preserves (db_inv I) (assess_properties g a)"
    unfolding assess_properties_def assess_one_def cached_receipt_def Let_def split_beta
    by (intro keeps_intros read_record current)
qed

lemma transferable_validation: "preserves (db_inv I) (transferable_validation g r p)"
  unfolding transferable_validation_def intervention_current_def require_attachment_write_def Let_def
  by (intro keeps_intros read_record quiet_preserves quiet_intros)

lemma previous_properties: "preserves (db_inv I) (previous_properties g v)"
  unfolding previous_properties_def split_beta by (intro keeps_intros properties_read)

text \<open>What an author submits is checked by reading records and events.\<close>

lemma motif_reads:
  "preserves (db_inv I) (motif_event g i)" "preserves (db_inv I) (motif_definition codec g ref)"
  "preserves (db_inv I) (selected_frontier g refs)"
proof -
  show event: "preserves (db_inv I) (motif_event g i)" for i
    unfolding motif_event_def by (intro keeps_intros require_reference)
  show "preserves (db_inv I) (motif_definition codec g ref)"
    unfolding motif_definition_def by (intro keeps_intros read_record)
  show "preserves (db_inv I) (selected_frontier g refs)"
    unfolding selected_frontier_def raise_frontier_def Let_def by (intro keeps_intros event)
qed

lemma preserves_map_op: "(\<And>x. preserves P (f x)) \<Longrightarrow> preserves P (map_op f xs)"
  by (induction xs) (auto intro: keeps_intros)

lemma complete_motif_context: "preserves (db_inv I) (complete_motif_context g run q)"
proof -
  have window: "preserves (db_inv I) (complete_window g w)" for w
    unfolding complete_window_def
    by (cases w; simp only: json.case) (intro keeps_intros motif_reads)+
  show ?thesis
    unfolding complete_motif_context_def complete_discovery_def complete_occurrence_def Let_def
    by (intro keeps_intros motif_reads preserves_map_op window)
qed

lemma check_windows: "preserves (db_inv I) (check_windows g ws)"
  unfolding check_windows_def check_window_event_def by (intro keeps_intros motif_reads)

lemma check_discovery: "preserves (db_inv I) (check_discovery codec g body run)"
  unfolding check_discovery_def check_selection_def check_occurrence_refs_def
    check_runs_def require_motif_observations_def
  by (intro keeps_intros motif_reads read_record check_windows)

lemma check_occurrence: "preserves (db_inv I) (check_occurrence codec g body run)"
  unfolding check_occurrence_def validate_occurrence_grounding_def check_dependency_def
    check_annotator_def require_motif_observations_def Let_def
  by (intro keeps_intros motif_reads)

lemma validate_motif_submission: "preserves (db_inv I) (validate_motif_submission codec g q run)"
  unfolding validate_motif_submission_def require_structure_def check_definition_def
  by (intro keeps_intros motif_reads check_occurrence check_discovery)

lemma validate_transplant: "preserves (db_inv I) (validate_transplant codec g q)"
  unfolding validate_transplant_def require_run_references_def by (intro keeps_intros require_reference)

lemma check_submission: "preserves (db_inv I) (check_submission codec g q protected)"
  unfolding check_submission_def by (intro keeps_intros)

lemma check_body_reference: "preserves (db_inv I) (check_body_reference g q protected i)"
  unfolding check_body_reference_def by (intro keeps_intros require_reference)

lemma replace_version: "preserves (db_inv I) (replace_version g q r)"
  unfolding replace_version_def by (intro keeps_intros read_record)

lemma submit_for_run: "preserves (db_inv I) (submit_for_run codec g q protected run)"
  unfolding submit_for_run_def Let_def
  by (intro keeps_intros check_submission require_reference check_body_reference
      validate_motif_submission validate_transplant replace_version saved)

lemma check_corpus: "preserves (db_inv I) (check_corpus codec g c)"
  unfolding check_corpus_def check_corpus_event_def check_corpus_artifact_def check_corpus_dependency_def
  by (intro keeps_intros motif_reads require_reference quiet_preserves quiet_active_checks)

end

locale active_invariant = read_invariant +
  assumes root: "preserves (db_inv I) (root_allocation_in g)"

context active_invariant
begin

lemma run_allocation: "preserves (db_inv I) (run_allocation_in run)"
  unfolding run_allocation_in_def by (intro keeps_intros root)

lemma require_active: "preserves (db_inv I) (require_active run)"
  unfolding require_active_def recheck_invocation_def invocation_material_def
  by (intro keeps_intros run_allocation validate_invocation)
     (intro quiet_preserves quiet_intros)+

end

locale store_invariant = active_invariant +
  assumes register: "preserves (db_inv I) (register_grant g)"
    and child: "preserves (db_inv I) (allocate_in g bq)"
    and closed: "preserves (db_inv I) (finish_allocation g i v)"
    and issued: "preserves (db_inv I) (issue_permit g run ra n c i pq)"
    and dispatched: "preserves (db_inv I) (dispatch_reserved run i g)"
    and released: "preserves (db_inv I) (release_permit run i)"
    and reported: "preserves (db_inv I) (report_usage run u)"
    and ingested: "preserves (db_inv I) (ingest e)"
    and enqueued: "preserves (db_inv I) (enqueue_work_in g run wq)"
    and claimed: "preserves (db_inv I) (claim_loop fuel g owner k att ids)"
    and work_closed: "preserves (db_inv I) (finish_work i owner ws)"
    and renewed: "preserves (db_inv I) (renew_work i owner k)"
    and disposed: "I d \<Longrightarrow> I (set_disposition i' v' d)"
    and other_tables: "I d \<Longrightarrow> I (d\<lparr>run_allocations := ra'\<rparr>)" "I d \<Longrightarrow> I (d\<lparr>runs := rs\<rparr>)"
      "I d \<Longrightarrow> I (d\<lparr>run_waits := ws'\<rparr>)" "I d \<Longrightarrow> I (d\<lparr>checkpoints := cs\<rparr>)"
    and depended: "preserves (db_inv I) (add_dependency sc dep)"
    and invalidates: "preserves (db_inv I) (invalidate_dependents sc path)"
      "preserves (db_inv I) (invalidate_artifact_and_dependents sc path)"
    and cleared: "I d \<Longrightarrow> I (clear_invalid sc path n d)"
    and edged: "add_source_edges kind i references rel d = Inr d' \<Longrightarrow> I d \<Longrightarrow> I d'"
    and edge_table: "I d \<Longrightarrow> I (d\<lparr>source_edges := es\<rparr>)"
    and withdrawn: "I d \<Longrightarrow> I (withdraw_rows sel d)" "I d \<Longrightarrow> I (bump_policy sc d)"
    and child_stopped: "preserves (db_inv I) (stop_child run disposition running i)"
    and stopped: "(\<And>w. P w \<Longrightarrow> \<not> closed_work w) \<Longrightarrow> st \<noteq> WorkItemStatus.Queued \<Longrightarrow> I d \<Longrightarrow>
      I (d\<lparr>work := update_where P (stop_row st) (work d)\<rparr>)"
    and posted: "preserves (db_inv I) (post_message g run mq)"
    and inbox_read: "preserves (db_inv I) (inbox run)"
    and acknowledged: "preserves (db_inv I) (acknowledge_message run i)"
    and item_inserted: "preserves (db_inv I) (insert_item segment sequence kind body summary)"
    and effect_intended: "preserves (db_inv I) (insert_effect receipt g budget)"
    and effect_pinned: "preserves (db_inv I) (pin_effect_checks x)"
    and effect_dispatched:
      "preserves (db_inv I) (move_effect op {PhasePrepared} refusal (dispatched_row x))"
    and effect_captured: "preserves (db_inv I) (capture_effect x)"
    and effect_finalized: "preserves (db_inv I) (finalize_observed g op x targets previous)"
    and effect_settled: "leads (\<lambda>d. I d \<and> effect_row d (esr_operation_id sq) = Some row \<and>
      ef_settlement row = None) I (record_settlement g run receipt sq row)"
    and component_tables: "I d \<Longrightarrow> I (d\<lparr>artifact_snapshots := as\<rparr>)"
      "I d \<Longrightarrow> I (d\<lparr>context_segments := cg\<rparr>)" "I d \<Longrightarrow> I (d\<lparr>context_sources := co\<rparr>)"
      "I d \<Longrightarrow> I (d\<lparr>context_summaries := cu\<rparr>)" "I d \<Longrightarrow> I (d\<lparr>subscriptions := sb\<rparr>)"
      "I d \<Longrightarrow> I (d\<lparr>attachments := ats\<rparr>)" "I d \<Longrightarrow> I (d\<lparr>attachment_work := aws\<rparr>)"
      "I d \<Longrightarrow> I (d\<lparr>attachment_feedback := fs\<rparr>)" "I d \<Longrightarrow> I (d\<lparr>experiments := xps\<rparr>)"
      "I d \<Longrightarrow> I (d\<lparr>discovery_corpora := dcs\<rparr>)"

context store_invariant
begin

lemma run_tables:
  "I d \<Longrightarrow> I (update_run run f d)" "I d \<Longrightarrow> I (insert_run run i q n d)"
  "I d \<Longrightarrow> I (insert_wait run ids d)" "I d \<Longrightarrow> I (set_run_status run st d)"
  "I d \<Longrightarrow> I (delete_wait run d)" "I d \<Longrightarrow> I (wake_run run d)"
  by (simp_all add: update_run_def insert_run_def insert_wait_def set_run_status_def delete_wait_def
      wake_run_def other_tables)

lemma bind_run_allocation: "preserves (db_inv I) (bind_run_allocation_in g q)"
  unfolding bind_run_allocation_in_def Let_def
  by (intro keeps_intros root child disposed other_tables(1))

lemma begin_run: "preserves (db_inv I) (begin_run run i q)"
  unfolding begin_run_def Let_def
  by (intro keeps_intros validate_invocation bind_run_allocation run_tables)

lemma finish_run: "preserves (db_inv I) (finish_run run result)"
  unfolding finish_run_def by (intro keeps_intros ingested disposed other_tables)

lemma save_checkpoint: "preserves (db_inv I) (save_checkpoint run c)"
  unfolding save_checkpoint_def Let_def
  by (intro keeps_intros other_tables quiet_preserves [OF quiet_checkpoint_check])

lemma allocate: "preserves (db_inv I) (allocate g q)"
  unfolding allocate_def by (intro keeps_intros child)

lemma budget_status: "preserves (db_inv I) (root_budget_status g)"
  "preserves (db_inv I) (run_budget_status run)"
  unfolding root_budget_status_def run_budget_status_def by (intro keeps_intros root run_allocation)+

lemma compaction_allocation: "preserves (db_inv I) (compaction_allocation g run q i)"
  unfolding compaction_allocation_def
  by (intro keeps_intros child quiet_preserves [OF quiet_require_compaction])

lemma permit_in_allocation: "preserves (db_inv I) (permit_in_allocation run q chosen)"
  unfolding permit_in_allocation_def Let_def
  by (intro keeps_intros require_active run_allocation compaction_allocation issued
      quiet_preserves [OF quiet_reuse_permit])

lemma permit: "preserves (db_inv I) (permit run q)"
  unfolding permit_def by (rule permit_in_allocation)

lemma dispatch_permit: "preserves (db_inv I) (dispatch_permit run i)"
  unfolding dispatch_permit_def by (intro keeps_intros require_active dispatched)

lemma usage: "preserves (db_inv I) (usage run u)"
  unfolding usage_def by (intro keeps_intros reported)

lemma enqueue_work: "preserves (db_inv I) (enqueue_work g run q)"
  unfolding enqueue_work_def validate_work_request_def
  by (intro keeps_intros enqueued require_reference)

lemma request_work: "preserves (db_inv I) (request_work run q)"
  unfolding request_work_def by (intro keeps_intros require_active enqueue_work)

lemma claim_work: "preserves (db_inv I) (claim_work_filter i owner k att ids)"
  unfolding claim_work_filter_def by (intro keeps_intros claimed)

lemma append_activity: "preserves (db_inv I) (append_agent_activity run batch)"
  unfolding append_agent_activity_def append_activity_def by (intro keeps_intros ingested)

end

section \<open>Invariants that do not speak of dependencies\<close>

locale undepended_invariant =
  fixes I :: "Db \<Rightarrow> bool"
  assumes dependency_tables: "I d \<Longrightarrow> I (d\<lparr>dependencies := ds\<rparr>)" "I d \<Longrightarrow> I (d\<lparr>validity_clock := vc\<rparr>)"
      "I d \<Longrightarrow> I (d\<lparr>artifact_invalidation_generations := ags, invalidated := iv\<rparr>)"

context undepended_invariant
begin

lemma generation_writes: "I d \<Longrightarrow> I (tick_validity sc d)" "I d \<Longrightarrow> I (mark_invalid sc n p d)"
  by (simp_all add: tick_validity_def mark_invalid_def dependency_tables)

lemma dependency_operations:
  "preserves (db_inv I) (add_dependency sc dep)" "preserves (db_inv I) (invalidate_dependents sc p)"
  "preserves (db_inv I) (invalidate_artifact_and_dependents sc p)"
proof -
  show "preserves (db_inv I) (add_dependency sc dep)"
    unfolding add_dependency_def by (intro keeps_intros dependency_tables)
  show dependents: "preserves (db_inv I) (invalidate_dependents sc p)" for p
    unfolding invalidate_dependents_def by (intro keeps_intros generation_writes)
  show "preserves (db_inv I) (invalidate_artifact_and_dependents sc p)"
    unfolding invalidate_artifact_and_dependents_def by (intro keeps_intros dependents generation_writes)
qed

lemma cleared: "I d \<Longrightarrow> I (clear_invalid sc path n d)"
  using dependency_tables(3) [of d _ "artifact_invalidation_generations d"] by (simp add: clear_invalid_def)

end

section \<open>Invariants that do not speak of lineage\<close>

locale lineageless_invariant =
  fixes I :: "Db \<Rightarrow> bool"
  assumes lineage: "only_lineage d d' \<Longrightarrow> I d \<Longrightarrow> I d'"

context lineageless_invariant
begin

lemma edged: "add_source_edges kind i references rel d = Inr d' \<Longrightarrow> I d \<Longrightarrow> I d'"
  by (rule lineage) (auto dest: add_source_edges_frame)

lemma edge_table: "I d \<Longrightarrow> I (d\<lparr>source_edges := es\<rparr>)"
  by (erule lineage [rotated]) (simp add: only_lineage_def without_lineage_def)

lemma withdrawn: "I d \<Longrightarrow> I (withdraw_rows sel d)" "I d \<Longrightarrow> I (bump_policy sc d)"
  by (erule lineage [rotated]; simp add: withdraw_rows_lineage)+

lemmas lineage_writes = edge_table withdrawn

end

section \<open>Invariants that do not speak of the queue\<close>

text \<open>The work operations move rows of \<open>work\<close>; the rest of what they do is allocations and events.\<close>

locale workless_invariant =
  fixes I :: "Db \<Rightarrow> bool"
  assumes root: "preserves (db_inv I) (root_allocation_in g)"
    and child: "preserves (db_inv I) (allocate_in g bq)"
    and ingested: "preserves (db_inv I) (ingest e)"
    and disposed: "I d \<Longrightarrow> I (set_disposition i v d)"
    and work_tables: "I d \<Longrightarrow> I (d\<lparr>work := w\<rparr>)" "I d \<Longrightarrow> I (d\<lparr>attachment_work := aw\<rparr>)"

context workless_invariant
begin

lemma work_writes:
  "I d \<Longrightarrow> I (insert_work row d)" "I d \<Longrightarrow> I (inherit_attachment i run d)"
  "I d \<Longrightarrow> I (update_work i f d)" "I d \<Longrightarrow> I (write_lease item n d)"
  "I d \<Longrightarrow> I (fail_work item d)" "I d \<Longrightarrow> I (close_work i item ws d)"
  by (simp_all add: insert_work_def inherit_attachment_def update_work_def write_lease_def fail_work_def
      close_work_def Let_def work_tables disposed)

lemma enqueued: "preserves (db_inv I) (enqueue_work_in g run q)"
  unfolding enqueue_work_in_def create_work_def Let_def split_beta
  by (intro keeps_intros root child ingested work_writes)

lemma claimed: "preserves (db_inv I) (claim_loop fuel g owner k att ids)"
proof (induction fuel g owner k att ids rule: claim_loop.induct)
  case 1
  show ?case unfolding claim_loop.simps by (rule keeps_intros)
next
  case (2 fuel g owner k att ids)
  show ?case unfolding claim_loop.simps Let_def by (intro keeps_intros 2 work_writes)
qed

lemma work_closed: "preserves (db_inv I) (finish_work i owner ws)"
  unfolding finish_work_def Let_def by (intro keeps_intros work_writes)

lemma renewed: "preserves (db_inv I) (renew_work i owner k)"
  unfolding renew_work_def Let_def by (intro keeps_intros work_writes)

lemma child_stopped: "preserves (db_inv I) (stop_child run disposition running i)"
  unfolding stop_child_def close_allowance_def by (intro keeps_intros work_writes disposed)

lemmas work_operations = enqueued claimed work_closed renewed child_stopped

end

section \<open>Invariants that do not speak of the budget tables\<close>

text \<open>Allocations and permits are only ever written by the operations below.\<close>

locale allocless_invariant =
  fixes I :: "Db \<Rightarrow> bool"
  assumes allocation_table: "I d \<Longrightarrow> I (d\<lparr>budget_allocations := as\<rparr>)"

context allocless_invariant
begin

lemma allocation_writes:
  "I d \<Longrightarrow> I (insert_allocation row d)" "I d \<Longrightarrow> I (update_allocation i f d)"
  by (simp_all add: insert_allocation_def update_allocation_def allocation_table)

lemma disposed: "I d \<Longrightarrow> I (set_disposition i v d)"
  by (cases i) (simp_all add: set_disposition_def allocation_writes)

lemma root: "preserves (db_inv I) (root_allocation_in g)"
  unfolding root_allocation_in_def Let_def by (intro keeps_intros allocation_writes)

lemma child: "preserves (db_inv I) (allocate_in g bq)"
  unfolding allocate_in_def Let_def
  by (intro keeps_intros allocation_writes quiet_preserves [OF quiet_require_allocation_open])

lemma closed: "preserves (db_inv I) (finish_allocation g i v)"
  unfolding finish_allocation_def by (intro keeps_intros allocation_writes)

lemmas allocation_operations = root child closed

end

locale budgetless_invariant = allocless_invariant +
  assumes permit_table: "I d \<Longrightarrow> I (d\<lparr>permits := ps\<rparr>)"

context budgetless_invariant
begin

lemma permit_writes: "I d \<Longrightarrow> I (insert_permit p d)" "I d \<Longrightarrow> I (update_permit j h d)"
  by (simp_all add: insert_permit_def update_permit_def permit_table)

lemma issued: "preserves (db_inv I) (issue_permit g run ra n c i pq)"
  unfolding issue_permit_def Let_def
  by (intro keeps_intros permit_writes quiet_preserves [OF quiet_require_allocation_open])

lemma dispatched: "preserves (db_inv I) (dispatch_reserved run i g)"
  unfolding dispatch_reserved_def
  by (intro keeps_intros permit_writes quiet_preserves [OF quiet_require_allocation_open])

lemma released: "preserves (db_inv I) (release_permit run i)"
  unfolding release_permit_def by (intro keeps_intros permit_writes)

lemma reported: "preserves (db_inv I) (report_usage run u)"
  unfolding report_usage_def Let_def by (intro keeps_intros permit_writes)

lemmas budget_operations = allocation_operations issued dispatched released reported

end

section \<open>Invariants that do not speak of effects\<close>

text \<open>
  Between the check of an effect's phase and the write of its receipt, finalization invalidates,
  restores and reads records; these writes are told apart from those of the effect itself.
\<close>

locale finalizing_invariant = read_invariant +
  assumes ingested: "preserves (db_inv I) (ingest e)"
    and invalidates: "preserves (db_inv I) (invalidate_dependents sc path)"
      "preserves (db_inv I) (invalidate_artifact_and_dependents sc path)"
    and cleared: "I d \<Longrightarrow> I (clear_invalid sc path n d)"
    and finalization_tables: "I d \<Longrightarrow> I (d\<lparr>branches := bs\<rparr>)" "I d \<Longrightarrow> I (d\<lparr>property_validations := vs\<rparr>)"

context finalizing_invariant
begin

lemma restored: "preserves (db_inv I) (restore_artifact g op r p st target)"
  unfolding restore_artifact_def restore_property_def require_property_binding_def put_validation_def
    Let_def split_beta
  by (intro keeps_intros properties_read read_record cleared; simp add: finalization_tables)

lemma finalization_writes:
  "preserves (db_inv I) (record_branch g branch)" "preserves (db_inv I) (invalidate_writes sc es ws)"
  unfolding record_branch_def invalidate_writes_def
  by (intro keeps_intros invalidates; simp add: finalization_tables)+

end

locale effectless_invariant = finalizing_invariant +
  assumes effect_table: "I d \<Longrightarrow> I (d\<lparr>effects := xs\<rparr>)"

context effectless_invariant
begin

lemma updated: "I d \<Longrightarrow> I (update_effect i f d)"
  by (simp add: update_effect_def effect_table)

lemma moved: "preserves (db_inv I) (move_effect i ps refusal f)"
  unfolding move_effect_def by (intro keeps_intros updated)

lemma intended: "preserves (db_inv I) (insert_effect receipt g budget)"
  unfolding insert_effect_def by (intro keeps_intros effect_table)

lemma pinned: "preserves (db_inv I) (pin_effect_checks x)" "preserves (db_inv I) (capture_effect x)"
  unfolding pin_effect_checks_def capture_effect_def by (rule moved)+

lemma finalized: "preserves (db_inv I) (finalize_observed g op x targets previous)"
  unfolding finalize_observed_def publish_receipt_def finished_ms_def Let_def
  by (intro keeps_intros restored finalization_writes ingested updated)

lemma settled:
  "leads (\<lambda>d. I d \<and> effect_row d (esr_operation_id sq) = Some row \<and> ef_settlement row = None) I
     (record_settlement g run receipt sq row)"
proof (rule leads_weaken)
  show "leads I I (record_settlement g run receipt sq row)"
    unfolding record_settlement_def Let_def preserves_leads [symmetric]
    by (intro keeps_intros invalidates ingested updated)
qed simp

lemmas effect_operations = intended pinned moved finalized settled

end

section \<open>Invariants that do not speak of messages\<close>

locale messageless_invariant = active_invariant +
  assumes ingested: "preserves (db_inv I) (ingest e)"
    and message_table: "I d \<Longrightarrow> I (d\<lparr>messages := ms\<rparr>)"

context messageless_invariant
begin

lemma posted: "preserves (db_inv I) (post_message g run mq)"
  unfolding post_message_def insert_message_def update_message_def Let_def
  by (intro keeps_intros ingested message_table)

lemma inbox: "preserves (db_inv I) (inbox run)"
  unfolding inbox_def count_delivery_def update_message_def
  by (intro keeps_intros require_active message_table quiet_preserves quiet_intros)

lemma acknowledged: "preserves (db_inv I) (acknowledge_message run i)"
  unfolding acknowledge_message_def by (intro keeps_intros message_table)

lemmas message_operations = posted inbox acknowledged

end

lemma insert_item_keeps:
  "(\<And>d xs. I d \<Longrightarrow> I (d\<lparr>context_items := xs\<rparr>)) \<Longrightarrow>
     preserves (db_inv I) (insert_item segment n kind body summary)"
  unfolding insert_item_def by (intro keeps_intros) simp

section \<open>Ingestion\<close>

text \<open>An invariant that speaks of neither the event log nor the lineage tables.\<close>

definition ignores_events :: "(Db \<Rightarrow> bool) \<Rightarrow> bool" where
  "ignores_events I \<longleftrightarrow>
     (\<forall>e d. I d \<longrightarrow> I (insert_event e d)) \<and> (\<forall>d d'. only_lineage d d' \<longrightarrow> I d \<longrightarrow> I d')"

lemma ingest_keeps:
  assumes "ignores_events I"
  shows "preserves (db_inv I) (ingest e)"
  unfolding ingest_def write_event_def
  by (intro keeps_intros)
     (use assms in \<open>auto simp: ignores_events_def dest!: add_source_edges_frame\<close>)

end
