(* ===== verification/Steps.thy ===== *)
theory Steps
  imports System
begin

text \<open>
  The operations of every component keep what the atomic writes keep (\<open>store_invariant\<close> of System),
  and \<open>system_step\<close> is any of them with any arguments, succeeding or failing. An action executes on
  the store and an observation together; its operations keep the invariant of the store.

  A restart of the process, which interrupts what was running, is a step too. The one operation that
  is none is \<open>settle_attachment_work\<close>, with \<open>start_host\<close>, \<open>host_tick\<close> and \<open>run_completed\<close> that call it:
  for an attached item whose result was never published it writes the status of the run over that of
  the item, closed or not, and closed work would not stay closed.
\<close>

section \<open>The transition system\<close>

definition empty_db :: Db where
  "empty_db = \<lparr>grants = [], runs = [], checkpoints = [], events = [], records = [],
     record_search = [], dependencies = [], invalidated = [], validity_clock = [],
     artifact_invalidation_generations = [], effects = [], work = [], messages = [], permits = [],
     budget_allocations = [], run_allocations = [], run_waits = [], source_edges = [],
     source_tombstones = [], source_policy = [], source_cleanup = [], source_cleanup_items = [],
     artifact_snapshots = [], context_segments = [], context_items = [], context_sources = [],
     context_summaries = [], evaluation_sources = [], experiments = [], discovery_corpora = [],
     attachments = [], attachment_work = [], attachment_records = [], attachment_feedback = [],
     archive = [], subscriptions = [], branches = [], property_validations = []\<rparr>"

text \<open>
  A worker's call is a step as well; the handlers outside the model are arbitrary, but write no table
  of the model.
\<close>

inductive system_step :: "World \<Rightarrow> World \<Rightarrow> bool" where
  grant_registered: "register_grant g s = (r1, t) \<Longrightarrow> system_step s t"
| run_begun: "begin_run run i q s = (r2, t) \<Longrightarrow> system_step s t"
| run_finished: "finish_run run result s = (r3, t) \<Longrightarrow> system_step s t"
| run_checkpointed: "save_checkpoint run c s = (r4, t) \<Longrightarrow> system_step s t"
| allocated: "allocate g bq s = (r5, t) \<Longrightarrow> system_step s t"
| allocation_finished: "finish_allocation g i v s = (r6, t) \<Longrightarrow> system_step s t"
| root_inspected: "root_budget_status g s = (r7, t) \<Longrightarrow> system_step s t"
| run_inspected: "run_budget_status run s = (r8, t) \<Longrightarrow> system_step s t"
| call_permitted: "permit run pq s = (r9, t) \<Longrightarrow> system_step s t"
| call_permitted_in: "permit_in_allocation run pq (Some a) s = (r10, t) \<Longrightarrow> system_step s t"
| call_dispatched: "dispatch_permit run i s = (r11, t) \<Longrightarrow> system_step s t"
| call_released: "release_permit run i s = (r12, t) \<Longrightarrow> system_step s t"
| call_reported: "usage run u s = (r13, t) \<Longrightarrow> system_step s t"
| work_requested: "request_work run wq s = (r14, t) \<Longrightarrow> system_step s t"
| work_enqueued: "enqueue_work g run wq s = (r15, t) \<Longrightarrow> system_step s t"
| work_claimed: "claim_work_filter i owner ms att ids s = (r16, t) \<Longrightarrow> system_step s t"
| work_finished: "finish_work i owner ws s = (r17, t) \<Longrightarrow> system_step s t"
| work_renewed: "renew_work i owner ms s = (r18, t) \<Longrightarrow> system_step s t"
| event_ingested: "ingest e s = (r19, t) \<Longrightarrow> system_step s t"
| activity_appended: "append_agent_activity run batch s = (r20, t) \<Longrightarrow> system_step s t"
| record_saved: "save_record_for_run rec expected by s = (r21, t) \<Longrightarrow> system_step s t"
| record_read: "read_record g i s = (r22, t) \<Longrightarrow> system_step s t"
| record_retired: "retire g rq s = (r23, t) \<Longrightarrow> system_step s t"
| sources_cleaned: "cleanup_sources g n s = (r24, t) \<Longrightarrow> system_step s t"
| dependency_added: "add_dependency scope dep s = (r25, t) \<Longrightarrow> system_step s t"
| dependents_invalidated: "invalidate_dependents scope path s = (r26, t) \<Longrightarrow> system_step s t"
| artifact_invalidated:
    "invalidate_artifact_and_dependents scope path s = (r27, t) \<Longrightarrow> system_step s t"
| message_sent: "send_message run ms s = (r28, t) \<Longrightarrow> system_step s t"
| inbox_read: "inbox run s = (r29, t) \<Longrightarrow> system_step s t"
| message_acknowledged: "acknowledge_message run i s = (r30, t) \<Longrightarrow> system_step s t"
| run_parked: "park_run run sp s = (r31, t) \<Longrightarrow> system_step s t"
| run_resumed: "resume_waiting run s = (r32, t) \<Longrightarrow> system_step s t"
| children_stopped: "stop_waiting_children run v' s = (r33, t) \<Longrightarrow> system_step s t"
| context_authorized: "authorize_context run s = (r34, t) \<Longrightarrow> system_step s t"
| context_appended: "append_context run ca s = (r35, t) \<Longrightarrow> system_step s t"
| context_read: "read_context run cr s = (r36, t) \<Longrightarrow> system_step s t"
| compaction_prepared: "prepare_compaction run s = (r37, t) \<Longrightarrow> system_step s t"
| compaction_read: "read_compaction run i s = (r38, t) \<Longrightarrow> system_step s t"
| compaction_committed: "commit_compaction run cc s = (r39, t) \<Longrightarrow> system_step s t"
| subscribed: "subscribe n' s = (r40, t) \<Longrightarrow> system_step s t"
| subscription_polled: "poll_subscription_with_flush i flush s = (r41, t) \<Longrightarrow> system_step s t"
| artifacts_refreshed: "refresh_artifact_sources g s = (r42, t) \<Longrightarrow> system_step s t"
| artifact_read: "read_artifact g ar s = (r43, t) \<Longrightarrow> system_step s t"
| artifact_assessed: "artifact_validity g av s = (r44, t) \<Longrightarrow> system_step s t"
| action_executed: "execute run act s = (r45, t) \<Longrightarrow> system_step s t"
| action_looked_up: "lookup run i s = (r46, t) \<Longrightarrow> system_step s t"
| effects_reconciled: "reconcile_run run s = (r47, t) \<Longrightarrow> system_step s t"
| effect_inspected: "inspect_effect g i s = (r48, t) \<Longrightarrow> system_step s t"
| effect_settled: "settle_effect g sq s = (r49, t) \<Longrightarrow> system_step s t"
| attachment_opened: "open_attachment g ao p q s = (r50, t) \<Longrightarrow> system_step s t"
| attachment_interrupted: "interrupt_attachment i reason s = (r51, t) \<Longrightarrow> system_step s t"
| attachment_completed: "complete_attachment_source i s = (r52, t) \<Longrightarrow> system_step s t"
| attachment_detached: "detach_attachment i s = (r53, t) \<Longrightarrow> system_step s t"
| attachment_reported: "append_attachment_events ae p s = (r54, t) \<Longrightarrow> system_step s t"
| attachment_routed: "route_attachment i s = (r55, t) \<Longrightarrow> system_step s t"
| feedback_read: "attachment_feedback_page i s = (r56, t) \<Longrightarrow> system_step s t"
| feedback_acknowledged: "acknowledge_feedback fa s = (r57, t) \<Longrightarrow> system_step s t"
| steering_begun: "begin_attachment_steering fr s = (r58, t) \<Longrightarrow> system_step s t"
| deliveries_recovered: "recover_attachment_deliveries i s = (r59, t) \<Longrightarrow> system_step s t"
| host_disconnected: "disconnect_host g s = (r60, t) \<Longrightarrow> system_step s t"
| repair_begun: "begin_attachment_repair i q s = (r61, t) \<Longrightarrow> system_step s t"
| repair_released: "release_attachment_repair ar' s = (r62, t) \<Longrightarrow> system_step s t"
| export_made: "export_training run xq s = (r63, t) \<Longrightarrow> system_step s t"
| episode_imported: "import_external_episode g rec evs chunks s = (r64, t) \<Longrightarrow> system_step s t"
| runtime_started: "start_runtime exports s = (r66, t) \<Longrightarrow> system_step s t"
| workspace_settled: "settle_experiment_workspace g i b s = (r67, t) \<Longrightarrow> system_step s t"
| cleanup_confirmed: "confirm_legacy_experiment_cleanup g i s = (r68, t) \<Longrightarrow> system_step s t"
| submission_completed: "complete_motif_context g run rs s = (r69, t) \<Longrightarrow> system_step s t"
| record_submitted: "submit_for_run codec g rs protected by s = (r70, t) \<Longrightarrow> system_step s t"
| corpus_registered: "register_discovery_corpus codec g corpus s = (r71, t) \<Longrightarrow> system_step s t"
| worker_called:
    "(\<And>x y z w. quiet ((others :: _ \<Rightarrow> _ \<Rightarrow> _ \<Rightarrow> json \<Rightarrow> json store_op) x y z w)) \<Longrightarrow>
     tool_call others decode encode run call s = (r65, t) \<Longrightarrow> system_step s t"

inductive reachable :: "World \<Rightarrow> bool" where
  opened: "store_db s = empty_db \<Longrightarrow> \<not> store_in_tx s \<Longrightarrow> reachable s"
| stepped: "reachable s \<Longrightarrow> system_step s t \<Longrightarrow> reachable t"

section \<open>Every operation\<close>

context store_invariant
begin

lemma send_message: "preserves (db_inv I) (send_message run ms)"
  unfolding send_message_def
  by (intro keeps_intros require_active posted quiet_preserves quiet_intros)

lemma parking_kept:
  "preserves (db_inv I) (park_run run pq)" "preserves (db_inv I) (resume_waiting run)"
  "preserves (db_inv I) (stop_waiting_children run disposition)"
  unfolding park_run_def resume_waiting_def stop_waiting_children_def Let_def split_beta
  by (intro keeps_intros require_active save_checkpoint child_stopped quiet_preserves quiet_intros;
      simp add: run_tables)+

lemma snapshots_kept:
  "I d \<Longrightarrow> I (update_snapshots sel f d)" "I d \<Longrightarrow> I (withdraw_export_rows snapshot d)"
  "I d \<Longrightarrow> I (observe_location scope path branch version d)"
proof -
  show upd: "I (update_snapshots sel f d)" if "I d" for sel f d
    using that by (simp add: update_snapshots_def component_tables)
  show "I (withdraw_export_rows snapshot d)" if "I d"
    using that by (auto simp: withdraw_export_rows_def Let_def upd withdrawn split: list.split)
  show "I (observe_location scope path branch version d)" if "I d"
    using that by (simp add: observe_location_def Let_def upd withdrawn)
qed

lemma withdraw_export: "preserves (db_inv I) (withdraw_export i)"
  unfolding withdraw_export_def by (intro keeps_intros snapshots_kept)

lemma refresh_export_files: "preserves (db_inv I) (refresh_export_files g)"
  unfolding refresh_export_files_def split_beta
  by (intro keeps_intros withdraw_export quiet_preserves quiet_intros)

lemma refresh_artifact_sources: "preserves (db_inv I) (refresh_artifact_sources g)"
proof -
  have location: "preserves (db_inv I) (refresh_location g l)" for l
    unfolding refresh_location_def split_beta
    by (intro keeps_intros snapshots_kept quiet_preserves quiet_intros)
  show ?thesis
    unfolding refresh_artifact_sources_def by (intro keeps_intros refresh_export_files location cleaned)
qed

lemma snapshot_inserted: "preserves (db_inv I) (insert_snapshot a)"
  unfolding insert_snapshot_def by (intro keeps_intros component_tables)

lemma artifact_validity: "preserves (db_inv I) (artifact_validity g vq)"
  unfolding artifact_validity_def
  by (intro keeps_intros properties_read snapshot_inserted quiet_preserves quiet_intros)

lemma read_artifact_context: "preserves (db_inv I) (read_artifact_context g aq)"
  unfolding read_artifact_context_def read_snapshot_def read_live_def Let_def
  by (intro keeps_intros snapshot_inserted quiet_preserves quiet_intros quiet_active_checks;
      erule edged, assumption)

lemma insert_context_message: "preserves (db_inv I) (insert_context_message run g segment n message)"
  unfolding insert_context_message_def append_agent_activity_def append_activity_def Let_def split_beta
  by (intro keeps_intros ingested item_inserted)

lemma continuation: "preserves (db_inv I) (continuation run cq)"
  unfolding continuation_def keep_reference_def Let_def split_beta
  by (intro keeps_intros read_record quiet_preserves quiet_intros)

lemma context_operations:
  "preserves (db_inv I) (authorize_context run)" "preserves (db_inv I) (append_context run aq)"
  "preserves (db_inv I) (read_context run rq)"
proof -
  have state: "quiet (context_state g segment rebuilt)" "quiet (segment_current g segment)" for g segment rebuilt
    unfolding context_state_def context_tail_def segment_current_def split_beta by (intro quiet_intros)+
  have reintroduced: "preserves (db_inv I) (reintroduce run g segment reason)" for g segment reason
    unfolding reintroduce_def first_page_def split_beta
    by (intro keeps_intros continuation insert_context_message)
  have fresh: "preserves (db_inv I) (new_segment run g origin previous)" for g origin previous
    unfolding new_segment_def insert_segment_def insert_source_def Let_def
    by (intro keeps_intros reintroduced component_tables quiet_preserves state)
  show "preserves (db_inv I) (authorize_context run)"
    unfolding authorize_context_def
    by (intro keeps_intros require_active fresh quiet_preserves state) (unfold work_source_def, intro quiet_intros)
  have entry: "preserves (db_inv I) (append_entry run g segment count numbered)" for g segment count numbered
    unfolding append_entry_def check_revision_def note_source_def insert_source_def Let_def split_beta
    by (intro keeps_intros insert_context_message; simp add: component_tables)
  show "preserves (db_inv I) (append_context run aq)"
    unfolding append_context_def
    by (intro keeps_intros entry quiet_preserves quiet_intros state)
  have pages: "quiet (page_loop bytes n kept rows)" for bytes n kept rows
    by (induction bytes n kept rows rule: page_loop.induct)
       (simp_all only: page_loop.simps Let_def, (intro quiet_intros; simp)+)
  show "preserves (db_inv I) (read_context run rq)"
    unfolding read_context_def split_beta
    by (intro keeps_intros require_active quiet_preserves quiet_intros pages state)
qed

lemma compaction_operations:
  "preserves (db_inv I) (prepare_compaction run)" "preserves (db_inv I) (read_compaction run i)"
  "preserves (db_inv I) (read_summary run i)" "preserves (db_inv I) (commit_compaction run cc)"
proof -
  have state: "quiet (segment_current g segment)" "quiet (context_tail segment)" "quiet (visible_bytes item)"
    "quiet (read_message item)" for g segment item
    unfolding segment_current_def context_tail_def visible_bytes_def read_message_def
    by (intro quiet_intros)+
  have plan: "quiet (plan_loop after through bytes rows)" for after through bytes rows
    by (induction after through bytes rows rule: plan_loop.induct)
       (simp_all only: plan_loop.simps, (intro quiet_intros state; simp)+)
  have read: "quiet (read_summary run i)" for i
    unfolding read_summary_def by (intro quiet_intros quiet_active_checks quiet_require_compaction)
  have each: "quiet (map_op read_message rows)" for rows
    by (induction rows) (unfold map_op.simps, (intro quiet_intros state; assumption)+)
  show "preserves (db_inv I) (prepare_compaction run)"
    unfolding prepare_compaction_def prepare_row_def Let_def split_beta
    by (intro keeps_intros require_active quiet_preserves quiet_intros state plan; simp add: component_tables)
  show "preserves (db_inv I) (read_compaction run i)"
    unfolding read_compaction_def Let_def
    by (intro keeps_intros require_active quiet_preserves quiet_intros quiet_require_compaction read each)
  show "preserves (db_inv I) (read_summary run i)" by (rule quiet_preserves [OF read])
  show "preserves (db_inv I) (commit_compaction run cc)"
    unfolding commit_compaction_def commit_prepared_def commit_row_def
    by (intro keeps_intros ingested component_tables quiet_preserves quiet_intros
        quiet_require_compaction read)
qed

lemma add_attachment_work:
  "preserves (db_inv I) (attach_work i a)" "preserves (db_inv I) (insert_attachment_work i a)"
  unfolding attach_work_def insert_attachment_work_def
  by (intro keeps_intros, simp add: component_tables)+

lemma poll_subscription: "preserves (db_inv I) (poll_subscription_with_flush i flush)"
  unfolding poll_subscription_with_flush_def advance_subscription_def close_batch_def save_cursor_def
    split_beta
  by (intro keeps_intros require_reference enqueued add_attachment_work component_tables quiet_preserves
      quiet_intros)

lemma subscribe_from: "preserves (db_inv I) (subscribe_from n source cursor a)"
  unfolding subscribe_from_def insert_subscription_def by (intro keeps_intros component_tables)

lemma subscribe: "preserves (db_inv I) (subscribe n)"
  unfolding subscribe_def by (rule subscribe_from)

lemma save_attachment: "preserves (db_inv I) (save_attachment a)"
  unfolding save_attachment_def by (intro keeps_intros component_tables quiet_preserves quiet_intros)

lemma quiet_active_attachment: "quiet (active_attachment i)"
  unfolding active_attachment_def by (intro quiet_intros)

lemma interrupt_attachment: "preserves (db_inv I) (interrupt_attachment i reason)"
  unfolding interrupt_attachment_def by (intro keeps_intros save_attachment)

lemma waiting_open: "waiting_status (wk_status w) \<Longrightarrow> \<not> closed_work w"
  by (auto simp: waiting_status_def closed_work_def terminal_def)

lemma stop_row_eq:
  "cancel_row = stop_row WorkItemStatus.Cancelled"
  "(\<lambda>w. w\<lparr>wk_status := WorkItemStatus.Interrupted,
      wk_body := (wk_body w)\<lparr>w_status := WorkItemStatus.Interrupted\<rparr>\<rparr>) = stop_row WorkItemStatus.Interrupted"
  by (simp_all add: cancel_row_def stop_row_def fun_eq_iff)

lemma stops:
  "I d \<Longrightarrow> I (cancel_attached_work i d)" "I d \<Longrightarrow> I (release_work i d)" "I d \<Longrightarrow> I (interrupt_work d)"
  unfolding cancel_attached_work_def release_work_def interrupt_work_def stop_row_eq
  by (rule stopped; auto dest: waiting_open simp: closed_work_def terminal_def)+

lemma attachment_operations:
  "preserves (db_inv I) (open_attachment g oq ap rq)"
  "preserves (db_inv I) (interrupt_attachment i reason)"
  "preserves (db_inv I) (complete_attachment_source i)" "preserves (db_inv I) (detach_attachment i)"
  "preserves (db_inv I) (append_attachment_events eq ap)" "preserves (db_inv I) (route_attachment i)"
proof -
  have quiet_policy: "quiet (validate_policy ap)" for ap unfolding validate_policy_def by (intro quiet_intros)
  show "preserves (db_inv I) (open_attachment g oq ap rq)"
    unfolding open_attachment_def reopen_attachment_def connect_attachment_def insert_attachment_def
      validate_policy_def Let_def
    by (intro keeps_intros save_attachment subscribe_from component_tables quiet_preserves quiet_intros)
  show "preserves (db_inv I) (interrupt_attachment i reason)" by (rule interrupt_attachment)
  show "preserves (db_inv I) (complete_attachment_source i)"
    unfolding complete_attachment_source_def split_beta
    by (intro keeps_intros save_attachment quiet_preserves quiet_active_attachment)
  show "preserves (db_inv I) (detach_attachment i)"
    unfolding detach_attachment_def Let_def by (intro keeps_intros save_attachment stops)
  show "preserves (db_inv I) (append_attachment_events eq ap)"
    unfolding append_attachment_events_def append_source_event_def check_source_event_def split_beta
    by (intro keeps_intros save_attachment ingested quiet_preserves quiet_active_attachment quiet_intros)
  show "preserves (db_inv I) (route_attachment i)"
    unfolding route_attachment_def split_beta
    by (intro keeps_intros poll_subscription quiet_preserves quiet_active_attachment)
qed

lemma require_attachment_write: "preserves (db_inv I) (require_attachment_write run a)"
  unfolding require_attachment_write_def by (intro quiet_preserves quiet_intros)

lemmas effect_log = effect_pinned effect_captured require_attachment_write

lemma start_dispatch: "preserves (obs_inv I) (start_dispatch g writes)"
  unfolding start_dispatch_def check_intervention_version_def
  by (intro keeps_intros require_active effect_log properties_read read_record effect_dispatched
      quiet_preserves quiet_intros)

lemma finalize_effect: "preserves (db_inv I) (finalize_effect op)"
  unfolding finalize_effect_def
  by (intro keeps_intros transferable_validation previous_properties effect_finalized)

lemma lookups:
  "preserves (db_inv I) (lookup_for_recovery run op)" "preserves (db_inv I) (lookup run op)"
  "preserves (db_inv I) (reconcile_run run)"
proof -
  have reconciled: "preserves (db_inv I) (reconcile g receipt)" for g receipt
  proof -
    have "quiet (observe_postcondition g receipt writes)" for receipt writes
      unfolding observe_postcondition_def Let_def
      by (intro quiet_intros; (simp split: prod.splits sum.splits option.splits, intro allI impI conjI quiet_intros)?)+
    then show ?thesis
      unfolding reconcile_def Let_def split_beta
      by (intro keeps_intros effect_log finalize_effect quiet_preserves)
  qed
  show recovered: "preserves (db_inv I) (lookup_for_recovery run op)" for run op
    unfolding lookup_for_recovery_def Let_def by (intro keeps_intros finalize_effect reconciled)
  show looked: "preserves (db_inv I) (lookup run op)" for run op
    unfolding lookup_def
    by (intro keeps_intros recovered refresh_artifact_sources quiet_preserves quiet_intros)
  show "preserves (db_inv I) (reconcile_run run)"
    unfolding reconcile_run_def by (intro keeps_intros looked)
qed

lemma admitted_tool: "preserves (db_inv I) (admitted_tool g a tool)"
  unfolding admitted_tool_def
  by (intro keeps_intros read_record quiet_preserves quiet_is_admitted)

lemma dispatch_steps:
  "preserves (obs_inv I) (dispatch_branch g)" "preserves (obs_inv I) (dispatch_edit g w a)"
  "preserves (obs_inv I) (dispatch_tool g w a)"
proof -
  show "preserves (obs_inv I) (dispatch_branch g)"
    unfolding dispatch_branch_def by (intro keeps_intros start_dispatch)
  show "preserves (obs_inv I) (dispatch_edit g w a)"
    unfolding dispatch_edit_def by (intro keeps_intros start_dispatch)
  show "preserves (obs_inv I) (dispatch_tool g w a)"
    unfolding dispatch_tool_def check_evidence_def Let_def
    by (intro keeps_intros start_dispatch admitted_tool properties_read effect_log quiet_preserves quiet_intros)
qed

lemma dispatch_apply:
  assumes "\<And>a. preserves (db_inv I) (nested a)"
  shows "preserves (obs_inv I) (dispatch_apply nested run g w a)"
proof -
  have prepared: "preserves (obs_inv I) (prepare_apply g a branch reference)" for branch reference
    unfolding prepare_apply_def decode_intervention_def branch_base_def check_live_dependencies_def
      prepare_check_def Let_def
    by (intro keeps_intros read_record properties_read effect_log quiet_preserves quiet_intros)
  have checked: "preserves (obs_inv I) (run_check nested g a acc check)" for acc check
    unfolding run_check_def split_beta
    by (intro keeps_intros assms quiet_preserves quiet_intros)
  have reads: "quiet (checked_content g path branch a)" "quiet (check_checkers planned)"
      "quiet (check_inputs g path branch inputs)" "quiet (check_live_dependencies g base refusal references)"
    for path branch planned inputs base refusal references
    unfolding checked_content_def check_checkers_def check_inputs_def check_live_dependencies_def split_beta
    by (intro quiet_intros)+
  show ?thesis
    unfolding dispatch_apply_def split_beta
    by (intro keeps_intros prepared checked start_dispatch effect_log quiet_preserves reads)
qed

lemma dispatch:
  assumes "\<And>a. preserves (db_inv I) (nested a)"
  shows "preserves (obs_inv I) (dispatch nested run g)"
proof -
  have gate: "preserves (db_inv I) (dispatch_gate run g)"
    unfolding dispatch_gate_def action_room_def
    by (intro keeps_intros require_active run_allocation quiet_preserves quiet_intros)
  have intervention: "preserves (db_inv I) (check_intervention g w a)" for w a
    unfolding check_intervention_def decode_intervention_def check_read_versions_def
    by (intro keeps_intros read_record quiet_preserves quiet_intros)
  have "preserves (obs_inv I) (dispatch_kind nested run g w a)" for w a
    unfolding dispatch_kind_def
    by (cases "act_kind a") (simp_all add: dispatch_steps dispatch_apply [OF assms])
  then show ?thesis
    unfolding dispatch_def by (intro keeps_intros gate intervention effect_log)
qed

lemma execute: "preserves (db_inv I) (execute run a)"
proof -
  have new: "preserves (db_inv I) (execute_new nested run g a)"
    if "\<And>a. preserves (db_inv I) (nested a)" for nested g a
    unfolding execute_new_def commit_intent_def observed_outcome_def finish_observation_def Let_def split_beta
    by (intro keeps_intros run_allocation ingested dispatch that finalize_effect effect_log effect_intended
        quiet_preserves quiet_intros)
  have "preserves (db_inv I) (execute_within n run a)" for n a
  proof (induction n arbitrary: a)
    case 0
    show ?case unfolding execute_within.simps by (rule keeps_intros)
  next
    case (Suc n)
    show ?case unfolding execute_within.simps execute_action_def
      by (intro keeps_intros new Suc lookups quiet_preserves quiet_intros)
  qed
  then show ?thesis by (simp add: execute_def)
qed

lemma settle_effect:
  "preserves (db_inv I) (inspect_effect g op)" "preserves (db_inv I) (settle_effect g sq)"
proof -
  have owner: "quiet (require_effect_owner g op)" "quiet (receipt_version op)" for op
    unfolding require_effect_owner_def receipt_version_def by (intro quiet_intros)+
  have versions: "quiet (map_op (\<lambda>path. host_version g path None) paths)" for paths
    by (induction paths) (unfold map_op.simps, (intro quiet_intros; assumption)+)
  then have workspace: "quiet (workspace_versions g)" by (simp add: workspace_versions_def)
  show "preserves (db_inv I) (inspect_effect g op)"
    unfolding inspect_effect_def by (intro keeps_intros lookups quiet_preserves owner workspace)
  have recorded: "leads (\<lambda>d'. d' = d) I (seq (require_settled_bookkeeping row sq)
      (bind (record_settlement g run receipt sq row) (\<lambda>r. commit (False, r))))"
    if "I d" "effect_row d (esr_operation_id sq) = Some row" "ef_settlement row = None" for d row run receipt
  proof (rule leads_weaken)
    let ?K = "\<lambda>d. I d \<and> effect_row d (esr_operation_id sq) = Some row \<and> ef_settlement row = None"
    have "quiet (require_settled_bookkeeping row sq)"
      unfolding require_settled_bookkeeping_def Let_def by (intro quiet_intros owner)
    then show "leads ?K I (seq (require_settled_bookkeeping row sq)
        (bind (record_settlement g run receipt sq row) (\<lambda>r. commit (False, r))))"
      by (intro leads_seq leads_bind_then quiet_preserves effect_settled keeps_intros) simp_all
  qed (use that in simp)
  have transaction: "preserves (db_inv I) (settle_transaction g run receipt sq)" for run receipt
    unfolding settle_transaction_def preserves_leads
  proof (rule leads_bind, assumption, rule quiet_preserves [OF owner(1)], intro leads_query_res leads_if)
    fix d row
    assume d: "I d" "the_row (effect_row d (esr_operation_id sq)) = Inr row" and "ef_settlement row \<noteq> None"
    have "preserves (db_inv I) (bind (lookup_for_recovery run (esr_operation_id sq)) (\<lambda>saved.
        bind (settled_receipt g sq saved) (\<lambda>r. ret (Rollback (True, r)))))"
      unfolding settled_receipt_def by (intro keeps_intros lookups quiet_preserves quiet_intros)
    then show "leads (\<lambda>d'. d' = d) I (bind (lookup_for_recovery run (esr_operation_id sq)) (\<lambda>saved.
        bind (settled_receipt g sq saved) (\<lambda>r. ret (Rollback (True, r)))))"
      unfolding preserves_leads by (rule leads_weaken) (simp add: d)
  qed (auto intro: recorded)
  show "preserves (db_inv I) (settle_effect g sq)"
    unfolding settle_effect_def settled_receipt_def current_unknown_def split_beta
    by (intro keeps_intros lookups transaction require_reference quiet_preserves quiet_intros owner workspace)
qed

lemma policy_updated: "I d \<Longrightarrow> I (update_policy i f d)"
  by (simp add: update_policy_def component_tables)

lemma cleanup_files: "preserves (db_inv I) (cleanup_experiment_files g i)"
  unfolding cleanup_experiment_files_def
  by (intro keeps_intros policy_updated)

lemma host_operations:
  "preserves (db_inv I) (start_runtime exports)" "preserves (db_inv I) (settle_experiment_workspace g i stopped')"
  "preserves (db_inv I) (confirm_legacy_experiment_cleanup g i)"
proof -
  have files_recovered: "preserves (db_inv I) recover_export_files"
    unfolding recover_export_files_def
    by (intro keeps_intros withdraw_export refresh_export_files cleaned)
  show "preserves (db_inv I) (start_runtime exports)"
    unfolding start_runtime_def recover_experiment_files_def interrupt_runs_def
    by (intro keeps_intros files_recovered stops cleanup_files cleaned other_tables)
       (simp_all add: preserves_def db_inv_def modify_def)
  show "preserves (db_inv I) (settle_experiment_workspace g i stopped')"
    unfolding settle_experiment_workspace_def Let_def
    by (intro keeps_intros cleanup_files cleaned policy_updated)
  show "preserves (db_inv I) (confirm_legacy_experiment_cleanup g i)"
    unfolding confirm_legacy_experiment_cleanup_def
    by (intro keeps_intros cleaned component_tables)
qed

lemma feedback_saved:
  "I d \<Longrightarrow> I (save_feedback f d)" "I d \<Longrightarrow> I (insert_feedback f d)" "I d \<Longrightarrow> I (requeue_delivered g d)"
  by (simp_all add: save_feedback_def insert_feedback_def requeue_delivered_def component_tables)

lemma valid_feedback: "preserves (db_inv I) (valid_attachment_feedback f)"
proof -
  have both: "preserves (db_inv I) (and_op ms)" if "list_all (preserves (db_inv I)) ms" for ms
    using that by (induction ms) (unfold and_op.simps list.pred_inject, (intro keeps_intros; blast)+)
  show ?thesis
    unfolding valid_attachment_feedback_def
    by (intro keeps_intros refresh_artifact_sources both; simp only: list.pred_inject simp_thms;
        intro conjI keeps_intros read_record require_reference quiet_preserves quiet_intros)
qed

lemma feedback_operations:
  "preserves (db_inv I) (acknowledge_feedback fq)"
  "preserves (db_inv I) (attachment_feedback_page i)"
  "preserves (db_inv I) (begin_attachment_steering gq)"
  "preserves (db_inv I) (recover_attachment_deliveries grant)" "preserves (db_inv I) (disconnect_host g)"
proof -
  show "preserves (db_inv I) (acknowledge_feedback fq)"
    unfolding acknowledge_feedback_def Let_def
    by (intro keeps_intros feedback_saved quiet_preserves quiet_intros)
  have loop: "preserves (db_inv I) (feedback_loop bytes items fs)" for bytes items fs
  proof (induction bytes items fs rule: feedback_loop.induct)
    case (1 bytes items)
    show ?case unfolding feedback_loop.simps by (rule keeps_intros)
  next
    case (2 bytes items f fs)
    show ?case unfolding feedback_loop.simps
      by (intro keeps_intros valid_feedback feedback_saved 2; assumption)
  qed
  show "preserves (db_inv I) (attachment_feedback_page i)"
    unfolding attachment_feedback_page_def
    by (intro keeps_intros loop quiet_preserves quiet_active_attachment)
  show "preserves (db_inv I) (begin_attachment_steering gq)"
    unfolding begin_attachment_steering_def Let_def split_beta
    by (intro keeps_intros valid_feedback feedback_saved quiet_preserves quiet_active_attachment)
  show "preserves (db_inv I) (recover_attachment_deliveries grant)"
    unfolding recover_attachment_deliveries_def by (intro keeps_intros interrupt_attachment feedback_saved)
  show "preserves (db_inv I) (disconnect_host g)"
    unfolding disconnect_host_def by (intro keeps_intros interrupt_attachment)
qed

lemma repair_operations:
  "preserves (db_inv I) (begin_attachment_repair i rq)" "preserves (db_inv I) (release_attachment_repair lq)"
proof -
  show "preserves (db_inv I) (begin_attachment_repair i rq)"
    unfolding begin_attachment_repair_def grant_handoff_def validate_work_request_def Let_def split_beta
    by (intro keeps_intros enqueued add_attachment_work save_attachment require_reference
        quiet_preserves quiet_active_attachment quiet_intros)
  show "preserves (db_inv I) (release_attachment_repair lq)"
    unfolding release_attachment_repair_def settle_repair_effects_def
    by (intro keeps_intros lookups stops save_attachment)
qed

lemma read_artifact: "preserves (db_inv I) (read_artifact g aq)"
  unfolding read_artifact_def read_result_artifact_def read_export_artifact_def
  by (intro keeps_intros refresh_artifact_sources read_artifact_context quiet_preserves quiet_intros
      quiet_active_checks)

lemma quiet_tool_observation: "quiet (tool_observation run call_id b)"
  unfolding tool_observation_def Let_def by (intro quiet_intros quiet_active_checks)

lemma retained_tool: "preserves (db_inv I) (retained_tool run call_id)"
  unfolding retained_tool_def
  by (intro keeps_intros require_active refresh_artifact_sources quiet_preserves quiet_tool_observation)

lemma observe_tool:
  assumes "\<And>m x. preserves (db_inv I) (call run m x)"
  shows "preserves (db_inv I) (observe_tool call run q)"
proof -
  have pinned: "I d \<Longrightarrow> I (pin_source snapshot source d)" for snapshot source d
    by (simp add: pin_source_def edge_table)
  have retained: "preserves (db_inv I) (retain_result g run q digest content sources)"
    for g digest content sources
    unfolding retain_result_def record_unchanged_def
    by (intro keeps_intros snapshot_inserted; (erule (1) edged | erule pinned))
  show ?thesis
    unfolding observe_tool_def
    by (intro keeps_intros assms retained require_active retained_tool quiet_preserves
        quiet_intros quiet_tool_observation)
qed

lemma export_training: "preserves (db_inv I) (export_training run xq)"
proof -
  have reviewed: "preserves (db_inv I) (check_export_lineage g k i before)" for g k i before
    unfolding check_export_lineage_def by (rule quiet_preserves [OF quiet_review_loop])
  have manifest: "preserves (db_inv I) (manifest g xq)" for g
    unfolding manifest_def select_record_def manifest_edge_def Let_def split_beta
    by (intro keeps_intros reviewed read_record snapshot_inserted edge_table quiet_preserves quiet_intros)
  have publish: "preserves (db_inv I) (publish g plan)" for g plan
    unfolding publish_def make_available_def split_beta
    by (intro keeps_intros reviewed snapshots_kept quiet_preserves quiet_active_checks)
  show ?thesis
    unfolding export_training_def
    by (intro keeps_intros manifest publish require_active refresh_artifact_sources withdraw_export cleaned quiet_preserves
        quiet_intros)
qed

lemma import_external_episode: "preserves (db_inv I) (import_external_episode g source evs chunks)"
  unfolding import_external_episode_def publish_source_def publish_projection_def publish_event_def
  by (intro keeps_intros saved ingested snapshot_inserted quiet_preserves quiet_intros;
      erule edged, assumption)

lemma register_discovery_corpus: "preserves (db_inv I) (register_discovery_corpus codec g c)"
  unfolding register_discovery_corpus_def insert_corpus_def
  by (intro keeps_intros check_corpus component_tables)

lemmas operations = register begin_run finish_run save_checkpoint allocate closed budget_status permit
  permit_in_allocation dispatch_permit released usage request_work enqueue_work claim_work work_closed
  renewed ingested append_activity saved read_record retire cleaned depended invalidates send_message
  inbox_read acknowledged  parking_kept refresh_artifact_sources artifact_validity read_artifact continuation context_operations
  compaction_operations subscribe poll_subscription attachment_operations execute lookups settle_effect
  feedback_operations repair_operations retained_tool export_training import_external_episode
  host_operations complete_motif_context submit_for_run register_discovery_corpus

text \<open>A call of a worker, whatever method it names.\<close>

lemma answer:
  assumes others: "\<And>x y z w. preserves (db_inv I) (others x y z w)"
    and observe: "\<And>q. preserves (db_inv I) (observe q)"
  shows "preserves (db_inv I) (answer others observe run g q)"
  by (cases q; simp only: answer.simps reply_def done_reply_def invocation_material_def wait_for_work_def;
      (intro keeps_intros others observe operations require_active validate_invocation; fail
       | intro keeps_intros require_active quiet_preserves quiet_intros quiet_evidence_pages))

lemma gated:
  assumes "\<And>x y z w. preserves (db_inv I) (others x y z w)" "\<And>q. preserves (db_inv I) (observe q)"
  shows "preserves (db_inv I) (gated others observe run q)"
  unfolding gated_def call_gate_def split_beta
  by (intro keeps_intros answer assms require_active refresh_artifact_sources quiet_preserves quiet_intros)

lemma tool_call:
  assumes "\<And>x y z w. preserves (db_inv I) (others x y z w)"
  shows "preserves (db_inv I) (tool_call others decode encode run q)"
  unfolding tool_call_def
  by (intro gated observe_tool assms keeps_intros)

theorem step_keeps: "system_step s t \<Longrightarrow> I (store_db s) \<Longrightarrow> I (store_db t)"
proof (induction rule: system_step.induct)
  case (worker_called others decode encode run call s r65 t)
  show ?case
    using preservesD [OF tool_call _ worker_called(2)] worker_called(1,3)
    by (simp add: quiet_preserves db_inv_def)
qed (erule preservesD [unfolded db_inv_def, rotated 2], rule operations [unfolded db_inv_def],
      assumption)+

theorem reachable_keeps: "reachable s \<Longrightarrow> I empty_db \<Longrightarrow> I (store_db s)"
  by (induction rule: reachable.induct) (simp_all add: step_keeps)

theorem steps_keep: "system_step\<^sup>*\<^sup>* s t \<Longrightarrow> I (store_db s) \<Longrightarrow> I (store_db t)"
  by (induction rule: rtranclp_induct) (simp_all add: step_keeps)

end

section \<open>The ledger\<close>

lemma ledger_ignores_events: "ignores_events ledger_inv"
  unfolding ignores_events_def
  by (auto elim!: ledger_inv_other [rotated 2] simp: insert_event_def only_lineageD)

interpretation ledger_work: workless_invariant ledger_inv
  by unfold_locales
     (rule root_allocation_ledger allocate_in_ledger ingest_keeps [OF ledger_ignores_events]
       ledger_inv_set_disposition | erule ledger_inv_other [rotated 2], simp, simp)+

lemma register_grant_ledger: "preserves (db_inv ledger_inv) (register_grant g)"
  unfolding register_grant_def by (intro keeps_intros) (auto elim!: ledger_inv_other [rotated 2])

interpretation ledger_lineage: lineageless_invariant ledger_inv
  by unfold_locales (erule ledger_inv_other [rotated 2], (simp add: only_lineageD)+)

interpretation ledger_dependencies: undepended_invariant ledger_inv
  by unfold_locales (erule ledger_inv_other [rotated 2]; simp)+

interpretation ledger_messages: messageless_invariant ledger_inv
  by unfold_locales
     (rule save_record_keeps [OF ledger_ignores_retention] cleanup_sources_keeps [OF ledger_ignores_retention]
       root_allocation_ledger ingest_keeps [OF ledger_ignores_events]
     | erule ledger_inv_other [rotated 2], simp, simp)+

interpretation ledger_effects: effectless_invariant ledger_inv
  by unfold_locales
     (rule ingest_keeps [OF ledger_ignores_events] ledger_dependencies.dependency_operations
     | erule ledger_dependencies.cleared | erule ledger_inv_other [rotated 2], simp, simp)+

interpretation ledger: store_invariant ledger_inv
  by unfold_locales
     (rule ledger_dependencies.dependency_operations register_grant_ledger root_allocation_ledger
       allocate_in_ledger finish_allocation_ledger issue_permit_ledger dispatch_reserved_ledger
       release_permit_ledger report_usage_ledger ingest_keeps [OF ledger_ignores_events]
       save_record_keeps [OF ledger_ignores_retention] cleanup_sources_keeps [OF ledger_ignores_retention]
       ledger_work.work_operations ledger_messages.message_operations ledger_effects.effect_operations
       insert_item_keeps
     | erule ledger_inv_set_disposition ledger_lineage.lineage_writes ledger_dependencies.cleared
     | erule (1) ledger_lineage.edged | erule ledger_inv_other [rotated 2], simp, simp)+

lemma empty_ledger: "ledger_inv empty_db"
  by (simp add: ledger_inv_def empty_db_def alloc_inv_def tree_ok_def permits_ok_def depth_ok_def)

lemma reachable_ledger: "reachable s \<Longrightarrow> ledger_inv (store_db s)"
  using ledger.reachable_keeps empty_ledger by blast

end
