(* ===== verification/Scenario.thy ===== *)
theory Scenario
  imports Steps "HOL-Library.Code_Target_Nat"
begin

text \<open>
  Concrete stores, so that the theorems of the development can be applied: an empty store, a
  development grant, a run begun under it, and the operations a small session performs. The
  third-party parameters are instantiated: the digest is the identity, every serialised size is one
  hundred bytes, the clock stands still, UUIDs are numbered and the host has one file.
\<close>

definition demo_artifact :: ArtifactRef where
  "demo_artifact = \<lparr>ar_path = ''a.txt'', ar_version = ''v1''\<rparr>"

definition demo_host :: HostAdapter where
  "demo_host = \<lparr>
     hst_read = (\<lambda>_ _ q _. Inr \<lparr>ach_artifact = demo_artifact, ach_content = ''text'', ach_offset = 0,
       ach_total_bytes = ''4'', ach_eof = True, ach_snapshot_id = None, ach_required_freshness = None\<rparr>),
     hst_version = (\<lambda>_ _ _ _. Inr demo_artifact),
     hst_prepare_edit = (\<lambda>_ _ _ _ _. Inr demo_artifact),
     hst_prepare_tool = (\<lambda>_ _ _ _ _. Inr \<lparr>pt_writes = [], pt_checker_version = ''c1'', pt_properties = []\<rparr>),
     hst_checker_version = (\<lambda>_ _. Inr ''c1''),
     hst_edit = (\<lambda>_ _ _ _ _ _. Inr (demo_artifact\<lparr>ar_version := ''v2''\<rparr>)),
     hst_run_tool = (\<lambda>_ _ _ _ _. Inr \<lparr>co_success = True, co_output = ''ok'', co_before = [demo_artifact],
       co_after = [demo_artifact], co_validates = [''a.txt''], co_writes = [],
       co_checker_version = ''c1'', co_validation_outcome = ValidationEvidenceOutcome.Passed,
       co_properties = []\<rparr>),
     hst_branch = (\<lambda>_ _ _. Inr [demo_artifact]),
     hst_cancelled = (\<lambda>_ _. False), hst_is_file = (\<lambda>_ _. Inr True)\<rparr>"

definition demo_world :: World where
  "demo_world = \<lparr>store_db = empty_db, store_in_tx = False, env_clock = (\<lambda>_. 1000), env_reads = 0,
     env_uuids = (\<lambda>n. ''id'' @ to_string n), env_issued = 0, env_sha256 = (\<lambda>s. s),
     env_event_bytes = (\<lambda>_. 100), env_checkpoint_bytes = (\<lambda>_. 100),
     env_bindings_bytes = (\<lambda>_. 100), env_implementation_of = (\<lambda>_. Inl (invalid ''none'')),
     env_admission_of = (\<lambda>_. Inl (invalid ''none'')), env_dependency_bytes = (\<lambda>_. 100),
     env_event_mentions = (\<lambda>_ _. False), env_page_bytes = (\<lambda>_. 100),
     store_export_directory = None, env_is_uuid = (\<lambda>_. False),
     env_same_directory = (\<lambda>_. Inr True), env_remove_file = (\<lambda>_. Absent),
     env_remove_workspace = (\<lambda>_. Inr ()), env_legacy_exports = (\<lambda>_ _. Inr ()),
     env_host = demo_host, env_host_calls = 0, env_state_dir = ''state'',
     env_grant_json = (\<lambda>_. ''grant''), env_receipt_json = (\<lambda>_. ''receipt''),
     env_receipt_map = (\<lambda>r. [(''content_available'',
       JBool (rcp_content_available r = Some True))]), env_settlement_map = (\<lambda>_. []),
     env_settlement_bytes = (\<lambda>_. 100), env_batch_bytes = (\<lambda>_. 100),
     env_feedback_bytes = (\<lambda>_. 100), env_json_text = (\<lambda>_. ''json''),
     env_json_parse = (\<lambda>_. Inl (invalid ''none'')), env_pages_text = (\<lambda>_. ''pages''),
     env_append_bytes = (\<lambda>_. 100), env_compaction_bytes = (\<lambda>_. 100),
     env_chunk_json = (\<lambda>_. JNull), env_chunk_of = (\<lambda>_. Inl (invalid ''none'')),
     env_source_of = (\<lambda>_. Inl (invalid ''none'')), env_intervention_of = (\<lambda>_. Inl (invalid ''none'')),
     env_obligation_of = (\<lambda>_. Inl (invalid ''none'')), env_memory_of = (\<lambda>_. Inl (invalid ''none'')),
     env_episode_bytes = (\<lambda>_ _ _. 0), env_export_line = (\<lambda>_ _ _. ''''),
     env_read_file = (\<lambda>_. Inr None), env_write_file = (\<lambda>_ _. Inr ())\<rparr>"

definition demo_scope :: Scope where
  "demo_scope = \<lparr>sc_client = ''acme'', sc_project = ''site''\<rparr>"

definition demo_budget :: Budget where
  "demo_budget = \<lparr>b_max_calls = 2, b_max_tokens = ''1000'', b_max_cost_microusd = ''500'',
     b_max_actions = 3, b_max_work_items = 2, b_max_depth = 2, b_deadline_ms = ''5000''\<rparr>"

definition demo_grant :: Grant where
  "demo_grant = \<lparr>g_id = ''g'', g_scope = demo_scope, g_mode = Mode.Observe, g_paths = [''a.txt''],
     g_tools = [], g_profiles = [Profile.Caretaker, Profile.Curator], g_budget = demo_budget,
     g_context = ''ctx'', g_visible_splits = [Split.Development], g_allow_export = False,
     g_required_checks = None, g_writable_paths = None, g_discovery_corpus = None,
     g_prepared_run = None\<rparr>"

definition demo_request :: AgentRunRequest where
  "demo_request = \<lparr>rq_run_id = ''r'', rq_profile = Profile.Caretaker, rq_operator = ''care@1'',
     rq_prompt = ''look'', rq_provider = ''p'', rq_model = ''m'', rq_checkpoint = None,
     rq_parent_allocation_id = None, rq_discovery_corpus = None, rq_invocation = None\<rparr>"

definition demo_permit :: PermitRequest where
  "demo_permit = \<lparr>pr_max_output_tokens = 100, pr_input_tokens_bound = ''50'',
     pr_cost_microusd_bound = ''200'', pr_compaction_id = None, pr_call_id = Some ''c1''\<rparr>"

definition demo_usage :: Usage where
  "demo_usage = \<lparr>u_permit_id = ''id0'', u_input_tokens = ''40'', u_output_tokens = ''60'',
     u_cost_microusd = ''150'', u_complete = True\<rparr>"

definition demo_work :: WorkRequest where
  "demo_work = \<lparr>wr_subject = ''s'', wr_profile = Profile.Curator, wr_operator = ''curate@1'',
     wr_reason = ''follow up'', wr_evidence_refs = []\<rparr>"

definition demo_event :: Event where
  "demo_event = \<lparr>ev_id = ''e1'', ev_scope = demo_scope, ev_run_id = ''w'', ev_producer = ''host'',
     ev_sequence = ''1'', ev_kind = ''seen'', ev_timestamp_ms = ''900'', ev_parents = [],
     ev_correlation = ''w'', ev_artifacts = [], ev_payload = [],
     ev_provenance = \<lparr>pv_origin = Origin.Observed, pv_source_refs = [], pv_scenario_family = ''demo'',
       pv_split = Split.Development, pv_limitations = []\<rparr>\<rparr>"

definition demo_record :: RecordEnvelope where
  "demo_record = \<lparr>r_schema_version = ''1'', r_id = ''rec'', r_scope = demo_scope,
     r_kind = RecordKind.Finding, r_version = ''1'', r_created_ms = ''900'', r_updated_ms = ''900'',
     r_retired = False, r_provenance = \<lparr>pv_origin = Origin.Observed, pv_source_refs = [''e1''],
       pv_scenario_family = ''demo'', pv_split = Split.Development, pv_limitations = []\<rparr>,
     r_body = [(''text'', JString ''x'')]\<rparr>"

text \<open>The store each step leaves behind.\<close>

definition granted_world :: World where
  "granted_world = snd (register_grant demo_grant demo_world)"

definition running_world :: World where
  "running_world = snd (begin_run ''r'' ''g'' demo_request granted_world)"

definition permit_world :: World where
  "permit_world = snd (permit ''r'' demo_permit running_world)"

definition dispatched_world :: World where
  "dispatched_world = snd (dispatch_permit ''r'' ''id0'' permit_world)"

definition settled_world :: World where
  "settled_world = snd (usage ''r'' demo_usage dispatched_world)"

definition work_world :: World where
  "work_world = snd (request_work ''r'' demo_work running_world)"

definition event_world :: World where
  "event_world = snd (ingest demo_event granted_world)"

definition record_world :: World where
  "record_world = snd (save_record_for_run demo_record None None event_world)"

definition demo_retirement :: RetireRequest where
  "demo_retirement = \<lparr>rtr_id = ''rec'', rtr_expected_version = ''1'', rtr_delete = True\<rparr>"

definition retired_world :: World where
  "retired_world = snd (retire demo_grant demo_retirement record_world)"

text \<open>A second run may use a tool; the first one sends itself a message and rebuilds a context.\<close>

definition demo_action :: Action where
  "demo_action = \<lparr>act_operation_id = ''op'', act_kind = ActionKind.Check, act_path = None,
     act_expected_version = None, act_content = None, act_tool = Some ''test'', act_branch_id = None,
     act_intervention_ref = None, act_implementation = None\<rparr>"

definition acting_grant :: Grant where
  "acting_grant = demo_grant\<lparr>g_id := ''h'', g_tools := [''test'']\<rparr>"

definition armed_world :: World where
  "armed_world = snd (register_grant acting_grant running_world)"

definition acting_world :: World where
  "acting_world = snd (begin_run ''r2'' ''h'' (demo_request\<lparr>rq_run_id := ''r2''\<rparr>) armed_world)"

definition acted_world :: World where
  "acted_world = snd (execute ''r2'' demo_action acting_world)"

definition demo_message :: MessageSend where
  "demo_message = \<lparr>ms_recipient = ''r'', ms_topic = ''t'', ms_body = ''hello'', ms_correlation = ''c''\<rparr>"

definition sent_world :: World where
  "sent_world = snd (send_message ''r'' demo_message running_world)"

definition demo_checkpoint :: Checkpoint where
  "demo_checkpoint = \<lparr>cp_format = ''pi-0.85.1/1'', cp_profile = Profile.Caretaker,
     cp_operator = ''care@1'', cp_provider = ''p'', cp_model = ''m'', cp_messages = [],
     cp_pending_operations = [], cp_event_cursor = ''0'', cp_context = None\<rparr>"

definition saved_world :: World where
  "saved_world = snd (save_checkpoint ''r'' demo_checkpoint running_world)"

definition context_world :: World where
  "context_world = snd (authorize_context ''r'' saved_world)"

text \<open>They are reachable.\<close>

lemma reachable_granted: "reachable granted_world"
  unfolding granted_world_def
  by (rule stepped [OF opened grant_registered [OF surjective_pairing]]) (simp_all add: demo_world_def)

lemma reachable_running: "reachable running_world"
  unfolding running_world_def
  by (rule stepped [OF reachable_granted run_begun [OF surjective_pairing]])

lemma reachable_permit: "reachable permit_world"
  unfolding permit_world_def
  by (rule stepped [OF reachable_running call_permitted [OF surjective_pairing]])

lemma reachable_dispatched: "reachable dispatched_world"
  unfolding dispatched_world_def
  by (rule stepped [OF reachable_permit call_dispatched [OF surjective_pairing]])

lemma reachable_settled: "reachable settled_world"
  unfolding settled_world_def
  by (rule stepped [OF reachable_dispatched call_reported [OF surjective_pairing]])

lemma reachable_work: "reachable work_world"
  unfolding work_world_def
  by (rule stepped [OF reachable_running work_requested [OF surjective_pairing]])

lemma reachable_event: "reachable event_world"
  unfolding event_world_def
  by (rule stepped [OF reachable_granted event_ingested [OF surjective_pairing]])

lemma reachable_record: "reachable record_world"
  unfolding record_world_def
  by (rule stepped [OF reachable_event record_saved [OF surjective_pairing]])

lemma reachable_acting: "reachable acting_world"
  unfolding acting_world_def armed_world_def
  by (rule stepped [OF stepped [OF reachable_running grant_registered [OF surjective_pairing]]
        run_begun [OF surjective_pairing]])

lemma reachable_acted: "reachable acted_world"
  unfolding acted_world_def
  by (rule stepped [OF reachable_acting action_executed [OF surjective_pairing]])

lemma reachable_sent: "reachable sent_world"
  unfolding sent_world_def
  by (rule stepped [OF reachable_running message_sent [OF surjective_pairing]])

lemma reachable_context: "reachable context_world"
  unfolding context_world_def saved_world_def
  by (rule stepped [OF stepped [OF reachable_running run_checkpointed [OF surjective_pairing]]
        context_authorized [OF surjective_pairing]])

lemma scenario_steps:
  "system_step\<^sup>*\<^sup>* granted_world running_world" "system_step\<^sup>*\<^sup>* running_world permit_world"
  "system_step\<^sup>*\<^sup>* permit_world dispatched_world" "system_step\<^sup>*\<^sup>* dispatched_world settled_world"
  "system_step\<^sup>*\<^sup>* event_world record_world" "system_step\<^sup>*\<^sup>* record_world retired_world"
  unfolding running_world_def permit_world_def dispatched_world_def settled_world_def record_world_def
    retired_world_def
  by (rule r_into_rtranclp, (rule run_begun call_permitted call_dispatched call_reported record_saved
      record_retired), rule surjective_pairing)+

lemma run_eq: "fst (m s) = r \<Longrightarrow> m s = (r, snd (m s))"
  by (metis prod.collapse)

end
