(* ===== verification/WorkQueue.thy ===== *)
theory WorkQueue
  imports Steps
begin

text \<open>
  The invariant of the queue, and what the operations of Work promise under it: an item keeps its
  identity, its columns agree with its body, it is attempted at most three times, and the claim
  loop always has the fuel it needs.
\<close>

section \<open>The invariant\<close>

text \<open>
  The status and lease columns are copies of the body's; the lease column holds the number the
  body's counter spells. An item in the queue was never attempted.
\<close>

definition work_row_ok :: "WorkRow \<Rightarrow> bool" where
  "work_row_ok w \<longleftrightarrow>
     w_id (wk_body w) = wk_id w \<and> w_status (wk_body w) = wk_status w \<and>
     w_subject (wk_body w) = wk_subject w \<and> w_root_id (wk_body w) = wk_root_id w \<and>
     counter (w_lease_until_ms (wk_body w)) = Inr (wk_lease_until_ms w) \<and>
     w_attempts (wk_body w) \<le> 3 \<and> 1 \<le> w_depth (wk_body w) \<and>
     (wk_status w = WorkItemStatus.Queued \<longrightarrow> w_attempts (wk_body w) = 0)"

definition work_inv :: "Db \<Rightarrow> bool" where
  "work_inv d \<longleftrightarrow>
     distinct (map wk_id (work d)) \<and>
     distinct (map (\<lambda>w. (wk_grant_id w, wk_subject w)) (work d)) \<and>
     list_all work_row_ok (work d)"

lemma work_inv_table: "work d' = work d \<Longrightarrow> work_inv d' = work_inv d"
  by (simp add: work_inv_def)

lemma work_inv_tableI: "work d' = work d \<Longrightarrow> work_inv d \<Longrightarrow> work_inv d'"
  by (simp add: work_inv_def)

lemma work_inv_rowD: "work_inv d \<Longrightarrow> w \<in> set (work d) \<Longrightarrow> work_row_ok w"
  by (simp add: work_inv_def list_all_iff)

lemma work_row_iff:
  "work_inv d \<Longrightarrow> work_row d i = Some w \<longleftrightarrow> w \<in> set (work d) \<and> wk_id w = i"
  unfolding work_row_def work_inv_def using find_key [of wk_id "work d" w] find_Some_iff2 by fastforce

lemma work_inv_update_where:
  assumes "work_inv d"
    and "\<And>w. w \<in> set (work d) \<Longrightarrow> P w \<Longrightarrow> work_row_ok (f w) \<and> wk_id (f w) = wk_id w \<and>
      wk_grant_id (f w) = wk_grant_id w \<and> wk_subject (f w) = wk_subject w"
  shows "work_inv (d\<lparr>work := update_where P f (work d)\<rparr>)"
proof -
  have "map wk_id (update_where P f (work d)) = map wk_id (work d)"
    and "map (\<lambda>w. (wk_grant_id w, wk_subject w)) (update_where P f (work d)) =
      map (\<lambda>w. (wk_grant_id w, wk_subject w)) (work d)"
    unfolding update_where_def using assms(2) by simp_all
  moreover have "\<forall>w \<in> set (update_where P f (work d)). work_row_ok w"
    using assms by (force simp: set_update_where work_inv_def list_all_iff)
  ultimately show ?thesis using assms(1) by (simp add: work_inv_def list_all_iff)
qed

lemma work_inv_update:
  assumes "work_inv d"
    and "\<And>w. w \<in> set (work d) \<Longrightarrow> wk_id w = i \<Longrightarrow> work_row_ok (f w) \<and> wk_id (f w) = wk_id w \<and>
      wk_grant_id (f w) = wk_grant_id w \<and> wk_subject (f w) = wk_subject w"
  shows "work_inv (update_work i f d)"
  unfolding update_work_def by (rule work_inv_update_where) (use assms in auto)

lemma stop_row_ok:
  assumes "work_row_ok w"
  shows "st \<noteq> WorkItemStatus.Queued \<Longrightarrow> work_row_ok (stop_row st w)"
    and "wk_id (stop_row st w) = wk_id w" "wk_grant_id (stop_row st w) = wk_grant_id w"
      "wk_subject (stop_row st w) = wk_subject w"
  using assms by (simp_all add: work_row_ok_def stop_row_def)

lemma stopped_status_queued [simp]: "stopped_status v \<noteq> WorkItemStatus.Queued"
  by (cases v) simp_all

lemma work_inv_update_row:
  assumes "work_inv d" "w \<in> set (work d)" "w_id item = wk_id w"
    and "work_row_ok (f w)" "wk_id (f w) = wk_id w" "wk_grant_id (f w) = wk_grant_id w"
      "wk_subject (f w) = wk_subject w"
  shows "work_inv (update_work (w_id item) f d)"
proof (rule work_inv_update [OF assms(1)])
  fix q assume "q \<in> set (work d)" "wk_id q = w_id item"
  then have "q = w" using assms(1-3) unfolding work_inv_def by (metis distinct_key_eq)
  with assms show "work_row_ok (f q) \<and> wk_id (f q) = wk_id q \<and> wk_grant_id (f q) = wk_grant_id q \<and>
    wk_subject (f q) = wk_subject q" by simp
qed

lemma set_disposition_work [simp]: "work (set_disposition i v d) = work d"
  by (cases i) (simp_all add: set_disposition_def update_allocation_def)

section \<open>Leases\<close>

lemma counter_le: "counter v = Inr n \<Longrightarrow> n \<le> u64_max"
  by (auto simp: counter_def parse_u64_def Let_def split: option.splits if_splits)

lemma counter_lease: "lease \<le> deadline \<Longrightarrow> counter v = Inr deadline \<Longrightarrow> counter (to_string lease) = Inr lease"
  using counter_le counter_to_string by fastforce

lemma first_claimable_Some:
  assumes "first_claimable g att ids now d = Some item"
  obtains w where "w \<in> set (work d)" "claimable d g att ids now w" "wk_body w = item"
proof -
  let ?rows = "filter (claimable d g att ids now) (work d)"
  obtain w ws where eq: "sort_key wk_id ?rows = w # ws" and body: "wk_body w = item"
    using assms unfolding first_claimable_def by (auto split: list.splits)
  have "w \<in> set (sort_key wk_id ?rows)" unfolding eq by simp
  then have "w \<in> set (work d)" "claimable d g att ids now w" by simp_all
  with body that show ?thesis by blast
qed

lemma first_claimable_None:
  "first_claimable g att ids now d = None \<longleftrightarrow> (\<forall>w \<in> set (work d). \<not> claimable d g att ids now w)"
proof -
  let ?rows = "filter (claimable d g att ids now) (work d)"
  have "set (sort_key wk_id ?rows) = set ?rows" by (rule set_sort)
  moreover have "first_claimable g att ids now d = None \<longleftrightarrow> sort_key wk_id ?rows = []"
    by (cases "sort_key wk_id ?rows") (simp_all add: first_claimable_def)
  ultimately show ?thesis by (metis filter_empty_conv set_empty)
qed

lemma fail_work_inv:
  assumes "work_inv d" "w \<in> set (work d)" "wk_body w = item" "3 \<le> w_attempts item"
  shows "work_inv (fail_work item d)"
proof -
  have ok: "work_row_ok w" using assms work_inv_rowD by blast
  have "work_inv (update_work (w_id item)
     (\<lambda>w. w\<lparr>wk_status := WorkItemStatus.Failed, wk_body := item\<lparr>w_status := WorkItemStatus.Failed\<rparr>\<rparr>) d)"
    by (rule work_inv_update_row [OF assms(1,2)]) (use ok assms in \<open>simp_all add: work_row_ok_def\<close>)
  then show ?thesis by (simp add: fail_work_def Let_def work_inv_def)
qed

lemma write_lease_inv:
  assumes "work_inv d" "w \<in> set (work d)" "wk_body w = item" "w_attempts item < 3"
    "counter (to_string lease) = Inr lease"
  shows "work_inv (write_lease (leased item owner lease) lease d)"
proof -
  have ok: "work_row_ok w" using assms work_inv_rowD by blast
  show ?thesis unfolding write_lease_def
    by (rule work_inv_update_row [OF assms(1,2)])
       (use ok assms in \<open>simp_all add: work_row_ok_def leased_def\<close>)
qed

text \<open>The loop keeps what its two writes keep.\<close>

lemma claim_loop_keeps:
  assumes inv: "\<And>d. I d \<Longrightarrow> work_inv d"
    and failed: "\<And>d w now. I d \<Longrightarrow> w \<in> set (work d) \<Longrightarrow> claimable d (g_id g) att ids now w \<Longrightarrow>
      3 \<le> w_attempts (wk_body w) \<Longrightarrow> I (fail_work (wk_body w) d)"
    and lent: "\<And>d w now lease. I d \<Longrightarrow> w \<in> set (work d) \<Longrightarrow> claimable d (g_id g) att ids now w \<Longrightarrow>
      w_attempts (wk_body w) < 3 \<Longrightarrow> counter (to_string lease) = Inr lease \<Longrightarrow>
      I (write_lease (leased (wk_body w) owner lease) lease d)"
  shows "preserves (db_inv I) (claim_loop fuel g owner k att ids)"
proof (induction fuel)
  case 0
  show ?case unfolding claim_loop.simps by (rule keeps_intros)
next
  case (Suc fuel)
  have failing: "leads (\<lambda>d'. d' = d) I (seq (exec (fail_work item)) (claim_loop fuel g owner k att ids))"
    if d: "I d" and found: "first_claimable (g_id g) att ids now d = Some item" and three: "3 \<le> w_attempts item"
    for d now item
  proof (rule leads_exec_keeps [OF _ Suc])
    obtain w where "w \<in> set (work d)" "claimable d (g_id g) att ids now w" "wk_body w = item"
      using found by (rule first_claimable_Some)
    then have "I (fail_work item d)" using failed d three by blast
    then show "d' = d \<Longrightarrow> I (fail_work item d')" for d' by simp
  qed
  have lending: "leads (\<lambda>d'. d' = d) I (bind now_ms (\<lambda>now.
      bind (lift (counter (b_deadline_ms (g_budget g)))) (\<lambda>deadline.
      seq (exec (write_lease (leased item owner (min (add_u64 now k) deadline)) (min (add_u64 now k) deadline)))
        (commit (Some (leased item owner (min (add_u64 now k) deadline)))))))"
    if d: "I d" and found: "first_claimable (g_id g) att ids now d = Some item" and "\<not> 3 \<le> w_attempts item"
    for d now item
  proof -
    from found obtain w where w: "w \<in> set (work d)" "claimable d (g_id g) att ids now w" "wk_body w = item"
      by (rule first_claimable_Some)
    show ?thesis
      by (intro leads_now leads_lift leads_exec_keeps keeps_intros)
         (use d w that(3) lent [OF d w(1,2)] counter_lease [OF min.cobounded2] in auto)
  qed
  show ?case
    unfolding preserves_leads claim_loop.simps Let_def
    by (intro leads_now leads_query leads_option leads_if failing lending) (auto simp: leads_def commit_def)
qed

lemma claim_loop_inv: "preserves (db_inv work_inv) (claim_loop fuel g owner k att ids)"
  by (rule claim_loop_keeps) (auto intro: fail_work_inv write_lease_inv)

section \<open>Enqueueing\<close>

text \<open>The operations a new item takes on the way to its insertion do not touch the queue.\<close>

definition unprocessed :: "string \<Rightarrow> string \<Rightarrow> Db \<Rightarrow> bool" where
  "unprocessed g subject d \<longleftrightarrow>
     work_inv d \<and> \<not> (\<exists>w \<in> set (work d). wk_grant_id w = g \<and> wk_subject w = subject)"

lemma unprocessed_inv: "unprocessed g subject d \<Longrightarrow> work_inv d"
  by (simp add: unprocessed_def)

interpretation unprocessed: budgetless_invariant "unprocessed g subject" for g subject
  by unfold_locales (simp_all add: unprocessed_def work_inv_def)

lemma unprocessed_ignores_events: "ignores_events (unprocessed g subject)"
  by (simp add: ignores_events_def insert_event_def only_lineageD unprocessed_def work_inv_def)

lemma insert_work_inv:
  assumes "unprocessed (wk_grant_id row) (wk_subject row) d" "work_row_ok row"
    "work_row d (wk_id row) = None"
  shows "work_inv (insert_work row d)"
  using assms by (auto simp: unprocessed_def work_inv_def insert_work_def work_row_def find_None_iff2)


lemma inherit_attachment_work [simp]: "work (inherit_attachment i run d) = work d"
  by (simp add: inherit_attachment_def)

lemma create_work_inv:
  assumes "1 \<le> depth"
  shows "leads (unprocessed (g_id grant) (wr_subject request)) work_inv
    (create_work grant run request depth root_id parent)"
  unfolding create_work_def Let_def
  by (intro leads_bind [OF unprocessed_inv] keeps_intros unprocessed.child
      ingest_keeps [OF unprocessed_ignores_events] leads_then leads_insert_row [OF unprocessed_inv])
     (use assms in \<open>auto simp: unprocessed_def work_row_of_def new_work_item_def work_row_ok_def
        counter_def parse_u64_def is_digit_def digit_value_def
        intro!: insert_work_inv work_inv_tableI [OF inherit_attachment_work]\<close>)

lemma enqueue_work_in_inv: "preserves (db_inv work_inv) (enqueue_work_in g run q)"
proof -
  have created: "leads (unprocessed (g_id g) (wr_subject q)) work_inv
     (bind (case found of Some i \<Rightarrow> query_res (allocation g i) | None \<Rightarrow> root_allocation_in g) (\<lambda>parent.
      bind (query_res (allocation_ancestry g (a_id parent))) (\<lambda>owners.
      seq (for_each owners (\<lambda>owner. query_res (work_room depth owner))) (
      create_work g run q depth root_id parent))))" if "1 \<le> depth" for found depth root_id
    by (intro leads_bind leads_seq unprocessed_inv keeps_intros unprocessed.root create_work_inv that)
  show ?thesis
    unfolding preserves_leads enqueue_work_in_def split_beta
    by (intro leads_weaken [OF created] leads_intros leads_seq keeps_intros)
       (auto simp: unprocessed_def work_position_def split: option.splits)
qed

section \<open>Closing and renewing\<close>

lemma close_work_inv:
  assumes "work_inv d" "work_row d i = Some w" "w_status (wk_body w) = WorkItemStatus.Running"
    "status \<noteq> WorkItemStatus.Queued"
  shows "work_inv (close_work i (wk_body w) status d)"
proof -
  have w: "w \<in> set (work d)" "wk_id w = i" "work_row_ok w"
    using assms work_row_iff work_inv_rowD by blast+
  then have id: "w_id (wk_body w) = i" and running: "wk_status w = WorkItemStatus.Running"
    using assms(3) by (simp_all add: work_row_ok_def)
  let ?d = "set_disposition (work_allocation_ref i d) (work_disposition status) d"
  have "work_inv ?d" using assms(1) by (simp add: work_inv_def)
  then have "work_inv (update_work (w_id (wk_body w))
     (\<lambda>w'. w'\<lparr>wk_status := status, wk_body := (wk_body w)\<lparr>w_status := status\<rparr>\<rparr>) ?d)"
    by (rule work_inv_update_row)
       (use w running id assms(4) in \<open>auto simp: work_row_ok_def\<close>)
  then show ?thesis by (simp add: close_work_def id)
qed

lemma finish_work_inv: "preserves (db_inv work_inv) (finish_work i owner status)"
  unfolding preserves_leads finish_work_def Let_def
  by (intro leads_intros) (auto intro: close_work_inv)

lemma renew_row_inv:
  assumes "work_inv d" "work_row d i = Some w" "counter (to_string lease) = Inr lease"
  shows "work_inv (update_work i (\<lambda>w'. w'\<lparr>wk_lease_until_ms := lease,
    wk_body := (wk_body w)\<lparr>w_lease_until_ms := to_string lease\<rparr>\<rparr>) d)"
proof -
  have w: "w \<in> set (work d)" "wk_id w = i" "work_row_ok w"
    using assms work_row_iff work_inv_rowD by blast+
  then have id: "w_id (wk_body w) = i" by (simp add: work_row_ok_def)
  have "work_inv (update_work (w_id (wk_body w)) (\<lambda>w'. w'\<lparr>wk_lease_until_ms := lease,
    wk_body := (wk_body w)\<lparr>w_lease_until_ms := to_string lease\<rparr>\<rparr>) d)"
    by (rule work_inv_update_row [OF assms(1)])
       (use w id assms(3) in \<open>auto simp: work_row_ok_def\<close>)
  then show ?thesis by (simp add: id)
qed

lemma renew_work_inv: "preserves (db_inv work_inv) (renew_work i owner ms)"
  unfolding preserves_leads renew_work_def Let_def
  by (intro leads_intros) (auto intro: renew_row_inv counter_lease [OF min.cobounded2])

section \<open>Every step keeps the queue\<close>

interpretation queue_budget: budgetless_invariant work_inv
  by unfold_locales (simp_all add: work_inv_def)

lemma outside_work: "outside_retention d' = outside_retention d \<Longrightarrow> work d' = work d"
  by (drule arg_cong [of _ _ work]) (simp add: outside_retention_def without_lineage_def)

lemma work_ignores: "ignores_events work_inv" "ignores_retention work_inv"
  by (auto simp: ignores_events_def insert_event_def only_lineageD ignores_retention_def
      elim!: work_inv_tableI [rotated] dest!: outside_work)

lemma register_grant_inv: "preserves (db_inv work_inv) (register_grant g)"
  unfolding register_grant_def by (intro keeps_intros) (simp_all add: work_inv_def)

interpretation queue_dependencies: undepended_invariant work_inv
  by unfold_locales (simp_all add: work_inv_def)

lemma stop_child_inv: "preserves (db_inv work_inv) (stop_child run v running i)"
  unfolding stop_child_def close_allowance_def
  by (intro keeps_intros queue_budget.disposed work_inv_update)
     (simp_all add: stop_row_ok work_inv_rowD)

lemma stopped_inv:
  "st \<noteq> WorkItemStatus.Queued \<Longrightarrow> work_inv d \<Longrightarrow>
     work_inv (d\<lparr>work := update_where P (stop_row st) (work d)\<rparr>)"
  by (rule work_inv_update_where) (simp_all add: stop_row_ok work_inv_rowD)

interpretation queue_lineage: lineageless_invariant work_inv
  by unfold_locales (simp add: work_inv_def only_lineageD)

interpretation queue_messages: messageless_invariant work_inv
  by unfold_locales
     (rule save_record_keeps [OF work_ignores(2)] cleanup_sources_keeps [OF work_ignores(2)]
       queue_budget.allocation_operations ingest_keeps [OF work_ignores(1)]
     | erule work_inv_tableI [rotated], simp)+

interpretation queue_effects: effectless_invariant work_inv
  by unfold_locales
     (rule ingest_keeps [OF work_ignores(1)] queue_dependencies.dependency_operations
     | erule queue_dependencies.cleared | erule work_inv_tableI [rotated], simp)+

interpretation queue: store_invariant work_inv
  by unfold_locales
     (rule queue_dependencies.dependency_operations register_grant_inv queue_budget.budget_operations
       ingest_keeps [OF work_ignores(1)] save_record_keeps [OF work_ignores(2)]
       cleanup_sources_keeps [OF work_ignores(2)] enqueue_work_in_inv claim_loop_inv finish_work_inv
       renew_work_inv stop_child_inv queue_messages.message_operations queue_effects.effect_operations
       insert_item_keeps
     | erule queue_budget.disposed queue_lineage.lineage_writes queue_dependencies.cleared
     | erule (1) queue_lineage.edged stopped_inv | erule work_inv_tableI [rotated], simp)+


lemma empty_queue: "work_inv empty_db"
  by (simp add: work_inv_def empty_db_def)

lemma reachable_queue: "reachable s \<Longrightarrow> work_inv (store_db s)"
  using queue.reachable_keeps empty_queue by blast

section \<open>What a claim returns\<close>

text \<open>
  \<open>exhausted_rows d d'\<close>: between the two, only rows that had three attempts were failed; a row
  still claimable afterwards was there, and claimable, before.
\<close>

lemma claimable_open:
  "claimable d g att ids now w \<Longrightarrow> wk_status w \<noteq> WorkItemStatus.Failed \<and> wk_status w \<noteq> WorkItemStatus.Completed"
  by (auto simp: claimable_def)

lemma fail_work_tables [simp]:
  "attachments (fail_work item d) = attachments d" "attachment_work (fail_work item d) = attachment_work d"
  "run_waits (fail_work item d) = run_waits d"
  by (simp_all add: fail_work_def Let_def set_disposition_def update_allocation_def update_work_def
      split: option.splits)

lemma claimable_fail [simp]:
  "claimable (fail_work item d) g att ids now w = claimable d g att ids now w"
  by (simp add: claimable_def attached_work_def waited_for_def cong: option.case_cong)

lemma fail_work_rows:
  "work (fail_work item d) = update_where (\<lambda>w. wk_id w = w_id item)
     (\<lambda>w. w\<lparr>wk_status := WorkItemStatus.Failed, wk_body := item\<lparr>w_status := WorkItemStatus.Failed\<rparr>\<rparr>)
     (work d)"
  by (simp add: fail_work_def Let_def update_work_def)

definition unfailed :: "Db \<Rightarrow> nat" where
  "unfailed d = count_where (\<lambda>w. wk_status w \<noteq> WorkItemStatus.Failed) (work d)"

lemma count_update_less:
  assumes "r \<in> set rows" "P r" "Q r" "\<And>q. \<not> Q (f q)"
  shows "count_where Q (update_where P f rows) < count_where Q rows"
  using assms(1)
proof (induction rows)
  case (Cons x rows)
  have le: "count_where Q (update_where P f rows) \<le> count_where Q rows"
    by (rule count_update_le) (use assms(4) in auto)
  show ?case using Cons le assms(2-4) by (cases "x = r") auto
qed simp

lemma fail_work_decreases:
  assumes "w \<in> set (work d)" "wk_id w = w_id item" "wk_status w \<noteq> WorkItemStatus.Failed"
  shows "unfailed (fail_work item d) < unfailed d"
  unfolding unfailed_def fail_work_rows by (rule count_update_less) (use assms in auto)

definition leased_row :: "string \<Rightarrow> nat \<Rightarrow> WorkRow \<Rightarrow> WorkRow" where
  "leased_row owner lease w = w\<lparr>wk_status := WorkItemStatus.Running, wk_lease_until_ms := lease,
     wk_body := leased (wk_body w) owner lease\<rparr>"

text \<open>The lease the loop grants, or the reason there is none.\<close>

definition claimed_from :: "Db \<Rightarrow> Grant \<Rightarrow> string \<Rightarrow> nat \<Rightarrow> bool \<Rightarrow> string list option \<Rightarrow> WorkItem \<Rightarrow> Db \<Rightarrow> bool"
  where
  "claimed_from d g owner ms att ids item d' \<longleftrightarrow>
     (\<exists>w now later deadline. w \<in> set (work d) \<and> claimable d (g_id g) att ids now w \<and>
        w_attempts (wk_body w) < 3 \<and> counter (b_deadline_ms (g_budget g)) = Inr deadline \<and>
        item = leased (wk_body w) owner (min (add_u64 later ms) deadline) \<and>
        work_row d' (wk_id w) = Some (leased_row owner (min (add_u64 later ms) deadline) w))"

definition none_claimable :: "Db \<Rightarrow> Grant \<Rightarrow> bool \<Rightarrow> string list option \<Rightarrow> Db \<Rightarrow> bool" where
  "none_claimable d g att ids d' \<longleftrightarrow>
     (\<exists>now. \<forall>w \<in> set (work d). claimable d (g_id g) att ids now w \<longrightarrow> 3 \<le> w_attempts (wk_body w) \<and>
       (\<exists>w'. work_row d' (wk_id w) = Some w' \<and> wk_status w' = WorkItemStatus.Failed))"


definition keeps_failed :: "Db \<Rightarrow> Db \<Rightarrow> bool" where
  "keeps_failed d d' \<longleftrightarrow> (\<forall>i w. work_row d i = Some w \<longrightarrow> wk_status w = WorkItemStatus.Failed \<longrightarrow>
     (\<exists>w'. work_row d' i = Some w' \<and> wk_status w' = WorkItemStatus.Failed))"

definition claim_outcome ::
    "Db \<Rightarrow> Grant \<Rightarrow> string \<Rightarrow> nat \<Rightarrow> bool \<Rightarrow> string list option \<Rightarrow> WorkItem option txn res \<Rightarrow> Db \<Rightarrow> bool"
  where
  "claim_outcome d g owner ms att ids r d' \<longleftrightarrow> keeps_failed d d' \<and>
     (case r of
        Inl e \<Rightarrow> counter (b_deadline_ms (g_budget g)) = Inl e
      | Inr (Commit None) \<Rightarrow> none_claimable d g att ids d'
      | Inr (Commit (Some item)) \<Rightarrow> claimed_from d g owner ms att ids item d'
      | Inr (Rollback x) \<Rightarrow> False)"

lemma work_row_update:
  "(\<And>w. wk_id (f w) = wk_id w) \<Longrightarrow> work_row (update_work j f d) i =
     map_option (\<lambda>w. if wk_id w = j then f w else w) (work_row d i)"
  unfolding work_row_def update_work_def by (simp add: find_update_where)

lemma work_row_fail:
  assumes "w_id item = j"
  shows "work_row (fail_work item d) i = map_option (\<lambda>w. if wk_id w = j
    then w\<lparr>wk_status := WorkItemStatus.Failed, wk_body := item\<lparr>w_status := WorkItemStatus.Failed\<rparr>\<rparr>
    else w) (work_row d i)"
  unfolding work_row_def fail_work_rows by (subst find_update_where) (simp_all add: assms)

lemma keeps_failed_fail: "keeps_failed d (fail_work item d)"
  by (auto simp: keeps_failed_def work_row_fail [OF refl])

lemma keeps_failed_trans: "keeps_failed a b \<Longrightarrow> keeps_failed b c \<Longrightarrow> keeps_failed a c"
  unfolding keeps_failed_def by metis

lemma claim_outcome_step:
  assumes inv: "work_inv d" and w: "w \<in> set (work d)" "wk_body w = item" and three: "3 \<le> w_attempts item"
    and rest: "claim_outcome (fail_work item d) g owner ms att ids r d'"
  shows "claim_outcome d g owner ms att ids r d'"
proof -
  have "work_row_ok w" using inv w work_inv_rowD by blast
  then have id: "w_id item = wk_id w" using w by (simp add: work_row_ok_def)
  have survive: "q \<in> set (work (fail_work item d)) \<longleftrightarrow> q \<in> set (work d) \<and> wk_id q \<noteq> wk_id w"
    if "wk_status q \<noteq> WorkItemStatus.Failed" for q
    using that id by (auto simp: fail_work_rows set_update_where)
  have kept: "keeps_failed d d'"
    using rest keeps_failed_fail keeps_failed_trans unfolding claim_outcome_def by blast
  have "none_claimable d g att ids d'" if none: "none_claimable (fail_work item d) g att ids d'"
  proof -
    from none obtain now where now: "\<And>q. q \<in> set (work (fail_work item d)) \<Longrightarrow>
      claimable d (g_id g) att ids now q \<Longrightarrow> 3 \<le> w_attempts (wk_body q) \<and>
        (\<exists>w'. work_row d' (wk_id q) = Some w' \<and> wk_status w' = WorkItemStatus.Failed)"
      by (auto simp: none_claimable_def)
    have "3 \<le> w_attempts (wk_body q) \<and>
        (\<exists>w'. work_row d' (wk_id q) = Some w' \<and> wk_status w' = WorkItemStatus.Failed)"
      if q: "q \<in> set (work d)" "claimable d (g_id g) att ids now q" for q
    proof (cases "wk_id q = wk_id w")
      case True
      then have "q = w" using inv q w unfolding work_inv_def by (metis distinct_key_eq)
      moreover have "work_row d (wk_id w) = Some w" using inv w by (simp add: work_row_iff)
      then have "\<exists>w'. work_row (fail_work item d) (wk_id w) = Some w' \<and> wk_status w' = WorkItemStatus.Failed"
        by (simp add: work_row_fail [OF id])
      then have "\<exists>w'. work_row d' (wk_id w) = Some w' \<and> wk_status w' = WorkItemStatus.Failed"
        using rest unfolding claim_outcome_def keeps_failed_def by blast
      ultimately show ?thesis using w three by simp
    next
      case False
      with q survive claimable_open now show ?thesis by blast
    qed
    then show ?thesis unfolding none_claimable_def by blast
  qed
  moreover have "claimed_from d g owner ms att ids i d'"
    if "claimed_from (fail_work item d) g owner ms att ids i d'" for i
  proof -
    from that obtain q now later deadline where
      q: "q \<in> set (work (fail_work item d))" "claimable d (g_id g) att ids now q"
        "w_attempts (wk_body q) < 3" "counter (b_deadline_ms (g_budget g)) = Inr deadline"
        "i = leased (wk_body q) owner (min (add_u64 later ms) deadline)"
        "work_row d' (wk_id q) = Some (leased_row owner (min (add_u64 later ms) deadline) q)"
      unfolding claimed_from_def claimable_fail by blast
    moreover have "q \<in> set (work d)" using q(1) survive claimable_open [OF q(2)] by blast
    ultimately show ?thesis unfolding claimed_from_def by blast
  qed
  ultimately show ?thesis
    using rest kept by (auto simp: claim_outcome_def split: sum.splits txn.splits option.splits)
qed

lemma claim_loop_outcome:
  "work_inv (store_db s) \<Longrightarrow> unfailed (store_db s) < fuel \<Longrightarrow>
   claim_loop fuel g owner ms att ids s = (r, t) \<Longrightarrow>
     claim_outcome (store_db s) g owner ms att ids r (store_db t)"
proof (induction fuel arbitrary: s)
  case 0
  then show ?case by simp
next
  case (Suc fuel)
  define now where "now = env_clock s (env_reads s) mod 2 ^ 64"
  define s1 where "s1 = s\<lparr>env_reads := Suc (env_reads s)\<rparr>"
  have db1: "store_db s1 = store_db s" by (simp add: s1_def)
  note step = Suc.prems(3) [unfolded claim_loop.simps bind_now_ms, folded now_def s1_def]
  show ?case
  proof (cases "first_claimable (g_id g) att ids now (store_db s)")
    case None
    then have "none_claimable (store_db s) g att ids (store_db s)"
      unfolding none_claimable_def first_claimable_None by blast
    with None step db1 show ?thesis by (auto simp: claim_outcome_def keeps_failed_def commit_def)
  next
    case (Some item)
    from Some obtain w where w: "w \<in> set (work (store_db s))" "wk_body w = item"
      and avail: "claimable (store_db s) (g_id g) att ids now w"
      by (rule first_claimable_Some)
    have "work_row_ok w" using Suc.prems(1) w work_inv_rowD by blast
    then have id: "w_id item = wk_id w" using w by (simp add: work_row_ok_def)
    show ?thesis
    proof (cases "3 \<le> w_attempts item")
      case True
      let ?s = "s1\<lparr>store_db := fail_work item (store_db s)\<rparr>"
      have "work_inv (store_db ?s)" using fail_work_inv [OF Suc.prems(1) w True] by simp
      moreover have "unfailed (store_db ?s) < fuel"
        using fail_work_decreases [OF w(1) id [symmetric]] claimable_open [OF avail] Suc.prems(2) by simp
      moreover have "claim_loop fuel g owner ms att ids ?s = (r, t)"
        using step Some True by (simp add: db1)
      ultimately have "claim_outcome (store_db ?s) g owner ms att ids r (store_db t)"
        by (rule Suc.IH)
      then show ?thesis using claim_outcome_step [OF Suc.prems(1) w True] by simp
    next
      case False
      show ?thesis
      proof (cases "counter (b_deadline_ms (g_budget g))")
        case (Inl e)
        with step Some False show ?thesis
          by (auto simp: db1 claim_outcome_def keeps_failed_def)
      next
        case (Inr deadline)
        obtain later where r: "r = Inr (Commit (Some (leased item owner (min (add_u64 later ms) deadline))))"
          and t: "store_db t = write_lease (leased item owner (min (add_u64 later ms) deadline))
            (min (add_u64 later ms) deadline) (store_db s)"
          using step Some False Inr by (auto simp: db1 Let_def commit_def)
        have row: "work_row (store_db s) (wk_id w) = Some w"
          using Suc.prems(1) w by (simp add: work_row_iff)
        have wid: "w_id (leased item owner x) = wk_id w" for x by (simp add: leased_def id)
        have "work_row (store_db t) (wk_id w) =
          Some (leased_row owner (min (add_u64 later ms) deadline) w)"
          unfolding t write_lease_def by (simp add: work_row_update row wid leased_row_def w)
        moreover have "keeps_failed (store_db s) (store_db t)"
          unfolding keeps_failed_def
        proof (intro allI impI)
          fix i q
          assume q: "work_row (store_db s) i = Some q" "wk_status q = WorkItemStatus.Failed"
          then have "wk_id q = i" using work_row_iff [OF Suc.prems(1)] by blast
          then have "wk_id q \<noteq> wk_id w" 
            using q row claimable_open [OF avail] by (metis option.inject)
          with q show "\<exists>w'. work_row (store_db t) i = Some w' \<and> wk_status w' = WorkItemStatus.Failed"
            unfolding t write_lease_def by (simp add: work_row_update wid)
        qed
        ultimately show ?thesis
          using w avail False Inr r by (auto simp: claim_outcome_def claimed_from_def)
      qed
    qed
  qed
qed


lemma unfailed_le: "unfailed d \<le> length (work d)"
  by (simp add: unfailed_def count_where_def)

text \<open>
  \<open>claim_loop_enough\<close>: run as \<open>claim_work_filter\<close> runs it, the loop always ends in an
  outcome, never out of fuel.
\<close>

lemma claim_loop_enough:
  assumes "work_inv (store_db s)"
    "claim_loop (Suc (length (work (store_db s)))) g owner ms att ids s = (r, t)"
  shows "claim_outcome (store_db s) g owner ms att ids r (store_db t)"
  using claim_loop_outcome [OF assms(1) _ assms(2)] unfailed_le [of "store_db s"] by simp

lemma claim_work_outcome:
  assumes inv: "work_inv (store_db s)" and run: "claim_work_filter i owner ms att ids s = (Inr found, t)"
  obtains g where "store_grant i (store_db s) = Inr g"
    "claim_outcome (store_db s) g owner ms att ids (Inr (Commit found)) (store_db t)"
proof -
  let ?u = "s\<lparr>env_reads := Suc (env_reads s)\<rparr>"
  obtain g where g: "store_grant i (store_db s) = Inr g"
    and txn: "transaction (bind (query (\<lambda>d. Suc (length (work d))))
       (\<lambda>fuel. claim_loop fuel g owner ms att ids)) ?u = (Inr found, t)"
    using run unfolding claim_work_filter_def
    by (auto simp: bind_Inr_iff [where m = "query_res m" for m] bind_Inr_iff [where m = "lift m" for m]
        seq_Inr_iff)
  then obtain x v where loop: "claim_loop (Suc (length (work (store_db s)))) g owner ms att ids
      (?u\<lparr>store_in_tx := True\<rparr>) = (Inr x, v)"
    and x: "x = Commit found \<and> store_db t = store_db v \<or> x = Rollback found"
    using txn [unfolded transaction_Inr_iff] by auto
  have outcome: "claim_outcome (store_db s) g owner ms att ids (Inr x) (store_db v)"
    using claim_loop_enough [of "?u\<lparr>store_in_tx := True\<rparr>"] loop inv by simp
  then have "x \<noteq> Rollback found" by (auto simp: claim_outcome_def)
  with x outcome have "claim_outcome (store_db s) g owner ms att ids (Inr (Commit found)) (store_db t)"
    by simp
  with g that show ?thesis by blast
qed

end
