(* ===== verification/History.thy ===== *)
theory History
  imports WorkQueue
begin

text \<open>
  What no later operation undoes. Each relation compares the tables of an earlier store with those
  of a later one and is kept by every step, so it holds across any run of the system: permits move
  only forward through their states, closed work stays closed, grants and events never change, and
  a withdrawn source is never restored.
\<close>

section \<open>Permits\<close>

text \<open>
  A permit keeps its identity, its request and, until it settles, its reservation. Reserved may
  become dispatched or released, dispatched may settle, and reported usage is final.
\<close>

definition permit_next :: "PermitRow \<Rightarrow> PermitRow \<Rightarrow> bool" where
  "permit_next p q \<longleftrightarrow>
     pm_id q = pm_id p \<and> pm_grant_id q = pm_grant_id p \<and> pm_run_id q = pm_run_id p \<and>
     pm_allocation_id q = pm_allocation_id p \<and> pm_call_id q = pm_call_id p \<and>
     pm_compaction_id q = pm_compaction_id p \<and> pm_request q = pm_request p \<and>
     (pm_usage p \<noteq> None \<or> pm_state p = PermitReleased \<or> pm_state p = PermitSettled \<longrightarrow> q = p) \<and>
     (pm_state p = PermitDispatched \<longrightarrow> pm_state q = PermitDispatched \<or> pm_state q = PermitSettled) \<and>
     (pm_state q \<noteq> PermitSettled \<longrightarrow> pm_reserved_tokens q = pm_reserved_tokens p \<and>
        pm_reserved_cost q = pm_reserved_cost p)"

lemma permit_next_refl: "permit_next p p"
  by (cases "pm_state p") (simp_all add: permit_next_def)

lemma permit_next_trans: "permit_next a b \<Longrightarrow> permit_next b c \<Longrightarrow> permit_next a c"
  by (cases "pm_state b"; cases "pm_state c") (auto simp: permit_next_def)

text \<open>Settled permits have their usage; a permit that was never dispatched has none.\<close>

definition permit_ok :: "PermitRow \<Rightarrow> bool" where
  "permit_ok p \<longleftrightarrow>
     (pm_state p = PermitSettled \<longrightarrow> pm_usage p \<noteq> None) \<and>
     (pm_usage p \<noteq> None \<longrightarrow> pm_state p = PermitDispatched \<or> pm_state p = PermitSettled)"

definition permits_since :: "Db \<Rightarrow> Db \<Rightarrow> bool" where
  "permits_since d0 d \<longleftrightarrow> distinct (map pm_id (permits d)) \<and> list_all permit_ok (permits d) \<and>
     advances permit_next (permits d0) (permits d)"

lemma permits_since_table: "permits d' = permits d \<Longrightarrow> permits_since d0 d \<Longrightarrow> permits_since d0 d'"
  by (simp add: permits_since_def)

lemma permits_since_insert:
  "permits_since d0 d \<Longrightarrow> permit_keys_ok p d \<Longrightarrow> permit_ok p \<Longrightarrow> permits_since d0 (insert_permit p d)"
  by (auto simp: permits_since_def permit_keys_ok_def insert_permit_def advances_append)

lemma permits_since_update:
  assumes "permits_since d0 d"
    and "\<And>p. p \<in> set (permits d) \<Longrightarrow> pm_id p = i \<Longrightarrow> permit_next p (f p) \<and> permit_ok (f p)"
  shows "permits_since d0 (update_permit i f d)"
proof -
  have "map pm_id (update_where (\<lambda>p. pm_id p = i) f (permits d)) = map pm_id (permits d)"
    unfolding update_where_def using assms(2) by (simp add: permit_next_def)
  moreover have "advances permit_next (permits d0) (update_where (\<lambda>p. pm_id p = i) f (permits d))"
    by (rule advances_update) (use assms permit_next_refl permit_next_trans in \<open>auto simp: permits_since_def\<close>)
  moreover have "\<forall>p \<in> set (update_where (\<lambda>p. pm_id p = i) f (permits d)). permit_ok p"
    using assms by (auto simp: set_update_where permits_since_def list_all_iff)
  ultimately show ?thesis
    using assms(1) by (simp add: permits_since_def update_permit_def list_all_iff)
qed

lemma permits_since_unique:
  "permits_since d0 d \<Longrightarrow> p \<in> set (permits d) \<Longrightarrow> q \<in> set (permits d) \<Longrightarrow> pm_id p = pm_id q \<Longrightarrow> p = q"
  unfolding permits_since_def by (metis distinct_key_eq)

lemma issue_permit_since: "preserves (db_inv (permits_since d0)) (issue_permit g run ra n c i q)"
  unfolding issue_permit_def Let_def
  by (intro keeps_intros quiet_preserves [OF quiet_require_allocation_open])
     (auto intro!: permits_since_insert simp: permit_ok_def permit_row_of_def)

lemma permits_since_row:
  assumes "permits_since d0 d" "p \<in> set (permits d)" "pm_id p = i"
    and "permit_next p (f p)" "permit_ok (f p)"
  shows "permits_since d0 (update_permit i f d)"
  by (rule permits_since_update [OF assms(1)]) (use assms permits_since_unique in metis)

lemma permit_ok_row: "permits_since d0 d \<Longrightarrow> p \<in> set (permits d) \<Longrightarrow> permit_ok p"
  by (simp add: permits_since_def list_all_iff)

lemma dispatch_since: "preserves (db_inv (permits_since d0)) (dispatch_reserved run i g)"
proof (rule preservesI)
  fix s r t
  assume inv: "db_inv (permits_since d0) s" and run: "dispatch_reserved run i g s = (r, t)"
  from dispatch_reserved_db [OF run] show "db_inv (permits_since d0) t"
  proof (elim disjE exE conjE)
    assume "same_store s t"
    with inv show ?thesis by (simp add: db_inv_def same_storeD)
  next
    fix p now
    assume p: "p \<in> set (permits (store_db s))" "pm_id p = i" "pm_state p = PermitReserved"
      and t: "store_db t = update_permit i (\<lambda>p. p\<lparr>pm_state := PermitDispatched,
        pm_dispatched_ms := Some (to_string now)\<rparr>) (store_db s)"
    have "pm_usage p = None"
      using permit_ok_row [of d0 _ p] inv p by (fastforce simp: db_inv_def permit_ok_def)
    with inv p show ?thesis unfolding db_inv_def t
      by (intro permits_since_row [of _ _ p]) (auto simp: permit_next_def permit_ok_def)
  qed
qed

lemma run_permit_row: "run_permit run i d = Some p \<Longrightarrow> p \<in> set (permits d) \<and> pm_id p = i"
  unfolding run_permit_def by (drule find_Some_iff2) simp

lemma release_since: "preserves (db_inv (permits_since d0)) (release_permit run i)"
  unfolding preserves_leads release_permit_def
proof (intro leads_intros; clarsimp?)
  fix d p
  assume inv: "permits_since d0 d" and p: "run_permit run i d = Some p"
    and state: "pm_state p = PermitReserved \<or> pm_state p = PermitReleased"
  have "permit_ok p" using permit_ok_row [OF inv] run_permit_row [OF p] by simp
  with run_permit_row [OF p] state inv
  show "permits_since d0 (update_permit i (pm_state_update (\<lambda>_. PermitReleased)) d)"
    by (intro permits_since_row [of _ _ p]) (auto simp: permit_next_def permit_ok_def)
qed

lemma report_since: "preserves (db_inv (permits_since d0)) (report_usage run u)"
proof (rule preservesI)
  fix s r t
  assume inv: "db_inv (permits_since d0) s" and run: "report_usage run u s = (r, t)"
  from report_usage_db [OF run] show "db_inv (permits_since d0) t"
  proof (elim disjE exE conjE)
    assume "same_store s t"
    with inv show ?thesis by (simp add: db_inv_def same_storeD)
  next
    fix p n c now
    assume p: "p \<in> set (permits (store_db s))" "pm_id p = u_permit_id u" "pm_state p = PermitDispatched"
        "pm_usage p = None"
      and t: "store_db t = update_permit (u_permit_id u) (record_usage u n c now) (store_db s)"
    with inv show ?thesis unfolding db_inv_def t
      by (intro permits_since_row [of _ _ p]) (auto simp: permit_next_def permit_ok_def record_usage_def)
  qed
qed

text \<open>An invariant of one table that neither ingestion nor retention writes.\<close>

lemma ignores_table:
  assumes "\<And>d d'. T d' = T d \<Longrightarrow> I d \<Longrightarrow> I d'"
  shows "(\<And>e d. T (insert_event e d) = T d) \<Longrightarrow> (\<And>d d'. only_lineage d d' \<Longrightarrow> T d' = T d) \<Longrightarrow>
      ignores_events I"
    and "(\<And>d d'. outside_retention d' = outside_retention d \<Longrightarrow> T d' = T d) \<Longrightarrow> ignores_retention I"
  unfolding ignores_events_def ignores_retention_def using assms by metis+

lemma outside_tables:
  assumes "outside_retention d' = outside_retention d"
  shows "permits d' = permits d" "grants d' = grants d" "work d' = work d"
  using arg_cong [OF assms, of permits] arg_cong [OF assms, of grants] arg_cong [OF assms, of work]
  by (simp_all add: outside_retention_def without_lineage_def)

lemma permits_ignore: "ignores_events (permits_since d0)" "ignores_retention (permits_since d0)"
  by (rule ignores_table [of permits, OF permits_since_table];
      (erule only_lineageD | erule outside_tables | simp add: insert_event_def))+

interpretation permit_allocs: allocless_invariant "permits_since d0" for d0
  by unfold_locales (simp add: permits_since_def)

interpretation permit_work: workless_invariant "permits_since d0" for d0
  by unfold_locales
     (rule permit_allocs.allocation_operations ingest_keeps [OF permits_ignore(1)]
       permit_allocs.disposed | simp add: permits_since_def)+

lemma register_since: "preserves (db_inv (permits_since d0)) (register_grant g)"
  unfolding register_grant_def by (intro keeps_intros) (simp_all add: permits_since_def)

interpretation permit_dependencies: undepended_invariant "permits_since d0" for d0
  by unfold_locales (erule permits_since_table [rotated], simp)+

interpretation permit_lineage: lineageless_invariant "permits_since d0" for d0
  by unfold_locales (erule permits_since_table [rotated], erule only_lineageD)

interpretation permit_messages: messageless_invariant "permits_since d0" for d0
  by unfold_locales
     (rule save_record_keeps [OF permits_ignore(2)] cleanup_sources_keeps [OF permits_ignore(2)]
       permit_allocs.allocation_operations ingest_keeps [OF permits_ignore(1)]
     | erule permits_since_table [rotated], simp)+

interpretation permit_effects: effectless_invariant "permits_since d0" for d0
  by unfold_locales
     (rule ingest_keeps [OF permits_ignore(1)] permit_dependencies.dependency_operations
     | erule permit_dependencies.cleared | erule permits_since_table [rotated], simp)+

interpretation permit_history: store_invariant "permits_since d0" for d0
  by unfold_locales
     (rule permit_dependencies.dependency_operations register_since permit_allocs.allocation_operations issue_permit_since dispatch_since
       release_since report_since ingest_keeps [OF permits_ignore(1)]
       save_record_keeps [OF permits_ignore(2)] cleanup_sources_keeps [OF permits_ignore(2)]
       permit_work.work_operations permit_allocs.disposed
       permit_messages.message_operations permit_effects.effect_operations insert_item_keeps
     | erule permit_lineage.lineage_writes permit_dependencies.cleared | erule (1) permit_lineage.edged
     | simp add: permits_since_def)+


section \<open>Work\<close>

text \<open>
  A work item keeps its place in the tree, its attempts only grow, and once completed or failed it
  never changes again.
\<close>

definition work_next :: "WorkRow \<Rightarrow> WorkRow \<Rightarrow> bool" where
  "work_next w q \<longleftrightarrow>
     wk_id q = wk_id w \<and> wk_grant_id q = wk_grant_id w \<and> wk_root_id q = wk_root_id w \<and>
     wk_subject q = wk_subject w \<and> wk_allocation_id q = wk_allocation_id w \<and>
     wk_source_ref q = wk_source_ref w \<and> w_depth (wk_body q) = w_depth (wk_body w) \<and>
     w_parent_id (wk_body q) = w_parent_id (wk_body w) \<and>
     w_attempts (wk_body w) \<le> w_attempts (wk_body q) \<and> (closed_work w \<longrightarrow> q = w)"

lemma work_next_refl: "work_next w w"
  by (simp add: work_next_def)

lemma work_next_trans: "work_next a b \<Longrightarrow> work_next b c \<Longrightarrow> work_next a c"
  by (auto simp: work_next_def)

definition work_since :: "Db \<Rightarrow> Db \<Rightarrow> bool" where
  "work_since d0 d \<longleftrightarrow> work_inv d \<and> advances work_next (work d0) (work d)"

lemma work_since_table: "work d' = work d \<Longrightarrow> work_since d0 d \<Longrightarrow> work_since d0 d'"
  by (simp add: work_since_def work_inv_def)

lemma work_since_inv: "work_since d0 d \<Longrightarrow> work_inv d"
  by (simp add: work_since_def)

text \<open>A write to the one row of an id keeps the relation when it keeps the invariant.\<close>

lemma work_since_update:
  assumes "work_since d0 d" "w \<in> set (work d)" "wk_id w = i" "work_next w (f w)"
    and "work d' = work (update_work i f d)" "work_inv d'"
  shows "work_since d0 d'"
proof -
  have "advances work_next (work d0) (update_where (\<lambda>q. wk_id q = i) f (work d))"
  proof (rule advances_update [OF _ work_next_trans work_next_refl])
    show "advances work_next (work d0) (work d)" using assms(1) by (simp add: work_since_def)
    fix q assume "q \<in> set (work d)" "wk_id q = i"
    then have "q = w" using assms(1-3) unfolding work_since_def work_inv_def by (metis distinct_key_eq)
    then show "work_next q (f q)" using assms(4) by simp
  qed
  with assms(5,6) show ?thesis by (simp add: work_since_def update_work_def)
qed

lemma claimed_body:
  assumes "work_inv d" "w \<in> set (work d)" "claimable d g att ids now w"
  shows "w_id (wk_body w) = wk_id w" "\<not> closed_work w"
  using work_inv_rowD [OF assms(1,2)] assms(3)
  by (auto simp: closed_work_def terminal_def work_row_ok_def claimable_def)

lemma claim_since: "preserves (db_inv (work_since d0)) (claim_loop fuel g owner k att ids)"
proof (rule claim_loop_keeps)
  show "work_inv d" if "work_since d0 d" for d using that by (rule work_since_inv)
next
  fix d w now
  assume d: "work_since d0 d" and w: "w \<in> set (work d)" "claimable d (g_id g) att ids now w"
    and three: "3 \<le> w_attempts (wk_body w)"
  note body = claimed_body [OF work_since_inv [OF d] w]
  have "work_inv (fail_work (wk_body w) d)"
    by (rule fail_work_inv [OF work_since_inv [OF d] w(1) refl three])
  then show "work_since d0 (fail_work (wk_body w) d)"
    by (intro work_since_update [OF d w(1) refl, where f = "\<lambda>q. q\<lparr>wk_status := WorkItemStatus.Failed,
          wk_body := (wk_body w)\<lparr>w_status := WorkItemStatus.Failed\<rparr>\<rparr>"])
       (simp_all add: body work_next_def fail_work_rows update_work_def)
next
  fix d w now lease
  assume d: "work_since d0 d" and w: "w \<in> set (work d)" "claimable d (g_id g) att ids now w"
    and less: "w_attempts (wk_body w) < 3" and lease: "counter (to_string lease) = Inr lease"
  note body = claimed_body [OF work_since_inv [OF d] w]
  have "work_inv (write_lease (leased (wk_body w) owner lease) lease d)"
    by (rule write_lease_inv [OF work_since_inv [OF d] w(1) refl less lease])
  then show "work_since d0 (write_lease (leased (wk_body w) owner lease) lease d)"
    by (intro work_since_update [OF d w(1) refl, where f = "\<lambda>q. q\<lparr>wk_status := WorkItemStatus.Running,
          wk_lease_until_ms := lease, wk_body := leased (wk_body w) owner lease\<rparr>"])
       (simp_all add: body work_next_def write_lease_def leased_def)
qed

lemma work_row_in:
  assumes "work_since d0 d" "work_row d i = Some w"
  shows "w \<in> set (work d)" "wk_id w = i" "work_row_ok w"
  using assms work_row_iff work_inv_rowD work_since_inv by blast+

lemma finish_since: "preserves (db_inv (work_since d0)) (finish_work i owner status)"
  unfolding preserves_leads finish_work_def Let_def
proof (intro leads_intros; clarsimp?)
  fix d w
  assume d: "work_since d0 d" and row: "work_row d i = Some w"
    and running: "w_status (wk_body w) = WorkItemStatus.Running" and status: "status \<noteq> WorkItemStatus.Queued"
  note w = work_row_in [OF d row]
  have "\<not> closed_work w" using w(3) running by (auto simp: closed_work_def terminal_def work_row_ok_def)
  then show "work_since d0 (close_work i (wk_body w) status d)"
    by (intro work_since_update [OF d w(1,2), where f = "\<lambda>q. q\<lparr>wk_status := status,
          wk_body := (wk_body w)\<lparr>w_status := status\<rparr>\<rparr>"] close_work_inv work_since_inv [OF d] row running status)
       (simp_all add: work_next_def close_work_def update_work_def)
qed

lemma renew_since: "preserves (db_inv (work_since d0)) (renew_work i owner ms)"
  unfolding preserves_leads renew_work_def Let_def
proof (intro leads_intros; clarsimp?)
  fix d w lease deadline g and m n :: nat
  assume d: "work_since d0 d" and row: "work_row d i = Some w"
    and running: "w_status (wk_body w) = WorkItemStatus.Running"
    and deadline: "counter (b_deadline_ms (g_budget g)) = Inr deadline"
  note w = work_row_in [OF d row]
  have "\<not> closed_work w" using w(3) running by (auto simp: closed_work_def terminal_def work_row_ok_def)
  then show "work_since d0 (update_work i (\<lambda>q. q\<lparr>wk_lease_until_ms := min (add_u64 n ms) deadline,
      wk_body := (wk_body w)\<lparr>w_lease_until_ms := to_string (min (add_u64 n ms) deadline)\<rparr>\<rparr>) d)"
    by (intro work_since_update [OF d w(1,2), where f = "\<lambda>q. q\<lparr>wk_lease_until_ms := min (add_u64 n ms) deadline,
          wk_body := (wk_body w)\<lparr>w_lease_until_ms := to_string (min (add_u64 n ms) deadline)\<rparr>\<rparr>"]
        refl renew_row_inv [OF work_since_inv [OF d] row]
        counter_lease [OF min.cobounded2 deadline]) (simp add: work_next_def)
qed


text \<open>Enqueueing only appends.\<close>

definition work_grown :: "Db \<Rightarrow> Db \<Rightarrow> bool" where
  "work_grown d0 d \<longleftrightarrow> advances work_next (work d0) (work d)"

lemma work_grown_table: "work d' = work d \<Longrightarrow> work_grown d0 d \<Longrightarrow> work_grown d0 d'"
  by (simp add: work_grown_def)

interpretation grown: allocless_invariant "work_grown d0" for d0
  by unfold_locales (simp add: work_grown_def)

lemma work_tables_ignore:
  "ignores_events (work_grown d0)" "ignores_events (work_since d0)" "ignores_retention (work_since d0)"
  by (rule ignores_table [of work, OF work_grown_table] ignores_table [of work, OF work_since_table];
      (erule only_lineageD | erule outside_tables | simp add: insert_event_def))+

lemma preserves_conj:
  "preserves (db_inv A) m \<Longrightarrow> preserves (db_inv B) m \<Longrightarrow> preserves (db_inv (\<lambda>d. A d \<and> B d)) m"
  by (simp add: preserves_def db_inv_def)

lemma enqueue_since: "preserves (db_inv (work_since d0)) (enqueue_work_in g run q)"
proof -
  have "preserves (db_inv (work_grown d0)) (enqueue_work_in g run q)"
    unfolding enqueue_work_in_def create_work_def Let_def split_beta
    by (intro keeps_intros grown.root grown.child ingest_keeps [OF work_tables_ignore(1)])
       (simp_all add: work_grown_def insert_work_def advances_append)
  then have "preserves (db_inv (\<lambda>d. work_inv d \<and> work_grown d0 d)) (enqueue_work_in g run q)"
    by (intro preserves_conj enqueue_work_in_inv)
  moreover have "work_since d0 = (\<lambda>d. work_inv d \<and> work_grown d0 d)"
    by (simp add: fun_eq_iff work_since_def work_grown_def)
  ultimately show ?thesis by simp
qed

interpretation work_budget: budgetless_invariant "work_since d0" for d0
  by unfold_locales (simp_all add: work_since_def work_inv_def)

lemma register_work_since: "preserves (db_inv (work_since d0)) (register_grant g)"
  unfolding register_grant_def by (intro keeps_intros) (erule work_since_table [rotated], simp)

interpretation work_dependencies: undepended_invariant "work_since d0" for d0
  by unfold_locales (erule work_since_table [rotated], simp)+

lemma close_allowance_since: "work_since d0 d \<Longrightarrow> work_since d0 (close_allowance i v d)"
  by (erule work_since_table [rotated]) (simp add: close_allowance_def)

lemma stop_child_since: "preserves (db_inv (work_since d0)) (stop_child run v running i)"
  unfolding preserves_leads stop_child_def
proof (intro leads_intros leads_exec_then leads_exec_keeps; clarsimp?)
  fix d child
  assume d: "work_since d0 d" and found: "child_work run i d = Inr child"
    and st: "w_status child = WorkItemStatus.Queued \<or> w_status child = WorkItemStatus.Interrupted"
  from found obtain w where w: "w \<in> set (work d)" "wk_id w = i" and child: "child = wk_body w"
    by (auto simp: child_work_row dest: find_Some_iff2)
  then have open_: "\<not> closed_work w"
    using st work_inv_rowD [OF work_since_inv [OF d] w(1)] by (auto simp: closed_work_def terminal_def work_row_ok_def)
  let ?f = "stop_row (stopped_status v)" and ?d = "close_allowance i v d"
  show "work_since d0 (update_work i ?f ?d)"
  proof (rule work_since_update [where f = ?f and i = i and w = w])
    show "work_since d0 ?d" by (rule close_allowance_since [OF d])
    then have ok: "work_inv ?d" by (rule work_since_inv)
    then show "work_inv (update_work i ?f ?d)"
      by (rule work_inv_update) (use work_inv_rowD [OF ok] in \<open>simp add: stop_row_ok\<close>)
  qed (use w open_ in \<open>simp_all add: close_allowance_def work_next_def stop_row_def\<close>)
qed (auto intro: close_allowance_since)

lemma stopped_since:
  assumes "\<And>w. P w \<Longrightarrow> \<not> closed_work w" "st \<noteq> WorkItemStatus.Queued" "work_since d0 d"
  shows "work_since d0 (d\<lparr>work := update_where P (stop_row st) (work d)\<rparr>)"
  using assms unfolding work_since_def
  by (auto intro!: stopped_inv advances_update [OF _ work_next_trans work_next_refl]
      simp: work_next_def stop_row_def)

interpretation work_lineage: lineageless_invariant "work_since d0" for d0
  by unfold_locales (erule work_since_table [rotated], erule only_lineageD)

interpretation work_messages: messageless_invariant "work_since d0" for d0
  by unfold_locales
     (rule save_record_keeps [OF work_tables_ignore(3)] cleanup_sources_keeps [OF work_tables_ignore(3)]
       work_budget.allocation_operations ingest_keeps [OF work_tables_ignore(2)]
     | erule work_since_table [rotated], simp)+

interpretation work_effects: effectless_invariant "work_since d0" for d0
  by unfold_locales
     (rule ingest_keeps [OF work_tables_ignore(2)] work_dependencies.dependency_operations
     | erule work_dependencies.cleared | erule work_since_table [rotated], simp)+

interpretation work_history: store_invariant "work_since d0" for d0
  by unfold_locales
     (rule work_dependencies.dependency_operations register_work_since work_budget.budget_operations ingest_keeps [OF work_tables_ignore(2)]
       save_record_keeps [OF work_tables_ignore(3)] cleanup_sources_keeps [OF work_tables_ignore(3)]
       enqueue_since claim_since finish_since renew_since stop_child_since
       work_messages.message_operations work_effects.effect_operations insert_item_keeps
     | erule work_budget.disposed work_lineage.lineage_writes work_dependencies.cleared | erule (1) work_lineage.edged | erule (2) stopped_since
     | erule work_since_table [rotated], simp)+

section \<open>Grants\<close>

definition grant_kept :: "string \<Rightarrow> Grant \<Rightarrow> Db \<Rightarrow> bool" where
  "grant_kept i g d \<longleftrightarrow> grant_body d i = Some g"

lemma grant_kept_table: "grants d' = grants d \<Longrightarrow> grant_kept i g d \<Longrightarrow> grant_kept i g d'"
  by (simp add: grant_kept_def grant_body_def)

lemma grants_ignore: "ignores_events (grant_kept i g)" "ignores_retention (grant_kept i g)"
  by (rule ignores_table [of grants, OF grant_kept_table];
      (erule only_lineageD | erule outside_tables | simp add: insert_event_def))+

interpretation grant_budget: budgetless_invariant "grant_kept i g" for i g
  by unfold_locales (erule grant_kept_table [rotated], simp)+

interpretation grant_work: workless_invariant "grant_kept i g" for i g
  by unfold_locales
     (rule grant_budget.allocation_operations ingest_keeps [OF grants_ignore(1)] grant_budget.disposed
     | erule grant_kept_table [rotated], simp)+

lemma register_grant_kept: "preserves (db_inv (grant_kept i g)) (register_grant g')"
  unfolding register_grant_def
  by (intro keeps_intros) (auto simp: grant_kept_def grant_body_def find_append)

interpretation grant_dependencies: undepended_invariant "grant_kept i g" for i g
  by unfold_locales (erule grant_kept_table [rotated], simp)+

interpretation grant_lineage: lineageless_invariant "grant_kept i g" for i g
  by unfold_locales (erule grant_kept_table [rotated], erule only_lineageD)

interpretation grant_messages: messageless_invariant "grant_kept i g" for i g
  by unfold_locales
     (rule save_record_keeps [OF grants_ignore(2)] cleanup_sources_keeps [OF grants_ignore(2)]
       grant_budget.allocation_operations ingest_keeps [OF grants_ignore(1)]
     | erule grant_kept_table [rotated], simp)+

interpretation grant_effects: effectless_invariant "grant_kept i g" for i g
  by unfold_locales
     (rule ingest_keeps [OF grants_ignore(1)] grant_dependencies.dependency_operations
     | erule grant_dependencies.cleared | erule grant_kept_table [rotated], simp)+

interpretation grant_history: store_invariant "grant_kept i g" for i g
  by unfold_locales
     (rule grant_dependencies.dependency_operations register_grant_kept grant_budget.budget_operations ingest_keeps [OF grants_ignore(1)]
       save_record_keeps [OF grants_ignore(2)] cleanup_sources_keeps [OF grants_ignore(2)]
       grant_work.work_operations grant_budget.disposed
       grant_messages.message_operations grant_effects.effect_operations insert_item_keeps
     | erule grant_lineage.lineage_writes grant_dependencies.cleared | erule (1) grant_lineage.edged
     | erule grant_kept_table [rotated], simp)+

section \<open>Withdrawn sources\<close>

lemma tombstoned_table:
  "source_tombstones d' = source_tombstones d \<Longrightarrow> tombstoned k i d \<Longrightarrow> tombstoned k i d'"
  by (simp add: tombstoned_def)

interpretation tomb_budget: budgetless_invariant "tombstoned k i" for k i
  by unfold_locales (erule tombstoned_table [rotated], simp)+

lemma ingest_tombstoned: "preserves (db_inv (tombstoned k i)) (ingest e)"
  unfolding ingest_def write_event_def
  by (intro keeps_intros)
     (auto simp: tombstoned_def insert_event_def dest!: add_source_edges_frame)

interpretation tomb_work: workless_invariant "tombstoned k i" for k i
  by unfold_locales
     (rule tomb_budget.allocation_operations ingest_tombstoned tomb_budget.disposed
     | erule tombstoned_table [rotated], simp)+

lemma save_tombstoned: "preserves (db_inv (tombstoned k i)) (save_record_for_run r expected run)"
  unfolding save_record_for_run_def
  by (intro keeps_intros; (rule record_sources_tombstones(2), assumption+)?)
     (simp_all add: tombstoned_def insert_record_def index_record_def)

lemma register_tombstoned: "preserves (db_inv (tombstoned k i)) (register_grant g)"
  unfolding register_grant_def by (intro keeps_intros) (erule tombstoned_table [rotated], simp)

interpretation tomb_dependencies: undepended_invariant "tombstoned k i" for k i
  by unfold_locales (erule tombstoned_table [rotated], simp)+

lemma tombstones_kept:
  "tombstoned k i d \<Longrightarrow> tombstoned k i (withdraw_rows sel d)"
  "tombstoned k i d \<Longrightarrow> tombstoned k i (bump_policy sc d)"
  by (simp_all add: withdraw_rows_withdraws)

lemma edges_tombstoned:
  "add_source_edges kind j references rel d = Inr d' \<Longrightarrow> tombstoned k i d \<Longrightarrow> tombstoned k i d'"
  by (auto simp: tombstoned_def dest!: add_source_edges_frame)

interpretation tomb_messages: messageless_invariant "tombstoned k i" for k i
  by unfold_locales
     (rule save_tombstoned cleanup_sources_safe [OF tombstoned_safe]
       tomb_budget.allocation_operations ingest_tombstoned
     | erule tombstoned_table [rotated], simp)+

interpretation tomb_effects: effectless_invariant "tombstoned k i" for k i
  by unfold_locales
     (rule ingest_tombstoned tomb_dependencies.dependency_operations
     | erule tomb_dependencies.cleared | erule tombstoned_table [rotated], simp)+

interpretation tomb_history: store_invariant "tombstoned k i" for k i
  by unfold_locales
     (rule tomb_dependencies.dependency_operations register_tombstoned tomb_budget.budget_operations ingest_tombstoned save_tombstoned
       cleanup_sources_safe [OF tombstoned_safe] tomb_work.work_operations
       tomb_messages.message_operations tomb_effects.effect_operations insert_item_keeps
     | erule tombstones_kept tomb_dependencies.cleared tomb_budget.disposed | erule (1) edges_tombstoned
     | erule tombstoned_table [rotated], simp)+


section \<open>Events\<close>

text \<open>
  An event keeps its cursor and its evidence; deletion of its content replaces the payload by the
  redaction notice and nothing else.
\<close>

definition redacted :: "Event \<Rightarrow> Event" where
  "redacted e = e\<lparr>ev_payload := redacted_payload\<rparr>"

definition event_next :: "EventRow \<Rightarrow> EventRow \<Rightarrow> bool" where
  "event_next e q \<longleftrightarrow> q = e \<or> q = e\<lparr>er_body := redacted (er_body e)\<rparr>"

lemma event_next_refl: "event_next e e"
  by (simp add: event_next_def)

lemma event_next_trans: "event_next a b \<Longrightarrow> event_next b c \<Longrightarrow> event_next a c"
  by (auto simp: event_next_def redacted_def)

definition log_since :: "Db \<Rightarrow> Db \<Rightarrow> bool" where
  "log_since d0 d \<longleftrightarrow> log_ok d \<and> advances event_next (events d0) (events d)"

lemma log_since_table: "events d' = events d \<Longrightarrow> log_since d0 d \<Longrightarrow> log_since d0 d'"
  by (simp add: log_since_def log_ok_def)

lemma log_since_redact:
  assumes since: "log_since d0 d" and row: "List.find (\<lambda>q. er_id q = i) (events d) = Some e"
  shows "log_since d0 (redact_event i (er_body e) d)"
proof -
  from row have e: "e \<in> set (events d)" "er_id e = i" by (auto dest: find_Some_iff2)
  have only: "q = e" if "q \<in> set (events d)" "er_id q = i" for q
    using since e that unfolding log_since_def log_ok_def by (metis distinct_key_eq)
  let ?f = "\<lambda>q. q\<lparr>er_body := (er_body e)\<lparr>ev_payload := redacted_payload\<rparr>\<rparr>"
  have "advances event_next (events d0) (update_where (\<lambda>q. er_id q = i) ?f (events d))"
  proof (rule advances_update [OF _ event_next_trans event_next_refl])
    show "advances event_next (events d0) (events d)" using since by (simp add: log_since_def)
    show "q \<in> set (events d) \<Longrightarrow> er_id q = i \<Longrightarrow> event_next q (?f q)" for q
      using only by (simp add: event_next_def redacted_def)
  qed
  moreover have "log_ok (redact_event i (er_body e) d)"
  proof -
    have "q = event_row_of (er_cursor q) (er_body q)"
      if "q \<in> set (update_where (\<lambda>q. er_id q = i) ?f (events d))" for q
    proof -
      have rows: "q = event_row_of (er_cursor q) (er_body q)" if "q \<in> set (events d)" for q
        using since that by (simp add: log_since_def log_ok_def)
      from rows [OF e(1)] have "?f e = event_row_of (er_cursor (?f e)) (er_body (?f e))"
        by (cases e) (simp add: event_row_of_def)
      moreover from that only have "q = ?f e \<or> q \<in> set (events d)" by (auto simp: set_update_where)
      ultimately show ?thesis using rows [of q] by (elim disjE) (simp only:, assumption)
    qed
    moreover have "map er_id (update_where (\<lambda>q. er_id q = i) ?f (events d)) = map er_id (events d)"
      "map er_cursor (update_where (\<lambda>q. er_id q = i) ?f (events d)) = map er_cursor (events d)"
      by (simp_all add: map_update_where)
    ultimately show ?thesis
      using since by (simp add: log_since_def log_ok_def redact_event_def)
  qed
  ultimately show ?thesis by (simp add: log_since_def redact_event_def)
qed

lemma log_since_safe: "retention_safe (log_since d0)"
  unfolding retention_safe_def content_safe_def
  by (intro conjI allI impI; (rule log_since_redact, assumption+)?;
      erule log_since_table [rotated]; simp add: rewrite_record_def)

lemma ingest_since: "preserves (db_inv (log_since d0)) (ingest e)"
proof (rule preservesI)
  fix s r t
  assume inv: "db_inv (log_since d0) s" and run: "ingest e s = (r, t)"
  have "log_grew e (store_db s) (store_db t)" using run by (rule ingest_any)
  with inv show "db_inv (log_since d0) t"
    using log_grew_ok [of e "store_db s" "store_db t"]
    by (auto simp: db_inv_def log_since_def log_grew_def advances_append)
qed

interpretation log_budget: budgetless_invariant "log_since d0" for d0
  by unfold_locales (erule log_since_table [rotated], simp)+

interpretation log_work: workless_invariant "log_since d0" for d0
  by unfold_locales
     (rule log_budget.allocation_operations ingest_since log_budget.disposed
     | erule log_since_table [rotated], simp)+

lemma register_log_since: "preserves (db_inv (log_since d0)) (register_grant g)"
  unfolding register_grant_def by (intro keeps_intros) (erule log_since_table [rotated], simp)

lemma save_log_since: "preserves (db_inv (log_since d0)) (save_record_for_run r expected run)"
  by (rule save_record_keeps_copies) (rule log_since_table)

interpretation log_dependencies: undepended_invariant "log_since d0" for d0
  by unfold_locales (erule log_since_table [rotated], simp)+

interpretation log_lineage: lineageless_invariant "log_since d0" for d0
  by unfold_locales (erule log_since_table [rotated], erule only_lineageD)

interpretation log_messages: messageless_invariant "log_since d0" for d0
  by unfold_locales
     (rule save_log_since cleanup_sources_safe [OF log_since_safe]
       log_budget.allocation_operations ingest_since
     | erule log_since_table [rotated], simp)+

interpretation log_effects: effectless_invariant "log_since d0" for d0
  by unfold_locales
     (rule ingest_since log_dependencies.dependency_operations
     | erule log_dependencies.cleared | erule log_since_table [rotated], simp)+

interpretation log_history: store_invariant "log_since d0" for d0
  by unfold_locales
     (rule log_dependencies.dependency_operations register_log_since log_budget.budget_operations ingest_since save_log_since
       cleanup_sources_safe [OF log_since_safe] log_work.work_operations log_budget.disposed
       log_messages.message_operations log_effects.effect_operations insert_item_keeps
     | erule log_lineage.lineage_writes log_dependencies.cleared | erule (1) log_lineage.edged
     | erule log_since_table [rotated], simp)+

lemma empty_log: "log_since empty_db empty_db"
  by (simp add: log_since_def log_ok_def empty_db_def advances_def)

lemma reachable_log: "reachable s \<Longrightarrow> log_ok (store_db s)"
  using log_history.reachable_keeps [of s empty_db] empty_log by (simp add: log_since_def)


section \<open>Allocations\<close>

text \<open>Only the disposition of an allocation changes; its place and its ceilings never do.\<close>

definition alloc_next :: "AllocationRow \<Rightarrow> AllocationRow \<Rightarrow> bool" where
  "alloc_next r q \<longleftrightarrow> (\<exists>v. q = r\<lparr>al_body := (al_body r)\<lparr>a_disposition := v\<rparr>\<rparr>)"

lemma alloc_nextI: "q = r\<lparr>al_body := (al_body r)\<lparr>a_disposition := v\<rparr>\<rparr> \<Longrightarrow> alloc_next r q"
  by (auto simp: alloc_next_def)

lemma alloc_next_refl: "alloc_next r r"
  by (rule alloc_nextI [where v = "a_disposition (al_body r)"]) simp

lemma alloc_next_trans: "alloc_next a b \<Longrightarrow> alloc_next b c \<Longrightarrow> alloc_next a c"
  by (auto simp: alloc_next_def)

definition allocs_grown :: "Db \<Rightarrow> Db \<Rightarrow> bool" where
  "allocs_grown d0 d \<longleftrightarrow> advances alloc_next (budget_allocations d0) (budget_allocations d)"

definition allocs_since :: "Db \<Rightarrow> Db \<Rightarrow> bool" where
  "allocs_since d0 d \<longleftrightarrow> alloc_inv d \<and> allocs_grown d0 d"

lemma allocs_since_table:
  "budget_allocations d' = budget_allocations d \<Longrightarrow> allocs_since d0 d \<Longrightarrow> allocs_since d0 d'"
  using alloc_inv_table [of d' d] by (simp add: allocs_since_def allocs_grown_def)

lemma allocs_grown_update:
  assumes "allocs_grown d0 d"
    and "\<And>r. r \<in> set (budget_allocations d) \<Longrightarrow> al_id r = i \<Longrightarrow> alloc_next r (r\<lparr>al_body := f (al_body r)\<rparr>)"
  shows "allocs_grown d0 (update_allocation i f d)"
  unfolding allocs_grown_def update_allocation_rows
  by (rule advances_update [OF _ alloc_next_trans alloc_next_refl])
     (use assms in \<open>simp_all add: allocs_grown_def\<close>)

lemma allocs_disposed: "allocs_since d0 d \<Longrightarrow> allocs_since d0 (set_disposition i v d)"
  unfolding allocs_since_def
proof (intro conjI)
  show "allocs_grown d0 (set_disposition i v d)" if "alloc_inv d \<and> allocs_grown d0 d"
    using that by (cases i) (auto simp: set_disposition_def intro!: allocs_grown_update alloc_nextI)
qed (simp add: alloc_inv_set_disposition)

lemma allocs_inserted: "allocs_grown d0 d \<Longrightarrow> allocs_grown d0 (insert_allocation r d)"
  by (simp add: allocs_grown_def advances_append)

lemma allocs_root: "preserves (db_inv (allocs_since d0)) (root_allocation_in g)"
proof -
  have "preserves (db_inv (allocs_grown d0)) (root_allocation_in g)"
    unfolding root_allocation_in_def Let_def by (intro keeps_intros allocs_inserted)
  then show ?thesis
    unfolding allocs_since_def by (intro preserves_conj root_allocation_in_keeps)
qed

lemma allocs_child: "preserves (db_inv (allocs_since d0)) (allocate_in g q)"
proof -
  have "preserves (db_inv (allocs_grown d0)) (allocate_in g q)"
    unfolding allocate_in_def Let_def
    by (intro keeps_intros allocs_inserted quiet_preserves [OF quiet_require_allocation_open])
  then show ?thesis
    unfolding allocs_since_def by (intro preserves_conj allocate_in_keeps)
qed

lemma allocs_closed: "preserves (db_inv (allocs_since d0)) (finish_allocation g i v)"
proof (rule preservesI)
  fix s r t
  assume inv: "db_inv (allocs_since d0) s" and run: "finish_allocation g i v s = (r, t)"
  from inv have tree: "tree_ok (store_db s)" by (simp add: db_inv_def allocs_since_def alloc_inv_def)
  have "alloc_inv (store_db t)"
    using preservesD [OF finish_allocation_keeps _ run] inv by (simp add: db_inv_def allocs_since_def)
  moreover from finish_allocation_db [OF run] have "allocs_grown d0 (store_db t)"
  proof (elim disjE exE conjE)
    fix a assume a: "allocation g i (store_db s) = Inr a"
      and t: "store_db t = update_allocation i (\<lambda>_. a\<lparr>a_disposition := Some v\<rparr>) (store_db s)"
    from allocation_InrD [OF tree a] obtain r where r: "allocation_row (store_db s) i = Some r" "al_body r = a"
      by auto
    have "q = r" if "q \<in> set (budget_allocations (store_db s))" "al_id q = i" for q
      using that r(1) by (simp add: allocation_row_iff [OF tree] distinct_key_eq [OF tree_ok_distinct [OF tree]])
    with r(2) show ?thesis
      unfolding t using inv
      by (intro allocs_grown_update) (auto simp: db_inv_def allocs_since_def intro!: alloc_nextI)
  qed (use inv in \<open>simp add: db_inv_def allocs_since_def\<close>)
  ultimately show "db_inv (allocs_since d0) t" by (simp add: db_inv_def allocs_since_def)
qed

lemma outside_allocations:
  "outside_retention d' = outside_retention d \<Longrightarrow> budget_allocations d' = budget_allocations d"
  by (drule arg_cong [of _ _ budget_allocations]) (simp add: outside_retention_def without_lineage_def)

lemma allocs_ignore: "ignores_events (allocs_since d0)" "ignores_retention (allocs_since d0)"
  by (rule ignores_table [of budget_allocations, OF allocs_since_table];
      (erule only_lineageD | erule outside_allocations | simp add: insert_event_def))+

interpretation allocs_work: workless_invariant "allocs_since d0" for d0
  by unfold_locales
     (rule allocs_root allocs_child ingest_keeps [OF allocs_ignore(1)] allocs_disposed
     | assumption | erule allocs_since_table [rotated], simp)+

lemma allocs_permits:
  "preserves (db_inv (allocs_since d0)) (issue_permit g run ra n c i q)"
  "preserves (db_inv (allocs_since d0)) (dispatch_reserved run i g)"
  "preserves (db_inv (allocs_since d0)) (release_permit run i)"
  "preserves (db_inv (allocs_since d0)) (report_usage run u)"
  "preserves (db_inv (allocs_since d0)) (register_grant g)"
  unfolding issue_permit_def dispatch_reserved_def release_permit_def report_usage_def register_grant_def
    Let_def
  by (intro keeps_intros quiet_preserves [OF quiet_require_allocation_open];
      erule allocs_since_table [rotated]; simp add: insert_permit_def update_permit_def)+

interpretation alloc_dependencies: undepended_invariant "allocs_since d0" for d0
  by unfold_locales (erule allocs_since_table [rotated], simp)+

interpretation alloc_lineage: lineageless_invariant "allocs_since d0" for d0
  by unfold_locales (erule allocs_since_table [rotated], erule only_lineageD)

interpretation alloc_messages: messageless_invariant "allocs_since d0" for d0
  by unfold_locales
     (rule save_record_keeps [OF allocs_ignore(2)] cleanup_sources_keeps [OF allocs_ignore(2)]
       allocs_root ingest_keeps [OF allocs_ignore(1)]
     | erule allocs_since_table [rotated], simp)+

interpretation alloc_effects: effectless_invariant "allocs_since d0" for d0
  by unfold_locales
     (rule ingest_keeps [OF allocs_ignore(1)] alloc_dependencies.dependency_operations
     | erule alloc_dependencies.cleared | erule allocs_since_table [rotated], simp)+

interpretation alloc_history: store_invariant "allocs_since d0" for d0
  by unfold_locales
     (rule alloc_dependencies.dependency_operations allocs_root allocs_child allocs_closed allocs_permits ingest_keeps [OF allocs_ignore(1)]
       save_record_keeps [OF allocs_ignore(2)] cleanup_sources_keeps [OF allocs_ignore(2)]
       allocs_work.work_operations
       alloc_messages.message_operations alloc_effects.effect_operations insert_item_keeps
     | erule alloc_lineage.lineage_writes alloc_dependencies.cleared | erule (1) alloc_lineage.edged
     | erule allocs_disposed | erule allocs_since_table [rotated], simp)+


section \<open>Records\<close>

text \<open>A record is stored once, and its key columns are those of its body.\<close>

definition record_inv :: "Db \<Rightarrow> bool" where
  "record_inv d \<longleftrightarrow> distinct (map rec_id (records d)) \<and>
     (\<forall>q \<in> set (records d). rec_id q = r_id (rec_body q) \<and> rec_version q = r_version (rec_body q))"

lemma record_inv_table: "records d' = records d \<Longrightarrow> record_inv d \<Longrightarrow> record_inv d'"
  by (simp add: record_inv_def)

lemma record_inv_update:
  assumes "record_inv d" "\<And>q. P q \<Longrightarrow> rec_id q = r_id r"
  shows "record_inv (d\<lparr>records := update_where P (\<lambda>q. q\<lparr>rec_version := r_version r, rec_body := r\<rparr>) (records d)\<rparr>)"
  using assms by (auto simp: record_inv_def map_update_where set_update_where)

lemma record_inv_rewrite:
  assumes inv: "record_inv d" and row: "List.find (\<lambda>q. rec_id q = i) (records d) = Some q"
    and "r_id r = r_id (rec_body q)"
  shows "record_inv (rewrite_record i r d)"
proof -
  from row have "q \<in> set (records d)" "rec_id q = i" by (auto dest: find_Some_iff2)
  with inv assms(3) have "r_id r = i" by (auto simp: record_inv_def)
  with inv show ?thesis
    by (auto simp: rewrite_record_def record_inv_def map_update_where set_update_where)
qed

lemma record_inv_safe: "retention_safe record_inv"
  unfolding retention_safe_def content_safe_def
  by (intro conjI allI impI; (rule record_inv_rewrite, assumption+)?;
      erule record_inv_table [rotated]; simp)

lemma save_record_inv: "preserves (db_inv record_inv) (save_record_for_run r expected run)"
  unfolding save_record_for_run_def
proof (intro keeps_intros)
  show "record_inv (update_record r v d)" if "record_inv d" for d v
    by (rule record_inv_table [OF _ record_inv_update [OF that, of "\<lambda>q. rec_id q = r_id r \<and> rec_version q = v" r]])
       simp_all
  show "record_inv (insert_record r d)"
    if "record_inv d" "\<not> exists_where (\<lambda>q. rec_id q = r_id r) (records d)" for d
    using that by (auto simp: record_inv_def insert_record_def)
  show "record_inv (index_record r d)" "record_inv (attribute_record run r d)" if "record_inv d" for d
    by (rule record_inv_table [OF _ that], simp)+
  show "record_inv d'" if "record_inv d" "record_sources r d = Inr d'" for d d'
    by (rule record_inv_table [OF _ that(1)]) (rule only_lineageD(1) [OF record_sources_frame [OF that(2)]])
qed

lemma record_inv_events: "ignores_events record_inv"
  by (rule ignores_table [of records, OF record_inv_table];
      (erule only_lineageD | simp add: insert_event_def))+

interpretation record_budget: budgetless_invariant record_inv
  by unfold_locales (erule record_inv_table [rotated], simp)+

interpretation record_work: workless_invariant record_inv
  by unfold_locales
     (rule record_budget.allocation_operations ingest_keeps [OF record_inv_events] record_budget.disposed
     | assumption | erule record_inv_table [rotated], simp)+

lemma register_record_inv: "preserves (db_inv record_inv) (register_grant g)"
  unfolding register_grant_def by (intro keeps_intros) (erule record_inv_table [rotated], simp)

interpretation record_dependencies: undepended_invariant record_inv
  by unfold_locales (erule record_inv_table [rotated], simp)+

interpretation record_lineage: lineageless_invariant record_inv
  by unfold_locales (erule record_inv_table [rotated], erule only_lineageD)

interpretation record_messages: messageless_invariant record_inv
  by unfold_locales
     (rule save_record_inv cleanup_sources_safe [OF record_inv_safe]
       record_budget.allocation_operations ingest_keeps [OF record_inv_events]
     | erule record_inv_table [rotated], simp)+

interpretation record_effects: effectless_invariant record_inv
  by unfold_locales
     (rule ingest_keeps [OF record_inv_events] record_dependencies.dependency_operations
     | erule record_dependencies.cleared | erule record_inv_table [rotated], simp)+

interpretation record_history: store_invariant record_inv
  by unfold_locales
     (rule record_dependencies.dependency_operations register_record_inv record_budget.budget_operations ingest_keeps [OF record_inv_events]
       save_record_inv cleanup_sources_safe [OF record_inv_safe] record_work.work_operations
       record_messages.message_operations record_effects.effect_operations insert_item_keeps
     | erule record_lineage.lineage_writes record_dependencies.cleared | erule (1) record_lineage.edged
     | erule record_budget.disposed | erule record_inv_table [rotated], simp)+

lemma reachable_records: "reachable s \<Longrightarrow> record_inv (store_db s)"
  by (rule record_history.reachable_keeps) (simp_all add: record_inv_def empty_db_def)


section \<open>Dependencies\<close>

text \<open>
  A scope has at most a thousand dependencies, which is what makes the bounded traversal of an
  invalidation complete, and no recorded generation is ahead of its scope's clock.
\<close>

definition depend_inv :: "Db \<Rightarrow> bool" where
  "depend_inv d \<longleftrightarrow> within_capacity d \<and> generations_ok d"

definition depend_tables :: "Db \<Rightarrow> _" where
  "depend_tables d = (dependencies d, validity_clock d, invalidated d, artifact_invalidation_generations d)"

lemma depend_inv_table: "depend_tables d' = depend_tables d \<Longrightarrow> depend_inv d \<Longrightarrow> depend_inv d'"
  by (simp add: depend_tables_def depend_inv_def within_capacity_def generations_ok_def
      artifact_invalidation_generation_def validity_generation_def)

lemma add_dependency_generations: "preserves (db_inv generations_ok) (add_dependency sc x)"
  unfolding add_dependency_def
  by (intro keeps_intros)
     (simp_all add: generations_ok_def artifact_invalidation_generation_def validity_generation_def)

lemma invalidate_step_capacity: "within_capacity d \<Longrightarrow> within_capacity (snd (invalidate_step sc p d))"
  by (simp add: within_capacity_def invalidate_step_def Let_def) (simp add: tick_validity_def)

lemma invalidate_depend_inv: "preserves (db_inv depend_inv) (invalidate_dependents sc p)"
  by (auto simp: preserves_def db_inv_def invalidate_dependents_run depend_inv_def
      invalidate_step_capacity invalidate_step_generations)

lemma mark_depend_inv:
  assumes "depend_inv d"
  shows "depend_inv (mark_invalid sc (validity_generation sc d) p d)"
proof -
  have mark: "mark_invalid sc n p d = mark_all sc n [p] d" for n by (simp add: mark_all_def)
  have "within_capacity (mark_invalid sc n p d)" for n
    using assms by (simp add: depend_inv_def within_capacity_def mark_invalid_def)
  moreover have "artifact_invalidation_generation sc' q (mark_invalid sc (validity_generation sc d) p d)
      \<le> validity_generation sc' d" for sc' q
    using assms validity_generation_scope [of sc' sc d] unfolding mark
    by (auto simp: mark_all_generation depend_inv_def generations_ok_def)
  moreover have "behind sc' q (validity_generation sc' d)
      (invalidated (mark_invalid sc (validity_generation sc d) p d))" for sc' q
    using assms validity_generation_scope [of sc' sc d] unfolding mark
    by (intro mark_all_behind) (auto simp: depend_inv_def generations_ok_def)
  ultimately show ?thesis by (simp add: depend_inv_def generations_ok_def mark)
qed

lemma invalidate_artifact_depend_inv:
  "preserves (db_inv depend_inv) (invalidate_artifact_and_dependents sc p)"
proof -
  have marked: "preserves (db_inv depend_inv) (bind (query (validity_generation sc))
      (\<lambda>generation. exec (mark_invalid sc generation p)))"
    unfolding preserves_leads by (intro leads_query leads_exec) (simp add: mark_depend_inv)
  show ?thesis
    unfolding invalidate_artifact_and_dependents_def
    by (intro preserves_joined preserves_bind [OF invalidate_depend_inv] marked)
qed

lemma depend_operations:
  "preserves (db_inv depend_inv) (add_dependency sc x)"
  "preserves (db_inv depend_inv) (invalidate_dependents sc p)"
  "preserves (db_inv depend_inv) (invalidate_artifact_and_dependents sc p)"
proof -
  have "preserves (db_inv (\<lambda>d. within_capacity d \<and> generations_ok d)) (add_dependency sc x)"
    by (intro preserves_conj add_dependency_capacity add_dependency_generations)
  then show "preserves (db_inv depend_inv) (add_dependency sc x)" by (simp add: depend_inv_def [abs_def])
qed (rule invalidate_depend_inv invalidate_artifact_depend_inv)+

lemma only_lineage_generations:
  assumes "only_lineage d d'"
  shows "depend_tables d' = depend_tables d"
  unfolding depend_tables_def
  by (intro arg_cong2 [of _ _ _ _ Pair]; rule only_lineage_field [OF assms]; simp add: without_lineage_def)

lemma outside_depend:
  assumes "outside_retention d' = outside_retention d"
  shows "depend_tables d' = depend_tables d"
  using arg_cong [OF assms, of depend_tables]
  by (simp add: depend_tables_def outside_retention_def without_lineage_def)

lemma depend_ignores: "ignores_events depend_inv" "ignores_retention depend_inv"
  by (rule ignores_table [of depend_tables, OF depend_inv_table];
      (erule only_lineage_generations | erule outside_depend | simp add: insert_event_def depend_tables_def))+

interpretation depend_budget: budgetless_invariant depend_inv
  by unfold_locales (erule depend_inv_table [rotated], simp add: depend_tables_def)+

interpretation depend_work: workless_invariant depend_inv
  by unfold_locales
     (rule depend_budget.allocation_operations ingest_keeps [OF depend_ignores(1)]
     | erule depend_budget.disposed | erule depend_inv_table [rotated], simp add: depend_tables_def)+

lemma register_depend_inv: "preserves (db_inv depend_inv) (register_grant g)"
  unfolding register_grant_def
  by (intro keeps_intros) (erule depend_inv_table [rotated], simp add: depend_tables_def)

lemma depend_cleared: "depend_inv d \<Longrightarrow> depend_inv (clear_invalid sc p n d)"
  by (simp add: depend_inv_def within_capacity_def generations_ok_def behind_def clear_invalid_def
      delete_where_def artifact_invalidation_generation_def validity_generation_def)

interpretation depend_lineage: lineageless_invariant depend_inv
  by unfold_locales (erule depend_inv_table [rotated], erule only_lineage_generations)

interpretation depend_messages: messageless_invariant depend_inv
  by unfold_locales
     (rule save_record_keeps [OF depend_ignores(2)] cleanup_sources_keeps [OF depend_ignores(2)]
       depend_budget.allocation_operations ingest_keeps [OF depend_ignores(1)]
     | erule depend_inv_table [rotated], simp add: depend_tables_def)+

interpretation depend_effects: effectless_invariant depend_inv
  by unfold_locales
     (rule ingest_keeps [OF depend_ignores(1)] depend_operations
     | erule depend_cleared | erule depend_inv_table [rotated], simp add: depend_tables_def)+

interpretation depend_history: store_invariant depend_inv
  by unfold_locales
     (rule depend_operations register_depend_inv depend_budget.budget_operations
       ingest_keeps [OF depend_ignores(1)] save_record_keeps [OF depend_ignores(2)]
       cleanup_sources_keeps [OF depend_ignores(2)] depend_work.work_operations
       depend_messages.message_operations depend_effects.effect_operations insert_item_keeps
     | erule depend_lineage.lineage_writes depend_cleared | erule (1) depend_lineage.edged
     | erule depend_budget.disposed | erule depend_inv_table [rotated], simp add: depend_tables_def)+

lemma reachable_dependencies: "reachable s \<Longrightarrow> depend_inv (store_db s)"
  by (rule depend_history.reachable_keeps)
     (simp_all add: depend_inv_def within_capacity_def generations_ok_def empty_db_def behind_def
       artifact_invalidation_generation_def)

end
