(* ===== verification/BudgetProperties.thy ===== *)
theory BudgetProperties
  imports Scenario History
begin

text \<open>
  The promises of the budget ledger and of provider-call permits, over every reachable store.
\<close>

section \<open>The permit table during authorization\<close>

definition permits_are :: "PermitRow list \<Rightarrow> Db \<Rightarrow> bool" where
  "permits_are ps d \<longleftrightarrow> permits d = ps"

lemma permits_are_ignore: "ignores_retention (permits_are ps)"
  by (rule ignores_table(2) [of permits]) (simp add: permits_are_def, erule outside_tables)

interpretation frozen_alloc: allocless_invariant "permits_are ps" for ps
  by unfold_locales (simp add: permits_are_def)

interpretation frozen: active_invariant "permits_are ps" for ps
  by unfold_locales
     (rule save_record_keeps cleanup_sources_keeps permits_are_ignore frozen_alloc.root)+

lemma compaction_frozen: "preserves (db_inv (permits_are ps)) (compaction_allocation g run q i)"
  unfolding compaction_allocation_def
  by (intro keeps_intros frozen_alloc.child quiet_preserves [OF quiet_require_compaction])

lemma permits_frozen:
  assumes "\<And>ps. preserves (db_inv (permits_are ps)) m" "m s = (r, t)"
  shows "permits (store_db t) = permits (store_db s)"
  using preservesD [OF assms(1) _ assms(2)] by (simp add: db_inv_def permits_are_def)

lemma find_call_table: "permits d' = permits d \<Longrightarrow> find_call run c d' = find_call run c d"
  by (simp add: find_call_def)

text \<open>
  Whatever a request under a used call identity does, the permit table stays as it was, and the
  permit returned is the first one.
\<close>

lemma previous_call:
  assumes "\<And>d. permits d = ps \<Longrightarrow> find_call run c d = Some p" "pr_call_id q = Some c" "permits_are ps d"
  shows "Option.bind (pr_call_id q) (\<lambda>call. find_call run call d) = Some p"
  using assms by (simp add: permits_are_def)

lemma reused_call_keeps:
  assumes found: "\<And>d. permits d = ps \<Longrightarrow> find_call run c d = Some p" and call: "pr_call_id q = Some c"
  shows "preserves (db_inv (permits_are ps)) (permit_in_allocation run q chosen)"
proof -
  have body: "preserves (db_inv (permits_are ps))
     (bind (query (\<lambda>d. Option.bind (pr_call_id q) (\<lambda>call. find_call run call d))) (\<lambda>previous.
      case previous of Some p \<Rightarrow> reuse_permit p alloc q
      | None \<Rightarrow> issue_permit g run ra n k alloc q))" for alloc g ra n k
    unfolding preserves_leads
    by (intro leads_query) (simp add: previous_call [OF found call], rule leads_quiet [OF quiet_reuse_permit], simp)
  show ?thesis
    unfolding permit_in_allocation_def Let_def
    by (intro body keeps_intros frozen.require_active frozen.run_allocation compaction_frozen)
qed

lemma reused_call_yields:
  assumes found: "\<And>d. permits d = ps \<Longrightarrow> find_call run c d = Some p" and call: "pr_call_id q = Some c"
  shows "yields (permits_are ps) (\<lambda>x. p_id x = pm_id p) (permit_in_allocation run q chosen)"
proof -
  have reuse: "yields J (\<lambda>v. case v of Commit x \<Rightarrow> p_id x = pm_id p | Rollback x \<Rightarrow> p_id x = pm_id p)
      (reuse_permit p alloc q)" for alloc J
    unfolding reuse_permit_def by (intro yields_intros) simp
  have body: "yields (permits_are ps) (\<lambda>v. case v of Commit x \<Rightarrow> p_id x = pm_id p | Rollback x \<Rightarrow> p_id x = pm_id p)
     (bind (query (\<lambda>d. Option.bind (pr_call_id q) (\<lambda>call. find_call run call d))) (\<lambda>previous.
      case previous of Some p \<Rightarrow> reuse_permit p alloc q
      | None \<Rightarrow> issue_permit g run ra n k alloc q))" for alloc g ra n k
    by (intro yields_query) (simp add: previous_call [OF found call] reuse)
  show ?thesis
    unfolding permit_in_allocation_def Let_def
    by (intro body yields_need yields_bind yields_seq yields_transaction keeps_intros frozen.require_active
        frozen.run_allocation compaction_frozen)
qed


section \<open>Ceilings\<close>

text \<open>
  C1: No allocation of a reachable store is ever charged more model calls, or holds more
  outstanding tokens or cost, than its ceilings, whichever descendants the calls were made under.
\<close>

theorem budget_never_exceeded:
  assumes "reachable s" "r \<in> set (budget_allocations (store_db s))"
  shows "calls_under (store_db s) (al_id r) \<le> b_max_calls (a_budget (al_body r)) \<and>
    tokens_under (store_db s) (al_id r) \<le> count_of (b_max_tokens (a_budget (al_body r))) \<and>
    cost_under (store_db s) (al_id r) \<le> count_of (b_max_cost_microusd (a_budget (al_body r)))"
  using reachable_ledger [OF assms(1)] assms(2) by (simp add: ledger_inv_def within_budget_def)

theorem budget_never_exceeded_witness:
  "calls_under (store_db permit_world) (al_id (hd (budget_allocations (store_db permit_world)))) \<le>
     b_max_calls (a_budget (al_body (hd (budget_allocations (store_db permit_world)))))"
proof -
  have "budget_allocations (store_db permit_world) \<noteq> []" by code_simp
  from budget_never_exceeded [OF reachable_permit hd_in_set [OF this]] show ?thesis by simp
qed

text \<open>
  C14: In a reachable store an allocation is at most 63 levels below its root, the path to the root
  never returns to where it was, and every ceiling on it is at least as high as the allocation's
  own.
\<close>

theorem ancestors_bound_their_descendants:
  assumes "reachable s" "allocation_row (store_db s) i = Some r"
    "climb (parent_of (store_db s)) k i = Some j" "0 < k"
  shows "k < 64 \<and> j \<noteq> i \<and> (\<exists>q. allocation_row (store_db s) j = Some q \<and>
    budget_le (a_budget (al_body r)) (a_budget (al_body q)))"
proof (intro conjI)
  have inv: "alloc_inv (store_db s)" using reachable_ledger [OF assms(1)] by (simp add: ledger_inv_def)
  then have tree: "tree_ok (store_db s)" and depth: "depth_ok (store_db s)" by (simp_all add: alloc_inv_def)
  from climb_budget_le [OF tree assms(3,4)] assms(2)
  show "\<exists>q. allocation_row (store_db s) j = Some q \<and>
    budget_le (a_budget (al_body r)) (a_budget (al_body q))" by auto
  have "climb (parent_of (store_db s)) 64 i = None"
    using depth assms(2) allocation_row_iff [OF tree] by (auto simp: depth_ok_def)
  with assms(3) show "k < 64" using climb_None_mono by (metis not_le option.distinct(1))
  show "j \<noteq> i" using alloc_forest.no_cycle [OF tree] assms(3,4) by blast
qed

theorem ancestors_bound_their_descendants_witness:
  "al_id (budget_allocations (store_db permit_world) ! 0) \<noteq> al_id (budget_allocations (store_db permit_world) ! 1)"
proof -
  let ?d = "store_db permit_world"
  have row: "allocation_row ?d (al_id (budget_allocations ?d ! 1)) = Some (budget_allocations ?d ! 1)"
    and up: "climb (parent_of ?d) 1 (al_id (budget_allocations ?d ! 1)) =
      Some (al_id (budget_allocations ?d ! 0))" by code_simp+
  from ancestors_bound_their_descendants [OF reachable_permit row up] show ?thesis by simp
qed

text \<open>
  C16: The subtree a ledger sums over, computed level by level as the recursive query does, is
  exactly the set of allocations with the given one on their path to the root.
\<close>

theorem family_is_the_subtree:
  assumes "reachable s"
  shows "x \<in> set (family (store_db s) i) \<longleftrightarrow> (\<exists>k. climb (parent_of (store_db s)) k x = Some i)"
  using reachable_ledger [OF assms] by (intro family_iff_ancestor ledger_inv_tree)

theorem family_is_the_subtree_witness:
  "al_id (budget_allocations (store_db permit_world) ! 1) \<in>
     set (family (store_db permit_world) (al_id (budget_allocations (store_db permit_world) ! 0)))"
proof -
  let ?d = "store_db permit_world"
  have "climb (parent_of ?d) 1 (al_id (budget_allocations ?d ! 1)) = Some (al_id (budget_allocations ?d ! 0))"
    by code_simp
  then show ?thesis using family_is_the_subtree [OF reachable_permit] by blast
qed

text \<open>
  C31: Whatever the system does after an allocation was made, its identity, its place in the tree,
  its purpose and its ceilings stay what they were; only its disposition can change.
\<close>

theorem allocations_never_change:
  assumes "reachable s" "system_step\<^sup>*\<^sup>* s t" "r \<in> set (budget_allocations (store_db s))"
  shows "\<exists>v. r\<lparr>al_body := (al_body r)\<lparr>a_disposition := v\<rparr>\<rparr> \<in> set (budget_allocations (store_db t))"
proof -
  have "allocs_since (store_db s) (store_db s)"
    using reachable_ledger [OF assms(1)]
    by (simp add: allocs_since_def allocs_grown_def ledger_inv_def advances_refl alloc_next_refl)
  from alloc_history.steps_keep [OF assms(2) this] assms(3)
  show ?thesis by (auto simp: allocs_since_def allocs_grown_def alloc_next_def dest!: advances_in)
qed

theorem allocations_never_change_witness:
  "(\<exists>v. (hd (budget_allocations (store_db running_world)))\<lparr>al_body :=
       (al_body (hd (budget_allocations (store_db running_world))))\<lparr>a_disposition := v\<rparr>\<rparr>
     \<in> set (budget_allocations (store_db permit_world)))"
proof -
  have "budget_allocations (store_db running_world) \<noteq> []" by code_simp
  then show ?thesis using allocations_never_change [OF reachable_running scenario_steps(2)] by simp
qed

section \<open>Provider calls\<close>

text \<open>
  C3: A request that repeats a call identity the run has used never charges again: the permit table
  is untouched whatever happens, and a permit it returns is the one of the first request.
\<close>

theorem repeated_call_charges_nothing:
  assumes "find_call run c (store_db s) = Some p" "pr_call_id q = Some c"
  shows "permits (store_db (snd (permit_in_allocation run q chosen s))) = permits (store_db s) \<and>
    (\<forall>x. fst (permit_in_allocation run q chosen s) = Inr x \<longrightarrow> p_id x = pm_id p)"
proof -
  obtain r t where run: "permit_in_allocation run q chosen s = (r, t)" by fastforce
  have found: "find_call run c d = Some p" if "permits d = permits (store_db s)" for d
    using find_call_table [OF that] assms(1) by simp
  have start: "permits_are (permits (store_db s)) (store_db s)" by (simp add: permits_are_def)
  have "permits_are (permits (store_db s)) (store_db t)"
    using preservesD [OF reused_call_keeps [OF found assms(2)] _ run] start by (simp add: db_inv_def)
  moreover have "p_id x = pm_id p" if "r = Inr x" for x
    using yieldsD [OF reused_call_yields [OF found assms(2)] start] run that by blast
  ultimately show ?thesis using run by (simp add: permits_are_def)
qed

theorem repeated_call_charges_nothing_witness:
  "permits (store_db (snd (permit ''r'' demo_permit permit_world))) = permits (store_db permit_world) \<and>
   fst (permit ''r'' demo_permit permit_world) = Inr \<lparr>p_id = ''id0'', p_max_output_tokens = 100\<rparr>"
proof
  have "find_call ''r'' ''c1'' (store_db permit_world) = Some (hd (permits (store_db permit_world)))"
    by code_simp
  from repeated_call_charges_nothing [OF this, of demo_permit None]
  show "permits (store_db (snd (permit ''r'' demo_permit permit_world))) = permits (store_db permit_world)"
    by (simp add: permit_def demo_permit_def)
  show "fst (permit ''r'' demo_permit permit_world) = Inr \<lparr>p_id = ''id0'', p_max_output_tokens = 100\<rparr>"
    by code_simp
qed

text \<open>
  C11: Across any steps of the system a permit keeps its identity and its request; it may move from
  reserved to dispatched or released and from dispatched to settled, never back; a released or
  settled permit, and one whose usage was reported, never changes again; and its reservation stands
  until it settles.
\<close>

theorem permits_move_forward:
  assumes "reachable s" "system_step\<^sup>*\<^sup>* s t" "p \<in> set (permits (store_db s))"
  shows "\<exists>q \<in> set (permits (store_db t)). permit_next p q"
proof -
  have "permits_since empty_db (store_db s)"
    by (rule permit_history.reachable_keeps [OF assms(1)])
       (simp add: permits_since_def empty_db_def advances_def)
  then have "permits_since (store_db s) (store_db s)"
    by (simp add: permits_since_def advances_refl permit_next_refl)
  from permit_history.steps_keep [OF assms(2) this] assms(3)
  show ?thesis by (auto simp: permits_since_def dest!: advances_in)
qed

theorem permits_move_forward_witness:
  "permit_next (hd (permits (store_db permit_world))) (hd (permits (store_db dispatched_world)))"
proof -
  have "hd (permits (store_db permit_world)) \<in> set (permits (store_db permit_world))" by code_simp
  from permits_move_forward [OF reachable_permit scenario_steps(3) this]
  have "\<exists>q \<in> set (permits (store_db dispatched_world)).
      permit_next (hd (permits (store_db permit_world))) q" .
  moreover have "permits (store_db dispatched_world) = [hd (permits (store_db dispatched_world))]"
    by code_simp
  ultimately show ?thesis by (metis empty_iff list.set(1) set_ConsD)
qed

text \<open>
  C32: The ledger's report is exact. What it says is left of an allocation is its ceiling less the
  live calls, the settled and the outstanding tokens and cost of every permit in its subtree.
\<close>

theorem ledger_report_is_exact:
  assumes "reachable s" "allocation_ledger_status g i (store_db s) = Inr st"
  shows "\<exists>r. allocation_row (store_db s) i = Some r \<and>
    b_max_calls (bs_remaining st) = b_max_calls (a_budget (al_body r)) - calls_under (store_db s) i \<and>
    b_max_tokens (bs_remaining st) = to_string (count_of (b_max_tokens (a_budget (al_body r))) -
      settled_under pm_reserved_tokens (store_db s) i - tokens_under (store_db s) i) \<and>
    b_max_cost_microusd (bs_remaining st) = to_string (count_of (b_max_cost_microusd (a_budget (al_body r))) -
      settled_under pm_reserved_cost (store_db s) i - cost_under (store_db s) i)"
proof -
  have inv: "ledger_inv (store_db s)" using reachable_ledger [OF assms(1)] .
  then have "permits_ok (store_db s)" by (simp add: ledger_inv_def)
  from ledger_status_sums [OF ledger_inv_tree [OF inv] this assms(2)] show ?thesis
    by (metis count_of_def sum.case(2))
qed


theorem ledger_report_is_exact_witness:
  "\<exists>st (r :: AllocationRow). allocation_ledger_status demo_grant (al_id (hd (budget_allocations (store_db permit_world))))
       (store_db permit_world) = Inr st \<and>
     b_max_calls (bs_remaining st) = b_max_calls (a_budget (al_body r)) -
       calls_under (store_db permit_world) (al_id (hd (budget_allocations (store_db permit_world))))"
proof -
  let ?d = "store_db permit_world"
  have "\<not> isl (allocation_ledger_status demo_grant (al_id (hd (budget_allocations ?d))) ?d)" by code_simp
  then obtain st where report: "allocation_ledger_status demo_grant (al_id (hd (budget_allocations ?d))) ?d = Inr st"
    by (metis sum.collapse(2))
  from ledger_report_is_exact [OF reachable_permit report] obtain r :: AllocationRow
    where left: "b_max_calls (bs_remaining st) = b_max_calls (a_budget (al_body r)) -
      calls_under ?d (al_id (hd (budget_allocations ?d)))"
    by (elim exE conjE) (rule that)
  show ?thesis by (rule exI [of _ st], rule exI [of _ r], rule conjI [OF report left])
qed

end
