(* ===== verification/SourceProperties.thy ===== *)
theory SourceProperties
  imports Scenario History
begin

text \<open>
  The promises of source lineage: what is derived from a source records it, nothing withdrawn is
  ever authorized again through any chain of derivations, and concurrent writers of a record do not
  overwrite one another.
\<close>

section \<open>What a write captures\<close>







section \<open>Authorization\<close>



text \<open>
  C2: Withdrawal is final and reaches every descendant: once a source is tombstoned, then after any
  steps of the system no set of sources is authorized whose lineage passes through it.
\<close>

theorem withdrawn_sources_stay_withdrawn:
  assumes "tombstoned kind i (store_db s)" "system_step\<^sup>*\<^sup>* s t"
    and "lineage (store_db t) (starts_of sources) (kind, i, access)"
  shows "\<exists>e. fst (require_sources g sources t) = Inl e"
proof (cases "require_sources g sources t")
  case (Pair r u)
  have "tombstoned kind i (store_db t)" using tomb_history.steps_keep [OF assms(2)] assms(1) by simp
  with Pair require_sources_lineage [of g sources t _ u, OF _ assms(3)]
  have "r \<noteq> Inr x" for x by (auto elim: passesD)
  with Pair show ?thesis by (cases r) auto
qed

theorem withdrawn_sources_stay_withdrawn_witness:
  "\<exists>e. fst (require_sources demo_grant [(''record'', ''rec'')] retired_world) = Inl e"
proof -
  have "tombstoned ''record'' ''rec'' (store_db retired_world)" by code_simp
  moreover have "lineage (store_db retired_world) (starts_of [(''record'', ''rec'')]) (''record'', ''rec'', True)"
    by (rule lineage.start) (simp add: starts_of_def)
  ultimately show ?thesis using withdrawn_sources_stay_withdrawn by blast
qed

text \<open>
  C24: A refusal has a cause: the request leaves the grant's corpus or the prepared inputs, or a
  source of the lineage fails its own check with that very error, or the lineage has more than 1000
  distinct references.
\<close>

theorem refused_sources_have_a_cause:
  assumes "require_sources g sources s = (Inl e, t)"
  shows "require_discovery_sources g sources (store_db s) = Inl e \<or>
    require_prepared_sources g sources (store_db s) = Inl e \<or>
    (\<exists>k i a s'. lineage (store_db s) (starts_of sources) (k, i, a) \<and> same_store s s' \<and>
       check_source g sources k i a s' = (Inl e, t)) \<or>
    e = exhausted ''source lineage exceeds the local reference bound'' \<and>
      (\<exists>xs. distinct xs \<and> 1000 < length xs \<and>
         (\<forall>x \<in> set xs. lineage (store_db s) (starts_of sources) x))"
proof -
  from assms consider "require_discovery_sources g sources (store_db s) = Inl e"
    | "require_prepared_sources g sources (store_db s) = Inl e"
    | "lineage_loop g sources [] (rev (starts_of sources)) s = (Inl e, t)"
    by (auto simp: require_sources_def starts_of_def seq_Inl_iff)
  then show ?thesis
  proof cases
    case 3
    have "\<forall>x \<in> set [] \<union> set (rev (starts_of sources)). lineage (store_db s) (starts_of sources) x"
      by (auto intro: lineage.start)
    from lineage_loop_refusal [OF 3 this same_store_refl] show ?thesis by simp
  qed simp_all
qed

theorem refused_sources_have_a_cause_witness:
  "\<exists>e t. require_sources demo_grant [(''record'', ''rec'')] retired_world = (Inl e, t) \<and>
    (require_discovery_sources demo_grant [(''record'', ''rec'')] (store_db retired_world) = Inl e \<or>
     require_prepared_sources demo_grant [(''record'', ''rec'')] (store_db retired_world) = Inl e \<or>
     (\<exists>k i a s'. lineage (store_db retired_world) (starts_of [(''record'', ''rec'')]) (k, i, a) \<and>
        check_source demo_grant [(''record'', ''rec'')] k i a s' = (Inl e, t)) \<or>
     e = exhausted ''source lineage exceeds the local reference bound'')"
proof -
  have "isl (fst (require_sources demo_grant [(''record'', ''rec'')] retired_world))" by code_simp
  then obtain e t where run: "require_sources demo_grant [(''record'', ''rec'')] retired_world = (Inl e, t)"
    by (metis isl_def prod.collapse)
  from refused_sources_have_a_cause [OF this] run show ?thesis by blast
qed


section \<open>Derivation and retirement\<close>



text \<open>
  C18: Retiring a live record withdraws it for good: it is tombstoned when the call returns and in
  every later store, so nothing derived from it is authorized again.
\<close>

theorem retirement_withdraws:
  assumes "reachable s" "retire g q s = (Inr u, t)"
    and "scoped_record g (rtr_id q) (store_db s) = Some r" "\<not> r_retired r" "system_step\<^sup>*\<^sup>* t t'"
  shows "tombstoned ''record'' (rtr_id q) (store_db t')"
proof -
  from assms(3) obtain row where "row \<in> set (records (store_db s))" "rec_id row = rtr_id q" "rec_body row = r"
    by (auto simp: scoped_record_def dest: find_Some_iff2)
  with reachable_records [OF assms(1)] have rid: "r_id r = rtr_id q" by (auto simp: record_inv_def)
  from retire_live_tombstones [OF assms(2,3) rid assms(4)]
  show ?thesis by (rule tomb_history.steps_keep [OF assms(5)])
qed

theorem retirement_withdraws_witness: "tombstoned ''record'' ''rec'' (store_db retired_world)"
proof -
  have "fst (retire demo_grant demo_retirement record_world) = Inr ()"
    "scoped_record demo_grant (rtr_id demo_retirement) (store_db record_world) = Some demo_record"
    by code_simp+
  moreover from this(1) have "retire demo_grant demo_retirement record_world = (Inr (), retired_world)"
    unfolding retired_world_def by (metis prod.collapse)
  ultimately have "tombstoned ''record'' (rtr_id demo_retirement) (store_db retired_world)"
    using retirement_withdraws [OF reachable_record] by (simp add: demo_record_def)
  then show ?thesis by (simp add: demo_retirement_def)
qed

section \<open>Concurrent writers\<close>

text \<open>
  C6: No update of a record is lost: once a writer has replaced a version, every other writer that
  still expects that version is refused, whatever it wants to write.
\<close>

theorem stale_writers_are_refused:
  assumes "reachable s" "save_record_for_run r (Some v) by s = (Inr u, t)" "r_version r \<noteq> v"
    and "r_id q = r_id r"
  shows "fst (save_record_for_run q (Some v) by' t) = Inl (conflict ''record changed concurrently'')"
proof -
  from assms(2) obtain d where d: "save_step r (Some v) by (store_db s) = Inr d" "store_db t = d"
    by (auto simp: save_record_Inr_iff)
  have "record_keys (store_db s)"
    using reachable_records [OF assms(1)] by (simp add: record_inv_def record_keys_def)
  from stale_version_gone [OF d(1) this assms(3,4)] d(2)
  show ?thesis by (intro stale_save_refused) simp
qed

definition second_edit :: RecordEnvelope where
  "second_edit = demo_record\<lparr>r_version := ''2'', r_body := [(''text'', JString ''y'')]\<rparr>"

theorem stale_writers_are_refused_witness:
  "fst (save_record_for_run (demo_record\<lparr>r_version := ''2''\<rparr>) (Some ''1'') None
     (snd (save_record_for_run second_edit (Some ''1'') None record_world))) =
   Inl (conflict ''record changed concurrently'')"
proof -
  have "fst (save_record_for_run second_edit (Some ''1'') None record_world) = Inr ()" by code_simp
  then have "save_record_for_run second_edit (Some ''1'') None record_world =
      (Inr (), snd (save_record_for_run second_edit (Some ''1'') None record_world))"
    by (metis prod.collapse)
  from stale_writers_are_refused [OF reachable_record this, of "demo_record\<lparr>r_version := ''2''\<rparr>" None]
  show ?thesis by (simp add: second_edit_def demo_record_def)
qed

end
