(* ===== verification/EvidenceProperties.thy ===== *)
theory EvidenceProperties
  imports Scenario History
begin

text \<open>
  The promises of the evidence log and of dependency invalidation.
\<close>

section \<open>The log\<close>

text \<open>
  C22: Accepted evidence is settled: offering it again is answered without a change, and evidence of
  another content under its identity is refused.
\<close>

theorem accepted_evidence_is_settled:
  assumes "reachable s" "ingest e s = (Inr b, t)"
  shows "ingest e t = (Inr False, t) \<and>
    (\<forall>f. ev_id f = ev_id e \<longrightarrow> f \<noteq> e \<longrightarrow> (\<exists>err. fst (ingest f t) = Inl err))"
proof (intro conjI allI impI)
  have ok: "log_ok (store_db s)" using assms(1) by (rule reachable_log)
  have ok': "log_ok (store_db t)"
    using preservesD [OF ingest_ok _ assms(2)] ok by (simp add: db_inv_def)
  have body: "event_body (store_db t) (ev_id e) = Some e"
    using event_log.register_binds [OF ok assms(2)] .
  show "\<exists>err. fst (ingest f t) = Inl err" if "ev_id f = ev_id e" "f \<noteq> e" for f
    using event_log.rebinding_refused [OF ok', of f e] body that by fastforce
  show "ingest e t = (Inr False, t)"
  proof (cases "List.find (same_event e) (events (store_db s))")
    case None
    with assms(2) obtain d where d: "ingest_step e (store_db s) = Inr d" "t = s\<lparr>store_db := d\<rparr>"
      and valid: "valid_Event e" "env_event_bytes s e \<le> MAX_FRAME div 4"
      by (auto simp: ingest_Inr_iff)
    have "List.find (same_event e) (events d) = Some (event_row_of (next_cursor (store_db s)) e)"
      using None by (simp add: ingest_step_events [OF d(1)] find_append same_event_def event_row_of_def)
    with d valid show ?thesis by (simp add: ingest_Inr_iff)
  next
    case (Some x)
    with assms(2) show ?thesis by (auto simp: ingest_Inr_iff)
  qed
qed

theorem accepted_evidence_is_settled_witness:
  "\<exists>err. fst (ingest (demo_event\<lparr>ev_kind := ''other''\<rparr>) event_world) = Inl err"
proof -
  have "fst (ingest demo_event granted_world) = Inr True" by code_simp
  then have "ingest demo_event granted_world = (Inr True, event_world)"
    unfolding event_world_def by (metis prod.collapse)
  from accepted_evidence_is_settled [OF reachable_granted this] show ?thesis by (simp add: demo_event_def)
qed

text \<open>
  C13: The log only grows. Across any steps every event stays, under its cursor and with its
  evidence, except that deletion of a source may replace a payload by the redaction notice; and the
  cursors of the log keep increasing, so a reader that resumes after a cursor misses nothing.
\<close>

theorem log_only_grows:
  assumes "reachable s" "system_step\<^sup>*\<^sup>* s t" "x \<in> set (events (store_db s))"
  shows "(x \<in> set (events (store_db t)) \<or>
      x\<lparr>er_body := redacted (er_body x)\<rparr> \<in> set (events (store_db t))) \<and>
    sorted_wrt (<) (map er_cursor (events (store_db t))) \<and>
    take (length (events (store_db s))) (map er_cursor (events (store_db t))) =
      map er_cursor (events (store_db s))"
proof -
  have "log_since (store_db s) (store_db s)"
    using reachable_log [OF assms(1)] by (simp add: log_since_def advances_refl event_next_refl)
  from log_history.steps_keep [OF assms(2) this]
  have log: "log_ok (store_db t)" and adv: "advances event_next (events (store_db s)) (events (store_db t))"
    by (simp_all add: log_since_def)
  have "list_all2 event_next (events (store_db s)) (take (length (events (store_db s))) (events (store_db t)))"
    using adv by (simp add: advances_def)
  then have "map er_cursor (take (length (events (store_db s))) (events (store_db t))) =
      map er_cursor (events (store_db s))"
    by (induction rule: list_all2_induct) (auto simp: event_next_def)
  with log advances_in [OF adv assms(3)] show ?thesis
    by (auto simp: event_next_def log_ok_def take_map)
qed

theorem log_only_grows_witness:
  "take 1 (map er_cursor (events (store_db retired_world))) = map er_cursor (events (store_db record_world))"
proof -
  have one: "length (events (store_db record_world)) = 1" by code_simp
  then have "hd (events (store_db record_world)) \<in> set (events (store_db record_world))"
    by (intro hd_in_set) auto
  from log_only_grows [OF reachable_record scenario_steps(6) this] one show ?thesis by simp
qed

text \<open>
  Every row of the log is well formed in every reachable store: its identity, scope, run,
  producer, sequence and split columns are those of the event it holds, and no two rows share an
  identity.
\<close>

theorem log_rows_are_well_formed:
  assumes "reachable s"
  shows "distinct (map er_id (events (store_db s))) \<and>
    list_all (\<lambda>x. x = event_row_of (er_cursor x) (er_body x)) (events (store_db s))"
  using reachable_log [OF assms] by (simp add: log_ok_def list_all_iff)

theorem log_rows_are_well_formed_witness: "distinct (map er_id (events (store_db event_world)))"
  using log_rows_are_well_formed [OF reachable_event] by simp

section \<open>Invalidation\<close>

text \<open>
  C12: Invalidating an artifact reports exactly the artifacts that depend on it through any chain of
  dependencies of its scope, each once; the bound of the traversal never cuts the answer short.
\<close>

theorem invalidation_is_exact:
  assumes "reachable s" "invalidate_dependents scope path s = (Inr paths, t)"
  shows "distinct paths \<and> set paths = {q. affected scope (store_db s) path q}"
proof -
  have "within_capacity (store_db s)" using reachable_dependencies [OF assms(1)] by (simp add: depend_inv_def)
  then have "length (filter (of_scope scope) (dependencies (store_db s))) \<le> 1000"
    by (simp add: within_capacity_def)
  moreover have "paths = affected_paths scope path (store_db s)"
    using assms(2) by (simp add: invalidate_dependents_run invalidate_step_def Let_def)
  ultimately show ?thesis using affected_paths_exact affected_paths_props(1) by simp
qed

definition demo_dependency :: "string \<Rightarrow> string \<Rightarrow> Dependency" where
  "demo_dependency source dependent =
     \<lparr>dep_source = \<lparr>ar_path = source, ar_version = ''v1''\<rparr>,
      dep_dependent = \<lparr>ar_path = dependent, ar_version = ''v1''\<rparr>,
      dep_basis = DependencyBasis.Observed, dep_evidence_refs = []\<rparr>"

definition linked_world :: World where
  "linked_world = snd (add_dependency demo_scope (demo_dependency ''b.txt'' ''c.txt'')
     (snd (add_dependency demo_scope (demo_dependency ''a.txt'' ''b.txt'') granted_world)))"

lemma reachable_linked: "reachable linked_world"
proof -
  have link: "reachable (snd (add_dependency demo_scope (demo_dependency a b) s))" if "reachable s" for a b s
    by (rule stepped [OF that dependency_added [OF surjective_pairing]])
  show ?thesis unfolding linked_world_def by (intro link reachable_granted)
qed

theorem invalidation_is_exact_witness:
  "{q. affected demo_scope (store_db linked_world) ''a.txt'' q} = {''b.txt'', ''c.txt''}"
proof -
  have "fst (invalidate_dependents demo_scope ''a.txt'' linked_world) = Inr [''b.txt'', ''c.txt'']"
    by code_simp
  then have "invalidate_dependents demo_scope ''a.txt'' linked_world =
      (Inr [''b.txt'', ''c.txt''], snd (invalidate_dependents demo_scope ''a.txt'' linked_world))"
    by (metis prod.collapse)
  from invalidation_is_exact [OF reachable_linked this] show ?thesis by simp
qed

text \<open>
  Invalidation reaches the clock before it reaches the artifacts: an affected artifact is
  stamped with a generation above every generation the scope had handed out, so a reader that noted
  the generation it read at can tell that the artifact changed since; unaffected artifacts keep
  theirs.
\<close>

theorem invalidation_is_noticed:
  assumes "reachable s" "invalidate_dependents scope path s = (Inr paths, t)"
  shows "validity_generation scope (store_db t) = Suc (validity_generation scope (store_db s)) \<and>
    artifact_invalidation_generation scope q (store_db t) =
      (if q \<in> set paths then Suc (validity_generation scope (store_db s))
       else artifact_invalidation_generation scope q (store_db s)) \<and>
    artifact_invalidation_generation scope q (store_db s) \<le> validity_generation scope (store_db s)"
proof -
  have "generations_ok (store_db s)" using reachable_dependencies [OF assms(1)] by (simp add: depend_inv_def)
  moreover have "paths = affected_paths scope path (store_db s)"
    "store_db t = mark_all scope (Suc (validity_generation scope (store_db s))) paths
      (tick_validity scope (store_db s))"
    using assms(2)
    by (auto simp: invalidate_dependents_run invalidate_step_def Let_def validity_generation_tick)
  ultimately show ?thesis
    by (simp add: mark_all_generation validity_generation_tick generations_ok_def)
qed

theorem invalidation_is_noticed_witness:
  "artifact_invalidation_generation demo_scope ''b.txt''
     (store_db (snd (invalidate_dependents demo_scope ''a.txt'' linked_world))) = 1"
proof -
  have "fst (invalidate_dependents demo_scope ''a.txt'' linked_world) = Inr [''b.txt'', ''c.txt'']"
    "validity_generation demo_scope (store_db linked_world) = 0"
    by code_simp+
  moreover from this(1) have "invalidate_dependents demo_scope ''a.txt'' linked_world =
      (Inr [''b.txt'', ''c.txt''], snd (invalidate_dependents demo_scope ''a.txt'' linked_world))"
    by (metis prod.collapse)
  from invalidation_is_noticed [OF reachable_linked this, of "''b.txt''"]
  have "artifact_invalidation_generation demo_scope ''b.txt''
      (store_db (snd (invalidate_dependents demo_scope ''a.txt'' linked_world))) =
    Suc (validity_generation demo_scope (store_db linked_world))" by simp
  ultimately show ?thesis by simp
qed

end
