(* ===== verification/WorkProperties.thy ===== *)
theory WorkProperties
  imports Scenario History
begin

text \<open>
  The promises of the work queue and of the grants that runs act under.
\<close>

section \<open>The queue\<close>

text \<open>
  C21: In every reachable store an item of work is stored once and a subject at most once per grant;
  the status, lease and subject columns agree with the item's body; it was attempted at most three
  times, and an item in the queue was never attempted.
\<close>

theorem queue_is_well_formed:
  assumes "reachable s"
  shows "distinct (map wk_id (work (store_db s))) \<and>
    distinct (map (\<lambda>w. (wk_grant_id w, wk_subject w)) (work (store_db s))) \<and>
    list_all work_row_ok (work (store_db s))"
  using reachable_queue [OF assms] by (simp add: work_inv_def)

theorem queue_is_well_formed_witness: "list_all work_row_ok (work (store_db work_world))"
  using queue_is_well_formed [OF reachable_work] by simp





text \<open>
  C20: The claim loop returns. Run with one unit of fuel more than there are items, as a claim runs
  it, it never runs out: it ends in a lease, in an empty queue, or in the refusal of a deadline that
  is no counter.
\<close>

theorem claim_loop_returns:
  assumes "reachable s"
  shows "fst (claim_loop (Suc (length (work (store_db s)))) g owner ms att ids s) \<noteq>
    Inl (internal ''claim loop out of fuel'')"
proof -
  obtain r t where run: "claim_loop (Suc (length (work (store_db s)))) g owner ms att ids s = (r, t)"
    by fastforce
  from claim_loop_enough [OF reachable_queue [OF assms] run]
  have "r = Inl e \<Longrightarrow> counter (b_deadline_ms (g_budget g)) = Inl e" for e
    by (simp add: claim_outcome_def)
  moreover have "counter v \<noteq> Inl (internal ''claim loop out of fuel'')" for v
    by (auto simp: counter_def ok_or_def invalid_def internal_def split: option.splits)
  ultimately show ?thesis unfolding run by auto
qed

theorem claim_loop_returns_witness:
  "fst (claim_loop (Suc (length (work (store_db work_world)))) demo_grant ''o'' 1000 False None work_world) \<noteq>
    Inl (internal ''claim loop out of fuel'')"
  by (rule claim_loop_returns [OF reachable_work])




text \<open>The queue while a repeated request is checked.\<close>

definition queue_is :: "WorkRow list \<Rightarrow> Db \<Rightarrow> bool" where
  "queue_is ws d \<longleftrightarrow> work d = ws"

lemma queue_is_ignores: "ignores_retention (queue_is ws)"
  by (rule ignores_table(2) [of work]) (simp add: queue_is_def, erule outside_tables)

interpretation queue_reads: read_invariant "queue_is ws" for ws
  by unfold_locales (rule save_record_keeps cleanup_sources_keeps queue_is_ignores)+

text \<open>
  C33: Asking twice for the same open work makes one item: while a grant has an open item for a
  subject, a request for that subject adds nothing to the queue and is answered with that item.
\<close>

theorem repeated_work_is_shared:
  assumes "List.find (\<lambda>w. wk_grant_id w = g_id g \<and> wk_subject w = wr_subject q \<and>
      work_open (wk_status w)) (work (store_db s)) = Some row"
  shows "work (store_db (snd (enqueue_work g run q s))) = work (store_db s) \<and>
    (\<forall>item. fst (enqueue_work g run q s) = Inr item \<longrightarrow> item = wk_body row)"
proof -
  let ?ws = "work (store_db s)"
  have found: "List.find (\<lambda>w. wk_grant_id w = g_id g \<and> wk_subject w = wr_subject q \<and>
      work_open (wk_status w)) (work d) = Some row" if "queue_is ?ws d" for d
    using assms that by (simp add: queue_is_def)
  have checked: "preserves (db_inv (queue_is ?ws)) (validate_work_request g q)"
    unfolding validate_work_request_def by (intro keeps_intros queue_reads.require_reference)
  have kept: "preserves (db_inv (queue_is ?ws)) (enqueue_work_in g run q)"
    unfolding preserves_leads enqueue_work_in_def
    by (intro leads_seq leads_need leads_query keeps_intros) (auto simp: found leads_def)
  have item: "yields (queue_is ?ws) (\<lambda>v. v = wk_body row) (enqueue_work_in g run q)"
    unfolding enqueue_work_in_def
    by (intro yields_need yields_seq yields_query keeps_intros) (auto simp: found yields_def)
  have all: "preserves (db_inv (queue_is ?ws)) (enqueue_work g run q)"
    unfolding enqueue_work_def by (intro keeps_intros checked kept)
  have "yields (queue_is ?ws) (\<lambda>v. v = wk_body row) (enqueue_work g run q)"
    unfolding enqueue_work_def
    by (intro yields_seq yields_transaction checked) (use item in \<open>auto simp: yields_def bind_Inr_iff\<close>)
  with all show ?thesis
    by (auto simp: preserves_def db_inv_def queue_is_def yields_def)
       (metis prod.collapse)
qed

theorem repeated_work_is_shared_witness:
  "work (store_db (snd (enqueue_work demo_grant ''r'' demo_work work_world))) = work (store_db work_world)"
proof -
  have "List.find (\<lambda>w. wk_grant_id w = g_id demo_grant \<and> wk_subject w = wr_subject demo_work \<and>
      work_open (wk_status w)) (work (store_db work_world)) = Some (hd (work (store_db work_world)))"
    by code_simp
  from repeated_work_is_shared [OF this] show ?thesis by simp
qed

section \<open>Grants and runs\<close>

text \<open>
  C34: A grant is immutable: once registered it is found unchanged after any steps of the system, and
  registering anything else under its identity is refused.
\<close>

theorem grants_never_change:
  assumes "grant_body (store_db s) i = Some g" "system_step\<^sup>*\<^sup>* s t"
  shows "grant_body (store_db t) i = Some g \<and>
    (\<forall>h. g_id h = i \<longrightarrow> h \<noteq> g \<longrightarrow> (\<exists>e. fst (register_grant h t) = Inl e))"
proof (intro conjI allI impI)
  show found: "grant_body (store_db t) i = Some g"
    using grant_history.steps_keep [OF assms(2)] assms(1) by (simp add: grant_kept_def)
  fix h assume h: "g_id h = i" "h \<noteq> g"
  obtain r u where run: "register_grant h t = (r, u)" by fastforce
  with found h have "r \<noteq> Inr x" for x by (auto simp: register_grant_Inr_iff)
  with run show "\<exists>e. fst (register_grant h t) = Inl e" by (cases r) auto
qed

theorem grants_never_change_witness:
  "\<exists>e. fst (register_grant (demo_grant\<lparr>g_mode := Mode.Apply\<rparr>) running_world) = Inl e"
proof -
  have "grant_body (store_db granted_world) ''g'' = Some demo_grant" by code_simp
  from grants_never_change [OF this scenario_steps(1)] show ?thesis by (simp add: demo_grant_def)
qed



end
