(* ===== verification/FailureProperties.thy ===== *)
theory FailureProperties
  imports Scenario
begin

text \<open>
  What a failed operation leaves behind, and the numbers and levels every contract is checked with.
\<close>

section \<open>All or nothing\<close>

text \<open>Called on an idle connection, the operation either succeeds or leaves the tables alone.\<close>

definition atomic :: "'a store_op \<Rightarrow> bool" where
  "atomic m \<longleftrightarrow> (\<forall>s e t. \<not> store_in_tx s \<longrightarrow> m s = (Inl e, t) \<longrightarrow> store_db t = store_db s)"

named_theorems atomic_intros \<open>composition of all-or-nothing operations\<close>

lemma atomic_transaction [atomic_intros]: "atomic (transaction m)"
  by (auto simp: atomic_def dest: transaction_Inl_db)

lemma atomic_joined [atomic_intros]: "atomic (joined_transaction m)"
  by (auto simp: atomic_def dest: joined_transaction_Inl_db)

lemma atomic_quiet: "quiet m \<Longrightarrow> atomic m"
  by (simp add: atomic_def quiet_db)

lemma atomic_bind [atomic_intros]:
  assumes "quiet m" "\<And>x. atomic (f x)"
  shows "atomic (bind m f)"
  unfolding atomic_def
proof (intro allI impI)
  fix s :: World and e t
  assume idle: "\<not> store_in_tx s" and "bind m f s = (Inl e, t)"
  then consider "m s = (Inl e, t)" | x u where "m s = (Inr x, u)" "f x u = (Inl e, t)"
    by (auto simp: bind_Inl_iff)
  then show "store_db t = store_db s"
  proof cases
    case 1
    then show ?thesis by (rule quiet_db [OF assms(1)])
  next
    case 2
    note same = quietD [OF assms(1) 2(1)]
    have u: "store_db u = store_db s" "\<not> store_in_tx u"
      using same_storeD(1) [OF same] same_storeD(2) [OF same] idle by auto
    from assms(2) [unfolded atomic_def, rule_format, OF u(2) 2(2)] u(1) show ?thesis by simp
  qed
qed

lemma atomic_seq [atomic_intros]: "quiet m \<Longrightarrow> atomic n \<Longrightarrow> atomic (seq m n)"
  unfolding seq_def by (rule atomic_bind)

lemma atomic_last: "atomic m \<Longrightarrow> atomic (seq m (ret x))"
  unfolding atomic_def seq_Inl_iff op_runs by blast

lemma atomic_exec [atomic_intros]: "atomic (exec f)"
  by (simp add: atomic_def)

lemma atomic_option [atomic_intros]:
  "(v = None \<Longrightarrow> atomic m) \<Longrightarrow> (\<And>x. v = Some x \<Longrightarrow> atomic (f x)) \<Longrightarrow>
     atomic (case v of None \<Rightarrow> m | Some x \<Rightarrow> f x)"
  by (cases v) simp_all

text \<open>
  C23: These operations are all or nothing. Registering a grant, making or finishing an allocation,
  inspecting a budget, dispatching, releasing and settling a permit, claiming, finishing and renewing
  work, accepting evidence, saving a record and recording a dependency either succeed or leave every
  table exactly as it was.
\<close>

theorem failed_operations_change_nothing:
  "atomic (register_grant g) \<and> atomic (allocate g bq) \<and> atomic (finish_allocation g i v) \<and>
   atomic (root_budget_status g) \<and> atomic (run_budget_status run) \<and> atomic (dispatch_permit run i) \<and>
   atomic (release_permit run i) \<and> atomic (usage run u) \<and>
   atomic (claim_work_filter i owner ms att ids) \<and> atomic (finish_work i owner ws) \<and>
   atomic (renew_work i owner ms) \<and> atomic (ingest e) \<and> atomic (save_record_for_run r expected by) \<and>
   atomic (add_dependency scope dep)"
proof (intro conjI)
  show "atomic (register_grant g)"
    unfolding register_grant_def
    by (intro atomic_intros quiet_intros atomic_quiet)
  have accepted: "atomic (seq (write_event e) (ret True))"
    unfolding write_event_def by (intro atomic_last atomic_joined)
  have answered: "atomic (seq (need b err) (ret False))" for b :: bool and err
    by (intro atomic_quiet quiet_intros)
  show "atomic (ingest e)"
    unfolding ingest_def
    by (rule atomic_seq atomic_bind atomic_option accepted answered quiet_pure)+
  show "atomic (save_record_for_run r expected by)"
    unfolding save_record_for_run_def by (intro atomic_intros)
  show "atomic (allocate g bq)" "atomic (finish_allocation g i v)" "atomic (root_budget_status g)"
    "atomic (run_budget_status run)" "atomic (dispatch_permit run i)" "atomic (release_permit run i)"
    "atomic (usage run u)" "atomic (claim_work_filter i owner ms att ids)" "atomic (finish_work i owner ws)"
    "atomic (renew_work i owner ms)" "atomic (add_dependency scope dep)"
    unfolding allocate_def finish_allocation_def root_budget_status_def run_budget_status_def
      dispatch_permit_def release_permit_def usage_def claim_work_filter_def finish_work_def
      renew_work_def add_dependency_def
    by (intro atomic_intros quiet_intros)+
qed

theorem failed_operations_change_nothing_witness:
  "store_db (snd (release_permit ''r'' ''none'' permit_world)) = store_db permit_world"
proof -
  have "isl (fst (release_permit ''r'' ''none'' permit_world))" "\<not> store_in_tx permit_world" by code_simp+
  then obtain e t where run: "release_permit ''r'' ''none'' permit_world = (Inl e, t)"
    and idle: "\<not> store_in_tx permit_world" by (metis isl_def prod.collapse)
  have "atomic (release_permit ''r'' ''none'')"
    by (rule failed_operations_change_nothing [THEN conjunct2, THEN conjunct2, THEN conjunct2,
          THEN conjunct2, THEN conjunct2, THEN conjunct2, THEN conjunct1])
  from this [unfolded atomic_def, rule_format, OF idle run] run show ?thesis by simp
qed

section \<open>Counters and splits\<close>

text \<open>
  Counters survive the wire. A number of 64 bits is printed to a string that parses back to it
  and a larger one is refused; and a string the contracts admit as a counter is the canonical
  spelling of the number it parses to.
\<close>

theorem counters_round_trip:
  "(n \<le> u64_max \<longrightarrow> counter (to_string n) = Inr n) \<and>
   (u64_max < n \<longrightarrow> counter (to_string n) = Inl (invalid ''counter exceeds u64'')) \<and>
   (valid_decimal v \<longrightarrow> (\<exists>k < 10 ^ 19. counter v = Inr k \<and> to_string k = v))"
  using counter_to_string counter_to_string_over valid_decimal_counter by blast

theorem counters_round_trip_witness:
  "counter (to_string 18446744073709551615) = Inr 18446744073709551615 \<and>
   counter (to_string 18446744073709551616) = Inl (invalid ''counter exceeds u64'')"
  using counters_round_trip [of 18446744073709551615 "''0''"]
    counters_round_trip [of 18446744073709551616 "''0''"]
  by (simp add: u64_max_def)

text \<open>
  What is derived from several splits is as closed as the most closed of them: the split of a
  derived event is one of the visible ones, none of them is above it, and with none visible it is
  the holdout split.
\<close>

theorem derived_splits_are_the_most_closed:
  "(splits \<noteq> [] \<longrightarrow> derived_split splits \<in> set splits) \<and>
   (\<forall>x \<in> set splits. split_level x \<le> split_level (derived_split splits)) \<and>
   derived_split [] = Split.Holdout"
  using derived_split_bounds derived_split_visible by (auto simp: derived_split_def)

theorem derived_splits_are_the_most_closed_witness:
  "derived_split [Split.Holdout, Split.Development] \<in> {Split.Holdout, Split.Development}"
  using derived_splits_are_the_most_closed [of "[Split.Holdout, Split.Development]"] by simp

end
