(* ===== verification/CopyHistory.thy ===== *)
theory CopyHistory
  imports History "HOL-Library.Sublist"
begin

text \<open>
  The tables retention erases content from, across the steps of the program. An effect moves only
  forward through its phases, its receipt is final once it is finalized, and an owner settles it
  once. A message keeps its place, is delivered at most three times and stays acknowledged. The
  items of a context are only ever appended.
\<close>

section \<open>Invariants of the erased tables\<close>

text \<open>An invariant that reads only these tables, and survives what retention erases in them.\<close>

locale copy_rows =
  fixes I :: "Db \<Rightarrow> bool"
  assumes withheld: "erased d d' \<Longrightarrow> I d \<Longrightarrow> I d'"

context copy_rows
begin

lemma same_rows: "copies d' = copies d \<Longrightarrow> I d \<Longrightarrow> I d'"
  by (rule withheld [OF erased_same])

lemma saved: "preserves (db_inv I) (save_record_for_run r expected run)"
  by (rule save_record_keeps_copies) (erule same_rows [rotated])

lemma registered: "preserves (db_inv I) (register_grant g)"
  unfolding register_grant_def by (intro keeps_intros) (erule same_rows [rotated], simp add: copies_def)

lemma cleaned: "preserves (db_inv I) (cleanup_sources g k)"
  by (rule cleanup_sources_safe)
     (unfold retention_safe_def content_safe_def, intro conjI allI impI; erule withheld [rotated]; simp)

lemma ingested: "preserves (db_inv I) (ingest e)"
  by (rule ingest_keeps)
     (auto simp: ignores_events_def insert_event_def copies_def
       intro: same_rows [unfolded copies_def] same_rows [OF copies_lineage])

end

sublocale copy_rows \<subseteq> budget: budgetless_invariant I
  by unfold_locales (erule same_rows [rotated], simp add: copies_def)+

sublocale copy_rows \<subseteq> dependencies: undepended_invariant I
  by unfold_locales (erule same_rows [rotated], simp add: copies_def)+

sublocale copy_rows \<subseteq> lineage: lineageless_invariant I
  by unfold_locales (erule same_rows [rotated], erule copies_lineage)

sublocale copy_rows \<subseteq> queue: workless_invariant I
  by unfold_locales
     (rule budget.allocation_operations ingested budget.disposed | assumption
     | erule same_rows [rotated], simp add: copies_def)+

sublocale copy_rows \<subseteq> active: active_invariant I
  by unfold_locales (rule saved cleaned budget.allocation_operations)+

sublocale copy_rows \<subseteq> finalizing: finalizing_invariant I
  by unfold_locales
     (rule ingested dependencies.dependency_operations
     | erule dependencies.cleared | erule same_rows [rotated], simp add: copies_def)+


section \<open>Effects\<close>

fun phase_rank :: "EffectPhase \<Rightarrow> nat" where
  "phase_rank PhasePrepared = 0"
| "phase_rank PhaseDispatching = 1"
| "phase_rank PhaseObserved = 2"
| "phase_rank PhaseFinalized = 3"

text \<open>What retention leaves of a receipt, an observation or a settlement.\<close>

definition residue ::
    "EffectRow \<Rightarrow> ActionReceipt \<times> EffectObservation option \<times> EffectSettlement option" where
  "residue e = (withhold_content (ef_body e),
     map_option (\<lambda>x. x\<lparr>eo_receipt := withhold_content (eo_receipt x)\<rparr>) (ef_observation e),
     map_option withhold_settlement (ef_settlement e))"

text \<open>
  A row keeps its identity and its authority, its phase never falls, the adapter's observation is
  captured once, the receipt is final after finalization and a settlement is never replaced; the
  only later change to these is that retention withholds their content.
\<close>

definition effect_next :: "EffectRow \<Rightarrow> EffectRow \<Rightarrow> bool" where
  "effect_next e q \<longleftrightarrow>
     ef_rowid q = ef_rowid e \<and> ef_id q = ef_id e \<and> ef_run_id q = ef_run_id e \<and>
     ef_grant_id q = ef_grant_id e \<and> ef_allocation_id q = ef_allocation_id e \<and>
     ef_authority q = ef_authority e \<and> phase_rank (ef_phase e) \<le> phase_rank (ef_phase q) \<and>
     (2 \<le> phase_rank (ef_phase e) \<longrightarrow> fst (snd (residue q)) = fst (snd (residue e))) \<and>
     (ef_phase e = PhaseFinalized \<longrightarrow> fst (residue q) = fst (residue e)) \<and>
     (ef_settlement e \<noteq> None \<longrightarrow> snd (snd (residue q)) = snd (snd (residue e)))"

lemma effect_next_refl: "effect_next e e"
  by (simp add: effect_next_def)

lemma finalized_rank: "ef_phase e = PhaseFinalized \<longleftrightarrow> 3 \<le> phase_rank (ef_phase e)"
  by (cases "ef_phase e") simp_all

lemma settled_residue: "ef_settlement e = None \<longleftrightarrow> snd (snd (residue e)) = None"
  by (simp add: residue_def)

lemma effect_next_trans:
  assumes "effect_next a b" "effect_next b c"
  shows "effect_next a c"
  using assms unfolding effect_next_def finalized_rank settled_residue by auto

lemma withhold_settlement_idem: "withhold_settlement (withhold_settlement s) = withhold_settlement s"
  by (simp add: withhold_settlement_def)

lemma withhold_content_idem: "withhold_content (withhold_content r) = withhold_content r"
  by (simp add: withhold_content_def option.map_comp comp_def withhold_settlement_idem)

lemma residue_withheld: "residue (withhold_effect e) = residue e"
  by (simp add: residue_def withhold_effect_def option.map_comp comp_def withhold_content_idem
      withhold_settlement_idem)

lemma withhold_effect_keeps [simp]:
  "ef_rowid (withhold_effect e) = ef_rowid e" "ef_id (withhold_effect e) = ef_id e"
  "ef_run_id (withhold_effect e) = ef_run_id e" "ef_grant_id (withhold_effect e) = ef_grant_id e"
  "ef_allocation_id (withhold_effect e) = ef_allocation_id e"
  "ef_authority (withhold_effect e) = ef_authority e" "ef_phase (withhold_effect e) = ef_phase e"
  "ef_settlement (withhold_effect e) = None \<longleftrightarrow> ef_settlement e = None"
  by (simp_all add: withhold_effect_def)

lemma effect_next_erased: "erased_effect e q \<Longrightarrow> effect_next e q"
  by (auto simp: erased_effect_def effect_next_def residue_withheld)

definition effects_since :: "Db \<Rightarrow> Db \<Rightarrow> bool" where
  "effects_since d0 d \<longleftrightarrow> distinct (map ef_id (effects d)) \<and> advances effect_next (effects d0) (effects d)"

lemma effect_row_in: "effect_row d i = Some e \<Longrightarrow> e \<in> set (effects d) \<and> ef_id e = i"
  unfolding effect_row_def by (drule find_Some_iff2) simp

lemma effects_since_update:
  assumes "effects_since d0 d"
    and "\<And>e. e \<in> set (effects d) \<Longrightarrow> ef_id e = i \<Longrightarrow> effect_next e (f e)"
  shows "effects_since d0 (update_effect i f d)"
proof -
  have "map ef_id (update_where (\<lambda>e. ef_id e = i) f (effects d)) = map ef_id (effects d)"
    unfolding update_where_def using assms(2) by (simp add: effect_next_def)
  moreover have "advances effect_next (effects d0) (update_where (\<lambda>e. ef_id e = i) f (effects d))"
    by (rule advances_update [OF _ effect_next_trans effect_next_refl])
       (use assms in \<open>simp_all add: effects_since_def\<close>)
  ultimately show ?thesis using assms(1) by (simp add: effects_since_def update_effect_def)
qed

lemma effects_since_row:
  assumes "effects_since d0 d" "e \<in> set (effects d)" "ef_id e = i" "effect_next e (f e)"
  shows "effects_since d0 (update_effect i f d)"
proof (rule effects_since_update [OF assms(1)])
  fix q assume "q \<in> set (effects d)" "ef_id q = i"
  then have "q = e" using assms(1-3) unfolding effects_since_def by (metis distinct_key_eq)
  with assms(4) show "effect_next q (f q)" by simp
qed


section \<open>The operations on effects\<close>

lemma erased_effect_row:
  "erased d d' \<Longrightarrow> effect_row d i = Some e \<Longrightarrow>
     \<exists>q. effect_row d' i = Some q \<and> erased_effect e q"
  unfolding effect_row_def erased_def by (elim conjE, erule find_rows) (auto simp: erased_effect_def)

lemma effects_since_erased:
  assumes "erased d d'" "effects_since d0 d"
  shows "effects_since d0 d'"
proof -
  have rows: "list_all2 erased_effect (effects d) (effects d')"
    using assms(1) by (simp add: erased_def)
  have "map ef_id (effects d') = map ef_id (effects d)"
    using rows by (induction rule: list_all2_induct) (auto simp: erased_effect_def)
  moreover have "list_all2 effect_next (effects d) (effects d')"
    using rows by (rule list_all2_mono) (rule effect_next_erased)
  ultimately show ?thesis
    using assms(2) by (auto simp: effects_since_def intro: advances_all effect_next_trans)
qed

text \<open>
  Finalization and settlement decide on a row they have read, and write it after other operations.
  Until that write the row stays as it was found.
\<close>

definition row_waits :: "string \<Rightarrow> (EffectRow \<Rightarrow> bool) \<Rightarrow> Db \<Rightarrow> Db \<Rightarrow> bool" where
  "row_waits i P d0 d \<longleftrightarrow> effects_since d0 d \<and> (\<exists>e. effect_row d i = Some e \<and> P e)"

interpretation effect_history: copy_rows "effects_since d0" for d0
  by unfold_locales (rule effects_since_erased)

abbreviation observed :: "EffectRow \<Rightarrow> bool" where
  "observed e \<equiv> ef_phase e = PhaseObserved"

abbreviation unsettled :: "EffectRow \<Rightarrow> bool" where
  "unsettled e \<equiv> ef_settlement e = None"

lemma row_waits_erased:
  assumes "\<And>e q. erased_effect e q \<Longrightarrow> P e \<Longrightarrow> P q"
    and "erased d d'" "row_waits i P d0 d"
  shows "row_waits i P d0 d'"
  using assms(3) unfolding row_waits_def
  by (meson assms(1,2) effects_since_erased erased_effect_row)

interpretation effect_messages: messageless_invariant "effects_since d0" for d0
  by unfold_locales (rule effect_history.ingested | simp add: effects_since_def)+

interpretation observed_rows: copy_rows "row_waits i observed d0" for i d0
  by unfold_locales (erule row_waits_erased [rotated], auto simp: erased_effect_def)

interpretation unsettled_rows: copy_rows "row_waits i unsettled d0" for i d0
  by unfold_locales (erule row_waits_erased [rotated], auto simp: erased_effect_def)

lemma row_waits_update:
  assumes "row_waits i P d0 d" "\<And>e. P e \<Longrightarrow> effect_next e (f e)"
  shows "effects_since d0 (update_effect i f d)"
  using assms unfolding row_waits_def by (auto dest!: effect_row_in intro: effects_since_row)

lemma move_since:
  assumes "\<And>e. ef_phase e \<in> ps \<Longrightarrow> effect_next e (f e)"
  shows "preserves (db_inv (effects_since d0)) (move_effect i ps refusal f)"
  unfolding move_effect_def preserves_leads
  by (intro leads_intros leads_exec) (auto simp: exists_where_def intro: effects_since_row assms)

lemma pinned_since: "preserves (db_inv (effects_since d0)) (pin_effect_checks x)"
  unfolding pin_effect_checks_def
  by (rule move_since) (simp add: effect_next_def residue_def)

lemma dispatched_since:
  "preserves (db_inv (effects_since d0)) (move_effect i {PhasePrepared} refusal (dispatched_row x))"
  by (rule move_since) (simp add: effect_next_def residue_def dispatched_row_def)

lemma captured_since: "preserves (db_inv (effects_since d0)) (capture_effect x)"
  unfolding capture_effect_def
  by (rule move_since) (auto simp: effect_next_def residue_def)

lemma intended_since: "preserves (db_inv (effects_since d0)) (insert_effect receipt g budget)"
  unfolding insert_effect_def
  by (intro keeps_intros)
     (auto simp: effects_since_def effect_row_def find_None_iff prepared_row_def advances_append)

lemma observed_since: "row_waits i observed d0 d \<Longrightarrow> effects_since d0 d"
  by (simp add: row_waits_def)

lemma published_since:
  "leads (row_waits i observed d0) (effects_since d0) (publish_receipt g i receipt)"
proof -
  have final: "leads (row_waits i observed d0) (effects_since d0)
      (seq (exec (update_effect i (\<lambda>e. e\<lparr>ef_phase := PhaseFinalized, ef_body := r\<rparr>))) (ret r))" for r
    by (rule leads_exec_keeps, erule row_waits_update)
       (auto simp: effect_next_def residue_def intro: keeps_intros)
  have timed: "preserves (db_inv (row_waits i observed d0)) (finished_ms r)" for r
    unfolding finished_ms_def by (intro keeps_intros)
  show ?thesis
    unfolding publish_receipt_def Let_def
    by (rule leads_bind, erule observed_since, rule quiet_preserves timed observed_rows.ingested,
        (rule quiet_intros)?)+ (rule final)
qed

lemma finalized_since: "preserves (db_inv (effects_since d0)) (finalize_observed g i x targets previous)"
proof -
  have rest: "leads (row_waits i observed d0) (effects_since d0)
      (bind (publish_receipt g i receipt) commit)" for receipt
    by (rule leads_bind_then [OF published_since]) (rule keeps_intros)
  have restores: "preserves (db_inv (row_waits i observed d0))
      (fold_op (restore_artifact g i receipt previous) ([], []) targets)" for receipt
    by (intro keeps_intros observed_rows.finalizing.restored)
  have restored: "leads (row_waits i observed d0) (effects_since d0)
      (bind (fold_op (restore_artifact g i r previous) ([], []) targets)
        (\<lambda>state. bind (publish_receipt g i (h state)) commit))" for r h
    by (rule leads_bind [OF observed_since restores rest])
  have writes: "leads (row_waits i observed d0) (effects_since d0)
     (seq (record_branch g (eo_branch x)) (
       bind (invalidate_writes (g_scope g) (rcp_side_effects (eo_receipt x)) (eo_writes x)) (\<lambda>effects.
       bind (fold_op (restore_artifact g i (r effects) previous) ([], []) targets)
        (\<lambda>state. bind (publish_receipt g i (h effects state)) commit))))" for r h
    by (rule leads_seq [OF observed_since observed_rows.finalizing.finalization_writes(1)],
        assumption, rule leads_bind [OF observed_since observed_rows.finalizing.finalization_writes(2)],
        assumption, rule restored)
  show ?thesis
    unfolding preserves_leads finalize_observed_def Let_def
    by (rule leads_query_res, assumption, rule leads_if, rule leads_pure, simp, rule leads_need, simp,
        rule leads_weaken [OF writes]) (auto simp: row_waits_def the_row_def)
qed

lemma settled_since:
  "leads (\<lambda>d. effects_since d0 d \<and> effect_row d (esr_operation_id sq) = Some row \<and> ef_settlement row = None)
     (effects_since d0) (record_settlement g run receipt sq row)"
proof (rule leads_weaken)
  let ?W = "row_waits (esr_operation_id sq) unsettled d0"
  have waits: "?W d \<Longrightarrow> effects_since d0 d" for d by (simp add: row_waits_def)
  have final: "leads ?W (effects_since d0)
      (seq (exec (update_effect (esr_operation_id sq) (\<lambda>e. e\<lparr>ef_settlement := Some t\<rparr>))) (ret r))" for t r
    by (rule leads_exec_keeps, erule row_waits_update)
       (auto simp: effect_next_def residue_def intro: keeps_intros)
  have invalidated: "preserves (db_inv ?W)
      (for_each ps (invalidate_artifact_and_dependents sc))" for ps sc
    by (intro keeps_intros unsettled_rows.dependencies.dependency_operations)
  show "leads ?W (effects_since d0) (record_settlement g run receipt sq row)"
    unfolding record_settlement_def Let_def
    by (rule leads_seq, erule waits, rule invalidated,
        (rule leads_bind, erule waits, rule quiet_preserves unsettled_rows.ingested, (rule quiet_intros)?)+,
        rule final)
qed (simp add: row_waits_def)

interpretation effects_kept: store_invariant "effects_since d0" for d0
  by unfold_locales
     (rule effect_history.registered effect_history.dependencies.dependency_operations effect_history.budget.budget_operations
       effect_history.ingested effect_history.saved effect_history.cleaned
       effect_history.queue.work_operations effect_messages.message_operations
       intended_since pinned_since dispatched_since captured_since finalized_since settled_since
       insert_item_keeps
     | erule effect_history.lineage.lineage_writes effect_history.dependencies.cleared
     | erule (1) effect_history.lineage.edged | erule effect_history.budget.disposed
     | simp add: effects_since_def)+


text \<open>Between any two states the system can reach, every effect moved only forward.\<close>

lemma effects_move:
  assumes "reachable s" "system_step\<^sup>*\<^sup>* s t"
  shows "effects_since (store_db s) (store_db t)"
proof -
  have "effects_since empty_db (store_db s)"
    by (rule effects_kept.reachable_keeps [OF assms(1)])
       (simp add: effects_since_def empty_db_def advances_def)
  then have "effects_since (store_db s) (store_db s)"
    by (simp add: effects_since_def advances_refl effect_next_refl)
  with assms(2) show ?thesis by (rule effects_kept.steps_keep)
qed



section \<open>Messages\<close>

text \<open>
  A row keeps its key, its parties and its place; deliveries only grow, an acknowledgement is final,
  and a body is either as it was sent or gone.
\<close>

definition message_next :: "MessageRow \<Rightarrow> MessageRow \<Rightarrow> bool" where
  "message_next m q \<longleftrightarrow>
     mr_sequence q = mr_sequence m \<and> mr_id q = mr_id m \<and> mr_grant_id q = mr_grant_id m \<and>
     mr_sender q = mr_sender m \<and> mr_recipient q = mr_recipient m \<and>
     mr_source_format q = mr_source_format m \<and> mr_attempts m \<le> mr_attempts q \<and>
     (mr_acknowledged m \<longrightarrow> mr_acknowledged q) \<and> (mr_body q = mr_body m \<or> mr_body q = None)"

lemma message_next_refl: "message_next m m"
  by (simp add: message_next_def)

lemma message_next_trans: "message_next a b \<Longrightarrow> message_next b c \<Longrightarrow> message_next a c"
  by (auto simp: message_next_def)

definition message_ok :: "MessageRow \<Rightarrow> bool" where
  "message_ok m \<longleftrightarrow> mr_attempts m \<le> MAX_DELIVERIES \<and> (\<forall>b. mr_body m = Some b \<longrightarrow> m_id b = mr_id m)"

definition messages_since :: "Db \<Rightarrow> Db \<Rightarrow> bool" where
  "messages_since d0 d \<longleftrightarrow> distinct (map mr_id (messages d)) \<and> list_all message_ok (messages d) \<and>
     advances message_next (messages d0) (messages d)"

lemma messages_since_update:
  assumes "messages_since d0 d" "messages d' = update_where P f (messages d)"
    and "\<And>m. m \<in> set (messages d) \<Longrightarrow> P m \<Longrightarrow> message_next m (f m) \<and> message_ok (f m)"
  shows "messages_since d0 d'"
proof -
  have "map mr_id (messages d') = map mr_id (messages d)"
    unfolding assms(2) update_where_def using assms(3) by (simp add: message_next_def)
  moreover have "advances message_next (messages d0) (messages d')"
    unfolding assms(2)
    by (rule advances_update [OF _ message_next_trans message_next_refl])
       (use assms(1,3) in \<open>simp_all add: messages_since_def\<close>)
  moreover have "\<forall>m \<in> set (messages d'). message_ok m"
    using assms by (auto simp: set_update_where messages_since_def list_all_iff)
  ultimately show ?thesis using assms(1) by (simp add: messages_since_def list_all_iff)
qed

lemma messages_since_all:
  assumes "messages_since d0 d" "list_all2 erased_message (messages d) (messages d')"
  shows "messages_since d0 d'"
proof -
  have "map mr_id (messages d') = map mr_id (messages d)"
    using assms(2) by (induction rule: list_all2_induct) (auto simp: erased_message_def)
  moreover have "list_all message_ok (messages d) \<Longrightarrow> list_all message_ok (messages d')"
    using assms(2)
    by (induction rule: list_all2_induct) (auto simp: erased_message_def message_ok_def)
  moreover have "list_all2 message_next (messages d) (messages d')"
    using assms(2) by (rule list_all2_mono) (auto simp: erased_message_def message_next_def)
  ultimately show ?thesis
    using assms(1) by (auto simp: messages_since_def intro: advances_all message_next_trans)
qed

interpretation message_history: copy_rows "messages_since d0" for d0
  by unfold_locales (auto simp: erased_def intro: messages_since_all)

interpretation message_effects: effectless_invariant "messages_since d0" for d0
  by unfold_locales (simp add: messages_since_def)

text \<open>Sending: the row is new, so its body may still receive its sequence number.\<close>

lemma sent_since:
  assumes "messages_since d0 d" "\<not> exists_where (\<lambda>m. mr_id m = i) (messages d)"
    and "message_ok row" "mr_id row = i" "mr_body row \<noteq> None" "m_id message = i"
  shows "messages_since d0 (update_message i (\<lambda>m. m\<lparr>mr_body := Some message\<rparr>) (insert_message row d))"
proof -
  have "update_where (\<lambda>m. mr_id m = i) f (messages d) = messages d" for f
    using assms(2) by (auto simp: update_where_def exists_where_def intro: map_idI)
  then have "messages (update_message i (\<lambda>m. m\<lparr>mr_body := Some message\<rparr>) (insert_message row d)) =
      messages d @ [row\<lparr>mr_body := Some message\<rparr>]"
    using assms(4) by (simp add: update_message_def insert_message_def update_where_def)
  with assms show ?thesis
    by (auto simp: messages_since_def message_ok_def exists_where_def advances_append)
qed

lemma posted_since: "preserves (db_inv (messages_since d0)) (post_message g run q)"
proof -
  have sent: "leads (\<lambda>d'. \<exists>d. messages_since d0 d \<and> \<not> exists_where (\<lambda>m. mr_id m = i) (messages d) \<and>
        d' = insert_message (message_row g run (new_message run q i) n) d) (messages_since d0)
      (seq (exec (update_message i (\<lambda>m. m\<lparr>mr_body := Some ((new_message run q i)\<lparr>m_sequence := k\<rparr>)\<rparr>))) m)"
    if "preserves (db_inv (messages_since d0)) m" for i n k and m :: "Message store_op"
    using that
    by (rule leads_exec_keeps [rotated])
       (auto intro!: sent_since simp: message_ok_def message_row_def new_message_def)
  show ?thesis
    unfolding post_message_def Let_def preserves_leads
    by (rule leads_new_id, rule leads_bind, assumption, (rule quiet_preserves quiet_intros)+,
        rule leads_insert_then, assumption, rule sent, intro keeps_intros message_history.ingested)
qed

text \<open>Delivery: one count for each row of the batch.\<close>

lemma inbox_loop_rows:
  assumes "inbox_loop g rows batch s = (Inr out, t)"
  shows "\<exists>new read. out = batch @ new \<and> subseq read rows \<and>
    list_all2 (\<lambda>r m. \<exists>b. mr_body r = Some b \<and> m = delivered r b) read new"
  using assms
proof (induction g rows batch arbitrary: s rule: inbox_loop.induct)
  case (1 g batch)
  then show ?case by (intro exI [of _ "[]"]) simp
next
  case (2 g row rows batch)
  from "2.prems"(1) obtain available u where
    rest: "(if \<not> available then inbox_loop g rows batch
       else bind (expect (mr_body row) (invalid ''missing field'')) (\<lambda>message.
         let batch = batch @ [delivered row message] in
         if length batch = INBOX_BATCH then ret batch else inbox_loop g rows batch)) u = (Inr out, t)"
    by (auto simp: bind_Inr_iff)
  show ?case
  proof (cases available)
    case False
    with rest have "inbox_loop g rows batch u = (Inr out, t)" by simp
    from "2.IH"(1) [OF _ this] False show ?thesis by (blast intro: list_emb_Cons)
  next
    case True
    with rest obtain b where b: "mr_body row = Some b" and
      next_: "(if length (batch @ [delivered row b]) = INBOX_BATCH then ret (batch @ [delivered row b])
         else inbox_loop g rows (batch @ [delivered row b])) u = (Inr out, t)"
      by (auto simp: bind_Inr_iff Let_def split: option.splits)
    show ?thesis
    proof (cases "length (batch @ [delivered row b]) = INBOX_BATCH")
      case True
      with next_ b show ?thesis
        by (intro exI [of _ "[delivered row b]"] exI [of _ "[row]"]) auto
    next
      case False
      with next_ have "inbox_loop g rows (batch @ [delivered row b]) u = (Inr out, t)" by simp
      with "2.IH"(2) [of available "batch @ [delivered row b]" b u] False \<open>available\<close> obtain new read where
        "out = (batch @ [delivered row b]) @ new" "subseq read rows"
        "list_all2 (\<lambda>r m. \<exists>b. mr_body r = Some b \<and> m = delivered r b) read new" by auto
      with b show ?thesis
        by (intro exI [of _ "delivered row b # new"] exI [of _ "row # read"]) auto
    qed
  qed
qed


definition counts_left :: "Db \<Rightarrow> string list \<Rightarrow> Db \<Rightarrow> bool" where
  "counts_left d0 ids d \<longleftrightarrow> messages_since d0 d \<and>
     (\<forall>m \<in> set (messages d). mr_id m \<in> set ids \<longrightarrow> mr_attempts m < MAX_DELIVERIES)"

lemma count_since:
  assumes "counts_left d0 (i # ids) d" "i \<notin> set ids" "m_id b = i"
  shows "counts_left d0 ids (count_delivery b d)"
proof -
  have "messages_since d0 (count_delivery b d)"
    by (rule messages_since_update [of d0 d _ "\<lambda>m. mr_id m = i" "\<lambda>m. m\<lparr>mr_attempts := mr_attempts m + 1\<rparr>"])
       (use assms in \<open>auto simp: counts_left_def count_delivery_def update_message_def message_next_def
         message_ok_def messages_since_def list_all_iff\<close>)
  with assms show ?thesis
    by (auto simp: counts_left_def count_delivery_def update_message_def set_update_where)
qed

lemma counts_since:
  "distinct (map m_id batch) \<Longrightarrow>
     leads (counts_left d0 (map m_id batch)) (messages_since d0)
       (for_each batch (\<lambda>b. exec (count_delivery b)))"
proof (induction batch)
  case Nil
  show ?case by (simp add: leads_def counts_left_def)
next
  case (Cons b batch)
  show ?case
    unfolding for_each.simps
    by (rule leads_exec_then, rule leads_weaken [OF Cons.IH])
       (use Cons.prems in \<open>auto intro: count_since\<close>)
qed

lemma delivered_batch:
  assumes "messages_since d0 d" "subseq read (sort_key mr_sequence (filter (deliverable run g) (messages d)))"
    and "list_all2 (\<lambda>r m. \<exists>b. mr_body r = Some b \<and> m = delivered r b) read batch"
  shows "map m_id batch = map mr_id read" "distinct (map m_id batch)" "counts_left d0 (map m_id batch) d"
proof -
  let ?rows = "sort_key mr_sequence (filter (deliverable run g) (messages d))"
  have read: "set read \<subseteq> set ?rows" using assms(2) by (fastforce elim: list_emb_set)
  have ok: "message_ok r" "mr_attempts r < MAX_DELIVERIES" "r \<in> set (messages d)" if "r \<in> set read" for r
    using read that assms(1) by (auto simp: messages_since_def list_all_iff deliverable_def)
  show ids: "map m_id batch = map mr_id read"
    using assms(3) ok(1)
    by (induction rule: list_all2_induct) (auto simp: message_ok_def delivered_def)
  have "distinct (map mr_id ?rows)"
    using assms(1) by (simp add: messages_since_def distinct_map inj_on_def)
  moreover have "subseq (map mr_id read) (map mr_id ?rows)" using assms(2) by (rule subseq_map)
  ultimately show "distinct (map m_id batch)" unfolding ids by (auto simp: subseq_conv_nths)
  have "mr_attempts m < MAX_DELIVERIES" if m: "m \<in> set (messages d)" "mr_id m \<in> set (map mr_id read)" for m
  proof -
    from m(2) obtain r where r: "r \<in> set read" "mr_id r = mr_id m" by auto
    with ok(3) m(1) assms(1) have "r = m" unfolding messages_since_def by (metis distinct_key_eq)
    with ok(2) r(1) show ?thesis by simp
  qed
  with assms(1) show "counts_left d0 (map m_id batch) d" unfolding ids by (simp add: counts_left_def)
qed

lemma inbox_since: "preserves (db_inv (messages_since d0)) (inbox run)"
proof -
  have rest: "leads (\<lambda>d'. d' = d) (messages_since d0)
      (bind (inbox_loop g (sort_key mr_sequence (filter (deliverable run (g_id g)) (messages d))) []) (\<lambda>batch.
       seq (for_each batch (\<lambda>message. exec (count_delivery message))) (
       commit \<lparr>ib_messages = batch\<rparr>)))" if "messages_since d0 d" for d g
  proof (rule leads_read)
    show "\<exists>read. subseq read (sort_key mr_sequence (filter (deliverable run (g_id g)) (messages d))) \<and>
        list_all2 (\<lambda>r m. \<exists>b. mr_body r = Some b \<and> m = delivered r b) read batch"
      if "inbox_loop g (sort_key mr_sequence (filter (deliverable run (g_id g)) (messages d))) [] s
        = (Inr batch, t)" for s t and batch :: "Message list"
      using inbox_loop_rows [OF that] by simp
    show "leads (\<lambda>d'. d' = d) (messages_since d0)
        (seq (for_each batch (\<lambda>message. exec (count_delivery message))) (commit \<lparr>ib_messages = batch\<rparr>))"
      if "\<exists>read. subseq read (sort_key mr_sequence (filter (deliverable run (g_id g)) (messages d))) \<and>
        list_all2 (\<lambda>r m. \<exists>b. mr_body r = Some b \<and> m = delivered r b) read batch" for batch
      using that delivered_batch [OF \<open>messages_since d0 d\<close>]
      by (elim exE conjE) (rule leads_then, rule leads_weaken [OF counts_since], auto intro: keeps_intros)
  qed (use that in \<open>auto intro: quiet_intros\<close>)
  show ?thesis
    unfolding inbox_def preserves_leads
    by (rule leads_transaction, rule leads_bind, assumption, rule message_history.active.require_active,
        rule leads_query, rule rest)
qed

lemma acknowledged_since: "preserves (db_inv (messages_since d0)) (acknowledge_message run i)"
  unfolding acknowledge_message_def
proof (intro keeps_intros)
  fix d assume inv: "messages_since d0 d"
  show "messages_since d0 (d\<lparr>messages := update_where (\<lambda>m. mr_id m = i \<and> mr_recipient m = run)
      (\<lambda>m. m\<lparr>mr_acknowledged := True\<rparr>) (messages d)\<rparr>)"
    by (rule messages_since_update [OF inv, of _ "\<lambda>m. mr_id m = i \<and> mr_recipient m = run"
          "\<lambda>m. m\<lparr>mr_acknowledged := True\<rparr>"])
       (use inv in \<open>auto simp: message_next_def message_ok_def messages_since_def list_all_iff\<close>)
qed

interpretation messages_kept: store_invariant "messages_since d0" for d0
  by unfold_locales
     (rule message_history.registered message_history.dependencies.dependency_operations
       message_history.budget.budget_operations message_history.ingested message_history.saved
       message_history.cleaned message_history.queue.work_operations message_effects.effect_operations
       posted_since inbox_since acknowledged_since insert_item_keeps
     | erule message_history.lineage.lineage_writes message_history.dependencies.cleared
     | erule (1) message_history.lineage.edged | erule message_history.budget.disposed
     | simp add: messages_since_def)+

lemma messages_move:
  assumes "reachable s" "system_step\<^sup>*\<^sup>* s t"
  shows "messages_since (store_db s) (store_db t)"
proof -
  have "messages_since empty_db (store_db s)"
    by (rule messages_kept.reachable_keeps [OF assms(1)])
       (simp add: messages_since_def empty_db_def advances_def)
  then have "messages_since (store_db s) (store_db s)"
    by (simp add: messages_since_def advances_refl message_next_refl)
  with assms(2) show ?thesis by (rule messages_kept.steps_keep)
qed


section \<open>Context items\<close>

definition item_key :: "ContextItem \<Rightarrow> string \<times> nat" where
  "item_key i = (it_segment_id i, it_sequence i)"

definition items_since :: "Db \<Rightarrow> Db \<Rightarrow> bool" where
  "items_since d0 d \<longleftrightarrow> distinct (map item_key (context_items d)) \<and>
     advances erased_item (context_items d0) (context_items d)"

lemma erased_item_trans: "erased_item a b \<Longrightarrow> erased_item b c \<Longrightarrow> erased_item a c"
  by (auto simp: erased_item_def)

lemma erased_item_key: "erased_item a b \<Longrightarrow> item_key b = item_key a"
  by (auto simp: erased_item_def item_key_def)

interpretation item_history: copy_rows "items_since d0" for d0
proof
  fix d d' assume "erased d d'" and inv: "items_since d0 d"
  then have rows: "list_all2 erased_item (context_items d) (context_items d')" by (simp add: erased_def)
  then have "map item_key (context_items d') = map item_key (context_items d)"
    by (induction rule: list_all2_induct) (simp_all add: erased_item_key)
  with rows inv show "items_since d0 d'"
    by (auto simp: items_since_def intro: advances_all erased_item_trans)
qed

interpretation item_effects: effectless_invariant "items_since d0" for d0
  by unfold_locales (simp add: items_since_def)

interpretation item_messages: messageless_invariant "items_since d0" for d0
  by unfold_locales (rule item_history.ingested | simp add: items_since_def)+

lemma inserted_since: "preserves (db_inv (items_since d0)) (insert_item segment n kind body summary)"
  unfolding insert_item_def
  by (intro keeps_intros) (auto simp: items_since_def item_key_def exists_where_def advances_append)

interpretation items_kept: store_invariant "items_since d0" for d0
  by unfold_locales
     (rule item_history.registered item_history.dependencies.dependency_operations
       item_history.budget.budget_operations item_history.ingested item_history.saved
       item_history.cleaned item_history.queue.work_operations item_effects.effect_operations
       item_messages.message_operations inserted_since
     | erule item_history.lineage.lineage_writes item_history.dependencies.cleared
     | erule (1) item_history.lineage.edged | erule item_history.budget.disposed
     | simp add: items_since_def)+

lemma items_move:
  assumes "reachable s" "system_step\<^sup>*\<^sup>* s t"
  shows "items_since (store_db s) (store_db t)"
proof -
  have "items_since empty_db (store_db s)"
    by (rule items_kept.reachable_keeps [OF assms(1)])
       (simp add: items_since_def empty_db_def advances_def)
  then have "items_since (store_db s) (store_db s)"
    by (simp add: items_since_def advances_refl erased_item_def)
  with assms(2) show ?thesis by (rule items_kept.steps_keep)
qed

end
