(* ===== verification/InteractionProperties.thy ===== *)
theory InteractionProperties
  imports Scenario CopyHistory
begin

text \<open>
  The promises of what a run does to the world and to other runs: its effects, the messages it
  exchanges and the context it retains.
\<close>

section \<open>Effects\<close>





section \<open>Messages\<close>





section \<open>Contexts\<close>

text \<open>
  C28: The items of a retained context are only ever appended. A sequence number of a segment is used
  once, and an item keeps its place, its kind and its links across any steps; its body is what was
  appended, or gone once retention withdrew its sources.
\<close>

theorem contexts_only_grow:
  assumes "reachable s" "system_step\<^sup>*\<^sup>* s t" "i \<in> set (context_items (store_db s))"
  shows "distinct (map (\<lambda>q. (it_segment_id q, it_sequence q)) (context_items (store_db t))) \<and>
    (i \<in> set (context_items (store_db t)) \<or> i\<lparr>it_body := None\<rparr> \<in> set (context_items (store_db t)))"
  using items_move [OF assms(1,2)] assms(3)
  by (fastforce simp: items_since_def item_key_def [abs_def] erased_item_def dest!: advances_in)

theorem contexts_only_grow_witness:
  "hd (context_items (store_db context_world)) \<in> set (context_items (store_db
       (snd (authorize_context ''r'' context_world)))) \<or>
   (hd (context_items (store_db context_world)))\<lparr>it_body := None\<rparr> \<in> set (context_items (store_db
       (snd (authorize_context ''r'' context_world))))"
proof -
  have "context_items (store_db context_world) \<noteq> []" by code_simp
  moreover have "system_step context_world (snd (authorize_context ''r'' context_world))"
    by (rule context_authorized) (rule surjective_pairing)
  ultimately show ?thesis
    using contexts_only_grow [OF reachable_context r_into_rtranclp] by simp
qed

end
