(* ===== verification/ContentProperties.thy ===== *)
theory ContentProperties
  imports Scenario Windows Rpc Exports
begin

text \<open>
  The promises of what crosses the boundary of the substrate: texts read in windows, frames of the
  wire, calls of a worker, training exports and runs that wait for their children.
\<close>

section \<open>Windows\<close>

text \<open>
  C26: A reader that asks for windows of at least four bytes and continues where each one ended
  receives the whole text: every request succeeds, no window is longer than asked for, none splits a
  character, and together they are the text.
\<close>

theorem windows_reassemble:
  assumes "from_utf8 s" "4 \<le> len"
  shows "\<exists>ws. read_windows (Suc (length s)) s 0 len = Inr ws \<and> concat ws = s \<and>
    list_all (\<lambda>w. length w \<le> len) ws"
  using read_windows_complete [OF from_utf8_text [OF assms(1)] assms(2), of 0 "Suc (length s)"]
  by (simp add: char_boundary_def)

definition euro_text :: string where
  "euro_text = [CHR ''1'', CHR 0x20, CHR 0xE2, CHR 0x82, CHR 0xAC]"

theorem windows_reassemble_witness:
  "\<exists>ws. read_windows 6 euro_text 0 4 = Inr ws \<and> concat ws = euro_text"
proof -
  have "from_utf8 euro_text" "Suc (length euro_text) = 6" by code_simp+
  with windows_reassemble [of euro_text 4] show ?thesis by auto
qed

section \<open>Frames\<close>

text \<open>
  C25: However the bytes of a stream are cut into buffers, the frame read from it is its first line,
  and what is left is the rest of the stream; a line or a partial line beyond the frame bound is
  refused, and so is a last line without its newline.
\<close>

theorem frames_are_lines:
  assumes "list_all (\<lambda>b. b \<noteq> []) buffers"
  shows "and_then (frame_loop [] buffers) (\<lambda>(frame, rest). Inr (frame, concat rest)) =
    first_line (concat buffers)"
  using frame_loop_first_line [OF assms, of "[]"] by simp

theorem frames_are_lines_witness:
  "and_then (frame_loop [] [''{\"a\"'', '':1}'' @ [newline] @ ''{'', ''}'' @ [newline]])
     (\<lambda>(frame, rest). Inr (frame, concat rest)) =
   Inr (Some (''{\"a\":1}'' @ [newline]), ''{}'' @ [newline])"
  by (subst frames_are_lines) code_simp+

section \<open>Calls\<close>






section \<open>Exports\<close>

text \<open>
  C8: A training export that succeeded was granted, and when it became available every source its
  records derive from, through any chain of lineage, was development material of the scope and of no
  protected kind.
\<close>

theorem exports_are_development_material:
  assumes "export_training run q s = (Inr r, t)" "i \<in> set (xq_record_ids q)"
    and "((''record'', i), y) \<in> (lineage_step (store_db t))\<^sup>*"
  shows "\<exists>grant. run_grant run (store_db s) = Inr grant \<and> g_allow_export grant \<and>
    exportable (g_scope grant) (store_db t) y"
proof -
  from assms(1) obtain grant u plan v w where
    active: "require_active run s = (Inr grant, u)" and allowed: "g_allow_export grant" and
    plan: "manifest grant q v = (Inr plan, w)" and
    published: "(\<exists>x. attempt (publish grant plan) w = (Inr (Inr x), t))"
    unfolding export_training_def
    by (auto simp: seq_Inr_iff bind_Inr_iff validate_def need_def throw_def ret_def split: if_splits sum.splits)
       (metis old.sum.exhaust old.unit.exhaust)
  from published obtain x where "publish grant plan w = (Inr x, t)"
    by (auto simp: attempt_def split: prod.splits)
  from publish_exportable [OF this manifest_reviews [OF plan assms(2)] assms(3)]
    require_active_grant [OF active] allowed
  show ?thesis by blast
qed

definition export_grant :: Grant where
  "export_grant = demo_grant\<lparr>g_id := ''x'', g_allow_export := True\<rparr>"

definition export_world :: World where
  "export_world = (snd (begin_run ''r3'' ''x'' (demo_request\<lparr>rq_run_id := ''r3''\<rparr>)
     (snd (register_grant export_grant record_world))))
     \<lparr>env_is_uuid := (\<lambda>_. True), store_export_directory := Some ''/exports''\<rparr>"

definition demo_export :: ExportRequest where
  "demo_export = \<lparr>xq_record_ids = [''rec''], xq_product = Origin.Observed\<rparr>"

theorem exports_are_development_material_witness:
  "\<exists>grant. run_grant ''r3'' (store_db export_world) = Inr grant \<and> g_allow_export grant \<and>
     exportable (g_scope grant) (store_db (snd (export_training ''r3'' demo_export export_world)))
       (''event'', ''e1'')"
proof -
  let ?t = "snd (export_training ''r3'' demo_export export_world)"
  have "isl (fst (export_training ''r3'' demo_export export_world)) = False" by code_simp
  then obtain r where run: "fst (export_training ''r3'' demo_export export_world) = Inr r"
    by (metis isl_def sum.exhaust)
  have "(''event'', ''e1'') \<in> set (direct_sources ''record'' ''rec'' (store_db ?t))" by code_simp
  then have "((''record'', ''rec''), (''event'', ''e1'')) \<in> (lineage_step (store_db ?t))\<^sup>*"
    by (intro r_into_rtrancl) (simp add: lineage_step_def)
  moreover have "''rec'' \<in> set (xq_record_ids demo_export)" by (simp add: demo_export_def)
  ultimately show ?thesis
    using exports_are_development_material [OF run_eq [of "export_training ''r3'' demo_export", OF run]]
    by blast
qed

section \<open>Waiting for children\<close>

text \<open>
  C30: A parked run resumes only once every item of work it waits for is one of its own children and
  is closed; then its wait is gone, and it is running if it was waiting.
\<close>

theorem runs_resume_after_their_children:
  assumes "resume_waiting run s = (Inr (), t)"
  shows "(\<exists>q. waiting_work run (store_db s) = Some q \<and>
      (\<forall>i \<in> set (ww_work_ids q). \<exists>item. child_work run i (store_db s) = Inr item \<and>
         terminal (w_status item))) \<and>
    store_db t = wake_run run (delete_wait run (store_db s)) \<and> waiting_work run (store_db t) = None"
proof -
  have gone: "waiting_work run (wake_run run (delete_wait run d)) = None" for d
    by (auto simp: waiting_work_def wake_run_def delete_wait_def delete_where_def find_None_iff)
  from assms obtain q st u where wait: "waiting_work run (store_db s) = Some q"
    and status: "work_wait_status run q (s\<lparr>store_in_tx := True\<rparr>) = (Inr st, u)"
    and over: "\<not> wwr_wait_required st" and t: "store_db t = wake_run run (delete_wait run (store_db u))"
    unfolding resume_waiting_def
    by (auto simp: transaction_Inr_iff bind_Inr_iff seq_Inr_iff need_def ret_def throw_def
        split: if_splits option.splits)
  from wait_over_iff [OF status] over wait t gone show ?thesis by auto
qed

definition waiting_tables :: "Db \<Rightarrow> Db" where
  "waiting_tables d = insert_wait ''r'' [''id0''] (set_run_status ''r'' RunWaiting
     (update_work ''id0'' (stop_row WorkItemStatus.Cancelled) d))"

definition waiting_world :: World where
  "waiting_world = snd (exec waiting_tables work_world)"

theorem runs_resume_after_their_children_witness:
  "(\<exists>q. waiting_work ''r'' (store_db waiting_world) = Some q) \<and>
   waiting_work ''r'' (store_db (snd (resume_waiting ''r'' waiting_world))) = None"
proof -
  have "isl (fst (resume_waiting ''r'' waiting_world)) = False" by code_simp
  then have "fst (resume_waiting ''r'' waiting_world) = Inr ()"
    by (cases "fst (resume_waiting ''r'' waiting_world)") auto
  from runs_resume_after_their_children [OF run_eq [of "resume_waiting ''r''", OF this]] show ?thesis by blast
qed

end
