(* ===== verification/Host.thy ===== *)
theory Host
  imports Windows Validation "HOL-Library.List_Lexorder" "HOL-Library.Char_ord" "HOL-Library.Sublist"
begin

text \<open>
  crates/ribosome-core/src/host.rs: the local host, which reads and edits the files of a workspace for
  a grant and runs registered commands.

  The state is the machine the host runs on. Files are a map from absolute paths, lists of names, to
  nodes. Between two accesses other processes may change the files (\<open>mac_others\<close>), and any access may
  fail with an input or output error (\<open>mac_io\<close>). A running command is one of the other processes. The
  digests, the clock, the names of temporary files and the spawned command are parameters of the
  machine; locks, permissions and fsync are not modelled.
\<close>

section \<open>Files\<close>

datatype Node =
    RegularFile string nat
  | Directory
  | Symlink bool "string list"
  | Special

type_synonym files = "string list \<Rightarrow> Node option"

record ProcessOutput =
  pro_success :: bool
  pro_stdout :: string
  pro_stderr :: string
  pro_timed_out :: bool
  pro_cancelled :: bool
  pro_elapsed_ms :: nat

record RegisteredTool =
  rtl_program :: string
  rtl_args :: "string list"
  rtl_timeout_ms :: nat
  rtl_reads :: "string list"
  rtl_validates :: "string list"
  rtl_writes :: "string list"
  rtl_code_files :: "string list"
  rtl_validated_properties :: "PropertyBinding list"

record Machine =
  mac_files :: files
  mac_accesses :: nat
  mac_others :: "nat \<Rightarrow> files \<Rightarrow> files"
  mac_io :: "nat \<Rightarrow> Error option"
  mac_time :: "nat \<Rightarrow> nat"
  mac_sha256 :: "string \<Rightarrow> string"
  mac_temporary :: "nat \<Rightarrow> string"
  mac_digest :: "RegisteredTool \<Rightarrow> (string list \<times> nat \<times> nat) list \<Rightarrow> string"
  mac_spawn :: "nat \<Rightarrow> string \<Rightarrow> string list \<Rightarrow> string list \<Rightarrow> nat \<Rightarrow> ProcessOutput res"

type_synonym 'a machine_op = "(Machine, 'a) op"

definition change :: "(files \<Rightarrow> 'a res \<times> files) \<Rightarrow> 'a machine_op" where
  "change f m =
     (let fs = mac_others m (mac_accesses m) (mac_files m);
          (r, gs) = (case mac_io m (mac_accesses m) of Some e \<Rightarrow> (Inl e, fs) | None \<Rightarrow> f fs)
      in (r, m\<lparr>mac_files := gs, mac_accesses := Suc (mac_accesses m)\<rparr>))"

definition access :: "(files \<Rightarrow> 'a res) \<Rightarrow> 'a machine_op" where
  "access f = change (\<lambda>fs. (f fs, fs))"

definition machine_time :: "nat machine_op" where
  "machine_time m =
     (Inr (mac_time m (mac_accesses m)), m\<lparr>mac_accesses := Suc (mac_accesses m)\<rparr>)"

text \<open>The node at a path none of whose directories is a link.\<close>

fun walk :: "files \<Rightarrow> string list \<Rightarrow> string list \<Rightarrow> Node option" where
  "walk fs p [] = (if p = [] then Some Directory else fs p)"
| "walk fs p (c # cs) =
     (if p = [] \<or> fs p = Some Directory then walk fs (p @ [c]) cs else None)"

definition node_at :: "files \<Rightarrow> string list \<Rightarrow> Node option" where
  "node_at fs p = walk fs [] p"

definition not_found :: Error where
  "not_found = internal ''No such file or directory (os error 2)''"

text \<open>\<open>canonicalize\<close> follows at most forty links.\<close>

function canonical :: "nat \<Rightarrow> files \<Rightarrow> string list \<Rightarrow> string list \<Rightarrow> string list res" where
  "canonical links fs p [] = ok_or (map_option (\<lambda>_. p) (node_at fs p)) not_found"
| "canonical links fs p (c # cs) =
     (if c = ''.'' then canonical links fs p cs
      else if c = ''..'' then canonical links fs (butlast p) cs
      else case node_at fs (p @ [c]) of
          None \<Rightarrow> Inl not_found
        | Some (Symlink absolute target) \<Rightarrow>
            (case links of
               0 \<Rightarrow> Inl (internal ''Too many levels of symbolic links (os error 40)'')
             | Suc n \<Rightarrow> canonical n fs (if absolute then [] else p) (target @ cs))
        | Some _ \<Rightarrow> canonical links fs (p @ [c]) cs)"
  by pat_completeness auto

termination
  by (relation "measures [\<lambda>(links, fs, p, cs). links, \<lambda>(links, fs, p, cs). length cs]") auto

definition canonicalize :: "files \<Rightarrow> string list \<Rightarrow> string list res" where
  "canonicalize fs p = canonical 40 fs [] p"

definition follow :: "files \<Rightarrow> string list \<Rightarrow> Node res" where
  "follow fs p = and_then (canonicalize fs p) (\<lambda>q. ok_or (node_at fs q) not_found)"

definition directory :: "files \<Rightarrow> string list \<Rightarrow> string list res" where
  "directory fs p = and_then (canonicalize fs p) (\<lambda>d.
     if node_at fs d = Some Directory then Inr d else Inl (internal ''Not a directory (os error 20)''))"

definition exists :: "string list \<Rightarrow> bool machine_op" where
  "exists p = succeeds (access (\<lambda>fs. follow fs p))"

definition max_artifact :: nat where
  "max_artifact = 16 * 1024 * 1024"

definition bounded_bytes :: "Node \<Rightarrow> string res" where
  "bounded_bytes node =
     (case node of
        RegularFile bytes t \<Rightarrow>
          if length bytes \<le> max_artifact then Inr bytes
          else Inl (invalid ''artifact must be a regular file of at most 16 MiB'')
      | _ \<Rightarrow> Inl (invalid ''artifact must be a regular file of at most 16 MiB''))"

definition read_bounded :: "string list \<Rightarrow> string machine_op" where
  "read_bounded p = access (\<lambda>fs. and_then (follow fs p) bounded_bytes)"

section \<open>Path strings\<close>

datatype component = RootDir | CurDir | ParentDir | Normal string

fun split_slash :: "string \<Rightarrow> string \<Rightarrow> string list" where
  "split_slash name [] = [name]"
| "split_slash name (c # cs) =
     (if c = CHR ''/'' then name # split_slash [] cs else split_slash (name @ [c]) cs)"

definition is_absolute :: "string \<Rightarrow> bool" where
  "is_absolute path \<longleftrightarrow> path \<noteq> [] \<and> hd path = CHR ''/''"

definition name_parts :: "string list \<Rightarrow> component list" where
  "name_parts names = map (\<lambda>n. if n = ''..'' then ParentDir else Normal n)
     (filter (\<lambda>n. n \<noteq> [] \<and> n \<noteq> ''.'') names)"

text \<open>\<open>Path::components\<close>: empty names and inner dots are dropped, a leading dot is not.\<close>

definition components :: "string \<Rightarrow> component list" where
  "components path =
     (if is_absolute path then [RootDir]
      else if hd (split_slash [] path) = ''.'' then [CurDir] else []) @
     name_parts (split_slash [] path)"

fun is_normal :: "component \<Rightarrow> bool" where
  "is_normal (Normal n) = True"
| "is_normal _ = False"

fun part_name :: "component \<Rightarrow> string list" where
  "part_name (Normal n) = [n]"
| "part_name ParentDir = [''..'']"
| "part_name _ = []"

definition path_names :: "string \<Rightarrow> string list" where
  "path_names path = concat (map part_name (components path))"

section \<open>The host\<close>

record LocalHost =
  lho_root :: "string list"
  lho_tools :: "(string \<times> RegisteredTool) list"

definition valid_binding :: "PropertyBinding \<Rightarrow> bool" where
  "valid_binding b \<longleftrightarrow> valid_VersionRef (pb_obligation b) \<and> valid_name (pb_path b)"

fun check_bindings :: "string list \<Rightarrow> (string \<times> string) list \<Rightarrow> PropertyBinding list \<Rightarrow> unit res" where
  "check_bindings validates seen [] = Inr ()"
| "check_bindings validates seen (b # bs) =
     and_then (guard (valid_binding b) (invalid ''PropertyBinding'')) (\<lambda>_.
     if pb_path b \<notin> set validates \<or> (pb_path b, vr_id (pb_obligation b)) \<in> set seen
     then Inl (invalid
       ''property bindings require distinct obligation/target pairs included in validates'')
     else check_bindings validates ((pb_path b, vr_id (pb_obligation b)) # seen) bs)"

definition check_tool :: "RegisteredTool \<Rightarrow> unit res" where
  "check_tool tool =
     and_then (check_bindings (rtl_validates tool) [] (rtl_validated_properties tool)) (\<lambda>_.
     and_then (guard (is_absolute (rtl_program tool) \<and> 0 < rtl_timeout_ms tool \<and> rtl_timeout_ms tool \<le> 300000)
       (invalid ''registered tools need absolute executables and a bounded timeout'')) (\<lambda>_.
     and_then (guard (set (rtl_validates tool) \<subseteq> set (rtl_reads tool))
       (invalid ''validated artifacts must be included in check reads'')) (\<lambda>_.
     guard (length (rtl_code_files tool) \<le> 32 \<and> list_all is_absolute (rtl_code_files tool))
       (invalid ''checker code_files must contain at most 32 absolute paths''))))"

text \<open>The second owner of a workspace is refused; the lock is held as long as the host lives.\<close>

definition new_host :: "string list \<Rightarrow> bool \<Rightarrow> (string \<times> RegisteredTool) list \<Rightarrow> LocalHost machine_op" where
  "new_host root locked tools =
     bind (access (\<lambda>fs. canonicalize fs root)) (\<lambda>root.
     seq (need (\<not> locked) (conflict ''workspace already owned by a local Ribosome host''))
     (seq (lift (for_res (\<lambda>(name, tool). check_tool tool) tools))
     (ret \<lparr>lho_root = root, lho_tools = tools\<rparr>)))"

definition is_symlink :: "Node option \<Rightarrow> bool" where
  "is_symlink node \<longleftrightarrow> (case node of Some (Symlink _ _) \<Rightarrow> True | _ \<Rightarrow> False)"

fun refuse_symlinks :: "string list \<Rightarrow> string list \<Rightarrow> unit machine_op" where
  "refuse_symlinks p [] = skip"
| "refuse_symlinks p (c # cs) =
     bind (attempt (access (\<lambda>fs. Inr (node_at fs (p @ [c]))))) (\<lambda>node.
     seq (need (case node of Inr n \<Rightarrow> \<not> is_symlink n | Inl _ \<Rightarrow> True)
       (denied ''symlinks are not supported artifact paths''))
     (refuse_symlinks (p @ [c]) cs))"

definition base_directory :: "LocalHost \<Rightarrow> string list option \<Rightarrow> string list" where
  "base_directory host workspace = (case workspace of Some w \<Rightarrow> w | None \<Rightarrow> lho_root host)"

definition granted_path :: "Grant \<Rightarrow> string \<Rightarrow> bool" where
  "granted_path grant path \<longleftrightarrow>
     path \<in> set (g_paths grant) \<and> list_all is_normal (components path) \<and>
     \<not> prefix ''.ribosome'' path"

definition artifact_path :: "LocalHost \<Rightarrow> Grant \<Rightarrow> string \<Rightarrow> string list option \<Rightarrow> string list machine_op" where
  "artifact_path host grant path workspace =
     seq (need (granted_path grant path) (denied ''artifact path not granted''))
     (bind (access (\<lambda>fs. canonicalize fs (base_directory host workspace))) (\<lambda>root.
      let resolved = root @ path_names path in
      seq (refuse_symlinks root (path_names path))
      (seq (need (resolved \<noteq> []) (denied ''invalid artifact path''))
      (bind (access (\<lambda>fs. canonicalize fs (butlast resolved))) (\<lambda>parent.
       seq (need (prefix root parent) (denied ''artifact escapes workspace''))
       (ret resolved))))))"

section \<open>Reading\<close>

text \<open>
  \<open>str::from_utf8\<close> with the position of its error: \<open>Incomplete n\<close> when the bytes from \<open>n\<close> on are the
  beginning of a character.
\<close>

datatype utf8 = Valid | Incomplete nat | Malformed

fun scan_utf8 :: "nat \<Rightarrow> nat list \<Rightarrow> utf8" where
  "scan_utf8 n [] = Valid"
| "scan_utf8 n (a # bs) =
     (if a < 128 then scan_utf8 (n + 1) bs
      else if a < 194 \<or> 245 \<le> a then Malformed
      else case bs of
          [] \<Rightarrow> Incomplete n
        | b # cs \<Rightarrow>
            if \<not> (tail_byte b \<and> (a = 224 \<longrightarrow> 160 \<le> b) \<and> (a = 237 \<longrightarrow> b < 160) \<and>
                (a = 240 \<longrightarrow> 144 \<le> b) \<and> (a = 244 \<longrightarrow> b < 144)) then Malformed
            else if a < 224 then scan_utf8 (n + 2) cs
            else case cs of
                [] \<Rightarrow> Incomplete n
              | c # ds \<Rightarrow>
                  if \<not> tail_byte c then Malformed
                  else if a < 240 then scan_utf8 (n + 3) ds
                  else case ds of
                      [] \<Rightarrow> Incomplete n
                    | e # es \<Rightarrow> if tail_byte e then scan_utf8 (n + 4) es else Malformed)"

definition chunk_text :: "string \<Rightarrow> string res" where
  "chunk_text slice =
     (case scan_utf8 0 (map of_char slice) of
        Valid \<Rightarrow> Inr slice
      | Incomplete n \<Rightarrow> Inr (take n slice)
      | Malformed \<Rightarrow> Inl (invalid ''artifact is not UTF-8 or offset splits a character''))"

definition chunk_of :: "string \<Rightarrow> string \<Rightarrow> nat \<Rightarrow> nat \<Rightarrow> string \<Rightarrow> ArtifactChunk res" where
  "chunk_of path data offset len version =
     (let start = min offset (length data); stop = min (start + len) (length data) in
      and_then (chunk_text (take (stop - start) (drop start data))) (\<lambda>content.
      and_then (guard (\<not> (content = [] \<and> start < length data))
        (invalid ''chunk length is smaller than next UTF-8 character'')) (\<lambda>_.
      Inr \<lparr>ach_artifact = \<lparr>ar_path = path, ar_version = version\<rparr>, ach_content = content,
        ach_offset = start mod 2 ^ 32, ach_total_bytes = to_string (length data),
        ach_eof = (start + length content = length data), ach_snapshot_id = None,
        ach_required_freshness = None\<rparr>)))"

definition host_read :: "LocalHost \<Rightarrow> Grant \<Rightarrow> ArtifactRead \<Rightarrow> string list option \<Rightarrow> ArtifactChunk machine_op" where
  "host_read host grant request workspace =
     bind (artifact_path host grant (ard_path request) workspace) (\<lambda>p.
     bind (read_bounded p) (\<lambda>data.
     bind (ask mac_sha256) (\<lambda>digest.
     lift (chunk_of (ard_path request) data (ard_offset request) (ard_length request) (digest data)))))"

definition local_version :: "LocalHost \<Rightarrow> Grant \<Rightarrow> string \<Rightarrow> string list option \<Rightarrow> ArtifactRef machine_op" where
  "local_version host grant path workspace =
     bind (artifact_path host grant path workspace) (\<lambda>resolved.
     bind (exists resolved) (\<lambda>present.
     if present
     then bind (read_bounded resolved) (\<lambda>data.
       bind (ask mac_sha256) (\<lambda>digest.
       ret \<lparr>ar_path = path, ar_version = digest data\<rparr>))
     else ret \<lparr>ar_path = path, ar_version = ''absent''\<rparr>))"

section \<open>Editing\<close>

definition local_prepare_edit ::
    "LocalHost \<Rightarrow> Grant \<Rightarrow> string \<Rightarrow> string \<Rightarrow> string list option \<Rightarrow> ArtifactRef machine_op" where
  "local_prepare_edit host grant path expected workspace =
     seq (need (case g_writable_paths grant of Some paths \<Rightarrow> path \<in> set paths | None \<Rightarrow> True)
       (denied ''artifact is read-only in this grant''))
     (seq (need (\<not> (g_mode grant = Mode.Observe \<or> g_mode grant = Mode.Sandbox \<and> workspace = None))
       (denied ''grant requires an isolated branch for edits''))
     (seq (artifact_path host grant path workspace)
     (bind (local_version host grant path workspace) (\<lambda>before.
      seq (need (ar_version before = expected)
        (conflict ''artifact changed; inspect current version before editing''))
      (ret before)))))"

text \<open>\<open>NamedTempFile\<close>: a new file beside the target, removed when it is dropped before it is persisted.\<close>

definition create_temporary :: "string list \<Rightarrow> string \<Rightarrow> string list machine_op" where
  "create_temporary parent content =
     bind (ask (\<lambda>m. (mac_temporary m (mac_accesses m), mac_time m (mac_accesses m)))) (\<lambda>(name, now).
     change (\<lambda>fs. case directory fs parent of
         Inl e \<Rightarrow> (Inl e, fs)
       | Inr d \<Rightarrow>
           if fs (d @ [name]) \<noteq> None then (Inl (internal ''File exists (os error 17)''), fs)
           else (Inr (d @ [name]), fs(d @ [name] \<mapsto> RegularFile content now))))"

definition drop_temporary :: "string list \<Rightarrow> unit machine_op" where
  "drop_temporary temporary = change (\<lambda>fs. (Inr (), fs(temporary := None)))"

definition persist :: "string list \<Rightarrow> string list \<Rightarrow> unit machine_op" where
  "persist temporary resolved =
     change (\<lambda>fs. case directory fs (butlast resolved) of
         Inl e \<Rightarrow> (Inl (internal (e_message e)), fs)
       | Inr d \<Rightarrow>
           if fs (d @ [last resolved]) = Some Directory
           then (Inl (internal ''Is a directory (os error 21)''), fs)
           else if fs temporary = None
           then (Inl (internal ''No such file or directory (os error 2)''), fs)
           else (Inr (), (fs(temporary := None))(d @ [last resolved] := fs temporary)))"

definition swap_in ::
    "LocalHost \<Rightarrow> Grant \<Rightarrow> string \<Rightarrow> string \<Rightarrow> string list option \<Rightarrow> string list \<Rightarrow> string list \<Rightarrow>
     unit machine_op" where
  "swap_in host grant path expected workspace resolved temporary =
     bind (exists resolved) (\<lambda>present.
     seq (if present then bind (access (\<lambda>fs. follow fs resolved)) (\<lambda>_. skip) else skip)
     (bind (local_version host grant path workspace) (\<lambda>current.
      seq (need (ar_version current = expected) (conflict ''artifact changed during edit preparation''))
      (persist temporary resolved))))"

definition write_edit ::
    "LocalHost \<Rightarrow> Grant \<Rightarrow> string \<Rightarrow> string \<Rightarrow> string \<Rightarrow> string list option \<Rightarrow> string list \<Rightarrow>
     ArtifactRef machine_op" where
  "write_edit host grant path expected content workspace resolved =
     bind (create_temporary (butlast resolved) content) (\<lambda>temporary.
     seq (handle (swap_in host grant path expected workspace resolved temporary)
       (\<lambda>e. seq (succeeds (drop_temporary temporary)) (throw e)))
     (seq (access (\<lambda>fs. follow fs (butlast resolved)))
     (bind (ask mac_sha256) (\<lambda>digest.
      ret \<lparr>ar_path = path, ar_version = digest content\<rparr>))))"

definition local_edit ::
    "LocalHost \<Rightarrow> Grant \<Rightarrow> string \<Rightarrow> string \<Rightarrow> string \<Rightarrow> string list option \<Rightarrow> ArtifactRef machine_op" where
  "local_edit host grant path expected content workspace =
     seq (local_prepare_edit host grant path expected workspace)
     (bind (artifact_path host grant path workspace)
       (write_edit host grant path expected content workspace))"

section \<open>Registered commands\<close>

definition authorized_tool ::
    "LocalHost \<Rightarrow> Grant \<Rightarrow> string \<Rightarrow> string list option \<Rightarrow> bool \<Rightarrow> RegisteredTool machine_op" where
  "authorized_tool host grant name workspace read_only =
     seq (need (name \<in> set (g_tools grant) \<and> g_mode grant \<noteq> Mode.Observe)
       (denied ''check tool not granted''))
     (seq (need (\<not> (g_mode grant = Mode.Sandbox \<and> workspace = None))
       (denied ''check requires a branch in sandbox mode''))
     (bind (expect (map_of (lho_tools host) name) (denied ''host does not support this tool'')) (\<lambda>tool.
      seq (need (\<not> (read_only \<and> rtl_writes tool \<noteq> []))
        (denied ''effectful registered tool cannot be used as a check''))
      (seq (need (\<not> (rtl_writes tool \<noteq> [] \<and> workspace = None \<and>
          (case g_required_checks grant of Some checks \<Rightarrow> checks \<noteq> [] | None \<Rightarrow> False)))
        (denied ''host-required checks require effectful procedures to run in a branch''))
      (seq (for_each (rtl_writes tool) (\<lambda>path.
         seq (need (case g_writable_paths grant of Some paths \<Rightarrow> path \<in> set paths | None \<Rightarrow> True)
           (denied ''registered tool writes a read-only artifact''))
         (bind (artifact_path host grant path workspace) (\<lambda>_. skip))))
      (ret tool))))))"

definition file_stamp :: "string list \<Rightarrow> (string list \<times> nat \<times> nat) machine_op" where
  "file_stamp p = access (\<lambda>fs. and_then (follow fs p) (\<lambda>node.
     case node of
       RegularFile bytes modified \<Rightarrow> Inr (p, length bytes, modified)
     | _ \<Rightarrow> Inl (invalid ''checker dependency must be a regular file'')))"

definition is_file :: "string \<Rightarrow> bool machine_op" where
  "is_file path = succeeds (access (\<lambda>fs. and_then (follow fs (path_names path)) (\<lambda>node.
     case node of RegularFile _ _ \<Rightarrow> Inr () | _ \<Rightarrow> Inl not_found)))"

fun file_arguments :: "string list \<Rightarrow> string list machine_op" where
  "file_arguments [] = ret []"
| "file_arguments (a # as) =
     bind (if is_absolute a then is_file a else ret False) (\<lambda>found.
     bind (file_arguments as) (\<lambda>rest. ret (if found then a # rest else rest)))"

definition ordered_set :: "'a::linorder list \<Rightarrow> 'a list" where
  "ordered_set xs = remdups_adj (sort xs)"

definition local_checker_version :: "LocalHost \<Rightarrow> string \<Rightarrow> string machine_op" where
  "local_checker_version host name =
     bind (expect (map_of (lho_tools host) name) (missing ''checker is no longer registered'')) (\<lambda>tool.
     bind (file_arguments (rtl_args tool)) (\<lambda>arguments.
     bind (map_op file_stamp
         (ordered_set (map path_names (rtl_program tool # arguments @ rtl_code_files tool)))) (\<lambda>stamps.
     bind (ask mac_digest) (\<lambda>digest. ret (''local-metadata:'' @ digest tool stamps)))))"

definition deadline_left :: "Grant \<Rightarrow> nat machine_op" where
  "deadline_left grant =
     bind (lift (counter (b_deadline_ms (g_budget grant)))) (\<lambda>deadline.
     bind machine_time (\<lambda>now. ret (deadline - now)))"

definition local_prepare_tool ::
    "LocalHost \<Rightarrow> Grant \<Rightarrow> string \<Rightarrow> string list option \<Rightarrow> bool \<Rightarrow> PreparedTool machine_op" where
  "local_prepare_tool host grant name workspace read_only =
     bind (authorized_tool host grant name workspace read_only) (\<lambda>tool.
     seq (for_each (rtl_reads tool @ rtl_writes tool) (\<lambda>path.
       bind (local_version host grant path workspace) (\<lambda>_. skip)))
     (bind (deadline_left grant) (\<lambda>left.
      seq (need (0 < left) (exhausted ''deadline reached''))
      (bind (local_checker_version host name) (\<lambda>version.
       ret \<lparr>pt_writes = rtl_writes tool, pt_checker_version = version,
         pt_properties = rtl_validated_properties tool\<rparr>)))))"

text \<open>The entry of \<open>process::execute\<close>; the spawned command is a parameter.\<close>

definition execute_process ::
    "string \<Rightarrow> string list \<Rightarrow> string list \<Rightarrow> nat \<Rightarrow> bool option \<Rightarrow> ProcessOutput machine_op" where
  "execute_process program args workspace timeout cancellation =
     seq (need (cancellation \<noteq> Some True) (denied ''command cancelled before dispatch''))
     (seq (need (timeout \<noteq> 0) (exhausted ''command deadline reached''))
     (bind (ask (\<lambda>m. mac_spawn m (mac_accesses m) program args workspace timeout)) lift))"

definition command_output :: "ProcessOutput \<Rightarrow> bool \<Rightarrow> bool \<Rightarrow> string" where
  "command_output result unchanged same_checker =
     pro_stdout result @ pro_stderr result @
     (if pro_cancelled result then CHR 0x0A # ''Host command cancelled.'' else []) @
     (if pro_timed_out result then CHR 0x0A # ''Host command deadline exceeded.'' else []) @
     (if unchanged then [] else CHR 0x0A # ''Inputs changed while the check ran; validation is stale.'') @
     (if same_checker then []
      else CHR 0x0A # ''Checker code changed during execution; validation is stale.'')"

definition inputs_unchanged :: "RegisteredTool \<Rightarrow> ArtifactRef list \<Rightarrow> ArtifactRef list \<Rightarrow> bool" where
  "inputs_unchanged tool before after \<longleftrightarrow>
     list_all (\<lambda>(a, b). ar_path a \<in> set (rtl_writes tool) \<or> a = b) (zip before after)"

definition check_output ::
    "RegisteredTool \<Rightarrow> ProcessOutput \<Rightarrow> ArtifactRef list \<Rightarrow> ArtifactRef list \<Rightarrow> string \<Rightarrow> bool \<Rightarrow> CheckOutput" where
  "check_output tool result before after version same_checker =
     (let unchanged = inputs_unchanged tool before after in
      \<lparr>co_success = (pro_success result \<and> unchanged \<and> same_checker),
       co_output = command_output result unchanged same_checker,
       co_before = before, co_after = after, co_validates = rtl_validates tool,
       co_writes = rtl_writes tool, co_checker_version = version,
       co_validation_outcome =
         (if \<not> unchanged \<or> \<not> same_checker then ValidationEvidenceOutcome.Stale
          else if pro_success result then ValidationEvidenceOutcome.Passed
          else ValidationEvidenceOutcome.Failed),
       co_properties = rtl_validated_properties tool\<rparr>)"

definition local_run_tool ::
    "LocalHost \<Rightarrow> Grant \<Rightarrow> string \<Rightarrow> string list option \<Rightarrow> bool \<Rightarrow> bool option \<Rightarrow> CheckOutput machine_op" where
  "local_run_tool host grant name workspace read_only cancellation =
     bind (authorized_tool host grant name workspace read_only) (\<lambda>tool.
     bind (local_checker_version host name) (\<lambda>version.
     let paths = ordered_set (rtl_reads tool @ rtl_writes tool) in
     bind (map_op (\<lambda>p. local_version host grant p workspace) paths) (\<lambda>before.
     bind (deadline_left grant) (\<lambda>left.
     seq (need (left \<noteq> 0) (exhausted ''deadline reached''))
     (bind (execute_process (rtl_program tool) (rtl_args tool) (base_directory host workspace)
        (min (rtl_timeout_ms tool) left) cancellation) (\<lambda>result.
     bind (map_op (\<lambda>p. local_version host grant p workspace) paths) (\<lambda>after.
     bind (attempt (local_checker_version host name)) (\<lambda>again.
     ret (check_output tool result before after version (again = Inr version))))))))))"

section \<open>Branches\<close>

text \<open>\<open>create_dir_all\<close> of the directories of a target, then the copy of the granted artifact.\<close>

fun create_directories :: "string list \<Rightarrow> string list \<Rightarrow> files \<Rightarrow> unit res \<times> files" where
  "create_directories p [] fs = (Inr (), fs)"
| "create_directories p (c # cs) fs =
     (case follow fs (p @ [c]) of
        Inr Directory \<Rightarrow> create_directories (p @ [c]) cs fs
      | Inr _ \<Rightarrow> (Inl (internal ''File exists (os error 17)''), fs)
      | Inl _ \<Rightarrow>
          (if fs (p @ [c]) \<noteq> None then (Inl (internal ''File exists (os error 17)''), fs)
           else create_directories (p @ [c]) cs (fs(p @ [c] \<mapsto> Directory))))"

definition create_directory :: "string list \<Rightarrow> unit machine_op" where
  "create_directory p = change (\<lambda>fs.
     if follow fs (butlast p) \<noteq> Inr Directory then (Inl not_found, fs)
     else if fs p \<noteq> None then (Inl (internal ''File exists (os error 17)''), fs)
     else (Inr (), fs(p \<mapsto> Directory)))"

definition write_file :: "string list \<Rightarrow> string \<Rightarrow> unit machine_op" where
  "write_file p content =
     bind (ask (\<lambda>m. mac_time m (mac_accesses m))) (\<lambda>now.
     change (\<lambda>fs. case and_then (directory fs (butlast p)) (\<lambda>d.
         case canonicalize fs p of
           Inr q \<Rightarrow> Inr q
         | Inl e \<Rightarrow> if fs (d @ [last p]) = None then Inr (d @ [last p]) else Inl e) of
         Inl e \<Rightarrow> (Inl e, fs)
       | Inr q \<Rightarrow>
           if fs q = Some Directory then (Inl (internal ''Is a directory (os error 21)''), fs)
           else (Inr (), fs(q \<mapsto> RegularFile content now))))"

definition local_branch :: "LocalHost \<Rightarrow> Grant \<Rightarrow> string list \<Rightarrow> ArtifactRef list machine_op" where
  "local_branch host grant destination =
     seq (need (g_mode grant \<noteq> Mode.Observe) (denied ''branch not granted''))
     (seq (create_directory destination)
     (map_op (\<lambda>path.
       bind (artifact_path host grant path None) (\<lambda>source.
       bind (local_version host grant path None) (\<lambda>version.
       seq (change (create_directories destination (butlast (path_names path))))
       (bind (exists source) (\<lambda>present.
        seq (if present then bind (read_bounded source) (write_file (destination @ path_names path)) else skip)
        (ret version))))))
      (g_paths grant)))"

section \<open>Paths without links\<close>

lemma walk_snoc:
  "walk fs p (cs @ [c]) = (if walk fs p cs = Some Directory then fs (p @ cs @ [c]) else None)"
  by (induction cs arbitrary: p) auto

lemma node_at_snoc: "node_at fs (p @ [c]) = (if node_at fs p = Some Directory then fs (p @ [c]) else None)"
  unfolding node_at_def by (simp add: walk_snoc)

lemma node_at_Nil [simp]: "node_at fs [] = Some Directory"
  by (simp add: node_at_def)

lemma node_at_none: "node_at fs p = None \<Longrightarrow> node_at fs (p @ q) = None"
  by (induction q rule: rev_induct) (simp_all add: node_at_snoc append_assoc [symmetric] del: append_assoc)

lemma node_at_update: "length q < length t \<Longrightarrow> node_at (fs(t := x)) q = node_at fs q"
proof (induction q rule: rev_induct)
  case (snoc c q)
  then have "q @ [c] \<noteq> t" by auto
  with snoc show ?case by (simp add: node_at_snoc)
qed simp

definition plain :: "files \<Rightarrow> string list \<Rightarrow> bool" where
  "plain fs p \<longleftrightarrow> ''.'' \<notin> set p \<and> ''..'' \<notin> set p \<and>
     (\<forall>i < length p. \<not> is_symlink (node_at fs (take (Suc i) p)))"

lemma plain_Nil [simp]: "plain fs []"
  by (simp add: plain_def)

lemma plain_snoc [simp]:
  "plain fs (p @ [c]) \<longleftrightarrow> plain fs p \<and> c \<noteq> ''.'' \<and> c \<noteq> ''..'' \<and> \<not> is_symlink (node_at fs (p @ [c]))"
  by (auto simp: plain_def less_Suc_eq)

lemma plain_append: "plain fs (p @ q) \<Longrightarrow> plain fs p"
  by (induction q rule: rev_induct) (simp_all add: append_assoc [symmetric] del: append_assoc)

lemma plain_butlast: "plain fs p \<Longrightarrow> plain fs (butlast p)"
  by (cases p rule: rev_cases) auto

lemma canonical_plain:
  "plain fs (p @ cs) \<Longrightarrow> canonical n fs p cs = ok_or (map_option (\<lambda>_. p @ cs) (node_at fs (p @ cs))) not_found"
proof (induction cs arbitrary: p)
  case (Cons c cs)
  from Cons.prems have "plain fs ((p @ [c]) @ cs)" by simp
  note step = Cons.IH [OF this] and first = plain_append [OF this]
  from first have c: "c \<noteq> ''.''" "c \<noteq> ''..''" "\<not> is_symlink (node_at fs (p @ [c]))" by auto
  show ?case
  proof (cases "node_at fs (p @ [c])")
    case None
    with c node_at_none [OF None, of cs] show ?thesis by simp
  next
    case (Some node)
    with c step show ?thesis by (cases node) (simp_all add: is_symlink_def)
  qed
qed simp

lemma canonical_result:
  "canonical n fs p cs = Inr q \<Longrightarrow> plain fs p \<Longrightarrow> plain fs q \<and> node_at fs q \<noteq> None"
proof (induction n fs p cs rule: canonical.induct)
  case (2 links fs p c cs)
  show ?case
  proof (cases "c = ''.'' \<or> c = ''..''")
    case True
    with 2 plain_butlast [OF "2.prems"(2)] show ?thesis by auto
  next
    case False
    with "2.prems" obtain node where node: "node_at fs (p @ [c]) = Some node" by (auto split: option.splits)
    show ?thesis
    proof (cases node)
      case (Symlink absolute target)
      with False node 2 show ?thesis by (cases links) (auto split: if_splits)
    qed (use False node 2 in \<open>auto simp: is_symlink_def\<close>)
  qed
qed auto

lemma canonicalize_result: "canonicalize fs p = Inr q \<Longrightarrow> plain fs q \<and> node_at fs q \<noteq> None"
  unfolding canonicalize_def by (erule canonical_result) simp

lemma canonicalize_plain:
  "plain fs p \<Longrightarrow> canonicalize fs p = ok_or (map_option (\<lambda>_. p) (node_at fs p)) not_found"
  unfolding canonicalize_def by (simp add: canonical_plain)

lemma follow_plain: "plain fs p \<Longrightarrow> follow fs p = ok_or (node_at fs p) not_found"
  by (cases "node_at fs p") (simp_all add: follow_def canonicalize_plain)

lemma directory_plain: "plain fs p \<Longrightarrow> directory fs p = Inr d \<longleftrightarrow> d = p \<and> node_at fs p = Some Directory"
  by (cases "node_at fs p") (auto simp: directory_def canonicalize_plain)

text \<open>A new plain file beside the last name of a path leaves the path plain.\<close>

lemma plain_update:
  assumes "plain fs p" "p \<noteq> []" "t \<noteq> []" "butlast t = butlast p"
  shows "plain (fs(t \<mapsto> RegularFile b n)) p"
proof -
  obtain q c where p: "p = q @ [c]" using assms(2) by (cases p rule: rev_cases) auto
  with assms(3,4) obtain d where t: "t = q @ [d]" by (cases t rule: rev_cases) auto
  have old: "node_at (fs(t \<mapsto> RegularFile b n)) r = node_at fs r" if "length r \<le> length q" for r
    using that by (simp add: node_at_update t)
  have "plain fs q" using assms(1) by (simp add: p)
  then have "plain (fs(t \<mapsto> RegularFile b n)) q"
    by (simp add: plain_def old)
  then show ?thesis
    using assms(1) by (auto simp: p t node_at_snoc node_at_update is_symlink_def split: if_splits)
qed

section \<open>A quiet machine\<close>

text \<open>No other process changes the files and no access fails; \<open>F\<close> are the files, \<open>h\<close> the digest.\<close>

definition still :: "files \<Rightarrow> (string \<Rightarrow> string) \<Rightarrow> Machine \<Rightarrow> bool" where
  "still F h m \<longleftrightarrow> mac_others m = (\<lambda>_ fs. fs) \<and> mac_io m = (\<lambda>_. None) \<and> mac_files m = F \<and> mac_sha256 m = h"

lemma change_still:
  assumes "still F h m"
  shows "change f m = (fst (f F), m\<lparr>mac_files := snd (f F), mac_accesses := Suc (mac_accesses m)\<rparr>)"
  using assms by (simp add: change_def still_def split_beta)

lemma access_still:
  assumes "still F h m"
  shows "access f m = (f F, m\<lparr>mac_accesses := Suc (mac_accesses m)\<rparr>)"
  using assms unfolding access_def change_still [OF assms] by (simp add: still_def)

lemma preserves_access [keeps_intros]: "preserves (still F h) (access f)"
  by (rule preservesI) (auto simp: access_still [where F = F and h = h] still_def)

lemma still_preserves:
  "preserves (still F h) (refuse_symlinks p cs)" "preserves (still F h) (artifact_path host grant path ws)"
  "preserves (still F h) (exists p)" "preserves (still F h) (local_version host grant path ws)"
  "preserves (still F h) (local_prepare_edit host grant path expected ws)"
proof -
  show refuse: "preserves (still F h) (refuse_symlinks p cs)" for p cs
    by (induction cs arbitrary: p) (auto intro: keeps_intros)
  show path: "preserves (still F h) (artifact_path host grant path ws)" for path
    unfolding artifact_path_def Let_def by (intro keeps_intros refuse)
  show exists: "preserves (still F h) (exists p)" for p
    unfolding exists_def by (intro keeps_intros)
  show version: "preserves (still F h) (local_version host grant path ws)" for path
    unfolding local_version_def read_bounded_def by (intro keeps_intros path exists)
  show "preserves (still F h) (local_prepare_edit host grant path expected ws)"
    unfolding local_prepare_edit_def by (intro keeps_intros path version)
qed

lemma exists_still:
  assumes "still F h m"
  shows "exists p m = (Inr (\<not> isl (follow F p)), m\<lparr>mac_accesses := Suc (mac_accesses m)\<rparr>)"
  by (simp add: exists_def succeeds_def access_still [OF assms])

lemma refuse_symlinks_still:
  assumes "refuse_symlinks p cs m = (Inr u, t)" "still F h m" "plain F p" "''.'' \<notin> set cs" "''..'' \<notin> set cs"
  shows "plain F (p @ cs)"
  using assms
proof (induction cs arbitrary: p m)
  case (Cons c cs)
  let ?m = "m\<lparr>mac_accesses := Suc (mac_accesses m)\<rparr>"
  from Cons.prems(1) have ok: "\<not> is_symlink (node_at F (p @ [c]))"
    and rest: "refuse_symlinks (p @ [c]) cs ?m = (Inr u, t)"
    by (auto simp: bind_def attempt_def access_still [OF Cons.prems(2)] seq_Inr_iff split: if_splits)
  have "still F h ?m" using Cons.prems(2) by (simp add: still_def)
  moreover have "c \<noteq> ''.''" "c \<noteq> ''..''" using Cons.prems(4,5) by auto
  ultimately show ?case using Cons.IH [OF rest] ok Cons.prems(3-) by simp
qed simp

lemma granted_names:
  assumes "granted_path grant path"
  shows "''.'' \<notin> set (path_names path)" "''..'' \<notin> set (path_names path)"
proof -
  have parts: "list_all is_normal cs \<Longrightarrow> x \<in> set (concat (map part_name cs)) \<Longrightarrow> Normal x \<in> set cs" for x cs
    by (induction cs) (auto elim!: is_normal.elims)
  have "Normal ''.'' \<notin> set (components path)" "Normal ''..'' \<notin> set (components path)"
    by (auto simp: components_def name_parts_def)
  with parts assms show "''.'' \<notin> set (path_names path)" "''..'' \<notin> set (path_names path)"
    unfolding granted_path_def path_names_def by blast+
qed

text \<open>Where a granted path leads: below the workspace, through directories that are not links.\<close>

definition located :: "files \<Rightarrow> string list \<Rightarrow> string \<Rightarrow> string list \<Rightarrow> bool" where
  "located F base path p \<longleftrightarrow>
     (\<exists>root. canonicalize F base = Inr root \<and> p = root @ path_names path \<and> prefix root (butlast p)) \<and>
     p \<noteq> [] \<and> plain F p"

lemma artifact_path_located:
  assumes "artifact_path host grant path ws m = (Inr p, t)" "still F h m"
  shows "granted_path grant path" "located F (base_directory host ws) path p"
proof -
  from assms(1) obtain root m1 u m2 parent m3 where
    granted: "granted_path grant path" and
    root: "access (\<lambda>fs. canonicalize fs (base_directory host ws)) m = (Inr root, m1)" and
    links: "refuse_symlinks root (path_names path) m1 = (Inr u, m2)" and
    p: "p = root @ path_names path" "p \<noteq> []" and
    parent: "access (\<lambda>fs. canonicalize fs (butlast p)) m2 = (Inr parent, m3)" "prefix root parent"
    unfolding artifact_path_def Let_def by (auto simp: op_simps split: if_splits)
  from assms(2) root have canon: "canonicalize F (base_directory host ws) = Inr root" and m1: "still F h m1"
    by (auto simp: access_still [OF assms(2)] still_def)
  have plain: "plain F p"
    unfolding p(1) by (rule refuse_symlinks_still [OF links m1])
      (use canonicalize_result [OF canon] granted_names [OF granted] in auto)
  from preservesD [OF still_preserves(1) m1 links] have m2: "still F h m2" .
  from parent(1) have "canonicalize F (butlast p) = Inr parent" by (simp add: access_still [OF m2])
  then have "parent = butlast p"
    by (cases "node_at F (butlast p)") (auto simp: canonicalize_plain [OF plain_butlast [OF plain]])
  with canon p plain parent(2) show "located F (base_directory host ws) path p"
    by (auto simp: located_def)
  show "granted_path grant path" by (rule granted)
qed

text \<open>The version a host reports for a path.\<close>

definition disk_version :: "(string \<Rightarrow> string) \<Rightarrow> files \<Rightarrow> string list \<Rightarrow> string" where
  "disk_version h F p =
     (case node_at F p of Some (RegularFile bytes n) \<Rightarrow> h bytes | _ \<Rightarrow> ''absent'')"

lemma local_version_still:
  assumes "local_version host grant path ws m = (Inr a, t)" "still F h m"
  obtains p where "located F (base_directory host ws) path p" "ar_path a = path"
    "ar_version a = disk_version h F p"
proof -
  from assms(1) obtain p m1 where
    path: "artifact_path host grant path ws m = (Inr p, m1)" and
    rest: "bind (exists p) (\<lambda>present. if present
      then bind (read_bounded p) (\<lambda>data. bind (ask mac_sha256) (\<lambda>digest.
        ret \<lparr>ar_path = path, ar_version = digest data\<rparr>))
      else ret \<lparr>ar_path = path, ar_version = ''absent''\<rparr>) m1 = (Inr a, t)"
    unfolding local_version_def by (auto simp: op_simps)
  note loc = artifact_path_located(2) [OF path assms(2)]
  then have plain: "plain F p" by (simp add: located_def)
  from preservesD [OF still_preserves(2) assms(2) path] have m1: "still F h m1" .
  let ?m = "m1\<lparr>mac_accesses := Suc (mac_accesses m1)\<rparr>"
  have m2: "still F h ?m" using m1 by (simp add: still_def)
  have "ar_path a = path \<and> ar_version a = disk_version h F p"
  proof (cases "node_at F p")
    case None
    with rest show ?thesis
      by (auto simp: bind_def exists_still [OF m1] follow_plain [OF plain] disk_version_def)
  next
    case (Some node)
    with rest m2 show ?thesis
      by (auto simp: op_simps bind_def exists_still [OF m1] follow_plain [OF plain] read_bounded_def
          access_still [OF m2] disk_version_def bounded_bytes_def still_def split: Node.splits if_splits)
  qed
  with loc that show thesis by blast
qed

lemma located_unique: "located F base path p \<Longrightarrow> located F base path q \<Longrightarrow> p = q"
  by (auto simp: located_def)

section \<open>Edits\<close>

text \<open>What an edit may do to the files: put the content where the expected version was.\<close>

definition edited ::
    "(string \<Rightarrow> string) \<Rightarrow> LocalHost \<Rightarrow> string \<Rightarrow> string \<Rightarrow> string \<Rightarrow> string list option \<Rightarrow> files \<Rightarrow> files \<Rightarrow> bool" where
  "edited h host path expected content ws F G \<longleftrightarrow>
     (\<exists>p now. located F (base_directory host ws) path p \<and> disk_version h F p = expected \<and>
       G = F(p \<mapsto> RegularFile content now))"

lemma create_temporary_still:
  assumes "create_temporary (butlast p) content m = (Inr t, n)" "still F h m" "plain F p" "p \<noteq> []"
  obtains now where "t \<noteq> []" "butlast t = butlast p" "F t = None" "node_at F (butlast p) = Some Directory"
    "still (F(t \<mapsto> RegularFile content now)) h n"
  using assms plain_butlast [OF assms(3)]
  by (auto simp: create_temporary_def op_simps change_still [OF assms(2)] directory_plain still_def
      split: sum.splits if_splits)

lemma create_temporary_failed:
  assumes "create_temporary q content m = (Inl e, n)" "still F h m"
  shows "mac_files n = F"
  using assms
  by (auto simp: create_temporary_def bind_def change_still [OF assms(2)] split: sum.splits if_splits)

lemma persist_still:
  assumes "persist t p m = (r, n)" "still F h m" "plain F p" "p \<noteq> []"
  shows "r = Inr u \<Longrightarrow> still ((F(t := None))(p := F t)) h n"
    "r = Inl e \<Longrightarrow> still F h n"
  using assms plain_butlast [OF assms(3)]
  by (auto simp: persist_def change_still [OF assms(2)] directory_plain still_def
      split: sum.splits if_splits)

lemma swap_in_still:
  assumes "swap_in host grant path expected ws p t m = (r, n)" "still F h m" "plain F p" "p \<noteq> []"
  shows "r = Inr u \<Longrightarrow> still ((F(t := None))(p := F t)) h n"
    "r = Inl e \<Longrightarrow> still F h n"
proof -
  let ?before = "bind (exists p) (\<lambda>present.
      seq (if present then bind (access (\<lambda>fs. follow fs p)) (\<lambda>_. skip) else skip)
      (bind (local_version host grant path ws) (\<lambda>current.
       need (ar_version current = expected) (conflict ''artifact changed during edit preparation''))))"
  have "swap_in host grant path expected ws p t m = seq ?before (persist t p) m"
    by (simp add: swap_in_def seq_def bind_def split: prod.splits sum.splits)
  with assms(1) have run: "seq ?before (persist t p) m = (r, n)" by simp
  have "preserves (still F h) ?before"
    by (intro keeps_intros still_preserves)
  note before = preservesD [OF this assms(2)]
  obtain b u where b: "?before m = (b, u)" by fastforce
  note u = before [OF b]
  show "still ((F(t := None))(p := F t)) h n" if "r = Inr x" for x
    using run b persist_still(1) [OF _ u assms(3,4), of t r n x] that
    by (cases b) (simp_all add: seq_def bind_def)
  show "still F h n" if "r = Inl e" for e
    using run b u persist_still(2) [OF _ u assms(3,4), of t r n e] that
    by (cases b) (simp_all add: seq_def bind_def)
qed

lemma local_prepare_edit_still:
  assumes "local_prepare_edit host grant path expected ws m = (Inr a, n)" "still F h m"
  obtains p where "located F (base_directory host ws) path p" "disk_version h F p = expected"
    "granted_path grant path" "g_mode grant \<noteq> Mode.Observe"
    "case g_writable_paths grant of Some paths \<Rightarrow> path \<in> set paths | None \<Rightarrow> True"
proof -
  from assms(1) obtain q m1 m2 b where
    path: "artifact_path host grant path ws m = (Inr q, m1)" and
    version: "local_version host grant path ws m1 = (Inr b, m2)" "ar_version b = expected" and
    ok: "g_mode grant \<noteq> Mode.Observe"
      "case g_writable_paths grant of Some paths \<Rightarrow> path \<in> set paths | None \<Rightarrow> True"
    unfolding local_prepare_edit_def by (auto simp: op_simps split: if_splits)
  from preservesD [OF still_preserves(2) assms(2) path] have m1: "still F h m1" .
  from local_version_still [OF version(1) m1] version(2) obtain p where
    "located F (base_directory host ws) path p" "disk_version h F p = expected" by metis
  with that artifact_path_located(1) [OF path assms(2)] ok show thesis by blast
qed

lemma write_edit_still:
  assumes "write_edit host grant path expected content ws p m = (r, n)" "still F h m" "plain F p" "p \<noteq> []"
  shows "(case r of Inl e \<Rightarrow> mac_files n = F
    | Inr a \<Rightarrow> (\<exists>now. mac_files n = F(p \<mapsto> RegularFile content now)) \<and> ar_path a = path \<and> ar_version a = h content)"
proof -
  obtain c m1 where create: "create_temporary (butlast p) content m = (c, m1)" by fastforce
  show ?thesis
  proof (cases c)
    case (Inl e)
    with assms(1) create have "r = Inl e" "n = m1" by (simp_all add: write_edit_def bind_def)
    with create_temporary_failed [OF create [unfolded Inl] assms(2)] show ?thesis by simp
  next
    case (Inr t)
    from create_temporary_still [OF create [unfolded Inr] assms(2-4)] obtain now where
      t: "t \<noteq> []" "butlast t = butlast p" "F t = None" and
      parent: "node_at F (butlast p) = Some Directory" and
      m1: "still (F(t \<mapsto> RegularFile content now)) h m1" .
    let ?F = "F(t \<mapsto> RegularFile content now)" and ?G = "F(p \<mapsto> RegularFile content now)"
    have plain: "plain ?F p" by (rule plain_update [OF assms(3,4) t(1,2)])
    obtain w m2 where swap: "swap_in host grant path expected ws p t m1 = (w, m2)" by fastforce
    show ?thesis
    proof (cases w)
      case (Inl e)
      from swap_in_still(2) [OF swap m1 plain assms(4) Inl] have m2: "still ?F h m2" .
      from assms(1) create Inr swap Inl have "r = Inl e \<and> mac_files n = ?F(t := None)"
        by (auto simp: write_edit_def bind_def seq_def handle_def succeeds_def drop_temporary_def
            change_still [OF m2])
      with t(3) show ?thesis by (auto simp: fun_upd_idem)
    next
      case ok: (Inr u)
      have G: "(?F(t := None))(p := ?F t) = ?G" using t(3) by (auto simp: fun_eq_iff)
      from swap_in_still(1) [OF swap m1 plain assms(4) ok] have m2: "still ?G h m2" unfolding G .
      have "plain ?G (butlast p)"
        by (rule plain_butlast, rule plain_update) (use assms(3,4) in auto)
      moreover have "node_at ?G (butlast p) = Some Directory"
        using parent assms(4) by (simp add: node_at_update)
      ultimately have "follow ?G (butlast p) = Inr Directory" by (simp add: follow_plain)
      with assms(1) create Inr swap ok m2 show ?thesis
        by (auto simp: write_edit_def bind_def seq_def handle_def access_still [OF m2] still_def)
    qed
  qed
qed

text \<open>An edit is a compare and swap.\<close>

lemma local_edit_still:
  assumes "local_edit host grant path expected content ws m = (r, n)" "still F h m"
  shows "(case r of Inl e \<Rightarrow> mac_files n = F
    | Inr a \<Rightarrow> edited h host path expected content ws F (mac_files n) \<and>
      ar_path a = path \<and> ar_version a = h content \<and> granted_path grant path \<and>
      g_mode grant \<noteq> Mode.Observe \<and>
      (case g_writable_paths grant of Some paths \<Rightarrow> path \<in> set paths | None \<Rightarrow> True))"
proof -
  obtain r1 m1 where first: "local_prepare_edit host grant path expected ws m = (r1, m1)" by fastforce
  from preservesD [OF still_preserves(5) assms(2) first] have m1: "still F h m1" .
  obtain r2 m2 where second: "artifact_path host grant path ws m1 = (r2, m2)" by fastforce
  from preservesD [OF still_preserves(2) m1 second] have m2: "still F h m2" .
  have kept: "mac_files m1 = F" "mac_files m2 = F" using m1 m2 by (simp_all add: still_def)
  show ?thesis
  proof (cases "isl r1 \<or> isl r2")
    case True
    with assms(1) first second kept show ?thesis
      by (cases r1; cases r2) (auto simp: local_edit_def seq_def bind_def)
  next
    case False
    then obtain a p where ok: "r1 = Inr a" "r2 = Inr p" by (cases r1; cases r2) auto
    with assms(1) first second have run: "write_edit host grant path expected content ws p m2 = (r, n)"
      by (simp add: local_edit_def seq_def bind_def)
    from artifact_path_located(2) [OF second [unfolded ok] m1]
    have loc: "located F (base_directory host ws) path p" .
    from local_prepare_edit_still [OF first [unfolded ok] assms(2)] obtain q where
      q: "located F (base_directory host ws) path q" "disk_version h F q = expected" and
      rest: "granted_path grant path" "g_mode grant \<noteq> Mode.Observe"
        "case g_writable_paths grant of Some paths \<Rightarrow> path \<in> set paths | None \<Rightarrow> True" .
    have "q = p" by (rule located_unique [OF q(1) loc])
    with write_edit_still [OF run m2] loc q(2) rest show ?thesis
      by (auto simp: located_def edited_def split: sum.splits)
  qed
qed

text \<open>What is read is a run of whole characters, and at most three bytes of a next one are left out.\<close>

lemma scan_utf8_valid: "scan_utf8 n bs = Valid \<Longrightarrow> valid_utf8 bs"
proof (induction n bs rule: scan_utf8.induct)
  case (2 n a bs)
  show ?case
  proof (cases "a < 128")
    case False
    with "2.prems" have a: "194 \<le> a" "a < 245" by (auto split: if_splits)
    with False "2.prems" obtain b cs where bs: "bs = b # cs" by (cases bs) auto
    from False a bs "2.prems" have b: "tail_byte b" "a = 224 \<longrightarrow> 160 \<le> b" "a = 237 \<longrightarrow> b < 160"
      "a = 240 \<longrightarrow> 144 \<le> b" "a = 244 \<longrightarrow> b < 144"
      by (auto split: if_splits)
    show ?thesis
    proof (cases "a < 224")
      case True
      with False a b bs "2.prems" have "scan_utf8 (n + 2) cs = Valid" by simp
      then have "valid_utf8 cs" by (rule "2.IH"(2) [OF _ _ bs, rotated -1]) (use False a b bs True in simp_all)
      with True a b bs show ?thesis by simp
    next
      case two: False
      with False a b bs "2.prems" obtain c ds where cs: "cs = c # ds" by (cases cs) auto
      from False two a b bs cs "2.prems" have c: "tail_byte c" by (auto split: if_splits)
      show ?thesis
      proof (cases "a < 240")
        case True
        with False two a b c bs cs "2.prems" have "scan_utf8 (n + 3) ds = Valid" by simp
        then have "valid_utf8 ds" by (rule "2.IH"(3) [OF _ _ bs _ _ cs, rotated -1]) (use False two a b c bs cs True in simp_all)
        with True two b c bs cs show ?thesis by simp
      next
        case three: False
        with False two a b c bs cs "2.prems" obtain e es where ds: "ds = e # es" by (cases ds) auto
        from False two three a b c bs cs ds "2.prems" have e: "tail_byte e" by (auto split: if_splits)
        with False two three a b c bs cs ds "2.prems" have "scan_utf8 (n + 4) es = Valid" by simp
        then have "valid_utf8 es" by (rule "2.IH"(4) [OF _ _ bs _ _ cs _ _ ds, rotated -1]) (use False two three a b c e bs cs ds in simp_all)
        with three a b c e bs cs ds show ?thesis by simp
      qed
    qed
  qed (use "2.IH"(1) "2.prems" in simp)
qed simp

definition cut_short :: "nat list \<Rightarrow> nat \<Rightarrow> bool" where
  "cut_short bs k \<longleftrightarrow> valid_utf8 (take k bs) \<and> k < length bs \<and> length bs \<le> k + 3"

lemma cut_short_ascii: "cut_short bs k \<Longrightarrow> a < 128 \<Longrightarrow> cut_short (a # bs) (Suc k)"
  by (simp add: cut_short_def)

lemma cut_short_two:
  "cut_short bs k \<Longrightarrow> 194 \<le> a \<Longrightarrow> a < 224 \<Longrightarrow> tail_byte b \<Longrightarrow> cut_short (a # b # bs) (k + 2)"
  by (simp add: cut_short_def)

lemma cut_short_three:
  "cut_short bs k \<Longrightarrow> 224 \<le> a \<Longrightarrow> a < 240 \<Longrightarrow> tail_byte b \<Longrightarrow> a = 224 \<longrightarrow> 160 \<le> b \<Longrightarrow>
     a = 237 \<longrightarrow> b < 160 \<Longrightarrow> tail_byte c \<Longrightarrow> cut_short (a # b # c # bs) (k + 3)"
  by (simp add: cut_short_def numeral_3_eq_3)

lemma cut_short_four:
  "cut_short bs k \<Longrightarrow> 240 \<le> a \<Longrightarrow> a < 245 \<Longrightarrow> tail_byte b \<Longrightarrow> a = 240 \<longrightarrow> 144 \<le> b \<Longrightarrow>
     a = 244 \<longrightarrow> b < 144 \<Longrightarrow> tail_byte c \<Longrightarrow> tail_byte e \<Longrightarrow> cut_short (a # b # c # e # bs) (k + 4)"
  by (simp add: cut_short_def eval_nat_numeral)

lemma cut_short_rest: "0 < length bs \<Longrightarrow> length bs \<le> 3 \<Longrightarrow> cut_short bs 0"
  by (simp add: cut_short_def)

lemma scan_utf8_incomplete: "scan_utf8 n bs = Incomplete k \<Longrightarrow> n \<le> k \<and> cut_short bs (k - n)"
proof (induction n bs arbitrary: k rule: scan_utf8.induct)
  case (2 n a bs)
  show ?case
  proof (cases "a < 128")
    case True
    with "2.IH"(1) [of k] "2.prems" have "n + 1 \<le> k" "cut_short bs (k - (n + 1))" by simp_all
    with cut_short_ascii [of bs "k - (n + 1)" a] True show ?thesis by (simp add: Suc_diff_Suc)
  next
    case False
    with "2.prems" have a: "194 \<le> a" "a < 245" by (auto split: if_splits)
    show ?thesis
    proof (cases bs)
      case Nil
      with False a "2.prems" show ?thesis by (auto intro: cut_short_rest)
    next
      case (Cons b cs)
      note bs = this
      from False a bs "2.prems" have b: "tail_byte b" "a = 224 \<longrightarrow> 160 \<le> b" "a = 237 \<longrightarrow> b < 160"
        "a = 240 \<longrightarrow> 144 \<le> b" "a = 244 \<longrightarrow> b < 144"
        by (auto split: if_splits)
      show ?thesis
      proof (cases "a < 224")
        case True
        with False a b bs "2.prems" have "scan_utf8 (n + 2) cs = Incomplete k" by simp
        then have "n + 2 \<le> k \<and> cut_short cs (k - (n + 2))"
          by (rule "2.IH"(2) [OF _ _ bs, rotated -1]) (use False a b bs True in simp_all)
        with cut_short_two [of cs "k - (n + 2)" a b] True a b bs show ?thesis by (simp add: numeral_2_eq_2 Suc_diff_Suc)
      next
        case two: False
        show ?thesis
        proof (cases cs)
          case Nil
          with False two a b bs "2.prems" show ?thesis by (auto intro: cut_short_rest)
        next
          case (Cons c ds)
          note cs = this
          from False two a b bs cs "2.prems" have c: "tail_byte c" by (auto split: if_splits)
          show ?thesis
          proof (cases "a < 240")
            case True
            with False two a b c bs cs "2.prems" have "scan_utf8 (n + 3) ds = Incomplete k" by simp
            then have "n + 3 \<le> k \<and> cut_short ds (k - (n + 3))"
              by (rule "2.IH"(3) [OF _ _ bs _ _ cs, rotated -1]) (use False two a b c bs cs True in simp_all)
            with cut_short_three [of ds "k - (n + 3)" a b c] True two b c bs cs show ?thesis
              by (simp add: numeral_3_eq_3 Suc_diff_Suc)
          next
            case three: False
            show ?thesis
            proof (cases ds)
              case Nil
              with False two three a b c bs cs "2.prems" show ?thesis by (auto intro: cut_short_rest)
            next
              case (Cons e es)
              note ds = this
              from False two three a b c bs cs ds "2.prems" have e: "tail_byte e" by (auto split: if_splits)
              with False two three a b c bs cs ds "2.prems" have "scan_utf8 (n + 4) es = Incomplete k" by simp
              then have "n + 4 \<le> k \<and> cut_short es (k - (n + 4))"
                by (rule "2.IH"(4) [OF _ _ bs _ _ cs _ _ ds, rotated -1]) (use False two three a b c e bs cs ds in simp_all)
              with cut_short_four [of es "k - (n + 4)" a b c e] three a b c e bs cs ds show ?thesis
                by (simp add: eval_nat_numeral Suc_diff_Suc)
            qed
          qed
        qed
      qed
    qed
  qed
qed simp

lemma chunk_text_prefix:
  assumes "chunk_text slice = Inr t"
  shows "prefix t slice" "from_utf8 t" "length slice \<le> length t + 3"
proof -
  have "prefix t slice \<and> from_utf8 t \<and> length slice \<le> length t + 3"
  proof (cases "scan_utf8 0 (map of_char slice)")
    case Valid
    with assms scan_utf8_valid [OF Valid] show ?thesis by (simp add: chunk_text_def from_utf8_def)
  next
    case (Incomplete k)
    with assms scan_utf8_incomplete [OF Incomplete] show ?thesis
      by (auto simp: chunk_text_def from_utf8_def cut_short_def take_map take_is_prefix)
  next
    case Malformed
    with assms show ?thesis by (simp add: chunk_text_def)
  qed
  then show "prefix t slice" "from_utf8 t" "length slice \<le> length t + 3" by simp_all
qed

end
