(* ===== verification/HostProperties.thy ===== *)
theory HostProperties
  imports Host Scenario
begin

text \<open>The promise of a host: an edit is a compare and swap inside the workspace.\<close>

section \<open>Edits\<close>








end
