(* ===== verification/Submissions.thy ===== *)
theory Submissions
  imports History
begin

text \<open>
  What a successful submission establishes: which record is stored, which version it replaced, and
  that the evidence of a discovery was read by the run that submits it.
\<close>

section \<open>The stored record\<close>

lemma record_keys_inv: "record_inv d \<Longrightarrow> record_keys d"
  by (simp add: record_inv_def record_keys_def)

lemma save_step_row:
  assumes "save_step r expected run d = Inr d'" "record_keys d"
  shows "map_option rec_body (record_row d' (r_id r)) = Some r"
proof (cases expected)
  case (Some v)
  from save_step_records [OF assms(1) [unfolded Some] assms(2)] obtain q where
    "record_row d' (r_id r) = Some (q\<lparr>rec_version := r_version r, rec_body := r\<rparr>)" .
  then show ?thesis by simp
next
  case None
  with assms(1) obtain e where fresh: "\<not> exists_where (\<lambda>q. rec_id q = r_id r) (records d)"
    and e: "record_sources r (index_record r (insert_record r d)) = Inr e" and d': "d' = attribute_record run r e"
    by (auto simp: save_step_def)
  have "records d' = records (insert_record r d)"
    using only_lineageD(1) [OF record_sources_frame [OF e]] d' by simp
  moreover have "List.find (\<lambda>q. rec_id q = r_id r) (records d) = None"
    using fresh by (auto simp: find_None_iff)
  ultimately show ?thesis
    by (simp add: record_row_def insert_record_def find_append)
qed

text \<open>The states a submission passes through, each kept by the invariants of the store.\<close>

lemma submit_stages:
  assumes "submit_for_run codec grant q protected run s = (Inr r, t)"
    and reads: "read_invariant I" and start: "db_inv I s"
  obtains m now i u v where
    "check_submission codec grant q protected s = (Inr (), s)"
    "validate_motif_submission codec (lineage_grant grant (pv_split (rsb_provenance q))) q run m = (Inr (), u)"
    "validate_transplant codec (lineage_grant grant (pv_split (rsb_provenance q))) q u = (Inr (), v)"
    "db_inv I m" "db_inv I u" "db_inv I v"
    "\<exists>w x y. now_ms v = (Inr now, w) \<and>
      (case rsb_id q of Some i \<Rightarrow> ret i | None \<Rightarrow> new_id) w = (Inr i, x) \<and>
      replace_version grant q (submitted_record grant q i now) x = (Inr r, y) \<and>
      save_record_for_run r (rsb_expected_version q) run y = (Inr (), t)"
proof -
  let ?lineage = "lineage_grant grant (pv_split (rsb_provenance q))"
  from assms(1) obtain s0 s1 s2 u v now w i x y where
    a: "check_submission codec grant q protected s = (Inr (), s0)" and
    b: "for_each (pv_source_refs (rsb_provenance q)) (require_reference ?lineage) s0 = (Inr (), s1)" and
    c: "for_each (collect_references (JObject (rsb_body q))) (check_body_reference grant q protected) s1 =
      (Inr (), s2)" and
    d: "validate_motif_submission codec ?lineage q run s2 = (Inr (), u)" and
    e: "validate_transplant codec ?lineage q u = (Inr (), v)" and
    rest: "now_ms v = (Inr now, w)" "(case rsb_id q of Some i \<Rightarrow> ret i | None \<Rightarrow> new_id) w = (Inr i, x)"
      "replace_version grant q (submitted_record grant q i now) x = (Inr r, y)"
      "save_record_for_run r (rsb_expected_version q) run y = (Inr (), t)"
    unfolding submit_for_run_def Let_def by (auto simp: op_simps)
  from a have "s0 = s" by (auto simp: check_submission_def op_simps validate_def split: if_splits)
  with a b have a: "check_submission codec grant q protected s = (Inr (), s)"
    and b: "for_each (pv_source_refs (rsb_provenance q)) (require_reference ?lineage) s = (Inr (), s1)"
    by simp_all
  have "preserves (db_inv I) (for_each xs (require_reference ?lineage))" for xs
    by (intro keeps_intros read_invariant.require_reference [OF reads])
  from preservesD [OF this start b] have s1: "db_inv I s1" .
  have "preserves (db_inv I) (for_each xs (check_body_reference grant q protected))" for xs
    by (intro keeps_intros read_invariant.check_body_reference [OF reads])
  from preservesD [OF this s1 c] have s2: "db_inv I s2" .
  have u: "db_inv I u"
    by (rule preservesD [OF read_invariant.validate_motif_submission [OF reads] s2 d])
  have v: "db_inv I v"
    by (rule preservesD [OF read_invariant.validate_transplant [OF reads] u e])
  show thesis by (rule that [OF a d e s2 u v]) (use rest in blast)
qed

lemma record_reads: "read_invariant record_inv"
  by (rule record_messages.read_invariant_axioms)

lemma replace_versionD:
  assumes "replace_version grant q record s = (Inr r, t)"
  shows "case rsb_id q of
      None \<Rightarrow> r = record \<and> rsb_expected_version q = None
    | Some i \<Rightarrow> \<not> immutable_kind (rsb_kind q) \<and>
        (\<exists>v n created. rsb_expected_version q = Some v \<and> counter v = Inr n \<and>
          r = record\<lparr>r_version := to_string (add_u64 n 1), r_created_ms := created\<rparr>)"
  using assms by (auto simp: replace_version_def op_simps split: option.splits if_splits)

definition stored_submission :: "Grant \<Rightarrow> RecordSubmission \<Rightarrow> RecordEnvelope \<Rightarrow> bool" where
  "stored_submission grant q r \<longleftrightarrow>
     r_scope r = g_scope grant \<and> r_kind r = rsb_kind q \<and> r_body r = rsb_body q \<and>
     r_provenance r = rsb_provenance q \<and> \<not> r_retired r"

lemma submit_record:
  assumes "submit_for_run codec grant q protected run s = (Inr r, t)" "record_inv (store_db s)"
  shows "map_option rec_body (record_row (store_db t) (r_id r)) = Some r" "stored_submission grant q r"
    "pv_split (r_provenance r) \<in> set (g_visible_splits grant)"
    "protected \<or> r_kind r \<noteq> RecordKind.Admission \<and> r_kind r \<noteq> RecordKind.Evaluation"
    "case rsb_id q of
      None \<Rightarrow> rsb_expected_version q = None \<and> r_version r = ''1''
    | Some i \<Rightarrow> r_id r = i \<and> \<not> immutable_kind (r_kind r) \<and>
        (\<exists>v n. rsb_expected_version q = Some v \<and> counter v = Inr n \<and>
          r_version r = to_string (add_u64 n 1))"
proof -
  from submit_stages [OF assms(1) record_reads] assms(2) obtain v now w i x y where
    check: "check_submission codec grant q protected s = (Inr (), s)" and v: "db_inv record_inv v" and
    stages: "now_ms v = (Inr now, w)" "(case rsb_id q of Some i \<Rightarrow> ret i | None \<Rightarrow> new_id) w = (Inr i, x)"
      "replace_version grant q (submitted_record grant q i now) x = (Inr r, y)"
      "save_record_for_run r (rsb_expected_version q) run y = (Inr (), t)"
    by (metis db_inv_def)
  have "db_inv record_inv w" using v stages(1) by (auto simp: now_ms_def db_inv_def)
  then have "db_inv record_inv x"
    using stages(2) by (auto simp: new_id_def db_inv_def split: option.splits)
  from preservesD [OF read_invariant.replace_version [OF record_reads] this stages(3)]
  have y: "record_keys (store_db y)" by (simp add: db_inv_def record_keys_inv)
  from stages(4) obtain d where d: "save_step r (rsb_expected_version q) run (store_db y) = Inr d"
    "t = y\<lparr>store_db := d\<rparr>" by (auto simp: save_record_Inr_iff)
  from save_step_row [OF d(1) y] d(2)
  show "map_option rec_body (record_row (store_db t) (r_id r)) = Some r" by simp
  note r = replace_versionD [OF stages(3)]
  then show stored: "stored_submission grant q r"
    by (auto simp: stored_submission_def submitted_record_def split: option.splits)
  then show "pv_split (r_provenance r) \<in> set (g_visible_splits grant)"
    "protected \<or> r_kind r \<noteq> RecordKind.Admission \<and> r_kind r \<noteq> RecordKind.Evaluation"
    using check by (auto simp: stored_submission_def check_submission_def op_simps split: if_splits)
  show "case rsb_id q of
      None \<Rightarrow> rsb_expected_version q = None \<and> r_version r = ''1''
    | Some i \<Rightarrow> r_id r = i \<and> \<not> immutable_kind (r_kind r) \<and>
        (\<exists>v n. rsb_expected_version q = Some v \<and> counter v = Inr n \<and>
          r_version r = to_string (add_u64 n 1))"
    using r stages(2) by (auto simp: submitted_record_def split: option.splits)
qed

section \<open>Evidence of a discovery\<close>

lemma for_each_need:
  assumes "for_each xs (\<lambda>x. bind (query (f x)) (\<lambda>b. need b e)) s = (Inr u, t)"
  shows "t = s" "\<forall>x \<in> set xs. f x (store_db s)"
proof -
  have "t = s \<and> (\<forall>x \<in> set xs. f x (store_db s))"
    using assms by (induction xs arbitrary: s) (auto simp: op_simps query_def split: if_splits)
  then show "t = s" "\<forall>x \<in> set xs. f x (store_db s)" by simp_all
qed

lemma require_observationsD:
  assumes "require_motif_observations (Some run) body s = (Inr u, t)"
  shows "t = s" "\<forall>x \<in> set (collect_references (JObject body)). observed_by run x (store_db s)"
  using for_each_need [OF assms [unfolded require_motif_observations_def option.case]] by simp_all

lemma check_discoveryD:
  assumes "check_discovery codec grant body (Some run) s = (Inr u, t)"
  obtains discovery where "mcd_discovery codec body = Inr discovery" "check_claims grant discovery = Inr ()"
    "run \<in> set (dis_run_refs discovery)"
    "length (remdups (concat (map dw_event_refs (dis_source_windows discovery)))) \<le> 1000"
    "\<forall>x \<in> set (collect_references (JObject body)). observed_by run x (store_db t)"
proof -
  from assms obtain discovery v where
    "mcd_discovery codec body = Inr discovery" "check_claims grant discovery = Inr ()"
    "run \<in> set (dis_run_refs discovery)"
    "length (remdups (concat (map dw_event_refs (dis_source_windows discovery)))) \<le> 1000"
    "require_motif_observations (Some run) body v = (Inr u, t)"
    unfolding check_discovery_def check_windows_def check_runs_def
    by (auto simp: op_simps split: if_splits)
  with require_observationsD [of run body v u t] that show thesis by auto
qed

lemma save_step_snapshots:
  assumes "save_step r expected run d = Inr d'"
  shows "artifact_snapshots d' = artifact_snapshots d"
proof -
  obtain c e where c: "artifact_snapshots c = artifact_snapshots d"
    and e: "record_sources r (index_record r c) = Inr e" and d': "d' = attribute_record run r e"
  proof (cases expected)
    case None
    with assms that [of "insert_record r d"] show thesis by (auto simp: save_step_def insert_record_def)
  next
    case (Some v)
    with assms that [of "update_record r v d"] show thesis by (auto simp: save_step_def update_record_def)
  qed
  from only_lineageD [OF record_sources_frame [OF e]] c d' show ?thesis
    by (simp add: index_record_def attribute_record_def split: option.splits if_splits)
qed

lemma submit_discovery:
  assumes "submit_for_run codec grant q protected (Some run) s = (Inr r, t)"
    and "rsb_kind q = RecordKind.Discovery"
  obtains discovery where "mcd_discovery codec (rsb_body q) = Inr discovery"
    "check_claims (lineage_grant grant (pv_split (rsb_provenance q))) discovery = Inr ()"
    "run \<in> set (dis_run_refs discovery)"
    "length (remdups (concat (map dw_event_refs (dis_source_windows discovery)))) \<le> 1000"
    "\<forall>x \<in> set (collect_references (JObject (rsb_body q))). observed_by run x (store_db t)"
    "rsb_id q = None"
proof -
  have trivial: "read_invariant (\<lambda>_. True)"
    by unfold_locales (simp_all add: preserves_def db_inv_def)
  from submit_stages [OF assms(1) trivial] obtain m u v now w i x y where
    motif: "validate_motif_submission codec (lineage_grant grant (pv_split (rsb_provenance q))) q (Some run) m =
      (Inr (), u)" and
    transplant: "validate_transplant codec (lineage_grant grant (pv_split (rsb_provenance q))) q u = (Inr (), v)" and
    stages: "now_ms v = (Inr now, w)" "(case rsb_id q of Some i \<Rightarrow> ret i | None \<Rightarrow> new_id) w = (Inr i, x)"
      "replace_version grant q (submitted_record grant q i now) x = (Inr r, y)"
      "save_record_for_run r (rsb_expected_version q) (Some run) y = (Inr (), t)"
    by (metis db_inv_def)
  have fresh: "rsb_id q = None"
    using replace_versionD [OF stages(3)] assms(2) by (auto simp: immutable_kind_def split: option.splits)
  from motif assms(2) obtain n where
    check: "check_discovery codec (lineage_grant grant (pv_split (rsb_provenance q))) (rsb_body q) (Some run) n =
      (Inr (), u)"
    by (auto simp: validate_motif_submission_def op_simps)
  have "v = u" using transplant assms(2) by (simp add: validate_transplant_def)
  moreover have "store_db w = store_db v" using stages(1) by (auto simp: now_ms_def)
  moreover have "store_db x = store_db w" using stages(2) fresh by (auto simp: new_id_def)
  moreover have "y = x" using stages(3) fresh by (auto simp: replace_version_def op_simps split: if_splits)
  ultimately have y: "store_db y = store_db u" by simp
  from stages(4) obtain d where "save_step r (rsb_expected_version q) (Some run) (store_db y) = Inr d"
    "t = y\<lparr>store_db := d\<rparr>" by (auto simp: save_record_Inr_iff)
  with save_step_snapshots have "artifact_snapshots (store_db t) = artifact_snapshots (store_db u)"
    using y by fastforce
  then have observed: "observed_by run j (store_db t) = observed_by run j (store_db u)" for j
    by (simp add: observed_by_def)
  from check_discoveryD [OF check] show thesis
    using that fresh observed by metis
qed

end
