(* ===== verification/MotifProperties.thy ===== *)
theory MotifProperties
  imports Submissions Scenario
begin

text \<open>The promises of the submission of records: what is stored, and what a discovery rests on.\<close>

section \<open>Versions\<close>

text \<open>
  C37: What a successful submission returns is what the store then holds: a live record of the
  submitted kind, body and provenance in the scope of the grant, under a split the grant sees. Only the
  host writes admissions and evaluations. A new record has version one; an update names the version it
  replaces, the stored one is its successor, and records of an immutable kind are never updated.
\<close>

theorem submissions_are_versioned:
  assumes "reachable s" "submit_for_run codec grant q protected run s = (Inr r, t)"
  shows "map_option rec_body (record_row (store_db t) (r_id r)) = Some r \<and>
    r_kind r = rsb_kind q \<and> r_body r = rsb_body q \<and> r_provenance r = rsb_provenance q \<and>
    r_scope r = g_scope grant \<and> \<not> r_retired r \<and>
    pv_split (r_provenance r) \<in> set (g_visible_splits grant) \<and>
    (protected \<or> r_kind r \<noteq> RecordKind.Admission \<and> r_kind r \<noteq> RecordKind.Evaluation) \<and>
    (case rsb_id q of
       None \<Rightarrow> rsb_expected_version q = None \<and> r_version r = ''1''
     | Some i \<Rightarrow> r_id r = i \<and> \<not> immutable_kind (r_kind r) \<and>
         (\<exists>v n. rsb_expected_version q = Some v \<and> counter v = Inr n \<and>
           r_version r = to_string (add_u64 n 1)))"
  using submit_record [OF assms(2) reachable_records [OF assms(1)]] unfolding stored_submission_def
  by simp

definition demo_discovery :: Discovery where
  "demo_discovery = \<lparr>dis_work_ref = None, dis_corpus = \<lparr>vr_id = ''c'', vr_version = ''1''\<rparr>,
     dis_source_windows = [\<lparr>dw_execution = ''w'', dw_event_refs = [''e1''],
       dw_frontier = [(''w/host'', JString ''1'')]\<rparr>],
     dis_hypotheses = [], dis_definition_refs = [], dis_occurrence_refs = [],
     dis_decision = DiscoveryDecision.NoMotif, dis_open_questions = [], dis_run_refs = [''r'']\<rparr>"

definition motif_codec :: MotifCodec where
  "motif_codec = \<lparr>mcd_definition = (\<lambda>_. Inl (invalid ''none'')), mcd_occurrence = (\<lambda>_. Inl (invalid ''none'')),
     mcd_discovery = (\<lambda>_. Inr demo_discovery), mcd_transplant = (\<lambda>_. Inl (invalid ''none'')),
     mcd_valid_body = (\<lambda>_ _. True), mcd_submission_bytes = (\<lambda>_. 100), mcd_corpus_bytes = (\<lambda>_. 100)\<rparr>"

definition revision :: RecordSubmission where
  "revision = \<lparr>rsb_kind = RecordKind.Finding, rsb_provenance = r_provenance demo_record,
     rsb_body = [(''text'', JString ''y'')], rsb_id = Some ''rec'', rsb_expected_version = Some ''1''\<rparr>"

definition revise_record :: "RecordEnvelope store_op" where
  "revise_record = submit_for_run motif_codec demo_grant revision False None"

theorem submissions_are_versioned_witness:
  "map_sum id r_version (fst (revise_record record_world)) = Inr ''2'' \<and>
   map_option (r_body \<circ> rec_body) (record_row (store_db (snd (revise_record record_world))) ''rec'') =
     Some [(''text'', JString ''y'')]"
proof -
  have version: "map_sum id (\<lambda>r. (r_version r, r_id r)) (fst (revise_record record_world)) = Inr (''2'', ''rec'')"
    by code_simp
  then obtain r where r: "fst (revise_record record_world) = Inr r" "r_version r = ''2''" "r_id r = ''rec''"
    by (cases "fst (revise_record record_world)") auto
  from submissions_are_versioned [OF reachable_record run_eq [of revise_record, OF r(1), unfolded revise_record_def]]
  have "map_option rec_body (record_row (store_db (snd (revise_record record_world))) (r_id r)) = Some r"
    "r_body r = rsb_body revision"
    by (simp_all add: revise_record_def)
  with r show ?thesis by (auto simp: revision_def map_option.compositionality [symmetric])
qed

section \<open>Discoveries\<close>

text \<open>
  C38: A discovery is stored only as a new record, when the run that submits it names itself and every
  reference in it was returned to that run by a retained tool result. It keeps to the corpus assigned by
  the host, selects at most a thousand events, a supported one has a hypothesis and a pinned definition,
  and one that found no motif names no definition.
\<close>

theorem discoveries_rest_on_what_was_read:
  assumes "submit_for_run codec grant q protected (Some run) s = (Inr r, t)"
    and "rsb_kind q = RecordKind.Discovery"
  shows "rsb_id q = None \<and>
    (\<forall>i. i \<in> set (collect_references (JObject (rsb_body q))) \<longrightarrow> observed_by run i (store_db t)) \<and>
    (\<exists>discovery. mcd_discovery codec (rsb_body q) = Inr discovery \<and> run \<in> set (dis_run_refs discovery) \<and>
      length (remdups (concat (map dw_event_refs (dis_source_windows discovery)))) \<le> 1000 \<and>
      (case g_discovery_corpus grant of Some corpus \<Rightarrow> dis_corpus discovery = corpus | None \<Rightarrow> True) \<and>
      \<not> (dis_decision discovery = DiscoveryDecision.Supported \<and>
        (dis_definition_refs discovery = [] \<or> dis_hypotheses discovery = [])) \<and>
      \<not> (dis_decision discovery = DiscoveryDecision.NoMotif \<and> dis_definition_refs discovery \<noteq> []))"
proof -
  from submit_discovery [OF assms] obtain discovery where
    d: "mcd_discovery codec (rsb_body q) = Inr discovery" "run \<in> set (dis_run_refs discovery)"
      "length (remdups (concat (map dw_event_refs (dis_source_windows discovery)))) \<le> 1000" and
    claims: "check_claims (lineage_grant grant (pv_split (rsb_provenance q))) discovery = Inr ()" and
    read: "\<forall>x \<in> set (collect_references (JObject (rsb_body q))). observed_by run x (store_db t)"
      "rsb_id q = None" .
  from claims have "case g_discovery_corpus grant of Some corpus \<Rightarrow> dis_corpus discovery = corpus | None \<Rightarrow> True"
    "\<not> (dis_decision discovery = DiscoveryDecision.Supported \<and>
       (dis_definition_refs discovery = [] \<or> dis_hypotheses discovery = []))"
    "\<not> (dis_decision discovery = DiscoveryDecision.NoMotif \<and> dis_definition_refs discovery \<noteq> [])"
    by (auto simp: check_claims_def lineage_grant_def split: option.splits)
  with d read show ?thesis by blast
qed

definition read_event :: ArtifactSnapshot where
  "read_event = \<lparr>as_id = ''result'', as_client = ''acme'', as_project = ''site'', as_grant_id = ''g'',
     as_path = ''p'', as_branch_id = None, as_split = Split.Development, as_version = ''1'',
     as_current_version = ''1'', as_required_freshness = ''1'', as_available = True, as_export_file = None,
     as_result_run_id = Some ''r'', as_result_call_id = None, as_result_args_hash = None,
     as_result_method = None,
     as_result_sources = [\<lparr>cs_kind = ContextSourceKind.Event, cs_id = ''e1'', cs_version = ''1''\<rparr>],
     as_version_only = False, as_body = JNull, as_result_content = Some ''seen''\<rparr>"

definition reading_world :: World where
  "reading_world = snd (seq (ingest demo_event)
     (exec (\<lambda>d. d\<lparr>artifact_snapshots := [read_event]\<rparr>)) running_world)"

definition discovery_submission :: RecordSubmission where
  "discovery_submission = \<lparr>rsb_kind = RecordKind.Discovery, rsb_provenance = r_provenance demo_record,
     rsb_body = [(''support_refs'', JArray [JString ''e1''])], rsb_id = None, rsb_expected_version = None\<rparr>"

definition submit_demo_discovery :: "RecordEnvelope store_op" where
  "submit_demo_discovery = submit_for_run motif_codec demo_grant discovery_submission False (Some ''r'')"

theorem discoveries_rest_on_what_was_read_witness:
  "map_sum e_message r_version (fst (submit_demo_discovery reading_world)) = Inr ''1'' \<and>
   observed_by ''r'' ''e1'' (store_db (snd (submit_demo_discovery reading_world)))"
proof -
  have version: "map_sum e_message r_version (fst (submit_demo_discovery reading_world)) = Inr ''1''"
    by code_simp
  then obtain r where "fst (submit_demo_discovery reading_world) = Inr r"
    by (cases "fst (submit_demo_discovery reading_world)") auto
  from discoveries_rest_on_what_was_read [OF run_eq [of submit_demo_discovery, OF this, unfolded submit_demo_discovery_def]]
  have "''e1'' \<in> set (collect_references (JObject (rsb_body discovery_submission))) \<longrightarrow>
    observed_by ''r'' ''e1'' (store_db (snd (submit_demo_discovery reading_world)))"
    by (simp add: discovery_submission_def submit_demo_discovery_def)
  moreover have "''e1'' \<in> set (collect_references (JObject (rsb_body discovery_submission)))"
    by code_simp
  ultimately show ?thesis using version by blast
qed

end
