(* ===== verification/Decoding.thy ===== *)
theory Decoding
  imports Validation "HOL-Library.List_Lexorder" "HOL-Library.Char_ord"
begin

text \<open>
  crates/ribosome-import/src/profile.rs and decode.rs: the profile of an import, the projection of a
  row, and the decoding of a recorded trajectory into messages with the account of its tool calls.

  serde_json parses and measures values and resolves JSON pointers; these three functions are the
  argument \<open>codec\<close> of the definitions that use them.
\<close>

section \<open>Parameters\<close>

record Codec =
  cdc_parse :: "string \<Rightarrow> json res"
  cdc_pointer :: "json \<Rightarrow> string \<Rightarrow> json option"
  cdc_bytes :: "json \<Rightarrow> nat"

record Limits =
  lim_episodes :: nat
  lim_row_bytes :: nat
  lim_messages :: nat
  lim_table_rows :: nat
  lim_download_bytes :: nat

definition default_limits :: Limits where
  "default_limits = \<lparr>lim_episodes = 6, lim_row_bytes = 16 * 1024 * 1024, lim_messages = 4000,
     lim_table_rows = 100000, lim_download_bytes = 256 * 1024 * 1024\<rparr>"

section \<open>Profiles\<close>

record Fallback =
  fb_name :: string
  fb_field :: string
  fb_value_encoding :: string
  fb_on :: "string list"

record Decoder =
  dc_name :: string
  dc_field :: string
  dc_value_encoding :: string
  dc_fallback :: "Fallback option"

record EpisodeMapping =
  epm_id :: string
  epm_task :: string
  epm_family :: "string option"
  epm_decoder :: Decoder

record Join =
  jn_table :: string
  jn_namespace :: string
  jn_left :: string
  jn_right :: string
  jn_cardinality :: string
  jn_missing :: string
  jn_duplicates :: string

record Assembly =
  asm_base :: string
  asm_namespace :: string
  asm_joins :: "Join list"

record ImportTable =
  itb_name :: string
  itb_encoding :: string
  itb_config :: "string option"
  itb_split :: "string option"
  itb_path :: "string option"
  itb_rows_pointer :: "string option"

record ImportInput =
  iin_kind :: string
  iin_mode :: string
  iin_dataset :: "string option"
  iin_revision :: "string option"
  iin_pin_before_read :: "bool option"
  iin_credential_env :: "string option"
  iin_tables :: "ImportTable list"

record ImportProfile =
  ipr_profile_version :: string
  ipr_id :: string
  ipr_version :: string
  ipr_input :: ImportInput
  ipr_assemble :: Assembly
  ipr_episode :: EpisodeMapping
  ipr_metadata :: "(string \<times> string) list"
  ipr_annotations :: "(string \<times> string) list"
  ipr_policy :: "(string \<times> string) list"

fun check_joins :: "string list \<Rightarrow> string list \<Rightarrow> Join list \<Rightarrow> unit res" where
  "check_joins names namespaces [] = Inr ()"
| "check_joins names namespaces (j # js) =
     (if jn_table j \<notin> set names \<or> jn_namespace j \<in> set namespaces
      then Inl (invalid ''joins must name existing tables and distinct namespaces'')
      else check_joins names (jn_namespace j # namespaces) js)"

definition check_profile :: "ImportProfile \<Rightarrow> unit res" where
  "check_profile p =
     (let names = map itb_name (iin_tables (ipr_input p)) in
      and_then (guard (distinct names \<and> asm_base (ipr_assemble p) \<in> set names)
        (invalid ''table names must be unique and include the assembly base'')) (\<lambda>_.
      and_then (check_joins names [asm_namespace (ipr_assemble p)] (asm_joins (ipr_assemble p))) (\<lambda>_.
      and_then (guard (\<not> (iin_kind (ipr_input p) = ''huggingface'' \<and> iin_mode (ipr_input p) \<noteq> ''pinned_files''))
        (invalid ''HF acquisition requires pinned_files; save viewer responses as a local snapshot'')) (\<lambda>_.
      for_res (\<lambda>t. guard (\<not> (iin_kind (ipr_input p) = ''local'' \<and> itb_path t = None))
        (invalid ''local tables require a path'')) (iin_tables (ipr_input p))))))"

definition row_identifier :: "Codec \<Rightarrow> json \<Rightarrow> string \<Rightarrow> string res" where
  "row_identifier codec row pointer =
     (case cdc_pointer codec row pointer of
        Some (JString s) \<Rightarrow>
          if s \<noteq> [] then Inr s else Inl (invalid (''missing scalar identity at '' @ pointer))
      | Some (JNumber n) \<Rightarrow> Inr n
      | _ \<Rightarrow> Inl (invalid (''missing scalar identity at '' @ pointer)))"

definition project :: "Codec \<Rightarrow> json \<Rightarrow> (string \<times> string) list \<Rightarrow> json" where
  "project codec row mapping = JObject (List.map_filter (\<lambda>(key, pointer).
     map_option (\<lambda>v. (key, v)) (cdc_pointer codec row pointer)) mapping)"

section \<open>The messages of a trajectory\<close>

text \<open>\<open>str::trim\<close> removes the characters of White_Space; these are their UTF-8 encodings.\<close>

fun is_blank :: "nat list \<Rightarrow> bool" where
  "is_blank [] = True"
| "is_blank (a # bs) =
     (if 9 \<le> a \<and> a \<le> 13 \<or> a = 32 then is_blank bs
      else case bs of
          [] \<Rightarrow> False
        | b # cs \<Rightarrow>
            if a = 194 then (b = 133 \<or> b = 160) \<and> is_blank cs
            else case cs of
                [] \<Rightarrow> False
              | c # ds \<Rightarrow>
                  (a = 225 \<and> b = 154 \<and> c = 128 \<or>
                   a = 226 \<and> b = 128 \<and> (128 \<le> c \<and> c \<le> 138 \<or> c = 168 \<or> c = 169 \<or> c = 175) \<or>
                   a = 226 \<and> b = 129 \<and> c = 159 \<or> a = 227 \<and> b = 128 \<and> c = 128) \<and> is_blank ds)"

definition blank :: "string \<Rightarrow> bool" where
  "blank s \<longleftrightarrow> is_blank (map of_char s)"

text \<open>\<open>str::lines\<close>: split at line feeds, the carriage return before one dropped, no last empty line.\<close>

definition chomp :: "string \<Rightarrow> string" where
  "chomp l = (if l \<noteq> [] \<and> last l = CHR 0x0D then butlast l else l)"

fun text_lines :: "string \<Rightarrow> string \<Rightarrow> string list" where
  "text_lines line [] = (if line = [] then [] else [line])"
| "text_lines line (c # cs) =
     (if c = CHR 0x0A then chomp line # text_lines [] cs else text_lines (line @ [c]) cs)"

datatype parsed = Empty string | Rows "json list"

definition parse_jsonl :: "Codec \<Rightarrow> string \<Rightarrow> json list res" where
  "parse_jsonl codec text =
     map_res (\<lambda>(n, line). case cdc_parse codec line of
         Inr v \<Rightarrow> Inr v
       | Inl e \<Rightarrow> Inl (invalid (''malformed embedded JSONL at line '' @ to_string (n + 1) @ '': '' @ e_message e)))
       (filter (\<lambda>(n, line). \<not> blank line) (List.enumerate 0 (text_lines [] text)))"

definition parse_rows :: "Codec \<Rightarrow> json \<Rightarrow> string \<Rightarrow> json list res" where
  "parse_rows codec v encoding =
     (if encoding = ''array'' then ok_or (as_array v) (invalid ''message field must be an array'')
      else if encoding = ''json_string'' then
        and_then (ok_or (as_str v) (invalid ''encoded messages must be a string'')) (\<lambda>s.
        and_then (cdc_parse codec s) (\<lambda>rows.
        ok_or (as_array rows) (invalid ''invalid type'')))
      else if encoding = ''jsonl_string'' then
        and_then (ok_or (as_str v) (invalid ''encoded JSONL must be a string'')) (parse_jsonl codec)
      else Inl (invalid ''unsupported message encoding''))"

text \<open>The header line of an AEC trajectory: a first value with a \<open>format\<close> member.\<close>

definition aec_header :: "json list \<Rightarrow> json option" where
  "aec_header rows =
     (case rows of
        JObject m # _ \<Rightarrow> if map_of m ''format'' \<noteq> None then Some (JObject m) else None
      | _ \<Rightarrow> None)"

definition drop_header :: "json list \<Rightarrow> parsed res" where
  "drop_header rows =
     (case aec_header rows of
        None \<Rightarrow> Inr (if rows = [] then Empty ''empty'' else Rows rows)
      | Some header \<Rightarrow>
          if json_get header ''format'' \<noteq> JString ''aec-bench-trajectory'' \<or>
             json_get header ''version'' \<noteq> JNumber ''1''
          then Inl (invalid ''unsupported AEC trajectory header'')
          else Inr (if tl rows = [] then Empty ''header_only'' else Rows (tl rows)))"

definition parse :: "Codec \<Rightarrow> json option \<Rightarrow> string \<Rightarrow> string \<Rightarrow> parsed res" where
  "parse codec found encoding decoder =
     (case found of
        None \<Rightarrow> Inr (Empty ''missing'')
      | Some JNull \<Rightarrow> Inr (Empty ''null'')
      | Some v \<Rightarrow>
          if (case as_str v of Some s \<Rightarrow> blank s | None \<Rightarrow> False) \<or> as_array v = Some []
          then Inr (Empty ''empty'')
          else and_then (parse_rows codec v encoding) (\<lambda>rows.
            if decoder = ''aec-jsonl-v1'' then drop_header rows
            else Inr (if rows = [] then Empty ''empty'' else Rows rows)))"

text \<open>The rows, the decoder that supplied them and why the first one did not.\<close>

definition trajectory_rows ::
    "Codec \<Rightarrow> json \<Rightarrow> Decoder \<Rightarrow> (json list \<times> string \<times> string option) res" where
  "trajectory_rows codec row decoder =
     and_then (parse codec (cdc_pointer codec row (dc_field decoder)) (dc_value_encoding decoder)
         (dc_name decoder)) (\<lambda>found.
     case found of
       Rows rows \<Rightarrow> Inr (rows, dc_name decoder, None)
     | Empty reason \<Rightarrow>
         (case dc_fallback decoder of
            Some f \<Rightarrow>
              if reason \<in> set (fb_on f)
              then and_then (parse codec (cdc_pointer codec row (fb_field f)) (fb_value_encoding f)
                  (fb_name f)) (\<lambda>second.
                case second of
                  Rows rows \<Rightarrow> Inr (rows, fb_name f, Some reason)
                | Empty why \<Rightarrow> Inl (invalid (''fallback trajectory is '' @ why)))
              else Inl (invalid (''trajectory is '' @ reason))
          | None \<Rightarrow> Inl (invalid (''trajectory is '' @ reason))))"

section \<open>Decoding\<close>

record ImportMessage =
  im_source_index :: nat
  im_role :: string
  im_content :: json
  im_tool_calls :: "json list"
  im_tool_call_id :: "string option"
  im_name :: "string option"
  im_timestamp :: "json option"

record Coverage =
  cov_messages :: nat
  cov_tool_calls :: nat
  cov_paired_results :: nat
  cov_pending_calls :: "string list"
  cov_unmatched_results :: "string list"
  cov_original_timestamps :: nat
  cov_opaque_parts :: nat
  cov_modalities :: "string list"
  cov_prefix_safe :: bool

record Decoded =
  dcd_decoder :: string
  dcd_fallback_reason :: "string option"
  dcd_messages :: "ImportMessage list"
  dcd_coverage :: Coverage
  dcd_limitations :: "string list"

text \<open>The variables of the loop. The sets are lists of what was inserted, in the order of insertion.\<close>

record decoding =
  dg_messages :: "ImportMessage list"
  dg_limitations :: "string list"
  dg_pending :: "(string \<times> nat) list"
  dg_seen :: "string list"
  dg_unmatched :: "string list"
  dg_paired :: nat
  dg_opaque :: nat
  dg_modalities :: "string list"

definition no_messages :: decoding where
  "no_messages = \<lparr>dg_messages = [], dg_limitations = [], dg_pending = [], dg_seen = [],
     dg_unmatched = [], dg_paired = 0, dg_opaque = 0, dg_modalities = []\<rparr>"

definition known_role :: "string \<Rightarrow> bool" where
  "known_role role \<longleftrightarrow>
     role \<in> set [''system'', ''developer'', ''user'', ''assistant'', ''tool'']"

definition numbered :: "nat \<Rightarrow> string \<Rightarrow> string" where
  "numbered n text = ''message '' @ to_string n @ text"

definition note_limitation :: "string \<Rightarrow> decoding \<Rightarrow> decoding" where
  "note_limitation l st = st\<lparr>dg_limitations := dg_limitations st @ [l]\<rparr>"

definition note_opaque :: "decoding \<Rightarrow> decoding" where
  "note_opaque st = st\<lparr>dg_opaque := dg_opaque st + 1\<rparr>"

definition note_text :: "decoding \<Rightarrow> decoding" where
  "note_text st = st\<lparr>dg_modalities := dg_modalities st @ [''text'']\<rparr>"

definition text_part :: "json \<Rightarrow> bool" where
  "text_part part \<longleftrightarrow> json_get part ''type'' = JString ''text'' \<and> as_str (json_get part ''text'') \<noteq> None"

definition project_part :: "nat \<Rightarrow> json list \<times> decoding \<Rightarrow> json \<Rightarrow> json list \<times> decoding" where
  "project_part index acc part = (case acc of (parts, st) \<Rightarrow>
     if text_part part
     then (parts @ [JObject [(''text'', json_get part ''text''), (''type'', JString ''text'')]], note_text st)
     else (parts @ [JObject [(''source_type'', JString (case as_str (json_get part ''type'') of
              Some t \<Rightarrow> t | None \<Rightarrow> ''unknown'')), (''type'', JString ''opaque'')]],
           note_limitation (numbered index '': unsupported content retained owner-side'') (note_opaque st)))"

definition project_content :: "nat \<Rightarrow> bool \<Rightarrow> json option \<Rightarrow> decoding \<Rightarrow> json \<times> decoding" where
  "project_content index known content st =
     (case content of
        None \<Rightarrow> (JNull, st)
      | Some JNull \<Rightarrow> (JNull, st)
      | Some c \<Rightarrow>
          (case (if known then c else JNull) of
             JString t \<Rightarrow> (JString t, note_text st)
           | JArray parts \<Rightarrow>
               (case foldl (project_part index) ([], st) parts of (ps, st) \<Rightarrow> (JArray ps, st))
           | _ \<Rightarrow> (JObject [(''reason'', JString ''unclassified content retained owner-side''),
                          (''type'', JString ''opaque'')], note_opaque st)))"

definition message_calls :: "nat \<Rightarrow> json option \<Rightarrow> json list res" where
  "message_calls index found =
     (case found of
        None \<Rightarrow> Inr []
      | Some JNull \<Rightarrow> Inr []
      | Some (JArray calls) \<Rightarrow> Inr calls
      | Some _ \<Rightarrow> Inl (invalid (numbered index '': tool_calls is not an array'')))"

definition call_function :: "json \<Rightarrow> json" where
  "call_function call =
     (case as_object call of
        Some m \<Rightarrow> (case map_of m ''function'' of Some f \<Rightarrow> f | None \<Rightarrow> call)
      | None \<Rightarrow> call)"

definition parsed_arguments :: "Codec \<Rightarrow> json \<Rightarrow> json option" where
  "parsed_arguments codec arguments =
     (case arguments of
        JString raw \<Rightarrow>
          (case cdc_parse codec raw of Inr (JObject m) \<Rightarrow> Some (JObject m) | _ \<Rightarrow> None)
      | JObject m \<Rightarrow> Some (JObject m)
      | _ \<Rightarrow> None)"

definition optional :: "json option \<Rightarrow> json" where
  "optional v = (case v of Some x \<Rightarrow> x | None \<Rightarrow> JNull)"

definition call_label :: "nat \<Rightarrow> nat \<Rightarrow> json \<Rightarrow> string" where
  "call_label index number call =
     (case as_str (json_get call ''id'') of
        Some i \<Rightarrow> i
      | None \<Rightarrow> ''unidentified:'' @ to_string index @ CHR '':'' # to_string number)"

definition project_call :: "Codec \<Rightarrow> json \<Rightarrow> json" where
  "project_call codec call = (let arguments = json_get (call_function call) ''arguments'' in
     JObject
      [(''arguments'', arguments),
       (''id'', optional (map_option JString (as_str (json_get call ''id'')))),
       (''name'', optional (map_option JString (as_str (json_get (call_function call) ''name'')))),
       (''parsed_arguments'', optional (parsed_arguments codec arguments))])"

text \<open>\<open>BTreeMap::insert\<close> on the pending calls: a label is never inserted twice.\<close>

definition open_call :: "nat \<Rightarrow> string \<Rightarrow> decoding \<Rightarrow> decoding" where
  "open_call index label st =
     st\<lparr>dg_seen := dg_seen st @ [label], dg_pending := dg_pending st @ [(label, index)]\<rparr>"

definition note_identity :: "json \<Rightarrow> decoding \<Rightarrow> decoding" where
  "note_identity call st =
     (if as_str (json_get call ''id'') = None
      then note_limitation ''some tool calls have no source identity'' st else st)"

definition note_arguments :: "Codec \<Rightarrow> nat \<Rightarrow> json \<Rightarrow> decoding \<Rightarrow> decoding" where
  "note_arguments codec index call st =
     (if parsed_arguments codec (json_get (call_function call) ''arguments'') = None
      then note_limitation (numbered index '': tool arguments preserved without a parsed object'') st
      else st)"

definition decode_call ::
    "Codec \<Rightarrow> nat \<Rightarrow> json list \<times> decoding \<Rightarrow> nat \<times> json \<Rightarrow> (json list \<times> decoding) res" where
  "decode_call codec index acc numbered_call = (case acc of (calls, st) \<Rightarrow>
     case numbered_call of (number, call) \<Rightarrow>
     let label = call_label index number call in
     if label \<in> set (dg_seen st) then Inl (invalid (''duplicate tool call identity '' @ label))
     else Inr (calls @ [project_call codec call],
       note_arguments codec index call (note_identity call (open_call index label st))))"

fun fold_res :: "('b \<Rightarrow> 'a \<Rightarrow> 'b res) \<Rightarrow> 'b \<Rightarrow> 'a list \<Rightarrow> 'b res" where
  "fold_res f acc [] = Inr acc"
| "fold_res f acc (x # xs) = and_then (f acc x) (\<lambda>acc. fold_res f acc xs)"

definition pair_result :: "nat \<Rightarrow> string option \<Rightarrow> decoding \<Rightarrow> decoding" where
  "pair_result index tool_call_id st =
     (case tool_call_id of
        Some i \<Rightarrow>
          if map_of (dg_pending st) i \<noteq> None
          then st\<lparr>dg_pending := filter (\<lambda>(l, _). l \<noteq> i) (dg_pending st), dg_paired := dg_paired st + 1\<rparr>
          else st\<lparr>dg_unmatched := dg_unmatched st @ [i]\<rparr>
      | None \<Rightarrow> st\<lparr>dg_unmatched := dg_unmatched st @ [''unidentified-result:'' @ to_string index]\<rparr>)"

definition non_null :: "json option \<Rightarrow> json option" where
  "non_null v = (if v = Some JNull then None else v)"

definition push_message ::
    "nat \<Rightarrow> string \<Rightarrow> json_map \<Rightarrow> json \<Rightarrow> json list \<Rightarrow> decoding \<Rightarrow> decoding" where
  "push_message index role object content projected st = st\<lparr>dg_messages := dg_messages st @
     [\<lparr>im_source_index = index, im_role = role, im_content = content, im_tool_calls = projected,
       im_tool_call_id = Option.bind (map_of object ''tool_call_id'') as_str,
       im_name = Option.bind (map_of object ''name'') as_str,
       im_timestamp = non_null (map_of object ''timestamp'')\<rparr>]\<rparr>"

definition note_role :: "nat \<Rightarrow> string \<Rightarrow> decoding \<Rightarrow> decoding" where
  "note_role index role st =
     (if known_role role then st
      else note_opaque (note_limitation (numbered index ('': unclassified role '' @ role)) st))"

definition message_role :: "nat \<Rightarrow> json_map \<Rightarrow> string res" where
  "message_role index object =
     ok_or (Option.bind (map_of object ''role'') as_str) (invalid (numbered index '' has no string role''))"

definition decode_message :: "Codec \<Rightarrow> decoding \<Rightarrow> nat \<times> json \<Rightarrow> decoding res" where
  "decode_message codec st row = (case row of (index, v) \<Rightarrow>
     and_then (ok_or (as_object v) (invalid (numbered index '' is not an object''))) (\<lambda>object.
     and_then (message_role index object) (\<lambda>role.
     case project_content index (known_role role) (map_of object ''content'') (note_role index role st) of
       (content, st) \<Rightarrow>
     and_then (message_calls index (map_of object ''tool_calls'')) (\<lambda>calls.
     and_then (fold_res (decode_call codec index) ([], st) (List.enumerate 0 calls)) (\<lambda>(projected, st).
     Inr (push_message index role object content projected
       (if role = ''tool''
        then pair_result index (Option.bind (map_of object ''tool_call_id'') as_str) st else st)))))))"

definition decode_rows :: "Codec \<Rightarrow> json list \<Rightarrow> decoding res" where
  "decode_rows codec rows = fold_res (decode_message codec) no_messages (List.enumerate 0 rows)"

definition timestamps :: "decoding \<Rightarrow> nat" where
  "timestamps st = length (filter (\<lambda>m. im_timestamp m \<noteq> None) (dg_messages st))"

definition closing_limitations :: "decoding \<Rightarrow> string list" where
  "closing_limitations st =
     (if timestamps st < length (dg_messages st)
      then [''Execution time is unknown for messages without an original timestamp.''] else []) @
     (if dg_pending st \<noteq> [] then [''Some recorded tool calls have no paired result.''] else []) @
     (if dg_unmatched st \<noteq> []
      then [''Some recorded tool results have no identifiable preceding call.''] else [])"

definition coverage_of :: "decoding \<Rightarrow> Coverage" where
  "coverage_of st =
     \<lparr>cov_messages = length (dg_messages st), cov_tool_calls = length (dg_seen st),
      cov_paired_results = dg_paired st, cov_pending_calls = sort (map fst (dg_pending st)),
      cov_unmatched_results = dg_unmatched st, cov_original_timestamps = timestamps st,
      cov_opaque_parts = dg_opaque st, cov_modalities = remdups_adj (sort (dg_modalities st)),
      cov_prefix_safe = True\<rparr>"

definition decode_trajectory :: "Codec \<Rightarrow> json \<Rightarrow> Decoder \<Rightarrow> Limits \<Rightarrow> Decoded res" where
  "decode_trajectory codec row decoder limits =
     and_then (trajectory_rows codec row decoder) (\<lambda>(rows, name, fallback_reason).
     and_then (guard (length rows \<le> lim_messages limits) (invalid ''episode exceeds message limit'')) (\<lambda>_.
     and_then (decode_rows codec rows) (\<lambda>st.
     Inr \<lparr>dcd_decoder = name, dcd_fallback_reason = fallback_reason, dcd_messages = dg_messages st,
          dcd_coverage = coverage_of st,
          dcd_limitations = remdups_adj (sort (dg_limitations st @ closing_limitations st))\<rparr>)))"

section \<open>The account of a trajectory\<close>

text \<open>What the account is about; projected parts and limitations are not.\<close>

definition account ::
    "decoding \<Rightarrow> ImportMessage list \<times> (string \<times> nat) list \<times> string list \<times> string list \<times> nat" where
  "account st = (dg_messages st, dg_pending st, dg_seen st, dg_unmatched st, dg_paired st)"

lemma account_notes [simp]:
  "account (note_limitation l st) = account st" "account (note_opaque st) = account st"
  "account (note_text st) = account st"
  by (simp_all add: account_def note_limitation_def note_opaque_def note_text_def)

lemma account_role [simp]: "account (note_role index role st) = account st"
  by (simp add: note_role_def)

lemma account_calls [simp]:
  "account (note_identity call st) = account st" "account (note_arguments codec index call st) = account st"
  by (simp_all add: note_identity_def note_arguments_def)

lemma account_parts: "account (snd (foldl (project_part index) (parts, st) vs)) = account st"
proof (induction vs arbitrary: parts st)
  case (Cons v vs)
  obtain ps t where step: "project_part index (parts, st) v = (ps, t)"
    by (cases "project_part index (parts, st) v")
  then have "account t = account st" by (auto simp: project_part_def split: if_splits)
  with Cons step show ?case by simp
qed simp

lemma account_content: "account (snd (project_content index known content st)) = account st"
  using account_parts [of index "[]" st]
  by (auto simp: project_content_def split: option.splits json.splits prod.splits) (metis snd_conv)+

text \<open>
  Every call was answered once or is pending, every result answered a call or is unmatched, and every
  message is there under its index. \<open>open_account n\<close> is the account while \<open>n\<close> calls of the message
  at hand are projected.
\<close>

definition open_account :: "nat \<Rightarrow> decoding \<Rightarrow> bool" where
  "open_account n st \<longleftrightarrow> distinct (dg_seen st) \<and> distinct (map fst (dg_pending st)) \<and>
     set (map fst (dg_pending st)) \<subseteq> set (dg_seen st) \<and>
     length (dg_seen st) = dg_paired st + length (dg_pending st) \<and>
     length (dg_seen st) = sum_list (map (\<lambda>m. length (im_tool_calls m)) (dg_messages st)) + n \<and>
     dg_paired st + length (dg_unmatched st) =
       length (filter (\<lambda>m. im_role m = ''tool'') (dg_messages st)) \<and>
     map im_source_index (dg_messages st) = [0..<length (dg_messages st)]"

lemma open_account_same: "account t = account st \<Longrightarrow> open_account n t = open_account n st"
  by (simp add: account_def open_account_def)

lemma decode_call_account:
  assumes "decode_call codec index (calls, st) call = Inr (calls', t)" "open_account (length calls) st"
  shows "open_account (length calls') t" "dg_messages t = dg_messages st"
proof -
  obtain number v where call: "call = (number, v)" by (cases call)
  define label where "label = call_label index number v"
  from assms(1) have new: "label \<notin> set (dg_seen st)" and len: "length calls' = Suc (length calls)"
    and acc: "account t = account (open_call index label st)"
    by (auto simp: decode_call_def call Let_def label_def split: if_splits)
  have "open_account (length calls') (open_call index label st)"
    using assms(2) new unfolding len by (simp add: open_account_def open_call_def) blast
  then show "open_account (length calls') t" unfolding open_account_same [OF acc] .
  from acc show "dg_messages t = dg_messages st" by (simp add: account_def open_call_def)
qed

lemma decode_calls_account:
  assumes "fold_res (decode_call codec index) (calls, st) xs = Inr (calls', t)"
    "open_account (length calls) st"
  shows "open_account (length calls') t \<and> dg_messages t = dg_messages st"
  using assms
proof (induction xs arbitrary: calls st)
  case (Cons x xs)
  from Cons.prems(1) obtain calls1 u where
    step: "decode_call codec index (calls, st) x = Inr (calls1, u)" and
    rest: "fold_res (decode_call codec index) (calls1, u) xs = Inr (calls', t)" by auto
  from Cons.IH [OF rest] decode_call_account [OF step Cons.prems(2)] show ?case by simp
qed simp

lemma length_filter_key:
  "distinct (map fst ps) \<Longrightarrow> map_of ps i \<noteq> None \<Longrightarrow>
     length ps = Suc (length (filter (\<lambda>(l, _). l \<noteq> i) ps))"
proof (induction ps)
  case (Cons p ps)
  show ?case
  proof (cases "fst p = i")
    case True
    with Cons.prems(1) have "filter (\<lambda>(l, _). l \<noteq> i) ps = ps"
      by (intro filter_True) (force simp: image_iff)
    with True show ?thesis by (cases p) simp
  qed (use Cons in \<open>cases p, auto\<close>)
qed simp

lemma pair_result_account:
  assumes "open_account n st"
  shows "dg_messages (pair_result index i st) = dg_messages st"
    "distinct (dg_seen (pair_result index i st))" "dg_seen (pair_result index i st) = dg_seen st"
    "distinct (map fst (dg_pending (pair_result index i st)))"
    "set (map fst (dg_pending (pair_result index i st))) \<subseteq> set (dg_seen st)"
    "length (dg_seen st) = dg_paired (pair_result index i st) + length (dg_pending (pair_result index i st))"
    "dg_paired (pair_result index i st) + length (dg_unmatched (pair_result index i st)) =
       Suc (dg_paired st + length (dg_unmatched st))"
proof -
  note inv = assms [unfolded open_account_def]
  have "distinct (map fst (filter P (dg_pending st)))" for P
    using inv by (simp add: distinct_map_filter)
  with inv length_filter_key [of "dg_pending st"]
  show "dg_messages (pair_result index i st) = dg_messages st"
    "distinct (dg_seen (pair_result index i st))" "dg_seen (pair_result index i st) = dg_seen st"
    "distinct (map fst (dg_pending (pair_result index i st)))"
    "set (map fst (dg_pending (pair_result index i st))) \<subseteq> set (dg_seen st)"
    "length (dg_seen st) = dg_paired (pair_result index i st) + length (dg_pending (pair_result index i st))"
    "dg_paired (pair_result index i st) + length (dg_unmatched (pair_result index i st)) =
       Suc (dg_paired st + length (dg_unmatched st))"
    by (auto simp: pair_result_def split: option.splits if_splits)
qed

lemma decode_message_run:
  assumes "decode_message codec st (index, v) = Inr t"
  obtains object role content st1 calls projected st2 where
    "project_content index (known_role role) (map_of object ''content'') (note_role index role st) =
       (content, st1)"
    "fold_res (decode_call codec index) ([], st1) (List.enumerate 0 calls) = Inr (projected, st2)"
    "t = push_message index role object content projected
       (if role = ''tool''
        then pair_result index (Option.bind (map_of object ''tool_call_id'') as_str) st2 else st2)"
proof -
  from assms obtain object role where run:
    "(case project_content index (known_role role) (map_of object ''content'') (note_role index role st) of
       (content, st) \<Rightarrow>
     and_then (message_calls index (map_of object ''tool_calls'')) (\<lambda>calls.
     and_then (fold_res (decode_call codec index) ([], st) (List.enumerate 0 calls)) (\<lambda>(projected, st).
     Inr (push_message index role object content projected
       (if role = ''tool''
        then pair_result index (Option.bind (map_of object ''tool_call_id'') as_str) st else st))))) = Inr t"
    unfolding decode_message_def prod.case and_then_Inr_iff by blast
  obtain content st1 where c:
    "project_content index (known_role role) (map_of object ''content'') (note_role index role st) =
       (content, st1)"
    by (cases "project_content index (known_role role) (map_of object ''content'') (note_role index role st)")
  with run show thesis by (auto intro: that [OF c] split del: if_split)
qed

lemma decode_message_account:
  assumes "decode_message codec st (index, v) = Inr t" "open_account 0 st"
    "index = length (dg_messages st)"
  shows "open_account 0 t" "\<exists>m. dg_messages t = dg_messages st @ [m]"
proof -
  from assms(1) obtain object role content st1 calls projected st2 where
    content: "project_content index (known_role role) (map_of object ''content'')
      (note_role index role st) = (content, st1)"
    and calls: "fold_res (decode_call codec index) ([], st1) (List.enumerate 0 calls) = Inr (projected, st2)"
    and t: "t = push_message index role object content projected
       (if role = ''tool''
        then pair_result index (Option.bind (map_of object ''tool_call_id'') as_str) st2 else st2)"
    by (rule decode_message_run)
  have same: "account st1 = account st"
    using account_content [of index "known_role role" "map_of object ''content''"] content
    by (metis account_role snd_conv)
  then have "open_account (length ([] :: json list)) st1" "dg_messages st1 = dg_messages st"
    using assms(2) same by (simp_all add: open_account_same [OF same]) (simp add: account_def)
  with decode_calls_account [OF calls] have st2: "open_account (length projected) st2"
    "dg_messages st2 = dg_messages st" by simp_all
  define w where "w = (if role = ''tool''
    then pair_result index (Option.bind (map_of object ''tool_call_id'') as_str) st2 else st2)"
  have "dg_messages w = dg_messages st" using st2 pair_result_account(1) [OF st2(1)] by (simp add: w_def)
  then obtain m where m: "im_source_index m = index" "im_role m = role" "im_tool_calls m = projected"
    and t': "t = w\<lparr>dg_messages := dg_messages st @ [m]\<rparr>"
    using t unfolding w_def [symmetric] push_message_def
    by (metis ImportMessage.select_convs(1,2,4))
  show "\<exists>m. dg_messages t = dg_messages st @ [m]" using t' by simp
  show "open_account 0 t"
  proof (cases "role = ''tool''")
    case True
    with st2 assms(3) m pair_result_account [OF st2(1)] show ?thesis
      by (simp add: t' w_def open_account_def)
  next
    case False
    with st2 assms(3) m show ?thesis by (simp add: t' w_def open_account_def)
  qed
qed

lemma decode_rows_account:
  assumes "fold_res (decode_message codec) st (List.enumerate n rows) = Inr t" "open_account 0 st"
    "n = length (dg_messages st)"
  shows "open_account 0 t \<and> (\<exists>ms. dg_messages t = dg_messages st @ ms \<and> length ms = length rows)"
  using assms
proof (induction rows arbitrary: st n)
  case (Cons row rows)
  from Cons.prems(1) obtain u where
    step: "decode_message codec st (n, row) = Inr u" and
    rest: "fold_res (decode_message codec) u (List.enumerate (Suc n) rows) = Inr t" by auto
  note one = decode_message_account [OF step Cons.prems(2,3)]
  from one(2) obtain m where m: "dg_messages u = dg_messages st @ [m]" ..
  with Cons.prems(3) have "Suc n = length (dg_messages u)" by simp
  from Cons.IH [OF rest one(1) this] m show ?case by auto
qed simp

lemma fold_res_append: "fold_res f acc (xs @ ys) = and_then (fold_res f acc xs) (\<lambda>acc. fold_res f acc ys)"
  by (induction xs arbitrary: acc) (simp_all add: and_then_assoc)

text \<open>What is decoded of a prefix of the rows is a prefix of what is decoded of all.\<close>

lemma decode_rows_prefix:
  assumes "decode_rows codec (xs @ ys) = Inr t"
  shows "\<exists>u ms. decode_rows codec xs = Inr u \<and> dg_messages t = dg_messages u @ ms \<and>
    length (dg_messages u) = length xs"
proof -
  have start: "open_account 0 no_messages" by (simp add: open_account_def no_messages_def)
  from assms obtain u where first: "fold_res (decode_message codec) no_messages (List.enumerate 0 xs) = Inr u"
    and rest: "fold_res (decode_message codec) u (List.enumerate (length xs) ys) = Inr t"
    by (auto simp: decode_rows_def enumerate_append_eq fold_res_append)
  from decode_rows_account [OF first start] have u: "open_account 0 u" "length (dg_messages u) = length xs"
    by (auto simp: no_messages_def)
  from decode_rows_account [OF rest u(1)] u(2) first show ?thesis by (auto simp: decode_rows_def)
qed

end
