(* ===== verification/Acquisition.thy ===== *)
theory Acquisition
  imports Decoding Windows
begin

text \<open>
  crates/ribosome-import/src/reader.rs: the tables of an import, the assembly of their rows into
  episodes and the report of what was taken, repeated or put aside.

  What lies outside is an argument: \<open>codec\<close> is serde_json, \<open>source\<close> reads the files, the compressed
  and the remote tables, and \<open>saved\<close> is what the output directory holds.
\<close>

section \<open>Data\<close>

record ByteRange =
  bra_offset :: nat
  bra_length :: nat
  bra_cache_file :: string

record SourceFile =
  srf_path :: string
  srf_size :: nat
  srf_ranges :: "ByteRange list"

record SourceLock =
  slk_version :: string
  slk_profile :: ImportProfile
  slk_source :: string
  slk_revision :: "string option"
  slk_snapshot_kind :: string
  slk_files :: "SourceFile list"
  slk_selected :: "string list"

record Episode =
  epi_id :: string
  epi_source_id :: string
  epi_task :: string
  epi_family :: string
  epi_acquired_ms :: string
  epi_decoded :: Decoded
  epi_metadata :: json
  epi_annotations :: json
  epi_raw :: json

record Quarantine =
  qrt_locator :: string
  qrt_reason :: string

record ImportReport =
  irp_profile :: string
  irp_episode_ids :: "string list"
  irp_quarantined :: "Quarantine list"
  irp_duplicate_rows :: nat
  irp_examined :: nat
  irp_limits :: Limits

section \<open>Tables\<close>

text \<open>One \<open>read_line\<close> through \<open>take(limit)\<close>: up to a line feed, the end or the limit.\<close>

fun take_line :: "nat \<Rightarrow> string \<Rightarrow> string" where
  "take_line 0 cs = []"
| "take_line (Suc n) [] = []"
| "take_line (Suc n) (c # cs) = (if c = CHR 0x0A then [c] else c # take_line n cs)"

lemma take_line_nonempty: "take_line (Suc n) cs = [] \<longleftrightarrow> cs = []"
  by (cases cs) auto

function lines_loop :: "Codec \<Rightarrow> Limits \<Rightarrow> json list \<Rightarrow> nat \<Rightarrow> string \<Rightarrow> json list res" where
  "lines_loop codec limits rows used stream =
     (let line = take_line (Suc (lim_row_bytes limits)) stream in
      if line = [] then Inr rows
      else if \<not> from_utf8 line then Inl (internal ''stream did not contain valid UTF-8'')
      else
        let used = used + length line in
        if lim_row_bytes limits < length line \<or> lim_download_bytes limits < used
        then Inl (invalid ''JSONL exceeds decoded byte limit'')
        else if blank line then lines_loop codec limits rows used (drop (length line) stream)
        else if length rows = lim_table_rows limits
        then Inl (invalid ''JSONL exceeds table row limit'')
        else and_then (cdc_parse codec line) (\<lambda>v.
          lines_loop codec limits (rows @ [v]) used (drop (length line) stream)))"
  by pat_completeness auto

termination
  by (relation "measure (\<lambda>(codec, limits, rows, used, stream). length stream)")
     (auto simp: take_line_nonempty)

definition read_rows :: "Codec \<Rightarrow> Limits \<Rightarrow> string \<Rightarrow> json list res" where
  "read_rows codec limits stream = lines_loop codec limits [] 0 stream"

text \<open>Reading files, decompressing them, and the Parquet reader of the remote feature.\<close>

record Source =
  sce_resolve :: "string \<Rightarrow> string"
  sce_size :: "string \<Rightarrow> nat res"
  sce_read :: "string \<Rightarrow> string res"
  sce_gunzip :: "string \<Rightarrow> string res"
  sce_parquet :: "string \<Rightarrow> nat \<Rightarrow> json list res"

definition pointed_rows :: "Codec \<Rightarrow> json \<Rightarrow> string option \<Rightarrow> json res" where
  "pointed_rows codec v pointer =
     (case pointer of
        None \<Rightarrow> Inr v
      | Some p \<Rightarrow> ok_or (cdc_pointer codec v p) (invalid ''rows_pointer is missing''))"

definition read_json_rows :: "Codec \<Rightarrow> Limits \<Rightarrow> string option \<Rightarrow> string \<Rightarrow> json list res" where
  "read_json_rows codec limits pointer content =
     and_then (cdc_parse codec content) (\<lambda>v.
     and_then (pointed_rows codec v pointer) (\<lambda>found.
     let rows = (case as_array found of Some rs \<Rightarrow> rs | None \<Rightarrow> [found]) in
     and_then (guard (length rows \<le> lim_table_rows limits) (invalid ''JSON table exceeds row limit''))
       (\<lambda>_. Inr rows)))"

definition read_local :: "Codec \<Rightarrow> Source \<Rightarrow> Limits \<Rightarrow> ImportTable \<Rightarrow> string \<Rightarrow> json list res" where
  "read_local codec source limits table path =
     and_then (sce_read source path) (\<lambda>content.
     if itb_encoding table = ''jsonl'' then read_rows codec limits content
     else if itb_encoding table = ''jsonl-gzip'' then and_then (sce_gunzip source content) (read_rows codec limits)
     else if itb_encoding table = ''json'' then read_json_rows codec limits (itb_rows_pointer table) content
     else if itb_encoding table = ''parquet'' then sce_parquet source content (lim_table_rows limits)
     else Inl (invalid ''unsupported table encoding''))"

text \<open>The copy of a source in the cache, and the entry of the lock that names it.\<close>

definition source_file :: "string \<Rightarrow> nat \<Rightarrow> nat \<Rightarrow> SourceFile" where
  "source_file path position bytes =
     \<lparr>srf_path = path, srf_size = bytes, srf_ranges =
        [\<lparr>bra_offset = 0, bra_length = bytes,
          bra_cache_file = ''cache/table-'' @ to_string position @ ''-local''\<rparr>]\<rparr>"

fun read_tables ::
    "Codec \<Rightarrow> Source \<Rightarrow> Limits \<Rightarrow> nat \<Rightarrow> SourceFile list \<Rightarrow> (string \<times> json list) list \<Rightarrow>
     ImportTable list \<Rightarrow> (SourceFile list \<times> (string \<times> json list) list) res" where
  "read_tables codec source limits used files tables [] = Inr (files, tables)"
| "read_tables codec source limits used files tables (t # ts) =
     (let path = sce_resolve source (case itb_path t of Some p \<Rightarrow> p | None \<Rightarrow> []) in
      and_then (sce_size source path) (\<lambda>len.
      and_then (guard (used + len \<le> lim_download_bytes limits)
        (invalid ''local sources exceed aggregate byte limit'')) (\<lambda>_.
      and_then (sce_read source path) (\<lambda>content.
      and_then (read_local codec source limits t path) (\<lambda>rows.
      read_tables codec source limits (used + len)
        (files @ [source_file path (length files) (length content)])
        (map_insert (itb_name t) rows tables) ts)))))"

section \<open>Assembly\<close>

fun json_member :: "json \<Rightarrow> string \<Rightarrow> json option" where
  "json_member (JObject m) k = map_of m k"
| "json_member _ k = None"

fun index_rows :: "Codec \<Rightarrow> Join \<Rightarrow> (string \<times> json) list \<Rightarrow> json list \<Rightarrow> (string \<times> json) list res" where
  "index_rows codec j index [] = Inr index"
| "index_rows codec j index (row # rows) =
     and_then (row_identifier codec row (jn_right j)) (\<lambda>key.
     if map_of index key \<noteq> None
     then Inl (invalid (''duplicate dimension key '' @ key @ '' in '' @ jn_table j))
     else index_rows codec j (map_insert key row index) rows)"

definition index_joins ::
    "Codec \<Rightarrow> (string \<times> json list) list \<Rightarrow> Join list \<Rightarrow> (string \<times> json) list list res" where
  "index_joins codec tables joins =
     map_res (\<lambda>j. and_then (ok_or (map_of tables (jn_table j)) (invalid ''missing join table''))
       (index_rows codec j [])) joins"

definition disagreeing :: "json \<Rightarrow> json \<Rightarrow> string \<Rightarrow> bool" where
  "disagreeing left right field \<longleftrightarrow>
     (case (json_member left field, json_member right field) of
        (Some a, Some b) \<Rightarrow> a \<noteq> JNull \<and> b \<noteq> JNull \<and> a \<noteq> b
      | _ \<Rightarrow> False)"

definition check_agreement :: "json \<Rightarrow> json \<Rightarrow> unit res" where
  "check_agreement left right =
     for_res (\<lambda>field. guard (\<not> disagreeing left right field)
         (invalid (''joined rows disagree on '' @ field)))
       [''trial_id'', ''task_id'', ''model'', ''repetition'']"

text \<open>
  The closure \<open>assembled\<close>: one join after the other. The keys a one-to-one join has used stay used when
  a later join fails, so they are returned in any case.
\<close>

fun join_row ::
    "Codec \<Rightarrow> json \<Rightarrow> (Join \<times> (string \<times> json) list) list \<Rightarrow> string list list \<Rightarrow> json_map \<Rightarrow>
     json_map res \<times> string list list" where
  "join_row codec row ((j, index) # joins) (used # rest) acc =
     (case row_identifier codec row (jn_left j) of
        Inl e \<Rightarrow> (Inl e, used # rest)
      | Inr key \<Rightarrow>
          if jn_cardinality j = ''one_to_one'' \<and> key \<in> set used
          then (Inl (invalid (''duplicate base key '' @ key @ '' for one_to_one join'')), used # rest)
          else
            let used = (if jn_cardinality j = ''one_to_one'' then key # used else used) in
            case and_then (ok_or (map_of index key)
                (invalid (''missing '' @ jn_table j @ '' join key '' @ key))) (\<lambda>right.
              and_then (check_agreement row right) (\<lambda>_. Inr right)) of
              Inl e \<Rightarrow> (Inl e, used # rest)
            | Inr right \<Rightarrow>
                (case join_row codec row joins rest (map_insert (jn_namespace j) right acc) of
                   (r, rest) \<Rightarrow> (r, used # rest)))"
| "join_row codec row _ used acc = (Inr acc, used)"

definition normalize :: "Codec \<Rightarrow> ImportProfile \<Rightarrow> Limits \<Rightarrow> nat \<Rightarrow> json \<Rightarrow> Episode res" where
  "normalize codec profile limits now raw =
     and_then (guard (cdc_bytes codec raw \<le> lim_row_bytes limits)
       (invalid ''assembled episode exceeds row byte limit'')) (\<lambda>_.
     and_then (row_identifier codec raw (epm_id (ipr_episode profile))) (\<lambda>source_id.
     and_then (row_identifier codec raw (epm_task (ipr_episode profile))) (\<lambda>task.
     and_then (case epm_family (ipr_episode profile) of
         None \<Rightarrow> Inr task | Some p \<Rightarrow> row_identifier codec raw p) (\<lambda>family.
     and_then (decode_trajectory codec raw (epm_decoder (ipr_episode profile)) limits) (\<lambda>decoded.
     Inr \<lparr>epi_id = [], epi_source_id = source_id, epi_task = task, epi_family = family,
          epi_acquired_ms = to_string now, epi_decoded = decoded,
          epi_metadata = project codec raw (ipr_metadata profile),
          epi_annotations = project codec raw (ipr_annotations profile), epi_raw = raw\<rparr>)))))"

section \<open>The rows of the base table\<close>

record acquisition =
  aq_report :: ImportReport
  aq_identities :: "(string \<times> json) list"
  aq_base :: "(string \<times> json) list"
  aq_used :: "string list list"
  aq_saved :: "(string \<times> Episode) list"
  aq_selected :: "string list"

text \<open>Everything of an episode but when it was acquired.\<close>

definition same_episode :: "Episode \<Rightarrow> Episode \<Rightarrow> bool" where
  "same_episode a b \<longleftrightarrow> a\<lparr>epi_acquired_ms := epi_acquired_ms b\<rparr> = b"

fun zeros :: "nat \<Rightarrow> string" where
  "zeros 0 = []"
| "zeros (Suc n) = CHR ''0'' # zeros n"

definition padded :: "nat \<Rightarrow> string" where
  "padded n = zeros (4 - length (to_string n)) @ to_string n"

definition examine :: "acquisition \<Rightarrow> acquisition" where
  "examine a = a\<lparr>aq_report := (aq_report a)\<lparr>irp_examined := irp_examined (aq_report a) + 1\<rparr>\<rparr>"

definition repeat_row :: "acquisition \<Rightarrow> acquisition" where
  "repeat_row a = a\<lparr>aq_report := (aq_report a)\<lparr>irp_duplicate_rows := irp_duplicate_rows (aq_report a) + 1\<rparr>\<rparr>"

definition set_aside :: "string \<Rightarrow> Error \<Rightarrow> acquisition \<Rightarrow> acquisition" where
  "set_aside locator e a = a\<lparr>aq_report := (aq_report a)\<lparr>irp_quarantined :=
     irp_quarantined (aq_report a) @ [\<lparr>qrt_locator = locator, qrt_reason = e_message e\<rparr>]\<rparr>\<rparr>"

definition select_episode :: "Episode \<Rightarrow> acquisition \<Rightarrow> acquisition" where
  "select_episode e a = a\<lparr>aq_selected := aq_selected a @ [epi_source_id e],
     aq_report := (aq_report a)\<lparr>irp_episode_ids := irp_episode_ids (aq_report a) @ [epi_id e]\<rparr>\<rparr>"

text \<open>The file of an episode is written once; a saved one must agree in everything but its time.\<close>

definition save_episode :: "Episode \<Rightarrow> acquisition \<Rightarrow> acquisition res" where
  "save_episode e a =
     (case map_of (aq_saved a) (epi_id e) of
        Some previous \<Rightarrow>
          if same_episode previous e then Inr (select_episode previous a)
          else Inl (conflict ''saved episode identity has different content'')
      | None \<Rightarrow> Inr (select_episode e (a\<lparr>aq_saved := (epi_id e, e) # aq_saved a\<rparr>)))"

definition take_episode :: "nat \<Rightarrow> Episode \<Rightarrow> acquisition \<Rightarrow> acquisition res" where
  "take_episode position e a =
     (let b = a\<lparr>aq_identities := (epi_source_id e, epi_raw e) # aq_identities a\<rparr> in
      case map_of (aq_identities a) (epi_source_id e) of
        Some previous \<Rightarrow>
          if previous \<noteq> epi_raw e then Inl (conflict ''same episode identity has different content'')
          else Inr (repeat_row b)
      | None \<Rightarrow> save_episode (e\<lparr>epi_id := ''episode-'' @ padded position\<rparr>) b)"

definition assemble_row ::
    "Codec \<Rightarrow> ImportProfile \<Rightarrow> Limits \<Rightarrow> nat \<Rightarrow> (string \<times> json) list list \<Rightarrow> json \<Rightarrow> acquisition \<Rightarrow>
     Episode res \<times> acquisition" where
  "assemble_row codec profile limits now indexes row a =
     (case join_row codec row (zip (asm_joins (ipr_assemble profile)) indexes) (aq_used a)
         [(asm_namespace (ipr_assemble profile), row)] of
        (assembled, used) \<Rightarrow>
          (and_then assembled (\<lambda>m. normalize codec profile limits now (JObject m)), a\<lparr>aq_used := used\<rparr>))"

text \<open>The identity a base row has by itself, where the profile's pointer reaches it.\<close>

definition base_identity :: "Codec \<Rightarrow> ImportProfile \<Rightarrow> json \<Rightarrow> string option" where
  "base_identity codec profile row =
     (case row_identifier codec (JObject [(asm_namespace (ipr_assemble profile), row)])
         (epm_id (ipr_episode profile)) of
        Inl _ \<Rightarrow> None | Inr i \<Rightarrow> Some i)"

definition identify :: "string option \<Rightarrow> json \<Rightarrow> acquisition \<Rightarrow> acquisition" where
  "identify i row a = (case i of None \<Rightarrow> a | Some i \<Rightarrow> a\<lparr>aq_base := (i, row) # aq_base a\<rparr>)"

definition acquire_row ::
    "Codec \<Rightarrow> ImportProfile \<Rightarrow> Limits \<Rightarrow> (nat \<Rightarrow> nat) \<Rightarrow> (string \<times> json) list list \<Rightarrow> acquisition \<Rightarrow>
     nat \<times> json \<Rightarrow> acquisition res" where
  "acquire_row codec profile limits clock indexes a numbered_row =
     (case numbered_row of (position, row) \<Rightarrow>
      let identity = base_identity codec profile row;
          previous = Option.bind identity (map_of (aq_base a));
          a = identify identity row (examine a)
      in if previous \<noteq> None
         then if previous \<noteq> Some row
           then Inl (conflict ''same base episode identity has different content'')
           else Inr (repeat_row a)
         else case assemble_row codec profile limits (clock position) indexes row a of
             (Inl e, a) \<Rightarrow> Inr (set_aside
               (asm_base (ipr_assemble profile) @ '':row:'' @ to_string position) e a)
           | (Inr e, a) \<Rightarrow> take_episode position e a)"

definition start_acquisition :: "ImportProfile \<Rightarrow> Limits \<Rightarrow> (string \<times> Episode) list \<Rightarrow> acquisition" where
  "start_acquisition profile limits saved =
     \<lparr>aq_report = \<lparr>irp_profile = ipr_id profile, irp_episode_ids = [], irp_quarantined = [],
        irp_duplicate_rows = 0, irp_examined = 0, irp_limits = limits\<rparr>,
      aq_identities = [], aq_base = [], aq_used = map (\<lambda>_. []) (asm_joins (ipr_assemble profile)),
      aq_saved = saved, aq_selected = []\<rparr>"

definition acquire_rows ::
    "Codec \<Rightarrow> ImportProfile \<Rightarrow> Limits \<Rightarrow> (nat \<Rightarrow> nat) \<Rightarrow> (string \<times> json) list list \<Rightarrow>
     (string \<times> Episode) list \<Rightarrow> json list \<Rightarrow> acquisition res" where
  "acquire_rows codec profile limits clock indexes saved rows =
     fold_res (acquire_row codec profile limits clock indexes) (start_acquisition profile limits saved)
       (List.enumerate 0 (take (lim_episodes limits) rows))"

section \<open>Preparation\<close>

definition valid_limits :: "Limits \<Rightarrow> unit res" where
  "valid_limits limits =
     guard (\<not> (lim_episodes limits = 0 \<or> 1000 < lim_episodes limits \<or>
         lim_table_rows limits < lim_episodes limits))
       (invalid ''episode limit must be 1..1000 and no greater than table_rows'')"

definition check_previous :: "ImportProfile \<Rightarrow> SourceLock option \<Rightarrow> unit res" where
  "check_previous profile previous =
     (case previous of
        None \<Rightarrow> Inr ()
      | Some lock \<Rightarrow>
          and_then (guard (slk_profile lock = profile)
            (conflict ''profile changed; use a new acquisition directory'')) (\<lambda>_.
          guard (\<not> (iin_kind (ipr_input profile) = ''huggingface'' \<and> slk_revision lock = None))
            (invalid ''saved HF lock has no revision'')))"

definition new_lock :: "ImportProfile \<Rightarrow> SourceLock option \<Rightarrow> SourceLock" where
  "new_lock profile previous =
     \<lparr>slk_version = ''1'', slk_profile = profile,
      slk_source = (case iin_dataset (ipr_input profile) of Some d \<Rightarrow> d | None \<Rightarrow> ipr_id profile),
      slk_revision = Option.bind previous slk_revision, slk_snapshot_kind = iin_mode (ipr_input profile),
      slk_files = [], slk_selected = []\<rparr>"

text \<open>The import of local tables. Pinned remote tables are read by the remote feature and not modelled.\<close>

definition prepare ::
    "Codec \<Rightarrow> Source \<Rightarrow> (nat \<Rightarrow> nat) \<Rightarrow> ImportProfile res \<Rightarrow> SourceLock option \<Rightarrow>
     (string \<times> Episode) list \<Rightarrow> Limits \<Rightarrow> (ImportReport \<times> SourceLock \<times> (string \<times> Episode) list) res" where
  "prepare codec source clock profile previous saved limits =
     and_then (valid_limits limits) (\<lambda>_.
     and_then profile (\<lambda>profile.
     and_then (check_profile profile) (\<lambda>_.
     and_then (check_previous profile previous) (\<lambda>_.
     and_then (if iin_kind (ipr_input profile) = ''local''
         then read_tables codec source limits 0 [] [] (iin_tables (ipr_input profile))
         else Inl (invalid ''HF acquisition requires the ribosome-import remote feature''))
       (\<lambda>(files, tables).
     and_then (ok_or (map_of tables (asm_base (ipr_assemble profile))) (invalid ''missing base table''))
       (\<lambda>base.
     and_then (index_joins codec
         (filter (\<lambda>(name, _). name \<noteq> asm_base (ipr_assemble profile)) tables)
         (asm_joins (ipr_assemble profile))) (\<lambda>indexes.
     and_then (acquire_rows codec profile limits clock indexes saved base) (\<lambda>a.
     Inr (aq_report a, (new_lock profile previous)\<lparr>slk_files := files, slk_selected := aq_selected a\<rparr>,
          aq_saved a)))))))))"

section \<open>The account of the rows\<close>

text \<open>Every row examined is an episode, a repetition or in quarantine, and no source episode is taken twice.\<close>

definition accounted :: "nat \<Rightarrow> acquisition \<Rightarrow> bool" where
  "accounted n a \<longleftrightarrow>
     irp_examined (aq_report a) = n \<and>
     length (irp_episode_ids (aq_report a)) + length (irp_quarantined (aq_report a)) +
       irp_duplicate_rows (aq_report a) = n \<and>
     length (aq_selected a) = length (irp_episode_ids (aq_report a)) \<and>
     distinct (aq_selected a) \<and> set (aq_selected a) \<subseteq> dom (map_of (aq_identities a))"

lemma accounted_used [simp]:
  "accounted n (a\<lparr>aq_used := u\<rparr>) = accounted n a" "accounted n (a\<lparr>aq_base := i\<rparr>) = accounted n a"
  by (simp_all add: accounted_def)

lemma same_episode_source: "same_episode previous e \<Longrightarrow> epi_source_id previous = epi_source_id e"
  unfolding same_episode_def by (drule arg_cong [where f = epi_source_id]) simp

text \<open>An episode is saved, and the one selected is the one saved, whenever that was.\<close>

lemma save_episode_run:
  assumes "save_episode e a = Inr b"
  obtains previous f where "same_episode previous e" "map_of f (epi_id e) = Some previous"
    "map_of (aq_saved a) \<subseteq>\<^sub>m map_of f" "b = select_episode previous (a\<lparr>aq_saved := f\<rparr>)"
proof (cases "map_of (aq_saved a) (epi_id e)")
  case None
  with assms show thesis
    by (intro that [of e "(epi_id e, e) # aq_saved a"]) (auto simp: save_episode_def same_episode_def map_le_def)
next
  case (Some previous)
  with assms show thesis
    by (intro that [of previous "aq_saved a"]) (auto simp: save_episode_def split: if_splits)
qed

lemma save_episode_accounted:
  assumes "save_episode e a = Inr b" "epi_source_id e \<notin> set (aq_selected a)"
    and "set (aq_selected a) \<subseteq> dom (map_of (aq_identities a))" "epi_source_id e \<in> dom (map_of (aq_identities a))"
    and "distinct (aq_selected a)" "length (aq_selected a) = length (irp_episode_ids (aq_report a))"
    and "length (irp_episode_ids (aq_report a)) + length (irp_quarantined (aq_report a)) +
      irp_duplicate_rows (aq_report a) = n" "irp_examined (aq_report a) = Suc n"
  shows "accounted (Suc n) b"
  using assms(1)
proof (cases rule: save_episode_run)
  case (1 previous f)
  from 1(1) have "epi_source_id previous = epi_source_id e" by (rule same_episode_source)
  with 1(4) assms(2-) show ?thesis by (simp add: accounted_def select_episode_def)
qed

lemma take_episode_accounted:
  assumes "take_episode position e (examine a) = Inr b" "accounted n a"
  shows "accounted (Suc n) b"
proof (cases "map_of (aq_identities a) (epi_source_id e)")
  case None
  let ?a = "(examine a)\<lparr>aq_identities := (epi_source_id e, epi_raw e) # aq_identities a\<rparr>"
  from None assms(2) have fresh: "epi_source_id e \<notin> set (aq_selected a)"
    by (auto simp: accounted_def)
  from None assms(1) have "save_episode (e\<lparr>epi_id := ''episode-'' @ padded position\<rparr>) ?a = Inr b"
    by (simp add: take_episode_def Let_def examine_def)
  then show ?thesis
    by (rule save_episode_accounted) (use assms(2) fresh in \<open>auto simp: accounted_def examine_def\<close>)
next
  case (Some raw)
  with assms show ?thesis
    by (auto simp: take_episode_def Let_def examine_def repeat_row_def accounted_def split: if_splits)
qed

lemma assemble_row_state:
  assumes "assemble_row codec profile limits now indexes row a = (r, b)"
  obtains u where "b = a\<lparr>aq_used := u\<rparr>"
  using assms by (auto simp: assemble_row_def split: prod.splits)

lemma accounted_identify [simp]: "accounted n (identify i row a) = accounted n a"
  by (simp add: identify_def split: option.splits)

lemma identify_examine: "identify i row (examine a) = examine (identify i row a)"
  by (simp add: identify_def examine_def split: option.splits)

lemma used_examine: "(examine a)\<lparr>aq_used := u\<rparr> = examine (a\<lparr>aq_used := u\<rparr>)"
  by (simp add: examine_def)

lemma acquire_row_cases:
  assumes "acquire_row codec profile limits clock indexes a (position, row) = Inr b"
  obtains
    (again) "b = repeat_row (examine (identify (base_identity codec profile row) row a))"
  | (aside) e u where
      "b = set_aside (asm_base (ipr_assemble profile) @ '':row:'' @ to_string position) e
         (examine ((identify (base_identity codec profile row) row a)\<lparr>aq_used := u\<rparr>))"
  | (taken) e u where
      "take_episode position e
         (examine ((identify (base_identity codec profile row) row a)\<lparr>aq_used := u\<rparr>)) = Inr b"
proof -
  let ?a = "identify (base_identity codec profile row) row a"
  let ?previous = "Option.bind (base_identity codec profile row) (map_of (aq_base a))"
  have start: "acquire_row codec profile limits clock indexes a (position, row) =
      (if ?previous \<noteq> None
       then if ?previous \<noteq> Some row
         then Inl (conflict ''same base episode identity has different content'')
         else Inr (repeat_row (examine ?a))
       else case assemble_row codec profile limits (clock position) indexes row (examine ?a) of
           (Inl e, a) \<Rightarrow> Inr (set_aside
             (asm_base (ipr_assemble profile) @ '':row:'' @ to_string position) e a)
         | (Inr e, a) \<Rightarrow> take_episode position e a)"
    by (simp add: acquire_row_def Let_def identify_examine)
  show thesis
  proof (cases "?previous = None")
    case False
    with assms start show thesis by (auto intro: again split: if_splits)
  next
    case True
    obtain r c where run: "assemble_row codec profile limits (clock position) indexes row (examine ?a) = (r, c)"
      by fastforce
    from run obtain u where c: "c = examine (?a\<lparr>aq_used := u\<rparr>)"
      by (rule assemble_row_state) (simp add: used_examine)
    from assms start True run c show thesis
      by (cases r) (auto intro: aside taken)
  qed
qed

lemma acquire_row_accounted:
  assumes "acquire_row codec profile limits clock indexes a (position, row) = Inr b" "accounted n a"
  shows "accounted (Suc n) b"
  using assms(1)
proof (cases rule: acquire_row_cases)
  case again
  then show ?thesis using assms(2)
    by (simp add: accounted_def repeat_row_def examine_def identify_def split: option.splits)
next
  case (aside e u)
  then show ?thesis using assms(2)
    by (simp add: accounted_def set_aside_def examine_def identify_def split: option.splits)
next
  case (taken e u)
  then show ?thesis by (rule take_episode_accounted) (simp add: assms(2))
qed

lemma acquire_fold_accounted:
  assumes "fold_res (acquire_row codec profile limits clock indexes) a xs = Inr b" "accounted n a"
  shows "accounted (n + length xs) b"
  using assms
proof (induction xs arbitrary: a n)
  case Nil
  then show ?case by simp
next
  case (Cons x xs)
  then obtain c where "acquire_row codec profile limits clock indexes a x = Inr c"
      "fold_res (acquire_row codec profile limits clock indexes) c xs = Inr b" by auto
  with Cons show ?case
    by (cases x) (fastforce dest: acquire_row_accounted)
qed

lemma acquire_rows_accounted:
  assumes "acquire_rows codec profile limits clock indexes saved rows = Inr a"
  shows "accounted (min (length rows) (lim_episodes limits)) a"
  using acquire_fold_accounted [OF assms [unfolded acquire_rows_def], of 0]
  by (simp add: accounted_def start_acquisition_def min.commute)

section \<open>Preparing again\<close>

text \<open>The same rows, acquired again at any later time over the episodes saved before.\<close>

lemma normalize_time:
  "normalize codec profile limits later raw =
     map_sum id (epi_acquired_ms_update (\<lambda>_. to_string later)) (normalize codec profile limits now raw)"
  by (simp add: normalize_def and_then_def guard_def split: sum.splits option.splits)

lemma assemble_row_time:
  "assemble_row codec profile limits later indexes row (a\<lparr>aq_saved := f\<rparr>) =
     map_prod (map_sum id (epi_acquired_ms_update (\<lambda>_. to_string later))) (aq_saved_update (\<lambda>_. f))
       (assemble_row codec profile limits now indexes row a)"
  by (auto simp: assemble_row_def normalize_time [where later = later and now = now] and_then_def
      split: prod.splits sum.splits)

lemma same_episode_time [simp]:
  "same_episode previous (e\<lparr>epi_acquired_ms := t, epi_id := i\<rparr>) = same_episode previous (e\<lparr>epi_id := i\<rparr>)"
  "same_episode previous (epi_acquired_ms_update (\<lambda>_. t) e) = same_episode previous e"
  by (cases previous, cases e, simp add: same_episode_def; auto)+

lemma same_episode_refl [simp]: "same_episode e e"
  by (simp add: same_episode_def)

lemma take_episode_again:
  assumes "take_episode position e a = Inr b" "map_of (aq_saved b) \<subseteq>\<^sub>m map_of f"
  shows "take_episode position (epi_acquired_ms_update (\<lambda>_. t) e) (a\<lparr>aq_saved := f\<rparr>) =
    Inr (b\<lparr>aq_saved := f\<rparr>)"
proof (cases "map_of (aq_identities a) (epi_source_id e)")
  case (Some raw)
  with assms show ?thesis
    by (auto simp: take_episode_def Let_def repeat_row_def split: if_splits)
next
  case None
  let ?e = "e\<lparr>epi_id := ''episode-'' @ padded position\<rparr>"
  let ?a = "a\<lparr>aq_identities := (epi_source_id e, epi_raw e) # aq_identities a\<rparr>"
  from None assms(1) have "save_episode ?e ?a = Inr b" by (simp add: take_episode_def Let_def)
  then obtain previous g where same: "same_episode previous ?e" and kept: "map_of g (epi_id ?e) = Some previous"
      and b: "b = select_episode previous (?a\<lparr>aq_saved := g\<rparr>)"
    by (rule save_episode_run)
  from b have "aq_saved b = g" by (simp add: select_episode_def)
  with kept assms(2) have found: "map_of f (epi_id ?e) = Some previous"
    by (auto simp: map_le_def dom_def)
  with None same show ?thesis
    by (simp add: take_episode_def Let_def save_episode_def)
      (simp add: b select_episode_def)
qed

lemma take_episode_grows:
  "take_episode position e a = Inr b \<Longrightarrow> map_of (aq_saved a) \<subseteq>\<^sub>m map_of (aq_saved b)"
  by (auto simp: take_episode_def Let_def save_episode_def select_episode_def repeat_row_def map_le_def
      split: option.splits if_splits)

lemma acquire_row_grows:
  assumes "acquire_row codec profile limits clock indexes a (position, row) = Inr b"
  shows "map_of (aq_saved a) \<subseteq>\<^sub>m map_of (aq_saved b)"
  using assms
proof (cases rule: acquire_row_cases)
  case again
  then show ?thesis by (simp add: repeat_row_def examine_def identify_def split: option.splits)
next
  case (aside e u)
  then show ?thesis by (simp add: set_aside_def examine_def identify_def split: option.splits)
next
  case (taken e u)
  then show ?thesis
    by (rule take_episode_grows [THEN map_le_trans [rotated]])
      (simp add: examine_def identify_def split: option.splits)
qed

lemma acquire_fold_grows:
  assumes "fold_res (acquire_row codec profile limits clock indexes) a xs = Inr b"
  shows "map_of (aq_saved a) \<subseteq>\<^sub>m map_of (aq_saved b)"
  using assms
proof (induction xs arbitrary: a)
  case (Cons x xs)
  then show ?case
    by (cases x) (fastforce dest: acquire_row_grows intro: map_le_trans)
qed simp

lemma saved_commutes:
  "repeat_row (a\<lparr>aq_saved := f\<rparr>) = (repeat_row a)\<lparr>aq_saved := f\<rparr>"
  "set_aside l e (a\<lparr>aq_saved := f\<rparr>) = (set_aside l e a)\<lparr>aq_saved := f\<rparr>"
  "examine (a\<lparr>aq_saved := f\<rparr>) = (examine a)\<lparr>aq_saved := f\<rparr>"
  "(a\<lparr>aq_saved := f\<rparr>)\<lparr>aq_base := g\<rparr> = (a\<lparr>aq_base := g\<rparr>)\<lparr>aq_saved := f\<rparr>"
  by (simp_all add: repeat_row_def set_aside_def examine_def)

lemma acquire_row_again:
  assumes "acquire_row codec profile limits clock indexes a x = Inr b"
    and "map_of (aq_saved b) \<subseteq>\<^sub>m map_of f"
  shows "acquire_row codec profile limits later indexes (a\<lparr>aq_saved := f\<rparr>) x = Inr (b\<lparr>aq_saved := f\<rparr>)"
proof -
  obtain position row where x: "x = (position, row)" by fastforce
  let ?i = "base_identity codec profile row"
  let ?a = "identify ?i row (examine a)"
  have shift: "identify ?i row (examine (a\<lparr>aq_saved := f\<rparr>)) = ?a\<lparr>aq_saved := f\<rparr>"
    by (simp add: saved_commutes identify_def split: option.splits)
  have base: "aq_base (a\<lparr>aq_saved := f\<rparr>) = aq_base a" by simp
  obtain r c where run: "assemble_row codec profile limits (clock position) indexes row ?a = (r, c)"
    by fastforce
  have again: "assemble_row codec profile limits (later position) indexes row (?a\<lparr>aq_saved := f\<rparr>) =
      (map_sum id (epi_acquired_ms_update (\<lambda>_. to_string (later position))) r, c\<lparr>aq_saved := f\<rparr>)"
    by (simp add: assemble_row_time [where now = "clock position"] run)
  show ?thesis
    using assms unfolding x acquire_row_def Let_def prod.case shift base again run
    by (cases r) (auto simp: saved_commutes take_episode_again split: if_splits)
qed

lemma acquire_fold_again:
  assumes "fold_res (acquire_row codec profile limits clock indexes) a xs = Inr b"
    and "map_of (aq_saved b) \<subseteq>\<^sub>m map_of f"
  shows "fold_res (acquire_row codec profile limits later indexes) (a\<lparr>aq_saved := f\<rparr>) xs =
    Inr (b\<lparr>aq_saved := f\<rparr>)"
  using assms
proof (induction xs arbitrary: a)
  case (Cons x xs)
  then obtain c where first: "acquire_row codec profile limits clock indexes a x = Inr c"
      and rest: "fold_res (acquire_row codec profile limits clock indexes) c xs = Inr b" by auto
  have "map_of (aq_saved c) \<subseteq>\<^sub>m map_of f"
    using acquire_fold_grows [OF rest] Cons.prems(2) by (rule map_le_trans)
  then show ?case
    using acquire_row_again [OF first] Cons.IH [OF rest Cons.prems(2)] by simp
qed simp

lemma acquire_rows_again:
  assumes "acquire_rows codec profile limits clock indexes saved rows = Inr a"
  shows "acquire_rows codec profile limits later indexes (aq_saved a) rows = Inr a"
proof -
  have "start_acquisition profile limits (aq_saved a) =
      (start_acquisition profile limits saved)\<lparr>aq_saved := aq_saved a\<rparr>"
    by (simp add: start_acquisition_def)
  then show ?thesis
    using acquire_fold_again [OF assms [unfolded acquire_rows_def], of "aq_saved a" later]
    by (simp add: acquire_rows_def)
qed

end
