(* ===== verification/ImportProperties.thy ===== *)
theory ImportProperties
  imports Acquisition
begin

text \<open>The promises of an import: a preparation can be repeated, and the coverage of a trajectory is its account.\<close>

section \<open>Repeated preparation\<close>



text \<open>A local import of two trials with their scores, the first of which appears twice.\<close>

fun pointer_tokens :: "string \<Rightarrow> string \<Rightarrow> string list" where
  "pointer_tokens token [] = [token]"
| "pointer_tokens token (c # cs) =
     (if c = CHR ''/'' then token # pointer_tokens [] cs else pointer_tokens (token @ [c]) cs)"

definition member_of :: "json option \<Rightarrow> string \<Rightarrow> json option" where
  "member_of v k = (case v of Some (JObject m) \<Rightarrow> map_of m k | _ \<Rightarrow> None)"

definition demo_pointer :: "json \<Rightarrow> string \<Rightarrow> json option" where
  "demo_pointer v p = foldl member_of (Some v) (tl (pointer_tokens [] p))"

definition trial :: "string \<Rightarrow> json" where
  "trial i = JObject [(''id'', JString i), (''messages'', JArray
     [JObject [(''content'', JString ''go''), (''role'', JString ''user'')],
      JObject [(''role'', JString ''assistant''), (''tool_calls'', JArray [JObject [(''id'', JString ''c1'')]])],
      JObject [(''content'', JString ''ok''), (''role'', JString ''tool''), (''tool_call_id'', JString ''c1'')]])]"

definition demo_codec :: Codec where
  "demo_codec = \<lparr>cdc_parse = (\<lambda>s.
       if take 1 s = ''t'' then Inr (trial (take 2 s))
       else if take 1 s = ''s'' then Inr (JObject [(''score'', JNumber ''1''), (''trial'', JString ''t1'')])
       else Inl (invalid ''expected value'')),
     cdc_pointer = demo_pointer, cdc_bytes = (\<lambda>_. 9)\<rparr>"


definition demo_decoder :: Decoder where
  "demo_decoder = \<lparr>dc_name = ''openai-chat-v1'', dc_field = ''/trial/messages'',
     dc_value_encoding = ''array'', dc_fallback = None\<rparr>"




definition demo_limits :: Limits where
  "demo_limits = \<lparr>lim_episodes = 3, lim_row_bytes = 9, lim_messages = 4, lim_table_rows = 4,
     lim_download_bytes = 20\<rparr>"




section \<open>Coverage\<close>

text \<open>
  C40: The coverage of a decoded trajectory is its account: a tool call is paired or pending, a tool
  result is paired or unmatched, and messages are numbered in order. What is decoded never depends on
  what follows: the messages of a prefix of the rows are a prefix of the messages of all of them.
\<close>

theorem coverage_is_the_account:
  assumes "decode_trajectory codec row decoder limits = Inr d"
  shows "cov_tool_calls (dcd_coverage d) =
      cov_paired_results (dcd_coverage d) + length (cov_pending_calls (dcd_coverage d)) \<and>
    cov_tool_calls (dcd_coverage d) = sum_list (map (\<lambda>m. length (im_tool_calls m)) (dcd_messages d)) \<and>
    cov_paired_results (dcd_coverage d) + length (cov_unmatched_results (dcd_coverage d)) =
      length (filter (\<lambda>m. im_role m = ''tool'') (dcd_messages d)) \<and>
    map im_source_index (dcd_messages d) = [0..<cov_messages (dcd_coverage d)] \<and>
    (\<exists>rows name reason. trajectory_rows codec row decoder = Inr (rows, name, reason) \<and>
      cov_messages (dcd_coverage d) = length rows \<and>
      (\<forall>n. \<exists>u ms. decode_rows codec (take n rows) = Inr u \<and> dcd_messages d = dg_messages u @ ms \<and>
        length (dg_messages u) = min n (length rows)))"
proof -
  from assms obtain rows name reason st where
    rows: "trajectory_rows codec row decoder = Inr (rows, name, reason)" and
    st: "decode_rows codec rows = Inr st" and
    d: "dcd_messages d = dg_messages st" "dcd_coverage d = coverage_of st"
    by (auto simp: decode_trajectory_def)
  have start: "open_account 0 no_messages" by (simp add: open_account_def no_messages_def)
  from decode_rows_account [OF st [unfolded decode_rows_def] start]
  have account: "open_account 0 st" and len: "length (dg_messages st) = length rows"
    by (auto simp: no_messages_def)
  have prefix: "\<exists>u ms. decode_rows codec (take n rows) = Inr u \<and> dg_messages st = dg_messages u @ ms \<and>
      length (dg_messages u) = min n (length rows)" for n
    using decode_rows_prefix [of codec "take n rows" "drop n rows" st] st by (simp add: min.commute)
  show ?thesis
    using account rows len prefix unfolding open_account_def d coverage_of_def by auto
qed

theorem coverage_is_the_account_witness:
  "\<exists>d. decode_trajectory demo_codec (JObject [(''trial'', trial ''t1'')]) demo_decoder demo_limits = Inr d \<and>
     cov_tool_calls (dcd_coverage d) = 1 \<and>
     cov_tool_calls (dcd_coverage d) =
       cov_paired_results (dcd_coverage d) + length (cov_pending_calls (dcd_coverage d))"
proof -
  have "map_sum id (\<lambda>d. cov_tool_calls (dcd_coverage d))
      (decode_trajectory demo_codec (JObject [(''trial'', trial ''t1'')]) demo_decoder demo_limits) = Inr 1"
    by code_simp
  then obtain d where
    "decode_trajectory demo_codec (JObject [(''trial'', trial ''t1'')]) demo_decoder demo_limits = Inr d"
    "cov_tool_calls (dcd_coverage d) = 1"
    by (cases "decode_trajectory demo_codec (JObject [(''trial'', trial ''t1'')]) demo_decoder demo_limits") auto
  with coverage_is_the_account [OF this(1)] show ?thesis by blast
qed

end
