(* ===== verification/Spec2Isabelle.thy ===== *)
theory Spec2Isabelle
  imports BudgetProperties SourceProperties EvidenceProperties WorkProperties FailureProperties
    InteractionProperties ContentProperties HostProperties MotifProperties ImportProperties
begin

text \<open>
  The Ribosome substrate, crates/ribosome-core and the local import of crates/ribosome-import.

  A host process owns a SQLite store and runs workers (language-model agents) for an owner. Each run
  acts under a grant: a budget, the artifact paths, tools and effects it may use and the data splits it
  may see. What runs do is recorded as evidence; what they derive from it, memories, discoveries,
  exports, carries its sources, so that withdrawing a source withdraws everything that came from it.

  \<^bold>\<open>Parts and theories\<close>

  \<^item> Prelude, Contracts, Validation, Database: errors and operations, the structs of contracts.rs, the
    counters and request contracts of validation.rs and schema.json, and the tables of store.rs and
    store.sql with transactions, clock and UUIDs.
  \<^item> Grants, Corpus, Authority: what a run may do (store.rs, discovery_corpus.rs, runs.rs).
  \<^item> Allocations, Accounting: the tree of budget allocations and provider-call permits
    (allocations.rs, accounting.rs).
  \<^item> Sources, Lineage, Retention, Cleanup: source edges, authorization by ancestry, and the resumable
    retention pass (sources.rs, source_cleanup.rs and the redactions it calls).
  \<^item> Records, Motifs, Invocation: versioned records, their submission with the checks of motifs,
    discoveries and transplants, corpora and prepared implementations (records.rs, motif_records.rs,
    discovery_corpus.rs, invocation.rs).
  \<^item> Evidence, External, Exports: the event log and dependency invalidation, published episodes, and
    training exports (evidence.rs, external_evidence.rs, exports.rs).
  \<^item> ContextStore, ContextLog, Compaction, Windows, ToolResults, Artifacts: the retained context of a
    run, its summaries, and tool results read by windows of text (context.rs, continuation.rs,
    compaction.rs, tool_results.rs, artifact_context.rs, export_files.rs).
  \<^item> Runs, Work, Parking, Communication, Subscriptions, Attachments, Feedback: the life of a run, the
    queue of follow-up work and its leases, waiting for children, messages, event routing and
    attachments to executions outside (the files of the same names, attachments/).
  \<^item> EffectLog, Finalization, Effects, Execution, PropertyValidation, Settlement: actions on the world
    as durable effects, from intent to settlement (effects.rs and effect_*.rs).
  \<^item> Rpc: frames, and the gates every worker call passes before its handler (rpc.rs).
  \<^item> Host: the adapter the effects ask, over an explicit file system (host.rs). The store's model takes
    an adapter as a parameter; this is the code's own.
  \<^item> Decoding, Acquisition: import profiles, decoding of trajectories, preparation of an import.

  The state is \<open>World\<close>: the tables (\<open>Db\<close>, one list of rows for each), whether a transaction is open,
  and the parameters of the environment. An operation is a function from the world to its result and
  the world it leaves; \<open>transaction\<close> undoes the tables of a failed one. Components call one another as
  the code does, through these operations.

  \<^bold>\<open>What is shown\<close>

  Steps collects the operations into one relation, \<open>system_step\<close>, of any operation with any arguments,
  restarts included. System states as locales what an invariant has to satisfy for every step to keep
  it; AllocationTree, Ledger, WorkQueue, CopyHistory and History interpret them. From there:

  \<^item> BudgetProperties: ceilings hold over whole subtrees, permits only move forward, calls are charged
    once, and the recursive queries compute the subtree they mean.
  \<^item> SourceProperties: authorization covers the whole lineage, withdrawal is final, stale writers lose.
  \<^item> EvidenceProperties: the log only grows, ingestion is idempotent, invalidation is the transitive
    closure.
  \<^item> WorkProperties: queue invariants, leases, termination of the claim loop and what an empty claim
    means, finality of closed work, permanence of grants.
  \<^item> InteractionProperties: effects move forward and are dispatched once, bounded delivery of messages,
    append-only contexts.
  \<^item> ContentProperties: frames and windows of text, the gates of worker calls, exports, parked runs.
  \<^item> FailureProperties: failed operations change no table; counters and split levels.
  \<^item> HostProperties, MotifProperties, ImportProperties: edits are compare and swap, submissions are
    versioned and discoveries rest on what was read, imports are repeatable and fully accounted.

  Each property that has a hypothesis is applied to a concrete store of Scenario.

  \<^bold>\<open>Bounds and fuel\<close>

  The claim loop has one round for each item and one more, which \<open>claim_loop_returns\<close> proves enough.
  A lineage visits at most 1000 sources and an export reviews at most 1000, the code's own bounds. The
  subtree queries descend one level for each stored allocation. A retention pass does 100 operations a
  job. \<open>execute\<close> recurses on fuel 2, and \<open>execute_eq\<close> is the code's recursive equation. Paths follow 40
  symbolic links, as Linux does. Machine integers are natural numbers with the wrap-around or the range
  check of the code written out.

  \<^bold>\<open>Parameters\<close>

  The clock, UUIDs, SHA-256, the JSON codec with its sizes, serde decodings of record bodies, the host
  adapter and the file system of the retention pass are fields of the world or arguments. Strings are
  lists of bytes, compared as SQLite and \<open>BTreeMap\<close> do. JSON objects are member lists in key order.
  What a failed import leaves in its output directory is not described.

  \<^bold>\<open>Not modelled\<close>

  \<^item> experiments.rs, study_report.rs, agent_evaluator.rs: studies with floating-point statistics, driven
    by an external evaluator process.
  \<^item> search.rs, inventory.rs, timing.rs: ranking by SQLite FTS5, archives and measurements.
  \<^item> supervisor.rs, process.rs: child processes, pipes, threads and signals.
  \<^item> remote.rs and study.rs of the import, the command lines, and the TypeScript packages.
  \<^item> Schema migrations and the opening of store files.
  \<^item> The validation of results against their output contracts, which cannot change what a handler did.
\<close>

end
